(* ===== verification/Hub_Prelude.thy ===== *)
theory Hub_Prelude
  imports Main "HOL-Library.Word" "HOL-Library.Char_ord" "HOL-Library.List_Lexorder"
begin

text \<open>
  Shared vocabulary of the development.

  \<^item> Result values: \<open>'a res\<close> is Rust's \<open>anyhow::Result\<close>, a sum whose left side is the
    error message.
  \<^item> Rust strings: a \<open>str\<close> is the list of its Unicode scalar values; the \<open>char\<close> type
    of HOL covers U+0000 to U+00FF, so the text functions below (\<open>trim\<close>, \<open>split_once\<close>,
    \<open>find\<close>, \<open>lines\<close>, the \<open>is_*\<close> classes) are those of the Rust standard library on
    that range, and \<open>utf8_len\<close> is \<open>str::len\<close>, the length in bytes.
  \<^item> SQL statements over a table kept as the list of its rows in rowid order:
    \<open>SELECT ... WHERE\<close> is \<open>filter\<close> or \<open>find\<close>, \<open>UPDATE\<close> is \<open>tbl_update\<close>, \<open>DELETE\<close> is
    \<open>tbl_delete\<close>.
  \<^item> The contracts several components share, as locales: one-time credentials, stores
    with eviction and a capacity, ownership-scoped deletion, and step relations with an
    invariant.
\<close>

named_theorems text_simps \<open>evaluation rules of the Rust text functions\<close>
named_theorems tbl_simps \<open>facts on SQL statements over row lists\<close>

type_synonym 'a res = "string + 'a"
type_synonym 'a table = "'a list"

text \<open>The question mark operator.\<close>

definition rbind :: "'a res \<Rightarrow> ('a \<Rightarrow> 'b res) \<Rightarrow> 'b res" where
  "rbind r f = (case r of Inl e \<Rightarrow> Inl e | Inr x \<Rightarrow> f x)"

lemma rbind_simps [simp]: "rbind (Inl e) f = Inl e" "rbind (Inr x) f = f x"
  by (simp_all add: rbind_def)

lemma rbind_Inr: "rbind r f = Inr y \<longleftrightarrow> (\<exists>x. r = Inr x \<and> f x = Inr y)"
  by (cases r) auto

section \<open>Character classes and text functions of the Rust standard library\<close>

abbreviation code :: "char \<Rightarrow> nat" where
  "code c \<equiv> of_char c"

definition is_ascii :: "char \<Rightarrow> bool" where
  [text_simps]: "is_ascii c = (code c < 128)"

definition is_ascii_lowercase :: "char \<Rightarrow> bool" where
  [text_simps]: "is_ascii_lowercase c = (97 \<le> code c \<and> code c \<le> 122)"

definition is_ascii_uppercase :: "char \<Rightarrow> bool" where
  [text_simps]: "is_ascii_uppercase c = (65 \<le> code c \<and> code c \<le> 90)"

definition is_ascii_digit :: "char \<Rightarrow> bool" where
  [text_simps]: "is_ascii_digit c = (48 \<le> code c \<and> code c \<le> 57)"

definition is_ascii_alphabetic :: "char \<Rightarrow> bool" where
  [text_simps]: "is_ascii_alphabetic c = (is_ascii_lowercase c \<or> is_ascii_uppercase c)"

definition is_ascii_alphanumeric :: "char \<Rightarrow> bool" where
  [text_simps]: "is_ascii_alphanumeric c = (is_ascii_alphabetic c \<or> is_ascii_digit c)"

definition is_whitespace :: "char \<Rightarrow> bool" where
  [text_simps]: "is_whitespace c =
     ((9 \<le> code c \<and> code c \<le> 13) \<or> code c = 32 \<or> code c = 133 \<or> code c = 160)"

definition is_control :: "char \<Rightarrow> bool" where
  [text_simps]: "is_control c = (code c < 32 \<or> (127 \<le> code c \<and> code c \<le> 159))"

definition utf8_len :: "string \<Rightarrow> nat" where
  "utf8_len s = sum_list (map (\<lambda>c. if is_ascii c then 1 else 2) s)"

definition trim_start :: "string \<Rightarrow> string" where
  [text_simps]: "trim_start s = dropWhile is_whitespace s"

definition trim_end :: "string \<Rightarrow> string" where
  [text_simps]: "trim_end s = rev (dropWhile is_whitespace (rev s))"

definition trim :: "string \<Rightarrow> string" where
  [text_simps]: "trim s = trim_end (trim_start s)"

text \<open>\<open>str::trim_end_matches\<close> and \<open>str::trim_start_matches\<close> with a character pattern.\<close>

definition trim_end_matches :: "char \<Rightarrow> string \<Rightarrow> string" where
  [text_simps]: "trim_end_matches c s = rev (dropWhile (\<lambda>x. x = c) (rev s))"

definition trim_start_matches :: "char \<Rightarrow> string \<Rightarrow> string" where
  [text_simps]: "trim_start_matches c s = dropWhile (\<lambda>x. x = c) s"

definition starts_with :: "string \<Rightarrow> string \<Rightarrow> bool" where
  [text_simps]: "starts_with s p = (take (length p) s = p)"

definition strip_prefix :: "string \<Rightarrow> string \<Rightarrow> string option" where
  [text_simps]: "strip_prefix s p = (if starts_with s p then Some (drop (length p) s) else None)"

text \<open>\<open>str::find\<close> with a string pattern: the position of the first occurrence.\<close>

fun find_sub :: "string \<Rightarrow> string \<Rightarrow> nat option" where
  "find_sub [] p = (if p = [] then Some 0 else None)"
| "find_sub (c # s) p =
     (if starts_with (c # s) p then Some 0 else map_option Suc (find_sub s p))"

definition contains_sub :: "string \<Rightarrow> string \<Rightarrow> bool" where
  [text_simps]: "contains_sub s p = (find_sub s p \<noteq> None)"

definition split_once :: "string \<Rightarrow> string \<Rightarrow> (string \<times> string) option" where
  [text_simps]: "split_once s p =
     (case find_sub s p of
        None \<Rightarrow> None
      | Some n \<Rightarrow> Some (take n s, drop (n + length p) s))"

text \<open>\<open>str::lines\<close>: split at newlines, drop one carriage return before each, no empty
  line after a final newline.\<close>

definition strip_cr :: "string \<Rightarrow> string" where
  [text_simps]: "strip_cr l =
     (if l \<noteq> [] \<and> last l = CHR 0x0D then butlast l else l)"

fun lines_acc :: "string \<Rightarrow> string \<Rightarrow> string list" where
  "lines_acc acc [] = (if acc = [] then [] else [rev acc])"
| "lines_acc acc (c # s) =
     (if c = CHR 0x0A then strip_cr (rev acc) # lines_acc [] s
      else lines_acc (c # acc) s)"

definition lines :: "string \<Rightarrow> string list" where
  [text_simps]: "lines s = lines_acc [] s"

definition to_ascii_lower :: "char \<Rightarrow> char" where
  [text_simps]: "to_ascii_lower c =
     (if is_ascii_uppercase c then char_of (code c + 32) else c)"

definition to_ascii_lowercase :: "string \<Rightarrow> string" where
  [text_simps]: "to_ascii_lowercase s = map to_ascii_lower s"

definition eq_ignore_ascii_case :: "string \<Rightarrow> string \<Rightarrow> bool" where
  [text_simps]: "eq_ignore_ascii_case a b = (map to_ascii_lower a = map to_ascii_lower b)"

fun join :: "string \<Rightarrow> string list \<Rightarrow> string" where
  "join sep [] = []"
| "join sep [x] = x"
| "join sep (x # y # xs) = x @ sep @ join sep (y # xs)"

text \<open>\<open>split(c)\<close> with a character separator: never empty.\<close>

fun split_char :: "char \<Rightarrow> string \<Rightarrow> string list" where
  "split_char c [] = [[]]"
| "split_char c (x # s) =
     (if x = c then [] # split_char c s
      else (case split_char c s of [] \<Rightarrow> [[x]] | w # ws \<Rightarrow> (x # w) # ws))"

section \<open>Facts on the text functions\<close>

lemma utf8_len_Nil [simp]: "utf8_len [] = 0"
  by (simp add: utf8_len_def)

lemma utf8_len_Cons [simp]: "utf8_len (c # s) = (if is_ascii c then 1 else 2) + utf8_len s"
  by (simp add: utf8_len_def)

lemma utf8_len_append [simp]: "utf8_len (s @ t) = utf8_len s + utf8_len t"
  by (simp add: utf8_len_def)

lemma utf8_len_0 [simp]: "utf8_len s = 0 \<longleftrightarrow> s = []"
  by (cases s) auto

lemma utf8_len_ge: "length s \<le> utf8_len s"
  by (induction s) auto

lemma utf8_len_ascii: "list_all is_ascii s \<Longrightarrow> utf8_len s = length s"
  by (induction s) auto

lemma starts_with_append [simp]: "starts_with (p @ s) p"
  by (simp add: starts_with_def)

lemma starts_with_iff: "starts_with s p \<longleftrightarrow> (\<exists>r. s = p @ r)"
  unfolding starts_with_def by (metis append_eq_conv_conj append_take_drop_id)

lemma strip_prefix_append [simp]: "strip_prefix (p @ s) p = Some s"
  by (simp add: strip_prefix_def)

lemma strip_prefix_Some: "strip_prefix s p = Some r \<longleftrightarrow> s = p @ r"
  by (auto simp: strip_prefix_def starts_with_iff split: if_splits)

lemma find_sub_Some:
  "find_sub s p = Some n \<Longrightarrow> s = take n s @ p @ drop (n + length p) s"
proof (induction s arbitrary: n)
  case Nil
  then show ?case by (simp split: if_splits)
next
  case (Cons c s)
  show ?case
  proof (cases "starts_with (c # s) p")
    case True
    with Cons.prems have "n = 0" by simp
    with True show ?thesis by (auto simp: starts_with_iff)
  next
    case False
    with Cons.prems obtain m where "find_sub s p = Some m" "n = Suc m" by auto
    with Cons.IH[of m] show ?thesis by simp
  qed
qed

lemma find_sub_None_append:
  assumes "find_sub (x @ y) p = None" shows "find_sub y p = None"
  using assms by (induction x) (auto split: if_splits)

lemma find_sub_hit: "p \<noteq> [] \<Longrightarrow> find_sub (x @ p @ y) p \<noteq> None"
proof (induction x)
  case Nil
  then show ?case by (cases p) (auto simp: starts_with_def)
qed auto

lemma find_sub_None_iff: "p \<noteq> [] \<Longrightarrow> find_sub s p = None \<longleftrightarrow> (\<nexists>x y. s = x @ p @ y)"
  using find_sub_Some find_sub_hit by (metis not_None_eq)

lemma find_sub_le:
  "find_sub s p = Some n \<Longrightarrow> n + length p \<le> length s"
proof (induction s arbitrary: n)
  case Nil
  then show ?case by (simp split: if_splits)
next
  case (Cons c s)
  show ?case
  proof (cases "starts_with (c # s) p")
    case True
    then have "length p \<le> Suc (length s)"
      unfolding starts_with_def by (metis length_take length_Cons min.cobounded1)
    with True Cons.prems show ?thesis by simp
  next
    case False
    with Cons.prems Cons.IH show ?thesis by auto
  qed
qed

lemma split_once_Some:
  "split_once s p = Some (a, b) \<Longrightarrow> s = a @ p @ b"
  by (auto simp: split_once_def dest: find_sub_Some split: option.splits)

text \<open>The one-character separator is found after a prefix that avoids it.\<close>

lemma find_sub_char_prefix:
  "c \<notin> set a \<Longrightarrow> find_sub (a @ c # b) [c] = Some (length a)"
  by (induction a) (auto simp: starts_with_def)

lemma split_once_char:
  "c \<notin> set a \<Longrightarrow> split_once (a @ c # b) [c] = Some (a, b)"
  by (simp add: split_once_def find_sub_char_prefix)

lemma set_trim: "set (trim s) \<subseteq> set s"
  by (auto simp: trim_def trim_start_def trim_end_def dest!: set_dropWhileD)

lemma dropWhile_id: "(s \<noteq> [] \<Longrightarrow> \<not> P (hd s)) \<Longrightarrow> dropWhile P s = s"
  by (cases s) auto

lemma hd_trim_end:
  assumes "s \<noteq> []" "\<not> is_whitespace (hd s)"
  shows "trim_end s \<noteq> [] \<and> hd (trim_end s) = hd s"
proof -
  obtain c r where s: "s = c # r" using assms(1) by (cases s) auto
  have "dropWhile is_whitespace (rev r @ [c]) \<noteq> [] \<and> last (dropWhile is_whitespace (rev r @ [c])) = c"
    using assms(2) s by (induction "rev r") (auto simp: dropWhile_append)
  then show ?thesis by (simp add: trim_end_def s hd_rev)
qed

lemma trim_end_idem: "trim_end (trim_end s) = trim_end s"
  by (simp add: trim_end_def)

lemma trim_idem [simp]: "trim (trim s) = trim s"
proof (cases "trim_start s")
  case Nil
  then show ?thesis by (simp only: trim_def) (simp add: trim_end_def trim_start_def)
next
  case (Cons c r)
  then have nw: "\<not> is_whitespace c"
    by (metis hd_dropWhile list.discI list.sel(1) trim_start_def)
  from hd_trim_end[of "trim_start s"] Cons nw
  have "trim_end (c # r) \<noteq> []" "hd (trim_end (c # r)) = c" by auto
  then have "trim_start (trim_end (c # r)) = trim_end (c # r)"
    using nw by (simp add: trim_start_def dropWhile_id)
  then show ?thesis by (simp add: trim_def Cons trim_end_idem)
qed

lemma distinct_count_le_1: "distinct xs \<Longrightarrow> count_list xs x \<le> 1"
  by (induction xs) (auto simp: count_list_0_iff)

section \<open>SQL statements over row lists\<close>

definition tbl_update :: "('r \<Rightarrow> bool) \<Rightarrow> ('r \<Rightarrow> 'r) \<Rightarrow> 'r table \<Rightarrow> 'r table" where
  "tbl_update P f t = map (\<lambda>r. if P r then f r else r) t"

definition tbl_delete :: "('r \<Rightarrow> bool) \<Rightarrow> 'r table \<Rightarrow> 'r table" where
  "tbl_delete P t = filter (\<lambda>r. \<not> P r) t"

definition tbl_count :: "('r \<Rightarrow> bool) \<Rightarrow> 'r table \<Rightarrow> nat" where
  "tbl_count P t = length (filter P t)"

lemma set_tbl_delete [tbl_simps]: "set (tbl_delete P t) = {r \<in> set t. \<not> P r}"
  by (simp add: tbl_delete_def)

lemma set_tbl_update [tbl_simps]:
  "set (tbl_update P f t) = {if P r then f r else r | r. r \<in> set t}"
  by (auto simp: tbl_update_def)

lemma ex_tbl_update:
  "(\<exists>r\<in>set (tbl_update P f t). Q r) \<longleftrightarrow> (\<exists>r\<in>set t. if P r then Q (f r) else Q r)"
  by (auto simp: tbl_update_def)

lemma all_tbl_update:
  "(\<forall>r\<in>set (tbl_update P f t). Q r) \<longleftrightarrow> (\<forall>r\<in>set t. if P r then Q (f r) else Q r)"
  by (auto simp: tbl_update_def)

lemma tbl_count_pos [tbl_simps]: "0 < tbl_count P t \<longleftrightarrow> (\<exists>r\<in>set t. P r)"
  by (auto simp: tbl_count_def filter_empty_conv)

lemma tbl_count_0 [tbl_simps]: "tbl_count P t = 0 \<longleftrightarrow> (\<forall>r\<in>set t. \<not> P r)"
  by (auto simp: tbl_count_def filter_empty_conv)

lemma map_tbl_update_key [tbl_simps]:
  "(\<And>r. k (f r) = k r) \<Longrightarrow> map k (tbl_update P f t) = map k t"
  by (simp add: tbl_update_def)

lemma distinct_tbl_delete [tbl_simps]: "distinct (map k t) \<Longrightarrow> distinct (map k (tbl_delete P t))"
  by (simp add: tbl_delete_def distinct_map_filter)

lemma length_tbl_update [tbl_simps]: "length (tbl_update P f t) = length t"
  by (simp add: tbl_update_def)

lemma find_SomeD: "List.find P t = Some r \<Longrightarrow> r \<in> set t \<and> P r"
  by (induction t) (auto split: if_splits)

lemma find_None_iff: "List.find P t = None \<longleftrightarrow> (\<forall>r\<in>set t. \<not> P r)"
  by (induction t) auto

lemma find_key_None: "List.find (\<lambda>r. k r = x) t = None \<longleftrightarrow> x \<notin> set (map k t)"
  by (induction t) auto

lemma find_append: "List.find P (s @ t) = (case List.find P s of None \<Rightarrow> List.find P t | Some r \<Rightarrow> Some r)"
  by (induction s) auto

text \<open>With a unique key, the row with a given key is the one \<open>find\<close> returns.\<close>

lemma find_unique:
  assumes "distinct (map k t)" "r \<in> set t"
  shows "List.find (\<lambda>x. k x = k r) t = Some r"
  using assms by (induction t) (auto simp: image_iff)

lemma count_key_le_1:
  "distinct (map k t) \<Longrightarrow> tbl_count (\<lambda>x. k x = v) t \<le> 1"
  by (induction t) (auto simp: tbl_count_def filter_empty_conv image_iff)

lemma tbl_count_mono: "(\<And>r. r \<in> set t \<Longrightarrow> P r \<Longrightarrow> Q r) \<Longrightarrow> tbl_count P t \<le> tbl_count Q t"
  by (induction t) (auto simp: tbl_count_def le_SucI)

section \<open>Contracts shared by several components\<close>

text \<open>
  A one-time credential: \<open>live s k\<close> says that the store \<open>s\<close> still holds \<open>k\<close> unspent, and
  \<open>consume s x k\<close> presents it in the circumstances \<open>x\<close> (the time, the user), returning
  the new store and whether it was honoured.
\<close>

locale one_time_store =
  fixes live :: "'s \<Rightarrow> 'k \<Rightarrow> bool"
    and consume :: "'s \<Rightarrow> 'x \<Rightarrow> 'k \<Rightarrow> 's \<times> bool"
    and wf :: "'s \<Rightarrow> bool"
  assumes honoured_live: "wf s \<Longrightarrow> snd (consume s x k) \<Longrightarrow> live s k"
    and spent: "wf s \<Longrightarrow> snd (consume s x k) \<Longrightarrow> \<not> live (fst (consume s x k)) k"
    and never_revived: "wf s \<Longrightarrow> live (fst (consume s x k)) j \<Longrightarrow> live s j"
    and others_kept: "wf s \<Longrightarrow> j \<noteq> k \<Longrightarrow> live (fst (consume s x k)) j \<longleftrightarrow> live s j"
    and wf_consume: "wf s \<Longrightarrow> wf (fst (consume s x k))"
begin

primrec consume_all :: "'s \<Rightarrow> ('x \<times> 'k) list \<Rightarrow> 's \<times> 'k list" where
  "consume_all s [] = (s, [])"
| "consume_all s (p # ps) =
     (let (s', ok) = consume s (fst p) (snd p); (s'', won) = consume_all s' ps
      in (s'', if ok then snd p # won else won))"

lemma consume_all_live: "wf s \<Longrightarrow> set (snd (consume_all s ps)) \<subseteq> {k. live s k}"
proof (induction ps arbitrary: s)
  case (Cons p ps)
  obtain s' ok where st: "consume s (fst p) (snd p) = (s', ok)" by fastforce
  have w: "wf s'" "ok \<Longrightarrow> live s (snd p)" "\<And>j. live s' j \<Longrightarrow> live s j"
    using Cons.prems st wf_consume[of s "fst p" "snd p"] honoured_live[of s "fst p" "snd p"]
      never_revived[of s "fst p" "snd p"] by auto
  with Cons.IH[OF w(1)] show ?case by (auto simp: st split: prod.splits)
qed simp

lemma consume_all_distinct: "wf s \<Longrightarrow> distinct (snd (consume_all s ps))"
proof (induction ps arbitrary: s)
  case (Cons p ps)
  obtain s' ok where st: "consume s (fst p) (snd p) = (s', ok)" by fastforce
  with Cons.prems have w: "wf s'" "ok \<Longrightarrow> \<not> live s' (snd p)"
    using wf_consume[of s "fst p" "snd p"] spent[of s "fst p" "snd p"] by auto
  from consume_all_live[OF w(1), of ps] w(2) Cons.IH[OF w(1)] show ?case
    by (auto simp: st split: prod.splits)
qed simp

text \<open>Whatever sequence of presentations, each credential is honoured at most once.\<close>

lemma honoured_at_most_once:
  "wf s \<Longrightarrow> count_list (snd (consume_all s ps)) k \<le> 1"
  using consume_all_distinct[of s ps] by (rule distinct_count_le_1)

end

text \<open>
  A store with eviction on insert and a capacity: what \<open>insert\<close> returns is bounded, holds
  the new entry, and holds nothing that was not there or was stale.
\<close>

locale capped_store =
  fixes insert_at :: "int \<Rightarrow> 'k \<Rightarrow> 'v \<Rightarrow> ('k \<times> 'v) list \<Rightarrow> ('k \<times> 'v) list option"
    and cap :: nat
    and fresh_at :: "int \<Rightarrow> 'v \<Rightarrow> bool"
  assumes insert_bound: "length m \<le> cap \<Longrightarrow> insert_at now k v m = Some m' \<Longrightarrow> length m' \<le> cap"
    and insert_full: "insert_at now k v m = None \<longleftrightarrow> cap \<le> length (filter (\<lambda>(_, x). fresh_at now x) m)"
    and insert_lookup: "insert_at now k v m = Some m' \<Longrightarrow> map_of m' k = Some v"
    and insert_others: "insert_at now k v m = Some m' \<Longrightarrow> j \<noteq> k \<Longrightarrow> (j, x) \<in> set m' \<Longrightarrow>
       (j, x) \<in> set m \<and> fresh_at now x"
begin

text \<open>Inserting a whole batch never passes the capacity, whatever the clock does.\<close>

primrec insert_batch :: "(int \<times> 'k \<times> 'v) list \<Rightarrow> ('k \<times> 'v) list \<Rightarrow> ('k \<times> 'v) list" where
  "insert_batch [] m = m"
| "insert_batch (e # es) m =
     insert_batch es
       (case e of (now, k, v) \<Rightarrow>
          (case insert_at now k v m of None \<Rightarrow> m | Some m' \<Rightarrow> m'))"

lemma batch_bounded: "length m \<le> cap \<Longrightarrow> length (insert_batch es m) \<le> cap"
proof (induction es arbitrary: m)
  case (Cons e es)
  obtain now k v where e: "e = (now, k, v)" by (cases e) auto
  show ?case
  proof (cases "insert_at now k v m")
    case None
    with Cons e show ?thesis by simp
  next
    case (Some m')
    with Cons.prems insert_bound have "length m' \<le> cap" by blast
    with Cons.IH Some e show ?thesis by simp
  qed
qed simp

end

text \<open>
  Ownership-scoped deletion: \<open>del s u k\<close> removes user \<open>u\<close>'s row \<open>k\<close> from the rows of the
  state and says whether it removed one.
\<close>

locale owner_scoped =
  fixes rows :: "'s \<Rightarrow> 'r table"
    and owner :: "'r \<Rightarrow> 'u"
    and rkey :: "'r \<Rightarrow> 'k"
    and del :: "'s \<Rightarrow> 'u \<Rightarrow> 'k \<Rightarrow> 's \<times> bool"
  assumes del_rows: "rows (fst (del s u k)) = tbl_delete (\<lambda>r. rkey r = k \<and> owner r = u) (rows s)"
    and del_found: "snd (del s u k) \<longleftrightarrow> (\<exists>r\<in>set (rows s). rkey r = k \<and> owner r = u)"
begin

primrec del_run :: "'s \<Rightarrow> ('u \<times> 'k) list \<Rightarrow> 's" where
  "del_run s [] = s"
| "del_run s (x # xs) = del_run (fst (del s (fst x) (snd x))) xs"

lemma foreign_rows_kept:
  "owner r \<noteq> u \<Longrightarrow> r \<in> set (rows (fst (del s u k))) \<longleftrightarrow> r \<in> set (rows s)"
  by (auto simp: del_rows tbl_simps)

lemma own_row_gone: "r \<in> set (rows (fst (del s u k))) \<Longrightarrow> rkey r = k \<Longrightarrow> owner r \<noteq> u"
  by (auto simp: del_rows tbl_simps)

text \<open>No sequence of deletions by other users touches a user's rows.\<close>

lemma run_of_others_keeps:
  "(\<And>x. x \<in> set xs \<Longrightarrow> fst x \<noteq> u) \<Longrightarrow>
   filter (\<lambda>r. owner r = u) (rows (del_run s xs)) = filter (\<lambda>r. owner r = u) (rows s)"
proof (induction xs arbitrary: s)
  case (Cons x xs)
  have "filter (\<lambda>r. owner r = u) (rows (fst (del s (fst x) (snd x)))) = filter (\<lambda>r. owner r = u) (rows s)"
    using Cons.prems[of x] by (auto simp: del_rows tbl_delete_def intro!: filter_cong)
  with Cons.IH[of "fst (del s (fst x) (snd x))"] Cons.prems show ?case by simp
qed simp

end

text \<open>A step relation with an invariant: the invariant holds in every reachable state.\<close>

locale invariant_system =
  fixes init :: "'s \<Rightarrow> bool"
    and step :: "'s \<Rightarrow> 's \<Rightarrow> bool"
    and inv :: "'s \<Rightarrow> bool"
  assumes inv_init: "init s \<Longrightarrow> inv s"
    and inv_step: "inv s \<Longrightarrow> step s t \<Longrightarrow> inv t"
begin

inductive reach :: "'s \<Rightarrow> bool" where
  start: "init s \<Longrightarrow> reach s"
| next_state: "reach s \<Longrightarrow> step s t \<Longrightarrow> reach t"

lemma reach_inv: "reach s \<Longrightarrow> inv s"
  by (induction rule: reach.induct) (blast intro: inv_init inv_step)+

lemma steps_inv: "step\<^sup>*\<^sup>* s t \<Longrightarrow> inv s \<Longrightarrow> inv t"
  by (induction rule: rtranclp_induct) (blast intro: inv_step)+

end

text \<open>Two rows of a table with the same key are one row.\<close>

lemma distinct_key_eq: "distinct (map k t) \<Longrightarrow> r \<in> set t \<Longrightarrow> s \<in> set t \<Longrightarrow> k r = k s \<Longrightarrow> r = s"
  by (auto simp: distinct_map dest: inj_onD)

end
