(* ===== verification/Hub_Util.thy ===== *)
theory Hub_Util
  imports Hub_Prelude
begin

text \<open>
  The helpers of \<^verbatim>\<open>src/util.rs\<close>: the \<open>${VAR}\<close> substitution used on command lines and
  environment values, over Rust's \<open>BTreeMap\<close> (an association list kept sorted by key).
  The lemmas say that an unknown or unterminated reference is left as written, and that a
  known one is replaced in a single pass.
\<close>

section \<open>BTreeMap\<close>

type_synonym btree = "(string \<times> string) list"

fun bt_insert :: "string \<Rightarrow> 'v \<Rightarrow> (string \<times> 'v) list \<Rightarrow> (string \<times> 'v) list" where
  "bt_insert k v [] = [(k, v)]"
| "bt_insert k v ((j, w) # m) =
     (if k < j then (k, v) # (j, w) # m
      else if k = j then (k, v) # m
      else (j, w) # bt_insert k v m)"

definition bt_wf :: "(string \<times> 'v) list \<Rightarrow> bool" where
  "bt_wf m = sorted_wrt (<) (map fst m)"

lemma map_of_bt_insert [simp]: "bt_wf m \<Longrightarrow> map_of (bt_insert k v m) = (map_of m)(k \<mapsto> v)"
proof (induction k v m rule: bt_insert.induct)
  case (2 k v j w m)
  then show ?case
    by (auto simp: bt_wf_def fun_eq_iff map_of_eq_None_iff
        dest!: order.strict_trans)
qed (simp add: fun_eq_iff)

lemma keys_bt_insert [simp]: "fst ` set (bt_insert k v m) = insert k (fst ` set m)"
  by (induction k v m rule: bt_insert.induct) auto

lemma bt_wf_Nil [simp]: "bt_wf []"
  by (simp add: bt_wf_def)

lemma bt_wf_insert [simp]: "bt_wf m \<Longrightarrow> bt_wf (bt_insert k v m)"
proof (induction k v m rule: bt_insert.induct)
  case (2 k v j w m)
  have wf: "bt_wf m" using "2.prems" by (simp add: bt_wf_def)
  have lt: "\<And>x. x \<in> fst ` set m \<Longrightarrow> j < x" using "2.prems" by (auto simp: bt_wf_def)
  have "x \<in> fst ` set (bt_insert k v m) \<Longrightarrow> j < x" if "\<not> k < j" "k \<noteq> j" for x
    using that lt by (auto simp del: image_iff)
  with "2" wf show ?case
    by (auto simp: bt_wf_def dest: order.strict_trans)
qed (simp add: bt_wf_def)

lemma bt_wf_distinct: "bt_wf m \<Longrightarrow> distinct (map fst m)"
  unfolding bt_wf_def by (induction m) auto

text \<open>Inserting in key order rebuilds the map: what collecting an iterator of a
  \<open>BTreeMap\<close> does.\<close>

lemma bt_insert_last:
  "(\<And>j. j \<in> fst ` set m \<Longrightarrow> j < k) \<Longrightarrow> bt_insert k v m = m @ [(k, v)]"
proof (induction m)
  case (Cons p m)
  have "fst p < k" using Cons.prems by simp
  then have "\<not> k < fst p" "k \<noteq> fst p" by auto
  with Cons show ?case by (cases p) auto
qed simp

section \<open>expand\_vars\<close>

abbreviation ref_open :: string where
  "ref_open \<equiv> ''${''"

definition expand_ref :: "btree \<Rightarrow> string \<Rightarrow> string" where
  "expand_ref vars name =
     (case map_of vars name of
        Some val \<Rightarrow> val
      | None \<Rightarrow> ref_open @ name @ ''}'')"

function expand_loop :: "btree \<Rightarrow> string \<Rightarrow> string \<Rightarrow> string" where
  "expand_loop vars out rest =
     (case find_sub rest ref_open of
        None \<Rightarrow> out @ rest
      | Some pos \<Rightarrow>
          (let out = out @ take pos rest; after = drop (pos + 2) rest in
           case find_sub after ''}'' of
             Some end_pos \<Rightarrow>
               expand_loop vars (out @ expand_ref vars (take end_pos after))
                 (drop (end_pos + 1) after)
           | None \<Rightarrow> expand_loop vars (out @ ref_open) after))"
  by pat_completeness auto
termination
  by (relation "measure (\<lambda>(vars, out, rest). length rest)") (auto dest: find_sub_le)

declare expand_loop.simps [simp del]

definition expand_vars :: "string \<Rightarrow> btree \<Rightarrow> string" where
  "expand_vars input vars = expand_loop vars [] input"

text \<open>The accumulator is only ever appended to.\<close>

lemma expand_loop_out: "expand_loop vars out rest = out @ expand_loop vars [] rest"
proof (induction "length rest" arbitrary: out rest rule: less_induct)
  case less
  show ?case
  proof (cases "find_sub rest ref_open")
    case None
    then show ?thesis by (simp add: expand_loop.simps[of vars _ rest])
  next
    case (Some pos)
    let ?after = "drop (pos + 2) rest"
    have IH: "expand_loop vars o1 (drop n ?after) = o1 @ expand_loop vars [] (drop n ?after)" for o1 n
      using find_sub_le[OF Some] by (intro less) auto
    note unf = expand_loop.simps[of vars out rest] expand_loop.simps[of vars "[]" rest] Some
      option.case Let_def
    show ?thesis
    proof (cases "find_sub ?after ''}''")
      case None
      show ?thesis
        unfolding unf None IH[of "(out @ take pos rest) @ ref_open" 0, simplified drop_0]
          IH[of "([] @ take pos rest) @ ref_open" 0, simplified drop_0] by simp
    next
      case (Some e)
      show ?thesis
        unfolding unf Some IH[of "(out @ take pos rest) @ expand_ref _ _"]
          IH[of "([] @ take pos rest) @ expand_ref _ _"] by simp
    qed
  qed
qed

lemma expand_vars_rec:
  "expand_vars rest vars =
     (case find_sub rest ref_open of
        None \<Rightarrow> rest
      | Some pos \<Rightarrow>
          (let after = drop (pos + 2) rest in
           case find_sub after ''}'' of
             Some e \<Rightarrow> take pos rest @ expand_ref vars (take e after) @ expand_vars (drop (e + 1) after) vars
           | None \<Rightarrow> take pos rest @ ref_open @ expand_vars after vars))"
proof -
  have out: "expand_loop vars (x @ y) r = x @ y @ expand_vars r vars" for x y r
    using expand_loop_out[of vars "x @ y" r] by (simp add: expand_vars_def)
  show ?thesis
    unfolding expand_vars_def[of rest] expand_loop.simps[of vars "[]" rest] Let_def out append_Nil
    by (rule refl)
qed

text \<open>Text without the opening bracket is returned as it is.\<close>

lemma expand_vars_plain: "find_sub s ref_open = None \<Longrightarrow> expand_vars s vars = s"
  by (simp add: expand_vars_rec)

text \<open>When no defined variable is referenced, the text is returned byte for byte: an
  unknown or unterminated reference stays visible.\<close>

lemma expand_vars_unreferenced:
  assumes "\<And>k. k \<in> fst ` set vars \<Longrightarrow> \<not> contains_sub s (ref_open @ k @ ''}'')"
  shows "expand_vars s vars = s"
  using assms
proof (induction "length s" arbitrary: s rule: less_induct)
  case less
  have sub: "\<And>k. k \<in> fst ` set vars \<Longrightarrow> \<not> contains_sub y (ref_open @ k @ ''}'')" if "s = x @ y" for x y
    using less.prems that by (auto simp: contains_sub_def dest: find_sub_None_append)
  show ?case
  proof (cases "find_sub s ref_open")
    case None
    then show ?thesis by (rule expand_vars_plain)
  next
    case (Some pos)
    define after where "after = drop (pos + 2) s"
    have s: "s = take pos s @ ref_open @ after"
      using find_sub_Some[OF Some] by (simp add: after_def)
    have len: "length after < length s" by (subst s) simp
    have ih: "expand_vars (drop n after) vars = drop n after" for n
    proof (rule less.hyps)
      show "length (drop n after) < length s" using len by simp
      have "s = (take pos s @ ref_open @ take n after) @ drop n after"
        by (subst s) simp
      then show "\<And>k. k \<in> fst ` set vars \<Longrightarrow> \<not> contains_sub (drop n after) (ref_open @ k @ ''}'')"
        by (rule sub)
    qed
    show ?thesis
    proof (cases "find_sub after ''}''")
      case None
      then have "expand_vars s vars = take pos s @ ref_open @ after"
        using Some ih[of 0] by (simp add: expand_vars_rec[of s] after_def)
      with s show ?thesis by simp
    next
      case (Some e)
      let ?k = "take e after"
      have a: "after = ?k @ ''}'' @ drop (e + 1) after"
        using find_sub_Some[OF Some] by simp
      have "contains_sub s (ref_open @ ?k @ ''}'')"
        unfolding contains_sub_def
        using find_sub_hit[of "ref_open @ ?k @ ''}''" "take pos s" "drop (e + 1) after"] s a
        by (metis append.assoc append_is_Nil_conv list.distinct(1))
      then have "map_of vars ?k = None"
        using less.prems by (auto simp: map_of_eq_None_iff)
      then have "expand_vars s vars = take pos s @ ref_open @ ?k @ ''}'' @ drop (e + 1) after"
        unfolding expand_vars_rec[of s] \<open>find_sub s ref_open = Some pos\<close> option.case Let_def
          after_def[symmetric] Some ih expand_ref_def by simp
      with s a show ?thesis by metis
    qed
  qed
qed

text \<open>A reference to a defined variable is replaced by its value, once: the value is not
  scanned again.\<close>

lemma expand_vars_reference:
  assumes "find_sub (pre @ ref_open) ref_open = Some (length pre)" "CHR ''}'' \<notin> set k"
    and "map_of vars k = Some v"
  shows "expand_vars (pre @ ref_open @ k @ ''}'' @ post) vars = pre @ v @ expand_vars post vars"
proof -
  have pos: "find_sub (pre @ ref_open @ r) ref_open = Some (length pre)" for r
    using assms(1)
  proof (induction pre)
    case (Cons c pre)
    then show ?case by (cases pre) (auto simp: starts_with_def split: if_splits)
  qed (simp add: starts_with_def)
  from find_sub_char_prefix[OF assms(2), of post] pos[of "k @ ''}'' @ post"] show ?thesis
    using assms(3) by (simp add: expand_vars_rec[of "pre @ _"] expand_ref_def Let_def)
qed

end
