(* ===== verification/Hub_Schema.thy ===== *)
theory Hub_Schema
  imports Hub_Util
begin

text \<open>
  The database of the hub (\<^verbatim>\<open>migrations/*.sql\<close>, opened by \<^verbatim>\<open>src/db.rs\<close> with
  \<open>foreign_keys(true)\<close>): one record of tables, each the list of its rows in rowid order.
  A column that holds serialised JSON holds the value it serialises. Inserting checks the
  \<open>UNIQUE\<close> and \<open>REFERENCES\<close> constraints of the table and fails with the error of the
  statement; deleting a user, an instance or a group runs the \<open>ON DELETE\<close> clauses.
  The lemmas say that every statement keeps the constraints (\<open>db_wf\<close>) and that deleting
  a user leaves no row of that user behind in any table.
\<close>

section \<open>Rows\<close>

record user_row =
  u_id :: string
  u_handle :: string
  u_display_name :: string
  u_is_admin :: bool
  u_created_at :: int
  u_disabled :: bool
  u_sandbox_uid :: "int option"

record cred_row =
  wc_id :: string
  wc_user_id :: string
  wc_credential_id :: string
  wc_passkey :: string
  wc_name :: string
  wc_created_at :: int
  wc_last_used_at :: "int option"
  wc_last_ip :: "string option"
  wc_last_user_agent :: "string option"

record session_row =
  ws_id :: string
  ws_user_id :: string
  ws_created_at :: int
  ws_expires_at :: int
  ws_last_ip :: "string option"
  ws_last_user_agent :: "string option"

record server_def =
  sd_name :: string
  sd_description :: string
  sd_transport :: string
  sd_command :: "string option"
  sd_args :: "string list"
  sd_url :: "string option"
  sd_runtime :: string
  sd_repo :: "string option"
  sd_git_ref :: "string option"
  sd_entry :: "string option"
  sd_module :: "string option"
  sd_connect_timeout_secs :: "64 word option"

record inst_row =
  i_id :: string
  i_user_id :: string
  i_catalog_server_id :: "string option"
  i_custom_def :: "server_def option"
  i_namespace :: string
  i_display_name :: string
  i_enabled :: bool
  i_config :: btree
  i_built_commit :: "string option"
  i_build_status :: string
  i_capabilities :: "string option"
  i_created_at :: int

record secret_row =
  is_id :: string
  is_instance_id :: string
  is_key_name :: string
  is_nonce :: string
  is_ciphertext :: string

record config_file_row =
  cf_instance_id :: string
  cf_nonce :: string
  cf_ciphertext :: string
  cf_created_at :: int

record client_metadata =
  md_client_name :: "string option"
  md_scope :: "string option"
  md_auth_method :: string
  md_grant_types :: "string list"
  md_response_types :: "string list"

record client_row =
  oc_client_id :: string
  oc_client_secret_hash :: "string option"
  oc_redirect_uris :: "string list"
  oc_metadata :: client_metadata
  oc_created_at :: int

record refresh_row =
  rt_token_hash :: string
  rt_client_id :: string
  rt_user_id :: string
  rt_scope :: string
  rt_resource :: "string option"
  rt_created_at :: int
  rt_expires_at :: int
  rt_family_id :: string
  rt_consumed :: bool
  rt_last_ip :: "string option"
  rt_last_user_agent :: "string option"

record pat_row =
  pt_id :: string
  pt_user_id :: string
  pt_token_hash :: string
  pt_name :: string
  pt_created_at :: int
  pt_last_used_at :: "int option"
  pt_expires_at :: int

record invite_row =
  iv_code_hash :: string
  iv_note :: string
  iv_created_by :: "string option"
  iv_created_at :: int
  iv_used_at :: "int option"
  iv_used_by :: "string option"
  iv_recovery_user_id :: "string option"

record label_row =
  ol_user_id :: string
  ol_client_id :: string
  ol_name :: string
  ol_note :: string
  ol_updated_at :: int

record denial_row =
  cd_user_id :: string
  cd_credential_type :: string
  cd_credential_id :: string
  cd_instance_id :: string
  cd_created_at :: int

record group_row =
  g_id :: string
  g_user_id :: string
  g_slug :: string
  g_name :: string
  g_created_at :: int

record member_row =
  gm_group_id :: string
  gm_instance_id :: string
  gm_created_at :: int

record gitcred_row =
  gc_id :: string
  gc_user_id :: string
  gc_host :: string
  gc_username :: string
  gc_nonce :: string
  gc_ciphertext :: string
  gc_label :: string
  gc_created_at :: int
  gc_updated_at :: int
  gc_last_used_at :: "int option"

record key_row =
  sk_kid :: string
  sk_private :: string
  sk_created_at :: int
  sk_active :: bool

record setting_row =
  se_key :: string
  se_nonce :: string
  se_ciphertext :: string
  se_updated_at :: int

record db =
  users :: "user_row table"
  webauthn_credentials :: "cred_row table"
  web_sessions :: "session_row table"
  user_server_instances :: "inst_row table"
  instance_secrets :: "secret_row table"
  instance_config_files :: "config_file_row table"
  oauth_clients :: "client_row table"
  oauth_refresh_tokens :: "refresh_row table"
  personal_access_tokens :: "pat_row table"
  invites :: "invite_row table"
  oauth_client_labels :: "label_row table"
  credential_backend_denials :: "denial_row table"
  connector_groups :: "group_row table"
  connector_group_members :: "member_row table"
  git_credentials :: "gitcred_row table"
  oauth_signing_keys :: "key_row table"
  settings :: "setting_row table"

definition empty_db :: db where
  "empty_db = \<lparr>users = [], webauthn_credentials = [], web_sessions = [],
     user_server_instances = [], instance_secrets = [], instance_config_files = [],
     oauth_clients = [], oauth_refresh_tokens = [], personal_access_tokens = [],
     invites = [], oauth_client_labels = [], credential_backend_denials = [],
     connector_groups = [], connector_group_members = [], git_credentials = [],
     oauth_signing_keys = [], settings = []\<rparr>"

section \<open>Referential integrity\<close>

definition has_user :: "db \<Rightarrow> string \<Rightarrow> bool" where
  "has_user d u \<longleftrightarrow> u \<in> set (map u_id (users d))"

definition has_instance :: "db \<Rightarrow> string \<Rightarrow> bool" where
  "has_instance d i \<longleftrightarrow> i \<in> set (map i_id (user_server_instances d))"

definition has_group :: "db \<Rightarrow> string \<Rightarrow> bool" where
  "has_group d g \<longleftrightarrow> g \<in> set (map g_id (connector_groups d))"

definition has_client :: "db \<Rightarrow> string \<Rightarrow> bool" where
  "has_client d c \<longleftrightarrow> c \<in> set (map oc_client_id (oauth_clients d))"

text \<open>The \<open>REFERENCES\<close> clauses, table by table.\<close>

definition fk_users :: "db \<Rightarrow> bool" where
  "fk_users d \<longleftrightarrow>
     list_all (\<lambda>r. has_user d (wc_user_id r)) (webauthn_credentials d) \<and>
     list_all (\<lambda>r. has_user d (ws_user_id r)) (web_sessions d) \<and>
     list_all (\<lambda>r. has_user d (i_user_id r)) (user_server_instances d) \<and>
     list_all (\<lambda>r. has_user d (rt_user_id r)) (oauth_refresh_tokens d) \<and>
     list_all (\<lambda>r. has_user d (pt_user_id r)) (personal_access_tokens d) \<and>
     list_all (\<lambda>r. has_user d (ol_user_id r)) (oauth_client_labels d) \<and>
     list_all (\<lambda>r. has_user d (cd_user_id r)) (credential_backend_denials d) \<and>
     list_all (\<lambda>r. has_user d (g_user_id r)) (connector_groups d) \<and>
     list_all (\<lambda>r. has_user d (gc_user_id r)) (git_credentials d) \<and>
     list_all (\<lambda>r. pred_option (has_user d) (iv_created_by r) \<and>
                   pred_option (has_user d) (iv_used_by r) \<and>
                   pred_option (has_user d) (iv_recovery_user_id r)) (invites d)"

definition fk_instances :: "db \<Rightarrow> bool" where
  "fk_instances d \<longleftrightarrow>
     list_all (\<lambda>r. has_instance d (is_instance_id r)) (instance_secrets d) \<and>
     list_all (\<lambda>r. has_instance d (cf_instance_id r)) (instance_config_files d) \<and>
     list_all (\<lambda>r. has_instance d (cd_instance_id r)) (credential_backend_denials d) \<and>
     list_all (\<lambda>r. has_instance d (gm_instance_id r)) (connector_group_members d)"

definition fk_groups :: "db \<Rightarrow> bool" where
  "fk_groups d \<longleftrightarrow> list_all (\<lambda>r. has_group d (gm_group_id r)) (connector_group_members d)"

definition fk_clients :: "db \<Rightarrow> bool" where
  "fk_clients d \<longleftrightarrow>
     list_all (\<lambda>r. has_client d (rt_client_id r)) (oauth_refresh_tokens d) \<and>
     list_all (\<lambda>r. has_client d (ol_client_id r)) (oauth_client_labels d)"

text \<open>The \<open>PRIMARY KEY\<close> and \<open>UNIQUE\<close> clauses.\<close>

definition keys_ok :: "db \<Rightarrow> bool" where
  "keys_ok d \<longleftrightarrow>
     distinct (map u_id (users d)) \<and> distinct (map u_handle (users d)) \<and>
     distinct (map wc_id (webauthn_credentials d)) \<and>
     distinct (map wc_credential_id (webauthn_credentials d)) \<and>
     distinct (map ws_id (web_sessions d)) \<and>
     distinct (map i_id (user_server_instances d)) \<and>
     distinct (map (\<lambda>r. (i_user_id r, i_namespace r)) (user_server_instances d)) \<and>
     distinct (map is_id (instance_secrets d)) \<and>
     distinct (map (\<lambda>r. (is_instance_id r, is_key_name r)) (instance_secrets d)) \<and>
     distinct (map cf_instance_id (instance_config_files d)) \<and>
     distinct (map oc_client_id (oauth_clients d)) \<and>
     distinct (map rt_token_hash (oauth_refresh_tokens d)) \<and>
     distinct (map pt_id (personal_access_tokens d)) \<and>
     distinct (map pt_token_hash (personal_access_tokens d)) \<and>
     distinct (map iv_code_hash (invites d)) \<and>
     distinct (map (\<lambda>r. (ol_user_id r, ol_client_id r)) (oauth_client_labels d)) \<and>
     distinct (map (\<lambda>r. (cd_credential_type r, cd_credential_id r, cd_instance_id r))
                 (credential_backend_denials d)) \<and>
     distinct (map g_id (connector_groups d)) \<and>
     distinct (map (\<lambda>r. (g_user_id r, g_slug r)) (connector_groups d)) \<and>
     distinct (map (\<lambda>r. (gm_group_id r, gm_instance_id r)) (connector_group_members d)) \<and>
     distinct (map se_key (settings d)) \<and>
     distinct (map gc_id (git_credentials d)) \<and>
     distinct (map (\<lambda>r. (gc_user_id r, gc_host r)) (git_credentials d)) \<and>
     distinct (map sk_kid (oauth_signing_keys d))"

definition db_wf :: "db \<Rightarrow> bool" where
  "db_wf d \<longleftrightarrow> keys_ok d \<and> fk_users d \<and> fk_instances d \<and> fk_groups d \<and> fk_clients d"

lemmas has_defs = has_user_def has_instance_def has_group_def has_client_def
lemmas fk_defs = fk_users_def fk_instances_def fk_groups_def fk_clients_def

section \<open>Deletes with their ON DELETE clauses\<close>

definition delete_groups :: "(group_row \<Rightarrow> bool) \<Rightarrow> db \<Rightarrow> db" where
  "delete_groups P d =
     (let gone = (\<lambda>g. \<exists>r\<in>set (connector_groups d). P r \<and> g_id r = g) in
      d\<lparr>connector_groups := tbl_delete P (connector_groups d),
        connector_group_members :=
          tbl_delete (\<lambda>r. gone (gm_group_id r)) (connector_group_members d)\<rparr>)"

definition delete_instances :: "(inst_row \<Rightarrow> bool) \<Rightarrow> db \<Rightarrow> db" where
  "delete_instances P d =
     (let gone = (\<lambda>i. \<exists>r\<in>set (user_server_instances d). P r \<and> i_id r = i) in
      d\<lparr>user_server_instances := tbl_delete P (user_server_instances d),
        instance_secrets := tbl_delete (\<lambda>r. gone (is_instance_id r)) (instance_secrets d),
        instance_config_files :=
          tbl_delete (\<lambda>r. gone (cf_instance_id r)) (instance_config_files d),
        credential_backend_denials :=
          tbl_delete (\<lambda>r. gone (cd_instance_id r)) (credential_backend_denials d),
        connector_group_members :=
          tbl_delete (\<lambda>r. gone (gm_instance_id r)) (connector_group_members d)\<rparr>)"

definition set_null :: "string \<Rightarrow> string option \<Rightarrow> string option" where
  "set_null u x = (if x = Some u then None else x)"

text \<open>\<open>DELETE FROM users WHERE id = ?\<close>: \<open>CASCADE\<close> on every table that references the
  user, \<open>SET NULL\<close> on who created or used an invite.\<close>

definition delete_user :: "string \<Rightarrow> db \<Rightarrow> db" where
  "delete_user u d =
     (let d1 = delete_instances (\<lambda>r. i_user_id r = u) d;
          d2 = delete_groups (\<lambda>r. g_user_id r = u) d1 in
      d2\<lparr>users := tbl_delete (\<lambda>r. u_id r = u) (users d2),
         webauthn_credentials := tbl_delete (\<lambda>r. wc_user_id r = u) (webauthn_credentials d2),
         web_sessions := tbl_delete (\<lambda>r. ws_user_id r = u) (web_sessions d2),
         oauth_refresh_tokens := tbl_delete (\<lambda>r. rt_user_id r = u) (oauth_refresh_tokens d2),
         personal_access_tokens :=
           tbl_delete (\<lambda>r. pt_user_id r = u) (personal_access_tokens d2),
         oauth_client_labels := tbl_delete (\<lambda>r. ol_user_id r = u) (oauth_client_labels d2),
         credential_backend_denials :=
           tbl_delete (\<lambda>r. cd_user_id r = u) (credential_backend_denials d2),
         git_credentials := tbl_delete (\<lambda>r. gc_user_id r = u) (git_credentials d2),
         invites :=
           map (\<lambda>r. r\<lparr>iv_created_by := set_null u (iv_created_by r),
                      iv_used_by := set_null u (iv_used_by r)\<rparr>)
             (tbl_delete (\<lambda>r. iv_recovery_user_id r = Some u) (invites d2))\<rparr>)"

section \<open>Statements keep the constraints\<close>

lemma delete_groups_keys: "keys_ok d \<Longrightarrow> keys_ok (delete_groups P d)"
  by (simp add: keys_ok_def delete_groups_def Let_def distinct_tbl_delete)

lemma delete_instances_keys: "keys_ok d \<Longrightarrow> keys_ok (delete_instances P d)"
  by (simp add: keys_ok_def delete_instances_def Let_def distinct_tbl_delete)

lemma delete_user_keys:
  assumes "keys_ok d" shows "keys_ok (delete_user u d)"
proof -
  have "keys_ok (delete_groups P (delete_instances Q d))" for P Q
    using assms by (intro delete_groups_keys delete_instances_keys)
  from this[of "\<lambda>r. g_user_id r = u" "\<lambda>r. i_user_id r = u"] show ?thesis
    by (simp add: keys_ok_def delete_user_def Let_def distinct_tbl_delete comp_def)
qed

lemma list_all_tbl_delete: "list_all Q t \<Longrightarrow> list_all Q (tbl_delete P t)"
  by (auto simp: list_all_iff tbl_simps)

text \<open>\<open>ON DELETE CASCADE\<close> keeps a foreign key: what it leaves still has its parent.\<close>

lemma cascade_fk:
  "list_all (\<lambda>r. k r \<in> set (map pid t)) c \<Longrightarrow>
   list_all (\<lambda>r. k r \<in> set (map pid (tbl_delete P t)))
     (tbl_delete (\<lambda>r. \<exists>p\<in>set t. P p \<and> pid p = k r) c)"
  unfolding list_all_iff tbl_delete_def by fastforce

lemma delete_groups_has [simp]:
  "has_user (delete_groups P d) = has_user d"
  "has_instance (delete_groups P d) = has_instance d"
  "has_client (delete_groups P d) = has_client d"
  by (simp_all add: fun_eq_iff has_defs delete_groups_def Let_def)

lemma delete_instances_has [simp]:
  "has_user (delete_instances P d) = has_user d"
  "has_group (delete_instances P d) = has_group d"
  "has_client (delete_instances P d) = has_client d"
  by (simp_all add: fun_eq_iff has_defs delete_instances_def Let_def)

lemma delete_groups_fk_groups: "fk_groups d \<Longrightarrow> fk_groups (delete_groups P d)"
  using cascade_fk[of gm_group_id g_id "connector_groups d" "connector_group_members d" P]
  by (simp add: fk_groups_def has_group_def delete_groups_def Let_def)

lemma delete_groups_wf: "db_wf d \<Longrightarrow> db_wf (delete_groups P d)"
  unfolding db_wf_def
  by (intro conjI delete_groups_keys delete_groups_fk_groups)
    (simp_all add: fk_users_def fk_instances_def fk_clients_def,
     simp_all add: delete_groups_def Let_def list_all_tbl_delete)

lemma delete_instances_fk_instances: "fk_instances d \<Longrightarrow> fk_instances (delete_instances P d)"
  using cascade_fk[of is_instance_id i_id "user_server_instances d" "instance_secrets d" P]
    cascade_fk[of cf_instance_id i_id "user_server_instances d" "instance_config_files d" P]
    cascade_fk[of cd_instance_id i_id "user_server_instances d" "credential_backend_denials d" P]
    cascade_fk[of gm_instance_id i_id "user_server_instances d" "connector_group_members d" P]
  by (simp add: fk_instances_def has_instance_def delete_instances_def Let_def)

lemma delete_instances_wf: "db_wf d \<Longrightarrow> db_wf (delete_instances P d)"
  unfolding db_wf_def
  by (intro conjI delete_instances_keys delete_instances_fk_instances)
    (simp_all add: fk_users_def fk_groups_def fk_clients_def,
     simp_all add: delete_instances_def Let_def list_all_tbl_delete)

text \<open>No table keeps a row of a deleted user, and no instance or group of the user is
  left for a secret, a configuration file, a denial or a membership to point at.\<close>

definition owns_nothing :: "string \<Rightarrow> db \<Rightarrow> bool" where
  "owns_nothing u d \<longleftrightarrow>
     \<not> has_user d u \<and>
     list_all (\<lambda>r. wc_user_id r \<noteq> u) (webauthn_credentials d) \<and>
     list_all (\<lambda>r. ws_user_id r \<noteq> u) (web_sessions d) \<and>
     list_all (\<lambda>r. i_user_id r \<noteq> u) (user_server_instances d) \<and>
     list_all (\<lambda>r. rt_user_id r \<noteq> u) (oauth_refresh_tokens d) \<and>
     list_all (\<lambda>r. pt_user_id r \<noteq> u) (personal_access_tokens d) \<and>
     list_all (\<lambda>r. ol_user_id r \<noteq> u) (oauth_client_labels d) \<and>
     list_all (\<lambda>r. cd_user_id r \<noteq> u) (credential_backend_denials d) \<and>
     list_all (\<lambda>r. g_user_id r \<noteq> u) (connector_groups d) \<and>
     list_all (\<lambda>r. gc_user_id r \<noteq> u) (git_credentials d) \<and>
     list_all (\<lambda>r. iv_created_by r \<noteq> Some u \<and> iv_used_by r \<noteq> Some u \<and>
                   iv_recovery_user_id r \<noteq> Some u) (invites d)"

lemma delete_user_owns_nothing: "owns_nothing u (delete_user u d)"
  by (auto simp: owns_nothing_def has_user_def delete_user_def delete_groups_def
      delete_instances_def Let_def list_all_iff tbl_simps set_null_def)

lemma users_delete_user: "users (delete_user u d) = tbl_delete (\<lambda>r. u_id r = u) (users d)"
  by (simp add: delete_user_def Let_def delete_groups_def delete_instances_def)

lemma has_user_delete_user: "has_user (delete_user u d) v \<longleftrightarrow> has_user d v \<and> v \<noteq> u"
  by (auto simp: has_user_def users_delete_user tbl_simps)

lemma fk_users_delete_user:
  assumes "fk_users d" shows "fk_users (delete_user u d)"
  using assms unfolding fk_users_def has_user_delete_user
  by (simp add: delete_user_def delete_groups_def delete_instances_def Let_def list_all_iff
      tbl_simps set_null_def pred_option_def) auto

lemma delete_user_wf:
  assumes "db_wf d" shows "db_wf (delete_user u d)"
proof -
  define d2 where
    "d2 = delete_groups (\<lambda>r. g_user_id r = u) (delete_instances (\<lambda>r. i_user_id r = u) d)"
  have "db_wf d2"
    using assms unfolding d2_def by (intro delete_groups_wf delete_instances_wf)
  then have "fk_instances (delete_user u d) \<and> fk_groups (delete_user u d) \<and> fk_clients (delete_user u d)"
    by (simp add: db_wf_def fk_instances_def fk_groups_def fk_clients_def has_defs
        delete_user_def Let_def d2_def[symmetric] list_all_tbl_delete)
  with assms show ?thesis
    by (simp add: db_wf_def delete_user_keys fk_users_delete_user)
qed

lemma delete_user_other_users:
  "v \<noteq> u \<Longrightarrow> filter (\<lambda>r. u_id r = v) (users (delete_user u d)) = filter (\<lambda>r. u_id r = v) (users d)"
  by (auto simp: delete_user_def Let_def delete_groups_def delete_instances_def tbl_delete_def
      intro!: filter_cong)

lemma empty_db_wf: "db_wf empty_db"
  by (simp add: db_wf_def keys_ok_def fk_defs empty_db_def)

end
