(* ===== verification/Hub_Crypto.thy ===== *)
theory Hub_Crypto
  imports Hub_Prelude
begin

unbundle bit_operations_syntax

text \<open>
  The token helpers of \<^verbatim>\<open>src/oauth/mod.rs\<close> and the secret box of \<^verbatim>\<open>src/crypto.rs\<close>. The
  hash, the base64 encoder and the AEAD cipher are library code and arguments of the
  definitions; a byte string is a \<open>string\<close> whose characters are the bytes. The lemmas show
  that the constant-time comparison decides equality, that the UTF-8 codec round-trips
  and that what the box seals it opens, given the cipher's law.
\<close>

section \<open>UTF-8\<close>

definition utf8_char :: "char \<Rightarrow> string" where
  "utf8_char c =
     (if is_ascii c then [c]
      else [char_of (192 + code c div 64), char_of (128 + code c mod 64)])"

definition as_bytes :: "string \<Rightarrow> string" where
  "as_bytes s = concat (map utf8_char s)"

text \<open>\<open>String::from_utf8\<close>, on the encodings of U+0000 to U+00FF.\<close>

fun from_utf8 :: "string \<Rightarrow> string option" where
  "from_utf8 [] = Some []"
| "from_utf8 (b # bs) =
     (if code b < 128 then map_option ((#) b) (from_utf8 bs)
      else if code b = 194 \<or> code b = 195 then
        (case bs of
           [] \<Rightarrow> None
         | b2 # bs' \<Rightarrow>
             if 128 \<le> code b2 \<and> code b2 < 192
             then map_option ((#) (char_of ((code b - 192) * 64 + (code b2 - 128)))) (from_utf8 bs')
             else None)
      else None)"

section \<open>Tokens (oauth/mod.rs)\<close>

definition token_hash :: "(string \<Rightarrow> string) \<Rightarrow> (string \<Rightarrow> string) \<Rightarrow> string \<Rightarrow> string" where
  "token_hash b64url sha256 token = b64url (sha256 (as_bytes token))"

text \<open>The loop of the constant-time comparison, over unsigned bytes.\<close>

fun ct_diff :: "8 word \<Rightarrow> string \<Rightarrow> string \<Rightarrow> 8 word" where
  "ct_diff diff (x # xs) (y # ys) = ct_diff (diff OR (of_char x XOR of_char y)) xs ys"
| "ct_diff diff _ _ = diff"

definition ct_eq :: "string \<Rightarrow> string \<Rightarrow> bool" where
  "ct_eq a b = (if length a \<noteq> length b then False else ct_diff 0 a b = 0)"

definition verify_pkce_s256 :: "(string \<Rightarrow> string) \<Rightarrow> (string \<Rightarrow> string) \<Rightarrow> string \<Rightarrow> string \<Rightarrow> bool" where
  "verify_pkce_s256 b64url sha256 verifier challenge =
     ct_eq (as_bytes (b64url (sha256 (as_bytes verifier)))) (as_bytes challenge)"

section \<open>Secret box (crypto.rs)\<close>

record sealed =
  sl_nonce :: string
  sl_ciphertext :: string

record secret_box =
  sb_encrypt :: "string \<Rightarrow> string \<Rightarrow> string option"
  sb_decrypt :: "string \<Rightarrow> string \<Rightarrow> string option"

definition NONCE_LEN :: nat where
  "NONCE_LEN = 24"

definition seal :: "secret_box \<Rightarrow> string \<Rightarrow> string \<Rightarrow> sealed res" where
  "seal sb nonce plaintext =
     (case sb_encrypt sb nonce plaintext of
        None \<Rightarrow> Inl ''failed to seal secret''
      | Some c \<Rightarrow> Inr \<lparr>sl_nonce = nonce, sl_ciphertext = c\<rparr>)"

definition open_sealed :: "secret_box \<Rightarrow> sealed \<Rightarrow> string res" where
  "open_sealed sb s =
     (if length (sl_nonce s) \<noteq> NONCE_LEN then Inl ''invalid nonce length''
      else (case sb_decrypt sb (sl_nonce s) (sl_ciphertext s) of
              None \<Rightarrow> Inl ''failed to open secret (wrong key or tampered data)''
            | Some p \<Rightarrow> Inr p))"

text \<open>The documented law of the cipher: what was encrypted under a nonce decrypts under it.\<close>

definition cipher_law :: "secret_box \<Rightarrow> bool" where
  "cipher_law sb \<longleftrightarrow> (\<forall>n p c. sb_encrypt sb n p = Some c \<longrightarrow> sb_decrypt sb n c = Some p)"

section \<open>Lemmas\<close>

lemma of_char_byte_inj: "(of_char x :: 8 word) = of_char y \<Longrightarrow> x = y"
proof -
  assume a: "(of_char x :: 8 word) = of_char y"
  have lt: "of_char c < (256::nat)" for c :: char by simp
  have e: "(of_char c :: 8 word) = of_nat (of_char c)" for c
    by (rule of_nat_of_char[symmetric])
  have "unat (of_char x :: 8 word) = unat (of_char y :: 8 word)" using a by simp
  then have "(of_char x :: nat) = of_char y"
    using lt[of x] lt[of y] by (simp only: e unat_of_nat) simp
  then show "x = y" by simp
qed

lemma word_or_eq_0: "(a OR b :: 'a::len word) = 0 \<longleftrightarrow> a = 0 \<and> b = 0"
  by (auto simp: bit_eq_iff bit_simps)

lemma word_xor_eq_0: "(a XOR b :: 'a::len word) = 0 \<longleftrightarrow> a = b"
  by (auto simp: bit_eq_iff bit_simps)

lemma ct_diff_0: "length a = length b \<Longrightarrow> ct_diff d a b = 0 \<longleftrightarrow> d = 0 \<and> a = b"
proof (induction a arbitrary: b d)
  case (Cons x a)
  then obtain y b' where b: "b = y # b'" "length a = length b'" by (cases b) auto
  with Cons.IH[OF b(2)] show ?case
    by (auto simp: word_or_eq_0 word_xor_eq_0 dest: of_char_byte_inj)
qed simp

lemma ct_eq_iff [simp]: "ct_eq a b \<longleftrightarrow> a = b"
  by (auto simp: ct_eq_def ct_diff_0)

lemma code_lt_256: "code c < 256"
  by simp

lemma from_utf8_char: "from_utf8 (utf8_char c @ s) = map_option ((#) c) (from_utf8 s)"
proof (cases "is_ascii c")
  case True
  then show ?thesis by (simp add: utf8_char_def is_ascii_def)
next
  case False
  define n where "n = code c"
  have n: "128 \<le> n" "n < 256" using False by (auto simp: is_ascii_def n_def)
  have "n div 64 = 2 \<or> n div 64 = 3" using n by auto
  then have codes: "code (char_of (192 + n div 64)) = 192 + n div 64"
    "code (char_of (128 + n mod 64)) = 128 + n mod 64"
    using n by (auto simp: of_char_of)
  have "n div 64 * 64 + n mod 64 = n" by simp
  then have "char_of ((192 + n div 64 - 192) * 64 + (128 + n mod 64 - 128)) = c"
    by (simp add: n_def)
  with False codes \<open>n div 64 = 2 \<or> n div 64 = 3\<close> show ?thesis
    unfolding utf8_char_def n_def[symmetric] by auto
qed

lemma from_utf8_as_bytes [simp]: "from_utf8 (as_bytes s) = Some s"
  by (induction s) (simp_all add: as_bytes_def from_utf8_char)

lemma as_bytes_inj: "as_bytes s = as_bytes t \<Longrightarrow> s = t"
  using from_utf8_as_bytes by (metis option.inject)

lemma verify_pkce_iff:
  "verify_pkce_s256 b64url sha256 v c \<longleftrightarrow> token_hash b64url sha256 v = c"
  by (auto simp: verify_pkce_s256_def token_hash_def dest: as_bytes_inj)

lemma open_seal:
  assumes "cipher_law sb" "length n = NONCE_LEN" "seal sb n p = Inr s"
  shows "open_sealed sb s = Inr p"
  using assms by (auto simp: seal_def open_sealed_def cipher_law_def split: option.splits)

section \<open>Properties\<close>

text \<open>The constant-time comparison of the submitted PKCE verifier accepts exactly the
  verifiers whose SHA-256 is the stored challenge, and the comparison itself is equality of
  the two byte strings, whatever their lengths.\<close>

theorem pkce_check_exact:
  "(verify_pkce_s256 b64url sha256 verifier challenge \<longleftrightarrow>
      b64url (sha256 (as_bytes verifier)) = challenge) \<and>
   (ct_eq a b \<longleftrightarrow> a = b)"
  by (simp_all add: verify_pkce_iff token_hash_def)

end
