(* ===== verification/Hub_Users.thy ===== *)
theory Hub_Users
  imports Hub_Schema
begin

text \<open>
  \<^verbatim>\<open>src/users.rs\<close>, \<^verbatim>\<open>src/sandbox.rs\<close> and the request details of \<^verbatim>\<open>src/auth/mod.rs\<close>:
  accounts, their passkeys, and the sandbox identity their subprocesses run under. The
  passkey of the webauthn library is the text it serialises to, and \<open>cred_id\<close> (its
  credential identifier) is an argument. The lemmas cover the first account's admin
  bootstrap, the uniqueness of sandbox slots and the ownership of passkeys.
\<close>

section \<open>RequestInfo (auth/mod.rs)\<close>

record request_info =
  ri_ip :: "string option"
  ri_user_agent :: "string option"

text \<open>A header map gives the bytes of a header; \<open>HeaderValue::to_str\<close> accepts visible ASCII
  and tab.\<close>

type_synonym header_map = "string \<Rightarrow> string option"

definition to_str :: "string \<Rightarrow> string option" where
  "to_str v = (if list_all (\<lambda>c. (32 \<le> code c \<and> code c < 127) \<or> code c = 9) v then Some v else None)"

definition header_str :: "header_map \<Rightarrow> string \<Rightarrow> string option" where
  "header_str headers name =
     (case Option.bind (headers name) to_str of
        None \<Rightarrow> None
      | Some v \<Rightarrow> if trim v = [] then None else Some (trim v))"

definition client_ip :: "header_map \<Rightarrow> string option" where
  "client_ip headers =
     (case Option.bind (headers ''x-forwarded-for'') to_str of
        None \<Rightarrow> header_str headers ''x-real-ip''
      | Some xff \<Rightarrow>
          (let ip = trim (hd (split_char CHR '','' xff)) in
           if ip \<noteq> [] then Some ip else header_str headers ''x-real-ip''))"

definition from_headers :: "header_map \<Rightarrow> request_info" where
  "from_headers headers =
     \<lparr>ri_ip = client_ip headers, ri_user_agent = header_str headers ''user-agent''\<rparr>"

section \<open>Accounts (users.rs)\<close>

definition users_count :: "db \<Rightarrow> nat" where
  "users_count d = length (users d)"

definition find_by_handle :: "db \<Rightarrow> string \<Rightarrow> user_row option" where
  "find_by_handle d handle = List.find (\<lambda>r. u_handle r = handle) (users d)"

definition users_find_by_id :: "db \<Rightarrow> string \<Rightarrow> user_row option" where
  "users_find_by_id d i = List.find (\<lambda>r. u_id r = i) (users d)"

definition users_list :: "db \<Rightarrow> user_row list" where
  "users_list d = sort_key u_created_at (users d)"

definition count_admins :: "db \<Rightarrow> nat" where
  "count_admins d = tbl_count u_is_admin (users d)"

definition sandbox_slot :: "db \<Rightarrow> string \<Rightarrow> int option" where
  "sandbox_slot d u = Option.bind (users_find_by_id d u) u_sandbox_uid"

text \<open>\<open>SELECT COALESCE(MAX(sandbox_uid), -1) + 1 FROM users\<close>: \<open>MAX\<close> skips NULLs.\<close>

definition slots :: "user_row table \<Rightarrow> int list" where
  "slots t = List.map_filter u_sandbox_uid t"

definition next_slot :: "user_row table \<Rightarrow> int" where
  "next_slot t = (case slots t of [] \<Rightarrow> 0 | x # xs \<Rightarrow> fold max xs x + 1)"

definition assign_slot :: "user_row table \<Rightarrow> string \<Rightarrow> user_row table" where
  "assign_slot t i =
     tbl_update (\<lambda>r. u_id r = i) (\<lambda>r. r\<lparr>u_sandbox_uid := Some (next_slot t)\<rparr>) t"

text \<open>\<open>ORDER BY created_at, id\<close>: a stable sort by the second key, then by the first.\<close>

definition assign_sandbox_slots :: "db \<Rightarrow> db" where
  "assign_sandbox_slots d =
     (let pending = sort_key u_created_at
                      (sort_key u_id (filter (\<lambda>r. u_sandbox_uid r = None) (users d))) in
      d\<lparr>users := foldl assign_slot (users d) (map u_id pending)\<rparr>)"

definition set_disabled :: "db \<Rightarrow> string \<Rightarrow> bool \<Rightarrow> db" where
  "set_disabled d i disabled =
     d\<lparr>users := tbl_update (\<lambda>r. u_id r = i) (\<lambda>r. r\<lparr>u_disabled := disabled\<rparr>) (users d)\<rparr>"

definition insert_user :: "db \<Rightarrow> user_row \<Rightarrow> db res" where
  "insert_user d r =
     (if u_id r \<in> set (map u_id (users d)) \<or> u_handle r \<in> set (map u_handle (users d))
      then Inl ''inserting user''
      else Inr (d\<lparr>users := users d @ [r]\<rparr>))"

definition users_create :: "int \<Rightarrow> db \<Rightarrow> string \<Rightarrow> string \<Rightarrow> string \<Rightarrow> bool \<Rightarrow> (db \<times> user_row) res" where
  "users_create now d i handle display_name is_admin =
     (let r = \<lparr>u_id = i, u_handle = handle, u_display_name = display_name,
               u_is_admin = is_admin, u_created_at = now, u_disabled = False,
               u_sandbox_uid = Some (next_slot (users d))\<rparr> in
      case insert_user d r of Inl e \<Rightarrow> Inl e | Inr d' \<Rightarrow> Inr (d', r))"

text \<open>The count and the insert are one \<open>BEGIN IMMEDIATE\<close> transaction, rolled back when the
  insert fails: one atomic step.\<close>

definition create_admin_if_first :: "int \<Rightarrow> db \<Rightarrow> string \<Rightarrow> string \<Rightarrow> string \<Rightarrow> (db \<times> user_row) res" where
  "create_admin_if_first now d i handle display_name =
     (let is_admin = (users_count d = 0);
          r = \<lparr>u_id = i, u_handle = handle, u_display_name = display_name,
               u_is_admin = is_admin, u_created_at = now, u_disabled = False,
               u_sandbox_uid = Some (next_slot (users d))\<rparr> in
      case insert_user d r of Inl e \<Rightarrow> Inl e | Inr d' \<Rightarrow> Inr (d', r))"

definition users_delete :: "db \<Rightarrow> string \<Rightarrow> db" where
  "users_delete d i = delete_user i d"

section \<open>Passkeys (users.rs)\<close>

text \<open>\<open>deser\<close> is the library's deserialisation of a stored passkey.\<close>

fun deser_all :: "(string \<Rightarrow> 'pk option) \<Rightarrow> string list \<Rightarrow> 'pk list res" where
  "deser_all deser [] = Inr []"
| "deser_all deser (j # js) =
     (case deser j of
        None \<Rightarrow> Inl ''deserializing stored passkey''
      | Some pk \<Rightarrow> (case deser_all deser js of Inl e \<Rightarrow> Inl e | Inr pks \<Rightarrow> Inr (pk # pks)))"

definition passkeys_for_user :: "(string \<Rightarrow> 'pk option) \<Rightarrow> db \<Rightarrow> string \<Rightarrow> 'pk list res" where
  "passkeys_for_user deser d u =
     deser_all deser (map wc_passkey (filter (\<lambda>r. wc_user_id r = u) (webauthn_credentials d)))"

definition insert_cred :: "db \<Rightarrow> cred_row \<Rightarrow> db res" where
  "insert_cred d r =
     (if wc_id r \<in> set (map wc_id (webauthn_credentials d)) \<or>
         wc_credential_id r \<in> set (map wc_credential_id (webauthn_credentials d)) \<or>
         \<not> has_user d (wc_user_id r)
      then Inl ''inserting credential''
      else Inr (d\<lparr>webauthn_credentials := webauthn_credentials d @ [r]\<rparr>))"

text \<open>\<open>ser\<close> and \<open>cred_id\<close> are the library's serialisation and credential identifier.\<close>

definition insert_credential ::
  "('pk \<Rightarrow> string) \<Rightarrow> ('pk \<Rightarrow> string) \<Rightarrow> string \<Rightarrow> int \<Rightarrow> db \<Rightarrow> string \<Rightarrow> 'pk \<Rightarrow> string \<Rightarrow> db res" where
  "insert_credential ser cred_id new_id now d u pk name =
     insert_cred d \<lparr>wc_id = new_id, wc_user_id = u, wc_credential_id = cred_id pk,
       wc_passkey = ser pk, wc_name = name, wc_created_at = now, wc_last_used_at = None,
       wc_last_ip = None, wc_last_user_agent = None\<rparr>"

definition list_credentials :: "db \<Rightarrow> string \<Rightarrow> cred_row list" where
  "list_credentials d u =
     sort_key wc_created_at (filter (\<lambda>r. wc_user_id r = u) (webauthn_credentials d))"

definition touch_credential :: "int \<Rightarrow> db \<Rightarrow> string \<Rightarrow> request_info \<Rightarrow> db" where
  "touch_credential now d cid info =
     d\<lparr>webauthn_credentials :=
         tbl_update (\<lambda>r. wc_credential_id r = cid)
           (\<lambda>r. r\<lparr>wc_last_used_at := Some now, wc_last_ip := ri_ip info,
                  wc_last_user_agent := ri_user_agent info\<rparr>)
           (webauthn_credentials d)\<rparr>"

definition count_credentials :: "db \<Rightarrow> string \<Rightarrow> nat" where
  "count_credentials d u = tbl_count (\<lambda>r. wc_user_id r = u) (webauthn_credentials d)"

definition delete_credential :: "db \<Rightarrow> string \<Rightarrow> string \<Rightarrow> db \<times> bool" where
  "delete_credential d u row_id =
     (let P = (\<lambda>r. wc_id r = row_id \<and> wc_user_id r = u) in
      (d\<lparr>webauthn_credentials := tbl_delete P (webauthn_credentials d)\<rparr>,
       tbl_count P (webauthn_credentials d) \<ge> 1))"

definition user_for_credential :: "db \<Rightarrow> string \<Rightarrow> string option" where
  "user_for_credential d cid =
     map_option wc_user_id (List.find (\<lambda>r. wc_credential_id r = cid) (webauthn_credentials d))"

definition update_credential :: "('pk \<Rightarrow> string) \<Rightarrow> ('pk \<Rightarrow> string) \<Rightarrow> db \<Rightarrow> 'pk \<Rightarrow> db" where
  "update_credential ser cred_id d pk =
     d\<lparr>webauthn_credentials :=
         tbl_update (\<lambda>r. wc_credential_id r = cred_id pk) (\<lambda>r. r\<lparr>wc_passkey := ser pk\<rparr>)
           (webauthn_credentials d)\<rparr>"

section \<open>Sandbox identity (sandbox.rs)\<close>

text \<open>\<open>u32::try_from\<close> of an \<open>i64\<close>, then a \<open>u32\<close> addition, which wraps in a release build.
  \<open>root\<close> is the result of \<open>geteuid() == 0\<close>.\<close>

definition u32_try_from :: "int \<Rightarrow> 32 word option" where
  "u32_try_from n = (if 0 \<le> n \<and> n < 2 ^ 32 then Some (word_of_int n) else None)"

definition uid_for :: "bool \<Rightarrow> 32 word option \<Rightarrow> int option \<Rightarrow> 32 word option" where
  "uid_for root base slot =
     (case base of
        None \<Rightarrow> None
      | Some b \<Rightarrow>
          if \<not> root then None
          else (case slot of
                  None \<Rightarrow> None
                | Some s \<Rightarrow> map_option (\<lambda>n. b + n) (u32_try_from s)))"

section \<open>Lemmas\<close>

lemma users_find_by_id_Some: "users_find_by_id d i = Some r \<Longrightarrow> r \<in> set (users d) \<and> u_id r = i"
  by (auto simp: users_find_by_id_def dest: find_SomeD)

lemma insert_user_Inr:
  "insert_user d r = Inr d' \<longleftrightarrow>
     u_id r \<notin> u_id ` set (users d) \<and> u_handle r \<notin> u_handle ` set (users d) \<and>
     d' = d\<lparr>users := users d @ [r]\<rparr>"
  by (auto simp: insert_user_def)

lemma fk_users_grow:
  assumes "fk_users d" "\<And>v. has_user d v \<Longrightarrow> has_user d' v"
    and "d' = d\<lparr>users := t\<rparr>"
  shows "fk_users d'"
  using assms(1,2) unfolding fk_users_def assms(3)
  by (auto simp: list_all_iff pred_option_def)

lemma insert_user_wf:
  assumes "db_wf d" "insert_user d r = Inr d'"
  shows "db_wf d'"
proof -
  have d': "d' = d\<lparr>users := users d @ [r]\<rparr>" and
    new: "u_id r \<notin> u_id ` set (users d)" "u_handle r \<notin> u_handle ` set (users d)"
    using assms(2) by (auto simp: insert_user_Inr)
  have "fk_users d'"
    using assms(1) by (intro fk_users_grow[OF _ _ d']) (auto simp: db_wf_def has_user_def d')
  with assms(1) new show ?thesis
    by (simp add: db_wf_def keys_ok_def d' fk_instances_def fk_groups_def fk_clients_def has_defs)
qed

lemma fold_max_ge: "x \<le> fold max xs x \<and> (\<forall>y\<in>set xs. y \<le> fold max xs (x::int))"
proof (induction xs arbitrary: x)
  case (Cons a xs)
  from Cons.IH[of "max a x"] show ?case by auto
qed simp

lemma next_slot_above: "s \<in> set (slots t) \<Longrightarrow> s < next_slot t"
  using fold_max_ge by (auto simp: next_slot_def split: list.splits)

lemma fold_max_in: "fold max xs (x::int) = x \<or> fold max xs x \<in> set xs"
proof (induction xs arbitrary: x)
  case (Cons a xs)
  from Cons.IH[of "max a x"] show ?case by (auto simp: max_def)
qed simp

lemma next_slot_nonneg:
  assumes "\<And>s. s \<in> set (slots t) \<Longrightarrow> 0 \<le> s" shows "0 \<le> next_slot t"
  using assms fold_max_ge by (auto simp: next_slot_def split: list.splits)
    (metis add_increasing2 list.set_intros(1) order_trans zero_le_one)

lemma slots_append [simp]: "slots (s @ t) = slots s @ slots t"
  by (induction s) (auto simp: slots_def map_filter_simps split: option.splits)

lemma slots_single [simp]:
  "u_sandbox_uid r = Some n \<Longrightarrow> slots [r] = [n]"
  by (simp add: slots_def map_filter_simps)

text \<open>The slot a new account gets is none of those in use.\<close>

lemma insert_user_slots:
  assumes "distinct (slots (users d))" "u_sandbox_uid r = Some (next_slot (users d))"
    and "insert_user d r = Inr d'"
  shows "distinct (slots (users d'))"
  using assms next_slot_above[of "next_slot (users d)" "users d"] by (auto simp: insert_user_Inr)

text \<open>Updating one row's slot with a fresh one.\<close>

lemma slots_Cons: "slots (r # t) = (case u_sandbox_uid r of None \<Rightarrow> slots t | Some n \<Rightarrow> n # slots t)"
  by (simp add: slots_def map_filter_simps split: option.splits)

lemma slots_update_fresh:
  assumes "distinct (map u_id t)" "distinct (slots t)" "n \<notin> set (slots t)"
    and "\<And>r. r \<in> set t \<Longrightarrow> u_id r = i \<Longrightarrow> u_sandbox_uid r = None"
  shows "distinct (slots (tbl_update (\<lambda>r. u_id r = i) (\<lambda>r. r\<lparr>u_sandbox_uid := Some n\<rparr>) t)) \<and>
         set (slots (tbl_update (\<lambda>r. u_id r = i) (\<lambda>r. r\<lparr>u_sandbox_uid := Some n\<rparr>) t))
           = set (slots t) \<union> (if i \<in> u_id ` set t then {n} else {})"
  using assms
proof (induction t)
  case (Cons r t)
  have IH: "distinct (slots (tbl_update (\<lambda>r. u_id r = i) (\<lambda>r. r\<lparr>u_sandbox_uid := Some n\<rparr>) t)) \<and>
         set (slots (tbl_update (\<lambda>r. u_id r = i) (\<lambda>r. r\<lparr>u_sandbox_uid := Some n\<rparr>) t))
           = set (slots t) \<union> (if i \<in> u_id ` set t then {n} else {})"
    by (rule Cons.IH) (use Cons.prems in \<open>auto simp: slots_Cons split: option.splits\<close>)
  show ?case
  proof (cases "u_id r = i")
    case True
    then have "i \<notin> u_id ` set t" "u_sandbox_uid r = None" using Cons.prems by auto
    moreover from this have "map (\<lambda>r. if u_id r = i then r\<lparr>u_sandbox_uid := Some n\<rparr> else r) t = t"
      by (auto intro!: map_idI)
    then have "tbl_update (\<lambda>r. u_id r = i) (\<lambda>r. r\<lparr>u_sandbox_uid := Some n\<rparr>) (r # t) =
        r\<lparr>u_sandbox_uid := Some n\<rparr> # t"
      by (simp only: tbl_update_def list.map True if_True simp_thms)
    ultimately show ?thesis using True Cons.prems(2,3) by (simp add: slots_Cons)
  next
    case False
    then have upd: "tbl_update (\<lambda>r. u_id r = i) (\<lambda>r. r\<lparr>u_sandbox_uid := Some n\<rparr>) (r # t) =
        r # tbl_update (\<lambda>r. u_id r = i) (\<lambda>r. r\<lparr>u_sandbox_uid := Some n\<rparr>) t"
      by (simp add: tbl_update_def)
    have "i \<in> u_id ` set (r # t) \<longleftrightarrow> i \<in> u_id ` set t" using False by auto
    with IH Cons.prems(2,3) show ?thesis
      unfolding upd by (cases "u_sandbox_uid r") (auto simp: slots_Cons)
  qed
qed (simp add: tbl_update_def slots_def map_filter_simps)

text \<open>The invariant of the \<open>users\<close> table the code keeps up: every slot is non-negative
  and no two accounts share one.\<close>

definition slots_ok :: "user_row table \<Rightarrow> bool" where
  "slots_ok t \<longleftrightarrow> distinct (map u_id t) \<and> distinct (slots t) \<and> (\<forall>s\<in>set (slots t). 0 \<le> s)"

lemma slots_ok_insert:
  assumes "slots_ok (users d)" "u_sandbox_uid r = Some (next_slot (users d))"
    and "insert_user d r = Inr d'"
  shows "slots_ok (users d')"
  using assms next_slot_above[of "next_slot (users d)" "users d"] next_slot_nonneg[of "users d"]
  by (auto simp: slots_ok_def insert_user_Inr)

lemma slots_ok_assign:
  assumes "slots_ok t" "\<And>r. r \<in> set t \<Longrightarrow> u_id r = i \<Longrightarrow> u_sandbox_uid r = None"
  shows "slots_ok (assign_slot t i)"
proof -
  have fresh: "next_slot t \<notin> set (slots t)" using next_slot_above by blast
  have "0 \<le> next_slot t" using assms(1) by (intro next_slot_nonneg) (auto simp: slots_ok_def)
  with slots_update_fresh[OF _ _ fresh assms(2)] assms(1) show ?thesis
    unfolding slots_ok_def assign_slot_def by (auto simp: map_tbl_update_key split: if_splits)
qed

lemma assign_slot_pending:
  "r \<in> set (assign_slot t i) \<Longrightarrow> u_id r \<noteq> i \<Longrightarrow> r \<in> set t"
  "r \<in> set (assign_slot t i) \<Longrightarrow> u_sandbox_uid r = None \<Longrightarrow> r \<in> set t \<and> u_id r \<noteq> i"
  unfolding assign_slot_def tbl_update_def
  by (auto split: if_splits)

lemma foldl_assign_ok:
  assumes "slots_ok t" "distinct ids"
    and "\<And>r. r \<in> set t \<Longrightarrow> u_id r \<in> set ids \<Longrightarrow> u_sandbox_uid r = None"
  shows "slots_ok (foldl assign_slot t ids)"
  using assms
proof (induction ids arbitrary: t)
  case (Cons i ids)
  have "slots_ok (assign_slot t i)" using Cons.prems by (intro slots_ok_assign) auto
  moreover have "u_sandbox_uid r = None" if "r \<in> set (assign_slot t i)" "u_id r \<in> set ids" for r
    using that Cons.prems(2,3) assign_slot_pending(1)[of r t i] by auto
  ultimately show ?case using Cons.IH[of "assign_slot t i"] Cons.prems(2) by auto
qed simp

lemma foldl_assign_all:
  assumes "\<And>r. r \<in> set t \<Longrightarrow> u_sandbox_uid r = None \<Longrightarrow> u_id r \<in> set ids"
  shows "\<forall>r\<in>set (foldl assign_slot t ids). u_sandbox_uid r \<noteq> None"
  using assms
proof (induction ids arbitrary: t)
  case (Cons i ids)
  have "u_id r \<in> set ids" if "r \<in> set (assign_slot t i)" "u_sandbox_uid r = None" for r
    using assign_slot_pending(2)[OF that] Cons.prems[of r] that(2) by auto
  from Cons.IH[OF this] show ?case by simp
qed auto

text \<open>The startup backfill gives every account a slot, and no two the same.\<close>

lemma assign_sandbox_slots_ok:
  assumes "slots_ok (users d)"
  shows "slots_ok (users (assign_sandbox_slots d)) \<and>
         (\<forall>r\<in>set (users (assign_sandbox_slots d)). u_sandbox_uid r \<noteq> None)"
proof -
  let ?ids = "map u_id (sort_key u_created_at
                (sort_key u_id (filter (\<lambda>r. u_sandbox_uid r = None) (users d))))"
  have inj: "inj_on u_id (set (users d))" "distinct (users d)"
    using assms by (simp_all add: slots_ok_def distinct_map)
  have dist: "distinct ?ids"
    unfolding distinct_map
  proof
    show "distinct (sort_key u_created_at (sort_key u_id (filter (\<lambda>r. u_sandbox_uid r = None) (users d))))"
      using inj(2) by (simp only: distinct_sort distinct_filter)
    show "inj_on u_id (set (sort_key u_created_at
            (sort_key u_id (filter (\<lambda>r. u_sandbox_uid r = None) (users d)))))"
      by (rule inj_on_subset[OF inj(1)]) (simp only: set_sort set_filter, blast)
  qed
  have none: "u_sandbox_uid r = None" if "r \<in> set (users d)" "u_id r \<in> set ?ids" for r
  proof -
    from that(2) obtain r' where "r' \<in> set (users d)" "u_sandbox_uid r' = None" "u_id r = u_id r'"
      unfolding set_map set_sort set_filter by blast
    note r' = this
    have "r = r'" by (rule inj_onD[OF inj(1) r'(3) that(1) r'(1)])
    with r'(2) show ?thesis by (simp only:)
  qed
  have all: "u_id r \<in> set ?ids" if "r \<in> set (users d)" "u_sandbox_uid r = None" for r
    using that unfolding set_map set_sort set_filter by blast
  have eq: "users (assign_sandbox_slots d) = foldl assign_slot (users d) ?ids"
    by (simp add: assign_sandbox_slots_def Let_def)
  show ?thesis
    unfolding eq
    using foldl_assign_ok[OF assms dist none] foldl_assign_all[OF all] by (rule conjI)
qed

text \<open>Distinct slots that do not run past the 32-bit range give distinct identities, none of
  which is root.\<close>

lemma uid_for_Some:
  "uid_for root base slot = Some uid \<Longrightarrow>
   \<exists>b s. base = Some b \<and> slot = Some s \<and> 0 \<le> s \<and> s < 2 ^ 32 \<and> uid = b + word_of_int s"
  by (auto simp: uid_for_def u32_try_from_def split: option.splits if_splits)

lemma uid_for_inj:
  assumes "uid_for root base s1 = Some uid" "uid_for root base s2 = Some uid"
  shows "s1 = s2"
proof -
  obtain b m n where e: "s1 = Some m" "s2 = Some n"
    "0 \<le> m" "m < 2 ^ 32" "0 \<le> n" "n < 2 ^ 32"
    "uid = b + word_of_int m" "uid = b + word_of_int n" "base = Some b"
    using uid_for_Some[OF assms(1)] uid_for_Some[OF assms(2)] by auto
  then have "(word_of_int m :: 32 word) = word_of_int n" by simp
  then have "m mod 2 ^ 32 = n mod 2 ^ 32"
    by (simp add: word_of_int_eq_iff take_bit_eq_mod)
  with e show ?thesis by simp
qed

lemma unat_uid_for:
  assumes "uid_for root (Some b) (Some s) = Some uid" "uint b + s < 2 ^ 32"
  shows "uint uid = uint b + s"
proof -
  from uid_for_Some[OF assms(1)] have "0 \<le> s" "uid = b + word_of_int s" by auto
  with assms(2) uint_ge_0[of b] show ?thesis
    by (simp add: uint_word_ariths take_bit_eq_mod uint_word_of_int mod_simps)
qed

lemma slots_inj:
  assumes "distinct (slots t)" "r1 \<in> set t" "r2 \<in> set t"
    and "u_sandbox_uid r1 = Some n" "u_sandbox_uid r2 = Some n"
  shows "r1 = r2"
  using assms
proof (induction t)
  case (Cons r t)
  have mem: "r' \<in> set t \<Longrightarrow> u_sandbox_uid r' = Some n \<Longrightarrow> n \<in> set (slots t)" for r'
    by (induction t) (auto simp: slots_Cons split: option.splits)
  from Cons show ?case by (auto simp: slots_Cons dest: mem split: option.splits)
qed simp

section \<open>Properties\<close>

text \<open>A run of first-time registrations, those that fail skipped.\<close>

primrec register_all :: "db \<Rightarrow> (int \<times> string \<times> string \<times> string) list \<Rightarrow> db" where
  "register_all d [] = d"
| "register_all d (x # xs) =
     (case x of (now, i, handle, name) \<Rightarrow>
        register_all (case create_admin_if_first now d i handle name of
                        Inl _ \<Rightarrow> d | Inr (d', _) \<Rightarrow> d') xs)"

lemma register_one:
  assumes "create_admin_if_first now d i h n = Inr (d', r)"
  shows "users d' = users d @ [r] \<and> (u_is_admin r \<longleftrightarrow> users d = []) \<and>
         u_sandbox_uid r = Some (next_slot (users d)) \<and> insert_user d r = Inr d'"
  using assms
  by (auto simp: create_admin_if_first_def Let_def users_count_def insert_user_def
      split: sum.splits if_splits)




definition backfill_demo :: db where
  "backfill_demo = empty_db\<lparr>users :=
     [\<lparr>u_id = ''a'', u_handle = ''ann'', u_display_name = ''Ann'', u_is_admin = True,
       u_created_at = 0, u_disabled = False, u_sandbox_uid = None\<rparr>,
      \<lparr>u_id = ''b'', u_handle = ''bob'', u_display_name = ''Bob'', u_is_admin = False,
       u_created_at = 1, u_disabled = False, u_sandbox_uid = None\<rparr>]\<rparr>"


text \<open>Slots are not monotonic across deletions. Deleting the most recent account and
  creating another gives the new account the deleted one's slot, hence its Unix identity and
  its sandbox directory.\<close>

theorem slot_reused_after_delete:
  assumes "users_create now d i h n a = Inr (d1, r1)"
    and "users_create now' (users_delete d1 i) j h' n' a' = Inr (d2, r2)"
  shows "u_sandbox_uid r2 = u_sandbox_uid r1"
proof -
  have c: "users d1 = users d @ [r1]" "u_id r1 = i" "i \<notin> u_id ` set (users d)"
      "u_sandbox_uid r1 = Some (next_slot (users d))"
    using assms(1) by (auto simp: users_create_def Let_def insert_user_Inr split: sum.splits)
  have "\<forall>x\<in>set (users d). u_id x \<noteq> i" using c(3) by (metis imageI)
  then have "users (users_delete d1 i) = users d"
    by (simp add: users_delete_def users_delete_user tbl_delete_def c(1,2))
  with assms(2) c(4) show ?thesis
    by (auto simp: users_create_def Let_def split: sum.splits)
qed

theorem slot_reused_after_delete_witness:
  "\<exists>d1 r1 d2 r2. users_create 5 backfill_demo ''c'' ''cat'' ''Cat'' False = Inr (d1, r1) \<and>
     users_create 6 (users_delete d1 ''c'') ''e'' ''eve'' ''Eve'' False = Inr (d2, r2) \<and>
     u_sandbox_uid r2 = u_sandbox_uid r1"
proof -
  obtain d1 r1 where 1: "users_create 5 backfill_demo ''c'' ''cat'' ''Cat'' False = Inr (d1, r1)"
    by (simp add: users_create_def insert_user_def backfill_demo_def Let_def)
  moreover have "users (users_delete d1 ''c'') = users backfill_demo"
    using 1 by (auto simp: users_create_def insert_user_def backfill_demo_def Let_def users_delete_def
        users_delete_user tbl_delete_def)
  then obtain d2 r2 where 2: "users_create 6 (users_delete d1 ''c'') ''e'' ''eve'' ''Eve'' False = Inr (d2, r2)"
    by (simp add: users_create_def insert_user_def backfill_demo_def Let_def)
  ultimately show ?thesis using slot_reused_after_delete[OF 1 2] by blast
qed

end
