(* ===== verification/Hub_Invites.thy ===== *)
theory Hub_Invites
  imports Hub_Users Hub_Crypto
begin

text \<open>
  \<^verbatim>\<open>src/invites.rs\<close>: single-use registration and recovery codes, stored by hash. The hash of
  a code (\<open>token_hash\<close>) is the argument \<open>th\<close>; the generated code is an argument too. A code
  is a one-time credential (interpretation \<open>invite\<close>).
\<close>

section \<open>Operations\<close>

definition iv_short_id :: "invite_row \<Rightarrow> string" where
  "iv_short_id r = take (min (length (iv_code_hash r)) 12) (iv_code_hash r)"

definition insert_invite :: "string \<Rightarrow> db \<Rightarrow> invite_row \<Rightarrow> db res" where
  "insert_invite err d r =
     (if iv_code_hash r \<in> set (map iv_code_hash (invites d)) \<or>
         \<not> pred_option (has_user d) (iv_created_by r) \<or>
         \<not> pred_option (has_user d) (iv_recovery_user_id r)
      then Inl err
      else Inr (d\<lparr>invites := invites d @ [r]\<rparr>))"

definition invites_create ::
  "(string \<Rightarrow> string) \<Rightarrow> int \<Rightarrow> string \<Rightarrow> db \<Rightarrow> string \<Rightarrow> string \<Rightarrow> (db \<times> string \<times> invite_row) res" where
  "invites_create th now generated d created_by note =
     (let r = \<lparr>iv_code_hash = th generated, iv_note = note, iv_created_by = Some created_by,
               iv_created_at = now, iv_used_at = None, iv_used_by = None,
               iv_recovery_user_id = None\<rparr> in
      case insert_invite ''inserting invite'' d r of
        Inl e \<Rightarrow> Inl e
      | Inr d' \<Rightarrow> Inr (d', generated, r))"

definition create_recovery ::
  "(string \<Rightarrow> string) \<Rightarrow> int \<Rightarrow> string \<Rightarrow> db \<Rightarrow> string \<Rightarrow> string \<Rightarrow> (db \<times> string \<times> invite_row) res" where
  "create_recovery th now generated d created_by recovery_user_id =
     (let r = \<lparr>iv_code_hash = th generated, iv_note = ''account recovery'',
               iv_created_by = Some created_by, iv_created_at = now, iv_used_at = None,
               iv_used_by = None, iv_recovery_user_id = Some recovery_user_id\<rparr> in
      case insert_invite ''inserting recovery code'' d r of
        Inl e \<Rightarrow> Inl e
      | Inr d' \<Rightarrow> Inr (d', generated, r))"

definition is_redeemable :: "(string \<Rightarrow> string) \<Rightarrow> db \<Rightarrow> string \<Rightarrow> bool" where
  "is_redeemable th d c =
     (let hash = th (trim c) in
      tbl_count (\<lambda>r. iv_code_hash r = hash \<and> iv_used_at r = None \<and> iv_recovery_user_id r = None)
        (invites d) = 1)"

definition is_recovery_redeemable :: "(string \<Rightarrow> string) \<Rightarrow> db \<Rightarrow> string \<Rightarrow> string \<Rightarrow> bool" where
  "is_recovery_redeemable th d c user_id =
     (let hash = th (trim c) in
      tbl_count (\<lambda>r. iv_code_hash r = hash \<and> iv_used_at r = None \<and>
                     iv_recovery_user_id r = Some user_id) (invites d) = 1)"

text \<open>The conditional \<open>UPDATE\<close> by hash, then the test of the number of rows it changed. The
  database refuses a \<open>used_by\<close> that is no user.\<close>

definition redeem_hash :: "int \<Rightarrow> db \<Rightarrow> string \<Rightarrow> string \<Rightarrow> db res" where
  "redeem_hash now d hash user_id =
     (let P = (\<lambda>r. iv_code_hash r = hash \<and> iv_used_at r = None);
          n = tbl_count P (invites d) in
      if n > 0 \<and> \<not> has_user d user_id then Inl ''redeeming invite''
      else if n = 1 then
        Inr (d\<lparr>invites := tbl_update P (\<lambda>r. r\<lparr>iv_used_at := Some now, iv_used_by := Some user_id\<rparr>)
                 (invites d)\<rparr>)
      else Inl ''invite code is invalid or has already been used'')"

definition redeem :: "(string \<Rightarrow> string) \<Rightarrow> int \<Rightarrow> db \<Rightarrow> string \<Rightarrow> string \<Rightarrow> db res" where
  "redeem th now d c user_id = redeem_hash now d (th (trim c)) user_id"

definition invites_list :: "db \<Rightarrow> invite_row list" where
  "invites_list d = sort_key (\<lambda>r. - iv_created_at r) (invites d)"

text \<open>\<open>substr(code_hash, 1, n)\<close> is the prefix of \<open>n\<close> characters; \<open>n\<close> is the length of the short
  identifier in bytes.\<close>

definition invites_revoke :: "db \<Rightarrow> string \<Rightarrow> db \<times> bool" where
  "invites_revoke d short_id =
     (let P = (\<lambda>r. iv_used_at r = None \<and> take (utf8_len short_id) (iv_code_hash r) = short_id) in
      (d\<lparr>invites := tbl_delete P (invites d)\<rparr>, tbl_count P (invites d) \<ge> 1))"

section \<open>A code is honoured at most once\<close>

definition unspent :: "db \<Rightarrow> string \<Rightarrow> bool" where
  "unspent d h \<longleftrightarrow> (\<exists>r\<in>set (invites d). iv_code_hash r = h \<and> iv_used_at r = None)"

definition present_code :: "db \<Rightarrow> int \<times> string \<Rightarrow> string \<Rightarrow> db \<times> bool" where
  "present_code d x h =
     (case redeem_hash (fst x) d h (snd x) of Inl _ \<Rightarrow> (d, False) | Inr d' \<Rightarrow> (d', True))"

lemma redeem_hash_Inr:
  "redeem_hash now d h u = Inr d' \<Longrightarrow>
     has_user d u \<and> unspent d h \<and>
     d' = d\<lparr>invites := tbl_update (\<lambda>r. iv_code_hash r = h \<and> iv_used_at r = None)
              (\<lambda>r. r\<lparr>iv_used_at := Some now, iv_used_by := Some u\<rparr>) (invites d)\<rparr>"
  unfolding redeem_hash_def Let_def unspent_def tbl_count_pos[symmetric]
  by (auto split: if_splits)

lemma redeem_hash_unspent:
  assumes "redeem_hash now d h u = Inr d'"
  shows "unspent d' k \<longleftrightarrow> unspent d k \<and> k \<noteq> h"
  using redeem_hash_Inr[OF assms] by (auto simp: unspent_def ex_tbl_update)

interpretation invite: one_time_store unspent present_code "\<lambda>d. distinct (map iv_code_hash (invites d))"
proof unfold_locales
  fix d :: db and x :: "int \<times> string" and h j :: string
  show "snd (present_code d x h) \<Longrightarrow> unspent d h"
    by (auto simp: present_code_def dest: redeem_hash_Inr split: sum.splits)
  show "snd (present_code d x h) \<Longrightarrow> \<not> unspent (fst (present_code d x h)) h"
    by (auto simp: present_code_def redeem_hash_unspent split: sum.splits)
  show "unspent (fst (present_code d x h)) j \<Longrightarrow> unspent d j"
    by (auto simp: present_code_def redeem_hash_unspent split: sum.splits)
  show "j \<noteq> h \<Longrightarrow> unspent (fst (present_code d x h)) j \<longleftrightarrow> unspent d j"
    by (auto simp: present_code_def redeem_hash_unspent split: sum.splits)
  show "distinct (map iv_code_hash (invites (fst (present_code d x h))))"
    if "distinct (map iv_code_hash (invites d))"
    using that by (auto simp: present_code_def map_tbl_update_key dest!: redeem_hash_Inr split: sum.splits)
qed

text \<open>A well-formed store honours a code exactly when it is unspent and the redeemer exists.\<close>

lemma redeem_hash_ok_iff:
  assumes "distinct (map iv_code_hash (invites d))"
  shows "(\<exists>d'. redeem_hash now d h u = Inr d') \<longleftrightarrow> unspent d h \<and> has_user d u"
proof -
  let ?P = "\<lambda>r. iv_code_hash r = h \<and> iv_used_at r = None"
  have "tbl_count ?P (invites d) \<le> 1"
    using tbl_count_mono[of "invites d" ?P "\<lambda>r. iv_code_hash r = h"] count_key_le_1[OF assms, of h]
    by linarith
  moreover have "0 < tbl_count ?P (invites d) \<longleftrightarrow> unspent d h"
    by (simp add: tbl_count_pos unspent_def)
  ultimately show ?thesis
    unfolding redeem_hash_def Let_def by auto
qed

text \<open>A sequence of redemptions, each with its time, presented code and redeeming user, and
  the hashes of the codes that were honoured.\<close>

primrec redeem_run :: "(string \<Rightarrow> string) \<Rightarrow> db \<Rightarrow> (int \<times> string \<times> string) list \<Rightarrow> db \<times> string list" where
  "redeem_run th d [] = (d, [])"
| "redeem_run th d (a # as) =
     (case redeem th (fst a) d (fst (snd a)) (snd (snd a)) of
        Inl _ \<Rightarrow> redeem_run th d as
      | Inr d' \<Rightarrow> (let (d'', won) = redeem_run th d' as in (d'', th (trim (fst (snd a))) # won)))"

lemma redeem_run_consume_all:
  "redeem_run th d as =
   invite.consume_all d (map (\<lambda>(now, c, u). ((now, u), th (trim c))) as)"
  by (induction as arbitrary: d)
    (auto simp: redeem_def present_code_def split: sum.splits prod.splits)

section \<open>Properties\<close>

text \<open>C19: an invite or recovery code is single use. However many redemptions are attempted, in
  whatever order, by whichever users, with whatever surrounding white space, the code of one
  stored hash is honoured at most once.\<close>

theorem invite_single_use:
  assumes "db_wf d"
  shows "count_list (snd (redeem_run th d attempts)) h \<le> 1"
  unfolding redeem_run_consume_all
  by (rule invite.honoured_at_most_once) (use assms in \<open>simp add: db_wf_def keys_ok_def\<close>)

definition demo_db :: db where
  "demo_db = empty_db\<lparr>
     users := [\<lparr>u_id = ''u1'', u_handle = ''ann'', u_display_name = ''Ann'', u_is_admin = True,
                u_created_at = 0, u_disabled = False, u_sandbox_uid = Some 0\<rparr>,
               \<lparr>u_id = ''u2'', u_handle = ''bob'', u_display_name = ''Bob'', u_is_admin = False,
                u_created_at = 1, u_disabled = False, u_sandbox_uid = Some 1\<rparr>],
     invites := [\<lparr>iv_code_hash = ''h1'', iv_note = [], iv_created_by = Some ''u1'',
                iv_created_at = 5, iv_used_at = None, iv_used_by = None,
                iv_recovery_user_id = None\<rparr>]\<rparr>"

lemma demo_db_wf: "db_wf demo_db"
  by (simp add: demo_db_def db_wf_def keys_ok_def fk_defs has_defs empty_db_def)

theorem invite_single_use_witness:
  "snd (redeem_run id demo_db [(7, ''h1 '', ''u2''), (8, ''h1'', ''u1'')]) = [''h1''] \<and>
   count_list (snd (redeem_run id demo_db [(7, ''h1 '', ''u2''), (8, ''h1'', ''u1'')])) ''h1'' \<le> 1"
proof
  show "snd (redeem_run id demo_db [(7, ''h1 '', ''u2''), (8, ''h1'', ''u1'')]) = [''h1'']"
    by code_simp
qed (rule invite_single_use[OF demo_db_wf])

end
