(* ===== verification/Hub_Tokens.thy ===== *)
theory Hub_Tokens
  imports Hub_Users Hub_Crypto
begin

text \<open>
  \<^verbatim>\<open>src/tokens.rs\<close>: personal access tokens, stored by hash with an expiry. The random part
  of a token and its row id are arguments, and \<open>th\<close> is \<open>token_hash\<close>. Revocation is scoped to
  the owner (interpretation \<open>pat\<close>).
\<close>

section \<open>Operations\<close>

definition PAT_PREFIX :: string where
  "PAT_PREFIX = ''mcphub_pat_''"

definition MAX_TTL_SECS :: int where
  "MAX_TTL_SECS = 365 * 86400"

definition TOUCH_THROTTLE_SECS :: int where
  "TOUCH_THROTTLE_SECS = 60"

definition looks_like_pat :: "string \<Rightarrow> bool" where
  "looks_like_pat token = starts_with token PAT_PREFIX"

definition insert_pat :: "db \<Rightarrow> pat_row \<Rightarrow> db res" where
  "insert_pat d r =
     (if pt_id r \<in> set (map pt_id (personal_access_tokens d)) \<or>
         pt_token_hash r \<in> set (map pt_token_hash (personal_access_tokens d)) \<or>
         \<not> has_user d (pt_user_id r)
      then Inl ''inserting personal access token''
      else Inr (d\<lparr>personal_access_tokens := personal_access_tokens d @ [r]\<rparr>))"

definition tokens_create ::
  "(string \<Rightarrow> string) \<Rightarrow> int \<Rightarrow> string \<Rightarrow> string \<Rightarrow> db \<Rightarrow> string \<Rightarrow> string \<Rightarrow> int \<Rightarrow> (db \<times> pat_row \<times> string) res" where
  "tokens_create th now rnd new_id d user_id name ttl_secs =
     (let plaintext = PAT_PREFIX @ rnd;
          r = \<lparr>pt_id = new_id, pt_user_id = user_id, pt_token_hash = th plaintext, pt_name = name,
               pt_created_at = now, pt_last_used_at = None, pt_expires_at = now + ttl_secs\<rparr> in
      case insert_pat d r of Inl e \<Rightarrow> Inl e | Inr d' \<Rightarrow> Inr (d', r, plaintext))"

definition tokens_list_for_user :: "db \<Rightarrow> string \<Rightarrow> pat_row list" where
  "tokens_list_for_user d u =
     sort_key (\<lambda>r. - pt_created_at r) (filter (\<lambda>r. pt_user_id r = u) (personal_access_tokens d))"

definition resolve_valid :: "int \<Rightarrow> db \<Rightarrow> string \<Rightarrow> (string \<times> string) option" where
  "resolve_valid now d hash =
     map_option (\<lambda>r. (pt_user_id r, pt_id r))
       (List.find (\<lambda>r. pt_token_hash r = hash \<and> pt_expires_at r > now) (personal_access_tokens d))"

definition tokens_touch :: "int \<Rightarrow> db \<Rightarrow> string \<Rightarrow> db" where
  "tokens_touch now d token_id =
     d\<lparr>personal_access_tokens :=
         tbl_update
           (\<lambda>r. pt_id r = token_id \<and>
                (case pt_last_used_at r of None \<Rightarrow> True | Some t \<Rightarrow> t < now - TOUCH_THROTTLE_SECS))
           (\<lambda>r. r\<lparr>pt_last_used_at := Some now\<rparr>) (personal_access_tokens d)\<rparr>"

definition tokens_revoke :: "db \<Rightarrow> string \<Rightarrow> string \<Rightarrow> db \<times> bool" where
  "tokens_revoke d user_id token_id =
     (let P = (\<lambda>r. pt_id r = token_id \<and> pt_user_id r = user_id) in
      (d\<lparr>personal_access_tokens := tbl_delete P (personal_access_tokens d)\<rparr>,
       tbl_count P (personal_access_tokens d) > 0))"

definition revoke_all_for_user :: "db \<Rightarrow> string \<Rightarrow> db \<times> nat" where
  "revoke_all_for_user d user_id =
     (let P = (\<lambda>r. pt_user_id r = user_id) in
      (d\<lparr>personal_access_tokens := tbl_delete P (personal_access_tokens d)\<rparr>,
       tbl_count P (personal_access_tokens d)))"

section \<open>Lemmas\<close>

interpretation pat: owner_scoped personal_access_tokens pt_user_id pt_id tokens_revoke
  by unfold_locales (simp_all add: tokens_revoke_def Let_def tbl_count_pos)

lemma resolve_valid_Some:
  "resolve_valid now d h = Some (u, t) \<Longrightarrow>
   \<exists>r\<in>set (personal_access_tokens d). pt_token_hash r = h \<and> pt_user_id r = u \<and> pt_id r = t \<and>
      now < pt_expires_at r"
  by (auto simp: resolve_valid_def dest!: find_SomeD)

lemma insert_pat_Inr:
  "insert_pat d r = Inr d' \<longleftrightarrow>
     pt_id r \<notin> pt_id ` set (personal_access_tokens d) \<and>
     pt_token_hash r \<notin> pt_token_hash ` set (personal_access_tokens d) \<and>
     has_user d (pt_user_id r) \<and> d' = d\<lparr>personal_access_tokens := personal_access_tokens d @ [r]\<rparr>"
  by (auto simp: insert_pat_def)

lemma insert_pat_wf:
  assumes "db_wf d" "insert_pat d r = Inr d'" shows "db_wf d'"
proof -
  have d': "d' = d\<lparr>personal_access_tokens := personal_access_tokens d @ [r]\<rparr>"
    and new: "pt_id r \<notin> pt_id ` set (personal_access_tokens d)"
      "pt_token_hash r \<notin> pt_token_hash ` set (personal_access_tokens d)" "has_user d (pt_user_id r)"
    using assms(2) by (auto simp: insert_pat_Inr)
  have "has_user d' = has_user d" by (simp add: fun_eq_iff has_user_def d')
  with assms(1) new show ?thesis
    by (simp add: db_wf_def keys_ok_def fk_users_def fk_instances_def fk_groups_def fk_clients_def
        has_instance_def has_group_def has_client_def d')
qed

lemma tokens_touch_resolve:
  "resolve_valid t (tokens_touch now d i) h = resolve_valid t d h"
proof -
  have "map_option (\<lambda>r. (pt_user_id r, pt_id r))
      (List.find (\<lambda>r. pt_token_hash r = h \<and> pt_expires_at r > t)
        (tbl_update P (\<lambda>r. r\<lparr>pt_last_used_at := Some now\<rparr>) rs)) =
    map_option (\<lambda>r. (pt_user_id r, pt_id r))
      (List.find (\<lambda>r. pt_token_hash r = h \<and> pt_expires_at r > t) rs)" for P rs
    by (induction rs) (auto simp: tbl_update_def)
  then show ?thesis by (simp add: resolve_valid_def tokens_touch_def)
qed

section \<open>Properties\<close>

text \<open>A personal access token, once created, authenticates its owner at every moment before
  its expiry and at none from the expiry on, whatever bookkeeping writes happen in between;
  once its owner revokes it, it never authenticates again.\<close>

theorem pat_lifetime:
  assumes "tokens_create th now rnd new_id d u name ttl = Inr (d', r, tok)"
    and "\<And>x. x \<in> set (personal_access_tokens d) \<Longrightarrow> pt_token_hash x \<noteq> th tok"
  shows "resolve_valid t (tokens_touch t' d' new_id) (th tok) =
           (if t < now + ttl then Some (u, new_id) else None) \<and>
         resolve_valid t (fst (tokens_revoke d' u new_id)) (th tok) = None"
proof -
  from assms(1) have d': "d' = d\<lparr>personal_access_tokens := personal_access_tokens d @ [r]\<rparr>"
    and r: "pt_id r = new_id" "pt_user_id r = u" "pt_token_hash r = th tok" "pt_expires_at r = now + ttl"
    by (auto simp: tokens_create_def Let_def insert_pat_Inr split: sum.splits)
  have none: "List.find (\<lambda>x. pt_token_hash x = th tok \<and> pt_expires_at x > t) (personal_access_tokens d) = None"
    using assms(2) by (simp add: find_None_iff)
  have "resolve_valid t d' (th tok) = (if t < now + ttl then Some (u, new_id) else None)"
    by (simp add: resolve_valid_def d' find_append none r)
  moreover have "resolve_valid t (fst (tokens_revoke d' u new_id)) (th tok) = None"
    using assms(2)
    by (auto simp: resolve_valid_def find_None_iff tokens_revoke_def Let_def d' tbl_simps r)
  ultimately show ?thesis by (simp add: tokens_touch_resolve)
qed

definition pat_demo_db :: db where
  "pat_demo_db = empty_db\<lparr>
     users := [\<lparr>u_id = ''u1'', u_handle = ''ann'', u_display_name = ''Ann'', u_is_admin = True,
                u_created_at = 0, u_disabled = False, u_sandbox_uid = Some 0\<rparr>]\<rparr>"

theorem pat_lifetime_witness:
  "resolve_valid 50 (tokens_touch 20 (pat_demo_db\<lparr>personal_access_tokens :=
      [\<lparr>pt_id = ''t1'', pt_user_id = ''u1'', pt_token_hash = PAT_PREFIX @ ''xyz'', pt_name = ''cli'',
        pt_created_at = 10, pt_last_used_at = None, pt_expires_at = 10 + 60\<rparr>]\<rparr>) ''t1'')
      (PAT_PREFIX @ ''xyz'') = Some (''u1'', ''t1'')"
proof -
  have "tokens_create id 10 ''xyz'' ''t1'' pat_demo_db ''u1'' ''cli'' 60 =
    Inr (pat_demo_db\<lparr>personal_access_tokens :=
      [\<lparr>pt_id = ''t1'', pt_user_id = ''u1'', pt_token_hash = PAT_PREFIX @ ''xyz'', pt_name = ''cli'',
        pt_created_at = 10, pt_last_used_at = None, pt_expires_at = 10 + 60\<rparr>]\<rparr>,
      \<lparr>pt_id = ''t1'', pt_user_id = ''u1'', pt_token_hash = PAT_PREFIX @ ''xyz'', pt_name = ''cli'',
        pt_created_at = 10, pt_last_used_at = None, pt_expires_at = 10 + 60\<rparr>, PAT_PREFIX @ ''xyz'')"
    by (simp add: tokens_create_def insert_pat_def pat_demo_db_def empty_db_def has_user_def Let_def)
  from pat_lifetime[OF this, of 50 20] show ?thesis
    by (simp add: pat_demo_db_def empty_db_def)
qed

end
