(* ===== verification/Hub_Groups.thy ===== *)
theory Hub_Groups
  imports Hub_Users
begin

text \<open>
  \<^verbatim>\<open>src/groups.rs\<close> (named connector groups) and \<^verbatim>\<open>src/access.rs\<close> (the per-credential denylist).
  Both replace a set of instance ids of one user in a transaction that keeps only ids the
  user owns. The lemmas show what the replaced set is and what happens to other users' rows.
\<close>

section \<open>Groups (groups.rs)\<close>

definition slug_alnum :: "char \<Rightarrow> bool" where
  "slug_alnum b = (is_ascii_lowercase b \<or> is_ascii_digit b)"

text \<open>The bytes of the slug; a character outside ASCII has only bytes above 127, which fail
  every test, as the character itself does here.\<close>

definition valid_slug :: "string \<Rightarrow> bool" where
  "valid_slug s =
     (if s = [] \<or> utf8_len s > 64 then False
      else slug_alnum (hd s) \<and> slug_alnum (last s) \<and>
           list_all (\<lambda>b. slug_alnum b \<or> b = CHR ''-'') s)"

definition groups_list_for_user :: "db \<Rightarrow> string \<Rightarrow> group_row list" where
  "groups_list_for_user d u = sort_key g_slug (filter (\<lambda>r. g_user_id r = u) (connector_groups d))"

definition find_by_slug :: "db \<Rightarrow> string \<Rightarrow> string \<Rightarrow> group_row option" where
  "find_by_slug d u slug = List.find (\<lambda>r. g_user_id r = u \<and> g_slug r = slug) (connector_groups d)"

definition groups_find_by_id :: "db \<Rightarrow> string \<Rightarrow> string \<Rightarrow> group_row option" where
  "groups_find_by_id d u gid = List.find (\<lambda>r. g_user_id r = u \<and> g_id r = gid) (connector_groups d)"

definition groups_create ::
  "string \<Rightarrow> int \<Rightarrow> db \<Rightarrow> string \<Rightarrow> string \<Rightarrow> string \<Rightarrow> (db \<times> group_row) res" where
  "groups_create new_id now d user_id slug name =
     (if \<not> valid_slug slug then
        Inl ''invalid slug: use 1-64 lowercase letters, digits, and interior hyphens''
      else
        (let r = \<lparr>g_id = new_id, g_user_id = user_id, g_slug = slug, g_name = name,
                  g_created_at = now\<rparr> in
         if (user_id, slug) \<in> set (map (\<lambda>r. (g_user_id r, g_slug r)) (connector_groups d)) \<or>
            new_id \<in> set (map g_id (connector_groups d)) then
           Inl (''a group with slug '' @ slug @ '' already exists'')
         else if \<not> has_user d user_id then Inl ''creating connector group''
         else Inr (d\<lparr>connector_groups := connector_groups d @ [r]\<rparr>, r)))"

definition groups_rename :: "db \<Rightarrow> string \<Rightarrow> string \<Rightarrow> string \<Rightarrow> db \<times> bool" where
  "groups_rename d user_id gid name =
     (let P = (\<lambda>r. g_id r = gid \<and> g_user_id r = user_id) in
      (d\<lparr>connector_groups := tbl_update P (\<lambda>r. r\<lparr>g_name := name\<rparr>) (connector_groups d)\<rparr>,
       tbl_count P (connector_groups d) > 0))"

text \<open>\<open>INSERT OR IGNORE ... SELECT ... WHERE id = ? AND user_id = ?\<close>: nothing when the user
  does not own the instance or the row is there already.\<close>

definition owns_instance :: "db \<Rightarrow> string \<Rightarrow> string \<Rightarrow> bool" where
  "owns_instance d user_id iid =
     (\<exists>r\<in>set (user_server_instances d). i_id r = iid \<and> i_user_id r = user_id)"

definition add_member :: "db \<Rightarrow> string \<Rightarrow> string \<Rightarrow> int \<Rightarrow> member_row table \<Rightarrow> string \<Rightarrow> member_row table" where
  "add_member d user_id gid now t iid =
     (if owns_instance d user_id iid \<and>
         (gid, iid) \<notin> set (map (\<lambda>r. (gm_group_id r, gm_instance_id r)) t)
      then t @ [\<lparr>gm_group_id = gid, gm_instance_id = iid, gm_created_at = now\<rparr>]
      else t)"

definition set_members :: "int \<Rightarrow> db \<Rightarrow> string \<Rightarrow> string \<Rightarrow> string list \<Rightarrow> db res" where
  "set_members now d user_id gid instance_ids =
     (if \<not> (\<exists>r\<in>set (connector_groups d). g_id r = gid \<and> g_user_id r = user_id)
      then Inl ''no such group''
      else Inr (d\<lparr>connector_group_members :=
             foldl (add_member d user_id gid now)
               (tbl_delete (\<lambda>r. gm_group_id r = gid) (connector_group_members d)) instance_ids\<rparr>))"

definition groups_delete :: "db \<Rightarrow> string \<Rightarrow> string \<Rightarrow> db \<times> bool" where
  "groups_delete d user_id gid =
     (let P = (\<lambda>r. g_id r = gid \<and> g_user_id r = user_id) in
      (delete_groups P d, tbl_count P (connector_groups d) > 0))"

definition member_instance_ids :: "db \<Rightarrow> string \<Rightarrow> string set" where
  "member_instance_ids d gid =
     set (map gm_instance_id (filter (\<lambda>r. gm_group_id r = gid) (connector_group_members d)))"

section \<open>Denials (access.rs)\<close>

definition denied_instances :: "db \<Rightarrow> string \<Rightarrow> string \<Rightarrow> string set" where
  "denied_instances d ty cid =
     set (map cd_instance_id
       (filter (\<lambda>r. cd_credential_type r = ty \<and> cd_credential_id r = cid) (credential_backend_denials d)))"

definition clear_for_credential :: "db \<Rightarrow> string \<Rightarrow> string \<Rightarrow> db" where
  "clear_for_credential d ty cid =
     d\<lparr>credential_backend_denials :=
         tbl_delete (\<lambda>r. cd_credential_type r = ty \<and> cd_credential_id r = cid)
           (credential_backend_denials d)\<rparr>"

definition add_denial ::
  "db \<Rightarrow> string \<Rightarrow> string \<Rightarrow> string \<Rightarrow> int \<Rightarrow> denial_row table \<Rightarrow> string \<Rightarrow> denial_row table" where
  "add_denial d user_id ty cid now t iid =
     (if owns_instance d user_id iid \<and>
         (ty, cid, iid) \<notin> set (map (\<lambda>r. (cd_credential_type r, cd_credential_id r, cd_instance_id r)) t)
      then t @ [\<lparr>cd_user_id = user_id, cd_credential_type = ty, cd_credential_id = cid,
                 cd_instance_id = iid, cd_created_at = now\<rparr>]
      else t)"

definition set_denials :: "int \<Rightarrow> db \<Rightarrow> string \<Rightarrow> string \<Rightarrow> string \<Rightarrow> string list \<Rightarrow> db" where
  "set_denials now d user_id ty cid denied =
     d\<lparr>credential_backend_denials :=
         foldl (add_denial d user_id ty cid now)
           (tbl_delete (\<lambda>r. cd_credential_type r = ty \<and> cd_credential_id r = cid)
             (credential_backend_denials d)) denied\<rparr>"

section \<open>Lemmas\<close>

interpretation grp: owner_scoped connector_groups g_user_id g_id groups_delete
  by unfold_locales (simp_all add: groups_delete_def delete_groups_def Let_def tbl_count_pos)

lemma foldl_add_member:
  "set (foldl (add_member d u g now) t ids) =
     set t \<union> (\<lambda>i. \<lparr>gm_group_id = g, gm_instance_id = i, gm_created_at = now\<rparr>) `
               {i \<in> set ids. owns_instance d u i \<and>
                  (g, i) \<notin> (\<lambda>r. (gm_group_id r, gm_instance_id r)) ` set t}"
proof (induction ids arbitrary: t)
  case (Cons i ids)
  have step: "foldl (add_member d u g now) t (i # ids) =
      foldl (add_member d u g now) (add_member d u g now t i) ids" by simp
  show ?case
  proof (cases "owns_instance d u i \<and> (g, i) \<notin> (\<lambda>r. (gm_group_id r, gm_instance_id r)) ` set t")
    case True
    then show ?thesis unfolding step Cons.IH by (auto simp: add_member_def)
  next
    case False
    then have "add_member d u g now t i = t" by (auto simp: add_member_def)
    with False show ?thesis unfolding step Cons.IH by auto
  qed
qed simp

lemma foldl_add_denial:
  "set (foldl (add_denial d u ty cid now) t ids) =
     set t \<union> (\<lambda>i. \<lparr>cd_user_id = u, cd_credential_type = ty, cd_credential_id = cid,
                     cd_instance_id = i, cd_created_at = now\<rparr>) `
               {i \<in> set ids. owns_instance d u i \<and>
                  (ty, cid, i) \<notin>
                    (\<lambda>r. (cd_credential_type r, cd_credential_id r, cd_instance_id r)) ` set t}"
proof (induction ids arbitrary: t)
  case (Cons i ids)
  have step: "foldl (add_denial d u ty cid now) t (i # ids) =
      foldl (add_denial d u ty cid now) (add_denial d u ty cid now t i) ids" by simp
  show ?case
  proof (cases "owns_instance d u i \<and>
      (ty, cid, i) \<notin> (\<lambda>r. (cd_credential_type r, cd_credential_id r, cd_instance_id r)) ` set t")
    case True
    then show ?thesis unfolding step Cons.IH by (auto simp: add_denial_def)
  next
    case False
    then have "add_denial d u ty cid now t i = t" by (auto simp: add_denial_def)
    with False show ?thesis unfolding step Cons.IH by auto
  qed
qed simp

text \<open>The ids read back after a replacement: old rows of the key are gone, new ones are there.\<close>

lemma replaced_ids:
  assumes "\<And>r. r \<in> A \<Longrightarrow> \<not> P r" "\<And>i. P (f i)" "\<And>i. k (f i) = i"
  shows "k ` {r \<in> A \<union> f ` S. P r} = S"
proof -
  have "{r \<in> A \<union> f ` S. P r} = f ` S" using assms(1,2) by blast
  then show ?thesis by (simp only: image_image assms(3) image_ident)
qed

lemma set_members_members:
  assumes "set_members now d u g ids = Inr d'"
  shows "member_instance_ids d' g = {i \<in> set ids. owns_instance d u i}"
    and "g' \<noteq> g \<Longrightarrow> member_instance_ids d' g' = member_instance_ids d g'"
proof -
  have m: "connector_group_members d' = foldl (add_member d u g now)
      (tbl_delete (\<lambda>r. gm_group_id r = g) (connector_group_members d)) ids"
    using assms by (auto simp: set_members_def split: if_splits)
  show "member_instance_ids d' g = {i \<in> set ids. owns_instance d u i}"
    unfolding member_instance_ids_def m set_map set_filter foldl_add_member
    by (subst replaced_ids) (auto simp: tbl_simps)
  show "g' \<noteq> g \<Longrightarrow> member_instance_ids d' g' = member_instance_ids d g'"
    unfolding member_instance_ids_def m set_map set_filter foldl_add_member
    by (auto simp: tbl_simps)
qed

lemma set_denials_denied:
  "denied_instances (set_denials now d u ty cid ids) ty cid = {i \<in> set ids. owns_instance d u i}"
  "(ty', cid') \<noteq> (ty, cid) \<Longrightarrow>
     denied_instances (set_denials now d u ty cid ids) ty' cid' = denied_instances d ty' cid'"
proof -
  let ?t = "tbl_delete (\<lambda>r. cd_credential_type r = ty \<and> cd_credential_id r = cid) (credential_backend_denials d)"
  have c: "credential_backend_denials (set_denials now d u ty cid ids) =
      foldl (add_denial d u ty cid now) ?t ids"
    by (simp add: set_denials_def)
  show "denied_instances (set_denials now d u ty cid ids) ty cid = {i \<in> set ids. owns_instance d u i}"
    unfolding denied_instances_def c set_map set_filter foldl_add_denial
    by (subst replaced_ids) (auto simp: tbl_simps)
  show "(ty', cid') \<noteq> (ty, cid) \<Longrightarrow>
     denied_instances (set_denials now d u ty cid ids) ty' cid' = denied_instances d ty' cid'"
    unfolding denied_instances_def c set_map set_filter foldl_add_denial
    by (auto simp: tbl_simps)
qed

section \<open>Properties\<close>

definition mk_inst :: "string \<Rightarrow> string \<Rightarrow> string \<Rightarrow> inst_row" where
  "mk_inst i u ns = \<lparr>i_id = i, i_user_id = u, i_catalog_server_id = None, i_custom_def = None,
     i_namespace = ns, i_display_name = ns, i_enabled = True, i_config = [], i_built_commit = None,
     i_build_status = ''unbuilt'', i_capabilities = None, i_created_at = 0\<rparr>"

definition group_demo_db :: db where
  "group_demo_db = empty_db\<lparr>
     users := [\<lparr>u_id = ''u1'', u_handle = ''ann'', u_display_name = ''Ann'', u_is_admin = True,
                u_created_at = 0, u_disabled = False, u_sandbox_uid = Some 0\<rparr>,
               \<lparr>u_id = ''u2'', u_handle = ''bob'', u_display_name = ''Bob'', u_is_admin = False,
                u_created_at = 1, u_disabled = False, u_sandbox_uid = Some 1\<rparr>],
     user_server_instances := [mk_inst ''i1'' ''u1'' ''zabbix'', mk_inst ''i2'' ''u2'' ''files''],
     connector_groups := [\<lparr>g_id = ''g1'', g_user_id = ''u1'', g_slug = ''ops'', g_name = ''Ops'',
                           g_created_at = 3\<rparr>],
     credential_backend_denials := [\<lparr>cd_user_id = ''u1'', cd_credential_type = ''oauth'',
        cd_credential_id = ''client'', cd_instance_id = ''i1'', cd_created_at = 4\<rparr>]\<rparr>"

lemmas group_demo_simps = group_demo_db_def empty_db_def mk_inst_def

text \<open>Replacing a group's members succeeds only for a group of the caller, and leaves the
  group with exactly those of the requested instances the caller owns: a forged id cannot
  attach another user's backend. No other group changes.\<close>

theorem group_members_exact:
  assumes "set_members now d u g ids = Inr d'"
  shows "(\<exists>r\<in>set (connector_groups d). g_id r = g \<and> g_user_id r = u) \<and>
         member_instance_ids d' g = {i \<in> set ids. owns_instance d u i} \<and>
         (\<forall>g'. g' \<noteq> g \<longrightarrow> member_instance_ids d' g' = member_instance_ids d g')"
  using set_members_members[OF assms] assms by (auto simp: set_members_def split: if_splits)

theorem group_members_exact_witness:
  "member_instance_ids (group_demo_db\<lparr>connector_group_members :=
      [\<lparr>gm_group_id = ''g1'', gm_instance_id = ''i1'', gm_created_at = 9\<rparr>]\<rparr>) ''g1'' =
   {i \<in> set [''i1'', ''i2'']. owns_instance group_demo_db ''u1'' i}"
proof -
  have "set_members 9 group_demo_db ''u1'' ''g1'' [''i1'', ''i2''] =
    Inr (group_demo_db\<lparr>connector_group_members :=
      [\<lparr>gm_group_id = ''g1'', gm_instance_id = ''i1'', gm_created_at = 9\<rparr>]\<rparr>)"
    by (simp add: set_members_def add_member_def owns_instance_def tbl_delete_def group_demo_simps)
  from group_members_exact[OF this] show ?thesis by blast
qed

text \<open>The replacement of one credential's denials clears the rows of every user for that
  credential, not only the caller's: when two users authorised the same OAuth client, saving
  the second user's choice silently lifts the first user's restrictions.\<close>

theorem set_denials_lifts_other_users:
  assumes "r \<in> set (credential_backend_denials d)" "cd_user_id r \<noteq> u"
    and "cd_credential_type r = ty" "cd_credential_id r = cid"
    and "\<not> owns_instance d u (cd_instance_id r)"
  shows "cd_instance_id r \<in> denied_instances d ty cid \<and>
         cd_instance_id r \<notin> denied_instances (set_denials now d u ty cid ids) ty cid"
proof
  show "cd_instance_id r \<in> denied_instances d ty cid"
    using assms(1,3,4) by (auto simp: denied_instances_def)
  show "cd_instance_id r \<notin> denied_instances (set_denials now d u ty cid ids) ty cid"
    using assms(5) by (simp only: set_denials_denied) simp
qed

theorem set_denials_lifts_other_users_witness:
  "''i1'' \<in> denied_instances group_demo_db ''oauth'' ''client'' \<and>
   ''i1'' \<notin> denied_instances (set_denials 9 group_demo_db ''u2'' ''oauth'' ''client'' [''i2'']) ''oauth'' ''client''"
  using set_denials_lifts_other_users[of "\<lparr>cd_user_id = ''u1'', cd_credential_type = ''oauth'',
        cd_credential_id = ''client'', cd_instance_id = ''i1'', cd_created_at = 4\<rparr>" group_demo_db
        "''u2''" "''oauth''" "''client''" 9 "[''i2'']"]
  by (simp add: group_demo_simps owns_instance_def)

end
