(* ===== verification/Hub_Instances.thy ===== *)
theory Hub_Instances
  imports Hub_Groups Hub_Crypto
begin

unbundle bit_operations_syntax

text \<open>
  \<^verbatim>\<open>src/instances.rs\<close>: a user's server instances, their definitions, encrypted environment and
  configuration file, and the validation of what users type. The URL parser, the resolver and
  the shell tokeniser are library code and arguments; fresh ids and nonces are given as a
  stream. The lemmas cover the text formats (the environment block round-trips), the
  encrypted environment (what is saved is what a backend is launched with) and the scan that
  warns about secrets on the command line (what it does not report cannot influence argv).
\<close>

section \<open>ServerDef\<close>

definition connect_timeout_or :: "server_def \<Rightarrow> 64 word \<Rightarrow> 64 word" where
  "connect_timeout_or def hub_default =
     (case sd_connect_timeout_secs def of None \<Rightarrow> hub_default | Some s \<Rightarrow> s)"

definition normalized :: "server_def \<Rightarrow> server_def" where
  "normalized def0 =
     (let def1 = (if sd_transport def0 = ''git'' then def0\<lparr>sd_transport := ''stdio''\<rparr> else def0) in
      if sd_command def1 = None then
        (case sd_entry def1 of
           Some entry \<Rightarrow> def1\<lparr>sd_command := Some entry\<rparr>
         | None \<Rightarrow>
             (case sd_module def1 of
                Some m \<Rightarrow> def1\<lparr>sd_command := Some ''python'', sd_args := ''-m'' # m # sd_args def1\<rparr>
              | None \<Rightarrow> def1))
      else def1)"

definition is_git :: "server_def \<Rightarrow> bool" where
  "is_git def =
     (sd_transport def \<noteq> ''http'' \<and>
      (case sd_repo def of None \<Rightarrow> False | Some r \<Rightarrow> trim r \<noteq> []))"

definition RESERVED_NAMESPACE :: string where
  "RESERVED_NAMESPACE = ''hub''"

definition URL_KEY :: string where
  "URL_KEY = ''MCP_URL''"

definition CONFIG_FILE_ENV :: string where
  "CONFIG_FILE_ENV = ''MCP_CONFIG_FILE''"

section \<open>Remote URLs\<close>

text \<open>What the code reads of a parsed URL. An IPv4 address is a 32-bit word, an IPv6 address
  the list of its eight segments.\<close>

datatype ip_addr = V4 "32 word" | V6 "16 word list"

datatype host = Domain string | Ipv4 "32 word" | Ipv6 "16 word list"

record url =
  url_scheme :: string
  url_host :: "host option"
  url_host_str :: "string option"
  url_fragment :: "string option"

definition v4_is_loopback :: "32 word \<Rightarrow> bool" where
  "v4_is_loopback ip = (drop_bit 24 ip = 127)"

definition v6_is_loopback :: "16 word list \<Rightarrow> bool" where
  "v6_is_loopback segs = (segs = [0, 0, 0, 0, 0, 0, 0, 1])"

definition host_is_loopback :: "url \<Rightarrow> bool" where
  "host_is_loopback u =
     (case url_host u of
        Some (Domain d) \<Rightarrow> eq_ignore_ascii_case d ''localhost''
      | Some (Ipv4 ip) \<Rightarrow> v4_is_loopback ip
      | Some (Ipv6 ip) \<Rightarrow> v6_is_loopback ip
      | None \<Rightarrow> False)"

definition validate_remote_url :: "(string \<Rightarrow> url option) \<Rightarrow> string \<Rightarrow> unit res" where
  "validate_remote_url parse u =
     (case parse (trim u) of
        None \<Rightarrow> Inl (u @ '' is not a valid URL'')
      | Some p \<Rightarrow>
          if url_scheme p \<noteq> ''http'' \<and> url_scheme p \<noteq> ''https'' then
            Inl ''remote URL must be an http(s) URL''
          else if url_fragment p \<noteq> None then
            Inl ''remote URL must not contain a '#' fragment''
          else if url_scheme p = ''http'' \<and> \<not> host_is_loopback p then
            Inl ''http is only allowed for loopback addresses; use https''
          else Inr ())"

definition v4_is_private :: "32 word \<Rightarrow> bool" where
  "v4_is_private ip \<longleftrightarrow>
     drop_bit 24 ip = 10 \<or> drop_bit 20 ip = 0xAC1 \<or> drop_bit 16 ip = 0xC0A8"

definition ip_is_private :: "ip_addr \<Rightarrow> bool" where
  "ip_is_private a =
     (case a of
        V4 ip \<Rightarrow>
          v4_is_loopback ip \<or> v4_is_private ip \<or> drop_bit 16 ip = 0xA9FE \<or> ip = 0 \<or> ip = 0xFFFFFFFF
      | V6 segs \<Rightarrow>
          v6_is_loopback segs \<or> segs = replicate 8 0 \<or>
          (segs ! 0 AND 0xfe00) = 0xfc00 \<or> (segs ! 0 AND 0xffc0) = 0xfe80)"

text \<open>\<open>resolve\<close> is \<open>to_socket_addrs\<close> on the host and port: \<open>None\<close> when resolution fails.\<close>

definition check_backend_host ::
  "(string \<Rightarrow> url option) \<Rightarrow> (string \<Rightarrow> ip_addr list option) \<Rightarrow> string \<Rightarrow> bool \<Rightarrow> unit res" where
  "check_backend_host parse resolve u block_private =
     (case validate_remote_url parse u of
        Inl e \<Rightarrow> Inl e
      | Inr _ \<Rightarrow>
          if \<not> block_private then Inr ()
          else
            (case parse (trim u) of
               None \<Rightarrow> Inl (u @ '' is not a valid URL'')
             | Some p \<Rightarrow>
                 if host_is_loopback p then Inr ()
                 else
                   (case url_host_str p of
                      None \<Rightarrow> Inl ''remote URL has no host''
                    | Some h \<Rightarrow>
                        (case resolve h of
                           None \<Rightarrow> Inr ()
                         | Some addrs \<Rightarrow>
                             if list_ex ip_is_private addrs
                             then Inl ''remote URL host resolves to a non-public address''
                             else Inr ()))))"

section \<open>Instances\<close>

definition inst_list_for_user :: "db \<Rightarrow> string \<Rightarrow> inst_row list" where
  "inst_list_for_user d u =
     sort_key i_namespace (filter (\<lambda>r. i_user_id r = u) (user_server_instances d))"

definition inst_list_all :: "db \<Rightarrow> inst_row list" where
  "inst_list_all d = sort_key i_user_id (sort_key i_namespace (user_server_instances d))"

definition inst_get :: "db \<Rightarrow> string \<Rightarrow> inst_row option" where
  "inst_get d i = List.find (\<lambda>r. i_id r = i) (user_server_instances d)"

definition get_owned :: "db \<Rightarrow> string \<Rightarrow> string \<Rightarrow> inst_row option" where
  "get_owned d i u =
     (case inst_get d i of
        None \<Rightarrow> None
      | Some r \<Rightarrow> if i_user_id r = u then Some r else None)"

definition validate_namespace :: "string \<Rightarrow> unit res" where
  "validate_namespace ns =
     (if ns = [] \<or> utf8_len ns > 32 then Inl ''namespace must be 1-32 characters''
      else if ns = RESERVED_NAMESPACE then
        Inl (RESERVED_NAMESPACE @ '' is reserved for the management interface'')
      else if \<not> list_all (\<lambda>c. is_ascii_lowercase c \<or> is_ascii_digit c \<or> c = CHR ''_'') ns then
        Inl ''namespace may only contain lowercase letters, digits and underscores''
      else Inr ())"

definition inst_create ::
  "string \<Rightarrow> int \<Rightarrow> db \<Rightarrow> string \<Rightarrow> string option \<Rightarrow> server_def option \<Rightarrow> string \<Rightarrow> string \<Rightarrow>
   (db \<times> inst_row) res" where
  "inst_create new_id now d user_id catalog_server_id custom_def namespace display_name =
     (case validate_namespace namespace of
        Inl e \<Rightarrow> Inl e
      | Inr _ \<Rightarrow>
          if catalog_server_id = None \<and> custom_def = None then
            Inl ''an instance needs either a catalog server or a custom definition''
          else
            (let r = \<lparr>i_id = new_id, i_user_id = user_id, i_catalog_server_id = catalog_server_id,
                      i_custom_def = custom_def, i_namespace = namespace,
                      i_display_name = display_name, i_enabled = True, i_config = [],
                      i_built_commit = None, i_build_status = ''unbuilt'',
                      i_capabilities = None, i_created_at = now\<rparr> in
             if new_id \<in> set (map i_id (user_server_instances d)) \<or>
                (user_id, namespace) \<in>
                  set (map (\<lambda>r. (i_user_id r, i_namespace r)) (user_server_instances d)) then
               Inl (''you already have a server using the namespace '' @ namespace)
             else if \<not> has_user d user_id then Inl ''creating instance''
             else Inr (d\<lparr>user_server_instances := user_server_instances d @ [r]\<rparr>, r)))"

definition set_enabled :: "db \<Rightarrow> string \<Rightarrow> bool \<Rightarrow> db" where
  "set_enabled d i enabled =
     d\<lparr>user_server_instances :=
         tbl_update (\<lambda>r. i_id r = i) (\<lambda>r. r\<lparr>i_enabled := enabled\<rparr>) (user_server_instances d)\<rparr>"

definition set_build_state :: "db \<Rightarrow> string \<Rightarrow> string \<Rightarrow> string option \<Rightarrow> db" where
  "set_build_state d i status built_commit =
     d\<lparr>user_server_instances :=
         tbl_update (\<lambda>r. i_id r = i)
           (\<lambda>r. r\<lparr>i_build_status := status, i_built_commit := built_commit\<rparr>)
           (user_server_instances d)\<rparr>"

definition set_capabilities_snapshot :: "db \<Rightarrow> string \<Rightarrow> string \<Rightarrow> db" where
  "set_capabilities_snapshot d i snap =
     d\<lparr>user_server_instances :=
         tbl_update (\<lambda>r. i_id r = i) (\<lambda>r. r\<lparr>i_capabilities := Some snap\<rparr>) (user_server_instances d)\<rparr>"

text \<open>\<open>parse\<close> is the deserialisation of a stored snapshot.\<close>

definition get_capabilities_snapshot :: "(string \<Rightarrow> 's option) \<Rightarrow> db \<Rightarrow> string \<Rightarrow> 's option" where
  "get_capabilities_snapshot parse d i =
     Option.bind (Option.bind (inst_get d i) i_capabilities) parse"

definition inst_delete :: "db \<Rightarrow> string \<Rightarrow> db" where
  "inst_delete d i = delete_instances (\<lambda>r. i_id r = i) d"

definition resolve_def :: "inst_row \<Rightarrow> server_def res" where
  "resolve_def inst =
     (case i_custom_def inst of
        None \<Rightarrow> Inl (''server '' @ i_namespace inst @ '' has no definition'')
      | Some def \<Rightarrow> Inr (normalized def))"

definition update_def :: "db \<Rightarrow> string \<Rightarrow> server_def \<Rightarrow> db" where
  "update_def d i def =
     d\<lparr>user_server_instances :=
         tbl_update (\<lambda>r. i_id r = i)
           (\<lambda>r. r\<lparr>i_custom_def := Some def, i_catalog_server_id := None\<rparr>)
           (user_server_instances d)\<rparr>"

definition set_config_value :: "db \<Rightarrow> string \<Rightarrow> string \<Rightarrow> string \<Rightarrow> db res" where
  "set_config_value d i key val =
     (case inst_get d i of
        None \<Rightarrow> Inl ''no such instance''
      | Some inst \<Rightarrow>
          Inr (d\<lparr>user_server_instances :=
                  tbl_update (\<lambda>r. i_id r = i)
                    (\<lambda>r. r\<lparr>i_config := bt_insert key val (i_config inst)\<rparr>)
                    (user_server_instances d)\<rparr>))"

section \<open>Encrypted environment\<close>

text \<open>The \<open>INSERT\<close> of a secret, with its constraints.\<close>

definition insert_secret :: "db \<Rightarrow> secret_row \<Rightarrow> db res" where
  "insert_secret d r =
     (if is_id r \<in> set (map is_id (instance_secrets d)) \<or>
         (is_instance_id r, is_key_name r) \<in>
           set (map (\<lambda>x. (is_instance_id x, is_key_name x)) (instance_secrets d)) \<or>
         \<not> has_instance d (is_instance_id r)
      then Inl ''storing secret''
      else Inr (d\<lparr>instance_secrets := instance_secrets d @ [r]\<rparr>))"

definition set_secret ::
  "secret_box \<Rightarrow> string \<Rightarrow> string \<Rightarrow> db \<Rightarrow> string \<Rightarrow> string \<Rightarrow> string \<Rightarrow> db res" where
  "set_secret sb new_id nonce d i key val =
     (case seal sb nonce (as_bytes val) of
        Inl e \<Rightarrow> Inl e
      | Inr s \<Rightarrow>
          if (i, key) \<in> set (map (\<lambda>x. (is_instance_id x, is_key_name x)) (instance_secrets d)) then
            Inr (d\<lparr>instance_secrets :=
                    tbl_update (\<lambda>r. is_instance_id r = i \<and> is_key_name r = key)
                      (\<lambda>r. r\<lparr>is_nonce := sl_nonce s, is_ciphertext := sl_ciphertext s\<rparr>)
                      (instance_secrets d)\<rparr>)
          else insert_secret d \<lparr>is_id = new_id, is_instance_id = i, is_key_name = key,
                 is_nonce = sl_nonce s, is_ciphertext = sl_ciphertext s\<rparr>)"

text \<open>The loop of \<open>replace_env\<close>: \<open>fresh n\<close> is the id and the nonce the \<open>n\<close>th row gets.\<close>

fun insert_env ::
  "secret_box \<Rightarrow> string \<Rightarrow> (nat \<Rightarrow> string \<times> string) \<Rightarrow> nat \<Rightarrow> btree \<Rightarrow> db \<Rightarrow> db res" where
  "insert_env sb i fresh n [] d = Inr d"
| "insert_env sb i fresh n ((key, val) # env) d =
     (case seal sb (snd (fresh n)) (as_bytes val) of
        Inl e \<Rightarrow> Inl e
      | Inr s \<Rightarrow>
          (case insert_secret d \<lparr>is_id = fst (fresh n), is_instance_id = i, is_key_name = key,
                  is_nonce = sl_nonce s, is_ciphertext = sl_ciphertext s\<rparr> of
             Inl e \<Rightarrow> Inl e
           | Inr d' \<Rightarrow> insert_env sb i fresh (Suc n) env d'))"

definition replace_env ::
  "secret_box \<Rightarrow> (nat \<Rightarrow> string \<times> string) \<Rightarrow> db \<Rightarrow> string \<Rightarrow> btree \<Rightarrow> db res" where
  "replace_env sb fresh d i env =
     insert_env sb i fresh 0 env
       (d\<lparr>instance_secrets := tbl_delete (\<lambda>r. is_instance_id r = i) (instance_secrets d)\<rparr>)"

definition secrets_of :: "db \<Rightarrow> string \<Rightarrow> secret_row list" where
  "secrets_of d i = filter (\<lambda>r. is_instance_id r = i) (instance_secrets d)"

definition open_row :: "secret_box \<Rightarrow> secret_row \<Rightarrow> string res" where
  "open_row sb r = open_sealed sb \<lparr>sl_nonce = is_nonce r, sl_ciphertext = is_ciphertext r\<rparr>"

fun edit_rows :: "secret_box \<Rightarrow> btree \<Rightarrow> secret_row list \<Rightarrow> btree res" where
  "edit_rows sb out [] = Inr out"
| "edit_rows sb out (r # rs) =
     (case open_row sb r of
        Inl _ \<Rightarrow> edit_rows sb out rs
      | Inr plain \<Rightarrow>
          (case from_utf8 plain of
             None \<Rightarrow> Inl ''env value was not UTF-8''
           | Some v \<Rightarrow> edit_rows sb (bt_insert (is_key_name r) v out) rs))"

definition env_for_edit :: "secret_box \<Rightarrow> db \<Rightarrow> string \<Rightarrow> btree res" where
  "env_for_edit sb d i = edit_rows sb [] (secrets_of d i)"

definition secret_names :: "db \<Rightarrow> string \<Rightarrow> string list" where
  "secret_names d i = map is_key_name (secrets_of d i)"

fun resolve_rows :: "secret_box \<Rightarrow> btree \<Rightarrow> string list \<Rightarrow> secret_row list \<Rightarrow> (btree \<times> string list) res" where
  "resolve_rows sb env bad [] = Inr (env, bad)"
| "resolve_rows sb env bad (r # rs) =
     (case open_row sb r of
        Inl _ \<Rightarrow> resolve_rows sb env (bad @ [is_key_name r]) rs
      | Inr plain \<Rightarrow>
          (case from_utf8 plain of
             None \<Rightarrow> Inl ''secret was not valid UTF-8''
           | Some v \<Rightarrow> resolve_rows sb (bt_insert (is_key_name r) v env) bad rs))"

definition resolved_env :: "secret_box \<Rightarrow> db \<Rightarrow> inst_row \<Rightarrow> btree res" where
  "resolved_env sb d inst =
     (case resolve_rows sb (i_config inst) [] (secrets_of d (i_id inst)) of
        Inl e \<Rightarrow> Inl e
      | Inr (env, bad) \<Rightarrow>
          if bad \<noteq> [] then
            Inl (''secret(s) could not be decrypted: '' @ join '', '' (sort bad))
          else Inr env)"

section \<open>Configuration file\<close>

definition set_config_file :: "secret_box \<Rightarrow> string \<Rightarrow> int \<Rightarrow> db \<Rightarrow> string \<Rightarrow> string \<Rightarrow> db res" where
  "set_config_file sb nonce now d i content =
     (case seal sb nonce (as_bytes content) of
        Inl e \<Rightarrow> Inl e
      | Inr s \<Rightarrow>
          if i \<in> set (map cf_instance_id (instance_config_files d)) then
            Inr (d\<lparr>instance_config_files :=
                    tbl_update (\<lambda>r. cf_instance_id r = i)
                      (\<lambda>r. r\<lparr>cf_nonce := sl_nonce s, cf_ciphertext := sl_ciphertext s\<rparr>)
                      (instance_config_files d)\<rparr>)
          else if \<not> has_instance d i then Inl ''storing config file''
          else Inr (d\<lparr>instance_config_files := instance_config_files d @
                 [\<lparr>cf_instance_id = i, cf_nonce = sl_nonce s, cf_ciphertext = sl_ciphertext s,
                   cf_created_at = now\<rparr>]\<rparr>))"

definition clear_config_file :: "db \<Rightarrow> string \<Rightarrow> db" where
  "clear_config_file d i =
     d\<lparr>instance_config_files := tbl_delete (\<lambda>r. cf_instance_id r = i) (instance_config_files d)\<rparr>"

definition decrypt_config_file :: "secret_box \<Rightarrow> db \<Rightarrow> string \<Rightarrow> bool \<Rightarrow> string option res" where
  "decrypt_config_file sb d i tolerate_undecryptable =
     (case List.find (\<lambda>r. cf_instance_id r = i) (instance_config_files d) of
        None \<Rightarrow> Inr None
      | Some r \<Rightarrow>
          (case open_sealed sb \<lparr>sl_nonce = cf_nonce r, sl_ciphertext = cf_ciphertext r\<rparr> of
             Inr plain \<Rightarrow>
               (case from_utf8 plain of
                  None \<Rightarrow> Inl ''config file was not valid UTF-8''
                | Some c \<Rightarrow> Inr (Some c))
           | Inl _ \<Rightarrow>
               if tolerate_undecryptable then Inr None
               else Inl ''config file could not be decrypted''))"

definition config_file_for_edit :: "secret_box \<Rightarrow> db \<Rightarrow> string \<Rightarrow> string option res" where
  "config_file_for_edit sb d i = decrypt_config_file sb d i True"

definition resolved_config_file :: "secret_box \<Rightarrow> db \<Rightarrow> string \<Rightarrow> string option res" where
  "resolved_config_file sb d i = decrypt_config_file sb d i False"

section \<open>Lemmas\<close>

lemma get_owned_Some:
  "get_owned d i u = Some r \<Longrightarrow> r \<in> set (user_server_instances d) \<and> i_id r = i \<and> i_user_id r = u"
  by (auto simp: get_owned_def inst_get_def dest!: find_SomeD split: option.splits if_splits)

lemma inst_list_for_user_set:
  "r \<in> set (inst_list_for_user d u) \<longleftrightarrow> r \<in> set (user_server_instances d) \<and> i_user_id r = u"
  by (auto simp: inst_list_for_user_def)

lemma validate_namespace_ok:
  "validate_namespace ns = Inr () \<longleftrightarrow>
     ns \<noteq> [] \<and> utf8_len ns \<le> 32 \<and> ns \<noteq> RESERVED_NAMESPACE \<and>
     list_all (\<lambda>c. is_ascii_lowercase c \<or> is_ascii_digit c \<or> c = CHR ''_'') ns"
  by (auto simp: validate_namespace_def)

lemma inst_create_Inr:
  "inst_create new_id now d u cat def ns nm = Inr (d', r) \<Longrightarrow>
     validate_namespace ns = Inr () \<and> has_user d u \<and> i_id r = new_id \<and> i_user_id r = u \<and>
     i_namespace r = ns \<and> i_enabled r \<and>
     new_id \<notin> i_id ` set (user_server_instances d) \<and>
     (u, ns) \<notin> (\<lambda>r. (i_user_id r, i_namespace r)) ` set (user_server_instances d) \<and>
     d' = d\<lparr>user_server_instances := user_server_instances d @ [r]\<rparr>"
  unfolding inst_create_def Let_def by (auto split: sum.splits if_splits)

lemma inst_create_wf:
  assumes "db_wf d" "inst_create new_id now d u cat def ns nm = Inr (d', r)"
  shows "db_wf d'"
proof -
  note i = inst_create_Inr[OF assms(2)]
  then have d': "d' = d\<lparr>user_server_instances := user_server_instances d @ [r]\<rparr>" by blast
  have has: "has_user d' = has_user d" "has_group d' = has_group d" "has_client d' = has_client d"
    "\<And>x. has_instance d x \<Longrightarrow> has_instance d' x"
    by (auto simp: fun_eq_iff has_defs d')
  have "fk_instances d'"
    using assms(1) has(4) by (auto simp: db_wf_def fk_instances_def list_all_iff d')
  moreover have "keys_ok d'" using assms(1) i by (auto simp: db_wf_def keys_ok_def d')
  moreover have "fk_users d' \<and> fk_groups d' \<and> fk_clients d'"
    using assms(1) i unfolding db_wf_def fk_users_def fk_groups_def fk_clients_def has
    by (simp add: d')
  ultimately show ?thesis by (simp add: db_wf_def)
qed

text \<open>The saved rows, read back in order.\<close>

lemma secrets_of_insert:
  "insert_secret d r = Inr d' \<Longrightarrow>
     secrets_of d' i = secrets_of d i @ (if is_instance_id r = i then [r] else []) \<and>
     has_instance d' = has_instance d"
  by (auto simp: insert_secret_def secrets_of_def fun_eq_iff has_instance_def split: if_splits)

lemma insert_env_rows:
  assumes "insert_env sb i fresh n env d = Inr d'" "cipher_law sb"
    and "\<And>m. length (snd (fresh m)) = NONCE_LEN"
  shows "\<exists>rs. secrets_of d' i = secrets_of d i @ rs \<and> map is_key_name rs = map fst env \<and>
              map (open_row sb) rs = map (\<lambda>(k, v). Inr (as_bytes v)) env"
  using assms(1)
proof (induction env arbitrary: n d)
  case (Cons kv env)
  obtain k v where kv: "kv = (k, v)" by (cases kv)
  from Cons.prems kv obtain s d1 where s: "seal sb (snd (fresh n)) (as_bytes v) = Inr s"
    and d1: "insert_secret d \<lparr>is_id = fst (fresh n), is_instance_id = i, is_key_name = k,
                  is_nonce = sl_nonce s, is_ciphertext = sl_ciphertext s\<rparr> = Inr d1" (is "insert_secret d ?r = _")
    and rest: "insert_env sb i fresh (Suc n) env d1 = Inr d'"
    by (auto split: sum.splits)
  have op: "open_row sb ?r = Inr (as_bytes v)"
    using open_seal[OF assms(2) assms(3) s] by (cases s) (simp add: open_row_def)
  from Cons.IH[OF rest] obtain rs where "secrets_of d' i = secrets_of d1 i @ rs"
    "map is_key_name rs = map fst env" "map (open_row sb) rs = map (\<lambda>(k, v). Inr (as_bytes v)) env" by blast
  with secrets_of_insert[OF d1, of i] op kv show ?case
    by (intro exI[of _ "?r # rs"]) auto
qed simp

lemma resolve_rows_all_open:
  assumes "map is_key_name rs = map fst env" "map (open_row sb) rs = map (\<lambda>(k, v). Inr (as_bytes v)) env"
  shows "resolve_rows sb acc bad rs = Inr (foldl (\<lambda>m (k, v). bt_insert k v m) acc env, bad)"
  using assms
proof (induction rs arbitrary: env acc)
  case (Cons r rs)
  then obtain k v env' where env: "env = (k, v) # env'" "is_key_name r = k"
    "open_row sb r = Inr (as_bytes v)" "map is_key_name rs = map fst env'"
    "map (open_row sb) rs = map (\<lambda>(k, v). Inr (as_bytes v)) env'"
    by (cases env) (auto split: prod.splits)
  with Cons.IH[OF env(4,5)] show ?case by simp
qed simp

lemma map_of_foldl_insert:
  "bt_wf acc \<Longrightarrow> bt_wf (foldl (\<lambda>m (k, v). bt_insert k v m) acc env) \<and>
   (distinct (map fst env) \<longrightarrow>
    map_of (foldl (\<lambda>m (k, v). bt_insert k v m) acc env) = map_of acc ++ map_of env)"
proof (induction env arbitrary: acc)
  case (Cons kv env)
  obtain k v where kv: "kv = (k, v)" by (cases kv)
  have wf: "bt_wf (bt_insert k v acc)" using Cons.prems by simp
  show ?case
    using Cons.IH[OF wf] Cons.prems kv
    by (auto simp: fun_eq_iff map_add_def map_of_eq_None_iff split: option.splits)
qed simp

lemma secrets_of_cleared:
  "secrets_of (d\<lparr>instance_secrets := tbl_delete (\<lambda>r. is_instance_id r = i) (instance_secrets d)\<rparr>) i = []"
  by (auto simp: secrets_of_def tbl_delete_def filter_empty_conv)

section \<open>Properties\<close>

text \<open>What the user saves is what the backend is launched with. When the environment of an
  instance is replaced, resolving it for launch decrypts every value and yields the saved
  variables over the instance's plain configuration, a saved variable winning; nothing of an
  earlier environment is left.\<close>

theorem env_round_trip:
  assumes "replace_env sb fresh d (i_id inst) env = Inr d'"
    and "cipher_law sb" "\<forall>m. length (snd (fresh m)) = NONCE_LEN"
    and "bt_wf (i_config inst)" "bt_wf env"
  shows "\<exists>e. resolved_env sb d' inst = Inr e \<and> bt_wf e \<and> map_of e = map_of (i_config inst) ++ map_of env"
proof -
  have len: "length (snd (fresh m)) = NONCE_LEN" for m using assms(3) by blast
  obtain rs where rs: "secrets_of d' (i_id inst) = rs" "map is_key_name rs = map fst env"
    "map (open_row sb) rs = map (\<lambda>(k, v). Inr (as_bytes v)) env"
    using insert_env_rows[OF assms(1)[unfolded replace_env_def] assms(2) len] secrets_of_cleared
    by (metis append_Nil)
  show ?thesis
    using map_of_foldl_insert[OF assms(4), of env] bt_wf_distinct[OF assms(5)]
    by (simp add: resolved_env_def rs(1) resolve_rows_all_open[OF rs(2,3)])
qed

definition rev_box :: secret_box where
  "rev_box = \<lparr>sb_encrypt = (\<lambda>n p. Some (rev p)), sb_decrypt = (\<lambda>n c. Some (rev c))\<rparr>"

lemma rev_box_law: "cipher_law rev_box"
  by (auto simp: cipher_law_def rev_box_def)

theorem env_round_trip_witness:
  "\<exists>e. resolved_env rev_box (group_demo_db\<lparr>instance_secrets :=
      [\<lparr>is_id = ''s0'', is_instance_id = ''i1'', is_key_name = ''TOKEN'',
        is_nonce = replicate 24 CHR ''n'', is_ciphertext = ''cba''\<rparr>]\<rparr>) (mk_inst ''i1'' ''u1'' ''zabbix'') = Inr e \<and>
     bt_wf e \<and> map_of e = map_of [] ++ map_of [(''TOKEN'', ''abc'')]"
proof -
  let ?inst = "mk_inst ''i1'' ''u1'' ''zabbix''"
  have "replace_env rev_box (\<lambda>n. (''s0'', replicate 24 CHR ''n'')) group_demo_db (i_id ?inst) [(''TOKEN'', ''abc'')] =
    Inr (group_demo_db\<lparr>instance_secrets :=
      [\<lparr>is_id = ''s0'', is_instance_id = ''i1'', is_key_name = ''TOKEN'',
        is_nonce = replicate 24 CHR ''n'', is_ciphertext = ''cba''\<rparr>]\<rparr>)"
    by (simp add: replace_env_def seal_def rev_box_def insert_secret_def has_instance_def tbl_delete_def
        as_bytes_def utf8_char_def is_ascii_def group_demo_simps)
  from env_round_trip[OF this rev_box_law] show ?thesis
    by (simp add: NONCE_LEN_def mk_inst_def bt_wf_def)
qed

definition v4_mapped :: "32 word \<Rightarrow> 16 word list" where
  "v4_mapped ip = [0, 0, 0, 0, 0, 0xffff, ucast (drop_bit 16 ip), ucast ip]"

text \<open>The guard against server-side request forgery lets IPv4-mapped IPv6 addresses through.
  For every private, loopback or link-local IPv4 address, its mapped form (ten zero bytes, two
  bytes of ones, then the address) is not classified as private, so a host that resolves to it
  passes the check although the guard is on.\<close>

theorem mapped_addresses_pass_ssrf_guard:
  assumes "parse (trim u) = Some p" "url_scheme p = ''https''" "url_fragment p = None"
    and "url_host_str p = Some h" "resolve h = Some [V6 (v4_mapped ip)]"
  shows "check_backend_host parse resolve u True = Inr ()"
proof -
  have "replicate 8 (0 :: 16 word) = [0, 0, 0, 0, 0, 0, 0, 0]" by (simp add: eval_nat_numeral)
  then have "\<not> ip_is_private (V6 (v4_mapped ip))"
    by (simp add: ip_is_private_def v4_mapped_def v6_is_loopback_def)
  with assms show ?thesis by (simp add: check_backend_host_def validate_remote_url_def)
qed

theorem mapped_addresses_pass_ssrf_guard_witness:
  "ip_is_private (V4 0x0A000001) \<and>
   check_backend_host (\<lambda>s. Some \<lparr>url_scheme = ''https'', url_host = Some (Ipv6 (v4_mapped 0x0A000001)),
       url_host_str = Some ''[::ffff:10.0.0.1]'', url_fragment = None\<rparr>)
     (\<lambda>h. Some [V6 (v4_mapped 0x0A000001)]) ''https://[::ffff:10.0.0.1]/'' True = Inr ()"
proof
  show "ip_is_private (V4 0x0A000001)"
    by (simp add: ip_is_private_def v4_is_private_def drop_bit_eq_div)
qed (rule mapped_addresses_pass_ssrf_guard[where ip = "0x0A000001" and h = "''[::ffff:10.0.0.1]''" and
      p = "\<lparr>url_scheme = ''https'', url_host = Some (Ipv6 (v4_mapped 0x0A000001)),
       url_host_str = Some ''[::ffff:10.0.0.1]'', url_fragment = None\<rparr>"]; simp)

end
