(* ===== verification/Hub_Env.thy ===== *)
theory Hub_Env
  imports Hub_Instances
begin

text \<open>
  The text formats of \<^verbatim>\<open>src/instances.rs\<close> that users type: the \<open>KEY=VALUE\<close> environment block,
  the command line, the connect timeout, and the scan for secrets referenced on the command
  line. The shell tokeniser and quoter are arguments.
\<close>

section \<open>Numbers\<close>

fun nat_str :: "nat \<Rightarrow> string" where
  "nat_str n = (if n < 10 then [char_of (48 + n)] else nat_str (n div 10) @ [char_of (48 + n mod 10)])"

declare nat_str.simps [simp del]

definition parse_digits :: "string \<Rightarrow> nat option" where
  "parse_digits s =
     (if s \<noteq> [] \<and> list_all is_ascii_digit s
      then Some (foldl (\<lambda>n c. n * 10 + (code c - 48)) 0 s) else None)"

text \<open>\<open>str::parse::<u64>\<close>: an optional plus sign, then digits, no overflow.\<close>

definition parse_u64 :: "string \<Rightarrow> 64 word option" where
  "parse_u64 s =
     (let t = (case s of c # r \<Rightarrow> if c = CHR ''+'' then r else s | [] \<Rightarrow> s) in
      case parse_digits t of
        None \<Rightarrow> None
      | Some n \<Rightarrow> if n < 2 ^ 64 then Some (word_of_nat n) else None)"

definition parse_connect_timeout :: "string \<Rightarrow> 64 word option res" where
  "parse_connect_timeout raw0 =
     (let raw = trim raw0 in
      if raw = [] then Inr None
      else (case parse_u64 raw of
              None \<Rightarrow> Inl ''connect timeout must be a whole number of seconds (0 = no limit)''
            | Some n \<Rightarrow> Inr (Some n)))"

section \<open>Environment block\<close>

definition valid_key :: "string \<Rightarrow> bool" where
  "valid_key key =
     (case key of
        [] \<Rightarrow> False
      | c # cs \<Rightarrow>
          (is_ascii_alphabetic c \<or> c = CHR ''_'') \<and>
          list_all (\<lambda>c. is_ascii_alphanumeric c \<or> c = CHR ''_'') cs)"

fun parse_env_lines :: "nat \<Rightarrow> btree \<Rightarrow> string list \<Rightarrow> btree res" where
  "parse_env_lines i m [] = Inr m"
| "parse_env_lines i m (raw # rest) =
     (let line = trim raw in
      if line = [] \<or> starts_with line ''#'' then parse_env_lines (Suc i) m rest
      else
        (case split_once line ''='' of
           None \<Rightarrow> Inl (''line '' @ nat_str (Suc i) @ '': expected KEY=VALUE'')
         | Some (key0, val) \<Rightarrow>
             (let key = trim key0 in
              if \<not> valid_key key then
                Inl (''line '' @ nat_str (Suc i) @ '': '' @ key @
                     '' is not a valid environment variable name'')
              else parse_env_lines (Suc i) (bt_insert key (trim val) m) rest)))"

definition parse_env :: "string \<Rightarrow> btree res" where
  "parse_env text = parse_env_lines 0 [] (lines text)"

definition render_env :: "btree \<Rightarrow> string" where
  "render_env env = join [CHR 0x0A] (map (\<lambda>(k, v). k @ ''='' @ v) env)"

section \<open>Command line\<close>

definition parse_command :: "(string \<Rightarrow> string list option) \<Rightarrow> string \<Rightarrow> (string option \<times> string list) res" where
  "parse_command shlex_split line =
     (case shlex_split (trim line) of
        None \<Rightarrow> Inl ''could not parse the command line (check your quoting)''
      | Some [] \<Rightarrow> Inr (None, [])
      | Some (c # args) \<Rightarrow> Inr (Some c, args))"

definition render_command :: "(string list \<Rightarrow> string option) \<Rightarrow> string option \<Rightarrow> string list \<Rightarrow> string" where
  "render_command shlex_join command args =
     (let parts = (case command of None \<Rightarrow> [] | Some c \<Rightarrow> [c]) @ args in
      case shlex_join parts of Some s \<Rightarrow> s | None \<Rightarrow> join '' '' parts)"

section \<open>Secrets referenced on the command line\<close>

text \<open>The scan of one argument, with the names found so far.\<close>

function scan_refs :: "string list \<Rightarrow> string \<Rightarrow> string list \<Rightarrow> string list" where
  "scan_refs secrets rest found =
     (case find_sub rest ref_open of
        None \<Rightarrow> found
      | Some pos \<Rightarrow>
          (let after = drop (pos + 2) rest in
           case find_sub after ''}'' of
             Some e \<Rightarrow>
               (let name = take e after in
                scan_refs secrets (drop (e + 1) after)
                  (if name \<in> set secrets \<and> name \<notin> set found then found @ [name] else found))
           | None \<Rightarrow> found))"
  by pat_completeness auto
termination
  by (relation "measure (\<lambda>(secrets, rest, found). length rest)") (auto dest: find_sub_le)

declare scan_refs.simps [simp del]

definition secret_refs_in_argv :: "string option \<Rightarrow> string list \<Rightarrow> string list \<Rightarrow> string list" where
  "secret_refs_in_argv command args secrets =
     foldl (\<lambda>found a. scan_refs secrets a found)
       (case command of None \<Rightarrow> [] | Some c \<Rightarrow> scan_refs secrets c []) args"

section \<open>Lemmas on the scan\<close>

lemma scan_refs_mono: "set found \<subseteq> set (scan_refs secrets t found)"
proof (induction secrets t found rule: scan_refs.induct)
  case (1 secrets rest found)
  show ?case
  proof (cases "find_sub rest ref_open")
    case None
    then show ?thesis by (simp add: scan_refs.simps[of _ rest])
  next
    case (Some pos)
    show ?thesis
    proof (cases "find_sub (drop (pos + 2) rest) ''}''")
      case None
      with Some show ?thesis by (simp add: scan_refs.simps[of _ rest] Let_def)
    next
      case (Some e)
      from "1.IH"[OF \<open>find_sub rest ref_open = Some pos\<close> refl Some refl] show ?thesis
        unfolding scan_refs.simps[of secrets rest found] \<open>find_sub rest ref_open = Some pos\<close>
          option.case Let_def Some
        by (auto split: if_splits)
    qed
  qed
qed

text \<open>Text whose scan does not report a secret expands the same whatever that secret is.\<close>

lemma expand_scan_indep:
  assumes "k \<in> set secrets" "k \<notin> set (scan_refs secrets t found)"
    and "\<And>j. j \<noteq> k \<Longrightarrow> map_of v1 j = map_of v2 j"
  shows "expand_vars t v1 = expand_vars t v2"
  using assms(2)
proof (induction "length t" arbitrary: t found rule: less_induct)
  case less
  show ?case
  proof (cases "find_sub t ref_open")
    case None
    then show ?thesis by (simp add: expand_vars_plain)
  next
    case (Some pos)
    note pos = Some
    define after where "after = drop (pos + 2) t"
    have shorter: "length (drop n after) < length t" for n
      using find_sub_le[OF Some] by (simp add: after_def)
    show ?thesis
    proof (cases "find_sub after ''}''")
      case None
      have plain: "expand_vars after v = after" for v
      proof (rule expand_vars_unreferenced)
        fix j assume "j \<in> fst ` set v"
        show "\<not> contains_sub after (ref_open @ j @ ''}'')"
        proof
          assume "contains_sub after (ref_open @ j @ ''}'')"
          then obtain n where "find_sub after (ref_open @ j @ ''}'') = Some n"
            by (auto simp: contains_sub_def)
          from find_sub_Some[OF this] obtain x y where "after = x @ ''}'' @ y"
            by (metis append.assoc)
          with find_sub_hit[of "''}''" x y] None show False by simp
        qed
      qed
      show ?thesis
        unfolding expand_vars_rec[of t] pos option.case Let_def after_def[symmetric] None plain by simp
    next
      case (Some e)
      let ?name = "take e after"
      let ?found = "if ?name \<in> set secrets \<and> ?name \<notin> set found then found @ [?name] else found"
      have scan: "scan_refs secrets t found = scan_refs secrets (drop (e + 1) after) ?found"
        unfolding scan_refs.simps[of secrets t found] pos option.case Let_def after_def[symmetric] Some ..
      have "?name \<noteq> k"
      proof
        assume "?name = k"
        then have "k \<in> set ?found" using assms(1) by simp
        with scan_refs_mono[of ?found secrets "drop (e + 1) after"] less.prems show False
          unfolding scan by blast
      qed
      then have "expand_ref v1 ?name = expand_ref v2 ?name"
        using assms(3) by (simp add: expand_ref_def)
      moreover have "expand_vars (drop (e + 1) after) v1 = expand_vars (drop (e + 1) after) v2"
        using less.hyps[OF shorter, of "e + 1"] less.prems scan by simp
      ultimately show ?thesis
        unfolding expand_vars_rec[of t] pos option.case Let_def after_def[symmetric] Some by simp
    qed
  qed
qed

lemma foldl_scan_refs:
  assumes "k \<notin> set (foldl (\<lambda>found a. scan_refs secrets a found) found args)"
  shows "k \<notin> set found \<and> (\<forall>a\<in>set args. \<exists>f. k \<notin> set (scan_refs secrets a f))"
  using assms
proof (induction args arbitrary: found)
  case (Cons a args)
  from Cons.IH[of "scan_refs secrets a found"] Cons.prems scan_refs_mono[of found secrets a]
  show ?case by auto
qed simp

section \<open>Lemmas on the environment block\<close>

lemma lines_acc_append:
  "CHR 0x0A \<notin> set l \<Longrightarrow> lines_acc acc (l @ s) = lines_acc (rev l @ acc) s"
  by (induction l arbitrary: acc) auto

lemma lines_one_more:
  assumes "CHR 0x0A \<notin> set l" "l \<noteq> []" "last l \<noteq> CHR 0x0D"
  shows "lines (l @ CHR 0x0A # s) = l # lines s" and "lines l = [l]"
  using assms lines_acc_append[of l "[]" "CHR 0x0A # s"] lines_acc_append[of l "[]" "[]"]
  by (simp_all add: lines_def strip_cr_def)

lemma lines_join:
  assumes "\<And>l. l \<in> set ls \<Longrightarrow> CHR 0x0A \<notin> set l \<and> l \<noteq> [] \<and> last l \<noteq> CHR 0x0D"
  shows "lines (join [CHR 0x0A] ls) = ls"
  using assms
proof (induction "[CHR 0x0A]" ls rule: join.induct)
  case 1
  then show ?case by (simp add: lines_def)
next
  case (2 x)
  then show ?case by (simp add: lines_one_more)
next
  case (3 x y xs)
  then show ?case by (simp add: lines_one_more)
qed

lemma valid_key_chars:
  assumes "valid_key k"
  shows "k \<noteq> [] \<and> (\<forall>c\<in>set k. \<not> is_whitespace c \<and> c \<noteq> CHR ''='' \<and> c \<noteq> CHR ''#'' \<and> c \<noteq> CHR 0x0A)"
proof -
  have c: "\<not> is_whitespace c \<and> c \<noteq> CHR ''='' \<and> c \<noteq> CHR ''#'' \<and> c \<noteq> CHR 0x0A"
    if "is_ascii_alphanumeric c \<or> c = CHR ''_''" for c
    using that by (auto simp: text_simps)
  from assms have "k \<noteq> []" "\<forall>c\<in>set k. is_ascii_alphanumeric c \<or> c = CHR ''_''"
    by (auto simp: valid_key_def list_all_iff is_ascii_alphanumeric_def split: list.splits)
  with c show ?thesis by blast
qed

lemma trim_id:
  assumes "s \<noteq> []" "\<not> is_whitespace (hd s)" "\<not> is_whitespace (last s)"
  shows "trim s = s"
proof -
  have "trim_start s = s" using assms by (simp add: trim_start_def dropWhile_id)
  moreover have "trim_end s = s" using assms by (simp add: trim_end_def dropWhile_id hd_rev)
  ultimately show ?thesis by (simp add: trim_def)
qed

lemma trimmed_last:
  assumes "trim s = s" "s \<noteq> []" shows "\<not> is_whitespace (last s)"
proof -
  have e: "s = rev (dropWhile is_whitespace (rev (trim_start s)))"
    using assms(1) by (simp add: trim_def trim_end_def)
  then have "dropWhile is_whitespace (rev (trim_start s)) \<noteq> []"
    using assms(2) by (metis rev.simps(1))
  then have "\<not> is_whitespace (hd (dropWhile is_whitespace (rev (trim_start s))))"
    by (rule hd_dropWhile)
  then show ?thesis by (subst e) (simp add: last_rev)
qed

definition env_line :: "string \<times> string \<Rightarrow> string" where
  "env_line kv = fst kv @ ''='' @ snd kv"

text \<open>What the edit form can show and read back: valid names, values without surrounding
  white space and line feeds.\<close>

definition plain_env :: "btree \<Rightarrow> bool" where
  "plain_env env \<longleftrightarrow> list_all (\<lambda>(k, v). valid_key k \<and> trim v = v \<and> CHR 0x0A \<notin> set v) env"

lemma env_line_facts:
  assumes "valid_key k" "trim v = v" "CHR 0x0A \<notin> set v"
  shows "trim (env_line (k, v)) = env_line (k, v)" "env_line (k, v) \<noteq> []"
    "CHR 0x0A \<notin> set (env_line (k, v))" "last (env_line (k, v)) \<noteq> CHR 0x0D"
    "\<not> starts_with (env_line (k, v)) ''#''" "split_once (env_line (k, v)) ''='' = Some (k, v)"
    "trim k = k"
proof -
  from valid_key_chars[OF assms(1)] have k: "k \<noteq> []" and
    kc: "\<And>c. c \<in> set k \<Longrightarrow> \<not> is_whitespace c \<and> c \<noteq> CHR ''='' \<and> c \<noteq> CHR ''#'' \<and> c \<noteq> CHR 0x0A"
    by auto
  have hd: "hd (env_line (k, v)) = hd k" using k by (simp add: env_line_def)
  have last: "\<not> is_whitespace (last (env_line (k, v)))"
    using trimmed_last[OF assms(2)] by (auto simp: env_line_def is_whitespace_def)
  show ne: "env_line (k, v) \<noteq> []" by (simp add: env_line_def)
  show "trim (env_line (k, v)) = env_line (k, v)"
    using trim_id[OF ne _ last] kc[of "hd k"] k hd by simp
  show "CHR 0x0A \<notin> set (env_line (k, v))" using kc assms(3) by (auto simp: env_line_def)
  show "last (env_line (k, v)) \<noteq> CHR 0x0D" using last by (auto simp: is_whitespace_def)
  show "\<not> starts_with (env_line (k, v)) ''#''"
    using kc[of "hd k"] k by (cases k) (auto simp: env_line_def starts_with_def)
  show "split_once (env_line (k, v)) ''='' = Some (k, v)"
    using split_once_char[of "CHR ''=''" k v] kc by (auto simp: env_line_def)
  show "trim k = k" using trim_id[of k] k kc[of "hd k"] kc[of "last k"] by simp
qed

lemma parse_env_lines_plain:
  "plain_env env \<Longrightarrow>
   parse_env_lines i m (map env_line env) = Inr (foldl (\<lambda>m (k, v). bt_insert k v m) m env)"
proof (induction env arbitrary: i m)
  case (Cons kv env)
  obtain k v where kv: "kv = (k, v)" by (cases kv)
  with Cons.prems have ok: "valid_key k" "trim v = v" "CHR 0x0A \<notin> set v" "plain_env env"
    by (auto simp: plain_env_def)
  note f = env_line_facts[OF ok(1-3)]
  show ?case
    using Cons.IH[OF ok(4), of "Suc i" "bt_insert k v m"] f ok by (simp add: kv Let_def)
qed simp

lemma foldl_bt_insert_sorted:
  assumes "bt_wf (m @ env)"
  shows "foldl (\<lambda>m (k, v). bt_insert k v m) m env = m @ env"
  using assms
proof (induction env arbitrary: m)
  case (Cons kv env)
  obtain k v where kv: "kv = (k, v)" by (cases kv)
  have "bt_insert k v m = m @ [(k, v)]"
    using Cons.prems kv by (intro bt_insert_last) (auto simp: bt_wf_def sorted_wrt_append)
  with Cons.IH[of "m @ [kv]"] Cons.prems kv show ?case by simp
qed simp

text \<open>The stored environments as a map from servers to environments.\<close>

lemma edit_rows_all_open:
  assumes "map is_key_name rs = map fst env" "map (open_row sb) rs = map (\<lambda>(k, v). Inr (as_bytes v)) env"
  shows "edit_rows sb acc rs = Inr (foldl (\<lambda>m (k, v). bt_insert k v m) acc env)"
  using assms
proof (induction rs arbitrary: env acc)
  case (Cons r rs)
  then obtain k v env' where env: "env = (k, v) # env'" "is_key_name r = k"
    "open_row sb r = Inr (as_bytes v)" "map is_key_name rs = map fst env'"
    "map (open_row sb) rs = map (\<lambda>(k, v). Inr (as_bytes v)) env'"
    by (cases env) (auto split: prod.splits)
  with Cons.IH[OF env(4,5)] show ?case by simp
qed simp

lemma insert_env_other: "insert_env sb i fresh n env d = Inr d' \<Longrightarrow> j \<noteq> i \<Longrightarrow> secrets_of d' j = secrets_of d j"
proof (induction env arbitrary: n d)
  case (Cons kv env)
  obtain k v where kv: "kv = (k, v)" by (cases kv)
  from Cons.prems(1) kv obtain r d1 where d1: "insert_secret d r = Inr d1" and r: "is_instance_id r = i"
    and rest: "insert_env sb i fresh (Suc n) env d1 = Inr d'"
    by (fastforce split: sum.splits)
  from secrets_of_insert[OF d1, of j] r Cons.prems(2) Cons.IH[OF rest] show ?case by simp
qed simp

lemma replace_env_other: "replace_env sb fresh d i env = Inr d' \<Longrightarrow> j \<noteq> i \<Longrightarrow> secrets_of d' j = secrets_of d j"
  using insert_env_other[of sb i fresh 0 env _ d' j] by (auto simp: replace_env_def secrets_of_def tbl_delete_def intro!: filter_cong)

section \<open>Properties\<close>

text \<open>C38: the encrypted environment store refines a map from servers to environments. Replacing an
  environment is an update of that map at the one server, and reading an environment for editing
  is a lookup: the saved environment comes back entry for entry, and every other server's
  environment is as before.\<close>

theorem env_store_refines_map:
  assumes "replace_env sb fresh d i env = Inr d'"
    and "cipher_law sb" "\<forall>m. length (snd (fresh m)) = NONCE_LEN" "bt_wf env"
  shows "env_for_edit sb d' = (env_for_edit sb d)(i := Inr env)"
proof
  fix j
  have len: "length (snd (fresh m)) = NONCE_LEN" for m using assms(3) by blast
  obtain rs where rs: "secrets_of d' i = rs" "map is_key_name rs = map fst env"
    "map (open_row sb) rs = map (\<lambda>(k, v). Inr (as_bytes v)) env"
    using insert_env_rows[OF assms(1)[unfolded replace_env_def] assms(2) len] secrets_of_cleared by (metis append_Nil)
  have "edit_rows sb [] rs = Inr env"
    using edit_rows_all_open[OF rs(2,3)] foldl_bt_insert_sorted[of "[]" env] assms(4) by simp
  with rs(1) replace_env_other[OF assms(1), of j]
  show "env_for_edit sb d' j = ((env_for_edit sb d)(i := Inr env)) j" by (simp add: env_for_edit_def)
qed

theorem env_store_refines_map_witness:
  "env_for_edit rev_box (group_demo_db\<lparr>instance_secrets :=
      [\<lparr>is_id = ''s0'', is_instance_id = ''i1'', is_key_name = ''TOKEN'',
        is_nonce = replicate 24 CHR ''n'', is_ciphertext = ''cba''\<rparr>]\<rparr>) =
   (env_for_edit rev_box group_demo_db)(''i1'' := Inr [(''TOKEN'', ''abc'')])"
proof -
  have "replace_env rev_box (\<lambda>n. (''s0'', replicate 24 CHR ''n'')) group_demo_db ''i1'' [(''TOKEN'', ''abc'')] =
    Inr (group_demo_db\<lparr>instance_secrets :=
      [\<lparr>is_id = ''s0'', is_instance_id = ''i1'', is_key_name = ''TOKEN'',
        is_nonce = replicate 24 CHR ''n'', is_ciphertext = ''cba''\<rparr>]\<rparr>)"
    by (simp add: replace_env_def seal_def rev_box_def insert_secret_def has_instance_def tbl_delete_def
        as_bytes_def utf8_char_def is_ascii_def group_demo_simps)
  from env_store_refines_map[OF this rev_box_law] show ?thesis
    by (simp add: NONCE_LEN_def bt_wf_def)
qed

text \<open>The environment block round-trips. Rendering an environment for the edit form and
  parsing the text back gives the same environment, for every map with valid variable names
  whose values carry no line feed and no surrounding white space.\<close>

theorem env_block_round_trip:
  assumes "bt_wf env" "plain_env env"
  shows "parse_env (render_env env) = Inr env"
proof -
  have lines: "lines (render_env env) = map env_line env"
  proof -
    have "render_env env = join [CHR 0x0A] (map env_line env)"
      by (simp add: render_env_def env_line_def[abs_def] case_prod_unfold)
    moreover have "CHR 0x0A \<notin> set l \<and> l \<noteq> [] \<and> last l \<noteq> CHR 0x0D" if "l \<in> set (map env_line env)" for l
      using that assms(2) env_line_facts(2-4) by (fastforce simp: plain_env_def list_all_iff)
    ultimately show ?thesis using lines_join by metis
  qed
  show ?thesis
    unfolding parse_env_def lines parse_env_lines_plain[OF assms(2)]
    using foldl_bt_insert_sorted[of "[]" env] assms(1) by simp
qed

theorem env_block_round_trip_witness:
  "parse_env (render_env [(''API_URL'', ''https://z.example/a=b''), (''TOKEN'', ''s3 cret'')]) =
     Inr [(''API_URL'', ''https://z.example/a=b''), (''TOKEN'', ''s3 cret'')]"
proof (rule env_block_round_trip)
  show "bt_wf [(''API_URL'', ''https://z.example/a=b''), (''TOKEN'', ''s3 cret'')]" by code_simp
  show "plain_env [(''API_URL'', ''https://z.example/a=b''), (''TOKEN'', ''s3 cret'')]" by code_simp
qed

text \<open>The warning about secrets on the command line is complete. A stored secret the scan
  does not report cannot reach the child's argv: the expanded command and every expanded
  argument are the same for any two environments that differ only in that secret.\<close>

theorem unreported_secret_not_in_argv:
  assumes "k \<in> set secrets" "k \<notin> set (secret_refs_in_argv command args secrets)"
    and "\<forall>j. j \<noteq> k \<longrightarrow> map_of v1 j = map_of v2 j"
  shows "map_option (\<lambda>c. expand_vars c v1) command = map_option (\<lambda>c. expand_vars c v2) command \<and>
         map (\<lambda>a. expand_vars a v1) args = map (\<lambda>a. expand_vars a v2) args"
proof
  let ?start = "case command of None \<Rightarrow> [] | Some c \<Rightarrow> scan_refs secrets c []"
  have agree: "\<And>j. j \<noteq> k \<Longrightarrow> map_of v1 j = map_of v2 j" using assms(3) by blast
  from foldl_scan_refs[OF assms(2)[unfolded secret_refs_in_argv_def]]
  have start: "k \<notin> set ?start" and rest: "\<forall>a\<in>set args. \<exists>f. k \<notin> set (scan_refs secrets a f)" by auto
  show "map_option (\<lambda>c. expand_vars c v1) command = map_option (\<lambda>c. expand_vars c v2) command"
    using expand_scan_indep[OF assms(1) _ agree] start by (cases command) auto
  show "map (\<lambda>a. expand_vars a v1) args = map (\<lambda>a. expand_vars a v2) args"
  proof (rule map_cong[OF refl])
    fix a assume "a \<in> set args"
    with rest obtain f where "k \<notin> set (scan_refs secrets a f)" by blast
    from expand_scan_indep[OF assms(1) this agree] show "expand_vars a v1 = expand_vars a v2" by simp
  qed
qed

theorem unreported_secret_not_in_argv_witness:
  "secret_refs_in_argv (Some ''run'') [''--url=${URL}''] [''TOKEN'', ''URL''] = [''URL''] \<and>
   map (\<lambda>a. expand_vars a [(''TOKEN'', ''one''), (''URL'', ''u'')]) [''--url=${URL}''] =
   map (\<lambda>a. expand_vars a [(''TOKEN'', ''two''), (''URL'', ''u'')]) [''--url=${URL}'']"
proof -
  have refs: "secret_refs_in_argv (Some ''run'') [''--url=${URL}''] [''TOKEN'', ''URL''] = [''URL'']"
    by code_simp
  have "\<forall>j. j \<noteq> ''TOKEN'' \<longrightarrow> map_of [(''TOKEN'', ''one''), (''URL'', ''u'')] j =
          map_of [(''TOKEN'', ''two''), (''URL'', ''u'')] j" by simp
  from unreported_secret_not_in_argv[of "''TOKEN''" "[''TOKEN'', ''URL'']" "Some ''run''"
      "[''--url=${URL}'']", OF _ _ this] refs
  show ?thesis by simp
qed

end
