(* ===== verification/Hub_Status.thy ===== *)
theory Hub_Status
  imports Hub_Instances
begin

text \<open>
  \<^verbatim>\<open>src/status.rs\<close> and \<^verbatim>\<open>src/stats.rs\<close>: the registry of each instance's last connection outcome
  and the statistics read from it. A Rust \<open>HashMap\<close> is an association list with distinct
  keys; the operations \<open>hm_*\<close> are shared with the backend pool.
\<close>

section \<open>HashMap\<close>

type_synonym ('k, 'v) hash_map = "('k \<times> 'v) list"

definition hm_get :: "('k, 'v) hash_map \<Rightarrow> 'k \<Rightarrow> 'v option" where
  "hm_get m k = map_of m k"

definition hm_remove :: "'k \<Rightarrow> ('k, 'v) hash_map \<Rightarrow> ('k, 'v) hash_map" where
  "hm_remove k m = filter (\<lambda>p. fst p \<noteq> k) m"

definition hm_insert :: "'k \<Rightarrow> 'v \<Rightarrow> ('k, 'v) hash_map \<Rightarrow> ('k, 'v) hash_map" where
  "hm_insert k v m = (k, v) # hm_remove k m"

definition hm_retain :: "('k \<Rightarrow> 'v \<Rightarrow> bool) \<Rightarrow> ('k, 'v) hash_map \<Rightarrow> ('k, 'v) hash_map" where
  "hm_retain P m = filter (\<lambda>(k, v). P k v) m"

lemma hm_get_Nil [simp]: "hm_get [] k = None"
  by (simp add: hm_get_def)

lemma hm_get_remove [simp]: "hm_get (hm_remove k m) j = (if j = k then None else hm_get m j)"
  by (induction m) (auto simp: hm_get_def hm_remove_def)

lemma hm_get_insert [simp]: "hm_get (hm_insert k v m) j = (if j = k then Some v else hm_get m j)"
  using hm_get_remove[of k m j] by (auto simp: hm_insert_def hm_get_def)

lemma hm_get_retain: "distinct (map fst m) \<Longrightarrow>
    hm_get (hm_retain P m) j = (case hm_get m j of None \<Rightarrow> None | Some v \<Rightarrow> if P j v then Some v else None)"
  by (induction m) (auto simp: hm_get_def hm_retain_def map_of_eq_None_iff image_iff split: option.splits)

lemma hm_retain_keys:
  "hm_get (hm_retain (\<lambda>k _. P k) m) j = (if P j then hm_get m j else None)"
  by (induction m) (auto simp: hm_get_def hm_retain_def)

lemma distinct_hm_remove [simp]: "distinct (map fst m) \<Longrightarrow> distinct (map fst (hm_remove k m))"
  by (auto simp: hm_remove_def distinct_map_filter)

lemma distinct_hm_insert [simp]: "distinct (map fst m) \<Longrightarrow> distinct (map fst (hm_insert k v m))"
  by (auto simp: hm_insert_def hm_remove_def distinct_map_filter)

lemma distinct_hm_retain [simp]: "distinct (map fst m) \<Longrightarrow> distinct (map fst (hm_retain P m))"
  by (auto simp: hm_retain_def distinct_map_filter)

lemma keys_hm_insert: "fst ` set (hm_insert k v m) = insert k (fst ` set m)"
  by (auto simp: hm_insert_def hm_remove_def)

lemma hm_get_None: "hm_get m k = None \<longleftrightarrow> k \<notin> fst ` set m"
  by (simp add: hm_get_def map_of_eq_None_iff)

section \<open>Runtime status (status.rs)\<close>

datatype runtime_state = RsOk | RsError | RsSkipped | RsUnbuilt | RsUnknown

fun rs_as_str :: "runtime_state \<Rightarrow> string" where
  "rs_as_str RsOk = ''ok''"
| "rs_as_str RsError = ''error''"
| "rs_as_str RsSkipped = ''skipped''"
| "rs_as_str RsUnbuilt = ''unbuilt''"
| "rs_as_str RsUnknown = ''unknown''"

record runtime_status =
  rs_state :: runtime_state
  rs_detail :: "string option"
  rs_checked_at :: int

type_synonym status_registry = "(string, runtime_status) hash_map"

definition status_set :: "int \<Rightarrow> status_registry \<Rightarrow> string \<Rightarrow> runtime_state \<Rightarrow> string option \<Rightarrow> status_registry" where
  "status_set now reg i st detail =
     hm_insert i \<lparr>rs_state = st, rs_detail = detail, rs_checked_at = now\<rparr> reg"

definition status_get :: "status_registry \<Rightarrow> string \<Rightarrow> runtime_status option" where
  "status_get reg i = hm_get reg i"

definition status_remove :: "status_registry \<Rightarrow> string \<Rightarrow> status_registry" where
  "status_remove reg i = hm_remove i reg"

definition status_retain :: "status_registry \<Rightarrow> string set \<Rightarrow> status_registry" where
  "status_retain reg live_ids = hm_retain (\<lambda>i _. i \<in> live_ids) reg"

section \<open>Statistics (stats.rs)\<close>

record totals =
  to_users :: nat
  to_instances :: nat
  to_enabled_instances :: nat
  to_running :: nat
  to_error :: nat
  to_skipped :: nat
  to_unbuilt :: nat
  to_unknown :: nat

record instance_stat =
  sn_owner :: string
  sn_namespace :: string
  sn_display_name :: string
  sn_enabled :: bool
  sn_runtime_status :: string
  sn_runtime_detail :: "string option"
  sn_runtime_checked_at :: "int option"

definition tally :: "status_registry \<Rightarrow> totals \<Rightarrow> inst_row \<Rightarrow> totals" where
  "tally reg t i =
     (let t1 = (if i_enabled i then t\<lparr>to_enabled_instances := to_enabled_instances t + 1\<rparr> else t) in
      case map_option rs_state (status_get reg (i_id i)) of
        Some RsOk \<Rightarrow> t1\<lparr>to_running := to_running t1 + 1\<rparr>
      | Some RsError \<Rightarrow> t1\<lparr>to_error := to_error t1 + 1\<rparr>
      | Some RsSkipped \<Rightarrow> t1\<lparr>to_skipped := to_skipped t1 + 1\<rparr>
      | Some RsUnbuilt \<Rightarrow> t1\<lparr>to_unbuilt := to_unbuilt t1 + 1\<rparr>
      | Some RsUnknown \<Rightarrow> t1\<lparr>to_unknown := to_unknown t1 + 1\<rparr>
      | None \<Rightarrow> t1\<lparr>to_unknown := to_unknown t1 + 1\<rparr>)"

definition stat_row :: "db \<Rightarrow> status_registry \<Rightarrow> inst_row \<Rightarrow> instance_stat" where
  "stat_row d reg i =
     (let rs = status_get reg (i_id i) in
      \<lparr>sn_owner = (case users_find_by_id d (i_user_id i) of
                     None \<Rightarrow> i_user_id i | Some u \<Rightarrow> u_handle u),
       sn_namespace = i_namespace i, sn_display_name = i_display_name i, sn_enabled = i_enabled i,
       sn_runtime_status = (case rs of None \<Rightarrow> ''unknown'' | Some s \<Rightarrow> rs_as_str (rs_state s)),
       sn_runtime_detail = Option.bind rs rs_detail,
       sn_runtime_checked_at = map_option rs_checked_at rs\<rparr>)"

text \<open>The part of \<open>gather\<close> that reads the database and the registry; slots used is a saturating
  subtraction.\<close>

definition gather_totals :: "db \<Rightarrow> status_registry \<Rightarrow> totals \<times> instance_stat list" where
  "gather_totals d reg =
     (let us = users_list d; all = inst_list_all d in
      (foldl (tally reg)
         \<lparr>to_users = length us, to_instances = length all, to_enabled_instances = 0,
          to_running = 0, to_error = 0, to_skipped = 0, to_unbuilt = 0, to_unknown = 0\<rparr> all,
       map (stat_row d reg) all))"

definition slots_used :: "nat \<Rightarrow> nat \<Rightarrow> nat" where
  "slots_used cap available = cap - available"

section \<open>Lemmas\<close>

definition classified :: "totals \<Rightarrow> nat" where
  "classified t = to_running t + to_error t + to_skipped t + to_unbuilt t + to_unknown t"

lemma tally_counts:
  "classified (tally reg t i) = classified t + 1 \<and> to_users (tally reg t i) = to_users t \<and>
   to_instances (tally reg t i) = to_instances t \<and>
   to_enabled_instances (tally reg t i) = to_enabled_instances t + (if i_enabled i then 1 else 0) \<and>
   to_running (tally reg t i) = to_running t +
     (if map_option rs_state (status_get reg (i_id i)) = Some RsOk then 1 else 0)"
  by (auto simp: tally_def classified_def Let_def split: option.splits runtime_state.splits)

lemma foldl_tally:
  "classified (foldl (tally reg) t is) = classified t + length is \<and>
   to_enabled_instances (foldl (tally reg) t is) = to_enabled_instances t + length (filter i_enabled is) \<and>
   to_instances (foldl (tally reg) t is) = to_instances t \<and>
   to_running (foldl (tally reg) t is) = to_running t +
     length (filter (\<lambda>i. map_option rs_state (status_get reg (i_id i)) = Some RsOk) is)"
proof (induction "is" arbitrary: t)
  case (Cons i xs)
  from Cons.IH[of "tally reg t i"] tally_counts[of reg t i] show ?case by simp
qed simp

section \<open>Properties\<close>

text \<open>The totals of the statistics page partition the instances: running, failed, skipped,
  unbuilt and unknown add up to the number of instances, enabled counts the enabled ones, and
  there is one row per instance, so the two views cannot drift apart.\<close>

theorem stats_totals_partition:
  "classified (fst (gather_totals d reg)) = to_instances (fst (gather_totals d reg)) \<and>
   to_instances (fst (gather_totals d reg)) = length (user_server_instances d) \<and>
   to_enabled_instances (fst (gather_totals d reg)) = length (filter i_enabled (inst_list_all d)) \<and>
   to_running (fst (gather_totals d reg)) =
     length (filter (\<lambda>i. map_option rs_state (status_get reg (i_id i)) = Some RsOk) (inst_list_all d)) \<and>
   length (snd (gather_totals d reg)) = length (user_server_instances d)"
proof -
  let ?t0 = "\<lparr>to_users = length (users_list d), to_instances = length (inst_list_all d),
      to_enabled_instances = 0, to_running = 0, to_error = 0, to_skipped = 0, to_unbuilt = 0,
      to_unknown = 0\<rparr>"
  have fst: "fst (gather_totals d reg) = foldl (tally reg) ?t0 (inst_list_all d)"
    and snd: "length (snd (gather_totals d reg)) = length (inst_list_all d)"
    by (simp_all add: gather_totals_def Let_def)
  have len: "length (inst_list_all d) = length (user_server_instances d)"
    by (simp add: inst_list_all_def)
  have zero: "classified ?t0 = 0" by (simp add: classified_def)
  show ?thesis
    unfolding fst snd using foldl_tally[of reg ?t0 "inst_list_all d"] zero len by simp
qed

end
