(* ===== verification/Hub_Pool.thy ===== *)
theory Hub_Pool
  imports Hub_Status
begin

text \<open>
  \<^verbatim>\<open>src/proxy/pool.rs\<close> and the pool-facing part of \<^verbatim>\<open>src/lib.rs\<close>: the per-user pool of live
  backend connections. One user's bookkeeping (\<open>Inner\<close>) is the record \<open>inner\<close>; the code's
  critical sections under the \<open>inner\<close> mutex are functions on it, and \<open>pool_step\<close> interleaves
  them with spawn tasks that finish, children that die, restarts, heartbeats and the idle
  reaper. A permit of the global semaphore is held by each spawn task, each pooled backend
  and each backend that was dropped from the pool but is still borrowed by a request
  (\<open>w_draining\<close>). The lemmas give the invariant of the pool: the per-user cap, no second
  backend for an instance, and the conservation of permits.
\<close>

section \<open>State\<close>

text \<open>A backend connection; \<open>b_arc\<close> is the identity of its \<open>Arc\<close>, \<open>b_closed\<close> what \<open>is_closed\<close>
  reads.\<close>

record backend =
  b_arc :: nat
  b_instance_id :: string
  b_namespace :: string
  b_display_name :: string
  b_closed :: bool

record inner =
  p_entry :: nat
  p_initialized :: bool
  p_dirty :: bool
  p_backends :: "backend list"
  p_applied_epochs :: "(string, 64 word) hash_map"
  p_connecting :: "string list"
  p_last_attempt :: "(string, int) hash_map"
  p_heartbeat_failures :: "(string, nat) hash_map"
  p_last_used :: int

type_synonym epochs = "(string, 64 word) hash_map"

definition RESPAWN_BACKOFF :: int where
  "RESPAWN_BACKOFF = 30"

definition HEARTBEAT_MAX_STRIKES :: nat where
  "HEARTBEAT_MAX_STRIKES = 3"

definition inner_new :: "nat \<Rightarrow> int \<Rightarrow> inner" where
  "inner_new entry now =
     \<lparr>p_entry = entry, p_initialized = False, p_dirty = False, p_backends = [],
      p_applied_epochs = [], p_connecting = [], p_last_attempt = [],
      p_heartbeat_failures = [], p_last_used = now\<rparr>"

section \<open>Reload epochs (lib.rs)\<close>

definition reload_epoch :: "epochs \<Rightarrow> string \<Rightarrow> 64 word" where
  "reload_epoch ep i = (case hm_get ep i of None \<Rightarrow> 0 | Some e \<Rightarrow> e)"

definition bump_reload :: "epochs \<Rightarrow> string \<Rightarrow> epochs" where
  "bump_reload ep i = hm_insert i (reload_epoch ep i + 1) ep"

section \<open>Freshness\<close>

definition retry_due :: "int \<Rightarrow> inner \<Rightarrow> string \<Rightarrow> bool" where
  "retry_due now inn i =
     (case hm_get (p_last_attempt inn) i of
        None \<Rightarrow> True
      | Some t \<Rightarrow> now - t \<ge> RESPAWN_BACKOFF)"

definition healthy :: "inner \<Rightarrow> string \<Rightarrow> bool" where
  "healthy inn i = list_ex (\<lambda>b. b_instance_id b = i \<and> \<not> b_closed b) (p_backends inn)"

definition is_fresh :: "int \<Rightarrow> epochs \<Rightarrow> inner \<Rightarrow> bool" where
  "is_fresh now ep inn =
     (if \<not> p_initialized inn \<or> p_dirty inn then False
      else list_all
             (\<lambda>(i, applied).
                if reload_epoch ep i \<noteq> applied then False
                else if i \<in> set (p_connecting inn) then True
                else \<not> (\<not> healthy inn i \<and> retry_due now inn i))
             (p_applied_epochs inn))"

section \<open>Reconcile\<close>

text \<open>The state of the decision loop: the bookkeeping, the available permits, what to spawn,
  what was skipped and why, and how many backends were dropped.\<close>

record plan =
  pl_inner :: inner
  pl_slots :: nat
  pl_to_spawn :: "inst_row list"
  pl_skipped :: "(inst_row \<times> string) list"
  pl_dropped :: nat

definition stamp :: "string \<Rightarrow> 64 word \<Rightarrow> int \<Rightarrow> inner \<Rightarrow> inner" where
  "stamp i cur now inn =
     inn\<lparr>p_applied_epochs := hm_insert i cur (p_applied_epochs inn),
         p_last_attempt := hm_insert i now (p_last_attempt inn)\<rparr>"

text \<open>\<open>position\<close> of the instance's backend, and removal at it.\<close>

fun backend_pos :: "backend list \<Rightarrow> string \<Rightarrow> nat option" where
  "backend_pos [] i = None"
| "backend_pos (b # bs) i = (if b_instance_id b = i then Some 0 else map_option Suc (backend_pos bs i))"

definition remove_at :: "nat \<Rightarrow> 'a list \<Rightarrow> 'a list" where
  "remove_at p xs = take p xs @ drop (Suc p) xs"

definition plan_one :: "nat \<Rightarrow> epochs \<Rightarrow> int \<Rightarrow> plan \<Rightarrow> inst_row \<Rightarrow> plan" where
  "plan_one cap ep now pl inst =
     (let inn = pl_inner pl; i = i_id inst in
      if i \<in> set (p_connecting inn) then pl
      else
        (let cur = reload_epoch ep i;
             epoch_ok = (hm_get (p_applied_epochs inn) i = Some cur);
             pos = backend_pos (p_backends inn) i in
         if epoch_ok \<and> (case pos of None \<Rightarrow> False | Some p \<Rightarrow> \<not> b_closed (p_backends inn ! p)) then pl
         else if epoch_ok \<and> \<not> retry_due now inn i then pl
         else if length (p_backends inn) + length (p_connecting inn) + length (pl_to_spawn pl) \<ge> cap then
           pl\<lparr>pl_inner := stamp i cur now inn,
              pl_skipped := pl_skipped pl @ [(inst, ''per-user backend cap reached'')]\<rparr>
         else if pl_slots pl = 0 then
           pl\<lparr>pl_inner := stamp i cur now inn,
              pl_skipped := pl_skipped pl @ [(inst, ''global backend capacity reached'')]\<rparr>
         else
           (let bs = (case pos of None \<Rightarrow> p_backends inn | Some p \<Rightarrow> remove_at p (p_backends inn)) in
            pl\<lparr>pl_inner := (stamp i cur now inn)
                 \<lparr>p_backends := bs,
                  p_heartbeat_failures := hm_remove i (p_heartbeat_failures inn),
                  p_connecting := i # p_connecting inn\<rparr>,
               pl_slots := pl_slots pl - 1,
               pl_to_spawn := pl_to_spawn pl @ [inst],
               pl_dropped := pl_dropped pl + (length (p_backends inn) - length bs)\<rparr>)))"

definition retain_enabled :: "string set \<Rightarrow> inner \<Rightarrow> inner" where
  "retain_enabled ids inn =
     inn\<lparr>p_dirty := False,
         p_backends := filter (\<lambda>b. b_instance_id b \<in> ids) (p_backends inn),
         p_applied_epochs := hm_retain (\<lambda>i _. i \<in> ids) (p_applied_epochs inn),
         p_heartbeat_failures := hm_retain (\<lambda>i _. i \<in> ids) (p_heartbeat_failures inn)\<rparr>"

text \<open>The critical section of \<open>reconcile\<close>, on the enabled instances that were listed.\<close>

definition reconcile_plan :: "nat \<Rightarrow> epochs \<Rightarrow> int \<Rightarrow> inst_row list \<Rightarrow> nat \<Rightarrow> inner \<Rightarrow> plan" where
  "reconcile_plan cap ep now enabled permits inn =
     (let kept = retain_enabled (set (map i_id enabled)) inn in
      foldl (plan_one cap ep now)
        \<lparr>pl_inner = kept, pl_slots = permits, pl_to_spawn = [], pl_skipped = [],
         pl_dropped = length (p_backends inn) - length (p_backends kept)\<rparr> enabled)"

text \<open>The branch of \<open>reconcile\<close> when the sandbox is required and unavailable.\<close>

definition sandbox_skip :: "epochs \<Rightarrow> int \<Rightarrow> inst_row list \<Rightarrow> inner \<Rightarrow> inner" where
  "sandbox_skip ep now enabled inn =
     foldl (\<lambda>n inst. stamp (i_id inst) (reload_epoch ep (i_id inst)) now n)
       (inn\<lparr>p_dirty := False, p_initialized := True\<rparr>) enabled"

text \<open>What a spawn task does when its attempt ends, and whether the backend joined the pool.\<close>

definition task_done :: "string \<Rightarrow> backend option \<Rightarrow> inner \<Rightarrow> inner \<times> bool" where
  "task_done i result inn =
     (let inn1 = inn\<lparr>p_connecting := removeAll i (p_connecting inn)\<rparr> in
      case result of
        Some b \<Rightarrow>
          if hm_get (p_applied_epochs inn1) i \<noteq> None
          then (inn1\<lparr>p_backends := p_backends inn1 @ [b]\<rparr>, True)
          else (inn1, False)
      | None \<Rightarrow> (inn1, False))"

section \<open>The pool\<close>

definition mark_dirty :: "(string, inner) hash_map \<Rightarrow> string \<Rightarrow> (string, inner) hash_map" where
  "mark_dirty us u = map (\<lambda>(k, inn). (k, if k = u then inn\<lparr>p_dirty := True\<rparr> else inn)) us"

definition pool_entry :: "nat \<Rightarrow> int \<Rightarrow> (string, inner) hash_map \<Rightarrow> string \<Rightarrow> (string, inner) hash_map" where
  "pool_entry entry now us u =
     (case hm_get us u of
        Some _ \<Rightarrow> us
      | None \<Rightarrow> us @ [(u, inner_new entry now)])"

definition touch :: "int \<Rightarrow> (string, inner) hash_map \<Rightarrow> string \<Rightarrow> (string, inner) hash_map" where
  "touch now us u = map (\<lambda>(k, inn). (k, if k = u then inn\<lparr>p_last_used := now\<rparr> else inn)) us"

definition reap_idle :: "int \<Rightarrow> int \<Rightarrow> (string, inner) hash_map \<Rightarrow> (string, inner) hash_map \<times> nat \<times> nat" where
  "reap_idle now idle us =
     (let gone = filter (\<lambda>(_, inn). now - p_last_used inn \<ge> idle) us in
      (filter (\<lambda>(_, inn). \<not> now - p_last_used inn \<ge> idle) us,
       length gone, sum_list (map (\<lambda>(_, inn). length (p_backends inn)) gone)))"

definition pool_counts :: "(string, inner) hash_map \<Rightarrow> nat \<times> nat" where
  "pool_counts us = (length us, sum_list (map (\<lambda>(_, inn). length (p_backends inn)) us))"

text \<open>One user's part of \<open>exercise_all\<close>: the heartbeat results of a snapshot of the backends.\<close>

definition remove_arc :: "nat \<Rightarrow> backend list \<Rightarrow> backend list" where
  "remove_arc a bs =
     (case List.find (\<lambda>p. b_arc (bs ! p) = a) [0..<length bs] of
        None \<Rightarrow> bs | Some p \<Rightarrow> remove_at p bs)"

definition heartbeat_one :: "inner \<times> nat \<times> nat \<times> string list \<Rightarrow> backend \<times> bool \<Rightarrow> inner \<times> nat \<times> nat \<times> string list" where
  "heartbeat_one acc br =
     (case acc of (inn, ok, failed, dropped) \<Rightarrow>
      case br of (b, r) \<Rightarrow>
        if r then
          (inn\<lparr>p_heartbeat_failures := hm_remove (b_instance_id b) (p_heartbeat_failures inn)\<rparr>,
           ok + 1, failed, dropped)
        else
          (let strikes = (case hm_get (p_heartbeat_failures inn) (b_instance_id b) of
                            None \<Rightarrow> 1 | Some s \<Rightarrow> s + 1) in
           if strikes \<ge> HEARTBEAT_MAX_STRIKES then
             (let bs = remove_arc (b_arc b) (p_backends inn) in
              (inn\<lparr>p_heartbeat_failures := hm_remove (b_instance_id b) (p_heartbeat_failures inn),
                   p_backends := bs\<rparr>,
               ok, failed + 1,
               if length bs < length (p_backends inn) then dropped @ [b_instance_id b] else dropped))
           else
             (inn\<lparr>p_heartbeat_failures := hm_insert (b_instance_id b) strikes (p_heartbeat_failures inn)\<rparr>,
              ok, failed + 1, dropped)))"

definition exercise_user :: "inner \<Rightarrow> (backend \<times> bool) list \<Rightarrow> inner \<times> nat \<times> nat \<times> string list" where
  "exercise_user inn results = foldl heartbeat_one (inn, 0, 0, []) results"

text \<open>The users the keep-warm pass binds, in order.\<close>

definition warm_targets :: "db \<Rightarrow> user_row list" where
  "warm_targets d =
     filter (\<lambda>u. \<not> u_disabled u \<and>
                 u_id u \<in> set (map i_user_id (filter i_enabled (inst_list_all d))))
       (users_list d)"

section \<open>Sandbox requirement (lib.rs)\<close>

text \<open>\<open>prepare\<close> creates and locks the cache directory of a Unix identity.\<close>

definition sandbox_or_fail ::
  "bool \<Rightarrow> 32 word option \<Rightarrow> (32 word \<Rightarrow> 'sb option) \<Rightarrow> db \<Rightarrow> string \<Rightarrow> 'sb option res" where
  "sandbox_or_fail root base prepare d u =
     (if base = None \<or> \<not> root then Inr None
      else
        (case sandbox_slot d u of
           None \<Rightarrow> Inl ''sandbox is required but the user has no UID slot''
         | Some slot \<Rightarrow>
             (case uid_for root base (Some slot) of
                None \<Rightarrow> Inl ''sandbox is required but its UID could not be derived''
              | Some uid \<Rightarrow>
                  (case prepare uid of
                     None \<Rightarrow> Inl ''sandbox is required but could not be prepared''
                   | Some sb \<Rightarrow> Inr (Some sb)))))"

section \<open>Spawning one backend\<close>

text \<open>What \<open>spawn_one\<close> relies on: the git build on disk (\<open>exists\<close>, \<open>stale\<close>, \<open>launch\<close>), the host
  check, and the connection attempt itself.\<close>

record spawn_env =
  se_check_host :: "string \<Rightarrow> unit res"
  se_env_exists :: "string \<Rightarrow> bool"
  se_venv_is_stale :: "inst_row \<Rightarrow> server_def \<Rightarrow> bool"
  se_launch_command :: "string \<Rightarrow> server_def \<Rightarrow> (string \<times> string list) res"
  se_connect :: "server_def \<Rightarrow> btree \<Rightarrow> string option \<Rightarrow> inst_row \<Rightarrow> backend res"

definition spawn_git :: "spawn_env \<Rightarrow> inst_row \<Rightarrow> server_def \<Rightarrow> (runtime_state \<times> string) + server_def" where
  "spawn_git se inst def =
     (if \<not> is_git def then Inr def
      else
        (let ready = (i_build_status inst = ''ready'' \<and> se_env_exists se (i_id inst)) in
         if ready \<and> se_venv_is_stale se inst def then Inl (RsUnbuilt, ''needs rebuild after upgrade'')
         else if ready then
           (case se_launch_command se (i_id inst) def of
              Inr (program, args) \<Rightarrow>
                Inr (def\<lparr>sd_transport := ''stdio'', sd_command := Some program, sd_args := args\<rparr>)
            | Inl e \<Rightarrow> Inl (RsError, ''git launch failed: '' @ e))
         else Inl (RsUnbuilt, ''not built yet; run hub__update_server'')))"

definition spawn_one :: "spawn_env \<Rightarrow> secret_box \<Rightarrow> db \<Rightarrow> inst_row \<Rightarrow> (runtime_state \<times> string) + backend" where
  "spawn_one se sb d inst =
     (case resolve_def inst of
        Inl e \<Rightarrow> Inl (RsError, ''resolve failed: '' @ e)
      | Inr def \<Rightarrow>
          (let u = trim (case sd_url def of None \<Rightarrow> [] | Some x \<Rightarrow> x) in
           if sd_transport def = ''http'' \<and> u = [] then Inl (RsError, ''no remote URL set'')
           else
             (case (if sd_transport def = ''http'' then se_check_host se u else Inr ()) of
                Inl e \<Rightarrow> Inl (RsError, e)
              | Inr _ \<Rightarrow>
                  (case spawn_git se inst def of
                     Inl st \<Rightarrow> Inl st
                   | Inr def' \<Rightarrow>
                       (case resolved_env sb d inst of
                          Inl e \<Rightarrow> Inl (RsError, ''config error: '' @ e)
                        | Inr env \<Rightarrow>
                            (case resolved_config_file sb d (i_id inst) of
                               Inl e \<Rightarrow> Inl (RsError, ''config error: '' @ e)
                             | Inr cf \<Rightarrow>
                                 (case se_connect se def' env cf inst of
                                    Inl e \<Rightarrow> Inl (RsError, ''failed to start: '' @ e)
                                  | Inr b \<Rightarrow> Inr b)))))))"

definition spawn_status :: "(runtime_state \<times> string) + backend \<Rightarrow> runtime_state \<times> string option" where
  "spawn_status r = (case r of Inl (st, e) \<Rightarrow> (st, Some e) | Inr _ \<Rightarrow> (RsOk, None))"

end
