(* ===== verification/Hub_Pool_Safety.thy ===== *)
theory Hub_Pool_Safety
  imports Hub_Pool "HOL-Library.Multiset"
begin

text \<open>
  The safety of the backend pool. \<open>pool_step\<close> interleaves the critical sections of
  \<^verbatim>\<open>src/proxy/pool.rs\<close> over all users; its invariant (\<open>pool_inv\<close>, interpretation \<open>pool\<close> of
  \<open>invariant_system\<close>) bounds each user's backends and the permits of the hub and excludes a
  second backend for an instance. The remaining properties describe single sections:
  what one bind claims, restarts at the cap, heartbeats, sandbox failure.
\<close>

section \<open>One user's bookkeeping\<close>

definition user_inv :: "nat \<Rightarrow> inner \<Rightarrow> bool" where
  "user_inv cap inn \<longleftrightarrow>
     length (p_backends inn) + length (p_connecting inn) \<le> cap \<and>
     distinct (map b_instance_id (p_backends inn)) \<and> distinct (p_connecting inn) \<and>
     (\<forall>b\<in>set (p_backends inn). b_instance_id b \<notin> set (p_connecting inn))"

lemma backend_pos_None: "backend_pos bs i = None \<longleftrightarrow> i \<notin> b_instance_id ` set bs"
  by (induction bs) auto

lemma backend_pos_Some:
  "backend_pos bs i = Some p \<Longrightarrow> p < length bs \<and> b_instance_id (bs ! p) = i"
  by (induction bs arbitrary: p) (auto split: if_splits)

lemma remove_at_pos:
  assumes "distinct (map b_instance_id bs)" "backend_pos bs i = Some p"
  shows "remove_at p bs = filter (\<lambda>b. b_instance_id b \<noteq> i) bs"
    and "length bs = Suc (length (remove_at p bs))"
proof -
  show "remove_at p bs = filter (\<lambda>b. b_instance_id b \<noteq> i) bs"
    using assms
  proof (induction bs arbitrary: p)
    case (Cons b bs)
    show ?case
    proof (cases "b_instance_id b = i")
      case True
      then have "\<forall>x\<in>set bs. b_instance_id x \<noteq> i" using Cons.prems(1) by (metis distinct.simps(2) imageI list.simps(9) set_map)
      then have "filter (\<lambda>b. b_instance_id b \<noteq> i) bs = bs" by (simp add: filter_id_conv)
      with True Cons.prems(2) show ?thesis by (simp add: remove_at_def)
    next
      case False
      with Cons.prems obtain q where "p = Suc q" "backend_pos bs i = Some q" by auto
      with Cons.IH[of q] Cons.prems False show ?thesis by (simp add: remove_at_def)
    qed
  qed simp
  show "length bs = Suc (length (remove_at p bs))"
    using backend_pos_Some[OF assms(2)] by (auto simp: remove_at_def)
qed

text \<open>The backends left once the instance's old one, if any, is removed.\<close>

definition without :: "string \<Rightarrow> backend list \<Rightarrow> backend list" where
  "without i bs = filter (\<lambda>b. b_instance_id b \<noteq> i) bs"

lemma case_remove_at:
  assumes "distinct (map b_instance_id bs)"
  shows "(case backend_pos bs i of None \<Rightarrow> bs | Some p \<Rightarrow> remove_at p bs) = without i bs"
proof (cases "backend_pos bs i")
  case None
  then have "\<forall>b\<in>set bs. b_instance_id b \<noteq> i" by (auto simp: backend_pos_None)
  with None show ?thesis by (simp add: without_def filter_id_conv)
next
  case (Some p)
  with remove_at_pos(1)[OF assms Some] show ?thesis by (simp add: without_def)
qed

lemma without_facts:
  "distinct (map b_instance_id bs) \<Longrightarrow> distinct (map b_instance_id (without i bs))"
  "b \<in> set (without i bs) \<longleftrightarrow> b \<in> set bs \<and> b_instance_id b \<noteq> i"
  "length (without i bs) \<le> length bs"
  by (auto simp: without_def distinct_map_filter)

lemma plan_one_cases:
  assumes "distinct (map b_instance_id (p_backends (pl_inner pl)))"
  obtains
    (keep) "plan_one cap ep now pl inst = pl"
  | (skip) why where "plan_one cap ep now pl inst =
      pl\<lparr>pl_inner := stamp (i_id inst) (reload_epoch ep (i_id inst)) now (pl_inner pl),
         pl_skipped := pl_skipped pl @ [(inst, why)]\<rparr>"
  | (claim) "i_id inst \<notin> set (p_connecting (pl_inner pl))"
      "length (p_backends (pl_inner pl)) + length (p_connecting (pl_inner pl)) + length (pl_to_spawn pl) < cap"
      "0 < pl_slots pl"
      "plan_one cap ep now pl inst =
        pl\<lparr>pl_inner := (stamp (i_id inst) (reload_epoch ep (i_id inst)) now (pl_inner pl))
             \<lparr>p_backends := without (i_id inst) (p_backends (pl_inner pl)),
              p_heartbeat_failures := hm_remove (i_id inst) (p_heartbeat_failures (pl_inner pl)),
              p_connecting := i_id inst # p_connecting (pl_inner pl)\<rparr>,
           pl_slots := pl_slots pl - 1,
           pl_to_spawn := pl_to_spawn pl @ [inst],
           pl_dropped := pl_dropped pl + (length (p_backends (pl_inner pl)) -
             length (without (i_id inst) (p_backends (pl_inner pl))))\<rparr>"
proof -
  note unf = plan_one_def Let_def case_remove_at[OF assms, of "i_id inst"]
  show thesis
  proof (cases "plan_one cap ep now pl inst = pl")
    case True
    then show thesis by (rule keep)
  next
    case False
    then have new: "i_id inst \<notin> set (p_connecting (pl_inner pl))" by (auto simp: unf split: if_splits)
    show thesis
    proof (cases "length (p_backends (pl_inner pl)) + length (p_connecting (pl_inner pl)) + length (pl_to_spawn pl) < cap \<and> 0 < pl_slots pl")
      case True
      with False new show thesis by (intro claim) (auto simp: unf split: if_splits)
    next
      case no: False
      with False new show thesis
        by (cases "length (p_backends (pl_inner pl)) + length (p_connecting (pl_inner pl)) + length (pl_to_spawn pl) < cap")
          (rule skip, force simp: unf split: if_splits, rule skip, force simp: unf split: if_splits)
    qed
  qed
qed

lemma stamp_fields [simp]:
  "p_backends (stamp i c n inn) = p_backends inn" "p_connecting (stamp i c n inn) = p_connecting inn"
  "p_entry (stamp i c n inn) = p_entry inn" "p_initialized (stamp i c n inn) = p_initialized inn"
  "p_dirty (stamp i c n inn) = p_dirty inn" "p_heartbeat_failures (stamp i c n inn) = p_heartbeat_failures inn"
  "p_last_used (stamp i c n inn) = p_last_used inn"
  by (simp_all add: stamp_def)

lemma user_inv_stamp [simp]: "user_inv cap (stamp i c n inn) = user_inv cap inn"
  by (simp add: user_inv_def)

text \<open>What the decision loop has done so far, from bookkeeping \<open>inn0\<close> with \<open>s0\<close> permits.\<close>

definition plan_ok :: "nat \<Rightarrow> inner \<Rightarrow> nat \<Rightarrow> plan \<Rightarrow> bool" where
  "plan_ok cap inn0 s0 pl \<longleftrightarrow>
     user_inv cap (pl_inner pl) \<and> p_entry (pl_inner pl) = p_entry inn0 \<and>
     p_connecting (pl_inner pl) = rev (map i_id (pl_to_spawn pl)) @ p_connecting inn0 \<and>
     pl_slots pl + length (pl_to_spawn pl) = s0 \<and>
     length (p_backends (pl_inner pl)) + pl_dropped pl = length (p_backends inn0)"

lemma plan_one_ok:
  assumes "plan_ok cap inn0 s0 pl" shows "plan_ok cap inn0 s0 (plan_one cap ep now pl inst)"
proof -
  from assms have inv: "user_inv cap (pl_inner pl)" by (simp add: plan_ok_def)
  then have dist: "distinct (map b_instance_id (p_backends (pl_inner pl)))" by (simp add: user_inv_def)
  show ?thesis
  proof (rule plan_one_cases[OF dist, of cap ep now inst], goal_cases)
    case keep: 1
    with assms show ?thesis by simp
  next
    case skip: (2 why)
    with assms show ?thesis by (simp add: plan_ok_def)
  next
    case claim: 3
    note wf = without_facts
    have len: "length (without (i_id inst) (p_backends (pl_inner pl))) \<le> length (p_backends (pl_inner pl))"
      by (rule wf(3))
    from inv claim(1,2) len have "user_inv cap (pl_inner (plan_one cap ep now pl inst))"
      unfolding claim(4) by (auto simp: user_inv_def wf(1,2))
    with len assms claim(3) show ?thesis unfolding claim(4) by (simp add: plan_ok_def)
  qed
qed

lemma foldl_plan_ok:
  "plan_ok cap inn0 s0 pl \<Longrightarrow> plan_ok cap inn0 s0 (foldl (plan_one cap ep now) pl insts)"
  by (induction insts arbitrary: pl) (auto intro: plan_one_ok)

lemma user_inv_retain: "user_inv cap inn \<Longrightarrow> user_inv cap (retain_enabled ids inn)"
  using le_trans[OF add_le_mono1[OF length_filter_le[of "\<lambda>b. b_instance_id b \<in> ids" "p_backends inn"]]]
  by (auto simp: user_inv_def retain_enabled_def distinct_map_filter)

lemma reconcile_plan_ok:
  assumes "user_inv cap inn"
  shows "plan_ok cap inn s (reconcile_plan cap ep now enabled s inn)"
  unfolding reconcile_plan_def Let_def
  by (rule foldl_plan_ok)
    (use user_inv_retain[OF assms] length_filter_le in \<open>simp add: plan_ok_def retain_enabled_def\<close>)

lemma user_inv_sandbox_skip:
  "user_inv cap (sandbox_skip ep now enabled inn) = user_inv cap inn \<and>
   p_backends (sandbox_skip ep now enabled inn) = p_backends inn \<and>
   p_connecting (sandbox_skip ep now enabled inn) = p_connecting inn \<and>
   p_entry (sandbox_skip ep now enabled inn) = p_entry inn"
proof -
  have "p_backends (foldl (\<lambda>n inst. stamp (f inst) (g inst) now n) n0 xs) = p_backends n0 \<and>
    p_connecting (foldl (\<lambda>n inst. stamp (f inst) (g inst) now n) n0 xs) = p_connecting n0 \<and>
    p_entry (foldl (\<lambda>n inst. stamp (f inst) (g inst) now n) n0 xs) = p_entry n0"
    for f g and xs :: "inst_row list" and n0 by (induction xs arbitrary: n0) simp_all
  then show ?thesis by (simp add: sandbox_skip_def user_inv_def)
qed

lemma task_done_inv:
  assumes "user_inv cap inn" "i \<in> set (p_connecting inn)"
    and "task_done i res inn = (inn', joined)" "\<And>b. res = Some b \<Longrightarrow> b_instance_id b = i"
  shows "user_inv cap inn' \<and> p_entry inn' = p_entry inn \<and>
         p_connecting inn' = removeAll i (p_connecting inn) \<and>
         length (p_backends inn') = length (p_backends inn) + (if joined then 1 else 0) \<and>
         (joined \<longrightarrow> res \<noteq> None)"
proof -
  have "0 < length (p_connecting inn)" using assms(2) by (cases "p_connecting inn") auto
  then have "length (p_connecting inn) = Suc (length (removeAll i (p_connecting inn)))"
    using assms(1,2) by (simp add: user_inv_def distinct_remove1_removeAll[symmetric] length_remove1)
  then show ?thesis
    using assms by (auto simp: task_done_def user_inv_def Let_def distinct_removeAll split: option.splits if_splits)
qed

lemma remove_arc_sub:
  fixes f :: "backend \<Rightarrow> 'a"
  shows "length (remove_arc a bs) \<le> length bs" "set (remove_arc a bs) \<subseteq> set bs"
  "distinct (map f bs) \<Longrightarrow> distinct (map f (remove_arc a bs))"
proof -
  have at: "length (remove_at p xs) \<le> length xs" "set (remove_at p xs) \<subseteq> set xs"
    "distinct (map f xs) \<Longrightarrow> distinct (map f (remove_at p xs))" for p and xs :: "backend list"
  proof -
    show "length (remove_at p xs) \<le> length xs" by (auto simp: remove_at_def)
    show "set (remove_at p xs) \<subseteq> set xs"
      by (auto simp: remove_at_def dest: in_set_takeD in_set_dropD)
    assume d: "distinct (map f xs)"
    have "set (take p (map f xs)) \<inter> set (drop (Suc p) (map f xs)) = {}"
      using d by (intro set_take_disj_set_drop_if_distinct) auto
    with d show "distinct (map f (remove_at p xs))"
      by (simp add: remove_at_def take_map[symmetric] drop_map[symmetric] del: drop_map take_map)
  qed
  show "length (remove_arc a bs) \<le> length bs" "set (remove_arc a bs) \<subseteq> set bs"
    "distinct (map f bs) \<Longrightarrow> distinct (map f (remove_arc a bs))"
    using at[where xs = bs] by (auto simp: remove_arc_def split: option.splits)
qed

lemma heartbeat_one_inv:
  assumes "user_inv cap inn" "heartbeat_one (inn, o1, f1, d1) br = (inn', o2, f2, d2)"
  shows "user_inv cap inn' \<and> p_entry inn' = p_entry inn \<and> p_connecting inn' = p_connecting inn \<and>
         length (p_backends inn') \<le> length (p_backends inn)"
  using assms remove_arc_sub(1,2)[of "b_arc (fst br)" "p_backends inn"]
    remove_arc_sub(3)[of b_instance_id "p_backends inn" "b_arc (fst br)"]
  by (cases br) (auto simp: heartbeat_one_def user_inv_def Let_def split: if_splits)

lemma exercise_user_inv:
  assumes "user_inv cap inn" "exercise_user inn results = (inn', rest)"
  shows "user_inv cap inn' \<and> p_entry inn' = p_entry inn \<and> p_connecting inn' = p_connecting inn \<and>
         length (p_backends inn') \<le> length (p_backends inn)"
proof -
  have "user_inv cap (fst (foldl heartbeat_one acc results)) \<and>
      p_entry (fst (foldl heartbeat_one acc results)) = p_entry (fst acc) \<and>
      p_connecting (fst (foldl heartbeat_one acc results)) = p_connecting (fst acc) \<and>
      length (p_backends (fst (foldl heartbeat_one acc results))) \<le> length (p_backends (fst acc))"
    if "user_inv cap (fst acc)" for acc
    using that
  proof (induction results arbitrary: acc)
    case (Cons br results)
    obtain i1 o1 f1 d1 where acc: "acc = (i1, o1, f1, d1)" by (cases acc)
    obtain i2 o2 f2 d2 where step: "heartbeat_one acc br = (i2, o2, f2, d2)" by (cases "heartbeat_one acc br")
    from heartbeat_one_inv[of cap i1 o1 f1 d1 br] Cons.prems step acc
    have "user_inv cap i2 \<and> p_entry i2 = p_entry i1 \<and> p_connecting i2 = p_connecting i1 \<and>
      length (p_backends i2) \<le> length (p_backends i1)" by simp
    with Cons.IH[of "(i2, o2, f2, d2)"] step acc show ?case by auto
  qed simp
  from this[of "(inn, 0, 0, [])"] assms show ?thesis by (simp add: exercise_user_def)
qed

section \<open>The pool as a transition system\<close>

record task =
  t_entry :: nat
  t_inst :: inst_row

text \<open>The state shared by the tasks of the hub: the entries of the pool, the entries the reaper
  took out of it while a request or a spawn task still holds them, the spawn tasks, the
  permits left, the dropped backends not yet torn down, the reload epochs, and a counter for
  the identity of new entries.\<close>

record world =
  w_users :: "(string, inner) hash_map"
  w_orphans :: "(string \<times> inner) list"
  w_tasks :: "task list"
  w_permits :: nat
  w_draining :: nat
  w_epochs :: epochs
  w_next :: nat

definition objs :: "world \<Rightarrow> inner list" where
  "objs w = map snd (w_users w @ w_orphans w)"

definition put :: "inner \<Rightarrow> (string \<times> inner) list \<Rightarrow> (string \<times> inner) list" where
  "put inn l = map (\<lambda>(k, v). (k, if p_entry v = p_entry inn then inn else v)) l"

definition put_world :: "inner \<Rightarrow> world \<Rightarrow> world" where
  "put_world inn w = w\<lparr>w_users := put inn (w_users w), w_orphans := put inn (w_orphans w)\<rparr>"

definition close_arc :: "nat \<Rightarrow> inner \<Rightarrow> inner" where
  "close_arc a inn =
     inn\<lparr>p_backends := map (\<lambda>b. if b_arc b = a then b\<lparr>b_closed := True\<rparr> else b) (p_backends inn)\<rparr>"

text \<open>The steps: \<open>backends_for\<close> creating or touching an entry, the critical sections of
  \<open>reconcile\<close> with any list of enabled instances read before it, the end of a bind, a spawn
  task's end, a child's death, a restart, a change of the server list, a heartbeat round, the
  reaper, and the teardown of entries and backends nobody holds any more.\<close>

inductive pool_step :: "nat \<Rightarrow> world \<Rightarrow> world \<Rightarrow> bool" for cap :: nat where
  borrow: "pool_step cap w
     (w\<lparr>w_users := touch now (pool_entry (w_next w) now (w_users w) u) u, w_next := Suc (w_next w)\<rparr>)"
| reconcile: "inn \<in> set (objs w) \<Longrightarrow>
     pl = reconcile_plan cap (w_epochs w) now enabled (w_permits w) inn \<Longrightarrow>
     pool_step cap w
       ((put_world (pl_inner pl) w)
          \<lparr>w_tasks := w_tasks w @ map (\<lambda>i. \<lparr>t_entry = p_entry inn, t_inst = i\<rparr>) (pl_to_spawn pl),
           w_permits := pl_slots pl, w_draining := w_draining w + pl_dropped pl\<rparr>)"
| sandbox_failed: "inn \<in> set (objs w) \<Longrightarrow>
     pool_step cap w (put_world (sandbox_skip (w_epochs w) now enabled inn) w)"
| bound: "inn \<in> set (objs w) \<Longrightarrow> pool_step cap w (put_world (inn\<lparr>p_initialized := True\<rparr>) w)"
| spawn_end: "t \<in> set (w_tasks w) \<Longrightarrow> inn \<in> set (objs w) \<Longrightarrow> p_entry inn = t_entry t \<Longrightarrow>
     (\<And>b. res = Some b \<Longrightarrow> b_instance_id b = i_id (t_inst t)) \<Longrightarrow>
     task_done (i_id (t_inst t)) res inn = (inn', joined) \<Longrightarrow>
     pool_step cap w
       ((put_world inn' w)
          \<lparr>w_tasks := remove1 t (w_tasks w),
           w_permits := (if res = None then Suc (w_permits w) else w_permits w),
           w_draining := (if res \<noteq> None \<and> \<not> joined then Suc (w_draining w) else w_draining w)\<rparr>)"
| child_died: "inn \<in> set (objs w) \<Longrightarrow> pool_step cap w (put_world (close_arc a inn) w)"
| restart: "pool_step cap w (w\<lparr>w_epochs := bump_reload (w_epochs w) i\<rparr>)"
| server_list_changed: "pool_step cap w (w\<lparr>w_users := mark_dirty (w_users w) u\<rparr>)"
| heartbeat: "inn \<in> set (objs w) \<Longrightarrow> exercise_user inn results = (inn', rest) \<Longrightarrow>
     pool_step cap w
       ((put_world inn' w)
          \<lparr>w_draining := w_draining w + (length (p_backends inn) - length (p_backends inn'))\<rparr>)"
| reap: "pool_step cap w
     (w\<lparr>w_users := fst (reap_idle now idle (w_users w)),
        w_orphans := w_orphans w @ filter (\<lambda>(_, inn). now - p_last_used inn \<ge> idle) (w_users w)\<rparr>)"
| free: "w_orphans w = pre @ (u, inn) # post \<Longrightarrow> \<forall>t\<in>set (w_tasks w). t_entry t \<noteq> p_entry inn \<Longrightarrow>
     pool_step cap w
       (w\<lparr>w_orphans := pre @ post, w_draining := w_draining w + length (p_backends inn)\<rparr>)"
| torn_down: "0 < w_draining w \<Longrightarrow>
     pool_step cap w (w\<lparr>w_draining := w_draining w - 1, w_permits := Suc (w_permits w)\<rparr>)"

inductive_cases pool_stepE: "pool_step cap w w'"

definition pool_init :: "nat \<Rightarrow> world \<Rightarrow> bool" where
  "pool_init total_slots w \<longleftrightarrow>
     w = \<lparr>w_users = [], w_orphans = [], w_tasks = [], w_permits = total_slots, w_draining = 0,
          w_epochs = [], w_next = 0\<rparr>"

definition pooled :: "inner list \<Rightarrow> nat" where
  "pooled l = sum_list (map (\<lambda>inn. length (p_backends inn)) l)"

definition task_ids :: "world \<Rightarrow> nat \<Rightarrow> string set" where
  "task_ids w e = (\<lambda>t. i_id (t_inst t)) ` {t \<in> set (w_tasks w). t_entry t = e}"

definition pool_inv :: "nat \<Rightarrow> nat \<Rightarrow> world \<Rightarrow> bool" where
  "pool_inv cap total_slots w \<longleftrightarrow>
     (\<forall>inn\<in>set (objs w). user_inv cap inn \<and> p_entry inn < w_next w \<and>
        set (p_connecting inn) = task_ids w (p_entry inn)) \<and>
     distinct (map p_entry (objs w)) \<and>
     distinct (map (\<lambda>t. (t_entry t, i_id (t_inst t))) (w_tasks w)) \<and>
     (\<forall>t\<in>set (w_tasks w). t_entry t < w_next w) \<and>
     w_permits w + length (w_tasks w) + pooled (objs w) + w_draining w = total_slots"

lemma objs_put: "objs (put_world inn w) = map (\<lambda>v. if p_entry v = p_entry inn then inn else v) (objs w)"
  by (simp add: objs_def put_world_def put_def case_prod_unfold comp_def)

lemma put_world_fields [simp]:
  "w_tasks (put_world inn w) = w_tasks w" "w_permits (put_world inn w) = w_permits w"
  "w_draining (put_world inn w) = w_draining w" "w_next (put_world inn w) = w_next w"
  by (simp_all add: put_world_def)

lemma map_if_same:
  "\<forall>v\<in>set l. p_entry v \<noteq> p_entry inn' \<Longrightarrow> map (\<lambda>v. if p_entry v = p_entry inn' then inn' else v) l = l"
  by (induction l) auto

lemma pooled_put:
  assumes "distinct (map p_entry l)" "inn \<in> set l" "p_entry inn' = p_entry inn"
  shows "pooled (map (\<lambda>v. if p_entry v = p_entry inn' then inn' else v) l) + length (p_backends inn) =
         pooled l + length (p_backends inn')"
  using assms
proof (induction l)
  case (Cons x l)
  show ?case
  proof (cases "x = inn")
    case True
    with Cons.prems have "\<forall>v\<in>set l. p_entry v \<noteq> p_entry inn'" by (metis distinct.simps(2) imageI list.simps(9) set_map)
    from map_if_same[OF this] True Cons.prems(3) show ?thesis by (simp add: pooled_def)
  next
    case False
    with Cons.prems have "inn \<in> set l" "p_entry x \<noteq> p_entry inn'"
      by (auto simp: image_iff) 
    with Cons.IH Cons.prems show ?thesis by (simp add: pooled_def)
  qed
qed simp

lemma map_entry_put: "map p_entry (map (\<lambda>v. if p_entry v = p_entry inn then inn else v) l) = map p_entry l"
  by (induction l) auto

text \<open>Replacing one entry's bookkeeping keeps the invariant when the new bookkeeping satisfies
  the user invariant, knows its tasks, and the permits add up.\<close>

lemma pool_inv_put:
  assumes inv: "pool_inv cap total_slots w" and inn: "inn \<in> set (objs w)"
    and new: "user_inv cap inn'" "p_entry inn' = p_entry inn"
    and w': "objs w' = objs (put_world inn' w)" "w_next w' = w_next w"
    and tasks: "set (p_connecting inn') = task_ids w' (p_entry inn)"
      "\<And>e. e \<noteq> p_entry inn \<Longrightarrow> task_ids w' e = task_ids w e"
      "distinct (map (\<lambda>t. (t_entry t, i_id (t_inst t))) (w_tasks w'))"
      "\<forall>t\<in>set (w_tasks w'). t_entry t < w_next w'"
    and permits: "w_permits w' + length (w_tasks w') + length (p_backends inn') + w_draining w' =
       w_permits w + length (w_tasks w) + length (p_backends inn) + w_draining w"
  shows "pool_inv cap total_slots w'"
proof -
  have o: "objs w' = map (\<lambda>v. if p_entry v = p_entry inn' then inn' else v) (objs w)"
    by (simp add: w' objs_put)
  have dist: "distinct (map p_entry (objs w))" using inv by (simp add: pool_inv_def)
  have "pooled (objs w') + length (p_backends inn) = pooled (objs w) + length (p_backends inn')"
    unfolding o by (rule pooled_put[OF dist inn new(2)])
  then have "w_permits w' + length (w_tasks w') + pooled (objs w') + w_draining w' = total_slots"
    using inv permits by (simp add: pool_inv_def)
  moreover have "user_inv cap v \<and> p_entry v < w_next w' \<and> set (p_connecting v) = task_ids w' (p_entry v)"
    if "v \<in> set (objs w')" for v
    using that inv inn new tasks(1,2) w'(2) unfolding o pool_inv_def by (auto split: if_splits)
  moreover have "distinct (map p_entry (objs w'))" unfolding o map_entry_put by (rule dist)
  ultimately show ?thesis using tasks(3,4) unfolding pool_inv_def by blast
qed

text \<open>What the invariant reads of an entry. A step that permutes the entries and changes nothing
  of this keeps the invariant.\<close>

definition core :: "inner \<Rightarrow> nat \<times> string list \<times> string list" where
  "core inn = (p_entry inn, map b_instance_id (p_backends inn), p_connecting inn)"

lemma core_eqD:
  assumes "core a = core b"
  shows "p_entry a = p_entry b" "p_connecting a = p_connecting b"
    "length (p_backends a) = length (p_backends b)" "user_inv cap a \<longleftrightarrow> user_inv cap b"
proof -
  from assms have e: "map b_instance_id (p_backends a) = map b_instance_id (p_backends b)"
    "p_connecting a = p_connecting b" by (simp_all add: core_def)
  show "p_entry a = p_entry b" "p_connecting a = p_connecting b" using assms by (simp_all add: core_def)
  show len: "length (p_backends a) = length (p_backends b)" using e(1) by (rule map_eq_imp_length_eq)
  have "(\<forall>x\<in>set (p_backends a). b_instance_id x \<notin> S) \<longleftrightarrow> (\<forall>x\<in>set (p_backends b). b_instance_id x \<notin> S)" for S
  proof -
    have "(\<forall>y\<in>set (map b_instance_id (p_backends a)). y \<notin> S) \<longleftrightarrow> (\<forall>y\<in>set (map b_instance_id (p_backends b)). y \<notin> S)"
      by (simp only: e(1))
    then show ?thesis by simp
  qed
  with e len show "user_inv cap a \<longleftrightarrow> user_inv cap b" by (simp add: user_inv_def)
qed

lemma pooled_core: "pooled l = sum_list (map (\<lambda>c. length (fst (snd c))) (map core l))"
  by (simp add: pooled_def core_def comp_def)

lemma pool_inv_core:
  assumes inv: "pool_inv cap total_slots w"
    and c: "mset (map core (objs w')) = mset (map core (objs w))"
    and t: "w_tasks w' = w_tasks w" "w_next w \<le> w_next w'"
    and p: "w_permits w' + w_draining w' = w_permits w + w_draining w"
  shows "pool_inv cap total_slots w'"
proof -
  have ids: "task_ids w' = task_ids w" by (simp add: task_ids_def fun_eq_iff t)
  have "user_inv cap inn \<and> p_entry inn < w_next w' \<and> set (p_connecting inn) = task_ids w' (p_entry inn)"
    if "inn \<in> set (objs w')" for inn
  proof -
    from that have "core inn \<in> set (map core (objs w'))" by simp
    then have "core inn \<in> set (map core (objs w))" using mset_eq_setD[OF c] by simp
    then obtain old where old: "old \<in> set (objs w)" "core inn = core old" by auto
    with inv have "user_inv cap old \<and> p_entry old < w_next w \<and> set (p_connecting old) = task_ids w (p_entry old)"
      by (simp add: pool_inv_def)
    with core_eqD[OF old(2)] t(2) show ?thesis by (simp add: ids)
  qed
  moreover have "distinct (map p_entry (objs w'))"
  proof -
    have "map p_entry l = map fst (map core l)" for l by (simp add: core_def)
    then have "mset (map p_entry (objs w')) = mset (map p_entry (objs w))"
      by (simp only: mset_map[of fst] c)
    from mset_eq_imp_distinct_iff[OF this] show ?thesis using inv by (simp add: pool_inv_def)
  qed
  moreover have "pooled (objs w') = pooled (objs w)"
    unfolding pooled_core sum_mset_sum_list[symmetric] mset_map[of _ "map core _"] c ..
  ultimately show ?thesis using inv t p unfolding pool_inv_def by auto
qed

lemma core_put:
  assumes "inn \<in> set (objs w)" "distinct (map p_entry (objs w))" "core inn' = core inn"
  shows "map core (objs (put_world inn' w)) = map core (objs w)"
proof -
  have "core (if p_entry v = p_entry inn' then inn' else v) = core v" if "v \<in> set (objs w)" for v
  proof (cases "p_entry v = p_entry inn'")
    case True
    then have "p_entry v = p_entry inn" using core_eqD(1)[OF assms(3)] by simp
    then have "v = inn" using that assms(1,2) by (meson distinct_map inj_onD)
    with True assms(3) show ?thesis by simp
  qed simp
  then show ?thesis by (simp add: objs_put)
qed

lemma objs_cong: "w_users a = w_users b \<Longrightarrow> w_orphans a = w_orphans b \<Longrightarrow> objs a = objs b"
  by (simp add: objs_def)

lemma pool_inv_put_core:
  assumes "pool_inv cap total_slots w" "inn \<in> set (objs w)" "core inn' = core inn"
  shows "pool_inv cap total_slots (put_world inn' w)"
  by (rule pool_inv_core[OF assms(1)])
    (use core_put[OF assms(2) _ assms(3)] assms(1) in \<open>simp_all add: pool_inv_def\<close>)

lemma map_core_upd:
  "(\<And>v. core (f v) = core v) \<Longrightarrow>
   map core (map snd (map (\<lambda>(k, inn). (k, if k = u then f inn else inn)) us)) = map core (map snd us)"
  by (induction us) auto

lemma map_core_objs: "map core (objs w) = map core (map snd (w_users w)) @ map core (map snd (w_orphans w))"
  by (simp add: objs_def)

lemma inv_borrow:
  assumes inv: "pool_inv cap total_slots w"
  shows "pool_inv cap total_slots
     (w\<lparr>w_users := touch now (pool_entry (w_next w) now (w_users w) u) u, w_next := Suc (w_next w)\<rparr>)"
proof -
  define w1 where "w1 = w\<lparr>w_users := pool_entry (w_next w) now (w_users w) u, w_next := Suc (w_next w)\<rparr>"
  have "pool_inv cap total_slots w1"
  proof (cases "hm_get (w_users w) u")
    case (Some x)
    show ?thesis by (rule pool_inv_core[OF inv]) (simp_all add: w1_def objs_def pool_entry_def Some)
  next
    case None
    let ?new = "inner_new (w_next w) now"
    have objs: "objs w1 = map snd (w_users w) @ ?new # map snd (w_orphans w)"
      by (simp add: objs_def w1_def pool_entry_def None)
    have old: "objs w = map snd (w_users w) @ map snd (w_orphans w)" by (simp add: objs_def)
    have lt: "\<forall>inn\<in>set (objs w). p_entry inn < w_next w" using inv by (simp add: pool_inv_def)
    have new: "user_inv cap ?new" "p_entry ?new = w_next w" "p_connecting ?new = []" "p_backends ?new = []"
      by (simp_all add: user_inv_def inner_new_def)
    have none: "task_ids w (w_next w) = {}" using inv by (auto simp: task_ids_def pool_inv_def)
    have ids: "task_ids w1 = task_ids w" by (simp add: task_ids_def w1_def fun_eq_iff)
    have "set (objs w1) = insert ?new (set (objs w))" by (auto simp: objs old)
    moreover have nxt: "w_next w1 = Suc (w_next w)" by (simp add: w1_def)
    ultimately have "\<forall>inn\<in>set (objs w1). user_inv cap inn \<and> p_entry inn < w_next w1 \<and>
        set (p_connecting inn) = task_ids w1 (p_entry inn)"
      using inv new none unfolding pool_inv_def ids nxt by (simp add: less_SucI)
    moreover have "distinct (map p_entry (objs w1))"
    proof -
      have "w_next w \<notin> p_entry ` set (objs w)" using lt by auto
      then show ?thesis using inv new(2) unfolding pool_inv_def objs old by auto
    qed
    moreover have "pooled (objs w1) = pooled (objs w)" by (simp add: objs old pooled_def new(4))
    moreover have "w_tasks w1 = w_tasks w" "w_next w1 = Suc (w_next w)" "w_permits w1 = w_permits w"
      "w_draining w1 = w_draining w" by (simp_all add: w1_def)
    ultimately show ?thesis using inv by (simp add: pool_inv_def less_SucI)
  qed
  then show ?thesis
  proof (rule pool_inv_core)
    show "mset (map core (objs (w\<lparr>w_users := touch now (pool_entry (w_next w) now (w_users w) u) u,
            w_next := Suc (w_next w)\<rparr>))) = mset (map core (objs w1))"
    proof -
      have "map core (map snd (touch now us u)) = map core (map snd us)" for us
        unfolding touch_def by (rule map_core_upd) (simp add: core_def)
      then show ?thesis unfolding map_core_objs by (simp add: w1_def del: map_map)
    qed
  qed (simp_all add: w1_def)
qed

lemma inv_reap:
  assumes inv: "pool_inv cap total_slots w"
  shows "pool_inv cap total_slots
     (w\<lparr>w_users := fst (reap_idle now idle (w_users w)),
        w_orphans := w_orphans w @ filter (\<lambda>(_, inn). now - p_last_used inn \<ge> idle) (w_users w)\<rparr>)"
proof (rule pool_inv_core[OF inv])
  have part: "mset (map g (filter (\<lambda>x. \<not> P x) l)) + mset (map g (filter P l)) = mset (map g l)"
    for P and l :: "(string \<times> inner) list" and g :: "string \<times> inner \<Rightarrow> nat \<times> string list \<times> string list"
    by (induction l) auto
  let ?idle = "\<lambda>x :: string \<times> inner. now - p_last_used (snd x) \<ge> idle"
  have "mset (map (\<lambda>x. core (snd x)) (filter (\<lambda>x. \<not> ?idle x) (w_users w))) +
      mset (map (\<lambda>x. core (snd x)) (w_orphans w)) + mset (map (\<lambda>x. core (snd x)) (filter ?idle (w_users w))) =
    mset (map (\<lambda>x. core (snd x)) (w_users w)) + mset (map (\<lambda>x. core (snd x)) (w_orphans w))"
    using part[of "\<lambda>x. core (snd x)" ?idle "w_users w"] by (simp add: ac_simps del: mset_map mset_filter)
  then show "mset (map core (objs (w\<lparr>w_users := fst (reap_idle now idle (w_users w)),
      w_orphans := w_orphans w @ filter (\<lambda>(_, inn). now - p_last_used inn \<ge> idle) (w_users w)\<rparr>))) =
    mset (map core (objs w))"
    by (simp add: objs_def reap_idle_def Let_def case_prod_unfold comp_def del: mset_map mset_filter)
qed simp_all

lemma inv_reconcile:
  assumes inv: "pool_inv cap total_slots w" and inn: "inn \<in> set (objs w)"
    and pl: "pl = reconcile_plan cap (w_epochs w) now enabled (w_permits w) inn"
  shows "pool_inv cap total_slots
     ((put_world (pl_inner pl) w)
        \<lparr>w_tasks := w_tasks w @ map (\<lambda>i. \<lparr>t_entry = p_entry inn, t_inst = i\<rparr>) (pl_to_spawn pl),
         w_permits := pl_slots pl, w_draining := w_draining w + pl_dropped pl\<rparr>)" (is "pool_inv _ _ ?w'")
proof -
  have ui: "user_inv cap inn" and lt: "p_entry inn < w_next w"
    and conn: "set (p_connecting inn) = task_ids w (p_entry inn)"
    and td: "distinct (map (\<lambda>t. (t_entry t, i_id (t_inst t))) (w_tasks w))"
    and tl: "\<forall>t\<in>set (w_tasks w). t_entry t < w_next w"
    using inv inn by (auto simp: pool_inv_def)
  have ok: "plan_ok cap inn (w_permits w) pl" unfolding pl by (rule reconcile_plan_ok[OF ui])
  then have new: "user_inv cap (pl_inner pl)" "p_entry (pl_inner pl) = p_entry inn"
    "p_connecting (pl_inner pl) = rev (map i_id (pl_to_spawn pl)) @ p_connecting inn"
    "pl_slots pl + length (pl_to_spawn pl) = w_permits w"
    "length (p_backends (pl_inner pl)) + pl_dropped pl = length (p_backends inn)"
    by (simp_all add: plan_ok_def)
  have dist: "distinct (map i_id (pl_to_spawn pl))" "i_id ` set (pl_to_spawn pl) \<inter> set (p_connecting inn) = {}"
    using new(1,3) by (auto simp: user_inv_def)
  show ?thesis
  proof (rule pool_inv_put[OF inv inn new(1,2)])
    show "objs ?w' = objs (put_world (pl_inner pl) w)" by (rule objs_cong) simp_all
    have "{t \<in> set (w_tasks ?w'). t_entry t = p_entry inn} = {t \<in> set (w_tasks w). t_entry t = p_entry inn} \<union>
        (\<lambda>i. \<lparr>t_entry = p_entry inn, t_inst = i\<rparr>) ` set (pl_to_spawn pl)" by auto
    then show "set (p_connecting (pl_inner pl)) = task_ids ?w' (p_entry inn)"
      using conn new(3) by (simp only: task_ids_def image_Un image_image) auto
    show "task_ids ?w' e = task_ids w e" if "e \<noteq> p_entry inn" for e
      using that by (auto simp: task_ids_def)
    have disj: "i_id (t_inst t) \<noteq> i_id i"
      if "i \<in> set (pl_to_spawn pl)" "t \<in> set (w_tasks w)" "t_entry t = p_entry inn" for i t
    proof
      assume "i_id (t_inst t) = i_id i"
      with that(2,3) have "i_id i \<in> set (p_connecting inn)"
        unfolding conn task_ids_def by (metis (mono_tags, lifting) imageI mem_Collect_eq)
      with dist(2) that(1) show False by blast
    qed
    have "distinct (map (\<lambda>i. (p_entry inn, i_id i)) (pl_to_spawn pl))"
      using dist(1) by (auto simp: distinct_map inj_on_def)
    with td disj show "distinct (map (\<lambda>t. (t_entry t, i_id (t_inst t))) (w_tasks ?w'))"
      by (auto simp: comp_def)
    show "\<forall>t\<in>set (w_tasks ?w'). t_entry t < w_next ?w'" using tl lt by auto
  qed (use new(4,5) in simp_all)
qed

lemma task_ids_remove1:
  assumes "distinct (map (\<lambda>t. (t_entry t, i_id (t_inst t))) ts)" "t \<in> set ts"
  shows "(\<lambda>t. i_id (t_inst t)) ` {x \<in> set (remove1 t ts). t_entry x = e} =
         (\<lambda>t. i_id (t_inst t)) ` {x \<in> set ts. t_entry x = e} -
           (if e = t_entry t then {i_id (t_inst t)} else {})"
proof -
  have inj: "inj_on (\<lambda>t. (t_entry t, i_id (t_inst t))) (set ts)" and d: "distinct ts"
    using assms(1) by (auto simp: distinct_map)
  have s: "set (remove1 t ts) = set ts - {t}" using d by (rule set_remove1_eq)
  have "x = t" if "x \<in> set ts" "t_entry x = t_entry t" "i_id (t_inst x) = i_id (t_inst t)" for x
    using inj_onD[OF inj, of x t] that assms(2) by simp
  then show ?thesis unfolding s by auto
qed

lemma inv_spawn_end:
  assumes inv: "pool_inv cap total_slots w" and t: "t \<in> set (w_tasks w)"
    and inn: "inn \<in> set (objs w)" "p_entry inn = t_entry t"
    and res: "\<And>b. res = Some b \<Longrightarrow> b_instance_id b = i_id (t_inst t)"
    and fin: "task_done (i_id (t_inst t)) res inn = (inn', joined)"
  shows "pool_inv cap total_slots
       ((put_world inn' w)
          \<lparr>w_tasks := remove1 t (w_tasks w),
           w_permits := (if res = None then Suc (w_permits w) else w_permits w),
           w_draining := (if res \<noteq> None \<and> \<not> joined then Suc (w_draining w) else w_draining w)\<rparr>)"
    (is "pool_inv _ _ ?w'")
proof -
  have ui: "user_inv cap inn" and conn: "set (p_connecting inn) = task_ids w (p_entry inn)"
    and td: "distinct (map (\<lambda>t. (t_entry t, i_id (t_inst t))) (w_tasks w))"
    and tl: "\<forall>t\<in>set (w_tasks w). t_entry t < w_next w"
    using inv inn by (auto simp: pool_inv_def)
  have "i_id (t_inst t) \<in> set (p_connecting inn)" using t inn(2) by (auto simp: conn task_ids_def)
  note d = task_done_inv[OF ui this fin res]
  have len: "length (w_tasks w) = Suc (length (remove1 t (w_tasks w)))"
    using t length_pos_if_in_set[OF t] by (simp add: length_remove1)
  show ?thesis
  proof (rule pool_inv_put[OF inv inn(1), of inn'])
    show "user_inv cap inn'" "p_entry inn' = p_entry inn" using d by simp_all
    show "objs ?w' = objs (put_world inn' w)" by (rule objs_cong) simp_all
    show "set (p_connecting inn') = task_ids ?w' (p_entry inn)"
      using d conn inn(2) task_ids_remove1[OF td t, of "p_entry inn"] by (simp add: task_ids_def)
    show "task_ids ?w' e = task_ids w e" if "e \<noteq> p_entry inn" for e
      using that inn(2) task_ids_remove1[OF td t, of e] by (simp add: task_ids_def)
    show "distinct (map (\<lambda>t. (t_entry t, i_id (t_inst t))) (w_tasks ?w'))"
      using td by (simp add: distinct_map inj_on_diff)
    show "\<forall>t\<in>set (w_tasks ?w'). t_entry t < w_next ?w'" using tl by (auto dest: notin_set_remove1)
  qed (use d len in \<open>auto split: if_splits\<close>)
qed

lemma inv_heartbeat:
  assumes inv: "pool_inv cap total_slots w" and inn: "inn \<in> set (objs w)"
    and ex: "exercise_user inn results = (inn', rest)"
  shows "pool_inv cap total_slots
       ((put_world inn' w)
          \<lparr>w_draining := w_draining w + (length (p_backends inn) - length (p_backends inn'))\<rparr>)"
    (is "pool_inv _ _ ?w'")
proof -
  have ui: "user_inv cap inn" and conn: "set (p_connecting inn) = task_ids w (p_entry inn)"
    using inv inn by (auto simp: pool_inv_def)
  note e = exercise_user_inv[OF ui ex]
  show ?thesis
  proof (rule pool_inv_put[OF inv inn, of inn'])
    show "objs ?w' = objs (put_world inn' w)" by (rule objs_cong) simp_all
  qed (use e conn inv in \<open>auto simp: task_ids_def pool_inv_def\<close>)
qed

lemma inv_free:
  assumes inv: "pool_inv cap total_slots w" and o: "w_orphans w = pre @ (u, inn) # post"
  shows "pool_inv cap total_slots
       (w\<lparr>w_orphans := pre @ post, w_draining := w_draining w + length (p_backends inn)\<rparr>)" (is "pool_inv _ _ ?w'")
proof -
  have old: "objs w = map snd (w_users w) @ map snd pre @ inn # map snd post" by (simp add: objs_def o)
  have new: "objs ?w' = map snd (w_users w) @ map snd pre @ map snd post" by (simp add: objs_def)
  have "pooled (objs w) = pooled (objs ?w') + length (p_backends inn)"
    unfolding old new by (simp add: pooled_def)
  moreover have "set (objs ?w') \<subseteq> set (objs w)" unfolding old new by auto
  moreover have "distinct (map p_entry (objs ?w'))"
    using inv unfolding pool_inv_def old new by auto
  moreover have "task_ids ?w' = task_ids w" by (simp add: task_ids_def fun_eq_iff)
  ultimately show ?thesis
    using inv unfolding pool_inv_def by (auto simp del: set_map)
qed

lemma pool_step_inv:
  assumes "pool_inv cap total_slots w" "pool_step cap w w'"
  shows "pool_inv cap total_slots w'"
  using assms(2)
proof cases
  case (borrow now u)
  then show ?thesis using inv_borrow[OF assms(1)] by simp
next
  case (reconcile inn pl now enabled)
  then show ?thesis using inv_reconcile[OF assms(1)] by blast
next
  case (sandbox_failed inn now enabled)
  then show ?thesis
    using pool_inv_put_core[OF assms(1)] user_inv_sandbox_skip[of cap "w_epochs w" now enabled inn]
    by (auto simp: core_def)
next
  case (bound inn)
  then show ?thesis using pool_inv_put_core[OF assms(1)] by (simp add: core_def)
next
  case (spawn_end t inn res inn' joined)
  then show ?thesis using inv_spawn_end[OF assms(1)] by blast
next
  case (child_died inn a)
  then show ?thesis using pool_inv_put_core[OF assms(1)] by (simp add: core_def close_arc_def comp_def if_distrib)
next
  case (restart i)
  then show ?thesis using assms(1) by (simp add: pool_inv_def objs_def task_ids_def)
next
  case (server_list_changed u)
  then show ?thesis
  proof -
    have "map core (map snd (mark_dirty us u)) = map core (map snd us)" for us
      unfolding mark_dirty_def by (rule map_core_upd) (simp add: core_def)
    then have "map core (objs w') = map core (objs w)"
      unfolding map_core_objs server_list_changed by (simp del: map_map)
    then show ?thesis
      by (intro pool_inv_core[OF assms(1)]) (simp_all only: server_list_changed, simp_all)
  qed
next
  case (heartbeat inn results inn' rest)
  then show ?thesis using inv_heartbeat[OF assms(1)] by blast
next
  case (reap now idle)
  then show ?thesis using inv_reap[OF assms(1)] by simp
next
  case (free pre u inn post)
  then show ?thesis using inv_free[OF assms(1)] by blast
next
  case torn_down
  then show ?thesis by (intro pool_inv_core[OF assms(1)]) (simp_all add: objs_def)
qed

interpretation pool: invariant_system "pool_init total_slots" "pool_step cap" "pool_inv cap total_slots"
  for total_slots cap
proof
  show "pool_init total_slots s \<Longrightarrow> pool_inv cap total_slots s" for s
    by (simp add: pool_init_def pool_inv_def objs_def pooled_def)
  show "pool_inv cap total_slots s \<Longrightarrow> pool_step cap s t \<Longrightarrow> pool_inv cap total_slots t" for s t
    by (rule pool_step_inv)
qed

section \<open>Properties\<close>

text \<open>C1: the pool never exceeds its ceilings and never runs an instance twice. In every state
  reachable from an empty pool, through any interleaving of binds, spawn completions, crashes,
  restarts, heartbeats, reaping and teardown, each user's running and connecting backends
  together stay within the per-user cap, no instance has two backends or a backend and a
  pending spawn, and permits are conserved, so spawn tasks, pooled and dropped backends
  together never exceed the global limit.\<close>

theorem pool_safe:
  assumes "pool_init total_slots w0" "(pool_step cap)\<^sup>*\<^sup>* w0 w"
  shows "(\<forall>inn\<in>set (map snd (w_users w)).
            length (p_backends inn) + length (p_connecting inn) \<le> cap \<and>
            distinct (map b_instance_id (p_backends inn) @ p_connecting inn)) \<and>
         w_permits w + length (w_tasks w) + pooled (objs w) + w_draining w = total_slots"
proof -
  have inv: "pool_inv cap total_slots w"
    using pool.steps_inv[OF assms(2)] pool.inv_init[OF assms(1)] by blast
  have "length (p_backends inn) + length (p_connecting inn) \<le> cap \<and>
      distinct (map b_instance_id (p_backends inn) @ p_connecting inn)"
    if "inn \<in> set (map snd (w_users w))" for inn
  proof -
    have "inn \<in> set (objs w)" using that by (simp add: objs_def)
    then have "user_inv cap inn" using inv by (simp add: pool_inv_def)
    then show ?thesis by (auto simp: user_inv_def)
  qed
  with inv show ?thesis unfolding pool_inv_def by blast
qed

definition pool_demo0 :: world where
  "pool_demo0 = \<lparr>w_users = [], w_orphans = [], w_tasks = [], w_permits = 4, w_draining = 0,
     w_epochs = [], w_next = 0\<rparr>"

definition demo_insts :: "inst_row list" where
  "demo_insts = [mk_inst ''a'' ''u1'' ''na'', mk_inst ''b'' ''u1'' ''nb'']"

definition pool_demo1 :: world where
  "pool_demo1 = pool_demo0\<lparr>w_users := touch 0 (pool_entry 0 0 [] ''u1'') ''u1'', w_next := Suc 0\<rparr>"

definition pool_demo2 :: world where
  "pool_demo2 =
     (let inn = inner_new 0 0; pl = reconcile_plan 16 [] 5 demo_insts 4 inn in
      (put_world (pl_inner pl) pool_demo1)
        \<lparr>w_tasks := map (\<lambda>i. \<lparr>t_entry = 0, t_inst = i\<rparr>) (pl_to_spawn pl),
         w_permits := pl_slots pl, w_draining := pl_dropped pl\<rparr>)"

theorem pool_safe_witness:
  "length (w_tasks pool_demo2) = 2 \<and>
   w_permits pool_demo2 + length (w_tasks pool_demo2) + pooled (objs pool_demo2) + w_draining pool_demo2 = 4"
proof
  show "length (w_tasks pool_demo2) = 2" by code_simp
  have s1: "pool_step 16 pool_demo0 pool_demo1"
    using pool_step.borrow[of 16 pool_demo0 0 "''u1''"] by (simp add: pool_demo0_def pool_demo1_def)
  have mem: "inner_new 0 0 \<in> set (objs pool_demo1)"
    by (simp add: objs_def pool_demo1_def pool_demo0_def touch_def pool_entry_def inner_new_def)
  have s2: "pool_step 16 pool_demo1 pool_demo2"
    using pool_step.reconcile[OF mem refl, of 16 5 demo_insts]
    by (simp add: pool_demo2_def pool_demo1_def pool_demo0_def Let_def inner_new_def)
  have "(pool_step 16)\<^sup>*\<^sup>* pool_demo0 pool_demo2" using s1 s2 by (meson rtranclp.simps)
  moreover have "pool_init 4 pool_demo0" by (simp add: pool_init_def pool_demo0_def)
  ultimately show "w_permits pool_demo2 + length (w_tasks pool_demo2) + pooled (objs pool_demo2) +
      w_draining pool_demo2 = 4"
    using pool_safe by blast
qed

end
