(* ===== verification/Hub_Pool_Binds.thy ===== *)
theory Hub_Pool_Binds
  imports Hub_Pool_Safety
begin

text \<open>
  What one critical section of the pool (\<^verbatim>\<open>src/proxy/pool.rs\<close>) achieves: a reconcile converges
  and its next request is served without touching the database; how many backends a first
  bind claims; what happens to a restart at the cap and to an instance that is disabled and
  enabled again while it connects; heartbeats; and the sandbox that fails closed.
\<close>

section \<open>Convergence of a reconcile\<close>

text \<open>The instance is on its way, or tracked at the current epoch and either running or not due
  for a retry.\<close>

definition settled :: "int \<Rightarrow> epochs \<Rightarrow> inner \<Rightarrow> string \<Rightarrow> bool" where
  "settled now ep inn i \<longleftrightarrow>
     i \<in> set (p_connecting inn) \<or>
     (hm_get (p_applied_epochs inn) i = Some (reload_epoch ep i) \<and>
      (healthy inn i \<or> \<not> retry_due now inn i))"

lemma retry_due_stamp: "retry_due now (stamp i c now inn) j = (j \<noteq> i \<and> retry_due now inn j)"
  by (simp add: retry_due_def stamp_def RESPAWN_BACKOFF_def)

lemma healthy_stamp [simp]: "healthy (stamp i c now inn) j = healthy inn j"
  by (simp add: healthy_def)

lemma applied_stamp: "hm_get (p_applied_epochs (stamp i c now inn)) j =
    (if j = i then Some c else hm_get (p_applied_epochs inn) j)"
  by (simp add: stamp_def)

lemma plan_one_settles:
  assumes "distinct (map b_instance_id (p_backends (pl_inner pl)))"
  shows "settled now ep (pl_inner (plan_one cap ep now pl inst)) (i_id inst)"
proof (rule plan_one_cases[OF assms, of cap ep now inst], goal_cases)
  case 1
  have pos: "healthy (pl_inner pl) (i_id inst)"
    if "backend_pos (p_backends (pl_inner pl)) (i_id inst) = Some p" "\<not> b_closed (p_backends (pl_inner pl) ! p)" for p
    using backend_pos_Some[OF that(1)] that(2) by (auto simp: healthy_def list_ex_iff intro!: bexI nth_mem)
  let ?r = "plan_one cap ep now pl inst"
  have longer: False if "pl_skipped pl @ [x] = pl_skipped pl \<or> pl_to_spawn pl @ [y] = pl_to_spawn pl" for x y
    using that by simp
  from 1 show ?case
    unfolding plan_one_def Let_def settled_def 1
    by (auto split: if_splits option.splits dest: pos arg_cong[of _ _ pl_skipped] arg_cong[of _ _ pl_to_spawn])
next
  case (2 why)
  then show ?case by (simp add: settled_def retry_due_stamp applied_stamp)
next
  case 3
  then show ?case by (simp add: settled_def)
qed

lemma plan_one_keeps_settled:
  assumes dist: "distinct (map b_instance_id (p_backends (pl_inner pl)))"
    and "settled now ep (pl_inner pl) j" "j \<noteq> i_id inst"
  shows "settled now ep (pl_inner (plan_one cap ep now pl inst)) j"
proof (rule plan_one_cases[OF dist, of cap ep now inst], goal_cases)
  case 1
  with assms show ?case by simp
next
  case (2 why)
  with assms show ?case by (simp add: settled_def retry_due_stamp applied_stamp)
next
  case 3
  have "healthy (pl_inner pl) j \<Longrightarrow> list_ex (\<lambda>b. b_instance_id b = j \<and> \<not> b_closed b)
      (without (i_id inst) (p_backends (pl_inner pl)))"
    using assms(3) by (auto simp: healthy_def without_def list_ex_iff)
  moreover have "retry_due now (pl_inner (plan_one cap ep now pl inst)) j = retry_due now (pl_inner pl) j"
    unfolding 3 using assms(3) retry_due_stamp[of now "i_id inst" "reload_epoch ep (i_id inst)" "pl_inner pl" j]
    by (simp add: retry_due_def)
  ultimately show ?case
    using assms(2,3) unfolding 3 by (auto simp: settled_def applied_stamp healthy_def)
qed

lemma plan_one_distinct:
  "distinct (map b_instance_id (p_backends (pl_inner pl))) \<Longrightarrow>
   distinct (map b_instance_id (p_backends (pl_inner (plan_one cap ep now pl inst))))"
proof (rule plan_one_cases[of pl cap ep now inst], goal_cases)
  case 4
  then show ?case unfolding 4(5) by (simp add: without_facts(1))
qed simp_all

lemma foldl_plan_settles:
  assumes "distinct (map b_instance_id (p_backends (pl_inner pl)))" "distinct (map i_id insts)"
    and "\<forall>j\<in>S. settled now ep (pl_inner pl) j" "S \<inter> i_id ` set insts = {}"
  shows "\<forall>j\<in>S \<union> i_id ` set insts. settled now ep (pl_inner (foldl (plan_one cap ep now) pl insts)) j"
  using assms
proof (induction insts arbitrary: pl S)
  case (Cons x xs)
  let ?pl = "plan_one cap ep now pl x"
  have "\<forall>j\<in>insert (i_id x) S. settled now ep (pl_inner ?pl) j"
  proof
    fix j assume "j \<in> insert (i_id x) S"
    then show "settled now ep (pl_inner ?pl) j"
      using plan_one_settles[OF Cons.prems(1), of now ep cap x]
        plan_one_keeps_settled[OF Cons.prems(1), of now ep j x cap] Cons.prems(3) by blast
  qed
  moreover have "insert (i_id x) S \<inter> i_id ` set xs = {}" using Cons.prems(2,4) by auto
  ultimately have "\<forall>j\<in>insert (i_id x) S \<union> i_id ` set xs.
      settled now ep (pl_inner (foldl (plan_one cap ep now) ?pl xs)) j"
    using Cons.prems(2) by (intro Cons.IH plan_one_distinct Cons.prems(1)) auto
  then show ?case by simp
qed simp

text \<open>The epochs the loop tracks: those of the enabled instances, at most one entry each; a
  connecting instance is tracked at the current epoch or not at all.\<close>

definition tracked_ok :: "string set \<Rightarrow> epochs \<Rightarrow> inner \<Rightarrow> bool" where
  "tracked_ok ids ep inn \<longleftrightarrow>
     distinct (map fst (p_applied_epochs inn)) \<and> fst ` set (p_applied_epochs inn) \<subseteq> ids \<and>
     (\<forall>i\<in>set (p_connecting inn). hm_get (p_applied_epochs inn) i \<in> {None, Some (reload_epoch ep i)})"

lemma tracked_ok_stamp:
  assumes "tracked_ok ids ep inn" "i \<in> ids"
  shows "tracked_ok ids ep (stamp i (reload_epoch ep i) now inn)"
  using assms keys_hm_insert[of i "reload_epoch ep i" "p_applied_epochs inn"]
  by (auto simp: tracked_ok_def stamp_def)

lemma plan_one_tracked:
  assumes "distinct (map b_instance_id (p_backends (pl_inner pl)))"
    and "tracked_ok ids ep (pl_inner pl)" "i_id inst \<in> ids"
  shows "tracked_ok ids ep (pl_inner (plan_one cap ep now pl inst))"
proof (rule plan_one_cases[OF assms(1), of cap ep now inst], goal_cases)
  case 1
  with assms show ?case by simp
next
  case (2 why)
  with tracked_ok_stamp[OF assms(2,3)] show ?case by simp
next
  case 3
  with tracked_ok_stamp[OF assms(2,3), of now] show ?case by (simp add: tracked_ok_def applied_stamp)
qed

lemma foldl_plan_tracked:
  assumes "distinct (map b_instance_id (p_backends (pl_inner pl)))"
    and "tracked_ok ids ep (pl_inner pl)" "i_id ` set insts \<subseteq> ids"
  shows "tracked_ok ids ep (pl_inner (foldl (plan_one cap ep now) pl insts))"
  using assms
  by (induction insts arbitrary: pl) (auto intro: plan_one_tracked plan_one_distinct)

lemma retain_tracked:
  assumes "distinct (map fst (p_applied_epochs inn))"
    and "\<forall>i\<in>set (p_connecting inn). hm_get (p_applied_epochs inn) i \<in> {None, Some (reload_epoch ep i)}"
  shows "tracked_ok ids ep (retain_enabled ids inn)"
  using assms by (auto simp: tracked_ok_def retain_enabled_def hm_retain_keys) (auto simp: hm_retain_def)

lemma is_freshI:
  assumes "\<not> p_dirty inn"
    and "\<And>i e. (i, e) \<in> set (p_applied_epochs inn) \<Longrightarrow>
      reload_epoch ep i = e \<and> (i \<in> set (p_connecting inn) \<or> healthy inn i \<or> \<not> retry_due now inn i)"
  shows "is_fresh now ep (inn\<lparr>p_initialized := True\<rparr>)"
proof -
  have same: "healthy (inn\<lparr>p_initialized := True\<rparr>) i = healthy inn i"
    "retry_due now (inn\<lparr>p_initialized := True\<rparr>) i = retry_due now inn i" for i
    by (simp_all add: healthy_def retry_due_def)
  have "\<forall>(i, e)\<in>set (p_applied_epochs inn).
      reload_epoch ep i = e \<and> (i \<in> set (p_connecting inn) \<or> healthy inn i \<or> \<not> retry_due now inn i)"
    using assms(2) by blast
  with assms(1) show ?thesis by (fastforce simp: is_fresh_def list_all_iff same)
qed

section \<open>Claims of a first bind\<close>

lemma claim_step:
  assumes "p_backends (pl_inner pl) = []" "i_id x \<notin> set (p_connecting (pl_inner pl))"
    and "hm_get (p_applied_epochs (pl_inner pl)) (i_id x) = None"
    and "length (p_connecting (pl_inner pl)) = length (pl_to_spawn pl)" "0 < pl_slots pl"
  shows "let pl' = plan_one cap ep now pl x in
     p_backends (pl_inner pl') = [] \<and>
     length (pl_to_spawn pl') = length (pl_to_spawn pl) + (if 2 * length (pl_to_spawn pl) < cap then 1 else 0) \<and>
     length (p_connecting (pl_inner pl')) = length (pl_to_spawn pl') \<and>
     set (p_connecting (pl_inner pl')) \<subseteq> insert (i_id x) (set (p_connecting (pl_inner pl))) \<and>
     (\<forall>j. j \<noteq> i_id x \<longrightarrow> hm_get (p_applied_epochs (pl_inner pl')) j = hm_get (p_applied_epochs (pl_inner pl)) j) \<and>
     pl_slots pl \<le> Suc (pl_slots pl')"
  using assms unfolding plan_one_def Let_def by (auto simp: applied_stamp)

lemma foldl_claims:
  assumes "p_backends (pl_inner pl) = []" "distinct (map i_id xs)"
    and "\<forall>x\<in>set xs. i_id x \<notin> set (p_connecting (pl_inner pl)) \<and> hm_get (p_applied_epochs (pl_inner pl)) (i_id x) = None"
    and "length (p_connecting (pl_inner pl)) = length (pl_to_spawn pl)" "length xs \<le> pl_slots pl"
    and "length (pl_to_spawn pl) \<le> (cap + 1) div 2"
  shows "length (pl_to_spawn (foldl (plan_one cap ep now) pl xs)) =
         min (length (pl_to_spawn pl) + length xs) ((cap + 1) div 2)"
  using assms
proof (induction xs arbitrary: pl)
  case (Cons x xs)
  let ?pl = "plan_one cap ep now pl x"
  have pre: "i_id x \<notin> set (p_connecting (pl_inner pl))" "hm_get (p_applied_epochs (pl_inner pl)) (i_id x) = None"
    "0 < pl_slots pl" using Cons.prems by auto
  note st = claim_step[OF Cons.prems(1) pre(1,2) Cons.prems(4) pre(3), of cap ep now, unfolded Let_def]
  have other: "\<forall>y\<in>set xs. i_id y \<noteq> i_id x" using Cons.prems(2) by (metis distinct.simps(2) imageI list.simps(9) set_map)
  have "length (pl_to_spawn (foldl (plan_one cap ep now) ?pl xs)) =
      min (length (pl_to_spawn ?pl) + length xs) ((cap + 1) div 2)"
  proof (rule Cons.IH)
    show "\<forall>y\<in>set xs. i_id y \<notin> set (p_connecting (pl_inner ?pl)) \<and> hm_get (p_applied_epochs (pl_inner ?pl)) (i_id y) = None"
      using Cons.prems(3) st other by auto
    show "length (pl_to_spawn ?pl) \<le> (cap + 1) div 2" using st Cons.prems(6) by auto
    show "length xs \<le> pl_slots ?pl" using st Cons.prems(5) by auto
  qed (use st Cons.prems(2) in auto)
  then show ?case using st Cons.prems(6) by auto
qed (simp add: min_def)

section \<open>Heartbeats\<close>

text \<open>Whether a history of heartbeat results has three failures in a row; \<open>n\<close> counts those at
  its start.\<close>

fun three_misses :: "nat \<Rightarrow> bool list \<Rightarrow> bool" where
  "three_misses n [] = (n \<ge> 3)"
| "three_misses n (r # rs) = (n \<ge> 3 \<or> three_misses (if r then 0 else Suc n) rs)"

definition beats :: "inner \<Rightarrow> backend \<Rightarrow> bool list \<Rightarrow> inner" where
  "beats inn b rs = foldl (\<lambda>n r. fst (exercise_user n [(b, r)])) inn rs"

lemma remove_arc_mem:
  assumes "distinct (map b_arc bs)"
  shows "set (remove_arc a bs) = {b \<in> set bs. b_arc b \<noteq> a}"
proof (cases "List.find (\<lambda>p. b_arc (bs ! p) = a) [0..<length bs]")
  case None
  then have "\<forall>b\<in>set bs. b_arc b \<noteq> a" by (fastforce simp: find_None_iff in_set_conv_nth)
  with None show ?thesis by (auto simp: remove_arc_def)
next
  case (Some p)
  then have p: "p < length bs" "b_arc (bs ! p) = a" by (auto dest: find_SomeD)
  have "set bs = set (take p bs) \<union> {bs ! p} \<union> set (drop (Suc p) bs)"
    using id_take_nth_drop[OF p(1)] by (metis Un_assoc Un_commute Un_insert_right list.simps(15) set_append sup_bot_right)
  moreover have "b_arc x \<noteq> a" if "x \<in> set (take p bs) \<union> set (drop (Suc p) bs)" for x
  proof -
    have "distinct (map b_arc (take p bs @ bs ! p # drop (Suc p) bs))"
      using assms id_take_nth_drop[OF p(1)] by simp
    then have "a \<notin> b_arc ` set (take p bs)" "a \<notin> b_arc ` set (drop (Suc p) bs)" using p(2) by auto
    with that show ?thesis by (metis UnE imageI)
  qed
  ultimately show ?thesis using Some p(2) by (auto simp: remove_arc_def remove_at_def)
qed

definition strikes_of :: "inner \<Rightarrow> string \<Rightarrow> nat" where
  "strikes_of inn i = (case hm_get (p_heartbeat_failures inn) i of None \<Rightarrow> 0 | Some s \<Rightarrow> s)"

lemma beat_step:
  "fst (exercise_user inn [(b, r)]) =
     (if r then inn\<lparr>p_heartbeat_failures := hm_remove (b_instance_id b) (p_heartbeat_failures inn)\<rparr>
      else if strikes_of inn (b_instance_id b) \<ge> 2 then
        inn\<lparr>p_heartbeat_failures := hm_remove (b_instance_id b) (p_heartbeat_failures inn),
            p_backends := remove_arc (b_arc b) (p_backends inn)\<rparr>
      else inn\<lparr>p_heartbeat_failures := hm_insert (b_instance_id b) (Suc (strikes_of inn (b_instance_id b)))
                (p_heartbeat_failures inn)\<rparr>)"
  by (auto simp: exercise_user_def heartbeat_one_def strikes_of_def HEARTBEAT_MAX_STRIKES_def Let_def
      split: option.splits)

lemma beats_gone: "b \<notin> set (p_backends inn) \<Longrightarrow> b \<notin> set (p_backends (beats inn b rs))"
proof (induction rs arbitrary: inn)
  case (Cons r rs)
  have "b \<notin> set (p_backends (fst (exercise_user inn [(b, r)])))"
    using Cons.prems remove_arc_sub(2)[of "b_arc b" "p_backends inn"] by (auto simp: beat_step)
  from Cons.IH[OF this] show ?case by (simp add: beats_def)
qed (simp add: beats_def)

lemma beats_kept_iff:
  assumes "distinct (map b_arc (p_backends inn))" "b \<in> set (p_backends inn)"
    and "strikes_of inn (b_instance_id b) = n" "n < 3"
  shows "b \<in> set (p_backends (beats inn b rs)) \<longleftrightarrow> \<not> three_misses n rs"
  using assms
proof (induction rs arbitrary: inn n)
  case (Cons r rs)
  let ?inn = "fst (exercise_user inn [(b, r)])"
  have step: "beats inn b (r # rs) = beats ?inn b rs" by (simp add: beats_def)
  consider "r" | "\<not> r" "Suc n < 3" | "\<not> r" "Suc n \<ge> 3" by linarith
  then show ?case
  proof cases
    case 1
    then have "strikes_of ?inn (b_instance_id b) = 0" "p_backends ?inn = p_backends inn"
      by (simp_all add: beat_step strikes_of_def)
    with Cons.IH[of ?inn 0] Cons.prems 1 show ?thesis unfolding step by simp
  next
    case 2
    then have "strikes_of ?inn (b_instance_id b) = Suc n" "p_backends ?inn = p_backends inn"
      using Cons.prems(3) by (simp_all add: beat_step strikes_of_def)
    with Cons.IH[of ?inn "Suc n"] Cons.prems 2 show ?thesis unfolding step by simp
  next
    case 3
    then have "p_backends ?inn = remove_arc (b_arc b) (p_backends inn)"
      using Cons.prems(3) by (simp add: beat_step)
    then have "b \<notin> set (p_backends ?inn)" by (simp add: remove_arc_mem[OF Cons.prems(1)])
    moreover have "three_misses (Suc n) rs" using 3(2) by (cases rs) auto
    ultimately show ?thesis using beats_gone[of b ?inn rs] 3 Cons.prems(4) unfolding step by simp
  qed
qed (simp add: beats_def)

section \<open>Properties\<close>



text \<open>A first bind claims only half of the per-user cap, rounded up. Each claimed instance
  is counted twice by the cap test (it is in the connecting set and in the spawn list), so with
  enough permits and \<open>n\<close> enabled servers a first bind spawns \<open>min n ((cap + 1) div 2)\<close> of them and
  reports the others as over the cap.\<close>

theorem first_bind_claims_half:
  assumes "distinct (map i_id enabled)" "length enabled \<le> permits"
  shows "length (pl_to_spawn (reconcile_plan cap ep now enabled permits (inner_new e t0))) =
         min (length enabled) ((cap + 1) div 2)"
proof -
  let ?kept = "retain_enabled (set (map i_id enabled)) (inner_new e t0)"
  have k: "p_backends ?kept = []" "p_connecting ?kept = []" "p_applied_epochs ?kept = []"
    by (simp_all add: retain_enabled_def inner_new_def hm_retain_def)
  show ?thesis
    unfolding reconcile_plan_def Let_def
    by (subst foldl_claims) (use assms k in auto)
qed

theorem first_bind_claims_half_witness:
  "length (pl_to_spawn (reconcile_plan 2 [] 7 demo_insts 4 (inner_new 0 0))) = min 2 ((2 + 1) div 2)"
  using first_bind_claims_half[of demo_insts 4 2 "[]" 7 0 0] by (simp add: demo_insts_def mk_inst_def)

text \<open>At the cap a restart is lost. When a user's running and connecting backends fill the
  cap, a restart of a running server (its reload epoch moved on) keeps the old process and
  records the new epoch as applied, so the restart is never retried: the next pass considers
  the old process healthy and current.\<close>

theorem restart_lost_at_cap:
  assumes "i_id x \<notin> set (p_connecting (pl_inner pl))"
    and "backend_pos (p_backends (pl_inner pl)) (i_id x) = Some p" "\<not> b_closed (p_backends (pl_inner pl) ! p)"
    and "hm_get (p_applied_epochs (pl_inner pl)) (i_id x) \<noteq> Some (reload_epoch ep (i_id x))"
    and "cap \<le> length (p_backends (pl_inner pl)) + length (p_connecting (pl_inner pl))"
  shows "p_backends (pl_inner (plan_one cap ep now pl x)) = p_backends (pl_inner pl) \<and>
         pl_to_spawn (plan_one cap ep now pl x) = pl_to_spawn pl \<and>
         hm_get (p_applied_epochs (pl_inner (plan_one cap ep now pl x))) (i_id x) = Some (reload_epoch ep (i_id x)) \<and>
         plan_one cap ep later (plan_one cap ep now pl x) x = plan_one cap ep now pl x"
  using assms unfolding plan_one_def Let_def by (auto simp: applied_stamp)

definition cap_demo :: plan where
  "cap_demo = \<lparr>pl_inner = (inner_new 0 0)\<lparr>p_backends := [\<lparr>b_arc = 0, b_instance_id = ''a'', b_namespace = ''na'',
       b_display_name = ''A'', b_closed = False\<rparr>], p_applied_epochs := [(''a'', 0)]\<rparr>,
     pl_slots = 3, pl_to_spawn = [], pl_skipped = [], pl_dropped = 0\<rparr>"

theorem restart_lost_at_cap_witness:
  "p_backends (pl_inner (plan_one 1 [(''a'', 1)] 100 cap_demo (mk_inst ''a'' ''u1'' ''na''))) =
     p_backends (pl_inner cap_demo) \<and>
   plan_one 1 [(''a'', 1)] 999 (plan_one 1 [(''a'', 1)] 100 cap_demo (mk_inst ''a'' ''u1'' ''na''))
     (mk_inst ''a'' ''u1'' ''na'') = plan_one 1 [(''a'', 1)] 100 cap_demo (mk_inst ''a'' ''u1'' ''na'')"
  using restart_lost_at_cap[of "mk_inst ''a'' ''u1'' ''na''" cap_demo 0 "[(''a'', 1)]" 1 100 999]
  by (simp add: cap_demo_def mk_inst_def inner_new_def reload_epoch_def hm_get_def)

text \<open>A server that is disabled and enabled again while it is connecting is never started.
  The disable forgets its reload epoch, the enable skips it because it is still connecting, and
  the backend that then arrives is dropped as untracked; afterwards the pool counts as fresh
  at every time and whatever restarts are requested, although the server is enabled and not
  running.\<close>

theorem reenabled_while_connecting_lost:
  assumes "0 < cap" "0 < permits"
  shows "let inn1 = pl_inner (reconcile_plan cap ep t1 [x] permits (inner_new e t0));
             inn2 = pl_inner (reconcile_plan cap ep t2 [] permits (inn1\<lparr>p_initialized := True, p_dirty := True\<rparr>));
             inn3 = pl_inner (reconcile_plan cap ep t3 [x] permits (inn2\<lparr>p_dirty := True\<rparr>));
             inn4 = fst (task_done (i_id x) (Some b) inn3)
         in p_connecting inn1 = [i_id x] \<and> p_backends inn4 = [] \<and> p_connecting inn4 = [] \<and> is_fresh t4 ep' inn4"
proof -
  define inn1 where "inn1 = pl_inner (reconcile_plan cap ep t1 [x] permits (inner_new e t0))"
  define inn2 where "inn2 = pl_inner (reconcile_plan cap ep t2 [] permits (inn1\<lparr>p_initialized := True, p_dirty := True\<rparr>))"
  define inn3 where "inn3 = pl_inner (reconcile_plan cap ep t3 [x] permits (inn2\<lparr>p_dirty := True\<rparr>))"
  have 1: "p_connecting inn1 = [i_id x]" "p_backends inn1 = []"
    using assms by (simp_all add: inn1_def reconcile_plan_def Let_def plan_one_def retain_enabled_def
        inner_new_def hm_retain_def)
  have 2: "p_connecting inn2 = [i_id x]" "p_backends inn2 = []" "p_applied_epochs inn2 = []" "p_initialized inn2"
    using 1 by (simp_all add: inn2_def reconcile_plan_def Let_def retain_enabled_def hm_retain_def)
  have 3: "p_connecting inn3 = [i_id x]" "p_backends inn3 = []" "p_applied_epochs inn3 = []"
    "p_initialized inn3" "\<not> p_dirty inn3"
    using 2 by (simp_all add: inn3_def reconcile_plan_def Let_def plan_one_def retain_enabled_def hm_retain_def)
  have "p_backends (fst (task_done (i_id x) (Some b) inn3)) = [] \<and>
      p_connecting (fst (task_done (i_id x) (Some b) inn3)) = [] \<and>
      is_fresh t4 ep' (fst (task_done (i_id x) (Some b) inn3))"
    using 3 by (simp add: task_done_def Let_def is_fresh_def)
  with 1(1) show ?thesis by (simp only: Let_def inn1_def inn2_def inn3_def simp_thms)
qed

theorem reenabled_while_connecting_lost_witness:
  "let inn1 = pl_inner (reconcile_plan 16 [] 1 [mk_inst ''a'' ''u1'' ''na''] 4 (inner_new 0 0));
       inn2 = pl_inner (reconcile_plan 16 [] 2 [] 4 (inn1\<lparr>p_initialized := True, p_dirty := True\<rparr>));
       inn3 = pl_inner (reconcile_plan 16 [] 3 [mk_inst ''a'' ''u1'' ''na''] 4 (inn2\<lparr>p_dirty := True\<rparr>));
       inn4 = fst (task_done (i_id (mk_inst ''a'' ''u1'' ''na'')) (Some \<lparr>b_arc = 0, b_instance_id = ''a'',
         b_namespace = ''na'', b_display_name = ''A'', b_closed = False\<rparr>) inn3)
   in p_connecting inn1 = [i_id (mk_inst ''a'' ''u1'' ''na'')] \<and> p_backends inn4 = [] \<and> p_connecting inn4 = [] \<and>
      is_fresh 4000 [(''a'', 7)] inn4"
  by (rule reenabled_while_connecting_lost) simp_all

text \<open>The heartbeat drops a backend exactly after three misses in a row. For a pooled backend
  without strikes and any history of heartbeat results, the backend is still in the pool if and
  only if the history nowhere has three consecutive failures; one success clears the count.\<close>

theorem heartbeat_three_strikes:
  assumes "distinct (map b_arc (p_backends inn))" "b \<in> set (p_backends inn)"
    and "hm_get (p_heartbeat_failures inn) (b_instance_id b) = None"
  shows "b \<in> set (p_backends (beats inn b history)) \<longleftrightarrow> \<not> three_misses 0 history"
  using beats_kept_iff[OF assms(1,2), of 0 history] assms(3) by (simp add: strikes_of_def)

theorem heartbeat_three_strikes_witness:
  "hd (p_backends (pl_inner cap_demo)) \<in>
     set (p_backends (beats (pl_inner cap_demo) (hd (p_backends (pl_inner cap_demo))) [False, False, True, False, False])) \<and>
   hd (p_backends (pl_inner cap_demo)) \<notin>
     set (p_backends (beats (pl_inner cap_demo) (hd (p_backends (pl_inner cap_demo))) [False, False, False]))"
  using heartbeat_three_strikes[of "pl_inner cap_demo" "hd (p_backends (pl_inner cap_demo))"]
  by (simp add: cap_demo_def inner_new_def)

text \<open>The sandbox fails closed. When a base identity is configured and the hub runs as root,
  a backend or build is never given the unsandboxed identity: the result is an error, or the
  sandbox prepared for the identity base plus the user's own slot.\<close>

theorem sandbox_fails_closed:
  assumes "sandbox_or_fail True (Some b) prepare d u = Inr r"
  shows "\<exists>slot uid sb. r = Some sb \<and> sandbox_slot d u = Some slot \<and> 0 \<le> slot \<and>
           uid = b + word_of_int slot \<and> prepare uid = Some sb"
proof -
  from assms obtain slot where s: "sandbox_slot d u = Some slot"
    by (cases "sandbox_slot d u") (auto simp: sandbox_or_fail_def)
  with assms obtain uid where u: "uid_for True (Some b) (Some slot) = Some uid"
    by (cases "uid_for True (Some b) (Some slot)") (auto simp: sandbox_or_fail_def)
  with assms s obtain sb where "prepare uid = Some sb" "r = Some sb"
    by (cases "prepare uid") (auto simp: sandbox_or_fail_def)
  with s uid_for_Some[OF u] show ?thesis by auto
qed

theorem sandbox_fails_closed_witness:
  "\<exists>slot uid sb. Some (20001 :: 32 word) = Some sb \<and> sandbox_slot group_demo_db ''u2'' = Some slot \<and> 0 \<le> slot \<and>
     uid = 20000 + word_of_int slot \<and> Some uid = Some sb"
  by (rule sandbox_fails_closed[where prepare = Some])
    (simp add: sandbox_or_fail_def sandbox_slot_def users_find_by_id_def group_demo_simps uid_for_def u32_try_from_def)

end
