(* ===== verification/Hub_Config.thy ===== *)
theory Hub_Config
  imports Hub_Prelude
begin

text \<open>
  \<^verbatim>\<open>src/config.rs\<close>: the configuration read from environment variables. The environment is the
  argument \<open>env\<close>; parsing a socket address and base64 decoding are arguments. Integers keep the
  range of their Rust type and the parser's error messages are those of the standard library.
\<close>

section \<open>Integer parsing of the standard library\<close>

text \<open>The digits of an integer of magnitude at most \<open>max\<close>; \<open>big\<close> is the overflow message.\<close>

fun parse_mag :: "nat \<Rightarrow> string \<Rightarrow> nat \<Rightarrow> string \<Rightarrow> nat res" where
  "parse_mag mx big n [] = Inr n"
| "parse_mag mx big n (c # cs) =
     (if \<not> is_ascii_digit c then Inl ''invalid digit found in string''
      else (let m = n * 10 + (code c - 48) in
            if m > mx then Inl big else parse_mag mx big m cs))"

definition TOO_LARGE :: string where
  "TOO_LARGE = ''number too large to fit in target type''"

definition parse_uint :: "nat \<Rightarrow> string \<Rightarrow> nat res" where
  "parse_uint w s =
     (case s of
        [] \<Rightarrow> Inl ''cannot parse integer from empty string''
      | c # cs \<Rightarrow>
          if c = CHR ''+'' \<and> cs \<noteq> [] then parse_mag (2 ^ w - 1) TOO_LARGE 0 cs
          else parse_mag (2 ^ w - 1) TOO_LARGE 0 s)"

definition parse_i64 :: "string \<Rightarrow> int res" where
  "parse_i64 s =
     (case s of
        [] \<Rightarrow> Inl ''cannot parse integer from empty string''
      | c # cs \<Rightarrow>
          if c = CHR ''-'' \<and> cs \<noteq> [] then
            map_sum id (\<lambda>n. - int n) (parse_mag (2 ^ 63) ''number too small to fit in target type'' 0 cs)
          else if c = CHR ''+'' \<and> cs \<noteq> [] then map_sum id int (parse_mag (2 ^ 63 - 1) TOO_LARGE 0 cs)
          else map_sum id int (parse_mag (2 ^ 63 - 1) TOO_LARGE 0 s))"

section \<open>Configuration\<close>

record child_limits =
  cl_max_procs :: "nat option"
  cl_max_mem_mb :: "nat option"
  cl_max_cpu_secs :: "nat option"
  cl_max_file_mb :: "nat option"

definition cl_any :: "child_limits \<Rightarrow> bool" where
  "cl_any l = (cl_max_procs l \<noteq> None \<or> cl_max_mem_mb l \<noteq> None \<or> cl_max_cpu_secs l \<noteq> None \<or>
               cl_max_file_mb l \<noteq> None)"

record limits =
  max_backends_per_user :: nat
  max_backends_global :: nat
  backend_idle_secs :: nat
  backend_call_timeout_secs :: nat
  backend_connect_timeout_secs :: nat
  backend_list_timeout_secs :: nat
  bind_budget_secs :: nat
  max_response_mb :: nat

definition limits_default :: limits where
  "limits_default = \<lparr>max_backends_per_user = 16, max_backends_global = 128, backend_idle_secs = 900,
     backend_call_timeout_secs = 90, backend_connect_timeout_secs = 20,
     backend_list_timeout_secs = 10, bind_budget_secs = 5, max_response_mb = 0\<rparr>"

record config =
  base_url :: string
  rp_id :: string
  listen :: string
  db_path :: string
  env_dir :: string
  master_key :: string
  bootstrap_admin :: "string option"
  allow_open_registration :: bool
  sandbox_uid_base :: "nat option"
  keep_warm :: bool
  keep_warm_interval_secs :: nat
  cfg_limits :: limits
  cfg_child_limits :: child_limits
  block_private_backend_ips :: bool
  allowed_hosts :: "string list"
  session_idle_ttl_secs :: int
  session_absolute_ttl_secs :: int

type_synonym environment = "string \<Rightarrow> string option"

definition req :: "environment \<Rightarrow> string \<Rightarrow> string res" where
  "req env key =
     (case env key of
        None \<Rightarrow> Inl (''required environment variable '' @ key @ '' is not set'')
      | Some v \<Rightarrow> if v = [] then Inl (''required environment variable '' @ key @ '' is not set'') else Inr v)"

definition opt :: "environment \<Rightarrow> string \<Rightarrow> string option" where
  "opt env key = (case env key of None \<Rightarrow> None | Some v \<Rightarrow> if v = [] then None else Some v)"

definition opt_parse :: "(string \<Rightarrow> 'a res) \<Rightarrow> environment \<Rightarrow> string \<Rightarrow> 'a option res" where
  "opt_parse parse env key =
     (case opt env key of
        Some v \<Rightarrow> (case parse v of Inr x \<Rightarrow> Inr (Some x) | Inl e \<Rightarrow> Inl (key @ '' is invalid: '' @ e))
      | None \<Rightarrow> Inr None)"

definition parse_master_key :: "(string \<Rightarrow> string option) \<Rightarrow> string \<Rightarrow> string res" where
  "parse_master_key b64_decode s =
     (case b64_decode (trim s) of
        None \<Rightarrow> Inl ''HUB_MASTER_KEY must be valid base64''
      | Some bytes \<Rightarrow>
          if length bytes = 32 then Inr bytes
          else Inl ''HUB_MASTER_KEY must decode to exactly 32 bytes'')"

text \<open>\<open>split("://").nth(1)\<close>, or the whole text without a scheme.\<close>

definition after_scheme :: "string \<Rightarrow> string" where
  "after_scheme url =
     (case split_once url ''://'' of
        None \<Rightarrow> url
      | Some (_, r) \<Rightarrow> (case split_once r ''://'' of None \<Rightarrow> r | Some (a, _) \<Rightarrow> a))"

definition host_of :: "string \<Rightarrow> string option" where
  "host_of url =
     (let host_port = hd (split_char CHR ''/'' (after_scheme url));
          host = hd (split_char CHR '':'' host_port) in
      if host = [] then None else Some host)"

definition authority_of :: "string \<Rightarrow> string option" where
  "authority_of url =
     (let authority = hd (split_char CHR ''/'' (after_scheme url)) in
      if authority = [] then None else Some authority)"

definition flag_on :: "string \<Rightarrow> bool" where
  "flag_on v = (to_ascii_lowercase v \<in> {''1'', ''true'', ''yes''})"

definition flag_off :: "string \<Rightarrow> bool" where
  "flag_off v = (to_ascii_lowercase v \<in> {''0'', ''false'', ''no''})"

definition filter_opt :: "('a \<Rightarrow> bool) \<Rightarrow> 'a option \<Rightarrow> 'a option" where
  "filter_opt P x = (case x of None \<Rightarrow> None | Some v \<Rightarrow> if P v then Some v else None)"

definition or_else :: "'a \<Rightarrow> 'a option \<Rightarrow> 'a" where
  "or_else dflt x = (case x of None \<Rightarrow> dflt | Some v \<Rightarrow> v)"

text \<open>The limits part of \<open>from_env\<close>: each variable that is set replaces the default.\<close>

definition limits_from_env :: "environment \<Rightarrow> limits res" where
  "limits_from_env env =
     (let num = (\<lambda>key dflt f. rbind (opt_parse (parse_uint 64) env key) (\<lambda>v. f (or_else dflt v))); l = limits_default in
      num ''HUB_MAX_BACKENDS_PER_USER'' (max_backends_per_user l) (\<lambda>per_user.
      num ''HUB_MAX_BACKENDS_GLOBAL'' (max_backends_global l) (\<lambda>glob.
      num ''HUB_BACKEND_IDLE_SECS'' (backend_idle_secs l) (\<lambda>idle.
      num ''HUB_BACKEND_CALL_TIMEOUT_SECS'' (backend_call_timeout_secs l) (\<lambda>call.
      num ''HUB_BACKEND_CONNECT_TIMEOUT_SECS'' (backend_connect_timeout_secs l) (\<lambda>conn.
      num ''HUB_BACKEND_LIST_TIMEOUT_SECS'' (backend_list_timeout_secs l) (\<lambda>lst.
      num ''HUB_BIND_BUDGET_SECS'' (bind_budget_secs l) (\<lambda>bind.
      num ''HUB_MAX_RESPONSE_MB'' (max_response_mb l) (\<lambda>resp.
        Inr \<lparr>max_backends_per_user = per_user, max_backends_global = glob, backend_idle_secs = idle,
             backend_call_timeout_secs = call, backend_connect_timeout_secs = conn,
             backend_list_timeout_secs = lst, bind_budget_secs = bind, max_response_mb = resp\<rparr>)))))))))"

definition child_limits_from_env :: "environment \<Rightarrow> child_limits res" where
  "child_limits_from_env env =
     (let nonzero = (\<lambda>key f. rbind (opt_parse (parse_uint 64) env key) (\<lambda>v. f (filter_opt (\<lambda>x. x > 0) v))) in
      nonzero ''HUB_CHILD_MAX_PROCS'' (\<lambda>procs.
      nonzero ''HUB_CHILD_MAX_MEM_MB'' (\<lambda>mem.
      nonzero ''HUB_CHILD_MAX_CPU_SECS'' (\<lambda>cpu.
      nonzero ''HUB_CHILD_MAX_FILE_MB'' (\<lambda>file.
        Inr \<lparr>cl_max_procs = procs, cl_max_mem_mb = mem, cl_max_cpu_secs = cpu, cl_max_file_mb = file\<rparr>)))))"

definition hosts_from_env :: "environment \<Rightarrow> string \<Rightarrow> string list" where
  "hosts_from_env env base =
     remdups_adj
       ((case authority_of base of None \<Rightarrow> [] | Some a \<Rightarrow> [a]) @
        (case opt env ''HUB_ALLOWED_HOSTS'' of
           None \<Rightarrow> []
         | Some extra \<Rightarrow> filter (\<lambda>h. h \<noteq> []) (map trim (split_char CHR '','' extra))))"

definition from_env ::
  "(string \<Rightarrow> string option) \<Rightarrow> (string \<Rightarrow> string option) \<Rightarrow> environment \<Rightarrow> config res" where
  "from_env parse_addr b64_decode env =
     rbind (req env ''HUB_BASE_URL'') (\<lambda>raw.
       let base = trim_end_matches CHR ''/'' raw in
       rbind (case opt env ''HUB_RP_ID'' of
                Some v \<Rightarrow> Inr v
              | None \<Rightarrow>
                  (case host_of base of
                     Some h \<Rightarrow> Inr h
                   | None \<Rightarrow> Inl ''could not derive HUB_RP_ID from HUB_BASE_URL; set HUB_RP_ID'')) (\<lambda>rp.
       rbind (case parse_addr (or_else ''0.0.0.0:8080'' (opt env ''HUB_LISTEN'')) of
                Some a \<Rightarrow> Inr a
              | None \<Rightarrow> Inl ''HUB_LISTEN must be a valid socket address, e.g. 0.0.0.0:8080'') (\<lambda>addr.
       rbind (rbind (req env ''HUB_MASTER_KEY'') (parse_master_key b64_decode)) (\<lambda>key.
       rbind (opt_parse (parse_uint 32) env ''HUB_SANDBOX_UID_BASE'') (\<lambda>sandbox.
       rbind (opt_parse (parse_uint 64) env ''HUB_KEEP_WARM_SECS'') (\<lambda>warm_secs.
       rbind (limits_from_env env) (\<lambda>lim.
       rbind (child_limits_from_env env) (\<lambda>child.
       rbind (opt_parse parse_i64 env ''HUB_SESSION_IDLE_SECS'') (\<lambda>idle0.
       rbind (opt_parse parse_i64 env ''HUB_SESSION_ABSOLUTE_SECS'') (\<lambda>abs0.
         let idle = or_else 1800 (filter_opt (\<lambda>v. v > 0) idle0) in
         Inr \<lparr>base_url = base, rp_id = rp, listen = addr,
              db_path = or_else ''./data/hub.db'' (opt env ''HUB_DB_PATH''),
              env_dir = or_else ''./data/envs'' (opt env ''HUB_ENV_DIR''),
              master_key = key, bootstrap_admin = opt env ''HUB_BOOTSTRAP_ADMIN'',
              allow_open_registration =
                (case opt env ''HUB_ALLOW_OPEN_REGISTRATION'' of None \<Rightarrow> False | Some v \<Rightarrow> flag_on v),
              sandbox_uid_base = filter_opt (\<lambda>b. b > 0) sandbox,
              keep_warm = (case opt env ''HUB_KEEP_WARM'' of None \<Rightarrow> True | Some v \<Rightarrow> \<not> flag_off v),
              keep_warm_interval_secs = or_else 300 warm_secs,
              cfg_limits = lim, cfg_child_limits = child,
              block_private_backend_ips =
                (case opt env ''HUB_BLOCK_PRIVATE_BACKEND_IPS'' of None \<Rightarrow> False | Some v \<Rightarrow> flag_on v),
              allowed_hosts = hosts_from_env env base,
              session_idle_ttl_secs = idle,
              session_absolute_ttl_secs = max (or_else 43200 (filter_opt (\<lambda>v. v > 0) abs0)) idle\<rparr>))))))))))"

definition mcp_url :: "config \<Rightarrow> string" where
  "mcp_url c = base_url c @ ''/mcp''"

definition group_mcp_url :: "config \<Rightarrow> string \<Rightarrow> string" where
  "group_mcp_url c slug = base_url c @ ''/mcp/'' @ slug"

definition cookie_secure :: "config \<Rightarrow> bool" where
  "cookie_secure c = starts_with (base_url c) ''https://''"

section \<open>Lemmas\<close>

lemma parse_mag_le: "n \<le> mx \<Longrightarrow> parse_mag mx big n s = Inr v \<Longrightarrow> v \<le> mx"
  by (induction s arbitrary: n) (auto simp: Let_def not_less split: if_splits)

lemma parse_uint_lt:
  assumes "parse_uint w s = Inr v" shows "v < 2 ^ w"
proof -
  have "v \<le> 2 ^ w - 1"
    using assms parse_mag_le[of 0 "2 ^ w - 1" TOO_LARGE _ v]
    by (auto simp: parse_uint_def simp del: parse_mag.simps split: list.splits if_splits)
  moreover have "0 < (2 :: nat) ^ w" by simp
  ultimately show ?thesis by linarith
qed

lemma trim_end_matches_last:
  "trim_end_matches c s = [] \<or> last (trim_end_matches c s) \<noteq> c"
  by (metis (mono_tags, lifting) hd_dropWhile last_rev trim_end_matches_def rev_is_Nil_conv)

lemma filter_opt_Some: "filter_opt P x = Some v \<longleftrightarrow> x = Some v \<and> P v"
  by (auto simp: filter_opt_def split: option.splits)

lemma hosts_from_env_nonempty: "[] \<notin> set (hosts_from_env env base)"
  by (auto simp: hosts_from_env_def authority_of_def Let_def split: option.splits if_splits)

lemma child_limits_pos:
  "child_limits_from_env env = Inr l \<Longrightarrow>
     cl_max_procs l \<noteq> Some 0 \<and> cl_max_mem_mb l \<noteq> Some 0 \<and> cl_max_cpu_secs l \<noteq> Some 0 \<and>
     cl_max_file_mb l \<noteq> Some 0"
  by (auto simp: child_limits_from_env_def Let_def rbind_Inr filter_opt_Some)

lemma opt_parse_Some: "opt_parse p env key = Inr (Some v) \<Longrightarrow> \<exists>s. p s = Inr v"
  by (auto simp: opt_parse_def split: option.splits sum.splits)

lemma parse_master_key_len: "parse_master_key b64 s = Inr k \<Longrightarrow> length k = 32"
  by (auto simp: parse_master_key_def split: option.splits if_splits)

lemmas from_env_parts = from_env_def rbind_Inr Let_def

lemma from_env_sandbox:
  assumes "from_env parse_addr b64_decode env = Inr c"
  shows "sandbox_uid_base c = None \<or> 0 < the (sandbox_uid_base c) \<and> the (sandbox_uid_base c) < 2 ^ 32"
proof -
  from assms obtain sb where s: "opt_parse (parse_uint 32) env ''HUB_SANDBOX_UID_BASE'' = Inr sb"
    "sandbox_uid_base c = filter_opt (\<lambda>b. b > 0) sb"
    by (auto simp: from_env_parts)
  show ?thesis
  proof (cases sb)
    case (Some v)
    with s(1) obtain t where "parse_uint 32 t = Inr v" using opt_parse_Some by metis
    from parse_uint_lt[OF this] s(2) Some show ?thesis by (auto simp: filter_opt_def)
  qed (simp add: s(2) filter_opt_def)
qed

lemma from_env_child:
  "from_env parse_addr b64_decode env = Inr c \<Longrightarrow> child_limits_from_env env = Inr (cfg_child_limits c)"
  by (auto simp: from_env_parts)

lemma from_env_session:
  assumes "from_env parse_addr b64_decode env = Inr c"
  shows "0 < session_idle_ttl_secs c \<and> session_idle_ttl_secs c \<le> session_absolute_ttl_secs c"
proof -
  have "0 < or_else 1800 (filter_opt (\<lambda>v. v > 0) i)" for i :: "int option"
    by (auto simp: or_else_def filter_opt_def split: option.splits)
  with assms show ?thesis by (auto simp: from_env_parts)
qed

section \<open>Properties\<close>


definition demo_env :: environment where
  "demo_env = map_of [(''HUB_BASE_URL'', ''https://h.io//''), (''HUB_MASTER_KEY'', replicate 32 CHR ''k''),
     (''HUB_SANDBOX_UID_BASE'', ''200''), (''HUB_SESSION_IDLE_SECS'', ''90000''),
     (''HUB_ALLOWED_HOSTS'', ''proxy , '')]"

lemma demo_env_parses:
  "opt_parse (parse_uint 32) demo_env ''HUB_SANDBOX_UID_BASE'' = Inr (Some 200)"
  "opt_parse parse_i64 demo_env ''HUB_SESSION_IDLE_SECS'' = Inr (Some 90000)"
  "opt_parse parse_i64 demo_env ''HUB_SESSION_ABSOLUTE_SECS'' = Inr None"
  "opt_parse (parse_uint 64) demo_env ''HUB_KEEP_WARM_SECS'' = Inr None"
  "limits_from_env demo_env = Inr limits_default"
  "child_limits_from_env demo_env = Inr \<lparr>cl_max_procs = None, cl_max_mem_mb = None, cl_max_cpu_secs = None, cl_max_file_mb = None\<rparr>"
  by (simp_all add: opt_parse_def opt_def demo_env_def parse_uint_def parse_i64_def text_simps
      limits_from_env_def child_limits_from_env_def or_else_def limits_default_def filter_opt_def)

lemma demo_env_key: "rbind (req demo_env ''HUB_MASTER_KEY'') (parse_master_key Some) = Inr (replicate 32 CHR ''k'')"
  by code_simp

lemma demo_env_hosts: "hosts_from_env demo_env ''https://h.io'' = [''h.io'', ''proxy'']"
  by code_simp

lemma demo_env_base: "req demo_env ''HUB_BASE_URL'' = Inr ''https://h.io//''"
  "trim_end_matches CHR ''/'' ''https://h.io//'' = ''https://h.io''" "host_of ''https://h.io'' = Some ''h.io''"
  by code_simp+


text \<open>A concrete configuration for the instances of the other components.\<close>

definition demo_cfg :: config where
  "demo_cfg = \<lparr>base_url = ''https://h.io'', rp_id = ''h.io'', listen = ''0.0.0.0:8080'', db_path = ''db'',
     env_dir = ''envs'', master_key = replicate 32 CHR ''k'', bootstrap_admin = None,
     allow_open_registration = False, sandbox_uid_base = None, keep_warm = True,
     keep_warm_interval_secs = 300, cfg_limits = limits_default,
     cfg_child_limits = \<lparr>cl_max_procs = None, cl_max_mem_mb = None, cl_max_cpu_secs = None, cl_max_file_mb = None\<rparr>,
     block_private_backend_ips = False, allowed_hosts = [''h.io''], session_idle_ttl_secs = 1800,
     session_absolute_ttl_secs = 43200\<rparr>"

end
