(* ===== verification/Hub_Session.thy ===== *)
theory Hub_Session
  imports Hub_Invites Hub_Config
begin

text \<open>
  \<^verbatim>\<open>src/auth/session.rs\<close>: browser sessions with an idle and an absolute deadline, the signed
  cookies that carry them, the cross-site request tokens derived from them, and the check of
  redirect targets. A signed cookie jar is the map of the cookies whose signature verified;
  the hash and the base64 encoder are arguments. The lemmas follow one session through a
  sequence of requests.
\<close>

section \<open>Cookies and redirect targets\<close>

record cookie =
  ck_name :: string
  ck_value :: string
  ck_http_only :: bool
  ck_same_site :: "string option"
  ck_secure :: bool
  ck_path :: string
  ck_max_age :: "int option"

type_synonym signed_jar = "string \<Rightarrow> string option"

definition SESSION_COOKIE :: string where
  "SESSION_COOKIE = ''hub_session''"

definition NEXT_COOKIE :: string where
  "NEXT_COOKIE = ''hub_next''"

definition SESSION_TOUCH_THROTTLE_SECS :: int where
  "SESSION_TOUCH_THROTTLE_SECS = 60"

definition safe_next :: "string \<Rightarrow> string option" where
  "safe_next path =
     (if starts_with path ''/'' \<and> \<not> starts_with path ''//'' \<and> CHR 0x5C \<notin> set path \<and>
         \<not> list_ex is_control path
      then Some path else None)"

definition next_cookie :: "string \<Rightarrow> bool \<Rightarrow> cookie" where
  "next_cookie path secure = \<lparr>ck_name = NEXT_COOKIE, ck_value = path, ck_http_only = True,
     ck_same_site = Some ''Lax'', ck_secure = secure, ck_path = ''/'', ck_max_age = Some 600\<rparr>"

definition clear_next_cookie :: "bool \<Rightarrow> cookie" where
  "clear_next_cookie secure = \<lparr>ck_name = NEXT_COOKIE, ck_value = [], ck_http_only = True,
     ck_same_site = None, ck_secure = secure, ck_path = ''/'', ck_max_age = Some 0\<rparr>"

definition take_next :: "signed_jar \<Rightarrow> string" where
  "take_next jar = (case Option.bind (jar NEXT_COOKIE) safe_next of None \<Rightarrow> ''/'' | Some p \<Rightarrow> p)"

definition session_cookie :: "string \<Rightarrow> bool \<Rightarrow> cookie" where
  "session_cookie sid secure = \<lparr>ck_name = SESSION_COOKIE, ck_value = sid, ck_http_only = True,
     ck_same_site = Some ''Lax'', ck_secure = secure, ck_path = ''/'', ck_max_age = None\<rparr>"

definition clear_session_cookie :: "bool \<Rightarrow> cookie" where
  "clear_session_cookie secure = \<lparr>ck_name = SESSION_COOKIE, ck_value = [], ck_http_only = True,
     ck_same_site = Some ''Lax'', ck_secure = secure, ck_path = ''/'', ck_max_age = Some 0\<rparr>"

section \<open>Cross-site request tokens\<close>

definition csrf_token :: "(string \<Rightarrow> string) \<Rightarrow> (string \<Rightarrow> string) \<Rightarrow> string \<Rightarrow> string \<Rightarrow> string" where
  "csrf_token b64url sha256 key sid = b64url (sha256 (''hub-csrf-v1'' @ key @ as_bytes sid))"

definition current_session_id :: "signed_jar \<Rightarrow> string option" where
  "current_session_id jar = jar SESSION_COOKIE"

definition csrf_for :: "(string \<Rightarrow> string) \<Rightarrow> (string \<Rightarrow> string) \<Rightarrow> signed_jar \<Rightarrow> string \<Rightarrow> string option" where
  "csrf_for b64url sha256 jar key = map_option (csrf_token b64url sha256 key) (current_session_id jar)"

definition csrf_field :: "(string \<Rightarrow> string) \<Rightarrow> (string \<Rightarrow> string) \<Rightarrow> signed_jar \<Rightarrow> string \<Rightarrow> string" where
  "csrf_field b64url sha256 jar key =
     (case csrf_for b64url sha256 jar key of
        Some t \<Rightarrow> ''<input type='' @ [CHR 0x22] @ ''hidden'' @ [CHR 0x22] @ '' name='' @ [CHR 0x22] @ ''csrf'' @
                  [CHR 0x22] @ '' value='' @ [CHR 0x22] @ t @ [CHR 0x22] @ ''>''
      | None \<Rightarrow> [])"

definition check_csrf :: "(string \<Rightarrow> string) \<Rightarrow> (string \<Rightarrow> string) \<Rightarrow> signed_jar \<Rightarrow> string \<Rightarrow> string \<Rightarrow> bool" where
  "check_csrf b64url sha256 jar key submitted =
     (case csrf_for b64url sha256 jar key of
        Some expected \<Rightarrow> ct_eq (as_bytes expected) (as_bytes submitted)
      | None \<Rightarrow> False)"

section \<open>Session rows\<close>

definition session_create :: "int \<Rightarrow> string \<Rightarrow> db \<Rightarrow> string \<Rightarrow> request_info \<Rightarrow> int \<Rightarrow> (db \<times> string) res" where
  "session_create now new_id d user_id info idle_ttl_secs =
     (if new_id \<in> set (map ws_id (web_sessions d)) \<or> \<not> has_user d user_id then Inl ''creating session''
      else Inr (d\<lparr>web_sessions := web_sessions d @
             [\<lparr>ws_id = new_id, ws_user_id = user_id, ws_created_at = now, ws_expires_at = now + idle_ttl_secs,
               ws_last_ip = ri_ip info, ws_last_user_agent = ri_user_agent info\<rparr>]\<rparr>, new_id))"

definition session_delete :: "db \<Rightarrow> string \<Rightarrow> db" where
  "session_delete d sid = d\<lparr>web_sessions := tbl_delete (\<lambda>r. ws_id r = sid) (web_sessions d)\<rparr>"

definition session_list_for_user :: "int \<Rightarrow> db \<Rightarrow> string \<Rightarrow> session_row list" where
  "session_list_for_user now d user_id =
     sort_key (\<lambda>r. - ws_created_at r)
       (filter (\<lambda>r. ws_user_id r = user_id \<and> ws_expires_at r > now) (web_sessions d))"

definition delete_others :: "db \<Rightarrow> string \<Rightarrow> string \<Rightarrow> db \<times> nat" where
  "delete_others d user_id keep =
     (let P = (\<lambda>r. ws_user_id r = user_id \<and> ws_id r \<noteq> keep) in
      (d\<lparr>web_sessions := tbl_delete P (web_sessions d)\<rparr>, tbl_count P (web_sessions d)))"

definition delete_all_for_user :: "db \<Rightarrow> string \<Rightarrow> db" where
  "delete_all_for_user d user_id =
     d\<lparr>web_sessions := tbl_delete (\<lambda>r. ws_user_id r = user_id) (web_sessions d)\<rparr>"

definition find_session :: "db \<Rightarrow> string \<Rightarrow> session_row option" where
  "find_session d sid = List.find (\<lambda>r. ws_id r = sid) (web_sessions d)"

definition user_for_session :: "int \<Rightarrow> db \<Rightarrow> string \<Rightarrow> db \<times> user_row option" where
  "user_for_session now d sid =
     (case find_session d sid of
        None \<Rightarrow> (d, None)
      | Some r \<Rightarrow>
          if ws_expires_at r < now then (session_delete d sid, None)
          else (d, users_find_by_id d (ws_user_id r)))"

definition load_and_touch :: "int \<Rightarrow> db \<Rightarrow> string \<Rightarrow> int \<Rightarrow> int \<Rightarrow> db \<times> user_row option" where
  "load_and_touch now d sid idle_ttl_secs absolute_ttl_secs =
     (case find_session d sid of
        None \<Rightarrow> (d, None)
      | Some r \<Rightarrow>
          (let absolute_deadline = ws_created_at r + absolute_ttl_secs in
           if ws_expires_at r \<le> now \<or> absolute_deadline \<le> now then (session_delete d sid, None)
           else
             (let target = min (now + idle_ttl_secs) absolute_deadline;
                  d' = (if ws_expires_at r > target \<or>
                           target - ws_expires_at r > SESSION_TOUCH_THROTTLE_SECS
                        then d\<lparr>web_sessions := tbl_update (\<lambda>r. ws_id r = sid)
                               (\<lambda>r. r\<lparr>ws_expires_at := target\<rparr>) (web_sessions d)\<rparr>
                        else d) in
              (d', users_find_by_id d' (ws_user_id r)))))"

definition delete_expired :: "int \<Rightarrow> db \<Rightarrow> db \<times> nat" where
  "delete_expired now d =
     (let P = (\<lambda>r. ws_expires_at r < now) in
      (d\<lparr>web_sessions := tbl_delete P (web_sessions d)\<rparr>, tbl_count P (web_sessions d)))"

text \<open>The extractors: \<open>AuthUser\<close> rejects with a redirect to the login page, \<open>MaybeUser\<close> does not.\<close>

definition maybe_user :: "int \<Rightarrow> config \<Rightarrow> db \<Rightarrow> signed_jar \<Rightarrow> db \<times> user_row option" where
  "maybe_user now cfg d jar =
     (case current_session_id jar of
        None \<Rightarrow> (d, None)
      | Some sid \<Rightarrow> load_and_touch now d sid (session_idle_ttl_secs cfg) (session_absolute_ttl_secs cfg))"

definition auth_user :: "int \<Rightarrow> config \<Rightarrow> db \<Rightarrow> signed_jar \<Rightarrow> db \<times> user_row res" where
  "auth_user now cfg d jar =
     (case maybe_user now cfg d jar of
        (d', Some u) \<Rightarrow> (d', Inr u)
      | (d', None) \<Rightarrow> (d', Inl ''/login''))"

section \<open>One session through a sequence of requests\<close>

text \<open>What a session's row says after its last accepted request at time \<open>last\<close>.\<close>

definition session_ok :: "int \<Rightarrow> int \<Rightarrow> db \<Rightarrow> string \<Rightarrow> string \<Rightarrow> int \<Rightarrow> int \<Rightarrow> bool" where
  "session_ok idle absolute d sid u created last_use \<longleftrightarrow>
     has_user d u \<and> distinct (map ws_id (web_sessions d)) \<and>
     (\<exists>r. find_session d sid = Some r \<and> ws_user_id r = u \<and> ws_created_at r = created \<and>
          ws_expires_at r \<le> min (last_use + idle) (created + absolute) \<and>
          min (last_use + idle) (created + absolute) - ws_expires_at r \<le> SESSION_TOUCH_THROTTLE_SECS)"

text \<open>Requests at the given times that were all accepted, and the database after them.\<close>

fun accepted :: "int \<Rightarrow> int \<Rightarrow> db \<Rightarrow> string \<Rightarrow> int list \<Rightarrow> db \<Rightarrow> bool" where
  "accepted idle absolute d sid [] d' = (d' = d)"
| "accepted idle absolute d sid (t # ts) d' =
     (case load_and_touch t d sid idle absolute of
        (d1, Some u) \<Rightarrow> accepted idle absolute d1 sid ts d'
      | (d1, None) \<Rightarrow> False)"

lemma users_find_by_id_has: "users_find_by_id d u \<noteq> None \<longleftrightarrow> has_user d u"
  by (auto simp: users_find_by_id_def find_None_iff has_user_def)

lemma has_user_sessions [simp]: "has_user (d\<lparr>web_sessions := x\<rparr>) u = has_user d u"
  by (simp add: has_user_def)

lemma users_find_by_id_sessions [simp]: "users_find_by_id (d\<lparr>web_sessions := x\<rparr>) u = users_find_by_id d u"
  by (simp add: users_find_by_id_def)

lemma find_update_key:
  "(\<And>r. k (f r) = k r) \<Longrightarrow>
   List.find (\<lambda>r. k r = x) (tbl_update (\<lambda>r. k r = x) f t) = map_option f (List.find (\<lambda>r. k r = x) t)"
  by (induction t) (auto simp: tbl_update_def)

lemma find_session_slide:
  "find_session (d\<lparr>web_sessions := tbl_update (\<lambda>r. ws_id r = sid) (\<lambda>r. r\<lparr>ws_expires_at := x\<rparr>) (web_sessions d)\<rparr>) sid =
   map_option (\<lambda>r. r\<lparr>ws_expires_at := x\<rparr>) (find_session d sid)"
  by (simp add: find_session_def find_update_key)

lemma session_ok_create:
  assumes "session_create now sid d u info idle = Inr (d', sid')" "idle \<le> absolute"
    and "distinct (map ws_id (web_sessions d))"
  shows "session_ok idle absolute d' sid u now now"
proof -
  have "List.find (\<lambda>r. ws_id r = sid) (web_sessions d) = None"
    using assms(1) by (auto simp: session_create_def find_None_iff split: if_splits)
  with assms show ?thesis
    by (auto simp: session_create_def session_ok_def find_session_def find_append
        SESSION_TOUCH_THROTTLE_SECS_def split: if_splits)
qed

lemma session_ok_use:
  assumes "session_ok idle absolute d sid u created last_use" "last_use \<le> t"
  shows "snd (load_and_touch t d sid idle absolute) \<noteq> None \<longleftrightarrow>
           (\<exists>r. find_session d sid = Some r \<and> t < ws_expires_at r \<and> t < created + absolute)"
    and "snd (load_and_touch t d sid idle absolute) \<noteq> None \<Longrightarrow>
           session_ok idle absolute (fst (load_and_touch t d sid idle absolute)) sid u created t"
proof -
  from assms(1) obtain r where r: "find_session d sid = Some r" "ws_user_id r = u" "ws_created_at r = created"
    and b: "ws_expires_at r \<le> min (last_use + idle) (created + absolute)"
      "min (last_use + idle) (created + absolute) - ws_expires_at r \<le> SESSION_TOUCH_THROTTLE_SECS"
    and u: "has_user d u" and dist: "distinct (map ws_id (web_sessions d))"
    unfolding session_ok_def by blast
  have some: "users_find_by_id d u \<noteq> None" using u users_find_by_id_has by blast
  show "snd (load_and_touch t d sid idle absolute) \<noteq> None \<longleftrightarrow>
           (\<exists>r. find_session d sid = Some r \<and> t < ws_expires_at r \<and> t < created + absolute)"
    using r some by (auto simp: load_and_touch_def Let_def)
  assume acc: "snd (load_and_touch t d sid idle absolute) \<noteq> None"
  let ?target = "min (t + idle) (created + absolute)"
  have "ws_expires_at r \<le> ?target" using b(1) assms(2) by linarith
  with acc r u dist show "session_ok idle absolute (fst (load_and_touch t d sid idle absolute)) sid u created t"
    by (auto simp: load_and_touch_def Let_def session_ok_def find_session_slide map_tbl_update_key
        SESSION_TOUCH_THROTTLE_SECS_def not_le not_less split: if_splits)
qed

lemma session_ok_run:
  assumes "session_ok idle absolute d sid u created last_use" "sorted (last_use # ts)"
    and "accepted idle absolute d sid ts d'"
  shows "session_ok idle absolute d' sid u created (last (last_use # ts))"
  using assms
proof (induction ts arbitrary: d last_use)
  case (Cons t ts)
  from Cons.prems(3) have acc: "snd (load_and_touch t d sid idle absolute) \<noteq> None"
    and rest: "accepted idle absolute (fst (load_and_touch t d sid idle absolute)) sid ts d'"
    by (auto split: prod.splits option.splits)
  from session_ok_use(2)[OF Cons.prems(1) _ acc] Cons.prems(2)
  have "session_ok idle absolute (fst (load_and_touch t d sid idle absolute)) sid u created t" by simp
  from Cons.IH[OF this _ rest] Cons.prems(2) show ?case by simp
qed simp

section \<open>Properties\<close>

text \<open>C23: a browser session lives exactly within its two deadlines. For a session created at
  \<open>now\<close> and used at any non-decreasing sequence of times, a further request is accepted only
  before the absolute cap and less than the idle window after the last accepted request; and
  it is accepted whenever it comes before the cap and at least the throttle of sixty seconds
  earlier than the end of the idle window.\<close>

theorem session_lifetime:
  assumes "session_create now sid d u info idle = Inr (d0, sid')" "distinct (map ws_id (web_sessions d))"
    and "idle \<le> absolute" "sorted (now # ts)" "accepted idle absolute d0 sid ts d1"
    and "last (now # ts) \<le> t"
  shows "(snd (load_and_touch t d1 sid idle absolute) \<noteq> None \<longrightarrow>
            t < last (now # ts) + idle \<and> t < now + absolute) \<and>
         (t + SESSION_TOUCH_THROTTLE_SECS < min (last (now # ts) + idle) (now + absolute) \<longrightarrow>
            snd (load_and_touch t d1 sid idle absolute) \<noteq> None)"
proof -
  have ok: "session_ok idle absolute d1 sid u now (last (now # ts))"
    by (rule session_ok_run[OF session_ok_create[OF assms(1,3,2)] assms(4,5)])
  then obtain r where "find_session d1 sid = Some r"
    "ws_expires_at r \<le> min (last (now # ts) + idle) (now + absolute)"
    "min (last (now # ts) + idle) (now + absolute) - ws_expires_at r \<le> SESSION_TOUCH_THROTTLE_SECS"
    unfolding session_ok_def by blast
  with session_ok_use(1)[OF ok assms(6)] show ?thesis
    by (auto simp: SESSION_TOUCH_THROTTLE_SECS_def simp del: last.simps)
qed

theorem session_lifetime_witness:
  "snd (load_and_touch 2300 (fst (load_and_touch 1000 (demo_db\<lparr>web_sessions :=
      [\<lparr>ws_id = ''s'', ws_user_id = ''u2'', ws_created_at = 0, ws_expires_at = 1800,
        ws_last_ip = None, ws_last_user_agent = None\<rparr>]\<rparr>) ''s'' 1800 43200)) ''s'' 1800 43200) \<noteq> None"
proof -
  let ?d0 = "demo_db\<lparr>web_sessions := [\<lparr>ws_id = ''s'', ws_user_id = ''u2'', ws_created_at = 0,
    ws_expires_at = 1800, ws_last_ip = None, ws_last_user_agent = None\<rparr>]\<rparr>"
  let ?d1 = "fst (load_and_touch 1000 ?d0 ''s'' 1800 43200)"
  have create: "session_create 0 ''s'' demo_db ''u2'' \<lparr>ri_ip = None, ri_user_agent = None\<rparr> 1800 = Inr (?d0, ''s'')"
    by (simp add: session_create_def demo_db_def empty_db_def has_user_def)
  have acc: "accepted 1800 43200 ?d0 ''s'' [1000] ?d1"
    by (simp add: load_and_touch_def find_session_def demo_db_def empty_db_def users_find_by_id_def
        SESSION_TOUCH_THROTTLE_SECS_def tbl_update_def)
  from session_lifetime[OF create _ _ _ acc, of 2300] show ?thesis
    by (simp add: demo_db_def empty_db_def SESSION_TOUCH_THROTTLE_SECS_def)
qed

text \<open>The redirect after login stays on the hub. Whatever the (signed) cookie holds, the
  target starts with one slash that is not followed by a second slash, and has no backslash
  and no control character, so no browser reads it as another origin.\<close>

theorem take_next_same_origin:
  "\<exists>rest. take_next jar = CHR ''/'' # rest \<and> take 1 rest \<noteq> ''/'' \<and>
     CHR 0x5C \<notin> set (take_next jar) \<and> \<not> list_ex is_control (take_next jar)"
proof (cases "Option.bind (jar NEXT_COOKIE) safe_next")
  case None
  then show ?thesis by (auto simp: take_next_def is_control_def)
next
  case (Some p)
  then have s: "safe_next p = Some p"
    by (auto simp: safe_next_def split: bind_splits if_splits)
  then obtain rest where "p = CHR ''/'' # rest"
    by (auto simp: safe_next_def starts_with_iff split: if_splits)
  with s show ?thesis
    by (cases rest) (auto simp: take_next_def Some safe_next_def starts_with_def split: if_splits)
qed

end
