(* ===== verification/Hub_OAuth_Store.thy ===== *)
theory Hub_OAuth_Store
  imports Hub_Status Hub_Groups
begin

text \<open>
  \<^verbatim>\<open>src/oauth/store.rs\<close>: OAuth clients, the in-memory store of authorization codes, and refresh
  tokens with their rotation families. SQLite may report the database locked on any attempt of
  a retried statement (\<open>busy k\<close> for attempt \<open>k\<close>); such an attempt changes nothing.
  The code store is a one-time store with a capacity (interpretations \<open>auth_code\<close> and
  \<open>code_cap\<close>), a refresh token a one-time credential (interpretation \<open>refresh\<close>).
\<close>

section \<open>Retry on a locked database\<close>

definition LOCKED :: string where
  "LOCKED = ''database is locked''"

definition is_busy :: "string \<Rightarrow> bool" where
  "is_busy e = contains_sub e LOCKED"

text \<open>The loop over the backoff delays, then the last attempt; \<open>k\<close> is the number of the attempt.\<close>

fun retry_loop :: "nat list \<Rightarrow> nat \<Rightarrow> (nat \<Rightarrow> 'a res) \<Rightarrow> 'a res" where
  "retry_loop [] k op = op k"
| "retry_loop (delay # ds) k op =
     (case op k of
        Inl e \<Rightarrow> if is_busy e then retry_loop ds (Suc k) op else Inl e
      | Inr x \<Rightarrow> Inr x)"

definition BACKOFF_MS :: "nat list" where
  "BACKOFF_MS = [50, 150, 300]"

definition retry_busy :: "(nat \<Rightarrow> 'a res) \<Rightarrow> 'a res" where
  "retry_busy op = retry_loop BACKOFF_MS 0 op"

text \<open>An attempt on a database that may be locked.\<close>

definition attempt :: "(nat \<Rightarrow> bool) \<Rightarrow> 'a res \<Rightarrow> nat \<Rightarrow> 'a res" where
  "attempt busy r k = (if busy k then Inl LOCKED else r)"

section \<open>Clients\<close>

definition create_client ::
  "int \<Rightarrow> db \<Rightarrow> string \<Rightarrow> string option \<Rightarrow> string list \<Rightarrow> client_metadata \<Rightarrow> db res" where
  "create_client now d client_id secret_hash redirect_uris metadata =
     (if has_client d client_id then Inl ''inserting oauth client''
      else Inr (d\<lparr>oauth_clients := oauth_clients d @
             [\<lparr>oc_client_id = client_id, oc_client_secret_hash = secret_hash,
               oc_redirect_uris = redirect_uris, oc_metadata = metadata, oc_created_at = now\<rparr>]\<rparr>))"

definition get_client :: "db \<Rightarrow> string \<Rightarrow> client_row option" where
  "get_client d client_id = List.find (\<lambda>r. oc_client_id r = client_id) (oauth_clients d)"

section \<open>Authorization codes\<close>

record auth_code =
  ac_client_id :: string
  ac_user_id :: string
  ac_redirect_uri :: string
  ac_code_challenge :: string
  ac_scope :: string
  ac_resource :: "string option"

record pending_code =
  pc_auth :: auth_code
  pc_expires_at :: int

type_synonym code_store = "(string, pending_code) hash_map"

definition AUTH_CODE_CAP :: nat where
  "AUTH_CODE_CAP = 512"

definition insert_code :: "int \<Rightarrow> code_store \<Rightarrow> string \<Rightarrow> auth_code \<Rightarrow> int \<Rightarrow> code_store res" where
  "insert_code now store c auth ttl_secs =
     (let m = hm_retain (\<lambda>_ p. pc_expires_at p > now) store in
      if length m \<ge> AUTH_CODE_CAP then Inl ''too many authorizations in progress''
      else Inr (hm_insert c \<lparr>pc_auth = auth, pc_expires_at = now + ttl_secs\<rparr> m))"

definition take_code :: "int \<Rightarrow> code_store \<Rightarrow> string \<Rightarrow> code_store \<times> auth_code option" where
  "take_code now store c =
     (hm_remove c store,
      case hm_get store c of
        None \<Rightarrow> None
      | Some p \<Rightarrow> if pc_expires_at p \<ge> now then Some (pc_auth p) else None)"

section \<open>Refresh tokens\<close>

record refresh_token =
  rf_client_id :: string
  rf_user_id :: string
  rf_scope :: string
  rf_resource :: "string option"
  rf_family_id :: string

definition insert_refresh_once :: "db \<Rightarrow> refresh_row \<Rightarrow> db res" where
  "insert_refresh_once d r =
     (if rt_token_hash r \<in> set (map rt_token_hash (oauth_refresh_tokens d)) \<or>
         \<not> has_client d (rt_client_id r) \<or> \<not> has_user d (rt_user_id r)
      then Inl ''inserting refresh token''
      else Inr (d\<lparr>oauth_refresh_tokens := oauth_refresh_tokens d @ [r]\<rparr>))"

definition insert_refresh ::
  "(nat \<Rightarrow> bool) \<Rightarrow> int \<Rightarrow> db \<Rightarrow> string \<Rightarrow> string \<Rightarrow> string \<Rightarrow> string \<Rightarrow> string option \<Rightarrow> string \<Rightarrow> int \<Rightarrow> request_info \<Rightarrow> db res" where
  "insert_refresh busy now d thash client_id user_id scope resource family_id ttl_secs info =
     retry_busy (attempt busy (insert_refresh_once d
       \<lparr>rt_token_hash = thash, rt_client_id = client_id, rt_user_id = user_id,
        rt_scope = scope, rt_resource = resource, rt_created_at = now,
        rt_expires_at = now + ttl_secs, rt_family_id = family_id, rt_consumed = False,
        rt_last_ip = ri_ip info, rt_last_user_agent = ri_user_agent info\<rparr>))"

datatype refresh_outcome = Valid refresh_token | Replayed string | Missing

definition consume_refresh_once :: "int \<Rightarrow> db \<Rightarrow> string \<Rightarrow> db \<times> refresh_outcome" where
  "consume_refresh_once now d h =
     (case List.find (\<lambda>r. rt_token_hash r = h) (oauth_refresh_tokens d) of
        None \<Rightarrow> (d, Missing)
      | Some r \<Rightarrow>
          if rt_expires_at r < now then
            (d\<lparr>oauth_refresh_tokens := tbl_delete (\<lambda>r. rt_token_hash r = h) (oauth_refresh_tokens d)\<rparr>,
             Missing)
          else if rt_consumed r then (d, Replayed (rt_family_id r))
          else
            (d\<lparr>oauth_refresh_tokens :=
                 tbl_update (\<lambda>r. rt_token_hash r = h) (\<lambda>r. r\<lparr>rt_consumed := True\<rparr>)
                   (oauth_refresh_tokens d)\<rparr>,
             Valid \<lparr>rf_client_id = rt_client_id r, rf_user_id = rt_user_id r, rf_scope = rt_scope r,
                    rf_resource = rt_resource r, rf_family_id = rt_family_id r\<rparr>))"

definition consume_refresh :: "(nat \<Rightarrow> bool) \<Rightarrow> int \<Rightarrow> db \<Rightarrow> string \<Rightarrow> (db \<times> refresh_outcome) res" where
  "consume_refresh busy now d h = retry_busy (attempt busy (Inr (consume_refresh_once now d h)))"

definition revoke_family :: "(nat \<Rightarrow> bool) \<Rightarrow> db \<Rightarrow> string \<Rightarrow> db res" where
  "revoke_family busy d family_id =
     retry_busy (attempt busy (Inr (d\<lparr>oauth_refresh_tokens :=
       tbl_delete (\<lambda>r. rt_family_id r = family_id) (oauth_refresh_tokens d)\<rparr>)))"

section \<open>Connections\<close>

record connection =
  cn_client_id :: string
  cn_client_name :: "string option"
  cn_redirect_uris :: "string list"
  cn_custom_name :: string
  cn_note :: string
  cn_first_seen :: int
  cn_last_seen :: int
  cn_last_ip :: "string option"
  cn_last_user_agent :: "string option"

definition get_client_label :: "db \<Rightarrow> string \<Rightarrow> string \<Rightarrow> string \<times> string" where
  "get_client_label d user_id client_id =
     (case List.find (\<lambda>r. ol_user_id r = user_id \<and> ol_client_id r = client_id) (oauth_client_labels d) of
        None \<Rightarrow> ([], [])
      | Some r \<Rightarrow> (ol_name r, ol_note r))"

definition set_client_label :: "int \<Rightarrow> db \<Rightarrow> string \<Rightarrow> string \<Rightarrow> string \<Rightarrow> string \<Rightarrow> db res" where
  "set_client_label now d user_id client_id name note =
     (let P = (\<lambda>r. ol_user_id r = user_id \<and> ol_client_id r = client_id) in
      if \<not> has_user d user_id \<or> \<not> has_client d client_id then Inl ''upserting oauth client label''
      else if list_ex P (oauth_client_labels d) then
        Inr (d\<lparr>oauth_client_labels :=
          tbl_update P (\<lambda>r. r\<lparr>ol_name := name, ol_note := note, ol_updated_at := now\<rparr>)
            (oauth_client_labels d)\<rparr>)
      else
        Inr (d\<lparr>oauth_client_labels := oauth_client_labels d @
          [\<lparr>ol_user_id = user_id, ol_client_id = client_id, ol_name = name, ol_note = note,
            ol_updated_at = now\<rparr>]\<rparr>))"

definition live_refresh :: "int \<Rightarrow> db \<Rightarrow> string \<Rightarrow> string \<Rightarrow> refresh_row list" where
  "live_refresh now d user_id client_id =
     filter (\<lambda>r. rt_user_id r = user_id \<and> rt_client_id r = client_id \<and> rt_expires_at r > now)
       (oauth_refresh_tokens d)"

definition connection_of :: "int \<Rightarrow> db \<Rightarrow> string \<Rightarrow> string \<Rightarrow> connection" where
  "connection_of now d user_id cid =
     (let client = get_client d cid;
          label = get_client_label d user_id cid;
          live = live_refresh now d user_id cid;
          newest = (case sort_key (\<lambda>r. - rt_created_at r) live of
                      [] \<Rightarrow> (None, None) | r # _ \<Rightarrow> (rt_last_ip r, rt_last_user_agent r)) in
      \<lparr>cn_client_id = cid,
       cn_client_name = Option.bind client (\<lambda>c. md_client_name (oc_metadata c)),
       cn_redirect_uris = (case client of None \<Rightarrow> [] | Some c \<Rightarrow> oc_redirect_uris c),
       cn_custom_name = fst label, cn_note = snd label,
       cn_first_seen = Min (set (map rt_created_at live)),
       cn_last_seen = Max (set (map rt_created_at live)),
       cn_last_ip = fst newest, cn_last_user_agent = snd newest\<rparr>)"

text \<open>\<open>GROUP BY client_id ORDER BY MAX(created_at) DESC\<close>; ties keep the order of the groups.\<close>

definition list_user_connections :: "int \<Rightarrow> db \<Rightarrow> string \<Rightarrow> connection list" where
  "list_user_connections now d user_id =
     sort_key (\<lambda>c. - cn_last_seen c)
       (map (connection_of now d user_id)
          (sort (remdups (map rt_client_id
             (filter (\<lambda>r. rt_user_id r = user_id \<and> rt_expires_at r > now) (oauth_refresh_tokens d))))))"

definition user_has_connection :: "int \<Rightarrow> db \<Rightarrow> string \<Rightarrow> string \<Rightarrow> bool" where
  "user_has_connection now d user_id client_id = (live_refresh now d user_id client_id \<noteq> [])"

definition revoke_user_client :: "db \<Rightarrow> string \<Rightarrow> string \<Rightarrow> db \<times> nat" where
  "revoke_user_client d user_id client_id =
     (let P = (\<lambda>r. rt_user_id r = user_id \<and> rt_client_id r = client_id) in
      (d\<lparr>oauth_refresh_tokens := tbl_delete P (oauth_refresh_tokens d)\<rparr>,
       tbl_count P (oauth_refresh_tokens d)))"

definition revoke_all_user_tokens :: "db \<Rightarrow> string \<Rightarrow> db" where
  "revoke_all_user_tokens d user_id =
     d\<lparr>oauth_refresh_tokens := tbl_delete (\<lambda>r. rt_user_id r = user_id) (oauth_refresh_tokens d)\<rparr>"

section \<open>Lemmas\<close>

lemma is_busy_LOCKED [simp]: "is_busy LOCKED"
  by code_simp

lemma retry_busy_attempt:
  assumes "\<And>e. r = Inl e \<Longrightarrow> \<not> is_busy e"
  shows "retry_busy (attempt busy r) = (if \<exists>k<4. \<not> busy k then r else Inl LOCKED)"
proof -
  have "(\<exists>k<4. \<not> busy k) \<longleftrightarrow> \<not> busy 0 \<or> \<not> busy 1 \<or> \<not> busy 2 \<or> \<not> busy (3::nat)"
    by (auto simp: less_Suc_eq eval_nat_numeral)
  with assms show ?thesis
    by (cases r) (auto simp: retry_busy_def BACKOFF_MS_def attempt_def eval_nat_numeral)
qed

lemma retry_busy_Inr: "retry_busy (attempt busy r) = Inr x \<Longrightarrow> r = Inr x"
  by (cases r) (auto simp: retry_busy_def BACKOFF_MS_def attempt_def split: if_splits)

lemma consume_refresh_Inr:
  "consume_refresh busy now d h = Inr x \<Longrightarrow> x = consume_refresh_once now d h"
  unfolding consume_refresh_def by (drule retry_busy_Inr) simp

text \<open>A code in the store; presenting it takes it out, whatever the time.\<close>

definition code_live :: "code_store \<Rightarrow> string \<Rightarrow> bool" where
  "code_live s c \<longleftrightarrow> hm_get s c \<noteq> None"

definition present :: "code_store \<Rightarrow> int \<Rightarrow> string \<Rightarrow> code_store \<times> bool" where
  "present s now c = (fst (take_code now s c), snd (take_code now s c) \<noteq> None)"

interpretation auth_code: one_time_store code_live present "\<lambda>_. True"
  by unfold_locales
    (auto simp: present_def take_code_def code_live_def split: option.splits if_splits)

text \<open>The store with its ten-minute entries is bounded.\<close>

definition insert_pending :: "int \<Rightarrow> string \<Rightarrow> pending_code \<Rightarrow> code_store \<Rightarrow> code_store option" where
  "insert_pending now c p m =
     (case insert_code now m c (pc_auth p) (pc_expires_at p - now) of Inl _ \<Rightarrow> None | Inr m' \<Rightarrow> Some m')"

lemma length_hm_insert: "length (hm_insert k v m) \<le> Suc (length m)"
  by (simp add: hm_insert_def hm_remove_def)

lemma insert_pending_Some:
  "insert_pending now c p m = Some m' \<Longrightarrow>
     m' = hm_insert c p (hm_retain (\<lambda>_ p. pc_expires_at p > now) m) \<and>
     length (hm_retain (\<lambda>_ p. pc_expires_at p > now) m) < AUTH_CODE_CAP"
  by (cases p) (auto simp: insert_pending_def insert_code_def Let_def split: if_splits)

interpretation code_cap: capped_store insert_pending AUTH_CODE_CAP "\<lambda>now p. pc_expires_at p > now"
proof unfold_locales
  fix m m' now c p
  assume "insert_pending now c p m = Some m'"
  note i = insert_pending_Some[OF this]
  show "length m' \<le> AUTH_CODE_CAP"
    using i length_hm_insert[of c p "hm_retain (\<lambda>_ p. pc_expires_at p > now) m"] by auto
  show "map_of m' c = Some p" using i by (simp add: hm_insert_def)
  fix j x
  assume "j \<noteq> c" "(j, x) \<in> set m'"
  with i show "(j, x) \<in> set m \<and> pc_expires_at x > now"
    by (auto simp: hm_insert_def hm_remove_def hm_retain_def)
next
  fix m :: code_store and now c p
  show "insert_pending now c p m = None \<longleftrightarrow>
        AUTH_CODE_CAP \<le> length (filter (\<lambda>(_, x). pc_expires_at x > now) m)"
    by (auto simp: insert_pending_def insert_code_def Let_def hm_retain_def split: if_splits)
qed

text \<open>Refresh tokens.\<close>

definition refresh_live :: "db \<Rightarrow> string \<Rightarrow> bool" where
  "refresh_live d h \<longleftrightarrow> (\<exists>r\<in>set (oauth_refresh_tokens d). rt_token_hash r = h \<and> \<not> rt_consumed r)"

definition present_refresh :: "db \<Rightarrow> int \<Rightarrow> string \<Rightarrow> db \<times> bool" where
  "present_refresh d now h =
     (case consume_refresh_once now d h of (d', Valid _) \<Rightarrow> (d', True) | (d', _) \<Rightarrow> (d', False))"

lemma consume_valid:
  assumes "consume_refresh_once now d h = (d', Valid t)"
  obtains r where "r \<in> set (oauth_refresh_tokens d)" "rt_token_hash r = h" "\<not> rt_consumed r"
    "now \<le> rt_expires_at r"
    "t = \<lparr>rf_client_id = rt_client_id r, rf_user_id = rt_user_id r, rf_scope = rt_scope r,
          rf_resource = rt_resource r, rf_family_id = rt_family_id r\<rparr>"
    "d' = d\<lparr>oauth_refresh_tokens := tbl_update (\<lambda>r. rt_token_hash r = h)
              (\<lambda>r. r\<lparr>rt_consumed := True\<rparr>) (oauth_refresh_tokens d)\<rparr>"
  using assms
  by (auto simp: consume_refresh_once_def not_less dest!: find_SomeD split: option.splits if_splits)

lemma consume_live:
  "refresh_live (fst (consume_refresh_once now d h)) k \<Longrightarrow> refresh_live d k"
  by (auto simp: consume_refresh_once_def refresh_live_def ex_tbl_update tbl_simps
      split: option.splits if_splits)

lemma consume_live_other:
  "k \<noteq> h \<Longrightarrow> refresh_live (fst (consume_refresh_once now d h)) k \<longleftrightarrow> refresh_live d k"
  by (auto simp: consume_refresh_once_def refresh_live_def ex_tbl_update tbl_simps
      split: option.splits if_splits)

lemma present_refresh_alt:
  "present_refresh d now h =
   (fst (consume_refresh_once now d h), \<exists>t. snd (consume_refresh_once now d h) = Valid t)"
  by (cases "consume_refresh_once now d h"; cases "snd (consume_refresh_once now d h)")
    (auto simp: present_refresh_def)

lemma consume_spends:
  assumes "snd (consume_refresh_once now d h) = Valid t"
  shows "refresh_live d h \<and> \<not> refresh_live (fst (consume_refresh_once now d h)) h"
proof -
  have c: "consume_refresh_once now d h = (fst (consume_refresh_once now d h), Valid t)"
    using assms by (metis prod.collapse)
  obtain r where r: "r \<in> set (oauth_refresh_tokens d)" "rt_token_hash r = h" "\<not> rt_consumed r"
    and d': "fst (consume_refresh_once now d h) = d\<lparr>oauth_refresh_tokens := tbl_update
      (\<lambda>r. rt_token_hash r = h) (\<lambda>r. r\<lparr>rt_consumed := True\<rparr>) (oauth_refresh_tokens d)\<rparr>"
    by (rule consume_valid[OF c])
  have "refresh_live d h" using r unfolding refresh_live_def by blast
  then show ?thesis unfolding d' by (simp add: refresh_live_def ex_tbl_update)
qed

interpretation refresh: one_time_store refresh_live present_refresh "\<lambda>_. True"
proof unfold_locales
  fix d :: db and now :: int and h j :: string
  show "snd (present_refresh d now h) \<Longrightarrow> refresh_live d h"
    "snd (present_refresh d now h) \<Longrightarrow> \<not> refresh_live (fst (present_refresh d now h)) h"
    unfolding present_refresh_alt by (auto dest: consume_spends)
  show "refresh_live (fst (present_refresh d now h)) j \<Longrightarrow> refresh_live d j"
    "j \<noteq> h \<Longrightarrow> refresh_live (fst (present_refresh d now h)) j \<longleftrightarrow> refresh_live d j"
    unfolding present_refresh_alt fst_conv by (blast intro: consume_live, rule consume_live_other)
qed simp

text \<open>The trace of a sequence of presentations of codes, and of refresh tokens: the store at the
  end and what was honoured, in order.\<close>

primrec take_run :: "code_store \<Rightarrow> (int \<times> string) list \<Rightarrow> code_store \<times> string list" where
  "take_run s [] = (s, [])"
| "take_run s (a # as) =
     (let (s', r) = take_code (fst a) s (snd a); (s'', won) = take_run s' as
      in (s'', if r \<noteq> None then snd a # won else won))"

lemma take_run_alt: "take_run s as = auth_code.consume_all s as"
  by (induction as arbitrary: s) (auto simp: present_def Let_def split: prod.splits)

primrec insert_run :: "code_store \<Rightarrow> (int \<times> string \<times> auth_code \<times> int) list \<Rightarrow> code_store" where
  "insert_run s [] = s"
| "insert_run s (a # as) =
     (case a of (now, c, auth, ttl) \<Rightarrow>
        (case insert_code now s c auth ttl of Inl _ \<Rightarrow> insert_run s as | Inr s' \<Rightarrow> insert_run s' as))"

lemma insert_run_alt:
  "insert_run s as =
   code_cap.insert_batch (map (\<lambda>(now, c, auth, ttl). (now, c, \<lparr>pc_auth = auth, pc_expires_at = now + ttl\<rparr>)) as) s"
  by (induction as arbitrary: s) (auto simp: insert_pending_def split: sum.splits)

primrec refresh_run :: "db \<Rightarrow> (int \<times> string) list \<Rightarrow> db \<times> string list" where
  "refresh_run d [] = (d, [])"
| "refresh_run d (a # as) =
     (let (d', r) = consume_refresh_once (fst a) d (snd a); (d'', won) = refresh_run d' as
      in (d'', case r of Valid _ \<Rightarrow> snd a # won | _ \<Rightarrow> won))"

lemma refresh_run_alt: "refresh_run d as = refresh.consume_all d as"
  by (induction as arbitrary: d)
    (auto simp: present_refresh_def Let_def split: prod.splits refresh_outcome.splits)

section \<open>Properties\<close>

text \<open>Authorization codes are single use and their store is bounded. Whatever sequence of
  presentations, each code is exchanged at most once, also when its first presentation is
  wasted; and whatever is inserted at whatever times, the store never holds more than 512
  codes.\<close>

theorem auth_code_store_safe:
  "count_list (snd (take_run s presentations)) c \<le> 1 \<and>
   length (insert_run [] insertions) \<le> AUTH_CODE_CAP"
  unfolding take_run_alt insert_run_alt
  by (intro conjI auth_code.honoured_at_most_once code_cap.batch_bounded) simp_all

end
