(* ===== verification/Hub_OAuth_Keys.thy ===== *)
theory Hub_OAuth_Keys
  imports Hub_Instances
begin

text \<open>
  \<^verbatim>\<open>src/oauth/keys.rs\<close>: the signing key of the access tokens, kept sealed in the database, and
  the issue and verification of tokens. The JWT library, the PEM parser, the key generator and
  base64 are arguments; the laws the code relies on are \<open>jwt_law\<close> and \<open>b64_law\<close>.
\<close>

section \<open>Access tokens\<close>

record access_claims =
  jc_iss :: string
  jc_sub :: string
  jc_aud :: string
  jc_exp :: int
  jc_iat :: int
  jc_jti :: string
  jc_scope :: string
  jc_client_id :: string
  jc_admin :: bool

record validation =
  vd_issuer :: string
  vd_audience :: string
  vd_required :: "string list"

text \<open>The JWT library under one key pair: signing with a key identifier in the header, reading the
  header, and decoding at a time under a validation.\<close>

record jwt =
  jw_encode :: "string \<Rightarrow> access_claims \<Rightarrow> string option"
  jw_decode_header :: "string \<Rightarrow> string option option"
  jw_decode :: "int \<Rightarrow> validation \<Rightarrow> string \<Rightarrow> access_claims option"

record signer =
  sg_kid :: string
  sg_issuer :: string
  sg_jwt :: jwt

definition issue_access_token ::
  "signer \<Rightarrow> int \<Rightarrow> string \<Rightarrow> string \<Rightarrow> string \<Rightarrow> string \<Rightarrow> string \<Rightarrow> bool \<Rightarrow> int \<Rightarrow> (string \<times> int) res" where
  "issue_access_token s now jti subject client_id audience scope admin ttl_secs =
     (let claims = \<lparr>jc_iss = sg_issuer s, jc_sub = subject, jc_aud = audience, jc_exp = now + ttl_secs,
                    jc_iat = now, jc_jti = jti, jc_scope = scope, jc_client_id = client_id,
                    jc_admin = admin\<rparr> in
      case jw_encode (sg_jwt s) (sg_kid s) claims of
        None \<Rightarrow> Inl ''signing access token''
      | Some token \<Rightarrow> Inr (token, ttl_secs))"

definition verify_access_token :: "signer \<Rightarrow> int \<Rightarrow> string \<Rightarrow> string \<Rightarrow> access_claims res" where
  "verify_access_token s now token expected_audience =
     (case jw_decode_header (sg_jwt s) token of
        None \<Rightarrow> Inl ''invalid token''
      | Some kid \<Rightarrow>
          if kid = Some (sg_kid s) then
            (case jw_decode (sg_jwt s) now
                    \<lparr>vd_issuer = sg_issuer s, vd_audience = expected_audience,
                     vd_required = [''exp'', ''iss'', ''aud'', ''sub'']\<rparr> token of
               None \<Rightarrow> Inl ''invalid token''
             | Some claims \<Rightarrow> Inr claims)
          else Inl ''invalid token: unknown signing key'')"

text \<open>The library's documented checks: what was signed decodes when issuer and audience match and
  the expiry, with the default leeway of sixty seconds, has not passed; and nothing else does.\<close>

definition JWT_LEEWAY :: int where
  "JWT_LEEWAY = 60"

definition jwt_law :: "jwt \<Rightarrow> bool" where
  "jwt_law j \<longleftrightarrow>
     (\<forall>kid c t. jw_encode j kid c = Some t \<longrightarrow> jw_decode_header j t = Some (Some kid)) \<and>
     (\<forall>kid c t now v. jw_encode j kid c = Some t \<longrightarrow>
        jw_decode j now v t =
          (if jc_iss c = vd_issuer v \<and> jc_aud c = vd_audience v \<and> now - JWT_LEEWAY \<le> jc_exp c
           then Some c else None)) \<and>
     (\<forall>now v t c. jw_decode j now v t = Some c \<longrightarrow> (\<exists>kid. jw_encode j kid c = Some t))"

section \<open>The key at rest\<close>

text \<open>What the code uses of base64, PEM parsing and key generation.\<close>

record key_lib =
  kl_encode :: "string \<Rightarrow> string"
  kl_decode :: "string \<Rightarrow> string option"
  kl_from_pem :: "string \<Rightarrow> jwt option"

definition b64_law :: "key_lib \<Rightarrow> bool" where
  "b64_law kl \<longleftrightarrow>
     (\<forall>b. kl_decode kl (kl_encode kl b) = Some b \<and>
          (\<forall>c\<in>set (kl_encode kl b). \<not> is_whitespace c \<and> c \<noteq> CHR ''-''))"

definition seal_pem :: "key_lib \<Rightarrow> secret_box \<Rightarrow> string \<Rightarrow> string \<Rightarrow> string res" where
  "seal_pem kl sb nonce pem =
     rbind (seal sb nonce (as_bytes pem)) (\<lambda>s. Inr (kl_encode kl (sl_nonce s @ sl_ciphertext s)))"

definition unseal_pem :: "key_lib \<Rightarrow> secret_box \<Rightarrow> string \<Rightarrow> string res" where
  "unseal_pem kl sb stored =
     (if starts_with stored ''-----BEGIN'' then Inr stored
      else
        (case kl_decode kl (trim stored) of
           None \<Rightarrow> Inl ''decoding stored signing key''
         | Some blob \<Rightarrow>
             if length blob \<le> NONCE_LEN then Inl ''stored signing key is truncated''
             else
               rbind (open_sealed sb \<lparr>sl_nonce = take NONCE_LEN blob, sl_ciphertext = drop NONCE_LEN blob\<rparr>)
                 (\<lambda>plain. case from_utf8 plain of
                            None \<Rightarrow> Inl ''signing key was not valid UTF-8''
                          | Some pem \<Rightarrow> Inr pem)))"

definition from_pem :: "key_lib \<Rightarrow> string \<Rightarrow> string \<Rightarrow> string \<Rightarrow> signer res" where
  "from_pem kl kid issuer pem =
     (case kl_from_pem kl pem of
        None \<Rightarrow> Inl ''parsing stored signing key''
      | Some j \<Rightarrow> Inr \<lparr>sg_kid = kid, sg_issuer = issuer, sg_jwt = j\<rparr>)"

text \<open>\<open>ORDER BY created_at DESC LIMIT 1\<close> over the active keys.\<close>

definition load_active :: "db \<Rightarrow> (string \<times> string) option" where
  "load_active d =
     (case sort_key (\<lambda>r. - sk_created_at r) (filter sk_active (oauth_signing_keys d)) of
        [] \<Rightarrow> None
      | r # _ \<Rightarrow> Some (sk_kid r, sk_private r))"

text \<open>Generate and persist: \<open>gen\<close> is the generated identifier and PEM, \<open>nonce\<close> the sealing nonce.\<close>

definition create_key ::
  "key_lib \<Rightarrow> secret_box \<Rightarrow> int \<Rightarrow> string \<Rightarrow> (string \<times> string) res \<Rightarrow> db \<Rightarrow> string \<Rightarrow> db \<times> signer res" where
  "create_key kl sb now nonce gen d issuer =
     (case gen of
        Inl e \<Rightarrow> (d, Inl e)
      | Inr (kid, pem) \<Rightarrow>
          (case seal_pem kl sb nonce pem of
             Inl e \<Rightarrow> (d, Inl e)
           | Inr stored \<Rightarrow>
               if kid \<in> set (map sk_kid (oauth_signing_keys d)) then (d, Inl ''persisting signing key'')
               else
                 (d\<lparr>oauth_signing_keys := oauth_signing_keys d @
                      [\<lparr>sk_kid = kid, sk_private = stored, sk_created_at = now, sk_active = True\<rparr>]\<rparr>,
                  from_pem kl kid issuer pem)))"

definition load_or_create ::
  "key_lib \<Rightarrow> secret_box \<Rightarrow> int \<Rightarrow> string \<Rightarrow> (string \<times> string) res \<Rightarrow> db \<Rightarrow> string \<Rightarrow> db \<times> signer res" where
  "load_or_create kl sb now nonce gen d issuer =
     (case load_active d of
        Some (kid, stored) \<Rightarrow>
          (case rbind (unseal_pem kl sb stored) (from_pem kl kid issuer) of
             Inr s \<Rightarrow> (d, Inr s)
           | Inl e \<Rightarrow>
               create_key kl sb now nonce gen
                 (d\<lparr>oauth_signing_keys :=
                      tbl_update (\<lambda>r. sk_kid r = kid) (\<lambda>r. r\<lparr>sk_active := False\<rparr>) (oauth_signing_keys d)\<rparr>)
                 issuer)
      | None \<Rightarrow> create_key kl sb now nonce gen d issuer)"

section \<open>Lemmas\<close>

lemma trim_no_ws:
  assumes "\<forall>c\<in>set s. \<not> is_whitespace c" shows "trim s = s"
proof -
  have "dropWhile is_whitespace t = t" if "set t \<subseteq> set s" for t
    using that assms by (cases t) auto
  then show ?thesis by (simp add: trim_def trim_start_def trim_end_def)
qed

lemma unseal_seal_pem:
  assumes "cipher_law sb" "b64_law kl" "length nonce = NONCE_LEN"
    and "seal_pem kl sb nonce pem = Inr stored" "\<forall>n p. sb_encrypt sb n p \<noteq> Some []"
  shows "unseal_pem kl sb stored = Inr pem"
proof -
  from assms(4) obtain s where s: "seal sb nonce (as_bytes pem) = Inr s"
    and st: "stored = kl_encode kl (sl_nonce s @ sl_ciphertext s)"
    by (auto simp: seal_pem_def rbind_Inr)
  have n: "length (sl_nonce s) = NONCE_LEN" "sl_ciphertext s \<noteq> []"
    using s assms(3,5) by (auto simp: seal_def split: option.splits)
  have clean: "\<forall>c\<in>set stored. \<not> is_whitespace c \<and> c \<noteq> CHR ''-''"
    using assms(2) unfolding st b64_law_def by blast
  have "\<not> starts_with stored ''-----BEGIN''"
  proof
    assume "starts_with stored ''-----BEGIN''"
    then obtain r where "stored = CHR ''-'' # r" by (auto simp: starts_with_iff)
    with clean show False by simp
  qed
  moreover have "kl_decode kl (trim stored) = Some (sl_nonce s @ sl_ciphertext s)"
    using assms(2) trim_no_ws[of stored] clean unfolding st b64_law_def by simp
  moreover have "open_sealed sb \<lparr>sl_nonce = sl_nonce s, sl_ciphertext = sl_ciphertext s\<rparr> = Inr (as_bytes pem)"
    using open_seal[OF assms(1,3) s] by (cases s) simp
  ultimately show ?thesis using n by (simp add: unseal_pem_def)
qed

lemma verify_Inr:
  assumes "jwt_law (sg_jwt s)" "verify_access_token s now t aud = Inr c"
  shows "jc_aud c = aud \<and> jc_iss c = sg_issuer s \<and> now - JWT_LEEWAY \<le> jc_exp c \<and>
         jw_encode (sg_jwt s) (sg_kid s) c = Some t"
proof -
  let ?v = "\<lparr>vd_issuer = sg_issuer s, vd_audience = aud, vd_required = [''exp'', ''iss'', ''aud'', ''sub'']\<rparr>"
  from assms(2) have h: "jw_decode_header (sg_jwt s) t = Some (Some (sg_kid s))"
    and dec: "jw_decode (sg_jwt s) now ?v t = Some c"
    by (auto simp: verify_access_token_def split: option.splits if_splits)
  from assms(1) dec obtain kid where e: "jw_encode (sg_jwt s) kid c = Some t"
    unfolding jwt_law_def by blast
  with assms(1) have k: "jw_decode_header (sg_jwt s) t = Some (Some kid)" unfolding jwt_law_def by blast
  from assms(1) e have "jw_decode (sg_jwt s) now ?v t =
     (if jc_iss c = vd_issuer ?v \<and> jc_aud c = vd_audience ?v \<and> now - JWT_LEEWAY \<le> jc_exp c then Some c else None)"
    unfolding jwt_law_def by blast
  with dec e k h show ?thesis by (auto split: if_splits)
qed

lemma verify_issued:
  assumes "jwt_law (sg_jwt s)"
    and "issue_access_token s now jti sub cid aud scope admin ttl = Inr (t, ttl')" "later - JWT_LEEWAY \<le> now + ttl"
  shows "verify_access_token s later t aud =
         Inr \<lparr>jc_iss = sg_issuer s, jc_sub = sub, jc_aud = aud, jc_exp = now + ttl, jc_iat = now,
              jc_jti = jti, jc_scope = scope, jc_client_id = cid, jc_admin = admin\<rparr>"
proof -
  let ?c = "\<lparr>jc_iss = sg_issuer s, jc_sub = sub, jc_aud = aud, jc_exp = now + ttl, jc_iat = now,
              jc_jti = jti, jc_scope = scope, jc_client_id = cid, jc_admin = admin\<rparr>"
  from assms(2) have e: "jw_encode (sg_jwt s) (sg_kid s) ?c = Some t"
    by (auto simp: issue_access_token_def Let_def split: option.splits)
  with assms(1) have "jw_decode_header (sg_jwt s) t = Some (Some (sg_kid s))"
    and "\<And>v. jw_decode (sg_jwt s) later v t =
      (if jc_iss ?c = vd_issuer v \<and> jc_aud ?c = vd_audience v \<and> later - JWT_LEEWAY \<le> jc_exp ?c then Some ?c else None)"
    unfolding jwt_law_def by blast+
  with assms(3) show ?thesis by (simp add: verify_access_token_def)
qed

text \<open>A token issued for one audience verifies for no other.\<close>

lemma verify_issued_other:
  assumes "jwt_law (sg_jwt s)"
    and "issue_access_token s now jti sub cid aud scope admin ttl = Inr (t, ttl')" "aud \<noteq> aud'"
  shows "isl (verify_access_token s later t aud')"
proof (rule ccontr)
  assume "\<not> isl (verify_access_token s later t aud')"
  then obtain c where v: "verify_access_token s later t aud' = Inr c"
    by (cases "verify_access_token s later t aud'") auto
  from verify_Inr[OF assms(1) v] have c: "jc_aud c = aud'" by blast
  let ?v = "\<lparr>vd_issuer = sg_issuer s, vd_audience = aud', vd_required = [''exp'', ''iss'', ''aud'', ''sub'']\<rparr>"
  from v have dec: "jw_decode (sg_jwt s) later ?v t = Some c"
    by (auto simp: verify_access_token_def split: option.splits if_splits)
  from assms(2) obtain c0 where e: "jw_encode (sg_jwt s) (sg_kid s) c0 = Some t" "jc_aud c0 = aud"
    by (auto simp: issue_access_token_def Let_def split: option.splits)
  from assms(1) e(1) have "jw_decode (sg_jwt s) later ?v t =
     (if jc_iss c0 = vd_issuer ?v \<and> jc_aud c0 = vd_audience ?v \<and> later - JWT_LEEWAY \<le> jc_exp c0 then Some c0 else None)"
    unfolding jwt_law_def by blast
  with dec e(2) c assms(3) show False by (auto split: if_splits)
qed

section \<open>Properties\<close>

text \<open>The signing key survives a restart. The key generated on the first start and sealed
  into the database is what the next start loads: the second \<open>load_or_create\<close> returns the same
  signer and changes nothing.\<close>

theorem signing_key_survives_restart:
  assumes "cipher_law sb" "b64_law kl" "length nonce = NONCE_LEN" "\<forall>n p. sb_encrypt sb n p \<noteq> Some []"
    and "oauth_signing_keys d = []" "load_or_create kl sb now nonce gen d issuer = (d1, Inr s)"
  shows "load_or_create kl sb later nonce' gen' d1 issuer = (d1, Inr s)"
proof -
  from assms(5,6) obtain kid pem stored where g: "gen = Inr (kid, pem)"
    and st: "seal_pem kl sb nonce pem = Inr stored" and f: "from_pem kl kid issuer pem = Inr s"
    and d1: "oauth_signing_keys d1 = [\<lparr>sk_kid = kid, sk_private = stored, sk_created_at = now, sk_active = True\<rparr>]"
    by (auto simp: load_or_create_def load_active_def create_key_def split: sum.splits prod.splits if_splits)
  have "load_active d1 = Some (kid, stored)" by (simp add: load_active_def d1)
  with unseal_seal_pem[OF assms(1,2,3) st assms(4)] f show ?thesis
    by (simp add: load_or_create_def)
qed

definition tag_box :: secret_box where
  "tag_box = \<lparr>sb_encrypt = (\<lambda>n p. Some (CHR ''t'' # p)), sb_decrypt = (\<lambda>n c. Some (tl c))\<rparr>"

definition hex_encode :: "string \<Rightarrow> string" where
  "hex_encode b = concat (map (\<lambda>c. [char_of (97 + code c div 16), char_of (97 + code c mod 16)]) b)"

fun hex_decode :: "string \<Rightarrow> string option" where
  "hex_decode (a # b # s) = map_option ((#) (char_of ((code a - 97) * 16 + (code b - 97)))) (hex_decode s)"
| "hex_decode s = Some []"

definition demo_jwt :: jwt where
  "demo_jwt = \<lparr>jw_encode = (\<lambda>_ _. None), jw_decode_header = (\<lambda>_. None), jw_decode = (\<lambda>_ _ _. None)\<rparr>"

definition hex_lib :: key_lib where
  "hex_lib = \<lparr>kl_encode = hex_encode, kl_decode = hex_decode, kl_from_pem = (\<lambda>_. Some demo_jwt)\<rparr>"

lemma hex_codes: "n < 16 \<Longrightarrow> code (char_of (97 + n)) = 97 + n" for n :: nat
  by (simp add: of_char_of)

lemma hex_law: "b64_law hex_lib"
proof -
  have d: "code c div 16 < 16" "code c mod 16 < 16" for c :: char
    using code_lt_256[of c] by (auto simp: less_mult_imp_div_less)
  have rt: "hex_decode (hex_encode b) = Some b" for b
  proof (induction b)
    case (Cons a b)
    have "(code (char_of (97 + code a div 16)) - 97) * 16 + (code (char_of (97 + code a mod 16)) - 97) = code a"
      using d[of a] by (simp only: hex_codes) simp
    with Cons show ?case by (simp add: hex_encode_def del: of_char_of)
  qed (simp add: hex_encode_def)
  have range: "97 \<le> code c \<and> code c < 113" if "c \<in> set (hex_encode b)" for c b
  proof -
    from that obtain x where "c = char_of (97 + code x div 16) \<or> c = char_of (97 + code x mod 16)"
      by (auto simp: hex_encode_def)
    with hex_codes[OF d(1)[of x]] hex_codes[OF d(2)[of x]] d[of x] show ?thesis by auto
  qed
  have "\<not> is_whitespace c \<and> c \<noteq> CHR ''-''" if "c \<in> set (hex_encode b)" for c b
  proof -
    from that have "97 \<le> code c \<and> code c < 113" by (rule range)
    then show ?thesis by (auto simp: is_whitespace_def)
  qed
  with rt show ?thesis by (simp add: b64_law_def hex_lib_def)
qed

theorem signing_key_survives_restart_witness:
  "load_or_create hex_lib tag_box 99 [] (Inl ''unused'')
     (fst (load_or_create hex_lib tag_box 5 (replicate 24 CHR ''n'') (Inr (''k1'', ''pem'')) empty_db ''iss'')) ''iss'' =
   (fst (load_or_create hex_lib tag_box 5 (replicate 24 CHR ''n'') (Inr (''k1'', ''pem'')) empty_db ''iss''),
    Inr \<lparr>sg_kid = ''k1'', sg_issuer = ''iss'', sg_jwt = demo_jwt\<rparr>)"
proof (rule signing_key_survives_restart[OF _ hex_law])
  show "cipher_law tag_box" "\<forall>n p. sb_encrypt tag_box n p \<noteq> Some []"
    by (auto simp: cipher_law_def tag_box_def)
  show "length (replicate 24 CHR ''n'') = NONCE_LEN" by (simp add: NONCE_LEN_def)
  show "oauth_signing_keys empty_db = []" by (simp add: empty_db_def)
  show "load_or_create hex_lib tag_box 5 (replicate 24 CHR ''n'') (Inr (''k1'', ''pem'')) empty_db ''iss'' =
    (fst (load_or_create hex_lib tag_box 5 (replicate 24 CHR ''n'') (Inr (''k1'', ''pem'')) empty_db ''iss''),
     Inr \<lparr>sg_kid = ''k1'', sg_issuer = ''iss'', sg_jwt = demo_jwt\<rparr>)"
    by (simp add: load_or_create_def load_active_def empty_db_def create_key_def seal_pem_def seal_def
        tag_box_def from_pem_def hex_lib_def)
qed

end
