(* ===== verification/Hub_OAuth_Flow.thy ===== *)
theory Hub_OAuth_Flow
  imports Hub_OAuth_Store Hub_OAuth_Keys Hub_Session
begin

text \<open>
  \<^verbatim>\<open>src/oauth/authorize.rs\<close>, \<^verbatim>\<open>src/oauth/token.rs\<close>, \<^verbatim>\<open>src/oauth/register.rs\<close> and
  \<^verbatim>\<open>src/oauth/metadata.rs\<close>: dynamic client registration, the authorization endpoint with its
  consent decision, and the token endpoint with its two grants. A handler takes the database and
  the code store and returns them with its response, on error paths too. Random values, fresh
  identifiers, the clock and the lock reports of SQLite are fields of \<open>token_env\<close>.
\<close>

section \<open>Errors (oauth/mod.rs)\<close>

record oauth_error =
  oe_status :: nat
  oe_error :: string
  oe_description :: string

definition oauth_err :: "nat \<Rightarrow> string \<Rightarrow> string \<Rightarrow> oauth_error" where
  "oauth_err status err description = \<lparr>oe_status = status, oe_error = err, oe_description = description\<rparr>"

definition invalid_request :: "string \<Rightarrow> oauth_error" where
  "invalid_request description = oauth_err 400 ''invalid_request'' description"

definition invalid_grant :: "string \<Rightarrow> oauth_error" where
  "invalid_grant description = oauth_err 400 ''invalid_grant'' description"

text \<open>\<open>From<anyhow::Error>\<close> hides the internal message.\<close>

definition internal_error :: "string \<Rightarrow> oauth_error" where
  "internal_error e = oauth_err 500 ''server_error'' ''internal error''"

section \<open>Registration (register.rs)\<close>

record registration_request =
  rq_redirect_uris :: "string list"
  rq_auth_method :: "string option"
  rq_grant_types :: "string list option"
  rq_response_types :: "string list option"
  rq_client_name :: "string option"
  rq_scope :: "string option"

record registration_response =
  rp_client_id :: string
  rp_issued_at :: int
  rp_redirect_uris :: "string list"
  rp_metadata :: client_metadata
  rp_client_secret :: "string option"

definition MAX_CLIENTS :: nat where
  "MAX_CLIENTS = 10000"

definition register ::
  "(string \<Rightarrow> url option) \<Rightarrow> (string \<Rightarrow> string) \<Rightarrow> int \<Rightarrow> string \<Rightarrow> string \<Rightarrow> db \<Rightarrow> registration_request \<Rightarrow>
   db \<times> (oauth_error + registration_response)" where
  "register parse th now rnd_id rnd_secret d q =
     (if length (oauth_clients d) \<ge> MAX_CLIENTS then
        (d, Inl (oauth_err 503 ''temporarily_unavailable'' ''client registration is temporarily unavailable''))
      else if rq_redirect_uris q = [] then
        (d, Inl (oauth_err 400 ''invalid_redirect_uri'' ''at least one redirect_uri is required''))
      else
        (case List.find (\<lambda>u. parse u = None) (rq_redirect_uris q) of
           Some u \<Rightarrow> (d, Inl (oauth_err 400 ''invalid_redirect_uri'' (''invalid redirect_uri: '' @ u)))
         | None \<Rightarrow>
             (let auth_method = or_else ''none'' (rq_auth_method q);
                  grant_types = or_else [''authorization_code'', ''refresh_token''] (rq_grant_types q);
                  response_types = or_else [''code''] (rq_response_types q);
                  client_id = ''hub_'' @ rnd_id;
                  client_secret = (if auth_method = ''none'' then None else Some rnd_secret);
                  metadata = \<lparr>md_client_name = rq_client_name q, md_scope = rq_scope q,
                              md_auth_method = auth_method, md_grant_types = grant_types,
                              md_response_types = response_types\<rparr> in
              case create_client now d client_id (map_option th client_secret) (rq_redirect_uris q) metadata of
                Inl e \<Rightarrow> (d, Inl (internal_error e))
              | Inr d' \<Rightarrow>
                  (d', Inr \<lparr>rp_client_id = client_id, rp_issued_at = now, rp_redirect_uris = rq_redirect_uris q,
                            rp_metadata = metadata, rp_client_secret = client_secret\<rparr>))))"

section \<open>Authorization (authorize.rs)\<close>

definition AUTHREQ_COOKIE :: string where
  "AUTHREQ_COOKIE = ''hub_authreq''"

definition AUTH_CODE_TTL_SECS :: int where
  "AUTH_CODE_TTL_SECS = 600"

record authorize_query =
  aq_response_type :: string
  aq_client_id :: string
  aq_redirect_uri :: string
  aq_scope :: "string option"
  aq_state :: "string option"
  aq_code_challenge :: string
  aq_code_challenge_method :: "string option"
  aq_resource :: "string option"

record pending_auth =
  pa_client_id :: string
  pa_redirect_uri :: string
  pa_scope :: string
  pa_state :: "string option"
  pa_code_challenge :: string
  pa_resource :: "string option"
  pa_user_id :: string

text \<open>The responses of the two handlers: an error page, a redirect to a URI with query parameters
  appended, a redirect to a path of the hub, the consent page with the pending request in its
  signed cookie, or an OAuth error.\<close>

datatype auth_response =
    ErrorPage string
  | RedirectWith string "(string \<times> string) list"
  | RedirectLocal string
  | ConsentPage pending_auth string
  | OAuthFail oauth_error

definition resource_group_slug :: "config \<Rightarrow> string \<Rightarrow> unit + string option" where
  "resource_group_slug cfg resource0 =
     (let resource = trim_end_matches CHR ''/'' resource0 in
      if resource = mcp_url cfg then Inr None
      else
        (case strip_prefix resource (mcp_url cfg @ ''/'') of
           Some slug \<Rightarrow> if valid_slug slug then Inr (Some slug) else Inl ()
         | None \<Rightarrow> Inl ()))"

text \<open>\<open>format!("%{b:02X}")\<close>.\<close>

definition upper_hex :: "nat \<Rightarrow> char" where
  "upper_hex n = (if n < 10 then char_of (48 + n) else char_of (55 + n))"

definition urlencode :: "string \<Rightarrow> string" where
  "urlencode s =
     concat (map (\<lambda>b. if is_ascii_alphanumeric b \<or> b \<in> {CHR ''-'', CHR ''_'', CHR ''.'', CHR ''~''}
                      then [b]
                      else [CHR ''%'', upper_hex (code b div 16), upper_hex (code b mod 16)])
               (as_bytes s))"

definition consent_esc :: "string \<Rightarrow> string" where
  "consent_esc s = concat (map (\<lambda>c. if c = CHR ''&'' then ''&amp;'' else if c = CHR ''<'' then ''&lt;''
                            else if c = CHR ''>'' then ''&gt;'' else [c]) s)"

text \<open>\<open>parse\<close> is the URL parser; a redirect URI that does not parse gives an error page.\<close>

definition redirect_with :: "(string \<Rightarrow> url option) \<Rightarrow> string \<Rightarrow> (string \<times> string) list \<Rightarrow> auth_response" where
  "redirect_with parse uri params =
     (case parse uri of Some _ \<Rightarrow> RedirectWith uri params | None \<Rightarrow> ErrorPage ''invalid redirect_uri'')"

definition authorize ::
  "(string \<Rightarrow> url option) \<Rightarrow> config \<Rightarrow> db \<Rightarrow> user_row option \<Rightarrow> authorize_query \<Rightarrow> string option \<Rightarrow> auth_response" where
  "authorize parse cfg d user q raw =
     (case get_client d (aq_client_id q) of
        None \<Rightarrow> ErrorPage ''unknown client_id''
      | Some client \<Rightarrow>
          if aq_redirect_uri q \<notin> set (oc_redirect_uris client) then
            ErrorPage ''redirect_uri is not registered for this client''
          else
            (let st = or_else [] (aq_state q); back = redirect_with parse (aq_redirect_uri q) in
             if aq_response_type q \<noteq> ''code'' then
               back [(''error'', ''unsupported_response_type''), (''state'', st)]
             else if or_else ''S256'' (aq_code_challenge_method q) \<noteq> ''S256'' then
               back [(''error'', ''invalid_request''), (''error_description'', ''only S256 PKCE is supported''),
                     (''state'', st)]
             else if aq_code_challenge q = [] then
               back [(''error'', ''invalid_request''), (''error_description'', ''code_challenge is required''),
                     (''state'', st)]
             else
               (case (case aq_resource q of None \<Rightarrow> Inr None | Some res \<Rightarrow> resource_group_slug cfg res) of
                  Inl _ \<Rightarrow> back [(''error'', ''invalid_target''), (''state'', st)]
                | Inr group_slug \<Rightarrow>
                    (case user of
                       None \<Rightarrow>
                         RedirectLocal (''/login?next='' @ urlencode
                           (case raw of Some r \<Rightarrow> ''/authorize?'' @ r | None \<Rightarrow> ''/authorize''))
                     | Some u \<Rightarrow>
                         if (case group_slug of None \<Rightarrow> False | Some slug \<Rightarrow> find_by_slug d (u_id u) slug = None)
                         then back [(''error'', ''invalid_target''), (''state'', st)]
                         else
                           ConsentPage
                             \<lparr>pa_client_id = aq_client_id q, pa_redirect_uri = aq_redirect_uri q,
                              pa_scope = or_else ''mcp'' (aq_scope q), pa_state = aq_state q,
                              pa_code_challenge = aq_code_challenge q, pa_resource = aq_resource q,
                              pa_user_id = u_id u\<rparr>
                             (case md_client_name (oc_metadata client) of
                                None \<Rightarrow> aq_client_id q
                              | Some n \<Rightarrow> if n = [] then aq_client_id q else n)))))"

text \<open>The decision: \<open>csrf_ok\<close> is \<open>check_csrf\<close> on the submitted token, \<open>cookie\<close> the pending request of the
  signed cookie (\<open>None\<close> when absent, \<open>Some None\<close> when it does not deserialise).\<close>

definition decision ::
  "(string \<Rightarrow> url option) \<Rightarrow> int \<Rightarrow> string \<Rightarrow> code_store \<Rightarrow> user_row \<Rightarrow> bool \<Rightarrow> pending_auth option option \<Rightarrow> string \<Rightarrow>
   code_store \<times> auth_response" where
  "decision parse now new_code codes user csrf_ok cookie form_decision =
     (if \<not> csrf_ok then (codes, ErrorPage ''invalid security token; please restart authorization'')
      else
        (case cookie of
           None \<Rightarrow> (codes, ErrorPage ''no authorization in progress'')
         | Some None \<Rightarrow> (codes, ErrorPage ''invalid authorization request'')
         | Some (Some pending) \<Rightarrow>
             if pa_user_id pending \<noteq> u_id user then
               (codes, ErrorPage ''session mismatch; please restart authorization'')
             else
               (let st = or_else [] (pa_state pending) in
                if form_decision \<noteq> ''approve'' then
                  (codes, redirect_with parse (pa_redirect_uri pending) [(''error'', ''access_denied''), (''state'', st)])
                else
                  (case insert_code now codes new_code
                          \<lparr>ac_client_id = pa_client_id pending, ac_user_id = u_id user,
                           ac_redirect_uri = pa_redirect_uri pending,
                           ac_code_challenge = pa_code_challenge pending, ac_scope = pa_scope pending,
                           ac_resource = pa_resource pending\<rparr> AUTH_CODE_TTL_SECS of
                     Inl e \<Rightarrow> (codes, OAuthFail (internal_error e))
                   | Inr codes' \<Rightarrow>
                       (codes', redirect_with parse (pa_redirect_uri pending)
                          ((''code'', new_code) # (if st \<noteq> [] then [(''state'', st)] else [])))))))"

section \<open>Token endpoint (token.rs)\<close>

definition ACCESS_TTL_SECS :: int where
  "ACCESS_TTL_SECS = 60 * 15"

definition REFRESH_TTL_SECS :: int where
  "REFRESH_TTL_SECS = 60 * 60 * 24 * 30"

record token_form =
  tf_grant_type :: string
  tf_code :: "string option"
  tf_redirect_uri :: "string option"
  tf_client_id :: "string option"
  tf_client_secret :: "string option"
  tf_code_verifier :: "string option"
  tf_refresh_token :: "string option"

record token_response =
  tr_access_token :: string
  tr_expires_in :: int
  tr_refresh_token :: string
  tr_scope :: string

record token_env =
  te_now :: int
  te_cfg :: config
  te_signer :: signer
  te_b64url :: "string \<Rightarrow> string"
  te_sha256 :: "string \<Rightarrow> string"
  te_busy_consume :: "nat \<Rightarrow> bool"
  te_busy_revoke :: "nat \<Rightarrow> bool"
  te_busy_insert :: "nat \<Rightarrow> bool"
  te_refresh :: string
  te_family :: string
  te_jti :: string

definition te_th :: "token_env \<Rightarrow> string \<Rightarrow> string" where
  "te_th te = token_hash (te_b64url te) (te_sha256 te)"

definition authenticate_client :: "token_env \<Rightarrow> db \<Rightarrow> string \<Rightarrow> string option \<Rightarrow> oauth_error + client_row" where
  "authenticate_client te d client_id client_secret =
     (case get_client d client_id of
        None \<Rightarrow> Inl (oauth_err 401 ''invalid_client'' ''unknown client'')
      | Some client \<Rightarrow>
          (case oc_client_secret_hash client of
             None \<Rightarrow> Inr client
           | Some expected \<Rightarrow>
               (case client_secret of
                  Some s \<Rightarrow>
                    if ct_eq (as_bytes (te_th te s)) (as_bytes expected) then Inr client
                    else Inl (oauth_err 401 ''invalid_client'' ''invalid client credentials'')
                | None \<Rightarrow> Inl (oauth_err 401 ''invalid_client'' ''invalid client credentials''))))"

definition issue_tokens ::
  "token_env \<Rightarrow> db \<Rightarrow> user_row \<Rightarrow> string \<Rightarrow> string \<Rightarrow> string \<Rightarrow> string option \<Rightarrow> string \<Rightarrow> request_info \<Rightarrow>
   db \<times> (oauth_error + token_response)" where
  "issue_tokens te d user client_id audience scope resource family_id info =
     (case issue_access_token (te_signer te) (te_now te) (te_jti te) (u_id user) client_id audience scope
             (u_is_admin user) ACCESS_TTL_SECS of
        Inl e \<Rightarrow> (d, Inl (internal_error e))
      | Inr (access, ttl) \<Rightarrow>
          (case insert_refresh (te_busy_insert te) (te_now te) d (te_th te (te_refresh te)) client_id
                  (u_id user) scope resource family_id REFRESH_TTL_SECS info of
             Inl e \<Rightarrow> (d, Inl (internal_error e))
           | Inr d' \<Rightarrow>
               (d', Inr \<lparr>tr_access_token = access, tr_expires_in = ttl, tr_refresh_token = te_refresh te,
                         tr_scope = scope\<rparr>)))"

definition authorization_code ::
  "token_env \<Rightarrow> db \<Rightarrow> code_store \<Rightarrow> token_form \<Rightarrow> request_info \<Rightarrow> db \<times> code_store \<times> (oauth_error + token_response)" where
  "authorization_code te d codes form info =
     (case tf_code form of
        None \<Rightarrow> (d, codes, Inl (invalid_request ''code is required''))
      | Some c \<Rightarrow>
     (case tf_client_id form of
        None \<Rightarrow> (d, codes, Inl (invalid_request ''client_id is required''))
      | Some client_id \<Rightarrow>
     (case tf_code_verifier form of
        None \<Rightarrow> (d, codes, Inl (invalid_request ''code_verifier is required (PKCE)''))
      | Some verifier \<Rightarrow>
     (case authenticate_client te d client_id (tf_client_secret form) of
        Inl e \<Rightarrow> (d, codes, Inl e)
      | Inr _ \<Rightarrow>
     (case take_code (te_now te) codes c of
        (codes', None) \<Rightarrow> (d, codes', Inl (invalid_grant ''authorization code is invalid or expired''))
      | (codes', Some row) \<Rightarrow>
          if ac_client_id row \<noteq> client_id then
            (d, codes', Inl (invalid_grant ''code was issued to another client''))
          else
     (case tf_redirect_uri form of
        None \<Rightarrow> (d, codes', Inl (invalid_request ''redirect_uri is required''))
      | Some redirect_uri \<Rightarrow>
          if redirect_uri \<noteq> ac_redirect_uri row then
            (d, codes', Inl (invalid_grant ''redirect_uri mismatch''))
          else if \<not> verify_pkce_s256 (te_b64url te) (te_sha256 te) verifier (ac_code_challenge row) then
            (d, codes', Inl (invalid_grant ''PKCE verification failed''))
          else
     (case users_find_by_id d (ac_user_id row) of
        None \<Rightarrow> (d, codes', Inl (invalid_grant ''user no longer exists''))
      | Some user \<Rightarrow>
          (case issue_tokens te d user client_id (or_else (mcp_url (te_cfg te)) (ac_resource row))
                  (ac_scope row) (ac_resource row) (te_family te) info of
             (d', r) \<Rightarrow> (d', codes', r)))))))))"

definition refresh_token_grant ::
  "token_env \<Rightarrow> db \<Rightarrow> token_form \<Rightarrow> request_info \<Rightarrow> db \<times> (oauth_error + token_response)" where
  "refresh_token_grant te d form info =
     (case tf_refresh_token form of
        None \<Rightarrow> (d, Inl (invalid_request ''refresh_token is required''))
      | Some token \<Rightarrow>
     (case tf_client_id form of
        None \<Rightarrow> (d, Inl (invalid_request ''client_id is required''))
      | Some client_id \<Rightarrow>
     (case authenticate_client te d client_id (tf_client_secret form) of
        Inl e \<Rightarrow> (d, Inl e)
      | Inr _ \<Rightarrow>
     (case consume_refresh (te_busy_consume te) (te_now te) d (te_th te token) of
        Inl e \<Rightarrow> (d, Inl (internal_error e))
      | Inr (d1, Replayed family_id) \<Rightarrow>
          (case revoke_family (te_busy_revoke te) d1 family_id of
             Inl e \<Rightarrow> (d1, Inl (internal_error e))
           | Inr d2 \<Rightarrow> (d2, Inl (invalid_grant ''refresh token reuse detected; the session has been revoked'')))
      | Inr (d1, Missing) \<Rightarrow> (d1, Inl (invalid_grant ''refresh token is invalid or expired''))
      | Inr (d1, Valid row) \<Rightarrow>
          if rf_client_id row \<noteq> client_id then
            (d1, Inl (invalid_grant ''refresh token was issued to another client''))
          else
            (case users_find_by_id d1 (rf_user_id row) of
               None \<Rightarrow> (d1, Inl (invalid_grant ''user no longer exists''))
             | Some user \<Rightarrow>
                 issue_tokens te d1 user client_id (or_else (mcp_url (te_cfg te)) (rf_resource row))
                   (rf_scope row) (rf_resource row) (rf_family_id row) info)))))"

definition token ::
  "token_env \<Rightarrow> db \<Rightarrow> code_store \<Rightarrow> header_map \<Rightarrow> token_form \<Rightarrow> db \<times> code_store \<times> (oauth_error + token_response)" where
  "token te d codes headers form =
     (let info = from_headers headers in
      if tf_grant_type form = ''authorization_code'' then authorization_code te d codes form info
      else if tf_grant_type form = ''refresh_token'' then
        (case refresh_token_grant te d form info of (d', r) \<Rightarrow> (d', codes, r))
      else (d, codes, Inl (oauth_err 400 ''unsupported_grant_type''
                             (''unsupported grant_type: '' @ tf_grant_type form))))"

section \<open>Discovery metadata (metadata.rs)\<close>

record resource_metadata =
  rm_resource :: string
  rm_authorization_servers :: "string list"
  rm_scopes_supported :: "string list"
  rm_bearer_methods_supported :: "string list"

definition protected_resource :: "config \<Rightarrow> resource_metadata" where
  "protected_resource cfg = \<lparr>rm_resource = mcp_url cfg, rm_authorization_servers = [base_url cfg],
     rm_scopes_supported = [''mcp''], rm_bearer_methods_supported = [''header'']\<rparr>"

definition protected_resource_group :: "config \<Rightarrow> string \<Rightarrow> resource_metadata option" where
  "protected_resource_group cfg slug =
     (if \<not> valid_slug slug then None
      else Some \<lparr>rm_resource = group_mcp_url cfg slug, rm_authorization_servers = [base_url cfg],
             rm_scopes_supported = [''mcp''], rm_bearer_methods_supported = [''header'']\<rparr>)"

end
