(* ===== verification/Hub_OAuth_Safety.thy ===== *)
theory Hub_OAuth_Safety
  imports Hub_OAuth_Flow
begin

text \<open>
  What the OAuth endpoints guarantee: redirects go to registered URIs, a code grant needs the
  client, the redirect URI, the PKCE verifier and an unexpired code and spends the code,
  refresh tokens rotate within a family whose reuse revokes it; and where the code falls short:
  a refresh token presented by a foreign client is burned, and a resource named with a trailing
  slash yields a token no endpoint accepts.
\<close>

section \<open>Lemmas\<close>

lemma redirect_with_uri: "redirect_with parse u ps = RedirectWith uri params \<Longrightarrow> uri = u"
  by (auto simp: redirect_with_def split: option.splits)

lemma redirect_with_cases [simp]:
  "redirect_with parse u ps \<noteq> ConsentPage p n" "redirect_with parse u ps \<noteq> RedirectLocal l"
  by (auto simp: redirect_with_def split: option.splits)

lemma insert_refresh_Inr:
  assumes "insert_refresh busy now d h c u sc res fam ttl info = Inr d'"
  shows "d' = d\<lparr>oauth_refresh_tokens := oauth_refresh_tokens d @
     [\<lparr>rt_token_hash = h, rt_client_id = c, rt_user_id = u, rt_scope = sc, rt_resource = res,
       rt_created_at = now, rt_expires_at = now + ttl, rt_family_id = fam, rt_consumed = False,
       rt_last_ip = ri_ip info, rt_last_user_agent = ri_user_agent info\<rparr>]\<rparr>
   \<and> h \<notin> set (map rt_token_hash (oauth_refresh_tokens d))"
  using assms unfolding insert_refresh_def
  by (auto simp: insert_refresh_once_def dest!: retry_busy_Inr split: if_splits)

lemma issue_tokens_Inr:
  assumes "issue_tokens te d user cid aud sc res fam info = (d', Inr resp)"
  shows "issue_access_token (te_signer te) (te_now te) (te_jti te) (u_id user) cid aud sc (u_is_admin user)
           ACCESS_TTL_SECS = Inr (tr_access_token resp, tr_expires_in resp) \<and>
         tr_refresh_token resp = te_refresh te \<and>
         te_th te (te_refresh te) \<notin> set (map rt_token_hash (oauth_refresh_tokens d)) \<and>
         d' = d\<lparr>oauth_refresh_tokens := oauth_refresh_tokens d @
     [\<lparr>rt_token_hash = te_th te (te_refresh te), rt_client_id = cid, rt_user_id = u_id user, rt_scope = sc,
       rt_resource = res, rt_created_at = te_now te, rt_expires_at = te_now te + REFRESH_TTL_SECS,
       rt_family_id = fam, rt_consumed = False, rt_last_ip = ri_ip info,
       rt_last_user_agent = ri_user_agent info\<rparr>]\<rparr>"
  using assms by (auto simp: issue_tokens_def dest!: insert_refresh_Inr split: sum.splits prod.splits)

lemma authenticate_client_Inr:
  "authenticate_client te d cid secret = Inr c \<Longrightarrow>
   get_client d cid = Some c \<and>
   (\<forall>h. oc_client_secret_hash c = Some h \<longrightarrow> (\<exists>s. secret = Some s \<and> te_th te s = h))"
  by (auto simp: authenticate_client_def dest: as_bytes_inj split: option.splits if_splits)

lemma take_code_simps:
  "take_code now s c = (s', r) \<Longrightarrow> s' = hm_remove c s \<and>
     (r \<noteq> None \<longleftrightarrow> (\<exists>p. hm_get s c = Some p \<and> now \<le> pc_expires_at p \<and> r = Some (pc_auth p)))"
  by (auto simp: take_code_def split: option.splits if_splits)

text \<open>What a successful code grant saw.\<close>

lemma authorization_code_Inr:
  assumes "authorization_code te d codes form info = (d', codes', Inr resp)"
  obtains c cid verifier client p user where
    "tf_code form = Some c" "tf_client_id form = Some cid" "tf_code_verifier form = Some verifier"
    "authenticate_client te d cid (tf_client_secret form) = Inr client"
    "hm_get codes c = Some p" "te_now te \<le> pc_expires_at p" "codes' = hm_remove c codes"
    "ac_client_id (pc_auth p) = cid" "tf_redirect_uri form = Some (ac_redirect_uri (pc_auth p))"
    "verify_pkce_s256 (te_b64url te) (te_sha256 te) verifier (ac_code_challenge (pc_auth p))"
    "users_find_by_id d (ac_user_id (pc_auth p)) = Some user"
    "issue_tokens te d user cid (or_else (mcp_url (te_cfg te)) (ac_resource (pc_auth p)))
       (ac_scope (pc_auth p)) (ac_resource (pc_auth p)) (te_family te) info = (d', Inr resp)"
proof -
  from assms obtain c cid verifier client where 1: "tf_code form = Some c" "tf_client_id form = Some cid"
    "tf_code_verifier form = Some verifier"
    "authenticate_client te d cid (tf_client_secret form) = Inr client"
    by (auto simp: authorization_code_def split: option.splits sum.splits)
  obtain s' r where t: "take_code (te_now te) codes c = (s', r)" by fastforce
  from assms 1 t obtain row where row: "r = Some row"
    by (auto simp: authorization_code_def split: option.splits)
  from take_code_simps[OF t] row obtain p where p: "hm_get codes c = Some p" "te_now te \<le> pc_expires_at p"
    "row = pc_auth p" "s' = hm_remove c codes" by auto
  from assms 1 t row p(3) obtain user where
    "ac_client_id (pc_auth p) = cid" "tf_redirect_uri form = Some (ac_redirect_uri (pc_auth p))"
    "verify_pkce_s256 (te_b64url te) (te_sha256 te) verifier (ac_code_challenge (pc_auth p))"
    "users_find_by_id d (ac_user_id (pc_auth p)) = Some user" "codes' = s'"
    "issue_tokens te d user cid (or_else (mcp_url (te_cfg te)) (ac_resource (pc_auth p)))
       (ac_scope (pc_auth p)) (ac_resource (pc_auth p)) (te_family te) info = (d', Inr resp)"
    by (auto simp: authorization_code_def split: option.splits if_splits prod.splits)
  with 1 p show ?thesis by (intro that) auto
qed

text \<open>The code store only loses codes at the token endpoint.\<close>

lemma authorization_code_store:
  "fst (snd (authorization_code te d codes form info)) \<in> {codes, hm_remove (the (tf_code form)) codes}"
  by (auto simp: authorization_code_def take_code_def split: option.splits sum.splits prod.splits if_splits)

lemma token_store_mono:
  "hm_get codes c = None \<Longrightarrow> hm_get (fst (snd (token te d codes headers form))) c = None"
  using authorization_code_store[of te d codes form "from_headers headers"]
  by (auto simp: token_def Let_def split: prod.splits)

text \<open>A sequence of requests at the token endpoint, and the codes whose exchange succeeded.\<close>

primrec token_run ::
  "db \<Rightarrow> code_store \<Rightarrow> (token_env \<times> header_map \<times> token_form) list \<Rightarrow> string list" where
  "token_run d codes [] = []"
| "token_run d codes (x # xs) =
     (case x of (te, headers, form) \<Rightarrow>
        (case token te d codes headers form of
           (d', codes', r) \<Rightarrow>
             (if tf_grant_type form = ''authorization_code'' \<and> \<not> isl r then [the (tf_code form)] else []) @
             token_run d' codes' xs))"

lemma token_run_absent: "hm_get codes c = None \<Longrightarrow> c \<notin> set (token_run d codes xs)"
proof (induction xs arbitrary: d codes)
  case (Cons x xs)
  obtain te headers form where x: "x = (te, headers, form)" by (cases x) auto
  obtain d' codes' r where t: "token te d codes headers form = (d', codes', r)" by (metis prod_cases3)
  have "hm_get codes' c = None" using token_store_mono[OF Cons.prems, of te d headers form] t by simp
  then have "c \<notin> set (token_run d' codes' xs)" by (rule Cons.IH)
  moreover have "the (tf_code form) \<noteq> c" if "tf_grant_type form = ''authorization_code''" "\<not> isl r"
  proof -
    from that t have "authorization_code te d codes form (from_headers headers) = (d', codes', Inr (projr r))"
      by (simp add: token_def Let_def)
    then show ?thesis by (rule authorization_code_Inr) (use Cons.prems in auto)
  qed
  ultimately show ?case by (auto simp: x t)
qed simp

lemma token_run_once: "count_list (token_run d codes xs) c \<le> 1"
proof (induction xs arbitrary: d codes)
  case (Cons x xs)
  obtain te headers form where x: "x = (te, headers, form)" by (cases x) auto
  obtain d' codes' r where t: "token te d codes headers form = (d', codes', r)" by (metis prod_cases3)
  show ?case
  proof (cases "tf_grant_type form = ''authorization_code'' \<and> \<not> isl r")
    case True
    with t have "authorization_code te d codes form (from_headers headers) = (d', codes', Inr (projr r))"
      by (simp add: token_def Let_def)
    then have "hm_get codes' (the (tf_code form)) = None" by (rule authorization_code_Inr) simp
    from token_run_absent[OF this] have "count_list (token_run d' codes' xs) (the (tf_code form)) = 0"
      by (simp add: count_list_0_iff)
    with Cons.IH[of d' codes'] True show ?thesis by (auto simp: x t)
  next
    case False
    with Cons.IH[of d' codes'] show ?thesis by (auto simp: x t)
  qed
qed simp

text \<open>The refresh grant, in its successful and its replay case.\<close>

lemma refresh_grant_Inr:
  assumes "refresh_token_grant te d form info = (d', Inr resp)"
  obtains tok cid client row user where
    "tf_refresh_token form = Some tok" "tf_client_id form = Some cid"
    "authenticate_client te d cid (tf_client_secret form) = Inr client"
    "consume_refresh_once (te_now te) d (te_th te tok) = (fst (consume_refresh_once (te_now te) d (te_th te tok)), Valid row)"
    "rf_client_id row = cid"
    "issue_tokens te (fst (consume_refresh_once (te_now te) d (te_th te tok))) user cid
       (or_else (mcp_url (te_cfg te)) (rf_resource row)) (rf_scope row) (rf_resource row) (rf_family_id row) info =
     (d', Inr resp)"
proof -
  from assms obtain tok cid client where 1: "tf_refresh_token form = Some tok" "tf_client_id form = Some cid"
    "authenticate_client te d cid (tf_client_secret form) = Inr client"
    by (auto simp: refresh_token_grant_def split: option.splits sum.splits)
  from assms 1 obtain d1 o1 where c: "consume_refresh (te_busy_consume te) (te_now te) d (te_th te tok) = Inr (d1, o1)"
    by (auto simp: refresh_token_grant_def split: sum.splits)
  have co: "consume_refresh_once (te_now te) d (te_th te tok) = (d1, o1)"
    using consume_refresh_Inr[OF c] by simp
  from assms 1 c obtain row where row: "o1 = Valid row"
    by (cases o1) (auto simp: refresh_token_grant_def split: sum.splits)
  from assms 1 c row obtain user where "rf_client_id row = cid"
    "issue_tokens te d1 user cid (or_else (mcp_url (te_cfg te)) (rf_resource row)) (rf_scope row)
       (rf_resource row) (rf_family_id row) info = (d', Inr resp)"
    by (auto simp: refresh_token_grant_def split: if_splits option.splits)
  with 1 co row show ?thesis by (intro that[of tok cid client row user]) auto
qed

lemma consume_refresh_free:
  "\<exists>k<4. \<not> busy k \<Longrightarrow> consume_refresh busy now d h = Inr (consume_refresh_once now d h)"
  unfolding consume_refresh_def by (subst retry_busy_attempt) auto

lemma revoke_family_free:
  "\<exists>k<4. \<not> busy k \<Longrightarrow> revoke_family busy d fam =
     Inr (d\<lparr>oauth_refresh_tokens := tbl_delete (\<lambda>r. rt_family_id r = fam) (oauth_refresh_tokens d)\<rparr>)"
  unfolding revoke_family_def by (subst retry_busy_attempt) auto

lemma authenticate_client_cong:
  "oauth_clients d' = oauth_clients d \<Longrightarrow> te_th te' = te_th te \<Longrightarrow>
   authenticate_client te' d' cid sec = authenticate_client te d cid sec"
  unfolding authenticate_client_def get_client_def by (simp only:)

lemma consume_refresh_clients [simp]:
  "oauth_clients (fst (consume_refresh_once now d h)) = oauth_clients d"
  by (simp add: consume_refresh_once_def split: option.splits)

text \<open>A spent token, presented again before its expiry, is seen as replayed.\<close>

lemma consume_replayed:
  assumes "List.find (\<lambda>r. rt_token_hash r = h) (oauth_refresh_tokens d) = Some r"
    and "rt_consumed r" "now \<le> rt_expires_at r"
  shows "consume_refresh_once now d h = (d, Replayed (rt_family_id r))"
  using assms by (simp add: consume_refresh_once_def)

lemma consume_valid_find:
  assumes "consume_refresh_once now d h = (d1, Valid row)"
  obtains r where "List.find (\<lambda>r. rt_token_hash r = h) (oauth_refresh_tokens d) = Some r"
    "List.find (\<lambda>r. rt_token_hash r = h) (oauth_refresh_tokens d1) = Some (r\<lparr>rt_consumed := True\<rparr>)"
    "row = \<lparr>rf_client_id = rt_client_id r, rf_user_id = rt_user_id r, rf_scope = rt_scope r,
            rf_resource = rt_resource r, rf_family_id = rt_family_id r\<rparr>"
    "map rt_token_hash (oauth_refresh_tokens d1) = map rt_token_hash (oauth_refresh_tokens d)"
  using assms
  by (auto simp: consume_refresh_once_def find_update_key map_tbl_update_key split: option.splits if_splits)

lemma replay_grant:
  assumes "tf_refresh_token form = Some tok" "tf_client_id form = Some cid"
    and "authenticate_client te d cid (tf_client_secret form) = Inr client"
    and "consume_refresh_once (te_now te) d (te_th te tok) = (d, Replayed fam)"
    and "\<exists>k<4. \<not> te_busy_consume te k" "\<exists>k<4. \<not> te_busy_revoke te k"
  shows "refresh_token_grant te d form info =
    (d\<lparr>oauth_refresh_tokens := tbl_delete (\<lambda>r. rt_family_id r = fam) (oauth_refresh_tokens d)\<rparr>,
     Inl (invalid_grant ''refresh token reuse detected; the session has been revoked''))"
  using assms by (simp add: refresh_token_grant_def consume_refresh_free revoke_family_free)

section \<open>A concrete instance\<close>

text \<open>A JWT library that signs one set of claims.\<close>

definition one_jwt :: "access_claims \<Rightarrow> jwt" where
  "one_jwt c0 =
     \<lparr>jw_encode = (\<lambda>kid c. if kid = ''k1'' \<and> c = c0 then Some ''tok'' else None),
      jw_decode_header = (\<lambda>t. if t = ''tok'' then Some (Some ''k1'') else None),
      jw_decode = (\<lambda>now v t. if t = ''tok'' \<and> jc_iss c0 = vd_issuer v \<and> jc_aud c0 = vd_audience v \<and>
                              now - JWT_LEEWAY \<le> jc_exp c0 then Some c0 else None)\<rparr>"

lemma one_jwt_law: "jwt_law (one_jwt c0)"
  by (auto simp: jwt_law_def one_jwt_def split: if_splits)

definition demo_claims :: "string \<Rightarrow> access_claims" where
  "demo_claims aud = \<lparr>jc_iss = ''https://h.io'', jc_sub = ''u2'', jc_aud = aud, jc_exp = 1000, jc_iat = 100,
     jc_jti = ''j'', jc_scope = ''mcp'', jc_client_id = ''c1'', jc_admin = False\<rparr>"

definition demo_signer :: "string \<Rightarrow> signer" where
  "demo_signer aud = \<lparr>sg_kid = ''k1'', sg_issuer = ''https://h.io'', sg_jwt = one_jwt (demo_claims aud)\<rparr>"

definition demo_te :: "string \<Rightarrow> token_env" where
  "demo_te aud = \<lparr>te_now = 100, te_cfg = demo_cfg, te_signer = demo_signer aud, te_b64url = id, te_sha256 = id,
     te_busy_consume = (\<lambda>k. k < 2), te_busy_revoke = (\<lambda>_. False), te_busy_insert = (\<lambda>_. False),
     te_refresh = ''r1'', te_family = ''f1'', te_jti = ''j''\<rparr>"

definition mk_client :: "string \<Rightarrow> client_row" where
  "mk_client cid = \<lparr>oc_client_id = cid, oc_client_secret_hash = None, oc_redirect_uris = [''https://app/cb''],
     oc_metadata = \<lparr>md_client_name = Some ''App'', md_scope = None, md_auth_method = ''none'',
       md_grant_types = [], md_response_types = []\<rparr>, oc_created_at = 0\<rparr>"

definition mk_refresh :: "string \<Rightarrow> string \<Rightarrow> bool \<Rightarrow> refresh_row" where
  "mk_refresh h cid spent = \<lparr>rt_token_hash = h, rt_client_id = cid, rt_user_id = ''u2'', rt_scope = ''mcp'',
     rt_resource = None, rt_created_at = 50, rt_expires_at = 5000, rt_family_id = ''f0'', rt_consumed = spent,
     rt_last_ip = None, rt_last_user_agent = None\<rparr>"

definition oauth_db :: db where
  "oauth_db = demo_db\<lparr>oauth_clients := [mk_client ''c1'', mk_client ''c2''],
     oauth_refresh_tokens := [mk_refresh ''r0'' ''c1'' False]\<rparr>"

definition demo_form :: "string \<Rightarrow> token_form" where
  "demo_form cid = \<lparr>tf_grant_type = ''authorization_code'', tf_code = Some ''co'',
     tf_redirect_uri = Some ''https://app/cb'', tf_client_id = Some cid, tf_client_secret = None,
     tf_code_verifier = Some ''v'', tf_refresh_token = Some ''r0''\<rparr>"

definition demo_codes :: code_store where
  "demo_codes = [(''co'', \<lparr>pc_auth = \<lparr>ac_client_id = ''c1'', ac_user_id = ''u2'',
     ac_redirect_uri = ''https://app/cb'', ac_code_challenge = ''v'', ac_scope = ''mcp'', ac_resource = None\<rparr>,
     pc_expires_at = 600\<rparr>)]"

definition no_info :: request_info where
  "no_info = \<lparr>ri_ip = None, ri_user_agent = None\<rparr>"

lemma demo_ascii: "as_bytes ''v'' = ''v''" "as_bytes ''r0'' = ''r0''" "as_bytes ''r1'' = ''r1''"
  by code_simp+

lemmas oauth_demo_simps = oauth_db_def demo_db_def empty_db_def mk_client_def mk_refresh_def demo_form_def
  demo_te_def demo_signer_def one_jwt_def demo_claims_def demo_cfg_def no_info_def demo_codes_def
  mcp_url_def or_else_def te_th_def token_hash_def demo_ascii

lemma demo_te_simps:
  "te_now (demo_te aud) = 100" "te_th (demo_te aud) = as_bytes" "mcp_url (te_cfg (demo_te aud)) = ''https://h.io/mcp''"
  "te_b64url (demo_te aud) = id" "te_sha256 (demo_te aud) = id" "te_family (demo_te aud) = ''f1''"
  "te_busy_consume (demo_te aud) = (\<lambda>k. k < 2)" "te_busy_revoke (demo_te aud) = (\<lambda>_. False)"
  by (simp_all add: demo_te_def te_th_def token_hash_def fun_eq_iff mcp_url_def demo_cfg_def)

lemma demo_auth: "authenticate_client (demo_te aud) (oauth_db\<lparr>oauth_refresh_tokens := x\<rparr>) ''c1'' None = Inr (mk_client ''c1'')"
  "authenticate_client (demo_te aud) oauth_db ''c1'' None = Inr (mk_client ''c1'')"
  "authenticate_client (demo_te aud) oauth_db ''c2'' None = Inr (mk_client ''c2'')"
  by (simp_all add: authenticate_client_def get_client_def oauth_demo_simps)

lemma demo_issue:
  "\<exists>d' resp. issue_tokens (demo_te ''https://h.io/mcp'') (oauth_db\<lparr>oauth_refresh_tokens := [mk_refresh ''r0'' ''c1'' b]\<rparr>)
     \<lparr>u_id = ''u2'', u_handle = ''bob'', u_display_name = ''Bob'', u_is_admin = False,
      u_created_at = 1, u_disabled = False, u_sandbox_uid = Some 1\<rparr>
     ''c1'' ''https://h.io/mcp'' ''mcp'' None fam no_info = (d', Inr resp) \<and> tr_access_token resp = ''tok''"
  by (simp add: issue_tokens_def issue_access_token_def ACCESS_TTL_SECS_def insert_refresh_def retry_busy_def
      BACKOFF_MS_def attempt_def insert_refresh_once_def has_client_def has_user_def oauth_demo_simps)

lemma demo_code_grant:
  "\<exists>d' resp. authorization_code (demo_te ''https://h.io/mcp'') oauth_db demo_codes (demo_form ''c1'') no_info =
     (d', hm_remove ''co'' demo_codes, Inr resp) \<and> tr_access_token resp = ''tok''"
proof -
  let ?u = "\<lparr>u_id = ''u2'', u_handle = ''bob'', u_display_name = ''Bob'', u_is_admin = False,
      u_created_at = 1, u_disabled = False, u_sandbox_uid = Some 1\<rparr>"
  have "oauth_db\<lparr>oauth_refresh_tokens := [mk_refresh ''r0'' ''c1'' False]\<rparr> = oauth_db" by (simp add: oauth_db_def)
  with demo_issue[of False "''f1''"] obtain d' resp where
    i: "issue_tokens (demo_te ''https://h.io/mcp'') oauth_db ?u ''c1'' ''https://h.io/mcp'' ''mcp'' None ''f1'' no_info =
      (d', Inr resp)" "tr_access_token resp = ''tok''" by auto
  have "users_find_by_id oauth_db ''u2'' = Some ?u"
    by (simp add: users_find_by_id_def oauth_db_def demo_db_def)
  with i show ?thesis
    by (simp add: authorization_code_def demo_form_def demo_auth take_code_def hm_get_def verify_pkce_iff
        token_hash_def demo_codes_def demo_te_simps demo_ascii or_else_def)
qed

section \<open>Properties\<close>

text \<open>C8: a code is exchanged for tokens only by who may. A successful authorization-code grant
  presented an unexpired code of the store, issued to that very client, with the redirect URI it
  was issued for and a verifier whose hash is its challenge; the client is registered and, when
  confidential, proved its secret; the user still exists; the code is gone from the store; and
  the response's access token is for that user, that client and the code's resource.\<close>

theorem code_grant_sound:
  assumes "authorization_code te d codes form info = (d', codes', Inr resp)"
  shows "\<exists>c cid verifier client p user.
    tf_code form = Some c \<and> tf_client_id form = Some cid \<and> tf_code_verifier form = Some verifier \<and>
    hm_get codes c = Some p \<and> te_now te \<le> pc_expires_at p \<and> codes' = hm_remove c codes \<and>
    ac_client_id (pc_auth p) = cid \<and> tf_redirect_uri form = Some (ac_redirect_uri (pc_auth p)) \<and>
    te_b64url te (te_sha256 te (as_bytes verifier)) = ac_code_challenge (pc_auth p) \<and>
    get_client d cid = Some client \<and>
    (\<forall>h. oc_client_secret_hash client = Some h \<longrightarrow> (\<exists>s. tf_client_secret form = Some s \<and> te_th te s = h)) \<and>
    users_find_by_id d (ac_user_id (pc_auth p)) = Some user \<and>
    issue_access_token (te_signer te) (te_now te) (te_jti te) (u_id user) cid
      (or_else (mcp_url (te_cfg te)) (ac_resource (pc_auth p))) (ac_scope (pc_auth p)) (u_is_admin user)
      ACCESS_TTL_SECS = Inr (tr_access_token resp, tr_expires_in resp)"
  by (rule authorization_code_Inr[OF assms])
    (auto simp: verify_pkce_iff token_hash_def dest!: authenticate_client_Inr issue_tokens_Inr)

theorem code_grant_sound_witness:
  "\<exists>d' codes' resp c p. authorization_code (demo_te ''https://h.io/mcp'') oauth_db demo_codes (demo_form ''c1'') no_info =
     (d', codes', Inr resp) \<and> hm_get demo_codes c = Some p \<and> codes' = hm_remove c demo_codes"
proof -
  obtain d' resp where g: "authorization_code (demo_te ''https://h.io/mcp'') oauth_db demo_codes (demo_form ''c1'') no_info =
      (d', hm_remove ''co'' demo_codes, Inr resp)"
    using demo_code_grant by blast
  with code_grant_sound[OF g] show ?thesis by blast
qed

text \<open>C10: a code is exchanged at most once. In any sequence of requests at the token endpoint, by
  any clients, with any verifiers and at any times, each authorization code yields tokens at
  most once.\<close>

theorem code_exchanged_once:
  "count_list (token_run d codes requests) c \<le> 1"
  by (rule token_run_once)

text \<open>C11: reusing a rotated refresh token kills its whole family. After a successful refresh, a
  second presentation of the same token before its expiry (by the client or by a thief) is an
  error that leaves no token of the family in the database; the token handed out by the first
  refresh is then unknown too.\<close>

theorem refresh_reuse_revokes_family:
  assumes "refresh_token_grant te d form info = (d1, Inr resp)" "tf_refresh_token form = Some tok"
    and "List.find (\<lambda>r. rt_token_hash r = te_th te tok) (oauth_refresh_tokens d) = Some r"
    and "te_now te2 \<le> rt_expires_at r" "te_th te2 = te_th te"
    and "\<exists>k<4. \<not> te_busy_consume te2 k" "\<exists>k<4. \<not> te_busy_revoke te2 k"
  shows "\<exists>d2. refresh_token_grant te2 d1 form info2 =
           (d2, Inl (invalid_grant ''refresh token reuse detected; the session has been revoked'')) \<and>
         (\<forall>x\<in>set (oauth_refresh_tokens d2). rt_family_id x \<noteq> rt_family_id r) \<and>
         consume_refresh_once t d2 (te_th te (tr_refresh_token resp)) = (d2, Missing)"
proof -
  obtain cid client row user where g: "tf_client_id form = Some cid"
    "authenticate_client te d cid (tf_client_secret form) = Inr client"
    and c: "consume_refresh_once (te_now te) d (te_th te tok) =
            (fst (consume_refresh_once (te_now te) d (te_th te tok)), Valid row)"
    and i: "issue_tokens te (fst (consume_refresh_once (te_now te) d (te_th te tok))) user cid
       (or_else (mcp_url (te_cfg te)) (rf_resource row)) (rf_scope row) (rf_resource row) (rf_family_id row) info =
       (d1, Inr resp)"
    using refresh_grant_Inr[OF assms(1)] assms(2) by (metis option.inject)
  define dm where "dm = fst (consume_refresh_once (te_now te) d (te_th te tok))"
  obtain r' where "List.find (\<lambda>r. rt_token_hash r = te_th te tok) (oauth_refresh_tokens d) = Some r'"
    and fm': "List.find (\<lambda>r. rt_token_hash r = te_th te tok) (oauth_refresh_tokens dm) = Some (r'\<lparr>rt_consumed := True\<rparr>)"
    and row: "row = \<lparr>rf_client_id = rt_client_id r', rf_user_id = rt_user_id r', rf_scope = rt_scope r',
            rf_resource = rt_resource r', rf_family_id = rt_family_id r'\<rparr>"
    unfolding dm_def by (rule consume_valid_find[OF c])
  with assms(3) have [simp]: "r' = r" by simp
  have fm: "List.find (\<lambda>r. rt_token_hash r = te_th te tok) (oauth_refresh_tokens dm) = Some (r\<lparr>rt_consumed := True\<rparr>)"
    and fam: "rf_family_id row = rt_family_id r"
    using fm' row by simp_all
  let ?new = "\<lparr>rt_token_hash = te_th te (te_refresh te), rt_client_id = cid, rt_user_id = u_id user,
       rt_scope = rf_scope row, rt_resource = rf_resource row, rt_created_at = te_now te,
       rt_expires_at = te_now te + REFRESH_TTL_SECS, rt_family_id = rt_family_id r, rt_consumed = False,
       rt_last_ip = ri_ip info, rt_last_user_agent = ri_user_agent info\<rparr>"
  from issue_tokens_Inr[OF i] have d1: "d1 = dm\<lparr>oauth_refresh_tokens := oauth_refresh_tokens dm @ [?new]\<rparr>"
    and fresh: "te_th te (te_refresh te) \<notin> set (map rt_token_hash (oauth_refresh_tokens dm))"
    and resp: "tr_refresh_token resp = te_refresh te"
    unfolding dm_def fam by auto
  have find1: "List.find (\<lambda>r. rt_token_hash r = te_th te2 tok) (oauth_refresh_tokens d1) = Some (r\<lparr>rt_consumed := True\<rparr>)"
    by (simp add: d1 find_append fm assms(5))
  have rep: "consume_refresh_once (te_now te2) d1 (te_th te2 tok) = (d1, Replayed (rt_family_id r))"
    using consume_replayed[OF find1] assms(4) by simp
  have auth: "authenticate_client te2 d1 cid (tf_client_secret form) = Inr client"
    using authenticate_client_cong[of d1 d te2 te] assms(5) g(2) by (simp add: d1 dm_def)
  let ?d2 = "d1\<lparr>oauth_refresh_tokens := tbl_delete (\<lambda>x. rt_family_id x = rt_family_id r) (oauth_refresh_tokens d1)\<rparr>"
  have "List.find (\<lambda>x. rt_token_hash x = te_th te (te_refresh te)) (oauth_refresh_tokens ?d2) = None"
    using fresh unfolding find_None_iff d1 set_map by (auto simp: tbl_simps) (metis imageI)
  then have "consume_refresh_once t ?d2 (te_th te (tr_refresh_token resp)) = (?d2, Missing)"
    by (simp add: consume_refresh_once_def resp)
  with replay_grant[OF assms(2) g(1) auth rep assms(6,7)] show ?thesis
    by (intro exI[of _ ?d2]) (auto simp: tbl_simps)
qed

theorem refresh_reuse_revokes_family_witness:
  "\<exists>d1 d2 e. refresh_token_grant (demo_te ''https://h.io/mcp'') d1 (demo_form ''c1'') no_info = (d2, Inl e) \<and>
     (\<forall>x\<in>set (oauth_refresh_tokens d2). rt_family_id x \<noteq> ''f0'')"
proof -
  let ?te = "demo_te ''https://h.io/mcp''"
  let ?u = "\<lparr>u_id = ''u2'', u_handle = ''bob'', u_display_name = ''Bob'', u_is_admin = False,
      u_created_at = 1, u_disabled = False, u_sandbox_uid = Some 1\<rparr>"
  let ?dm = "oauth_db\<lparr>oauth_refresh_tokens := [mk_refresh ''r0'' ''c1'' True]\<rparr>"
  have c: "consume_refresh (te_busy_consume ?te) (te_now ?te) oauth_db (te_th ?te ''r0'') =
    Inr (?dm, Valid \<lparr>rf_client_id = ''c1'', rf_user_id = ''u2'', rf_scope = ''mcp'', rf_resource = None, rf_family_id = ''f0''\<rparr>)"
    by (simp add: consume_refresh_def retry_busy_def BACKOFF_MS_def attempt_def consume_refresh_once_def
        tbl_update_def oauth_demo_simps)
  obtain d1 resp where i: "issue_tokens ?te ?dm ?u ''c1'' ''https://h.io/mcp'' ''mcp'' None ''f0'' no_info = (d1, Inr resp)"
    using demo_issue[of True "''f0''"] by auto
  have u: "users_find_by_id ?dm ''u2'' = Some ?u"
    by (simp add: users_find_by_id_def oauth_db_def demo_db_def)
  have g: "refresh_token_grant ?te oauth_db (demo_form ''c1'') no_info = (d1, Inr resp)"
    using c i u by (simp add: refresh_token_grant_def demo_form_def demo_auth or_else_def demo_te_simps)
  have f: "List.find (\<lambda>r. rt_token_hash r = te_th ?te ''r0'') (oauth_refresh_tokens oauth_db) = Some (mk_refresh ''r0'' ''c1'' False)"
    by (simp add: oauth_demo_simps)
  have "tf_refresh_token (demo_form ''c1'') = Some ''r0''" "te_now ?te \<le> rt_expires_at (mk_refresh ''r0'' ''c1'' False)"
    "\<exists>k<4. \<not> te_busy_consume ?te k" "\<exists>k<4. \<not> te_busy_revoke ?te k"
    by (auto simp: demo_form_def demo_te_def mk_refresh_def intro!: exI[of _ "3::nat"])
  from refresh_reuse_revokes_family[OF g this(1) f this(2) refl this(3,4), of no_info 0]
  have "\<exists>d2. refresh_token_grant ?te d1 (demo_form ''c1'') no_info =
      (d2, Inl (invalid_grant ''refresh token reuse detected; the session has been revoked'')) \<and>
      (\<forall>x\<in>set (oauth_refresh_tokens d2). rt_family_id x \<noteq> ''f0'')"
    by (auto simp: mk_refresh_def)
  then show ?thesis by blast
qed

text \<open>A refresh token is spent before it is known to belong to the client. When some other
  registered client presents a client's live refresh token, the request is refused but the token
  is marked as used, so the rightful client's next refresh is taken for a replay.\<close>

theorem refresh_burned_by_other_client:
  assumes "tf_refresh_token form = Some tok" "tf_client_id form = Some cid"
    and "authenticate_client te d cid (tf_client_secret form) = Inr client"
    and "List.find (\<lambda>r. rt_token_hash r = te_th te tok) (oauth_refresh_tokens d) = Some r"
    and "\<not> rt_consumed r" "te_now te \<le> rt_expires_at r" "rt_client_id r \<noteq> cid"
    and "\<exists>k<4. \<not> te_busy_consume te k"
  shows "\<exists>d'. refresh_token_grant te d form info =
           (d', Inl (invalid_grant ''refresh token was issued to another client'')) \<and>
         (\<forall>t\<le>rt_expires_at r. consume_refresh_once t d' (te_th te tok) = (d', Replayed (rt_family_id r)))"
proof -
  let ?d' = "d\<lparr>oauth_refresh_tokens := tbl_update (\<lambda>r. rt_token_hash r = te_th te tok)
     (\<lambda>r. r\<lparr>rt_consumed := True\<rparr>) (oauth_refresh_tokens d)\<rparr>"
  have c: "consume_refresh_once (te_now te) d (te_th te tok) =
    (?d', Valid \<lparr>rf_client_id = rt_client_id r, rf_user_id = rt_user_id r, rf_scope = rt_scope r,
                 rf_resource = rt_resource r, rf_family_id = rt_family_id r\<rparr>)"
    using assms(4,5,6) by (simp add: consume_refresh_once_def)
  have "List.find (\<lambda>r. rt_token_hash r = te_th te tok) (oauth_refresh_tokens ?d') = Some (r\<lparr>rt_consumed := True\<rparr>)"
    by (simp add: find_update_key assms(4))
  then have "\<forall>t\<le>rt_expires_at r. consume_refresh_once t ?d' (te_th te tok) = (?d', Replayed (rt_family_id r))"
    using consume_replayed[of "te_th te tok" ?d' "r\<lparr>rt_consumed := True\<rparr>"] by simp
  moreover have "refresh_token_grant te d form info =
      (?d', Inl (invalid_grant ''refresh token was issued to another client''))"
    using assms(1,2,3,7,8) c by (simp add: refresh_token_grant_def consume_refresh_free)
  ultimately show ?thesis by blast
qed

theorem refresh_burned_by_other_client_witness:
  "\<exists>d'. refresh_token_grant (demo_te []) oauth_db (demo_form ''c2'') no_info =
     (d', Inl (invalid_grant ''refresh token was issued to another client'')) \<and>
   consume_refresh_once 200 d' ''r0'' = (d', Replayed ''f0'')"
proof -
  have f: "List.find (\<lambda>r. rt_token_hash r = te_th (demo_te []) ''r0'') (oauth_refresh_tokens oauth_db) =
      Some (mk_refresh ''r0'' ''c1'' False)"
    by (simp add: oauth_demo_simps)
  have th: "te_th (demo_te []) ''r0'' = ''r0''" by (simp add: te_th_def token_hash_def demo_te_def demo_ascii)
  have b: "\<exists>k<4. \<not> te_busy_consume (demo_te []) k" by (auto simp: demo_te_def intro!: exI[of _ "3::nat"])
  have "tf_refresh_token (demo_form ''c2'') = Some ''r0''" "tf_client_id (demo_form ''c2'') = Some ''c2''"
    "authenticate_client (demo_te []) oauth_db ''c2'' (tf_client_secret (demo_form ''c2'')) = Inr (mk_client ''c2'')"
    by (simp_all add: demo_form_def demo_auth)
  from refresh_burned_by_other_client[OF this f _ _ _ b, of no_info] show ?thesis
    by (auto simp: mk_refresh_def demo_te_simps th[unfolded demo_te_simps])
qed


definition demo_query :: authorize_query where
  "demo_query = \<lparr>aq_response_type = ''code'', aq_client_id = ''c1'', aq_redirect_uri = ''https://app/cb'',
     aq_scope = None, aq_state = None, aq_code_challenge = ''v'', aq_code_challenge_method = None,
     aq_resource = None\<rparr>"


text \<open>A resource named with a trailing slash yields a dead token. The authorization endpoint
  accepts the base endpoint's URL with any number of trailing slashes, but the slashes are kept,
  so the access token that is issued for it is rejected at the base endpoint and at every
  connector-group endpoint.\<close>

theorem trailing_slash_token_rejected:
  assumes "jwt_law (sg_jwt s)"
    and "issue_access_token s now jti sub cid (mcp_url cfg @ replicate (Suc n) CHR ''/'') scope admin ttl = Inr (t, ttl')"
  shows "resource_group_slug cfg (mcp_url cfg @ replicate (Suc n) CHR ''/'') = Inr None \<and>
         isl (verify_access_token s later t (mcp_url cfg)) \<and>
         (valid_slug slug \<longrightarrow> isl (verify_access_token s later t (group_mcp_url cfg slug)))"
proof (intro conjI impI)
  have "trim_end_matches CHR ''/'' (mcp_url cfg @ replicate (Suc n) CHR ''/'') = mcp_url cfg"
    by (simp add: trim_end_matches_def mcp_url_def dropWhile_append del: replicate_Suc)
  then show "resource_group_slug cfg (mcp_url cfg @ replicate (Suc n) CHR ''/'') = Inr None"
    by (simp add: resource_group_slug_def del: replicate_Suc)
  show "isl (verify_access_token s later t (mcp_url cfg))"
    by (rule verify_issued_other[OF assms]) simp
  assume v: "valid_slug slug"
  have "last (group_mcp_url cfg slug) \<noteq> CHR ''/''"
    using v by (auto simp: group_mcp_url_def valid_slug_def slug_alnum_def is_ascii_lowercase_def
        is_ascii_digit_def split: if_splits)
  then have "mcp_url cfg @ replicate (Suc n) CHR ''/'' \<noteq> group_mcp_url cfg slug"
    by (metis last_appendR last_replicate replicate_empty nat.distinct(1))
  then show "isl (verify_access_token s later t (group_mcp_url cfg slug))"
    by (rule verify_issued_other[OF assms])
qed

theorem trailing_slash_token_rejected_witness:
  "isl (verify_access_token (demo_signer ''https://h.io/mcp/'') 200 ''tok'' (mcp_url demo_cfg)) \<and>
   \<not> isl (verify_access_token (demo_signer ''https://h.io/mcp/'') 200 ''tok'' ''https://h.io/mcp/'')"
proof
  have "issue_access_token (demo_signer ''https://h.io/mcp/'') 100 ''j'' ''u2'' ''c1''
      (mcp_url demo_cfg @ replicate (Suc 0) CHR ''/'') ''mcp'' False 900 = Inr (''tok'', 900)"
    by (simp add: issue_access_token_def oauth_demo_simps)
  from trailing_slash_token_rejected[OF _ this] one_jwt_law
  show "isl (verify_access_token (demo_signer ''https://h.io/mcp/'') 200 ''tok'' (mcp_url demo_cfg))"
    by (simp add: demo_signer_def)
  show "\<not> isl (verify_access_token (demo_signer ''https://h.io/mcp/'') 200 ''tok'' ''https://h.io/mcp/'')"
    by (simp add: verify_access_token_def JWT_LEEWAY_def oauth_demo_simps)
qed

end
