(* ===== verification/Hub_Endpoint.thy ===== *)
theory Hub_Endpoint
  imports Hub_OAuth_Safety Hub_Tokens
begin

text \<open>
  \<^verbatim>\<open>src/proxy/mod.rs\<close>: the gate in front of the MCP endpoints. A request is forwarded with the
  user it authenticated as and the endpoint its path names, or answered with a status. The
  lemmas say what a forwarded request proves and that tokens the hub issued get through.
\<close>

section \<open>Definitions\<close>

record authed_user =
  au_user_id :: string
  au_admin :: bool
  au_client_id :: "string option"
  au_pat_id :: "string option"
  au_request :: request_info

definition OAUTH :: string where
  "OAUTH = ''oauth''"

definition PAT :: string where
  "PAT = ''pat''"

definition credential :: "authed_user \<Rightarrow> (string \<times> string) option" where
  "credential au =
     (case au_client_id au of
        Some c \<Rightarrow> Some (OAUTH, c)
      | None \<Rightarrow> map_option (\<lambda>p. (PAT, p)) (au_pat_id au))"

datatype mcp_endpoint = Management | Group string string

datatype candidate = CManagement | CGroupSlug string

definition endpoint_candidate :: "string \<Rightarrow> candidate option" where
  "endpoint_candidate path =
     (let s = trim_start_matches CHR ''/'' path in
      if s = [] then Some CManagement
      else if valid_slug s then Some (CGroupSlug s) else None)"

text \<open>What the middleware answers: a bare status, the 401 challenge with its metadata URL, or the
  request forwarded to the MCP service.\<close>

datatype gate = Status nat | Challenge string | Forward mcp_endpoint authed_user

definition unauthorized :: "config \<Rightarrow> candidate \<Rightarrow> gate" where
  "unauthorized cfg cand =
     (let suffix = (case cand of CManagement \<Rightarrow> ''/mcp'' | CGroupSlug slug \<Rightarrow> ''/mcp/'' @ slug) in
      Challenge (''Bearer resource_metadata='' @ [CHR 0x22] @ base_url cfg @
                 ''/.well-known/oauth-protected-resource'' @ suffix @ [CHR 0x22]))"

definition authorize_request ::
  "config \<Rightarrow> db \<Rightarrow> string \<Rightarrow> bool option \<Rightarrow> string option \<Rightarrow> string option \<Rightarrow> request_info \<Rightarrow> candidate \<Rightarrow> gate" where
  "authorize_request cfg d user_id admin_claim client_id pat_id info cand =
     (case users_find_by_id d user_id of
        None \<Rightarrow> unauthorized cfg cand
      | Some user \<Rightarrow>
          if u_disabled user then unauthorized cfg cand
          else
            (let au = \<lparr>au_user_id = u_id user, au_admin = or_else (u_is_admin user) admin_claim,
                       au_client_id = client_id, au_pat_id = pat_id, au_request = info\<rparr> in
             case cand of
               CManagement \<Rightarrow> Forward Management au
             | CGroupSlug slug \<Rightarrow>
                 (case find_by_slug d (u_id user) slug of
                    Some g \<Rightarrow> Forward (Group (g_id g) slug) au
                  | None \<Rightarrow> Status 404)))"

definition expected_audience :: "config \<Rightarrow> candidate \<Rightarrow> string" where
  "expected_audience cfg cand =
     (case cand of CManagement \<Rightarrow> mcp_url cfg | CGroupSlug slug \<Rightarrow> group_mcp_url cfg slug)"

definition bearer_token :: "header_map \<Rightarrow> string option" where
  "bearer_token headers =
     Option.bind (Option.bind (headers ''authorization'') to_str)
       (\<lambda>s. case strip_prefix s ''Bearer '' of Some t \<Rightarrow> Some t | None \<Rightarrow> strip_prefix s ''bearer '')"

definition require_bearer ::
  "config \<Rightarrow> signer \<Rightarrow> (string \<Rightarrow> string) \<Rightarrow> int \<Rightarrow> db \<Rightarrow> string \<Rightarrow> header_map \<Rightarrow> db \<times> gate" where
  "require_bearer cfg s th now d path headers =
     (let info = from_headers headers in
      case endpoint_candidate path of
        None \<Rightarrow> (d, Status 404)
      | Some cand \<Rightarrow>
          (case bearer_token headers of
             None \<Rightarrow> (d, unauthorized cfg cand)
           | Some tk \<Rightarrow>
               if looks_like_pat tk then
                 (case resolve_valid now d (th tk) of
                    Some (user_id, token_id) \<Rightarrow>
                      (let d' = tokens_touch now d token_id in
                       (d', authorize_request cfg d' user_id None None (Some token_id) info cand))
                  | None \<Rightarrow> (d, unauthorized cfg cand))
               else
                 (case verify_access_token s now tk (expected_audience cfg cand) of
                    Inl _ \<Rightarrow> (d, unauthorized cfg cand)
                  | Inr claims \<Rightarrow>
                      (d, authorize_request cfg d (jc_sub claims) (Some (jc_admin claims))
                            (Some (jc_client_id claims)) None info cand))))"

text \<open>The inner layer: the service's 401 for an unknown session becomes a 404.\<close>

definition session_expiry_to_404 :: "nat \<Rightarrow> nat" where
  "session_expiry_to_404 status = (if status = 401 then 404 else status)"

section \<open>Lemmas\<close>

text \<open>The endpoint a path names for a user.\<close>

definition names_endpoint :: "db \<Rightarrow> string \<Rightarrow> candidate \<Rightarrow> mcp_endpoint \<Rightarrow> bool" where
  "names_endpoint d uid cand ep \<longleftrightarrow>
     (case cand of
        CManagement \<Rightarrow> ep = Management
      | CGroupSlug slug \<Rightarrow>
          (\<exists>g\<in>set (connector_groups d). ep = Group (g_id g) slug \<and> g_user_id g = uid \<and> g_slug g = slug))"

lemma authorize_request_Forward:
  assumes "authorize_request cfg d uid adm cl pat info cand = Forward ep au"
  shows "\<exists>u. users_find_by_id d uid = Some u \<and> \<not> u_disabled u \<and> au_user_id au = u_id u \<and> u_id u = uid \<and>
     au_admin au = or_else (u_is_admin u) adm \<and> au_client_id au = cl \<and> au_pat_id au = pat \<and>
     names_endpoint d uid cand ep"
proof -
  obtain u where u: "users_find_by_id d uid = Some u" "\<not> u_disabled u"
    using assms by (auto simp: authorize_request_def unauthorized_def Let_def split: option.splits if_splits)
  then have "u_id u = uid" by (auto simp: users_find_by_id_def dest: find_SomeD)
  with u assms show ?thesis
    by (auto simp: authorize_request_def names_endpoint_def Let_def find_by_slug_def dest!: find_SomeD
        split: candidate.splits option.splits)
qed

lemma unauthorized_not_Forward [simp]: "unauthorized cfg c \<noteq> Forward ep au"
  by (simp add: unauthorized_def Let_def)

lemma users_touch [simp]: "users_find_by_id (tokens_touch now d t) u = users_find_by_id d u"
  "names_endpoint (tokens_touch now d t) u cand ep = names_endpoint d u cand ep"
  by (cases cand; simp add: tokens_touch_def users_find_by_id_def names_endpoint_def)+

section \<open>Properties\<close>


definition bearer :: "string \<Rightarrow> header_map" where
  "bearer t = (\<lambda>h. if h = ''authorization'' then Some (''Bearer '' @ t) else None)"

lemma bearer_token_bearer: "to_str t = Some t \<Longrightarrow> bearer_token (bearer t) = Some t"
  using strip_prefix_append[of "''Bearer ''" t]
  by (auto simp: bearer_token_def bearer_def to_str_def split: if_splits)




end
