(* ===== verification/Hub_Webauthn.thy ===== *)
theory Hub_Webauthn
  imports Hub_OAuth_Store Hub_Session
begin

text \<open>
  \<^verbatim>\<open>src/auth/webauthn.rs\<close>: registration, enrolment, recovery and login by passkey. The webauthn
  library is the record \<open>webauthn\<close> of its operations; its states, challenges and passkeys are the
  texts they serialise to. The two ceremony stores are in-memory maps with a time to live and a
  capacity (interpretation \<open>ceremony_cap\<close>). A handler returns the whole state with its answer, on
  error paths too. Fresh identifiers are the record \<open>entropy\<close>.
\<close>

section \<open>State\<close>

definition CEREMONY_COOKIE :: string where
  "CEREMONY_COOKIE = ''hub_ceremony''"

definition CEREMONY_TTL_SECS :: int where
  "CEREMONY_TTL_SECS = 300"

definition CEREMONY_CAP :: nat where
  "CEREMONY_CAP = 4096"

datatype reg_purpose = NewUser bool "string option" | AddCredential "string option"

record reg_ceremony =
  rc_state :: string
  rc_user_id :: string
  rc_handle :: string
  rc_display_name :: string
  rc_purpose :: reg_purpose
  rc_created_at :: int

record auth_ceremony =
  au_state :: string
  au_ceremony_user :: string
  au_created_at :: int

record auth_result =
  ar_cred_id :: string
  ar_needs_update :: bool

record webauthn =
  wn_parse_uuid :: "string \<Rightarrow> string option"
  wn_start_registration :: "string \<Rightarrow> string \<Rightarrow> string \<Rightarrow> string list option \<Rightarrow> (string \<times> string) res"
  wn_finish_registration :: "string \<Rightarrow> string \<Rightarrow> string res"
  wn_start_authentication :: "string list \<Rightarrow> (string \<times> string) res"
  wn_finish_authentication :: "string \<Rightarrow> string \<Rightarrow> auth_result res"
  wn_deser :: "string \<Rightarrow> string option"
  wn_ser :: "string \<Rightarrow> string"
  wn_cred_id :: "string \<Rightarrow> string"
  wn_update :: "string \<Rightarrow> auth_result \<Rightarrow> string"

record entropy =
  en_uuid :: string
  en_ceremony :: string
  en_credential :: string
  en_session :: string

record auth_world =
  aw_db :: db
  aw_reg_states :: "(string, reg_ceremony) hash_map"
  aw_auth_states :: "(string, auth_ceremony) hash_map"

record api_error =
  ae_status :: nat
  ae_message :: string

definition api_err :: "nat \<Rightarrow> string \<Rightarrow> api_error" where
  "api_err status msg = \<lparr>ae_status = status, ae_message = msg\<rparr>"

definition internal_api :: "string \<Rightarrow> api_error" where
  "internal_api e = api_err 500 ''internal error''"

definition bad :: "string \<Rightarrow> api_error" where
  "bad msg = api_err 400 msg"

section \<open>Ceremony store and cookies\<close>

definition insert_ceremony ::
  "('v \<Rightarrow> int) \<Rightarrow> int \<Rightarrow> (string, 'v) hash_map \<Rightarrow> string \<Rightarrow> 'v \<Rightarrow> api_error + (string, 'v) hash_map" where
  "insert_ceremony created_at now m key v =
     (let live = hm_retain (\<lambda>_ x. now - created_at x < CEREMONY_TTL_SECS) m in
      if length live \<ge> CEREMONY_CAP then
        Inl (api_err 503 ''too many sign-in attempts in progress; please try again shortly'')
      else Inr (hm_insert key v live))"

definition ceremony_cookie :: "string \<Rightarrow> bool \<Rightarrow> cookie" where
  "ceremony_cookie i secure = \<lparr>ck_name = CEREMONY_COOKIE, ck_value = i, ck_http_only = True,
     ck_same_site = Some ''Lax'', ck_secure = secure, ck_path = ''/'', ck_max_age = Some CEREMONY_TTL_SECS\<rparr>"

definition clear_ceremony_cookie :: "bool \<Rightarrow> cookie" where
  "clear_ceremony_cookie secure = \<lparr>ck_name = CEREMONY_COOKIE, ck_value = [], ck_http_only = True,
     ck_same_site = None, ck_secure = secure, ck_path = ''/'', ck_max_age = Some 0\<rparr>"

definition ceremony_id :: "signed_jar \<Rightarrow> string option" where
  "ceremony_id jar = jar CEREMONY_COOKIE"

text \<open>The answers: a challenge with the ceremony cookie, or the end of a ceremony with the session,
  cleared ceremony and cleared redirect cookies.\<close>

record challenge =
  ch_challenge :: string
  ch_cookie :: cookie

record finish_response =
  fr_redirect :: string
  fr_cookies :: "cookie list"

section \<open>Registration\<close>

record register_request =
  rr_handle :: string
  rr_display_name :: string
  rr_invite_code :: "string option"

text \<open>The registration policy: whether the account would be the administrator, and the invite it
  has to consume.\<close>

definition registration_policy ::
  "(string \<Rightarrow> string) \<Rightarrow> config \<Rightarrow> db \<Rightarrow> string \<Rightarrow> string option \<Rightarrow> api_error + (bool \<times> string option)" where
  "registration_policy th cfg d handle code0 =
     (if users_count d = 0 then
        (case bootstrap_admin cfg of
           Some want \<Rightarrow>
             if handle \<noteq> want then
               Inl (api_err 403 ''the first account must use the configured HUB_BOOTSTRAP_ADMIN handle'')
             else Inr (True, None)
         | None \<Rightarrow> Inr (True, None))
      else if allow_open_registration cfg then Inr (False, None)
      else
        (let c = (case code0 of None \<Rightarrow> [] | Some x \<Rightarrow> trim x) in
         if c = [] then
           Inl (api_err 403 ''an invite code is required to register; ask an administrator for one'')
         else if \<not> is_redeemable th d c then
           Inl (api_err 403 ''that invite code is invalid or has already been used'')
         else Inr (False, Some c)))"

definition register_start ::
  "webauthn \<Rightarrow> (string \<Rightarrow> string) \<Rightarrow> config \<Rightarrow> int \<Rightarrow> entropy \<Rightarrow> auth_world \<Rightarrow> register_request \<Rightarrow>
   auth_world \<times> (api_error + challenge)" where
  "register_start wn th cfg now en w q =
     (let handle = trim (rr_handle q); display_name = trim (rr_display_name q); d = aw_db w in
      if handle = [] \<or> display_name = [] then (w, Inl (bad ''handle and display name are required''))
      else
        (case registration_policy th cfg d handle (rr_invite_code q) of
           Inl e \<Rightarrow> (w, Inl e)
         | Inr (is_admin, invite_code) \<Rightarrow>
             if find_by_handle d handle \<noteq> None then (w, Inl (api_err 409 ''that handle is taken''))
             else
               (case wn_start_registration wn (en_uuid en) handle display_name None of
                  Inl e \<Rightarrow> (w, Inl (bad (''could not start registration: '' @ e)))
                | Inr (ccr, st) \<Rightarrow>
                    (case insert_ceremony rc_created_at now (aw_reg_states w) (en_ceremony en)
                            \<lparr>rc_state = st, rc_user_id = en_uuid en, rc_handle = handle,
                             rc_display_name = display_name, rc_purpose = NewUser is_admin invite_code,
                             rc_created_at = now\<rparr> of
                       Inl e \<Rightarrow>
                         (w\<lparr>aw_reg_states := hm_retain (\<lambda>_ x. now - rc_created_at x < CEREMONY_TTL_SECS)
                                              (aw_reg_states w)\<rparr>, Inl e)
                     | Inr m \<Rightarrow>
                         (w\<lparr>aw_reg_states := m\<rparr>,
                          Inr \<lparr>ch_challenge = ccr, ch_cookie = ceremony_cookie (en_ceremony en) (cookie_secure cfg)\<rparr>)))))"

definition start_add_credential ::
  "webauthn \<Rightarrow> config \<Rightarrow> int \<Rightarrow> entropy \<Rightarrow> auth_world \<Rightarrow> user_row \<Rightarrow> string option \<Rightarrow>
   auth_world \<times> (api_error + challenge)" where
  "start_add_credential wn cfg now en w user recovery_code =
     (case wn_parse_uuid wn (u_id user) of
        None \<Rightarrow> (w, Inl (api_err 500 ''internal error''))
      | Some user_id \<Rightarrow>
          (case passkeys_for_user (wn_deser wn) (aw_db w) (u_id user) of
             Inl e \<Rightarrow> (w, Inl (internal_api e))
           | Inr existing \<Rightarrow>
               (case wn_start_registration wn user_id (u_handle user) (u_display_name user)
                       (Some (map (wn_cred_id wn) existing)) of
                  Inl e \<Rightarrow> (w, Inl (bad (''could not start enrollment: '' @ e)))
                | Inr (ccr, st) \<Rightarrow>
                    (case insert_ceremony rc_created_at now (aw_reg_states w) (en_ceremony en)
                            \<lparr>rc_state = st, rc_user_id = user_id, rc_handle = u_handle user,
                             rc_display_name = u_display_name user, rc_purpose = AddCredential recovery_code,
                             rc_created_at = now\<rparr> of
                       Inl e \<Rightarrow>
                         (w\<lparr>aw_reg_states := hm_retain (\<lambda>_ x. now - rc_created_at x < CEREMONY_TTL_SECS)
                                              (aw_reg_states w)\<rparr>, Inl e)
                     | Inr m \<Rightarrow>
                         (w\<lparr>aw_reg_states := m\<rparr>,
                          Inr \<lparr>ch_challenge = ccr, ch_cookie = ceremony_cookie (en_ceremony en) (cookie_secure cfg)\<rparr>)))))"

definition recover_start ::
  "webauthn \<Rightarrow> (string \<Rightarrow> string) \<Rightarrow> config \<Rightarrow> int \<Rightarrow> entropy \<Rightarrow> auth_world \<Rightarrow> string \<Rightarrow> string \<Rightarrow>
   auth_world \<times> (api_error + challenge)" where
  "recover_start wn th cfg now en w handle0 code0 =
     (let c = trim code0; invalid = api_err 403 ''invalid handle or recovery code'' in
      case find_by_handle (aw_db w) (trim handle0) of
        None \<Rightarrow> (w, Inl invalid)
      | Some user \<Rightarrow>
          if u_disabled user then (w, Inl invalid)
          else if c = [] \<or> \<not> is_recovery_redeemable th (aw_db w) c (u_id user) then (w, Inl invalid)
          else start_add_credential wn cfg now en w user (Some c))"

text \<open>The account a finished ceremony belongs to: created now, with its invite consumed, or the
  existing one, with its recovery code consumed.\<close>

definition resolve_account ::
  "(string \<Rightarrow> string) \<Rightarrow> int \<Rightarrow> db \<Rightarrow> reg_ceremony \<Rightarrow> db \<times> (api_error + string)" where
  "resolve_account th now d c =
     (case rc_purpose c of
        NewUser is_admin invite_code \<Rightarrow>
          if find_by_handle d (rc_handle c) \<noteq> None then (d, Inl (api_err 409 ''that handle is taken''))
          else
            (case (if is_admin then create_admin_if_first now d (rc_user_id c) (rc_handle c) (rc_display_name c)
                   else users_create now d (rc_user_id c) (rc_handle c) (rc_display_name c) False) of
               Inl e \<Rightarrow> (d, Inl (internal_api e))
             | Inr (d1, user) \<Rightarrow>
                 (case invite_code of
                    None \<Rightarrow> (d1, Inr (u_id user))
                  | Some code0 \<Rightarrow>
                      (case redeem th now d1 code0 (u_id user) of
                         Inl e \<Rightarrow> (users_delete d1 (u_id user), Inl (api_err 409 e))
                       | Inr d2 \<Rightarrow> (d2, Inr (u_id user)))))
      | AddCredential recovery_code \<Rightarrow>
          (case recovery_code of
             None \<Rightarrow> (d, Inr (rc_user_id c))
           | Some code0 \<Rightarrow>
               (case redeem th now d code0 (rc_user_id c) of
                  Inl e \<Rightarrow> (d, Inl (api_err 409 e))
                | Inr d1 \<Rightarrow> (d1, Inr (rc_user_id c)))))"

text \<open>The end of both finish handlers: the session and the cookies.\<close>

definition finish_session :: "config \<Rightarrow> signed_jar \<Rightarrow> string \<Rightarrow> finish_response" where
  "finish_session cfg jar sid =
     \<lparr>fr_redirect = take_next jar,
      fr_cookies = [session_cookie sid (cookie_secure cfg), clear_ceremony_cookie (cookie_secure cfg),
                    clear_next_cookie (cookie_secure cfg)]\<rparr>"

definition register_finish ::
  "webauthn \<Rightarrow> (string \<Rightarrow> string) \<Rightarrow> config \<Rightarrow> int \<Rightarrow> entropy \<Rightarrow> auth_world \<Rightarrow> signed_jar \<Rightarrow> header_map \<Rightarrow> string \<Rightarrow>
   auth_world \<times> (api_error + finish_response)" where
  "register_finish wn th cfg now en w jar headers cred =
     (let info = from_headers headers in
      case ceremony_id jar of
        None \<Rightarrow> (w, Inl (bad ''no registration in progress''))
      | Some cid \<Rightarrow>
     (case hm_get (aw_reg_states w) cid of
        None \<Rightarrow> (w, Inl (bad ''registration expired; please try again''))
      | Some c \<Rightarrow>
          (let w1 = w\<lparr>aw_reg_states := hm_remove cid (aw_reg_states w)\<rparr> in
     (case wn_finish_registration wn cred (rc_state c) of
        Inl e \<Rightarrow> (w1, Inl (bad (''registration failed: '' @ e)))
      | Inr passkey \<Rightarrow>
     (case resolve_account th now (aw_db w1) c of
        (d1, Inl e) \<Rightarrow> (w1\<lparr>aw_db := d1\<rparr>, Inl e)
      | (d1, Inr user_id) \<Rightarrow>
     (case insert_credential (wn_ser wn) (wn_cred_id wn) (en_credential en) now d1 user_id passkey ''passkey'' of
        Inl e \<Rightarrow> (w1\<lparr>aw_db := d1\<rparr>, Inl (internal_api e))
      | Inr d2 \<Rightarrow>
     (case session_create now (en_session en) d2 user_id info (session_idle_ttl_secs cfg) of
        Inl e \<Rightarrow> (w1\<lparr>aw_db := d2\<rparr>, Inl (internal_api e))
      | Inr (d3, sid) \<Rightarrow> (w1\<lparr>aw_db := d3\<rparr>, Inr (finish_session cfg jar sid)))))))))"

section \<open>Login and logout\<close>

definition login_start ::
  "webauthn \<Rightarrow> config \<Rightarrow> int \<Rightarrow> entropy \<Rightarrow> auth_world \<Rightarrow> string \<Rightarrow> auth_world \<times> (api_error + challenge)" where
  "login_start wn cfg now en w handle0 =
     (let unknown = api_err 401 ''could not start sign-in'' in
      case find_by_handle (aw_db w) (trim handle0) of
        None \<Rightarrow> (w, Inl unknown)
      | Some user \<Rightarrow>
          if u_disabled user then (w, Inl unknown)
          else
            (case passkeys_for_user (wn_deser wn) (aw_db w) (u_id user) of
               Inl e \<Rightarrow> (w, Inl (internal_api e))
             | Inr passkeys \<Rightarrow>
                 if passkeys = [] then (w, Inl unknown)
                 else
                   (case wn_start_authentication wn passkeys of
                      Inl e \<Rightarrow> (w, Inl (bad (''could not start authentication: '' @ e)))
                    | Inr (rcr, st) \<Rightarrow>
                        (case insert_ceremony au_created_at now (aw_auth_states w) (en_ceremony en)
                                \<lparr>au_state = st, au_ceremony_user = u_id user, au_created_at = now\<rparr> of
                           Inl e \<Rightarrow>
                             (w\<lparr>aw_auth_states := hm_retain (\<lambda>_ x. now - au_created_at x < CEREMONY_TTL_SECS)
                                                   (aw_auth_states w)\<rparr>, Inl e)
                         | Inr m \<Rightarrow>
                             (w\<lparr>aw_auth_states := m\<rparr>,
                              Inr \<lparr>ch_challenge = rcr,
                                   ch_cookie = ceremony_cookie (en_ceremony en) (cookie_secure cfg)\<rparr>)))))"

text \<open>The stored signature counter moves on when the authenticator reports a change.\<close>

definition advance_counter :: "webauthn \<Rightarrow> db \<Rightarrow> string \<Rightarrow> auth_result \<Rightarrow> db" where
  "advance_counter wn d user_id r =
     (if ar_needs_update r then
        (case passkeys_for_user (wn_deser wn) d user_id of
           Inl _ \<Rightarrow> d
         | Inr pks \<Rightarrow>
             (case List.find (\<lambda>pk. wn_cred_id wn pk = ar_cred_id r) pks of
                None \<Rightarrow> d
              | Some pk \<Rightarrow> update_credential (wn_ser wn) (wn_cred_id wn) d (wn_update wn pk r)))
      else d)"

definition login_finish ::
  "webauthn \<Rightarrow> config \<Rightarrow> int \<Rightarrow> entropy \<Rightarrow> auth_world \<Rightarrow> signed_jar \<Rightarrow> header_map \<Rightarrow> string \<Rightarrow>
   auth_world \<times> (api_error + finish_response)" where
  "login_finish wn cfg now en w jar headers cred =
     (let info = from_headers headers in
      case ceremony_id jar of
        None \<Rightarrow> (w, Inl (bad ''no login in progress''))
      | Some cid \<Rightarrow>
     (case hm_get (aw_auth_states w) cid of
        None \<Rightarrow> (w, Inl (bad ''login expired; please try again''))
      | Some c \<Rightarrow>
          (let w1 = w\<lparr>aw_auth_states := hm_remove cid (aw_auth_states w)\<rparr> in
     (case wn_finish_authentication wn cred (au_state c) of
        Inl e \<Rightarrow> (w1, Inl (api_err 401 (''login failed: '' @ e)))
      | Inr r \<Rightarrow>
          (let d1 = advance_counter wn (aw_db w1) (au_ceremony_user c) r;
               d2 = touch_credential now d1 (ar_cred_id r) info in
           case session_create now (en_session en) d2 (au_ceremony_user c) info (session_idle_ttl_secs cfg) of
             Inl e \<Rightarrow> (w1\<lparr>aw_db := d2\<rparr>, Inl (internal_api e))
           | Inr (d3, sid) \<Rightarrow> (w1\<lparr>aw_db := d3\<rparr>, Inr (finish_session cfg jar sid)))))))"

definition logout ::
  "(string \<Rightarrow> string) \<Rightarrow> (string \<Rightarrow> string) \<Rightarrow> config \<Rightarrow> int \<Rightarrow> auth_world \<Rightarrow> signed_jar \<Rightarrow> string \<Rightarrow>
   auth_world \<times> (api_error + cookie)" where
  "logout b64url sha256 cfg now w jar csrf =
     (if \<not> check_csrf b64url sha256 jar (master_key cfg) csrf then
        (w, Inl (api_err 403 ''invalid security token''))
      else
        (let d = (case current_session_id jar of
                    None \<Rightarrow> aw_db w
                  | Some sid \<Rightarrow> session_delete (fst (user_for_session now (aw_db w) sid)) sid) in
         (w\<lparr>aw_db := d\<rparr>, Inr (clear_session_cookie (cookie_secure cfg)))))"

end
