(* ===== verification/Hub_Webauthn_Safety.thy ===== *)
theory Hub_Webauthn_Safety
  imports Hub_Webauthn
begin

text \<open>
  The ceremonies as a transition system: any interleaving of starting and finishing
  registrations, enrolments, recoveries, logins and logouts. The invariant is the invite-only
  policy: accounts plus unspent codes never grow. Two gaps of the handlers are stated too: a
  registration begun before the first account existed, and a login begun before the account was
  disabled, both still complete.
\<close>

section \<open>The ceremony store is bounded\<close>

lemma insert_ceremony_Inr:
  "insert_ceremony created now m k v = Inr m' \<Longrightarrow>
     m' = hm_insert k v (hm_retain (\<lambda>_ x. now - created x < CEREMONY_TTL_SECS) m) \<and>
     length (hm_retain (\<lambda>_ x. now - created x < CEREMONY_TTL_SECS) m) < CEREMONY_CAP"
  by (auto simp: insert_ceremony_def Let_def split: if_splits)

definition insert_reg :: "int \<Rightarrow> string \<Rightarrow> reg_ceremony \<Rightarrow> (string, reg_ceremony) hash_map \<Rightarrow> (string, reg_ceremony) hash_map option" where
  "insert_reg now k c m = (case insert_ceremony rc_created_at now m k c of Inl _ \<Rightarrow> None | Inr m' \<Rightarrow> Some m')"

interpretation ceremony_cap: capped_store insert_reg CEREMONY_CAP "\<lambda>now c. now - rc_created_at c < CEREMONY_TTL_SECS"
proof unfold_locales
  fix m m' now k c
  assume "insert_reg now k c m = Some m'"
  then have i: "m' = hm_insert k c (hm_retain (\<lambda>_ x. now - rc_created_at x < CEREMONY_TTL_SECS) m)"
    "length (hm_retain (\<lambda>_ x. now - rc_created_at x < CEREMONY_TTL_SECS) m) < CEREMONY_CAP"
    by (auto simp: insert_reg_def dest!: insert_ceremony_Inr split: sum.splits)
  show "length m' \<le> CEREMONY_CAP"
    using i length_hm_insert[of k c "hm_retain (\<lambda>_ x. now - rc_created_at x < CEREMONY_TTL_SECS) m"] by auto
  show "map_of m' k = Some c" using i by (simp add: hm_insert_def)
  fix j x
  assume "j \<noteq> k" "(j, x) \<in> set m'"
  with i show "(j, x) \<in> set m \<and> now - rc_created_at x < CEREMONY_TTL_SECS"
    by (auto simp: hm_insert_def hm_remove_def hm_retain_def)
next
  fix m :: "(string, reg_ceremony) hash_map" and now k c
  show "insert_reg now k c m = None \<longleftrightarrow>
        CEREMONY_CAP \<le> length (filter (\<lambda>(_, x). now - rc_created_at x < CEREMONY_TTL_SECS) m)"
    by (auto simp: insert_reg_def insert_ceremony_def Let_def hm_retain_def split: if_splits)
qed

section \<open>Transition system\<close>

inductive auth_step :: "webauthn \<Rightarrow> (string \<Rightarrow> string) \<Rightarrow> config \<Rightarrow> auth_world \<Rightarrow> auth_world \<Rightarrow> bool"
  for wn :: webauthn and th :: "string \<Rightarrow> string" and cfg :: config where
  reg_start: "auth_step wn th cfg w (fst (register_start wn th cfg now en w q))"
| add_start: "auth_step wn th cfg w (fst (start_add_credential wn cfg now en w user None))"
| recovery: "auth_step wn th cfg w (fst (recover_start wn th cfg now en w handle code0))"
| reg_finish: "auth_step wn th cfg w (fst (register_finish wn th cfg now en w jar headers cred))"
| log_start: "auth_step wn th cfg w (fst (login_start wn cfg now en w handle))"
| log_finish: "auth_step wn th cfg w (fst (login_finish wn cfg now en w jar headers cred))"
| log_out: "auth_step wn th cfg w (fst (logout b64url sha256 cfg now w jar csrf))"

inductive_cases auth_stepE: "auth_step wn th cfg w w'"

definition unspent_codes :: "db \<Rightarrow> nat" where
  "unspent_codes d = tbl_count (\<lambda>r. iv_used_at r = None) (invites d)"

definition invited :: "reg_ceremony \<Rightarrow> bool" where
  "invited c \<longleftrightarrow> (\<forall>adm. rc_purpose c \<noteq> NewUser adm None)"

definition all_invited :: "(string, reg_ceremony) hash_map \<Rightarrow> bool" where
  "all_invited m \<longleftrightarrow> (\<forall>c\<in>snd ` set m. invited c)"

definition budget :: "auth_world \<Rightarrow> nat" where
  "budget w = length (users (aw_db w)) + unspent_codes (aw_db w)"

definition closed_inv :: "config \<Rightarrow> nat \<Rightarrow> auth_world \<Rightarrow> bool" where
  "closed_inv cfg K w \<longleftrightarrow>
     \<not> allow_open_registration cfg \<and> users (aw_db w) \<noteq> [] \<and> all_invited (aw_reg_states w) \<and> budget w \<le> K"

definition closed_init :: "config \<Rightarrow> nat \<Rightarrow> auth_world \<Rightarrow> bool" where
  "closed_init cfg K w \<longleftrightarrow>
     \<not> allow_open_registration cfg \<and> users (aw_db w) \<noteq> [] \<and> all_invited (aw_reg_states w) \<and> K = budget w"

section \<open>Lemmas\<close>

lemma all_invited_insert: "all_invited m \<Longrightarrow> invited c \<Longrightarrow> all_invited (hm_insert k c m)"
  by (auto simp: all_invited_def hm_insert_def hm_remove_def)

lemma all_invited_retain: "all_invited m \<Longrightarrow> all_invited (hm_retain P m)"
  by (auto simp: all_invited_def hm_retain_def)

lemma all_invited_remove: "all_invited m \<Longrightarrow> all_invited (hm_remove k m)"
  by (auto simp: all_invited_def hm_remove_def)

lemma all_invited_get: "all_invited m \<Longrightarrow> hm_get m k = Some c \<Longrightarrow> invited c"
  by (force simp: all_invited_def hm_get_def dest: map_of_SomeD)

text \<open>The database parts the budget reads are those of users and invites only.\<close>

definition same_budget :: "db \<Rightarrow> db \<Rightarrow> bool" where
  "same_budget d d' \<longleftrightarrow> users d' = users d \<and> invites d' = invites d"

lemma same_budget_ops:
  "session_create now sid d u info ttl = Inr (d', s) \<Longrightarrow> same_budget d d'"
  "insert_credential ser cid i now d u pk name = Inr d' \<Longrightarrow> same_budget d d'"
  "same_budget d (touch_credential now d c info)"
  "same_budget d (advance_counter wn d u r)"
  "same_budget d (session_delete d sid)"
  "same_budget d (fst (user_for_session now d sid))"
  by (auto simp: same_budget_def session_create_def insert_credential_def insert_cred_def touch_credential_def
      advance_counter_def update_credential_def session_delete_def user_for_session_def
      split: if_splits sum.splits option.splits)

lemma same_budget_trans: "same_budget a b \<Longrightarrow> same_budget b c \<Longrightarrow> same_budget a c"
  by (simp add: same_budget_def)

lemma closed_inv_db:
  "closed_inv cfg K w \<Longrightarrow> same_budget (aw_db w) d \<Longrightarrow> closed_inv cfg K (w\<lparr>aw_db := d\<rparr>)"
  by (simp add: closed_inv_def budget_def unspent_codes_def same_budget_def)

lemma closed_inv_auth: "closed_inv cfg K (w\<lparr>aw_auth_states := m\<rparr>) = closed_inv cfg K w"
  by (simp add: closed_inv_def budget_def)

lemma closed_inv_reg:
  "closed_inv cfg K w \<Longrightarrow> all_invited m \<Longrightarrow> closed_inv cfg K (w\<lparr>aw_reg_states := m\<rparr>)"
  by (simp add: closed_inv_def budget_def)

text \<open>Redeeming spends exactly one code.\<close>

lemma tbl_count_update_one:
  assumes "tbl_count P t = 1" "\<And>r. P r \<Longrightarrow> Q r" "\<And>r. \<not> Q (f r)"
  shows "Suc (tbl_count Q (tbl_update P f t)) = tbl_count Q t"
  using assms(1)
proof (induction t)
  case (Cons r t)
  show ?case
  proof (cases "P r")
    case True
    with Cons.prems have "tbl_count P t = 0" by (simp add: tbl_count_def)
    then have "\<forall>x\<in>set t. \<not> P x" by (simp add: tbl_count_0)
    then have "tbl_update P f t = t" unfolding tbl_update_def by (intro map_idI) simp
    with True assms(2,3) show ?thesis by (simp add: tbl_count_def tbl_update_def)
  next
    case False
    with Cons show ?thesis by (simp add: tbl_count_def tbl_update_def)
  qed
qed (simp add: tbl_count_def)

lemma redeem_budget:
  assumes "redeem th now d c u = Inr d'"
  shows "users d' = users d \<and> Suc (unspent_codes d') = unspent_codes d"
proof -
  let ?P = "\<lambda>r. iv_code_hash r = th (trim c) \<and> iv_used_at r = None"
  let ?f = "\<lambda>r. r\<lparr>iv_used_at := Some now, iv_used_by := Some u\<rparr>"
  have "tbl_count ?P (invites d) = 1" "d' = d\<lparr>invites := tbl_update ?P ?f (invites d)\<rparr>"
    using assms by (auto simp: redeem_def redeem_hash_def Let_def split: if_splits)
  with tbl_count_update_one[of ?P "invites d" "\<lambda>r. iv_used_at r = None" ?f] show ?thesis
    by (simp add: unspent_codes_def)
qed

lemma delete_user_unspent: "unspent_codes (delete_user u d) \<le> unspent_codes d"
proof -
  let ?g = "\<lambda>r. r\<lparr>iv_created_by := set_null u (iv_created_by r), iv_used_by := set_null u (iv_used_by r)\<rparr>"
  have "tbl_count (\<lambda>r. iv_used_at r = None) (map ?g (tbl_delete P t)) \<le> tbl_count (\<lambda>r. iv_used_at r = None) t"
    for P and t :: "invite_row table"
    by (induction t) (auto simp: tbl_count_def tbl_delete_def)
  then show ?thesis
    by (simp add: unspent_codes_def delete_user_def delete_groups_def delete_instances_def Let_def)
qed

lemma insert_user_rollback:
  assumes "insert_user d r = Inr d1"
  shows "users (users_delete d1 (u_id r)) = users d" "unspent_codes (users_delete d1 (u_id r)) \<le> unspent_codes d"
proof -
  have d1: "u_id r \<notin> u_id ` set (users d)" "d1 = d\<lparr>users := users d @ [r]\<rparr>"
    using assms by (auto simp: insert_user_Inr)
  have "\<forall>x\<in>set (users d). u_id x \<noteq> u_id r" using d1(1) by (metis imageI)
  then have "filter (\<lambda>x. u_id x \<noteq> u_id r) (users d) = users d" by (simp add: filter_id_conv)
  then show "users (users_delete d1 (u_id r)) = users d"
    by (simp add: users_delete_def users_delete_user d1(2) tbl_delete_def)
  show "unspent_codes (users_delete d1 (u_id r)) \<le> unspent_codes d"
    using delete_user_unspent[of "u_id r" d1] by (simp add: users_delete_def d1(2) unspent_codes_def)
qed

lemma create_user_cases:
  assumes "(if adm then create_admin_if_first now d i h n else users_create now d i h n False) = Inr (d1, user)"
  shows "insert_user d user = Inr d1 \<and> u_id user = i \<and> u_handle user = h \<and>
         u_is_admin user = (adm \<and> users_count d = 0)"
  using assms by (auto simp: create_admin_if_first_def users_create_def Let_def split: if_splits sum.splits)

text \<open>Resolving an invited ceremony keeps the budget.\<close>

lemma resolve_account_budget:
  assumes "resolve_account th now d c = (d', r)" "invited c" "users d \<noteq> []"
  shows "users d' \<noteq> [] \<and> length (users d') + unspent_codes d' \<le> length (users d) + unspent_codes d"
proof (cases "rc_purpose c")
  case (NewUser adm code0)
  with assms(2) obtain co where co: "code0 = Some co" by (cases code0) (auto simp: invited_def)
  let ?create = "if adm then create_admin_if_first now d (rc_user_id c) (rc_handle c) (rc_display_name c)
     else users_create now d (rc_user_id c) (rc_handle c) (rc_display_name c) False"
  show ?thesis
  proof (cases "find_by_handle d (rc_handle c) \<noteq> None \<or> isl ?create")
    case True
    then have "d' = d" using assms(1) NewUser
      by (auto simp: resolve_account_def isl_def split: sum.splits option.splits if_splits)
    with assms(3) show ?thesis by simp
  next
    case False
    then obtain d1 user where cr: "?create = Inr (d1, user)" by (cases ?create) auto
    from create_user_cases[OF cr] have ins: "insert_user d user = Inr d1" by blast
    then have d1: "users d1 = users d @ [user]" "unspent_codes d1 = unspent_codes d"
      by (auto simp: insert_user_Inr unspent_codes_def)
    show ?thesis
    proof (cases "redeem th now d1 co (u_id user)")
      case (Inl e)
      with assms(1) NewUser False cr co have "d' = users_delete d1 (u_id user)"
        by (simp add: resolve_account_def)
      with insert_user_rollback[OF ins] assms(3) show ?thesis by simp
    next
      case (Inr d2)
      with assms(1) NewUser False cr co have "d' = d2" by (simp add: resolve_account_def)
      with redeem_budget[OF Inr] d1 show ?thesis by simp
    qed
  qed
next
  case (AddCredential code0)
  with assms(1) show ?thesis
    using assms(3) by (auto simp: resolve_account_def dest!: redeem_budget split: option.splits sum.splits)
qed

lemma start_add_credential_inv:
  assumes "closed_inv cfg K w"
  shows "closed_inv cfg K (fst (start_add_credential wn cfg' now en w user rc))"
proof -
  have "all_invited (aw_reg_states w)" using assms by (simp add: closed_inv_def)
  moreover have "invited \<lparr>rc_state = st, rc_user_id = i, rc_handle = h, rc_display_name = n,
      rc_purpose = AddCredential rc, rc_created_at = now\<rparr>" for st i h n by (simp add: invited_def)
  ultimately show ?thesis
    using assms
    by (auto simp: start_add_credential_def intro!: closed_inv_reg all_invited_insert all_invited_retain
        dest!: insert_ceremony_Inr split: option.splits sum.splits prod.splits)
qed

lemma register_start_inv:
  assumes "closed_inv cfg K w"
  shows "closed_inv cfg K (fst (register_start wn th cfg now en w q))"
proof -
  have a: "all_invited (aw_reg_states w)" and u: "users_count (aw_db w) \<noteq> 0" "\<not> allow_open_registration cfg"
    using assms by (auto simp: closed_inv_def users_count_def)
  have "invited \<lparr>rc_state = st, rc_user_id = i, rc_handle = h, rc_display_name = n,
      rc_purpose = NewUser adm co, rc_created_at = now\<rparr>"
    if "registration_policy th cfg (aw_db w) h c = Inr (adm, co)" for st i h n adm co c
    using that u by (auto simp: registration_policy_def invited_def Let_def split: if_splits)
  with a assms show ?thesis
    by (auto simp: register_start_def Let_def intro!: closed_inv_reg all_invited_insert all_invited_retain
        dest!: insert_ceremony_Inr split: option.splits sum.splits prod.splits)
qed

lemma register_finish_inv:
  assumes "closed_inv cfg K w"
  shows "closed_inv cfg K (fst (register_finish wn th cfg' now en w jar headers cred))"
proof (cases "Option.bind (ceremony_id jar) (hm_get (aw_reg_states w))")
  case None
  with assms show ?thesis by (auto simp: register_finish_def Let_def split: option.splits bind_splits)
next
  case (Some c)
  then obtain cid where cid: "ceremony_id jar = Some cid" "hm_get (aw_reg_states w) cid = Some c"
    by (auto split: bind_splits)
  let ?w1 = "w\<lparr>aw_reg_states := hm_remove cid (aw_reg_states w)\<rparr>"
  have inv1: "closed_inv cfg K ?w1" and ci: "invited c"
    using assms cid(2) by (auto simp: closed_inv_def budget_def intro: all_invited_remove all_invited_get)
  obtain d1 r where ra: "resolve_account th now (aw_db w) c = (d1, r)" by fastforce
  have inv2: "closed_inv cfg K (?w1\<lparr>aw_db := d1\<rparr>)"
    using inv1 resolve_account_budget[OF ra ci] by (auto simp: closed_inv_def budget_def)
  have inv3: "closed_inv cfg K (?w1\<lparr>aw_db := d2\<rparr>)" if "same_budget d1 d2" for d2
    using closed_inv_db[OF inv2, of d2] that by simp
  show ?thesis
  proof (cases "wn_finish_registration wn cred (rc_state c)")
    case (Inl e)
    with cid inv1 show ?thesis by (simp add: register_finish_def)
  next
    case pk: (Inr pk)
    show ?thesis
    proof (cases r)
      case (Inl e)
      with cid pk ra inv2 show ?thesis by (simp add: register_finish_def)
    next
      case r: (Inr uid)
      show ?thesis
      proof (cases "insert_credential (wn_ser wn) (wn_cred_id wn) (en_credential en) now d1 uid pk ''passkey''")
        case (Inl e)
        with cid pk ra r inv2 show ?thesis by (simp add: register_finish_def)
      next
        case d2: (Inr d2)
        note sb = same_budget_ops(2)[OF d2]
        show ?thesis
        proof (cases "session_create now (en_session en) d2 uid (from_headers headers) (session_idle_ttl_secs cfg')")
          case (Inl e)
          with cid pk ra r d2 inv3[OF sb] show ?thesis by (simp add: register_finish_def)
        next
          case (Inr x)
          obtain d3 sid where x: "x = (d3, sid)" by (cases x)
          with Inr cid pk ra r d2 inv3[OF same_budget_trans[OF sb same_budget_ops(1)[OF Inr[unfolded x]]]]
          show ?thesis by (simp add: register_finish_def)
        qed
      qed
    qed
  qed
qed

lemma login_inv:
  assumes "closed_inv cfg K w"
  shows "closed_inv cfg K (fst (login_start wn cfg' now en w h))"
    and "closed_inv cfg K (fst (login_finish wn cfg' now en w jar headers cred))"
    and "closed_inv cfg K (fst (logout b64url sha256 cfg' now w jar csrf))"
proof -
  show "closed_inv cfg K (fst (login_start wn cfg' now en w h))"
    using assms by (auto simp: login_start_def Let_def closed_inv_auth split: option.splits sum.splits prod.splits)
  have db: "closed_inv cfg K (w\<lparr>aw_auth_states := m, aw_db := d\<rparr>)" if "same_budget (aw_db w) d" for d m
    using closed_inv_db[of cfg K "w\<lparr>aw_auth_states := m\<rparr>" d] assms that by (simp add: closed_inv_auth)
  have "same_budget d (touch_credential now (advance_counter wn d u r) c i)" for d u r c i
    using same_budget_trans same_budget_ops(3,4) by blast
  then show "closed_inv cfg K (fst (login_finish wn cfg' now en w jar headers cred))"
    using assms db same_budget_ops(1) same_budget_trans
    by (auto simp: login_finish_def Let_def closed_inv_auth split: option.splits sum.splits prod.splits) blast+
  have "same_budget d (session_delete (fst (user_for_session now d sid)) sid)" for d sid
    using same_budget_trans same_budget_ops(5,6) by blast
  then show "closed_inv cfg K (fst (logout b64url sha256 cfg' now w jar csrf))"
    using assms by (auto simp: logout_def Let_def intro!: closed_inv_db split: option.splits)
qed

lemma recover_start_inv:
  "closed_inv cfg K w \<Longrightarrow> closed_inv cfg K (fst (recover_start wn th cfg' now en w h c))"
  by (auto simp: recover_start_def Let_def start_add_credential_inv split: option.splits)

lemma auth_step_inv: "closed_inv cfg K w \<Longrightarrow> auth_step wn th cfg w w' \<Longrightarrow> closed_inv cfg K w'"
  by (erule auth_stepE)
    (simp_all add: register_start_inv start_add_credential_inv recover_start_inv register_finish_inv login_inv)

interpretation ceremonies: invariant_system "closed_init cfg K" "auth_step wn th cfg" "closed_inv cfg K"
  for cfg K wn th
proof unfold_locales
  show "closed_init cfg K w \<Longrightarrow> closed_inv cfg K w" for w by (simp add: closed_init_def closed_inv_def)
qed (rule auth_step_inv)

section \<open>Properties\<close>


definition demo_wn :: webauthn where
  "demo_wn = \<lparr>wn_parse_uuid = Some, wn_start_registration = (\<lambda>u h n ex. Inr (''challenge'', ''state'')),
     wn_finish_registration = (\<lambda>c st. Inr c), wn_start_authentication = (\<lambda>pks. Inr (''challenge'', ''state'')),
     wn_finish_authentication = (\<lambda>c st. Inr \<lparr>ar_cred_id = c, ar_needs_update = False\<rparr>), wn_deser = Some,
     wn_ser = id, wn_cred_id = id, wn_update = (\<lambda>pk r. pk)\<rparr>"

definition demo_en :: entropy where
  "demo_en = \<lparr>en_uuid = ''u3'', en_ceremony = ''cer'', en_credential = ''row'', en_session = ''sid''\<rparr>"

definition demo_jar :: signed_jar where
  "demo_jar = (\<lambda>n. if n = CEREMONY_COOKIE then Some ''cer'' else None)"

definition demo_start :: auth_world where
  "demo_start = fst (register_start demo_wn id demo_cfg 10 demo_en
     \<lparr>aw_db = demo_db, aw_reg_states = [], aw_auth_states = []\<rparr>
     \<lparr>rr_handle = ''eve'', rr_display_name = ''Eve'', rr_invite_code = Some '' h1 ''\<rparr>)"

definition demo_end :: auth_world where
  "demo_end = fst (register_finish demo_wn id demo_cfg 20 demo_en demo_start demo_jar (\<lambda>_. None) ''cred'')"

lemma demo_start_reg: "aw_reg_states demo_start = [(''cer'', \<lparr>rc_state = ''state'', rc_user_id = ''u3'',
    rc_handle = ''eve'', rc_display_name = ''Eve'', rc_purpose = NewUser False (Some ''h1''), rc_created_at = 10\<rparr>)]"
  and demo_start_db: "aw_db demo_start = demo_db"
proof -
  have r: "is_redeemable id demo_db ''h1''" by code_simp
  have f: "find_by_handle demo_db ''eve'' = None" by code_simp
  have t: "trim ''eve'' = ''eve''" "trim ''Eve'' = ''Eve''" "trim '' h1 '' = ''h1''" by code_simp+
  have c: "users_count demo_db = 2" by (simp add: users_count_def demo_db_def)
  note simps = demo_start_def register_start_def registration_policy_def demo_cfg_def r f t c demo_wn_def demo_en_def
    insert_ceremony_def hm_retain_def hm_insert_def hm_remove_def CEREMONY_CAP_def
  show "aw_reg_states demo_start = [(''cer'', \<lparr>rc_state = ''state'', rc_user_id = ''u3'',
    rc_handle = ''eve'', rc_display_name = ''Eve'', rc_purpose = NewUser False (Some ''h1''), rc_created_at = 10\<rparr>)]"
    "aw_db demo_start = demo_db"
    by (simp_all add: simps)
qed

lemma demo_end_users: "length (users (aw_db demo_end)) = 3"
proof -
  let ?c = "\<lparr>rc_state = ''state'', rc_user_id = ''u3'', rc_handle = ''eve'', rc_display_name = ''Eve'',
    rc_purpose = NewUser False (Some ''h1''), rc_created_at = 10\<rparr>"
  obtain d1 where ra: "resolve_account id 20 demo_db ?c = (d1, Inr ''u3'')" "length (users d1) = 3"
    "webauthn_credentials d1 = []" "web_sessions d1 = []" "has_user d1 ''u3''"
  proof
    let ?d1 = "fst (resolve_account id 20 demo_db ?c)"
    have "snd (resolve_account id 20 demo_db ?c) = Inr ''u3''" by code_simp
    then show "resolve_account id 20 demo_db ?c = (?d1, Inr ''u3'')" by (metis prod.collapse)
    show "length (users ?d1) = 3" by code_simp
    have "list_all (\<lambda>_. False) (webauthn_credentials ?d1)" "list_all (\<lambda>_. False) (web_sessions ?d1)" by code_simp+
    then show "webauthn_credentials ?d1 = []" "web_sessions ?d1 = []" by (simp_all add: list_all_iff)
    show "has_user ?d1 ''u3''" by code_simp
  qed
  then show ?thesis
    by (simp add: demo_end_def register_finish_def demo_jar_def ceremony_id_def demo_start_reg demo_start_db hm_get_def
        insert_credential_def insert_cred_def session_create_def demo_wn_def demo_en_def has_user_def Let_def)
qed


text \<open>A registration started before the first account bypasses the invite. A ceremony begun on
  the empty hub carries no code; finished at any later time, after the administrator's account
  exists and long after the ceremony's five minutes, it creates an ordinary account and signs it
  in although no invite is spent and open registration is off.\<close>

theorem stale_bootstrap_registers:
  assumes "ceremony_id jar = Some cid" "hm_get (aw_reg_states w) cid = Some c" "rc_purpose c = NewUser True None"
    and "users (aw_db w) \<noteq> []" "wn_finish_registration wn cred (rc_state c) = Inr pk"
    and "find_by_handle (aw_db w) (rc_handle c) = None" "\<not> has_user (aw_db w) (rc_user_id c)"
    and "en_credential en \<notin> set (map wc_id (webauthn_credentials (aw_db w)))"
    and "wn_cred_id wn pk \<notin> set (map wc_credential_id (webauthn_credentials (aw_db w)))"
    and "en_session en \<notin> set (map ws_id (web_sessions (aw_db w)))"
  shows "\<exists>w' resp user. register_finish wn th cfg now en w jar headers cred = (w', Inr resp) \<and>
     users (aw_db w') = users (aw_db w) @ [user] \<and> \<not> u_is_admin user \<and> invites (aw_db w') = invites (aw_db w)"
proof -
  let ?d = "aw_db w"
  let ?user = "\<lparr>u_id = rc_user_id c, u_handle = rc_handle c, u_display_name = rc_display_name c, u_is_admin = False,
     u_created_at = now, u_disabled = False, u_sandbox_uid = Some (next_slot (users ?d))\<rparr>"
  have ids: "rc_user_id c \<notin> set (map u_id (users ?d))" "rc_handle c \<notin> set (map u_handle (users ?d))"
    using assms(6,7) by (auto simp: has_user_def find_by_handle_def find_None_iff)
  have "resolve_account th now ?d c = (?d\<lparr>users := users ?d @ [?user]\<rparr>, Inr (rc_user_id c))"
    using assms(3,4,6) ids by (simp add: resolve_account_def create_admin_if_first_def insert_user_def users_count_def Let_def)
  with assms show ?thesis
    by (simp add: register_finish_def insert_credential_def insert_cred_def session_create_def has_user_def Let_def)
qed

theorem stale_bootstrap_registers_witness:
  "\<exists>w' resp user. register_finish demo_wn id demo_cfg 99999 demo_en
     \<lparr>aw_db = demo_db, aw_reg_states = [(''cer'', \<lparr>rc_state = ''state'', rc_user_id = ''u3'', rc_handle = ''eve'',
        rc_display_name = ''Eve'', rc_purpose = NewUser True None, rc_created_at = 1\<rparr>)], aw_auth_states = []\<rparr>
     demo_jar (\<lambda>_. None) ''cred'' = (w', Inr resp) \<and>
   users (aw_db w') = users demo_db @ [user] \<and> \<not> u_is_admin user \<and> invites (aw_db w') = invites demo_db"
  using stale_bootstrap_registers[where w = "\<lparr>aw_db = demo_db, aw_reg_states = [(''cer'', \<lparr>rc_state = ''state'',
      rc_user_id = ''u3'', rc_handle = ''eve'', rc_display_name = ''Eve'', rc_purpose = NewUser True None,
      rc_created_at = 1\<rparr>)], aw_auth_states = []\<rparr>" and jar = demo_jar and cid = "''cer''" and wn = demo_wn
      and cred = "''cred''" and pk = "''cred''" and en = demo_en]
  by (simp add: demo_jar_def ceremony_id_def hm_get_def demo_db_def empty_db_def demo_wn_def find_by_handle_def has_user_def)

text \<open>A login in flight outlives the disabling of the account. Disabling is checked when a login
  starts but not when it finishes, nor when a session is used: if the account is disabled in
  between, the assertion still yields a session, and requests with it are accepted as the
  disabled user.\<close>

theorem disabled_login_completes:
  assumes "ceremony_id jar = Some cid" "hm_get (aw_auth_states w) cid = Some c"
    and "wn_finish_authentication wn cred (au_state c) = Inr r"
    and "users_find_by_id (aw_db w) (au_ceremony_user c) = Some user" "u_disabled user"
    and "en_session en \<notin> set (map ws_id (web_sessions (aw_db w)))"
    and "0 < session_idle_ttl_secs cfg" "0 < session_absolute_ttl_secs cfg"
    and "current_session_id jar2 = Some (en_session en)"
  shows "\<exists>w' resp. login_finish wn cfg now en w jar headers cred = (w', Inr resp) \<and>
     snd (auth_user now cfg (aw_db w') jar2) = Inr user"
proof -
  let ?d2 = "touch_credential now (advance_counter wn (aw_db w) (au_ceremony_user c) r) (ar_cred_id r) (from_headers headers)"
  have sb: "users ?d2 = users (aw_db w)" "web_sessions ?d2 = web_sessions (aw_db w)"
    by (auto simp: touch_credential_def advance_counter_def update_credential_def split: sum.splits option.splits)
  have u: "has_user ?d2 (au_ceremony_user c)"
    using assms(4) users_find_by_id_has[of "aw_db w"] by (auto simp: has_user_def sb)
  let ?row = "\<lparr>ws_id = en_session en, ws_user_id = au_ceremony_user c, ws_created_at = now,
    ws_expires_at = now + session_idle_ttl_secs cfg, ws_last_ip = ri_ip (from_headers headers),
    ws_last_user_agent = ri_user_agent (from_headers headers)\<rparr>"
  let ?d3 = "?d2\<lparr>web_sessions := web_sessions (aw_db w) @ [?row]\<rparr>"
  have sc: "session_create now (en_session en) ?d2 (au_ceremony_user c) (from_headers headers) (session_idle_ttl_secs cfg) =
      Inr (?d3, en_session en)"
    using assms(6) u by (simp add: session_create_def sb)
  have fs: "find_session ?d3 (en_session en) = Some ?row"
  proof -
    have "List.find (\<lambda>r. ws_id r = en_session en) (web_sessions (aw_db w)) = None"
      using assms(6) by (simp only: find_key_None not_False_eq_True)
    then show ?thesis by (simp add: find_session_def find_append)
  qed
  have fu: "users_find_by_id ?d2 (au_ceremony_user c) = Some user"
    using assms(4) by (simp add: users_find_by_id_def sb)
  have "snd (auth_user now cfg ?d3 jar2) = Inr user"
    using assms(7,8,9) fs fu by (simp add: auth_user_def maybe_user_def load_and_touch_def Let_def)
  with assms(1-3) sc show ?thesis by (simp add: login_finish_def Let_def)
qed

theorem disabled_login_completes_witness:
  "\<exists>w' resp user. login_finish demo_wn demo_cfg 50 demo_en
     \<lparr>aw_db = set_disabled demo_db ''u2'' True, aw_reg_states = [],
      aw_auth_states = [(''cer'', \<lparr>au_state = ''state'', au_ceremony_user = ''u2'', au_created_at = 40\<rparr>)]\<rparr>
     demo_jar (\<lambda>_. None) ''cred'' = (w', Inr resp) \<and>
   snd (auth_user 50 demo_cfg (aw_db w') (\<lambda>n. if n = SESSION_COOKIE then Some ''sid'' else None)) = Inr user \<and>
   u_disabled user"
proof -
  let ?w = "\<lparr>aw_db = set_disabled demo_db ''u2'' True, aw_reg_states = [],
      aw_auth_states = [(''cer'', \<lparr>au_state = ''state'', au_ceremony_user = ''u2'', au_created_at = 40\<rparr>)]\<rparr>"
  obtain user where u: "users_find_by_id (aw_db ?w) ''u2'' = Some user" "u_disabled user"
    by (simp add: users_find_by_id_def set_disabled_def tbl_update_def demo_db_def)
  let ?jar2 = "\<lambda>n. if n = SESSION_COOKIE then Some ''sid'' else None"
  let ?c = "\<lparr>au_state = ''state'', au_ceremony_user = ''u2'', au_created_at = 40\<rparr>"
  have 1: "ceremony_id demo_jar = Some ''cer''" by (simp add: ceremony_id_def demo_jar_def)
  have 2: "hm_get (aw_auth_states ?w) ''cer'' = Some ?c" by (simp add: hm_get_def)
  have 3: "wn_finish_authentication demo_wn ''cred'' (au_state ?c) = Inr \<lparr>ar_cred_id = ''cred'', ar_needs_update = False\<rparr>"
    by (simp add: demo_wn_def)
  have 4: "users_find_by_id (aw_db ?w) (au_ceremony_user ?c) = Some user" using u(1) by simp
  have 5: "en_session demo_en \<notin> set (map ws_id (web_sessions (aw_db ?w)))"
    by (simp add: set_disabled_def demo_db_def empty_db_def)
  have 6: "0 < session_idle_ttl_secs demo_cfg" "0 < session_absolute_ttl_secs demo_cfg" by (simp_all add: demo_cfg_def)
  have 7: "current_session_id ?jar2 = Some (en_session demo_en)" by (simp add: current_session_id_def demo_en_def)
  from disabled_login_completes[OF 1 2 3 4 u(2) 5 6 7, of 50 "\<lambda>_. None"] u(2) show ?thesis by blast
qed

end
