(* ===== verification/Hub_Metrics.thy ===== *)
theory Hub_Metrics
  imports Hub_Pool Hub_Env Hub_Config "HOL-Library.Product_Lexorder"
begin

text \<open>
  \<^verbatim>\<open>src/metrics.rs\<close>: the usage counters, their text exposition, the key that protects it, and the
  rest of \<^verbatim>\<open>src/stats.rs\<close> that the exposition reads. Counters are 64-bit words. How a number of
  microseconds prints as seconds (a floating-point division) is an argument, as is the number of
  tools in a stored capabilities snapshot (SQLite's \<open>json_array_length\<close>). The lemmas bound the
  number of series, show that no call is lost and that labels can be read back.
\<close>

section \<open>Usage counters\<close>

datatype error_kind = KTimeout | KError | KToolError

fun kind_str :: "error_kind \<Rightarrow> string" where
  "kind_str KTimeout = ''timeout''"
| "kind_str KError = ''error''"
| "kind_str KToolError = ''tool_error''"

fun kind_index :: "error_kind \<Rightarrow> nat" where
  "kind_index KTimeout = 0"
| "kind_index KError = 1"
| "kind_index KToolError = 2"

definition ALL_KINDS :: "error_kind list" where
  "ALL_KINDS = [KTimeout, KError, KToolError]"

record call_key =
  mk_user :: string
  mk_server :: string
  mk_tool :: string

record call_stats =
  cs_calls :: "64 word"
  cs_errors :: "64 word list"
  cs_duration_micros :: "64 word"

definition stats_default :: call_stats where
  "stats_default = \<lparr>cs_calls = 0, cs_errors = [0, 0, 0], cs_duration_micros = 0\<rparr>"

definition MAX_SERIES :: nat where
  "MAX_SERIES = 10000"

type_synonym metrics = "(call_key, call_stats) hash_map"

definition other_key :: call_key where
  "other_key = \<lparr>mk_user = ''_other'', mk_server = ''_other'', mk_tool = ''_other''\<rparr>"

definition bump_stats :: "nat \<Rightarrow> error_kind option \<Rightarrow> call_stats \<Rightarrow> call_stats" where
  "bump_stats micros err s =
     (let s1 = s\<lparr>cs_calls := cs_calls s + 1, cs_duration_micros := cs_duration_micros s + word_of_nat micros\<rparr> in
      case err of
        None \<Rightarrow> s1
      | Some k \<Rightarrow> s1\<lparr>cs_errors := (cs_errors s1)[kind_index k := cs_errors s1 ! kind_index k + 1]\<rparr>)"

definition record_call :: "metrics \<Rightarrow> string \<Rightarrow> string \<Rightarrow> string \<Rightarrow> nat \<Rightarrow> error_kind option \<Rightarrow> metrics" where
  "record_call m user server tool micros err =
     (let key = \<lparr>mk_user = user, mk_server = server, mk_tool = tool\<rparr>;
          k = (if hm_get m key \<noteq> None \<or> length m < MAX_SERIES then key else other_key);
          s = (case hm_get m k of None \<Rightarrow> stats_default | Some s \<Rightarrow> s) in
      hm_insert k (bump_stats micros err s) m)"

section \<open>Exposition\<close>

definition escape_char :: "char \<Rightarrow> string" where
  "escape_char c =
     (if c = CHR 0x5C then [CHR 0x5C, CHR 0x5C]
      else if c = CHR 0x22 then [CHR 0x5C, CHR 0x22]
      else if c = CHR 0x0A then [CHR 0x5C, CHR ''n'']
      else [c])"

definition escape_label :: "string \<Rightarrow> string" where
  "escape_label v = concat (map escape_char v)"

definition quoted :: "string \<Rightarrow> string \<Rightarrow> string" where
  "quoted name v = name @ ''='' @ [CHR 0x22] @ escape_label v @ [CHR 0x22]"

definition labels :: "call_key \<Rightarrow> string" where
  "labels k = ''{'' @ quoted ''user'' (mk_user k) @ '','' @ quoted ''server'' (mk_server k) @ '','' @
              quoted ''tool'' (mk_tool k) @ ''}''"

definition u64_str :: "64 word \<Rightarrow> string" where
  "u64_str w = nat_str (unat w)"

definition nl :: string where
  "nl = [CHR 0x0A]"

definition error_lines :: "call_key \<times> call_stats \<Rightarrow> string" where
  "error_lines e = (case e of (k, s) \<Rightarrow>
     concat (map (\<lambda>kind.
       if cs_errors s ! kind_index kind > 0
       then ''mcp_hub_tool_call_errors_total{'' @ quoted ''user'' (mk_user k) @ '','' @
            quoted ''server'' (mk_server k) @ '','' @ quoted ''tool'' (mk_tool k) @ '','' @
            ''error_kind='' @ [CHR 0x22] @ kind_str kind @ [CHR 0x22] @ ''} '' @
            u64_str (cs_errors s ! kind_index kind) @ nl
       else []) ALL_KINDS))"

definition metrics_render :: "(64 word \<Rightarrow> string) \<Rightarrow> metrics \<Rightarrow> string" where
  "metrics_render fmt_secs m =
     (let entries = sort_key (\<lambda>(k, _). (mk_user k, mk_server k, mk_tool k)) m in
      ''# TYPE mcp_hub_tool_calls_total counter'' @ nl @
      concat (map (\<lambda>(k, s). ''mcp_hub_tool_calls_total'' @ labels k @ '' '' @ u64_str (cs_calls s) @ nl) entries) @
      ''# TYPE mcp_hub_tool_call_errors_total counter'' @ nl @
      concat (map error_lines entries) @
      ''# TYPE mcp_hub_tool_call_duration_seconds_total counter'' @ nl @
      concat (map (\<lambda>(k, s). ''mcp_hub_tool_call_duration_seconds_total'' @ labels k @ '' '' @
                            fmt_secs (cs_duration_micros s) @ nl) entries))"

section \<open>The metrics key\<close>

definition KEY_SETTING :: string where
  "KEY_SETTING = ''metrics_api_key''"

definition KEY_PREFIX :: string where
  "KEY_PREFIX = ''mcphub_metrics_''"

definition store_key :: "secret_box \<Rightarrow> string \<Rightarrow> int \<Rightarrow> db \<Rightarrow> string \<Rightarrow> db res" where
  "store_key sb nonce now d key =
     rbind (seal sb nonce (as_bytes key)) (\<lambda>sealed.
       Inr (d\<lparr>settings :=
         (if KEY_SETTING \<in> set (map se_key (settings d))
          then tbl_update (\<lambda>r. se_key r = KEY_SETTING)
                 (\<lambda>r. r\<lparr>se_nonce := sl_nonce sealed, se_ciphertext := sl_ciphertext sealed, se_updated_at := now\<rparr>)
                 (settings d)
          else settings d @ [\<lparr>se_key = KEY_SETTING, se_nonce = sl_nonce sealed,
                              se_ciphertext = sl_ciphertext sealed, se_updated_at = now\<rparr>])\<rparr>))"

definition load_key :: "secret_box \<Rightarrow> db \<Rightarrow> string option" where
  "load_key sb d =
     (case List.find (\<lambda>r. se_key r = KEY_SETTING) (settings d) of
        None \<Rightarrow> None
      | Some r \<Rightarrow>
          (case open_sealed sb \<lparr>sl_nonce = se_nonce r, sl_ciphertext = se_ciphertext r\<rparr> of
             Inl _ \<Rightarrow> None
           | Inr bytes \<Rightarrow> from_utf8 bytes))"

definition load_or_create_key :: "secret_box \<Rightarrow> string \<Rightarrow> string \<Rightarrow> int \<Rightarrow> db \<Rightarrow> (db \<times> string) res" where
  "load_or_create_key sb random_token nonce now d =
     (case load_key sb d of
        Some key \<Rightarrow> Inr (d, key)
      | None \<Rightarrow>
          (let key = KEY_PREFIX @ random_token in
           rbind (store_key sb nonce now d key) (\<lambda>d'. Inr (d', key))))"

text \<open>The new key replaces the one in memory only when it was stored.\<close>

definition regenerate_key ::
  "secret_box \<Rightarrow> string \<Rightarrow> string \<Rightarrow> int \<Rightarrow> db \<Rightarrow> string \<Rightarrow> db \<times> string \<times> string res" where
  "regenerate_key sb random_token nonce now d metrics_key =
     (let key = KEY_PREFIX @ random_token in
      case store_key sb nonce now d key of
        Inl e \<Rightarrow> (d, metrics_key, Inl e)
      | Inr d' \<Rightarrow> (d', key, Inr key))"

section \<open>Runtime statistics (stats.rs)\<close>

record runtime_stats =
  st_slots_used :: nat
  st_slots_total :: nat
  st_active_sessions :: nat
  st_pool_users :: nat
  st_pool_backends :: nat
  st_limits :: limits
  st_totals :: totals
  st_instances :: "instance_stat list"

definition gather ::
  "limits \<Rightarrow> nat \<Rightarrow> nat \<Rightarrow> (string, inner) hash_map \<Rightarrow> db \<Rightarrow> status_registry \<Rightarrow> runtime_stats" where
  "gather lim available_permits sessions pool d reg =
     (let (tot, rows) = gather_totals d reg; (pool_users, pool_backends) = pool_counts pool in
      \<lparr>st_slots_used = slots_used (max_backends_global lim) available_permits,
       st_slots_total = max_backends_global lim, st_active_sessions = sessions,
       st_pool_users = pool_users, st_pool_backends = pool_backends, st_limits = lim,
       st_totals = tot, st_instances = rows\<rparr>)"

section \<open>The endpoint\<close>

text \<open>The tools of a group: the cached tool counts of its enabled members.\<close>

definition group_tools :: "(string \<Rightarrow> nat option) \<Rightarrow> db \<Rightarrow> group_row \<Rightarrow> nat" where
  "group_tools tool_count d g =
     sum_list (map (\<lambda>m.
       case List.find (\<lambda>i. i_id i = gm_instance_id m \<and> i_enabled i) (user_server_instances d) of
         None \<Rightarrow> 0
       | Some i \<Rightarrow> (case Option.bind (i_capabilities i) tool_count of None \<Rightarrow> 0 | Some n \<Rightarrow> n))
       (filter (\<lambda>m. gm_group_id m = g_id g) (connector_group_members d)))"

definition group_rows :: "(string \<Rightarrow> nat option) \<Rightarrow> db \<Rightarrow> (string \<times> string \<times> nat) list" where
  "group_rows tool_count d =
     sort_key (\<lambda>(h, s, _). (h, s))
       (List.map_filter (\<lambda>g. map_option (\<lambda>u. (u_handle u, g_slug g, group_tools tool_count d g))
          (users_find_by_id d (g_user_id g))) (connector_groups d))"

definition render_group_tools :: "(string \<Rightarrow> nat option) \<Rightarrow> db \<Rightarrow> string" where
  "render_group_tools tool_count d =
     ''# TYPE mcp_hub_group_tools gauge'' @ nl @
     concat (map (\<lambda>(owner, slug, n). ''mcp_hub_group_tools{'' @ quoted ''owner'' owner @ '','' @
        quoted ''group'' slug @ ''} '' @ nat_str n @ nl) (group_rows tool_count d))"

definition gauge :: "string \<Rightarrow> string \<Rightarrow> nat \<Rightarrow> string" where
  "gauge name kind n = ''# TYPE '' @ name @ '' '' @ kind @ nl @ name @ '' '' @ nat_str n @ nl"

definition instance_gauge :: "string \<Rightarrow> (instance_stat \<Rightarrow> bool) \<Rightarrow> instance_stat list \<Rightarrow> string" where
  "instance_gauge name f rows =
     ''# TYPE '' @ name @ '' gauge'' @ nl @
     concat (map (\<lambda>i. name @ ''{'' @ quoted ''owner'' (sn_owner i) @ '','' @
       quoted ''server'' (sn_namespace i) @ ''} '' @ (if f i then ''1'' else ''0'') @ nl) rows)"

definition metrics_authorized :: "string \<Rightarrow> header_map \<Rightarrow> bool" where
  "metrics_authorized metrics_key headers =
     (let presented = (case Option.bind (Option.bind (headers ''authorization'') to_str)
                              (\<lambda>v. strip_prefix v ''Bearer '') of None \<Rightarrow> [] | Some t \<Rightarrow> t) in
      metrics_key \<noteq> [] \<and> ct_eq (as_bytes presented) (as_bytes metrics_key))"

definition metrics_endpoint ::
  "(64 word \<Rightarrow> string) \<Rightarrow> (string \<Rightarrow> nat option) \<Rightarrow> string \<Rightarrow> metrics \<Rightarrow> runtime_stats \<Rightarrow> nat \<Rightarrow> nat \<Rightarrow> db \<Rightarrow>
   header_map \<Rightarrow> nat \<times> string" where
  "metrics_endpoint fmt_secs tool_count metrics_key m s oauth_errors busy_retries d headers =
     (if \<not> metrics_authorized metrics_key headers then (401, ''unauthorized'' @ nl)
      else
        (200,
         metrics_render fmt_secs m @
         gauge ''mcp_hub_backend_slots_used'' ''gauge'' (st_slots_used s) @
         gauge ''mcp_hub_backend_slots_total'' ''gauge'' (st_slots_total s) @
         gauge ''mcp_hub_active_sessions'' ''gauge'' (st_active_sessions s) @
         gauge ''mcp_hub_pool_users'' ''gauge'' (st_pool_users s) @
         gauge ''mcp_hub_pool_backends'' ''gauge'' (st_pool_backends s) @
         instance_gauge ''mcp_hub_instance_up'' (\<lambda>i. sn_runtime_status i = ''ok'') (st_instances s) @
         instance_gauge ''mcp_hub_instance_enabled'' sn_enabled (st_instances s) @
         gauge ''mcp_hub_oauth_internal_errors_total'' ''counter'' oauth_errors @
         gauge ''mcp_hub_db_busy_retries_total'' ''counter'' busy_retries @
         render_group_tools tool_count d))"

section \<open>Lemmas\<close>

text \<open>Sums over the values of a map with distinct keys, in a ring.\<close>

definition hm_sum :: "('v \<Rightarrow> 'a::comm_ring) \<Rightarrow> ('k, 'v) hash_map \<Rightarrow> 'a" where
  "hm_sum f m = sum_list (map (f \<circ> snd) m)"

lemma hm_remove_absent: "k \<notin> fst ` set m \<Longrightarrow> hm_remove k m = m"
  by (force simp: hm_remove_def filter_id_conv)

lemma hm_sum_remove:
  assumes "distinct (map fst m)"
  shows "hm_sum f (hm_remove k m) = hm_sum f m - (case hm_get m k of None \<Rightarrow> 0 | Some v \<Rightarrow> f v)"
  using assms
proof (induction m)
  case Nil
  then show ?case by (simp add: hm_sum_def hm_remove_def hm_get_def)
next
  case (Cons e m)
  obtain j v where e: "e = (j, v)" by (cases e)
  show ?case
  proof (cases "j = k")
    case True
    with Cons.prems e have "hm_remove k (e # m) = m"
      using hm_remove_absent[of k m] by (auto simp: hm_remove_def)
    with True e show ?thesis by (simp add: hm_sum_def hm_get_def)
  next
    case False
    with e have r: "hm_remove k (e # m) = e # hm_remove k m" and g: "hm_get (e # m) k = hm_get m k"
      by (simp_all add: hm_remove_def hm_get_def)
    from Cons.IH Cons.prems have "hm_sum f (hm_remove k m) =
        hm_sum f m - (case hm_get m k of None \<Rightarrow> 0 | Some v \<Rightarrow> f v)" by simp
    with e show ?thesis unfolding r g by (simp add: hm_sum_def algebra_simps)
  qed
qed

lemma hm_sum_insert:
  assumes "distinct (map fst m)"
  shows "hm_sum f (hm_insert k v m) = hm_sum f m - (case hm_get m k of None \<Rightarrow> 0 | Some v \<Rightarrow> f v) + f v"
  using hm_sum_remove[OF assms, of f k] by (simp add: hm_insert_def hm_sum_def algebra_simps)

text \<open>One recorded call: the series bound and the totals.\<close>

definition series_ok :: "metrics \<Rightarrow> bool" where
  "series_ok m \<longleftrightarrow> distinct (map fst m) \<and>
     length m \<le> MAX_SERIES + (if other_key \<in> fst ` set m then 1 else 0)"

lemma length_remove_present: "k \<in> fst ` set m \<Longrightarrow> length (hm_remove k m) < length m"
  by (auto simp: hm_remove_def intro: length_filter_less)

lemma record_call_ok:
  assumes "series_ok m"
  shows "series_ok (record_call m user server tool micros err)"
proof -
  define key where "key = \<lparr>mk_user = user, mk_server = server, mk_tool = tool\<rparr>"
  define k where "k = (if hm_get m key \<noteq> None \<or> length m < MAX_SERIES then key else other_key)"
  obtain v where r: "record_call m user server tool micros err = hm_insert k v m"
    unfolding record_call_def Let_def key_def[symmetric] k_def[symmetric] by blast
  have d: "distinct (map fst m)" and len: "length m \<le> MAX_SERIES + (if other_key \<in> fst ` set m then 1 else 0)"
    using assms by (simp_all add: series_ok_def)
  have mono: "length (hm_remove k m) \<le> length m" by (simp add: hm_remove_def)
  have keys: "fst ` set (hm_insert k v m) = insert k (fst ` set m)" by (rule keys_hm_insert)
  have "length (hm_insert k v m) \<le> MAX_SERIES + (if other_key \<in> insert k (fst ` set m) then 1 else 0)"
  proof (cases "k \<in> fst ` set m")
    case True
    with len length_remove_present[OF True] show ?thesis by (auto simp: hm_insert_def insert_absorb)
  next
    case False
    then have "hm_get m k = None" by (simp add: hm_get_None)
    then have "length m < MAX_SERIES \<or> k = other_key" unfolding k_def by (auto split: if_splits)
    with len False mono show ?thesis by (auto simp: hm_insert_def split: if_splits)
  qed
  with d show ?thesis unfolding series_ok_def r keys by (simp add: distinct_hm_insert)
qed

lemma record_call_calls:
  assumes "distinct (map fst m)"
  shows "hm_sum cs_calls (record_call m user server tool micros err) = hm_sum cs_calls m + 1"
    and "hm_sum cs_duration_micros (record_call m user server tool micros err) =
           hm_sum cs_duration_micros m + word_of_nat micros"
  by (auto simp: record_call_def Let_def hm_sum_insert[OF assms] bump_stats_def stats_default_def
      split: option.splits)

definition record_all :: "metrics \<Rightarrow> (string \<times> string \<times> string \<times> nat \<times> error_kind option) list \<Rightarrow> metrics" where
  "record_all = foldl (\<lambda>m (u, s, t, us, e). record_call m u s t us e)"

lemma record_all_ok:
  "series_ok m \<Longrightarrow> series_ok (record_all m cs) \<and>
     hm_sum cs_calls (record_all m cs) = hm_sum cs_calls m + word_of_nat (length cs) \<and>
     hm_sum cs_duration_micros (record_all m cs) =
       hm_sum cs_duration_micros m + word_of_nat (sum_list (map (\<lambda>(_, _, _, us, _). us) cs))"
proof (induction cs arbitrary: m)
  case Nil
  then show ?case by (simp add: record_all_def)
next
  case (Cons c cs)
  obtain u s t us e where c: "c = (u, s, t, us, e)" by (cases c) auto
  let ?m = "record_call m u s t us e"
  have step: "record_all m (c # cs) = record_all ?m cs" by (simp add: record_all_def c)
  have d: "distinct (map fst m)" using Cons.prems by (simp add: series_ok_def)
  from Cons.IH[OF record_call_ok[OF Cons.prems]] record_call_calls[OF d] show ?case
    unfolding step by (simp add: c algebra_simps)
qed

text \<open>A reader for the label syntax of the exposition format: the value up to the closing quote.\<close>

fun read_label :: "string \<Rightarrow> (string \<times> string) option" where
  "read_label [] = None"
| "read_label (c # s) =
     (if c = CHR 0x22 then Some ([], s)
      else if c = CHR 0x5C then
        (case s of
           [] \<Rightarrow> None
         | e # s' \<Rightarrow> map_option (apfst ((#) (if e = CHR ''n'' then CHR 0x0A else e))) (read_label s'))
      else map_option (apfst ((#) c)) (read_label s))"

lemma read_escaped: "read_label (escape_label v @ CHR 0x22 # rest) = Some (v, rest)"
  by (induction v) (auto simp: escape_label_def escape_char_def)

lemma quoted_inj:
  assumes "quoted n v @ r = quoted n v' @ r'"
  shows "v = v' \<and> r = r'"
  using arg_cong[OF assms, of "\<lambda>s. read_label (drop (length n + 2) s)"]
  by (simp add: quoted_def read_escaped)

section \<open>Properties\<close>

text \<open>Usage counting is bounded and lossless. Whatever users, servers and tool names clients
  call, the registry holds at most one series more than the limit, and the counters of all
  series together, modulo 2 to the 64, are the number of calls and their total duration: the
  calls beyond the limit are folded into the overflow series, not lost.\<close>

theorem usage_counting_bounded:
  "length (record_all [] cs) \<le> MAX_SERIES + 1 \<and>
   hm_sum cs_calls (record_all [] cs) = word_of_nat (length cs) \<and>
   hm_sum cs_duration_micros (record_all [] cs) = word_of_nat (sum_list (map (\<lambda>(_, _, _, us, _). us) cs))"
proof -
  have "series_ok []" by (simp add: series_ok_def)
  from record_all_ok[OF this, of cs] show ?thesis
    by (auto simp: series_ok_def hm_sum_def split: if_splits)
qed

end
