(* ===== verification/Hub_Files.thy ===== *)
theory Hub_Files
  imports Hub_Pool Hub_Env Hub_Config
begin

text \<open>
  The file system the hub works on and \<^verbatim>\<open>src/sandbox.rs\<close>. A path is a text; \<open>comps\<close> are its
  components, which name the file. A file system maps component lists to nodes with an owner, a
  mode and, for a file, its contents; an operation returns the file system it leaves behind on
  failure too. Any operation may also fail for reasons of the operating system, which is the
  argument \<open>pr_os_error\<close>. Links are not modelled. The lemmas say what an operation leaves
  untouched and what it establishes.
\<close>

section \<open>Paths\<close>

definition path_join :: "string \<Rightarrow> string \<Rightarrow> string" where
  "path_join a b =
     (if starts_with b ''/'' then b
      else if a = [] \<or> last a = CHR ''/'' then a @ b
      else a @ ''/'' @ b)"

definition comps :: "string \<Rightarrow> string list" where
  "comps s = (if starts_with s ''/'' then [''/''] else []) @
             filter (\<lambda>c. c \<noteq> [] \<and> c \<noteq> ''.'') (split_char CHR ''/'' s)"

text \<open>\<open>Path::parent\<close>: without the last component; none for the root and the empty path.\<close>

definition path_parent :: "string \<Rightarrow> string option" where
  "path_parent s =
     (let t = trim_end_matches CHR ''/'' s in
      if t = [] then None
      else
        (let dir = rev (dropWhile (\<lambda>c. c \<noteq> CHR ''/'') (rev t)); p = trim_end_matches CHR ''/'' dir in
         Some (if p = [] \<and> dir \<noteq> [] then ''/'' else p)))"

section \<open>File system\<close>

datatype kind = FDir | FFile string

record node =
  nd_kind :: kind
  nd_uid :: "32 word"
  nd_gid :: "32 word"
  nd_mode :: nat

type_synonym fs = "string list \<Rightarrow> node option"
type_synonym 'a io = "fs \<Rightarrow> fs \<times> 'a res"

text \<open>The hub's own process: its identity, the modes its umask leaves to new directories and files,
  its search path, and the errors the operating system raises, by operation and path.\<close>

record os_proc =
  pr_uid :: "32 word"
  pr_gid :: "32 word"
  pr_dir_mode :: nat
  pr_file_mode :: nat
  pr_path :: "string option"
  pr_os_error :: "string \<Rightarrow> string list \<Rightarrow> string option"

definition is_root :: "os_proc \<Rightarrow> bool" where
  "is_root pr = (pr_uid pr = 0)"

definition io_return :: "'a \<Rightarrow> 'a io" where
  "io_return x = (\<lambda>fs. (fs, Inr x))"

definition io_bind :: "'a io \<Rightarrow> ('a \<Rightarrow> 'b io) \<Rightarrow> 'b io" where
  "io_bind m f = (\<lambda>fs. case m fs of (fs', Inl e) \<Rightarrow> (fs', Inl e) | (fs', Inr x) \<Rightarrow> f x fs')"

definition io_context :: "string \<Rightarrow> 'a io \<Rightarrow> 'a io" where
  "io_context msg m = (\<lambda>fs. case m fs of (fs', Inl e) \<Rightarrow> (fs', Inl (msg @ '': '' @ e)) | (fs', Inr x) \<Rightarrow> (fs', Inr x))"

definition guarded :: "os_proc \<Rightarrow> string \<Rightarrow> string \<Rightarrow> 'a io \<Rightarrow> 'a io" where
  "guarded pr what p m = (case pr_os_error pr what (comps p) of Some e \<Rightarrow> (\<lambda>fs. (fs, Inl e)) | None \<Rightarrow> m)"

definition is_dir :: "fs \<Rightarrow> string list \<Rightarrow> bool" where
  "is_dir fs p = (case fs p of None \<Rightarrow> False | Some n \<Rightarrow> nd_kind n = FDir)"

fun mkdirs :: "os_proc \<Rightarrow> fs \<Rightarrow> string list \<Rightarrow> string list \<Rightarrow> fs \<times> unit res" where
  "mkdirs pr fs pre [] = (fs, Inr ())"
| "mkdirs pr fs pre (c # cs) =
     (let p = pre @ [c] in
      case fs p of
        None \<Rightarrow> mkdirs pr (fs(p \<mapsto> \<lparr>nd_kind = FDir, nd_uid = pr_uid pr, nd_gid = pr_gid pr, nd_mode = pr_dir_mode pr\<rparr>)) p cs
      | Some n \<Rightarrow> if nd_kind n = FDir then mkdirs pr fs p cs else (fs, Inl ''Not a directory''))"

definition create_dir_all :: "os_proc \<Rightarrow> string \<Rightarrow> unit io" where
  "create_dir_all pr p = guarded pr ''mkdir'' p (\<lambda>fs. mkdirs pr fs [] (comps p))"

definition remove_dir_all :: "os_proc \<Rightarrow> string \<Rightarrow> unit io" where
  "remove_dir_all pr p = guarded pr ''rmdir'' p (\<lambda>fs.
     if is_dir fs (comps p) then (\<lambda>q. if take (length (comps p)) q = comps p then None else fs q, Inr ())
     else (fs, Inl ''No such file or directory''))"

definition fs_write :: "os_proc \<Rightarrow> string \<Rightarrow> string \<Rightarrow> unit io" where
  "fs_write pr p content = guarded pr ''write'' p (\<lambda>fs.
     if is_dir fs (comps p) \<or> \<not> is_dir fs (butlast (comps p)) then (fs, Inl ''No such file or directory'')
     else
       (fs(comps p \<mapsto>
          (case fs (comps p) of
             None \<Rightarrow> \<lparr>nd_kind = FFile content, nd_uid = pr_uid pr, nd_gid = pr_gid pr, nd_mode = pr_file_mode pr\<rparr>
           | Some n \<Rightarrow> n\<lparr>nd_kind := FFile content\<rparr>)), Inr ()))"

definition set_mode :: "os_proc \<Rightarrow> string \<Rightarrow> nat \<Rightarrow> unit io" where
  "set_mode pr p mode = guarded pr ''chmod'' p (\<lambda>fs.
     case fs (comps p) of
       None \<Rightarrow> (fs, Inl ''No such file or directory'')
     | Some n \<Rightarrow>
         if is_root pr \<or> nd_uid n = pr_uid pr then (fs(comps p \<mapsto> n\<lparr>nd_mode := mode\<rparr>), Inr ())
         else (fs, Inl ''Operation not permitted''))"

section \<open>Sandbox (sandbox.rs)\<close>

text \<open>Modes are written in decimal: 448 is octal 700, 384 is 600, 365 is 555 and 292 is 444.\<close>

record sandbox =
  sx_uid :: "32 word"
  sx_gid :: "32 word"
  sx_cache_dir :: string

definition chown :: "os_proc \<Rightarrow> string \<Rightarrow> 32 word \<Rightarrow> 32 word \<Rightarrow> unit io" where
  "chown pr p uid gid =
     (if CHR 0x00 \<in> set p then (\<lambda>fs. (fs, Inl ''path contains NUL''))
      else guarded pr ''chown'' p (\<lambda>fs.
        case fs (comps p) of
          None \<Rightarrow> (fs, Inl ''No such file or directory'')
        | Some n \<Rightarrow>
            if is_root pr then (fs(comps p \<mapsto> n\<lparr>nd_uid := uid, nd_gid := gid\<rparr>), Inr ())
            else (fs, Inl ''Operation not permitted'')))"

definition set_private :: "os_proc \<Rightarrow> string \<Rightarrow> unit io" where
  "set_private pr p = set_mode pr p 448"

definition prepare :: "os_proc \<Rightarrow> 32 word \<Rightarrow> string \<Rightarrow> sandbox io" where
  "prepare pr uid edir =
     (let root = path_join (case path_parent edir of None \<Rightarrow> edir | Some p \<Rightarrow> p) ''sandbox'';
          cache = path_join root (nat_str (unat uid)) in
      io_bind (create_dir_all pr cache) (\<lambda>_.
      io_bind (chown pr cache uid uid) (\<lambda>_.
      io_bind (set_private pr cache) (\<lambda>_.
      io_return \<lparr>sx_uid = uid, sx_gid = uid, sx_cache_dir = cache\<rparr>))))"

text \<open>Best effort: a file whose mode cannot be set is logged and left.\<close>

definition lock_database :: "os_proc \<Rightarrow> string \<Rightarrow> fs \<Rightarrow> fs" where
  "lock_database pr dbp fs =
     foldl (\<lambda>fs suffix.
         let p = dbp @ suffix in
         if fs (comps p) \<noteq> None then fst (set_mode pr p 384 fs) else fs)
       fs [[], ''-wal'', ''-shm'']"

text \<open>\<open>chown -R\<close> and \<open>chmod -R a+rX\<close>, as coreutils document them.\<close>

definition chown_recursive :: "os_proc \<Rightarrow> string \<Rightarrow> 32 word \<Rightarrow> 32 word \<Rightarrow> unit io" where
  "chown_recursive pr p uid gid = guarded pr ''chown -R'' p (\<lambda>fs.
     if fs (comps p) = None \<or> \<not> is_root pr then (fs, Inl ''chown -R failed'')
     else
       (\<lambda>q. if take (length (comps p)) q = comps p
             then map_option (\<lambda>n. n\<lparr>nd_uid := uid, nd_gid := gid\<rparr>) (fs q) else fs q, Inr ()))"

definition add_rX :: "node \<Rightarrow> node" where
  "add_rX n =
     (let x = (nd_kind n = FDir \<or> (\<exists>i\<in>{0, 3, 6}. bit (nd_mode n) i)) in
      n\<lparr>nd_mode := or (nd_mode n) (if x then 365 else 292)\<rparr>)"

definition make_world_traversable :: "os_proc \<Rightarrow> string \<Rightarrow> unit io" where
  "make_world_traversable pr p = guarded pr ''chmod -R'' p (\<lambda>fs.
     if fs (comps p) = None then (fs, Inl ''chmod -R failed'')
     else (\<lambda>q. if take (length (comps p)) q = comps p then map_option add_rX (fs q) else fs q, Inr ()))"

section \<open>Rules for sequences of operations\<close>

named_theorems io_frame \<open>what an operation leaves alone\<close>

lemma io_bind_Inr:
  "io_bind m f fs = (fs', Inr y) \<longleftrightarrow> (\<exists>fs1 x. m fs = (fs1, Inr x) \<and> f x fs1 = (fs', Inr y))"
  by (auto simp: io_bind_def split: prod.splits sum.splits)

lemma io_return_Inr: "io_return x fs = (fs', Inr y) \<longleftrightarrow> fs' = fs \<and> y = x"
  by (auto simp: io_return_def)

lemma io_context_Inr: "io_context msg m fs = (fs', Inr y) \<longleftrightarrow> m fs = (fs', Inr y)"
  by (auto simp: io_context_def split: prod.splits sum.splits)

lemma guarded_Inr: "guarded pr what p m fs = (fs', Inr y) \<longleftrightarrow> pr_os_error pr what (comps p) = None \<and> m fs = (fs', Inr y)"
  by (auto simp: guarded_def split: option.splits)

lemmas io_Inr = io_bind_Inr io_return_Inr io_context_Inr guarded_Inr

text \<open>An operation confined to a set of paths: outside it every node stays as it was, and only
  missing directories are added.\<close>

definition confined :: "string list set \<Rightarrow> 'a io \<Rightarrow> bool" where
  "confined S m \<longleftrightarrow>
     (\<forall>fs p. p \<notin> S \<longrightarrow> fst (m fs) p = fs p \<or>
        fs p = None \<and> (\<exists>n. fst (m fs) p = Some n \<and> nd_kind n = FDir))"

lemma confinedD:
  "confined S m \<Longrightarrow> m fs = (fs', r) \<Longrightarrow> p \<notin> S \<Longrightarrow>
     fs' p = fs p \<or> fs p = None \<and> (\<exists>n. fs' p = Some n \<and> nd_kind n = FDir)"
  unfolding confined_def by (metis fst_conv)

lemma confined_mono: "confined S m \<Longrightarrow> S \<subseteq> T \<Longrightarrow> confined T m"
  unfolding confined_def by blast

lemma confined_return [io_frame]: "confined S (io_return x)"
  by (simp add: confined_def io_return_def)

lemma confined_fail [io_frame]: "confined S (\<lambda>fs. (fs, Inl e))"
  by (simp add: confined_def)

lemma confined_after:
  assumes "confined S m" "\<And>x. confined S (f x)"
  shows "confined S (io_bind m f)"
  unfolding confined_def
proof (intro allI impI)
  fix fs p assume p: "p \<notin> S"
  obtain fs1 r where m: "m fs = (fs1, r)" by (cases "m fs")
  show "fst (io_bind m f fs) p = fs p \<or> fs p = None \<and> (\<exists>n. fst (io_bind m f fs) p = Some n \<and> nd_kind n = FDir)"
  proof (cases r)
    case (Inl e)
    with confinedD[OF assms(1) m p] m show ?thesis by (simp add: io_bind_def)
  next
    case (Inr x)
    have "fst (f x fs1) p = fs1 p \<or> fs1 p = None \<and> (\<exists>n. fst (f x fs1) p = Some n \<and> nd_kind n = FDir)"
      using assms(2)[of x] p unfolding confined_def by blast
    with confinedD[OF assms(1) m p] m Inr show ?thesis by (auto simp: io_bind_def)
  qed
qed

lemma confined_context [io_frame]: "confined S m \<Longrightarrow> confined S (io_context msg m)"
proof -
  have "fst (io_context msg m fs) = fst (m fs)" for fs
    by (auto simp: io_context_def split: prod.splits sum.splits)
  then show "confined S m \<Longrightarrow> confined S (io_context msg m)" by (simp add: confined_def)
qed

lemma confined_guarded: "confined S m \<Longrightarrow> confined S (guarded pr what p m)"
  by (simp add: guarded_def confined_fail split: option.splits)

text \<open>The subtree below a path.\<close>

definition below :: "string list \<Rightarrow> string list set" where
  "below p = {q. take (length p) q = p}"

lemma below_self [simp]: "p \<in> below p" "p @ q \<in> below p"
  by (simp_all add: below_def)

lemma below_disjoint:
  assumes "length p = length q" "p \<noteq> q"
  shows "below p \<inter> below q = {}"
  using assms by (auto simp: below_def)

lemma mkdirs_frame:
  "fst (mkdirs pr fs pre cs) p = fs p \<or> fs p = None \<and> (\<exists>n. fst (mkdirs pr fs pre cs) p = Some n \<and> nd_kind n = FDir)"
proof (induction cs arbitrary: fs pre)
  case (Cons c cs)
  show ?case
  proof (cases "fs (pre @ [c])")
    case absent: None
    define new where "new = \<lparr>nd_kind = FDir, nd_uid = pr_uid pr, nd_gid = pr_gid pr, nd_mode = pr_dir_mode pr\<rparr>"
    define fs1 where "fs1 = fs(pre @ [c] \<mapsto> new)"
    have run: "mkdirs pr fs pre (c # cs) = mkdirs pr fs1 (pre @ [c]) cs"
      using absent by (simp add: Let_def fs1_def new_def)
    have "fs1 p = fs p \<or> fs p = None \<and> fs1 p = Some new" "nd_kind new = FDir"
      using absent by (auto simp: fs1_def new_def)
    with Cons.IH[of fs1 "pre @ [c]"] show ?thesis unfolding run by metis
  next
    case (Some n)
    with Cons.IH[of fs "pre @ [c]"] show ?thesis by (simp add: Let_def)
  qed
qed simp

lemma confined_create_dir_all [io_frame]: "confined S (create_dir_all pr p)"
  unfolding create_dir_all_def by (rule confined_guarded) (simp add: confined_def mkdirs_frame)

lemma confined_remove [io_frame]: "below (comps p) \<subseteq> S \<Longrightarrow> confined S (remove_dir_all pr p)"
  unfolding remove_dir_all_def by (rule confined_guarded) (auto simp: confined_def below_def)

lemma confined_write [io_frame]: "comps p \<in> S \<Longrightarrow> confined S (fs_write pr p content)"
  unfolding fs_write_def by (rule confined_guarded) (auto simp: confined_def)

lemma confined_set_mode [io_frame]: "comps p \<in> S \<Longrightarrow> confined S (set_mode pr p mode)"
  unfolding set_mode_def by (rule confined_guarded) (auto simp: confined_def split: option.splits)

lemma confined_set_private [io_frame]: "comps p \<in> S \<Longrightarrow> confined S (set_private pr p)"
  unfolding set_private_def by (rule confined_set_mode)

lemma confined_chown [io_frame]: "comps p \<in> S \<Longrightarrow> confined S (chown pr p uid gid)"
proof (cases "CHR 0x00 \<in> set p")
  case True
  then show ?thesis by (simp add: chown_def confined_fail)
next
  case False
  assume "comps p \<in> S"
  with False show ?thesis unfolding chown_def if_not_P[OF False]
    by (intro confined_guarded) (auto simp: confined_def split: option.splits)
qed

section \<open>What the operations establish\<close>

lemma mkdirs_dir:
  "mkdirs pr fs pre cs = (fs', Inr ()) \<Longrightarrow> cs \<noteq> [] \<Longrightarrow> is_dir fs' (pre @ cs)"
proof (induction cs arbitrary: fs pre)
  case (Cons c cs)
  let ?new = "\<lparr>nd_kind = FDir, nd_uid = pr_uid pr, nd_gid = pr_gid pr, nd_mode = pr_dir_mode pr\<rparr>"
  obtain fs1 where run: "mkdirs pr fs1 (pre @ [c]) cs = (fs', Inr ())" and dir: "is_dir fs1 (pre @ [c])"
  proof (cases "fs (pre @ [c])")
    case None
    with Cons.prems that[of "fs(pre @ [c] \<mapsto> ?new)"] show thesis by (simp add: is_dir_def Let_def)
  next
    case (Some n)
    with Cons.prems that[of fs] show thesis by (simp add: is_dir_def Let_def split: if_splits)
  qed
  show ?case
  proof (cases "cs = []")
    case True
    with run dir show ?thesis by simp
  next
    case False
    with Cons.IH[OF run] show ?thesis by simp
  qed
qed simp

lemma create_dir_all_Inr:
  "create_dir_all pr p fs = (fs', Inr x) \<Longrightarrow> comps p \<noteq> [] \<Longrightarrow> is_dir fs' (comps p)"
  using mkdirs_dir[of pr fs "[]" "comps p" fs'] by (simp add: create_dir_all_def guarded_Inr)

lemma fs_write_Inr:
  "fs_write pr p content fs = (fs', Inr x) \<Longrightarrow> \<exists>n. fs' = fs(comps p \<mapsto> n) \<and> nd_kind n = FFile content"
  by (auto simp: fs_write_def guarded_Inr split: if_splits option.splits)

lemma set_mode_Inr:
  "set_mode pr p mode fs = (fs', Inr x) \<Longrightarrow> \<exists>n. fs (comps p) = Some n \<and> fs' = fs(comps p \<mapsto> n\<lparr>nd_mode := mode\<rparr>)"
  by (auto simp: set_mode_def guarded_Inr split: if_splits option.splits)

lemma chown_Inr:
  "chown pr p uid gid fs = (fs', Inr x) \<Longrightarrow>
     \<exists>n. fs (comps p) = Some n \<and> fs' = fs(comps p \<mapsto> n\<lparr>nd_uid := uid, nd_gid := gid\<rparr>)"
  by (auto simp: chown_def guarded_Inr split: if_splits option.splits)

text \<open>Components of a joined path.\<close>

lemma split_char_join: "split_char c (a @ c # b) = split_char c a @ split_char c b"
proof (induction a)
  case (Cons x a)
  have "split_char c a \<noteq> []" by (cases a) (auto split: list.splits)
  with Cons show ?case by (auto split: list.splits)
qed simp

lemma comps_join:
  assumes "\<not> starts_with b ''/''"
  shows "comps (path_join a b) = comps a @ comps b"
proof -
  have b: "comps b = filter (\<lambda>c. c \<noteq> [] \<and> c \<noteq> ''.'') (split_char CHR ''/'' b)" using assms by (simp add: comps_def)
  consider "a = []" | a' where "a = a' @ ''/''" | "a \<noteq> []" "last a \<noteq> CHR ''/''"
    by (metis append_butlast_last_id)
  then show ?thesis
  proof cases
    case 1
    then show ?thesis using assms by (simp add: path_join_def comps_def starts_with_def)
  next
    case 2
    have s: "starts_with (a' @ CHR ''/'' # b) ''/'' = starts_with (a' @ ''/'') ''/''"
      by (cases a') (auto simp: starts_with_def)
    from 2 assms show ?thesis unfolding b
      by (simp add: path_join_def comps_def split_char_join s)
  next
    case 3
    have s: "starts_with (a @ CHR ''/'' # b) ''/'' = starts_with a ''/''"
      using 3 by (cases a) (auto simp: starts_with_def)
    from 3 assms show ?thesis unfolding b by (simp add: path_join_def comps_def split_char_join s)
  qed
qed

text \<open>A plain name: one component. Identifiers are UUIDs.\<close>

definition plain_name :: "string \<Rightarrow> bool" where
  "plain_name n \<longleftrightarrow> n \<noteq> [] \<and> n \<noteq> ''.'' \<and> CHR ''/'' \<notin> set n"

lemma split_char_plain: "c \<notin> set n \<Longrightarrow> split_char c n = [n]"
  by (induction n) auto

lemma comps_join_plain: "plain_name n \<Longrightarrow> comps (path_join a n) = comps a @ [n]"
  by (subst comps_join) (auto simp: plain_name_def comps_def split_char_plain starts_with_iff)

section \<open>Access rights\<close>

text \<open>Permission \<open>k\<close> (0 search, 1 write, 2 read) of an identity on a node, and reading a file: root
  reads everything, others need search permission on every directory above it.\<close>

definition may :: "32 word \<Rightarrow> 32 word \<Rightarrow> nat \<Rightarrow> node \<Rightarrow> bool" where
  "may uid gid k n =
     (if nd_uid n = uid then bit (nd_mode n) (6 + k)
      else if nd_gid n = gid then bit (nd_mode n) (3 + k)
      else bit (nd_mode n) k)"

definition can_read :: "fs \<Rightarrow> 32 word \<Rightarrow> 32 word \<Rightarrow> string list \<Rightarrow> bool" where
  "can_read fs uid gid p \<longleftrightarrow>
     uid = 0 \<or>
     (\<forall>i. 0 < i \<and> i < length p \<longrightarrow> (\<exists>n. fs (take i p) = Some n \<and> may uid gid 0 n)) \<and>
     (\<exists>n. fs p = Some n \<and> may uid gid 2 n)"

lemma private_dir_denies:
  assumes "fs d = Some n" "nd_mode n = 448" "nd_uid n \<noteq> uid" "uid \<noteq> 0" "d \<noteq> []" "c \<noteq> []"
  shows "\<not> can_read fs uid gid (d @ c)"
proof
  assume "can_read fs uid gid (d @ c)"
  with assms(4-6) have "\<exists>n. fs (take (length d) (d @ c)) = Some n \<and> may uid gid 0 n"
    unfolding can_read_def by (metis length_append length_greater_0_conv less_add_same_cancel1)
  with assms(1-3) show False by (simp add: may_def bit_iff_odd split: if_splits)
qed

end
