(* ===== verification/Hub_Backend.thy ===== *)
theory Hub_Backend
  imports Hub_Files
begin

text \<open>
  \<^verbatim>\<open>src/proxy/backend.rs\<close>: one upstream connection. The client library is the record \<open>peer\<close> of what
  it answers; an answer takes some time or never comes (\<open>reply\<close>), and waiting for it under a
  wall-clock limit is \<open>await\<close>, whose value \<open>None\<close> says that the wait never ends. The parts of the
  protocol's objects the hub does not look at are kept as texts. The lemmas show that names and
  URIs survive the trip through the hub's namespace, what environment a child process gets, and
  who can read an instance's configuration file.
\<close>

section \<open>Answers and time limits\<close>

datatype 'a reply = Reply nat 'a | Hang

primrec map_reply :: "('a \<Rightarrow> 'b) \<Rightarrow> 'a reply \<Rightarrow> 'b reply" where
  "map_reply f (Reply us x) = Reply us (f x)"
| "map_reply f Hang = Hang"

text \<open>\<open>tokio::time::timeout\<close> over \<open>secs\<close> seconds, or the plain wait when \<open>secs\<close> is zero; the left
  value is the expiry, and the first component how long it took in microseconds.\<close>

fun await :: "nat \<Rightarrow> 'a reply \<Rightarrow> (nat \<times> (unit + 'a)) option" where
  "await secs (Reply us x) =
     (if secs = 0 \<or> us \<le> secs * 1000000 then Some (us, Inr x) else Some (secs * 1000000, Inl ()))"
| "await secs Hang = (if secs = 0 then None else Some (secs * 1000000, Inl ()))"

definition squote :: "string \<Rightarrow> string" where
  "squote s = [CHR 0x27] @ s @ [CHR 0x27]"

text \<open>An error with its context, as the alternate format prints the chain.\<close>

definition with_context :: "string \<Rightarrow> 'a res \<Rightarrow> 'a res" where
  "with_context msg r = (case r of Inl e \<Rightarrow> Inl (msg @ '': '' @ e) | Inr x \<Rightarrow> Inr x)"

section \<open>The client library\<close>

record tool =
  tl_name :: string
  tl_payload :: string

record resource =
  re_uri :: string
  re_payload :: string

record resource_template =
  rp_uri_template :: string
  rp_payload :: string

record prompt =
  pm_name :: string
  pm_payload :: string

datatype contents = TextContents string string | BlobContents string string | OtherContents string

record call_result =
  cr_is_error :: "bool option"
  cr_payload :: string

record server_info =
  sv_payload :: string
  sv_tools :: bool
  sv_prompts :: bool
  sv_resources :: bool

record peer =
  pe_info :: "server_info option"
  pe_list_tools :: "tool list res reply"
  pe_list_resources :: "resource list res reply"
  pe_list_templates :: "resource_template list res reply"
  pe_list_prompts :: "prompt list res reply"
  pe_call_tool :: "string \<Rightarrow> string option \<Rightarrow> call_result res reply"
  pe_read_resource :: "string \<Rightarrow> contents list res reply"
  pe_get_prompt :: "string \<Rightarrow> string option \<Rightarrow> string res reply"

section \<open>Namespacing\<close>

definition namespaced :: "string \<Rightarrow> string \<Rightarrow> string" where
  "namespaced ns name = ns @ ''__'' @ name"

definition wrap_uri :: "string \<Rightarrow> string \<Rightarrow> string" where
  "wrap_uri ns original = ''hub://'' @ ns @ ''/'' @ original"

definition unwrap_uri :: "string \<Rightarrow> (string \<times> string) option" where
  "unwrap_uri wrapped = Option.bind (strip_prefix wrapped ''hub://'') (\<lambda>s. split_once s ''/'')"

definition list_namespaced_tools :: "backend \<Rightarrow> peer \<Rightarrow> tool list res reply" where
  "list_namespaced_tools b p =
     map_reply (\<lambda>r. map_sum id (map (\<lambda>t. t\<lparr>tl_name := namespaced (b_namespace b) (tl_name t)\<rparr>))
                  (with_context (''listing tools for '' @ squote (b_namespace b)) r)) (pe_list_tools p)"

definition list_namespaced_resources :: "backend \<Rightarrow> peer \<Rightarrow> resource list res reply" where
  "list_namespaced_resources b p =
     map_reply (map_sum id (map (\<lambda>r. r\<lparr>re_uri := wrap_uri (b_namespace b) (re_uri r)\<rparr>))) (pe_list_resources p)"

definition list_namespaced_resource_templates :: "backend \<Rightarrow> peer \<Rightarrow> resource_template list res reply" where
  "list_namespaced_resource_templates b p =
     map_reply (map_sum id (map (\<lambda>t. t\<lparr>rp_uri_template := wrap_uri (b_namespace b) (rp_uri_template t)\<rparr>)))
       (pe_list_templates p)"

definition list_namespaced_prompts :: "backend \<Rightarrow> peer \<Rightarrow> prompt list res reply" where
  "list_namespaced_prompts b p =
     map_reply (map_sum id (map (\<lambda>t. t\<lparr>pm_name := namespaced (b_namespace b) (pm_name t)\<rparr>))) (pe_list_prompts p)"

fun rewrap :: "string \<Rightarrow> contents \<Rightarrow> contents" where
  "rewrap ns (TextContents uri x) = TextContents (wrap_uri ns uri) x"
| "rewrap ns (BlobContents uri x) = BlobContents (wrap_uri ns uri) x"
| "rewrap ns (OtherContents x) = OtherContents x"

definition backend_read_resource :: "backend \<Rightarrow> peer \<Rightarrow> string \<Rightarrow> contents list res reply" where
  "backend_read_resource b p original_uri =
     map_reply (\<lambda>r. map_sum id (map (rewrap (b_namespace b)))
                  (with_context (''reading resource on '' @ squote (b_namespace b)) r))
       (pe_read_resource p original_uri)"

definition backend_get_prompt :: "backend \<Rightarrow> peer \<Rightarrow> string \<Rightarrow> string option \<Rightarrow> string res reply" where
  "backend_get_prompt b p original_name arguments =
     map_reply (with_context (''getting prompt on '' @ squote (b_namespace b)))
       (pe_get_prompt p original_name arguments)"

definition backend_call_tool :: "backend \<Rightarrow> peer \<Rightarrow> string \<Rightarrow> string option \<Rightarrow> call_result res reply" where
  "backend_call_tool b p original_name arguments =
     map_reply (with_context (''calling tool on '' @ squote (b_namespace b)))
       (pe_call_tool p original_name arguments)"

section \<open>Capabilities snapshot\<close>

record capabilities_snapshot =
  sp_fetched_at :: int
  sp_server :: server_info
  sp_tools :: "tool list"
  sp_prompts :: "prompt list"
  sp_resources :: "resource list"
  sp_resource_templates :: "resource_template list"

definition server_info_default :: server_info where
  "server_info_default = \<lparr>sv_payload = [], sv_tools = False, sv_prompts = False, sv_resources = False\<rparr>"

text \<open>One list of the snapshot: nothing when the capability is absent, an empty list when the call
  fails, no end when it never returns.\<close>

definition snapshot_list :: "bool \<Rightarrow> 'a list res reply \<Rightarrow> 'a list option" where
  "snapshot_list advertised r =
     (if \<not> advertised then Some []
      else (case r of Hang \<Rightarrow> None | Reply _ (Inl _) \<Rightarrow> Some [] | Reply _ (Inr xs) \<Rightarrow> Some xs))"

definition capture_snapshot :: "int \<Rightarrow> peer \<Rightarrow> capabilities_snapshot option" where
  "capture_snapshot now p =
     (let server = (case pe_info p of None \<Rightarrow> server_info_default | Some s \<Rightarrow> s) in
      Option.bind (snapshot_list (sv_tools server) (pe_list_tools p)) (\<lambda>tools.
      Option.bind (snapshot_list (sv_prompts server) (pe_list_prompts p)) (\<lambda>prompts.
      Option.bind (snapshot_list (sv_resources server) (pe_list_resources p)) (\<lambda>resources.
      Option.bind (snapshot_list (sv_resources server) (pe_list_templates p)) (\<lambda>templates.
      Some \<lparr>sp_fetched_at = now, sp_server = server, sp_tools = tools, sp_prompts = prompts,
            sp_resources = resources, sp_resource_templates = templates\<rparr>)))))"

section \<open>Instance directories\<close>

definition CONFIG_FILE_NAME :: string where
  "CONFIG_FILE_NAME = ''config''"

definition workdir_path :: "string \<Rightarrow> string \<Rightarrow> string" where
  "workdir_path edir instance_id = path_join (path_join edir ''workdir'') instance_id"

definition home_path :: "string \<Rightarrow> string \<Rightarrow> string" where
  "home_path edir instance_id = path_join (path_join edir ''home'') instance_id"

definition ensure_home :: "os_proc \<Rightarrow> string \<Rightarrow> string \<Rightarrow> sandbox option \<Rightarrow> string io" where
  "ensure_home pr edir instance_id sandbox =
     (let home = home_path edir instance_id in
      io_bind (create_dir_all pr home) (\<lambda>_.
      io_bind (case sandbox of
                 None \<Rightarrow> io_return ()
               | Some sb \<Rightarrow> io_bind (chown pr home (sx_uid sb) (sx_gid sb)) (\<lambda>_. set_private pr home)) (\<lambda>_.
      io_return home)))"

definition remove_home :: "os_proc \<Rightarrow> string \<Rightarrow> string \<Rightarrow> fs \<Rightarrow> fs" where
  "remove_home pr edir instance_id fs = fst (remove_dir_all pr (home_path edir instance_id) fs)"

definition write_config_file ::
  "os_proc \<Rightarrow> string \<Rightarrow> string \<Rightarrow> string \<Rightarrow> sandbox option \<Rightarrow> (string \<times> string) io" where
  "write_config_file pr edir instance_id content sandbox = (\<lambda>fs.
     (let workdir = workdir_path edir instance_id;
          file = path_join workdir CONFIG_FILE_NAME in
      io_bind (create_dir_all pr workdir) (\<lambda>_.
      io_bind (fs_write pr file content) (\<lambda>_.
      io_bind (case sandbox of
                 None \<Rightarrow> io_return ()
               | Some sb \<Rightarrow>
                   io_bind (chown pr workdir (sx_uid sb) (sx_gid sb)) (\<lambda>_.
                   io_bind (chown pr file (sx_uid sb) (sx_gid sb)) (\<lambda>_.
                   set_private pr workdir))) (\<lambda>_.
      io_return (file, workdir)))) (fst (remove_dir_all pr workdir fs))))"

definition remove_workdir :: "os_proc \<Rightarrow> string \<Rightarrow> string \<Rightarrow> fs \<Rightarrow> fs" where
  "remove_workdir pr edir instance_id fs = fst (remove_dir_all pr (workdir_path edir instance_id) fs)"

section \<open>The command of a stdio backend\<close>

datatype rlimit = RLIMIT_NPROC | RLIMIT_DATA | RLIMIT_CPU | RLIMIT_FSIZE

definition saturating_mul :: "nat \<Rightarrow> nat \<Rightarrow> nat" where
  "saturating_mul a b = min (a * b) (2 ^ 64 - 1)"

fun set_limits :: "(rlimit \<Rightarrow> nat \<Rightarrow> string option) \<Rightarrow> (rlimit \<times> nat) list \<Rightarrow> (rlimit \<times> nat) list \<Rightarrow> (rlimit \<times> nat) list res" where
  "set_limits setrlimit done [] = Inr done"
| "set_limits setrlimit done ((r, v) # rest) =
     (case setrlimit r v of Some e \<Rightarrow> Inl e | None \<Rightarrow> set_limits setrlimit (done @ [(r, v)]) rest)"

text \<open>The system calls of the forked child, in order; the first that fails aborts the spawn.\<close>

definition apply_child_limits :: "(rlimit \<Rightarrow> nat \<Rightarrow> string option) \<Rightarrow> child_limits \<Rightarrow> (rlimit \<times> nat) list res" where
  "apply_child_limits setrlimit l =
     set_limits setrlimit []
       ((case cl_max_procs l of None \<Rightarrow> [] | Some n \<Rightarrow> [(RLIMIT_NPROC, n)]) @
        (case cl_max_mem_mb l of None \<Rightarrow> [] | Some mb \<Rightarrow> [(RLIMIT_DATA, saturating_mul mb (1024 * 1024))]) @
        (case cl_max_cpu_secs l of None \<Rightarrow> [] | Some s \<Rightarrow> [(RLIMIT_CPU, s)]) @
        (case cl_max_file_mb l of None \<Rightarrow> [] | Some mb \<Rightarrow> [(RLIMIT_FSIZE, saturating_mul mb (1024 * 1024))]))"

record command =
  cm_program :: string
  cm_args :: "string list"
  cm_env :: btree
  cm_dir :: "string option"
  cm_identity :: "(32 word \<times> 32 word) option"
  cm_limits :: "child_limits option"

text \<open>The variables set on the cleared environment, in the order the code sets them.\<close>

definition child_env :: "os_proc \<Rightarrow> btree \<Rightarrow> string \<Rightarrow> sandbox option \<Rightarrow> btree" where
  "child_env pr env home sandbox =
     (let e1 = foldl (\<lambda>m (k, v). bt_insert k (expand_vars v env) m) [] env;
          e2 = (case pr_path pr of None \<Rightarrow> e1 | Some path \<Rightarrow> bt_insert ''PATH'' path e1);
          e3 = bt_insert ''MCP_REMOTE_CONFIG_DIR'' (path_join home ''.mcp-auth'') (bt_insert ''HOME'' home e2) in
      case sandbox of
        None \<Rightarrow> e3
      | Some sb \<Rightarrow>
          bt_insert ''npm_config_cache'' (sx_cache_dir sb @ ''/npm'')
            (bt_insert ''UV_CACHE_DIR'' (sx_cache_dir sb @ ''/uv'')
              (bt_insert ''XDG_CACHE_HOME'' (sx_cache_dir sb) (bt_insert ''USER'' ''mcp-sandbox'' e3))))"

definition stdio_command ::
  "os_proc \<Rightarrow> server_def \<Rightarrow> btree \<Rightarrow> sandbox option \<Rightarrow> string \<Rightarrow> string \<Rightarrow> string option \<Rightarrow> child_limits \<Rightarrow> command io" where
  "stdio_command pr def env sandbox edir instance_id config_file limits =
     (case sd_command def of
        None \<Rightarrow> (\<lambda>fs. (fs, Inl ''stdio backend has no command''))
      | Some program \<Rightarrow>
          io_bind (io_context ''preparing instance HOME'' (ensure_home pr edir instance_id sandbox)) (\<lambda>home.
          io_bind (case config_file of
                     None \<Rightarrow> io_return (env, None)
                   | Some content \<Rightarrow>
                       io_bind (io_context ''writing config file''
                                  (write_config_file pr edir instance_id content sandbox)) (\<lambda>(file, workdir).
                       io_return (bt_insert CONFIG_FILE_ENV file env, Some workdir))) (\<lambda>(env, workdir).
          io_return
            \<lparr>cm_program = expand_vars program env,
             cm_args = map (\<lambda>a. expand_vars a env) (sd_args def),
             cm_env = child_env pr env home sandbox,
             cm_dir = workdir,
             cm_identity = map_option (\<lambda>sb. (sx_uid sb, sx_gid sb)) sandbox,
             cm_limits = (if cl_any limits then Some limits else None)\<rparr>)))"

section \<open>The configuration of an http backend\<close>

definition AUTH_KEY :: string where
  "AUTH_KEY = ''AUTHORIZATION''"

definition AUTH_METHOD_KEY :: string where
  "AUTH_METHOD_KEY = ''AUTHORIZATION_METHOD''"

record http_conf =
  hc_url :: string
  hc_auth_header :: "string option"
  hc_authorization :: "string option"

definition is_token_char :: "char \<Rightarrow> bool" where
  "is_token_char c \<longleftrightarrow> is_ascii_alphanumeric c \<or> c \<in> set (''!#$%&*+-.^_'' @ [CHR 0x27, CHR 0x60, CHR 0x7C, CHR 0x7E])"

definition validate_scheme :: "string \<Rightarrow> unit res" where
  "validate_scheme scheme =
     (if list_all is_token_char scheme then Inr ()
      else Inl (AUTH_METHOD_KEY @ '' must be a bare auth scheme such as '' @ squote ''Bearer'' @ '' or '' @
                squote ''Basic'' @ '', got '' @ squote scheme))"

definition strip_scheme :: "string \<Rightarrow> string \<Rightarrow> string" where
  "strip_scheme v scheme =
     (let trimmed = trim v in
      case split_once trimmed '' '' of
        Some (first, rest) \<Rightarrow> if eq_ignore_ascii_case first scheme then trim rest else trimmed
      | None \<Rightarrow> trimmed)"

definition auth_scheme :: "btree \<Rightarrow> string" where
  "auth_scheme env =
     (case map_option trim (map_of env AUTH_METHOD_KEY) of
        None \<Rightarrow> ''Bearer''
      | Some s \<Rightarrow> if s = [] then ''Bearer'' else s)"

definition http_config :: "(string \<Rightarrow> bool) \<Rightarrow> server_def \<Rightarrow> btree \<Rightarrow> http_conf res" where
  "http_config header_value_ok def env =
     (case sd_url def of
        None \<Rightarrow> Inl ''http backend has no url''
      | Some url \<Rightarrow>
          (let config = \<lparr>hc_url = url, hc_auth_header = None, hc_authorization = None\<rparr> in
           case map_of env AUTH_KEY of
             None \<Rightarrow> Inr config
           | Some auth \<Rightarrow>
               if auth = [] then Inr config
               else
                 (let scheme = auth_scheme env in
                  if eq_ignore_ascii_case scheme ''Bearer'' then
                    Inr (config\<lparr>hc_auth_header := Some (strip_scheme auth ''Bearer'')\<rparr>)
                  else
                    rbind (validate_scheme scheme) (\<lambda>_.
                      let v = scheme @ '' '' @ strip_scheme auth scheme in
                      if header_value_ok v then Inr (config\<lparr>hc_authorization := Some v\<rparr>)
                      else Inl (AUTH_KEY @ '' contains characters that are not valid in an HTTP header'')))))"

section \<open>Spawning and probing\<close>

text \<open>What starts a connection: the child process (its start can fail at once) or the http client,
  with the answer to the handshake, here the number that identifies the connection; and the text a
  failed child left on its standard error.\<close>

record launcher =
  ln_stdio :: "command \<Rightarrow> nat res reply res"
  ln_http :: "http_conf \<Rightarrow> nat res reply"
  ln_stderr :: "command \<Rightarrow> string option"
  ln_header_ok :: "string \<Rightarrow> bool"
  ln_peer :: "nat \<Rightarrow> peer"

definition init_with_timeout :: "nat \<Rightarrow> 'p res reply \<Rightarrow> 'p res option" where
  "init_with_timeout secs r =
     map_option (\<lambda>(_, out). case out of Inr x \<Rightarrow> x | Inl _ \<Rightarrow> Inl (''initialize timed out after '' @ nat_str secs @ ''s''))
       (await secs r)"

definition spawn ::
  "launcher \<Rightarrow> os_proc \<Rightarrow> server_def \<Rightarrow> btree \<Rightarrow> inst_row \<Rightarrow> sandbox option \<Rightarrow> string \<Rightarrow> string option \<Rightarrow>
   child_limits \<Rightarrow> nat \<Rightarrow> fs \<Rightarrow> fs \<times> backend res option" where
  "spawn ln pr def env inst sandbox edir config_file limits timeout fs =
     (let ns = i_namespace inst;
          built = (\<lambda>arc. \<lparr>b_arc = arc, b_instance_id = i_id inst, b_namespace = ns,
                          b_display_name = i_display_name inst, b_closed = False\<rparr>) in
      if sd_transport def = ''stdio'' then
        (case stdio_command pr def env sandbox edir (i_id inst) config_file limits fs of
           (fs', Inl e) \<Rightarrow> (fs', Some (Inl (''backend '' @ squote ns @ '': '' @ e)))
         | (fs', Inr cmd) \<Rightarrow>
             (case ln_stdio ln cmd of
                Inl e \<Rightarrow> (fs', Some (Inl (''spawning backend '' @ squote ns @ '': '' @ e)))
              | Inr r \<Rightarrow>
                  (fs', map_option (map_sum id built \<circ> with_context (''initializing stdio backend '' @ squote ns))
                          (init_with_timeout timeout r))))
      else if sd_transport def = ''http'' then
        (fs, case with_context (''backend '' @ squote ns) (http_config (ln_header_ok ln) def env) of
               Inl e \<Rightarrow> Some (Inl e)
             | Inr cfg \<Rightarrow>
                 map_option (map_sum id built \<circ> with_context (''connecting http backend '' @ squote ns))
                   (init_with_timeout timeout (ln_http ln cfg)))
      else (fs, Some (Inl (''unsupported transport '' @ squote (sd_transport def) @ '' for backend '' @ squote ns))))"

definition read_stderr_tail :: "string \<Rightarrow> string" where
  "read_stderr_tail txt = rev (take 3000 (rev (trim txt)))"

definition probe ::
  "launcher \<Rightarrow> os_proc \<Rightarrow> int \<Rightarrow> server_def \<Rightarrow> btree \<Rightarrow> sandbox option \<Rightarrow> string \<Rightarrow> string \<Rightarrow> string option \<Rightarrow>
   child_limits \<Rightarrow> nat \<Rightarrow> fs \<Rightarrow> fs \<times> capabilities_snapshot res option" where
  "probe ln pr now def env sandbox edir instance_id config_file limits timeout fs =
     (if sd_transport def = ''stdio'' then
        (case stdio_command pr def env sandbox edir instance_id config_file limits fs of
           (fs', Inl e) \<Rightarrow> (fs', Some (Inl e))
         | (fs', Inr cmd) \<Rightarrow>
             (case ln_stdio ln cmd of
                Inl e \<Rightarrow> (fs', Some (Inl (''spawning backend: '' @ e)))
              | Inr r \<Rightarrow>
                  (fs', Option.bind (init_with_timeout timeout r) (\<lambda>out.
                     case out of
                       Inr arc \<Rightarrow> map_option Inr (capture_snapshot now (ln_peer ln arc))
                     | Inl e \<Rightarrow>
                         (let tail = (case ln_stderr ln cmd of None \<Rightarrow> [] | Some txt \<Rightarrow> read_stderr_tail txt) in
                          Some (Inl (if tail = [] then ''initializing backend: '' @ e
                                     else e @ [CHR 0x0A] @ ''--- server stderr ---'' @ [CHR 0x0A] @ tail)))))))
      else if sd_transport def = ''http'' then
        (fs, case http_config (ln_header_ok ln) def env of
               Inl e \<Rightarrow> Some (Inl e)
             | Inr cfg \<Rightarrow>
                 Option.bind (init_with_timeout timeout (ln_http ln cfg)) (\<lambda>out.
                   case out of
                     Inr arc \<Rightarrow> map_option Inr (capture_snapshot now (ln_peer ln arc))
                   | Inl e \<Rightarrow> Some (Inl (''connecting http backend: '' @ e))))
      else (fs, Some (Inl (''unsupported transport '' @ squote (sd_transport def)))))"

section \<open>Wire names\<close>

text \<open>
  What the hub relies on to route a request back: the names it hands out carry the namespace of
  their backend (\<open>enc\<close>) and reading them (\<open>dec\<close>) gives namespace and original name again, for the
  namespaces that are \<open>ok\<close>; and what is read is what was written.
\<close>

locale wire_names =
  fixes enc :: "string \<Rightarrow> string \<Rightarrow> string"
    and dec :: "string \<Rightarrow> (string \<times> string) option"
    and ok :: "string \<Rightarrow> bool"
  assumes dec_enc: "ok ns \<Longrightarrow> dec (enc ns n) = Some (ns, n)"
    and dec_Some: "dec w = Some (ns, n) \<Longrightarrow> w = enc ns n"
begin

lemma enc_inj: "ok ns \<Longrightarrow> ok ns' \<Longrightarrow> enc ns n = enc ns' n' \<Longrightarrow> ns = ns' \<and> n = n'"
  by (metis dec_enc option.inject prod.inject)

text \<open>A name handed out for one of several backends with distinct namespaces leads to that backend,
  whatever the filter on the others.\<close>

lemma route_back:
  assumes "b \<in> set bs" "allowed b" "ok (ns_of b)" "distinct (map ns_of bs)"
  shows "\<exists>ns n'. dec (enc (ns_of b) n) = Some (ns, n') \<and> n' = n \<and>
           List.find (\<lambda>x. ns_of x = ns \<and> allowed x) bs = Some b"
proof -
  have "List.find (\<lambda>x. ns_of x = ns_of b \<and> allowed x) bs = Some b"
    using assms(1,4)
  proof (induction bs)
    case (Cons x xs)
    show ?case
    proof (cases "x = b")
      case True
      with assms(2) show ?thesis by simp
    next
      case False
      with Cons.prems have "b \<in> set xs" "distinct (map ns_of xs)" "ns_of x \<noteq> ns_of b" by (auto simp: image_iff)
      with Cons.IH show ?thesis by simp
    qed
  qed simp
  then show ?thesis using dec_enc[OF assms(3)] by simp
qed

text \<open>No name leads to a backend the filter refuses.\<close>

lemma route_allowed:
  "dec w = Some (ns, n) \<Longrightarrow> List.find (\<lambda>x. ns_of x = ns \<and> allowed x) bs = Some b \<Longrightarrow>
     b \<in> set bs \<and> allowed b \<and> w = enc (ns_of b) n"
  using find_SomeD[of "\<lambda>x. ns_of x = ns \<and> allowed x" bs b] dec_Some[of w ns n] by simp

end

text \<open>Tool and prompt names: a namespace is routable when no double underscore starts inside it.\<close>

definition routable :: "string \<Rightarrow> bool" where
  "routable ns \<longleftrightarrow> find_sub (ns @ ''_'') ''__'' = None"

lemma find_sub_routable:
  "routable ns \<Longrightarrow> find_sub (ns @ ''__'' @ t) ''__'' = Some (length ns)"
proof (induction ns)
  case Nil
  then show ?case by (simp add: starts_with_def)
next
  case (Cons c ns)
  then have "routable ns" and no: "\<not> starts_with (c # ns @ ''_'') ''__''"
    by (auto simp: routable_def split: if_splits)
  moreover have "\<not> starts_with (c # ns @ ''__'' @ t) ''__''"
    using no by (cases ns) (auto simp: starts_with_def)
  ultimately show ?case using Cons.IH by simp
qed

lemma split_namespaced: "routable ns \<Longrightarrow> split_once (namespaced ns t) ''__'' = Some (ns, t)"
  using find_sub_routable[of ns t] by (simp add: split_once_def namespaced_def)

interpretation tool_names: wire_names namespaced "\<lambda>w. split_once w ''__''" routable
  by unfold_locales (simp add: split_namespaced, drule split_once_Some, simp add: namespaced_def)

interpretation resource_uris: wire_names wrap_uri unwrap_uri "\<lambda>ns. CHR ''/'' \<notin> set ns"
proof unfold_locales
  show "CHR ''/'' \<notin> set ns \<Longrightarrow> unwrap_uri (wrap_uri ns n) = Some (ns, n)" for ns n
    using split_once_char[of "CHR ''/''" ns n] strip_prefix_append[of "''hub://''" "ns @ ''/'' @ n"]
    by (simp add: unwrap_uri_def wrap_uri_def)
  show "unwrap_uri w = Some (ns, n) \<Longrightarrow> w = wrap_uri ns n" for w ns n
    by (auto simp: unwrap_uri_def wrap_uri_def strip_prefix_Some bind_eq_Some_conv dest!: split_once_Some)
qed

text \<open>A name of a namespace that is not routable always reads as one of a shorter namespace.\<close>

lemma unroutable_split:
  assumes "\<not> routable ns"
  shows "\<exists>ns' t'. split_once (namespaced ns t) ''__'' = Some (ns', t') \<and> length ns' < length ns"
proof -
  have "\<exists>n. find_sub (ns @ ''__'' @ t) ''__'' = Some n \<and> n < length ns"
    using assms
  proof (induction ns)
    case Nil
    then show ?case by (simp add: routable_def starts_with_def)
  next
    case (Cons c ns)
    show ?case
    proof (cases "starts_with (c # ns @ ''__'' @ t) ''__''")
      case False
      then have "\<not> starts_with (c # ns @ ''_'') ''__''" by (cases ns) (auto simp: starts_with_def)
      with Cons.prems have "\<not> routable ns" by (auto simp: routable_def)
      with Cons.IH False show ?thesis by auto
    qed simp
  qed
  then show ?thesis by (auto simp: split_once_def namespaced_def)
qed

section \<open>Lemmas on instance directories\<close>

lemma comps_workdir: "plain_name i \<Longrightarrow> comps (workdir_path edir i) = comps edir @ [''workdir'', i]"
  and comps_home: "plain_name i \<Longrightarrow> comps (home_path edir i) = comps edir @ [''home'', i]"
  by (simp_all add: workdir_path_def home_path_def comps_join_plain plain_name_def)

text \<open>The two directories of an instance.\<close>

definition instance_files :: "string \<Rightarrow> string \<Rightarrow> string list set" where
  "instance_files edir i = below (comps (home_path edir i)) \<union> below (comps (workdir_path edir i))"

lemma instance_files_disjoint:
  assumes "plain_name i" "plain_name j" "i \<noteq> j"
  shows "instance_files edir i \<inter> instance_files edir j = {}"
  using assms by (auto simp: instance_files_def comps_workdir comps_home below_def)

lemma confined_ensure_home:
  "confined (instance_files edir i) (ensure_home pr edir i sandbox)"
  unfolding ensure_home_def Let_def
  by (intro confined_after io_frame)
    (auto intro!: confined_after io_frame simp: instance_files_def split: option.splits)

lemma confined_lift_fst:
  assumes "confined S m" "confined S k"
  shows "confined S (\<lambda>fs. k (fst (m fs)))"
  unfolding confined_def
proof (intro allI impI)
  fix fs p assume "p \<notin> S"
  with confinedD[OF assms(1), of fs "fst (m fs)" "snd (m fs)" p]
    confinedD[OF assms(2), of "fst (m fs)" "fst (k (fst (m fs)))" "snd (k (fst (m fs)))" p]
  show "fst (k (fst (m fs))) p = fs p \<or> fs p = None \<and> (\<exists>n. fst (k (fst (m fs))) p = Some n \<and> nd_kind n = FDir)"
    by (auto simp: prod_eq_iff)
qed

lemma config_in_workdir: "comps (path_join w CONFIG_FILE_NAME) = comps w @ [''config'']"
  by (simp add: CONFIG_FILE_NAME_def comps_join_plain plain_name_def)

lemma confined_write_config:
  "confined (instance_files edir i) (write_config_file pr edir i content sandbox)"
  unfolding write_config_file_def Let_def
  by (rule confined_lift_fst; intro confined_after io_frame)
    (auto intro!: confined_after io_frame simp: instance_files_def config_in_workdir split: option.splits)

lemma confined_stdio_command:
  "confined (instance_files edir i) (stdio_command pr def env sandbox edir i cf limits)"
  by (auto simp: stdio_command_def confined_ensure_home confined_write_config
      intro!: confined_after io_frame split: option.splits prod.splits)

text \<open>The state a successful write leaves.\<close>

lemma write_config_file_Inr:
  assumes "write_config_file pr edir i content (Some sb) fs = (fs', Inr (file, workdir))"
    and "plain_name i"
  shows "workdir = workdir_path edir i \<and> file = path_join workdir CONFIG_FILE_NAME \<and>
    (\<exists>n. fs' (comps file) = Some n \<and> nd_kind n = FFile content \<and> nd_uid n = sx_uid sb) \<and>
    (\<exists>n. fs' (comps workdir) = Some n \<and> nd_kind n = FDir \<and> nd_uid n = sx_uid sb \<and> nd_mode n = 448)"
proof -
  define w f where "w = workdir_path edir i" and "f = path_join w CONFIG_FILE_NAME"
  have ne: "comps f \<noteq> comps w" "comps w \<noteq> []"
    using assms(2) by (simp_all add: f_def w_def config_in_workdir comps_workdir)
  from assms(1) obtain fs0 fs1 fs2 fs3 fs4 where eq: "workdir = w" "file = f"
    and mk: "create_dir_all pr w fs0 = (fs1, Inr ())"
    and wr: "fs_write pr f content fs1 = (fs2, Inr ())"
    and c1: "chown pr w (sx_uid sb) (sx_gid sb) fs2 = (fs3, Inr ())"
    and c2: "chown pr f (sx_uid sb) (sx_gid sb) fs3 = (fs4, Inr ())"
    and pv: "set_mode pr w 448 fs4 = (fs', Inr ())"
    by (auto simp: write_config_file_def Let_def io_Inr set_private_def w_def[symmetric] f_def[symmetric])
  from create_dir_all_Inr[OF mk ne(2)] obtain nw where nw: "fs1 (comps w) = Some nw" "nd_kind nw = FDir"
    by (auto simp: is_dir_def split: option.splits)
  from fs_write_Inr[OF wr] obtain nf where nf: "fs2 = fs1(comps f \<mapsto> nf)" "nd_kind nf = FFile content" by auto
  have s3: "fs3 = fs2(comps w \<mapsto> nw\<lparr>nd_uid := sx_uid sb, nd_gid := sx_gid sb\<rparr>)"
    using chown_Inr[OF c1] nw ne nf by auto
  have s4: "fs4 = fs3(comps f \<mapsto> nf\<lparr>nd_uid := sx_uid sb, nd_gid := sx_gid sb\<rparr>)"
    using chown_Inr[OF c2] s3 nf ne by auto
  have s5: "fs' = fs4(comps w \<mapsto> nw\<lparr>nd_uid := sx_uid sb, nd_gid := sx_gid sb, nd_mode := 448\<rparr>)"
    using set_mode_Inr[OF pv] s4 s3 ne by auto
  have "fs' (comps f) = Some (nf\<lparr>nd_uid := sx_uid sb, nd_gid := sx_gid sb\<rparr>)" using s5 s4 ne by simp
  moreover have "fs' (comps w) = Some (nw\<lparr>nd_uid := sx_uid sb, nd_gid := sx_gid sb, nd_mode := 448\<rparr>)"
    using s5 by simp
  ultimately show ?thesis using eq nf nw by (simp add: f_def w_def)
qed

text \<open>The variables of the child's environment.\<close>

lemma map_of_expanded:
  assumes "bt_wf env"
  shows "map_of (foldl (\<lambda>m (k, v). bt_insert k (f v) m) [] env) k = map_option f (map_of env k)"
    and "bt_wf (foldl (\<lambda>m (k, v). bt_insert k (f v) m) [] env)"
proof -
  have gen: "bt_wf m \<Longrightarrow> bt_wf (foldl (\<lambda>m (k, v). bt_insert k (f v) m) m es) \<and>
     (distinct (map fst es) \<longrightarrow> map_of (foldl (\<lambda>m (k, v). bt_insert k (f v) m) m es) k =
        (case map_of es k of Some v \<Rightarrow> Some (f v) | None \<Rightarrow> map_of m k))" for m es
  proof (induction es arbitrary: m)
    case (Cons e es)
    obtain j v where e: "e = (j, v)" by (cases e)
    from Cons.IH[of "bt_insert j (f v) m"] Cons.prems show ?case
      by (cases "j = k") (auto simp: e map_of_eq_None_iff[symmetric] simp del: map_of_eq_None_iff
          split: option.splits)
  qed simp
  show "map_of (foldl (\<lambda>m (k, v). bt_insert k (f v) m) [] env) k = map_option f (map_of env k)"
    using gen[of "[]" env] bt_wf_distinct[OF assms] by (auto split: option.splits)
  show "bt_wf (foldl (\<lambda>m (k, v). bt_insert k (f v) m) [] env)" using gen[of "[]" env] by simp
qed

lemma map_of_child_env:
  assumes "bt_wf env"
  shows "map_of (child_env pr env home sandbox) k =
    (if sandbox \<noteq> None \<and> k \<in> {''USER'', ''XDG_CACHE_HOME'', ''UV_CACHE_DIR'', ''npm_config_cache''} then
       map_option (\<lambda>sb. if k = ''USER'' then ''mcp-sandbox'' else if k = ''XDG_CACHE_HOME'' then sx_cache_dir sb
         else if k = ''UV_CACHE_DIR'' then sx_cache_dir sb @ ''/uv'' else sx_cache_dir sb @ ''/npm'') sandbox
     else if k = ''MCP_REMOTE_CONFIG_DIR'' then Some (path_join home ''.mcp-auth'')
     else if k = ''HOME'' then Some home
     else if k = ''PATH'' \<and> pr_path pr \<noteq> None then pr_path pr
     else map_option (\<lambda>v. expand_vars v env) (map_of env k))"
proof -
  define e1 where "e1 = foldl (\<lambda>m (k, v). bt_insert k (expand_vars v env) m) [] env"
  have wf: "bt_wf e1" and e1: "map_of e1 k = map_option (\<lambda>v. expand_vars v env) (map_of env k)"
    unfolding e1_def using map_of_expanded[OF assms, where f = "\<lambda>v. expand_vars v env"] by auto
  show ?thesis
    unfolding child_env_def e1_def[symmetric] Let_def
    by (cases sandbox; cases "pr_path pr") (simp_all add: wf e1)
qed

section \<open>Properties\<close>


definition demo_proc :: os_proc where
  "demo_proc = \<lparr>pr_uid = 0, pr_gid = 0, pr_dir_mode = 493, pr_file_mode = 420, pr_path = Some ''/bin'',
     pr_os_error = \<lambda>_ _. None\<rparr>"

definition demo_sandbox :: sandbox where
  "demo_sandbox = \<lparr>sx_uid = 7, sx_gid = 7, sx_cache_dir = ''/s/7''\<rparr>"

definition demo_def :: server_def where
  "demo_def = \<lparr>sd_name = ''t'', sd_description = [], sd_transport = ''stdio'', sd_command = Some ''sh'',
     sd_args = [''-c''], sd_url = None, sd_runtime = [], sd_repo = None, sd_git_ref = None, sd_entry = None,
     sd_module = None, sd_connect_timeout_secs = None\<rparr>"

definition demo_run :: "fs \<times> command res" where
  "demo_run = stdio_command demo_proc demo_def [] (Some demo_sandbox) ''/d'' ''i1'' (Some ''secret'')
     \<lparr>cl_max_procs = None, cl_max_mem_mb = None, cl_max_cpu_secs = None, cl_max_file_mb = None\<rparr>
     [[''/''] \<mapsto> \<lparr>nd_kind = FDir, nd_uid = 0, nd_gid = 0, nd_mode = 493\<rparr>]"

lemma demo_run_ok: "map_sum id cm_dir (snd demo_run) = Inr (Some ''/d/workdir/i1'')"
  by code_simp


text \<open>A child process gets exactly the environment it is configured with. Of the hub's own
  variables only the search path reaches it; its home directory is the one of the instance
  whatever the configuration says; under a sandbox the cache variables point into the sandbox; and
  every other variable has the configured value with references expanded, or is absent.\<close>

theorem child_env_exact:
  assumes "bt_wf env" "k \<notin> {''USER'', ''XDG_CACHE_HOME'', ''UV_CACHE_DIR'', ''npm_config_cache'', ''MCP_REMOTE_CONFIG_DIR''}"
  shows "map_of (child_env pr env home sandbox) ''HOME'' = Some home \<and>
    map_of (child_env pr env home (Some sb)) ''XDG_CACHE_HOME'' = Some (sx_cache_dir sb) \<and>
    map_of (child_env pr env home sandbox) k =
      (if k = ''HOME'' then Some home
       else if k = ''PATH'' \<and> pr_path pr \<noteq> None then pr_path pr
       else map_option (\<lambda>v. expand_vars v env) (map_of env k))"
  using assms by (simp add: map_of_child_env)

theorem child_env_exact_witness:
  "map_of (child_env demo_proc [(''HOME'', ''/root''), (''TOKEN'', ''x'')] ''/d/home/i1'' None) ''HOME'' = Some ''/d/home/i1''"
proof -
  have "bt_wf [(''HOME'', ''/root''), (''TOKEN'', ''x'')]" by code_simp
  from child_env_exact[OF this, of "''TOKEN''" demo_proc "''/d/home/i1''" None demo_sandbox] show ?thesis
    by (simp add: demo_proc_def)
qed

end
