(* ===== verification/Hub_Gitcreds.thy ===== *)
theory Hub_Gitcreds
  imports Hub_Env Hub_Users Hub_Crypto
begin

text \<open>
  \<^verbatim>\<open>src/gitcreds.rs\<close>: one sealed access token per user and git host. The url crate is the argument
  \<open>parse\<close>, whose answers are read through the record \<open>git_url\<close>. The lemmas show that a stored
  token comes back for exactly the repositories of its host and its owner (deletion is scoped to
  the owner, interpretation \<open>gitcred\<close>) and that it cannot break the line protocol it travels in.
\<close>

section \<open>Operations\<close>

definition DEFAULT_USERNAME :: string where
  "DEFAULT_USERNAME = ''x-access-token''"

definition MAX_TOKEN_LEN :: nat where
  "MAX_TOKEN_LEN = 512"

record git_credential =
  gd_id :: string
  gd_host :: string
  gd_username :: string
  gd_label :: string
  gd_created_at :: int
  gd_updated_at :: int
  gd_last_used_at :: "int option"

record resolved_credential =
  rv_id :: string
  rv_host :: string
  rv_username :: string
  rv_token :: string

record git_url =
  gu_scheme :: string
  gu_username :: string
  gu_password :: "string option"
  gu_host_str :: "string option"
  gu_port :: "nat option"

definition normalize_host :: "(string \<Rightarrow> git_url option) \<Rightarrow> string \<Rightarrow> string res" where
  "normalize_host parse input =
     (let raw0 = trim input; raw = (case strip_prefix raw0 ''git+'' of None \<Rightarrow> raw0 | Some r \<Rightarrow> r) in
      if raw = [] then Inl ''a git host is required''
      else
        (case parse (if contains_sub raw ''://'' then raw else ''https://'' @ raw) of
           None \<Rightarrow> Inl (input @ '' is not a valid git host or URL'')
         | Some p \<Rightarrow>
             if gu_scheme p \<noteq> ''https'' then
               Inl (''only https git hosts are supported (got '' @ gu_scheme p @ ''://); ssh keys are not handled yet'')
             else if gu_username p \<noteq> [] \<or> gu_password p \<noteq> None then
               Inl ''remove the credentials from the URL: enter the host on its own and put the token in the token field''
             else
               (case gu_host_str p of
                  None \<Rightarrow> Inl (input @ '' has no host'')
                | Some h \<Rightarrow>
                    if h = [] then Inl (input @ '' has no host'')
                    else (case gu_port p of
                            Some port \<Rightarrow> Inr (h @ '':'' @ nat_str port)
                          | None \<Rightarrow> Inr h))))"

definition host_of_repo :: "(string \<Rightarrow> git_url option) \<Rightarrow> string \<Rightarrow> string option" where
  "host_of_repo parse repo = (case normalize_host parse repo of Inl _ \<Rightarrow> None | Inr h \<Rightarrow> Some h)"

definition validate_token :: "string \<Rightarrow> unit res" where
  "validate_token token =
     (if token = [] then Inl ''a token is required''
      else if utf8_len token > MAX_TOKEN_LEN then Inl (''token is too long (max '' @ nat_str MAX_TOKEN_LEN @ '' bytes)'')
      else if list_ex is_control token then Inl ''token contains a control character: paste it without line breaks''
      else Inr ())"

definition validate_username :: "string \<Rightarrow> unit res" where
  "validate_username username =
     (if utf8_len username > MAX_TOKEN_LEN then Inl ''username is too long''
      else if list_ex is_control username then Inl ''username contains a control character''
      else Inr ())"

definition cred_of_row :: "gitcred_row \<Rightarrow> git_credential" where
  "cred_of_row r = \<lparr>gd_id = gc_id r, gd_host = gc_host r, gd_username = gc_username r, gd_label = gc_label r,
     gd_created_at = gc_created_at r, gd_updated_at = gc_updated_at r, gd_last_used_at = gc_last_used_at r\<rparr>"

definition gitcreds_list_for_user :: "db \<Rightarrow> string \<Rightarrow> git_credential list" where
  "gitcreds_list_for_user d u =
     map cred_of_row (sort_key gc_host (filter (\<lambda>r. gc_user_id r = u) (git_credentials d)))"

definition find_cred :: "db \<Rightarrow> string \<Rightarrow> string \<Rightarrow> gitcred_row option" where
  "find_cred d u host = List.find (\<lambda>r. gc_user_id r = u \<and> gc_host r = host) (git_credentials d)"

definition gitcreds_find :: "(string \<Rightarrow> git_url option) \<Rightarrow> db \<Rightarrow> string \<Rightarrow> string \<Rightarrow> git_credential option res" where
  "gitcreds_find parse d u host =
     rbind (normalize_host parse host) (\<lambda>h. Inr (map_option cred_of_row (find_cred d u h)))"

text \<open>The upsert statement: the row of the user and host is updated, or a row is inserted.\<close>

definition store_cred :: "string \<Rightarrow> int \<Rightarrow> db \<Rightarrow> string \<Rightarrow> string \<Rightarrow> string \<Rightarrow> string \<Rightarrow> sealed \<Rightarrow> db res" where
  "store_cred new_id now d u host username label sealed =
     (if find_cred d u host \<noteq> None then
        Inr (d\<lparr>git_credentials := tbl_update (\<lambda>r. gc_user_id r = u \<and> gc_host r = host)
          (\<lambda>r. r\<lparr>gc_username := username, gc_nonce := sl_nonce sealed, gc_ciphertext := sl_ciphertext sealed,
                 gc_label := label, gc_updated_at := now\<rparr>) (git_credentials d)\<rparr>)
      else if \<not> has_user d u \<or> new_id \<in> set (map gc_id (git_credentials d)) then Inl ''storing git credential''
      else
        Inr (d\<lparr>git_credentials := git_credentials d @
          [\<lparr>gc_id = new_id, gc_user_id = u, gc_host = host, gc_username = username, gc_nonce = sl_nonce sealed,
            gc_ciphertext = sl_ciphertext sealed, gc_label = label, gc_created_at = now, gc_updated_at = now,
            gc_last_used_at = None\<rparr>]\<rparr>))"

definition gitcreds_upsert ::
  "(string \<Rightarrow> git_url option) \<Rightarrow> secret_box \<Rightarrow> string \<Rightarrow> string \<Rightarrow> int \<Rightarrow> db \<Rightarrow> string \<Rightarrow> string \<Rightarrow> string \<Rightarrow> string \<Rightarrow>
   string \<Rightarrow> db \<times> git_credential res" where
  "gitcreds_upsert parse sb nonce new_id now d user_id host_input username0 label0 token0 =
     (let username = trim username0; token = trim token0 in
      case rbind (normalize_host parse host_input) (\<lambda>host.
           rbind (validate_username username) (\<lambda>_.
           rbind (validate_token token) (\<lambda>_.
           rbind (seal sb nonce (as_bytes token)) (\<lambda>sealed.
           rbind (store_cred new_id now d user_id host username (trim label0) sealed) (\<lambda>d'. Inr (d', host)))))) of
        Inl e \<Rightarrow> (d, Inl e)
      | Inr (d', host) \<Rightarrow>
          (d', rbind (gitcreds_find parse d' user_id host) (\<lambda>r.
                 case r of None \<Rightarrow> Inl ''git credential vanished right after it was stored'' | Some c \<Rightarrow> Inr c)))"

definition delete_cred :: "db \<Rightarrow> string \<Rightarrow> string \<Rightarrow> db \<times> bool" where
  "delete_cred d u host =
     (let P = (\<lambda>r. gc_host r = host \<and> gc_user_id r = u) in
      (d\<lparr>git_credentials := tbl_delete P (git_credentials d)\<rparr>, tbl_count P (git_credentials d) > 0))"

definition gitcreds_delete :: "(string \<Rightarrow> git_url option) \<Rightarrow> db \<Rightarrow> string \<Rightarrow> string \<Rightarrow> (db \<times> bool) res" where
  "gitcreds_delete parse d u host = rbind (normalize_host parse host) (\<lambda>h. Inr (delete_cred d u h))"

definition for_repo ::
  "(string \<Rightarrow> git_url option) \<Rightarrow> secret_box \<Rightarrow> db \<Rightarrow> string \<Rightarrow> string \<Rightarrow> resolved_credential option res" where
  "for_repo parse sb d u repo =
     (case host_of_repo parse repo of
        None \<Rightarrow> Inr None
      | Some host \<Rightarrow>
          (case find_cred d u host of
             None \<Rightarrow> Inr None
           | Some r \<Rightarrow>
               (case open_sealed sb \<lparr>sl_nonce = gc_nonce r, sl_ciphertext = gc_ciphertext r\<rparr> of
                  Inl _ \<Rightarrow> Inl (''the git credential for '' @ host @ '' could not be decrypted: re-enter it on your Account page'')
                | Inr plain \<Rightarrow>
                    (case from_utf8 plain of
                       None \<Rightarrow> Inl ''git credential was not UTF-8''
                     | Some token \<Rightarrow>
                         Inr (Some \<lparr>rv_id = gc_id r, rv_host = host,
                                    rv_username = (if trim (gc_username r) = [] then DEFAULT_USERNAME else gc_username r),
                                    rv_token = token\<rparr>)))))"

definition gitcreds_touch :: "int \<Rightarrow> db \<Rightarrow> string \<Rightarrow> db" where
  "gitcreds_touch now d i =
     d\<lparr>git_credentials := tbl_update (\<lambda>r. gc_id r = i) (\<lambda>r. r\<lparr>gc_last_used_at := Some now\<rparr>) (git_credentials d)\<rparr>"

section \<open>Lemmas\<close>

interpretation gitcred: owner_scoped git_credentials gc_user_id gc_host delete_cred
  by unfold_locales (simp_all add: delete_cred_def Let_def tbl_count_pos)

lemma find_cred_store:
  assumes "store_cred i now d u host name label sealed = Inr d'"
  shows "\<exists>r. find_cred d' u host = Some r \<and> gc_user_id r = u \<and> gc_host r = host \<and> gc_username r = name \<and>
           gc_nonce r = sl_nonce sealed \<and> gc_ciphertext r = sl_ciphertext sealed"
    and "(v, h) \<noteq> (u, host) \<Longrightarrow> find_cred d' v h = find_cred d v h"
proof -
  let ?upd = "\<lambda>r. r\<lparr>gc_username := name, gc_nonce := sl_nonce sealed, gc_ciphertext := sl_ciphertext sealed,
                    gc_label := label, gc_updated_at := now\<rparr>"
  have upd: "List.find (\<lambda>r. gc_user_id r = v \<and> gc_host r = h) (tbl_update (\<lambda>r. gc_user_id r = u \<and> gc_host r = host) ?upd t) =
     (if (v, h) = (u, host) then map_option ?upd (List.find (\<lambda>r. gc_user_id r = v \<and> gc_host r = h) t)
      else List.find (\<lambda>r. gc_user_id r = v \<and> gc_host r = h) t)" for t v h
    by (induction t) (auto simp: tbl_update_def)
  show "\<exists>r. find_cred d' u host = Some r \<and> gc_user_id r = u \<and> gc_host r = host \<and> gc_username r = name \<and>
           gc_nonce r = sl_nonce sealed \<and> gc_ciphertext r = sl_ciphertext sealed"
  proof (cases "find_cred d u host")
    case None
    with assms show ?thesis by (auto simp: store_cred_def find_cred_def find_append split: if_splits)
  next
    case (Some r)
    then have r: "gc_user_id r = u \<and> gc_host r = host" unfolding find_cred_def by (auto dest: find_SomeD)
    from Some assms have "find_cred d' u host = Some (?upd r)" by (auto simp: store_cred_def find_cred_def upd)
    with r show ?thesis by simp
  qed
  show "(v, h) \<noteq> (u, host) \<Longrightarrow> find_cred d' v h = find_cred d v h"
    using assms by (auto simp: store_cred_def find_cred_def upd find_append split: if_splits option.splits)
qed

lemma for_repo_cong: "find_cred d' u = find_cred d u \<Longrightarrow> for_repo parse sb d' u repo = for_repo parse sb d u repo"
  by (simp add: for_repo_def split: option.split)

lemma upsert_Inr:
  assumes "gitcreds_upsert parse sb nonce i now d u hin name label tok = (d', Inr c)"
  obtains host sealed where "normalize_host parse hin = Inr host" "validate_token (trim tok) = Inr ()"
    "seal sb nonce (as_bytes (trim tok)) = Inr sealed"
    "store_cred i now d u host (trim name) (trim label) sealed = Inr d'"
  using assms by (auto simp: gitcreds_upsert_def Let_def rbind_Inr split: sum.splits prod.splits)

section \<open>Properties\<close>

text \<open>A git token goes to its own host and its own owner only. After a user stores a token for a
  host, a build of that user whose repository normalises to exactly that host is given the token
  (trimmed, without control characters, under the stored or the default user name); builds of
  other users and of repositories on any other host are given what they were given before.\<close>

theorem git_token_exact_host:
  assumes "cipher_law sb" "length nonce = NONCE_LEN"
    and "gitcreds_upsert parse sb nonce i now d u hin name label tok = (d', Inr c)"
  shows "(host_of_repo parse repo = host_of_repo parse hin \<longrightarrow>
            (\<exists>r. for_repo parse sb d' u repo = Inr (Some r) \<and> rv_token r = trim tok \<and>
                 Some (rv_host r) = host_of_repo parse repo \<and> \<not> list_ex is_control (rv_token r) \<and>
                 rv_username r = (if trim name = [] then DEFAULT_USERNAME else trim name))) \<and>
         (v \<noteq> u \<or> host_of_repo parse repo \<noteq> host_of_repo parse hin \<longrightarrow>
            for_repo parse sb d' v repo = for_repo parse sb d v repo)"
proof -
  from assms(3) obtain host sealed where h: "normalize_host parse hin = Inr host"
    and ok: "validate_token (trim tok) = Inr ()" and s: "seal sb nonce (as_bytes (trim tok)) = Inr sealed"
    and st: "store_cred i now d u host (trim name) (trim label) sealed = Inr d'" by (rule upsert_Inr)
  have hh: "host_of_repo parse hin = Some host" by (simp add: host_of_repo_def h)
  have op: "open_sealed sb sealed = Inr (as_bytes (trim tok))" using open_seal[OF assms(1,2)] s by blast
  have nc: "\<not> list_ex is_control (trim tok)" using ok by (auto simp: validate_token_def split: if_splits)
  from find_cred_store(1)[OF st] obtain r where r: "find_cred d' u host = Some r" "gc_username r = trim name"
    "\<lparr>sl_nonce = gc_nonce r, sl_ciphertext = gc_ciphertext r\<rparr> = sealed" by auto
  have own: "\<exists>x. for_repo parse sb d' u repo = Inr (Some x) \<and> rv_token x = trim tok \<and>
      Some (rv_host x) = host_of_repo parse repo \<and> \<not> list_ex is_control (rv_token x) \<and>
      rv_username x = (if trim name = [] then DEFAULT_USERNAME else trim name)"
    if "host_of_repo parse repo = host_of_repo parse hin"
    using that nc by (simp add: for_repo_def hh r op from_utf8_as_bytes)
  have other: "for_repo parse sb d' v repo = for_repo parse sb d v repo"
    if "v \<noteq> u \<or> host_of_repo parse repo \<noteq> host_of_repo parse hin"
  proof (cases "host_of_repo parse repo")
    case (Some h')
    with that hh have "(v, h') \<noteq> (u, host)" by auto
    from find_cred_store(2)[OF st this] Some show ?thesis by (simp add: for_repo_def)
  qed (simp add: for_repo_def)
  from own other show ?thesis by blast
qed

definition demo_parse :: "string \<Rightarrow> git_url option" where
  "demo_parse s =
     (case strip_prefix s ''https://'' of
        None \<Rightarrow> None
      | Some r \<Rightarrow>
          Some \<lparr>gu_scheme = ''https'', gu_username = [], gu_password = None,
                gu_host_str = Some (case split_once r ''/'' of None \<Rightarrow> r | Some (h, _) \<Rightarrow> h), gu_port = None\<rparr>)"

definition gitcred_db :: db where
  "gitcred_db = empty_db\<lparr>users := [\<lparr>u_id = ''u1'', u_handle = ''al'', u_display_name = ''Al'', u_is_admin = False,
     u_created_at = 0, u_disabled = False, u_sandbox_uid = None\<rparr>]\<rparr>"

theorem git_token_exact_host_witness:
  "let d' = fst (gitcreds_upsert demo_parse rev_box (replicate 24 CHR ''n'') ''c1'' 5 gitcred_db ''u1'' ''gh.co'' [] [] '' tok '') in
   \<exists>r. for_repo demo_parse rev_box d' ''u1'' ''https://gh.co/o/r'' = Inr (Some r) \<and> rv_token r = ''tok''"
proof -
  let ?run = "gitcreds_upsert demo_parse rev_box (replicate 24 CHR ''n'') ''c1'' 5 gitcred_db ''u1'' ''gh.co'' [] [] '' tok ''"
  obtain d' c where run: "?run = (d', Inr c)"
  proof -
    have "(case snd ?run of Inl _ \<Rightarrow> False | Inr _ \<Rightarrow> True)" by code_simp
    then show thesis using that[of "fst ?run"] by (auto simp: prod_eq_iff split: sum.splits)
  qed
  have h: "host_of_repo demo_parse ''https://gh.co/o/r'' = host_of_repo demo_parse ''gh.co''" by code_simp
  have t: "trim '' tok '' = ''tok''" by code_simp
  have l: "length (replicate 24 CHR ''n'') = NONCE_LEN" by (simp add: NONCE_LEN_def)
  from git_token_exact_host[OF rev_box_law l run, of "''https://gh.co/o/r''" "''u1''"] h t show ?thesis
    unfolding run by auto
qed

end
