(* ===== verification/Hub_Gitsrc.thy ===== *)
theory Hub_Gitsrc
  imports Hub_Backend Hub_Gitcreds
begin

text \<open>
  \<^verbatim>\<open>src/gitsrc.rs\<close>: servers built from a git repository. The tools (git, uv, go) are the field
  \<open>tc_run\<close> of the record \<open>toolchain\<close>: a command, run on the file system, leaves any file system
  behind and answers with its output, an error or never. The symbolic links a virtual
  environment contains are fields too. Everything else (validation, the commands with their
  environment and identity, the checkout, the two builds, the swap, the recorded build state) is
  the code's. The lemmas say what a build can see and as whom repository code runs.
\<close>

section \<open>Validation\<close>

definition LS_REMOTE_TIMEOUT :: nat where
  "LS_REMOTE_TIMEOUT = 30"

definition BUILD_TIMEOUT :: nat where
  "BUILD_TIMEOUT = 900"

record update_report =
  ur_changed :: bool
  ur_previous_commit :: "string option"
  ur_commit :: string

definition env_path :: "string \<Rightarrow> string \<Rightarrow> string" where
  "env_path edir instance_id = path_join edir instance_id"

definition is_git_source :: "server_def \<Rightarrow> bool" where
  "is_git_source def = is_git def"

definition validate_repo :: "(string \<Rightarrow> git_url option) \<Rightarrow> string \<Rightarrow> unit res" where
  "validate_repo parse repo =
     (case parse repo of
        None \<Rightarrow> Inl ''repo must be a valid URL''
      | Some u \<Rightarrow>
          if gu_scheme u \<noteq> ''https'' \<and> gu_scheme u \<noteq> ''git+https'' then Inl ''repo must be an https git URL''
          else Inr ())"

definition validate_ref :: "string \<Rightarrow> unit res" where
  "validate_ref git_ref =
     (if git_ref = [] \<or> utf8_len git_ref > 100 then Inl ''invalid git ref''
      else if \<not> list_all (\<lambda>c. is_ascii_alphanumeric c \<or> c \<in> set ''._-/'') git_ref then
        Inl ''git ref may only contain letters, digits, and . _ - /''
      else Inr ())"

definition validate_name :: "string \<Rightarrow> unit res" where
  "validate_name name =
     (if name = [] \<or> utf8_len name > 64 \<or> \<not> list_all (\<lambda>c. is_ascii_alphanumeric c \<or> c \<in> set ''._-'') name then
        Inl ''entry/module name contains invalid characters''
      else Inr ())"

definition launch_command :: "string \<Rightarrow> string \<Rightarrow> server_def \<Rightarrow> (string \<times> string list) res" where
  "launch_command edir instance_id def =
     (let bin = path_join (env_path edir instance_id) ''bin''; command = (case sd_command def of None \<Rightarrow> [] | Some c \<Rightarrow> trim c) in
      if command = [] then Inl ''git source has no command''
      else rbind (validate_name command) (\<lambda>_. Inr (path_join bin command, sd_args def)))"

definition resolved_command :: "fs \<Rightarrow> string \<Rightarrow> inst_row \<Rightarrow> server_def \<Rightarrow> (string \<times> string list) option" where
  "resolved_command fs edir inst def =
     (if is_git def then
        (if i_build_status inst = ''ready'' \<and> fs (comps (env_path edir (i_id inst))) \<noteq> None then
           (case launch_command edir (i_id inst) def of Inl _ \<Rightarrow> None | Inr x \<Rightarrow> Some x)
         else None)
      else if sd_transport def = ''stdio'' then map_option (\<lambda>c. (c, sd_args def)) (sd_command def)
      else None)"

section \<open>Commands and their environment\<close>

record tool_output =
  ot_success :: bool
  ot_stdout :: string
  ot_stderr :: string

record toolchain =
  tc_run :: "command \<Rightarrow> fs \<Rightarrow> fs \<times> tool_output res reply"
  tc_env :: "string \<Rightarrow> string option"
  tc_symlink :: "fs \<Rightarrow> string \<Rightarrow> bool"
  tc_canonical :: "fs \<Rightarrow> string \<Rightarrow> string option"
  tc_read_dir :: "fs \<Rightarrow> string \<Rightarrow> string list"

definition BUILD_ENV_ALLOWLIST :: "string list" where
  "BUILD_ENV_ALLOWLIST = [''PATH'', ''HOME'', ''TMPDIR'', ''SSL_CERT_FILE'', ''SSL_CERT_DIR'', ''CURL_CA_BUNDLE'',
     ''REQUESTS_CA_BUNDLE'', ''GIT_SSL_CAINFO'', ''HTTP_PROXY'', ''HTTPS_PROXY'', ''NO_PROXY'', ''http_proxy'',
     ''https_proxy'', ''no_proxy'', ''LANG'', ''LC_ALL'']"

definition set_env_all :: "(string \<times> string) list \<Rightarrow> btree \<Rightarrow> btree" where
  "set_env_all vars env = foldl (\<lambda>m (k, v). bt_insert k v m) env vars"

definition build_command :: "toolchain \<Rightarrow> string \<Rightarrow> string list \<Rightarrow> command" where
  "build_command tc program args =
     \<lparr>cm_program = program, cm_args = args,
      cm_env = set_env_all (List.map_filter (\<lambda>k. map_option (Pair k) (tc_env tc k)) BUILD_ENV_ALLOWLIST) [],
      cm_dir = None, cm_identity = None, cm_limits = None\<rparr>"

definition HELPER :: string where
  "HELPER = ''!f() { case '' @ [CHR 0x22] @ ''$1'' @ [CHR 0x22] @ '' in get) printf '' @ [CHR 0x22] @
     ''username=%s'' @ [CHR 0x5C] @ ''npassword=%s'' @ [CHR 0x5C] @ ''n'' @ [CHR 0x22] @ '' '' @ [CHR 0x22] @
     ''$MCP_HUB_GIT_USER'' @ [CHR 0x22] @ '' '' @ [CHR 0x22] @ ''$MCP_HUB_GIT_TOKEN'' @ [CHR 0x22] @ '';; esac; }; f''"

definition credential_env :: "resolved_credential \<Rightarrow> (string \<times> string) list" where
  "credential_env cred =
     (let key = ''credential.https://'' @ rv_host cred @ ''.helper'' in
      [(''GIT_CONFIG_COUNT'', ''2''), (''GIT_CONFIG_KEY_0'', key), (''GIT_CONFIG_VALUE_0'', []),
       (''GIT_CONFIG_KEY_1'', key), (''GIT_CONFIG_VALUE_1'', HELPER),
       (''MCP_HUB_GIT_USER'', rv_username cred), (''MCP_HUB_GIT_TOKEN'', rv_token cred)])"

definition add_env :: "(string \<times> string) list \<Rightarrow> command \<Rightarrow> command" where
  "add_env vars cmd = cmd\<lparr>cm_env := set_env_all vars (cm_env cmd)\<rparr>"

definition apply_credential :: "resolved_credential option \<Rightarrow> command \<Rightarrow> command" where
  "apply_credential cred cmd = (case cred of None \<Rightarrow> cmd | Some c \<Rightarrow> add_env (credential_env c) cmd)"

definition git_command :: "toolchain \<Rightarrow> string list \<Rightarrow> resolved_credential option \<Rightarrow> command" where
  "git_command tc args cred =
     apply_credential cred (add_env [(''GIT_TERMINAL_PROMPT'', ''0'')] (build_command tc ''git'' args))"

definition python_install_dir :: "string \<Rightarrow> string" where
  "python_install_dir edir = path_join edir ''.uv-python''"

definition uv_command :: "toolchain \<Rightarrow> string list \<Rightarrow> string \<Rightarrow> sandbox option \<Rightarrow> resolved_credential option \<Rightarrow> command" where
  "uv_command tc args edir sandbox cred =
     (let cmd = apply_credential cred
            (add_env [(''UV_PYTHON_INSTALL_DIR'', python_install_dir edir), (''GIT_TERMINAL_PROMPT'', ''0'')]
              (build_command tc ''uv'' args)) in
      case sandbox of
        Some sb \<Rightarrow>
          add_env [(''HOME'', sx_cache_dir sb), (''USER'', ''mcp-sandbox''), (''UV_CACHE_DIR'', sx_cache_dir sb @ ''/uv'')]
            (cmd\<lparr>cm_identity := Some (sx_uid sb, sx_gid sb)\<rparr>)
      | None \<Rightarrow> add_env [(''UV_CACHE_DIR'', path_join edir ''.uv-cache'')] cmd)"

definition go_command ::
  "toolchain \<Rightarrow> string list \<Rightarrow> string \<Rightarrow> string \<Rightarrow> sandbox option \<Rightarrow> resolved_credential option \<Rightarrow> command" where
  "go_command tc args edir workdir sandbox cred =
     (let base = add_env [(''CGO_ENABLED'', ''0''), (''GOFLAGS'', ''-trimpath''), (''GOTOOLCHAIN'', ''auto''),
            (''GIT_TERMINAL_PROMPT'', ''0'')] ((build_command tc ''go'' args)\<lparr>cm_dir := Some workdir\<rparr>);
          priv = (case cred of None \<Rightarrow> base | Some c \<Rightarrow> add_env [(''GOPRIVATE'', rv_host c @ ''/*'')] base);
          cmd = apply_credential cred priv in
      case sandbox of
        Some sb \<Rightarrow>
          add_env [(''HOME'', sx_cache_dir sb), (''USER'', ''mcp-sandbox''), (''GOPATH'', sx_cache_dir sb @ ''/go''),
              (''GOMODCACHE'', sx_cache_dir sb @ ''/go-mod''), (''GOCACHE'', sx_cache_dir sb @ ''/go-build'')]
            (cmd\<lparr>cm_identity := Some (sx_uid sb, sx_gid sb)\<rparr>)
      | None \<Rightarrow>
          (let cache = path_join edir ''.go-cache'' in
           add_env [(''GOPATH'', path_join cache ''gopath''), (''GOMODCACHE'', path_join cache ''mod''),
                    (''GOCACHE'', path_join cache ''build'')] cmd))"

text \<open>Running a command under a time limit.\<close>

definition run_tool :: "toolchain \<Rightarrow> nat \<Rightarrow> string \<Rightarrow> string \<Rightarrow> command \<Rightarrow> tool_output io" where
  "run_tool tc secs on_timeout ctx cmd = (\<lambda>fs.
     case tc_run tc cmd fs of
       (fs', r) \<Rightarrow>
         (fs', case await secs r of
                 Some (_, Inr out) \<Rightarrow> with_context ctx out
               | _ \<Rightarrow> Inl on_timeout))"

definition io_ignore :: "'a io \<Rightarrow> unit io" where
  "io_ignore m = (\<lambda>fs. (fst (m fs), Inr ()))"

definition io_catch :: "'a io \<Rightarrow> (string \<Rightarrow> 'a io) \<Rightarrow> 'a io" where
  "io_catch m h = (\<lambda>fs. case m fs of (fs', Inl e) \<Rightarrow> h e fs' | (fs', Inr x) \<Rightarrow> (fs', Inr x))"

definition io_res :: "'a res \<Rightarrow> 'a io" where
  "io_res r = (\<lambda>fs. (fs, r))"

definition git_verb :: "string list \<Rightarrow> string" where
  "git_verb args =
     (case List.find (\<lambda>a. a \<in> {''init'', ''fetch'', ''checkout'', ''clone''}) args of None \<Rightarrow> ''command'' | Some v \<Rightarrow> v)"

definition run_git :: "toolchain \<Rightarrow> string list \<Rightarrow> resolved_credential option \<Rightarrow> unit io" where
  "run_git tc args cred =
     io_bind (run_tool tc BUILD_TIMEOUT ''git command timed out'' ''running git'' (git_command tc args cred)) (\<lambda>out.
       if ot_success out then io_return ()
       else io_res (Inl (''git '' @ git_verb args @ '' failed: '' @ trim (ot_stderr out))))"

definition first_arg :: "string list \<Rightarrow> string" where
  "first_arg args = (case args of [] \<Rightarrow> [] | a # _ \<Rightarrow> a)"

definition run_uv :: "toolchain \<Rightarrow> string list \<Rightarrow> string \<Rightarrow> sandbox option \<Rightarrow> resolved_credential option \<Rightarrow> unit io" where
  "run_uv tc args edir sandbox cred =
     io_bind (run_tool tc BUILD_TIMEOUT ''uv command timed out'' ''running uv'' (uv_command tc args edir sandbox cred)) (\<lambda>out.
       if ot_success out then io_return ()
       else io_res (Inl (''uv '' @ first_arg args @ '' failed: '' @ trim (ot_stderr out))))"

text \<open>The last bytes of a text, from a character boundary on: characters are dropped from the front
  until the rest fits.\<close>

fun tail_str :: "string \<Rightarrow> nat \<Rightarrow> string" where
  "tail_str [] m = []"
| "tail_str (c # s) m = (if utf8_len (c # s) \<le> m then c # s else tail_str s m)"

definition run_go ::
  "toolchain \<Rightarrow> string list \<Rightarrow> string \<Rightarrow> string \<Rightarrow> sandbox option \<Rightarrow> resolved_credential option \<Rightarrow> unit io" where
  "run_go tc args edir workdir sandbox cred =
     io_bind (run_tool tc BUILD_TIMEOUT ''go build timed out'' ''running go (is the Go toolchain installed?)''
                (go_command tc args edir workdir sandbox cred)) (\<lambda>out.
       if ot_success out then io_return ()
       else io_res (Inl (''go '' @ first_arg args @ '' failed: '' @ tail_str (trim (ot_stderr out)) 3000)))"

section \<open>Failures that look like missing access\<close>

definition AUTH_MARKERS :: "string list" where
  "AUTH_MARKERS = [''could not read username'', ''terminal prompts disabled'', ''authentication failed'',
     ''repository not found'', ''could not read from remote repository'', ''403 forbidden'', ''401 unauthorized'',
     ''invalid username or token'', ''access denied'']"

definition looks_like_auth_failure :: "string \<Rightarrow> bool" where
  "looks_like_auth_failure txt = list_ex (contains_sub (to_ascii_lowercase txt)) AUTH_MARKERS"

definition with_auth_hint :: "(string \<Rightarrow> git_url option) \<Rightarrow> string \<Rightarrow> string \<Rightarrow> bool \<Rightarrow> string" where
  "with_auth_hint parse e repo had_credential =
     (if \<not> looks_like_auth_failure e then e
      else
        (let host = (case host_of_repo parse repo of None \<Rightarrow> repo | Some h \<Rightarrow> h) in
         e @ [CHR 0x0A, CHR 0x0A] @
         (if had_credential then
            ''The stored git credential for '' @ host @ '' was rejected. Check the token grants read access to this repository and has not expired.''
          else
            host @ '' did not allow anonymous access. If this repository is private, add a git credential for '' @ host @
            '' on your Account page (or with hub__set_git_credential), then update again.'')))"

section \<open>Checkout and builds\<close>

definition first_word :: "string \<Rightarrow> string option" where
  "first_word s =
     (let w = takeWhile (\<lambda>c. \<not> is_whitespace c) (dropWhile is_whitespace s) in if w = [] then None else Some w)"

definition is_ascii_hexdigit :: "char \<Rightarrow> bool" where
  "is_ascii_hexdigit c \<longleftrightarrow> is_ascii_digit c \<or> (97 \<le> code c \<and> code c \<le> 102) \<or> (65 \<le> code c \<and> code c \<le> 70)"

definition resolve_commit :: "toolchain \<Rightarrow> string \<Rightarrow> string \<Rightarrow> resolved_credential option \<Rightarrow> string io" where
  "resolve_commit tc repo git_ref cred =
     io_bind (run_tool tc LS_REMOTE_TIMEOUT ''git ls-remote timed out'' ''running git ls-remote''
                (git_command tc [''ls-remote'', repo, git_ref] cred)) (\<lambda>out.
       if \<not> ot_success out then io_res (Inl (''git ls-remote failed: '' @ trim (ot_stderr out)))
       else
         (case first_word (ot_stdout out) of
            Some sha \<Rightarrow> io_return sha
          | None \<Rightarrow>
              if utf8_len git_ref \<ge> 7 \<and> list_all is_ascii_hexdigit git_ref then io_return git_ref
              else io_res (Inl (''ref '' @ squote git_ref @ '' not found in '' @ repo))))"

datatype lang = Python | Go

definition is_file :: "fs \<Rightarrow> string \<Rightarrow> bool" where
  "is_file fs p = (case fs (comps p) of None \<Rightarrow> False | Some n \<Rightarrow> nd_kind n \<noteq> FDir)"

definition detect_lang :: "string \<Rightarrow> lang io" where
  "detect_lang checkout = (\<lambda>fs.
     (fs, if is_file fs (path_join checkout ''go.mod'') then Inr Go
          else if is_file fs (path_join checkout ''pyproject.toml'') \<or> is_file fs (path_join checkout ''setup.py'') then Inr Python
          else Inl ''cannot determine how to build this repo: no go.mod or pyproject.toml/setup.py at its root''))"

definition clone_at_commit ::
  "toolchain \<Rightarrow> os_proc \<Rightarrow> string \<Rightarrow> string \<Rightarrow> string \<Rightarrow> resolved_credential option \<Rightarrow> unit io" where
  "clone_at_commit tc pr repo commit dest cred =
     io_bind (io_ignore (remove_dir_all pr dest)) (\<lambda>_.
     io_bind (io_context ''creating source checkout dir'' (create_dir_all pr dest)) (\<lambda>_.
     io_catch
       (io_bind (run_git tc [''init'', ''-q'', dest] None) (\<lambda>_.
        io_bind (run_git tc [''-C'', dest, ''fetch'', ''-q'', ''--depth'', ''1'', repo, commit] cred) (\<lambda>_.
        run_git tc [''-C'', dest, ''checkout'', ''-q'', ''--detach'', ''FETCH_HEAD''] None)))
       (\<lambda>_.
        io_bind (io_ignore (remove_dir_all pr dest)) (\<lambda>_.
        io_bind (run_git tc [''clone'', ''-q'', repo, dest] cred) (\<lambda>_.
        run_git tc [''-C'', dest, ''checkout'', ''-q'', ''--detach'', commit] None)))))"

text \<open>\<open>std::fs::rename\<close> of a directory tree; the system refuses a target that is not empty.\<close>

definition fs_rename :: "os_proc \<Rightarrow> string \<Rightarrow> string \<Rightarrow> unit io" where
  "fs_rename pr p q = guarded pr ''rename'' q (\<lambda>fs.
     let cp = comps p; cq = comps q in
     if fs cp = None then (fs, Inl ''No such file or directory'')
     else
       (\<lambda>x. if take (length cq) x = cq then fs (cp @ drop (length cq) x)
             else if take (length cp) x = cp then None else fs x, Inr ()))"

text \<open>The last two steps of both builds: swap the built tree in, and hand it to the sandbox.\<close>

definition install_env :: "os_proc \<Rightarrow> string \<Rightarrow> string \<Rightarrow> sandbox option \<Rightarrow> unit io" where
  "install_env pr tmp final sandbox =
     io_bind (io_ignore (remove_dir_all pr final)) (\<lambda>_.
     io_bind (io_context ''installing built environment'' (fs_rename pr tmp final)) (\<lambda>_.
     (case sandbox of
        None \<Rightarrow> io_return ()
      | Some sb \<Rightarrow> io_ignore (chown_recursive pr final (sx_uid sb) (sx_gid sb)))))"

definition build_env ::
  "toolchain \<Rightarrow> os_proc \<Rightarrow> string \<Rightarrow> string \<Rightarrow> string \<Rightarrow> string \<Rightarrow> sandbox option \<Rightarrow> resolved_credential option \<Rightarrow> unit io" where
  "build_env tc pr edir instance_id repo commit sandbox cred =
     (let final = env_path edir instance_id;
          tmp = path_join edir (''.'' @ instance_id @ ''.building'');
          python = path_join (path_join tmp ''bin'') ''python'';
          spec = ''git+'' @ repo @ ''@'' @ commit;
          py_dir = python_install_dir edir in
      io_bind (io_context ''creating env directory'' (create_dir_all pr edir)) (\<lambda>_.
      io_bind (io_ignore (remove_dir_all pr tmp)) (\<lambda>_.
      io_bind (run_uv tc [''venv'', ''--relocatable'', tmp] edir None None) (\<lambda>_.
      io_bind (\<lambda>fs. if fs (comps py_dir) \<noteq> None then io_ignore (make_world_traversable pr py_dir) fs else (fs, Inr ())) (\<lambda>_.
      io_bind (case sandbox of
                 None \<Rightarrow> io_return ()
               | Some sb \<Rightarrow>
                   io_context ''handing build dir to sandbox uid'' (chown_recursive pr tmp (sx_uid sb) (sx_gid sb))) (\<lambda>_.
      io_bind (run_uv tc [''pip'', ''install'', ''--python'', python, spec] edir sandbox cred) (\<lambda>_.
      install_env pr tmp final sandbox)))))))"

definition build_go_env ::
  "toolchain \<Rightarrow> os_proc \<Rightarrow> string \<Rightarrow> string \<Rightarrow> string \<Rightarrow> server_def \<Rightarrow> sandbox option \<Rightarrow> resolved_credential option \<Rightarrow> unit io" where
  "build_go_env tc pr edir instance_id src def sandbox cred =
     (let final = env_path edir instance_id;
          tmp = path_join edir (''.'' @ instance_id @ ''.building'');
          bin = path_join tmp ''bin'';
          entry = (case sd_command def of None \<Rightarrow> [] | Some c \<Rightarrow> trim c) in
      io_bind (io_context ''creating env directory'' (create_dir_all pr edir)) (\<lambda>_.
      io_bind (io_ignore (remove_dir_all pr tmp)) (\<lambda>_.
      io_bind (io_context ''creating build output dir'' (create_dir_all pr bin)) (\<lambda>_.
      io_bind (case sandbox of
                 None \<Rightarrow> io_return ()
               | Some sb \<Rightarrow>
                   io_bind (io_context ''handing source checkout to sandbox uid'' (chown_recursive pr src (sx_uid sb) (sx_gid sb))) (\<lambda>_.
                   io_context ''handing build dir to sandbox uid'' (chown_recursive pr tmp (sx_uid sb) (sx_gid sb)))) (\<lambda>_.
      io_bind (\<lambda>fs. (fs, Inr (if entry \<noteq> [] \<and> is_dir fs (comps (path_join (path_join src ''cmd'') entry))
                              then ''./cmd/'' @ entry else ''./...''))) (\<lambda>target.
      io_bind (run_go tc [''build'', ''-o'', bin @ ''/'', target] edir src sandbox cred) (\<lambda>_.
      io_bind (\<lambda>fs. if entry = [] \<or> \<not> is_file fs (path_join bin entry) then
                       (let built = sort (tc_read_dir tc fs bin) in
                        (fs, Inl (''command '' @ squote entry @ '' does not name a built binary; the build produced: '' @
                                  (if built = [] then ''(nothing)'' else join '', '' built))))
                     else (fs, Inr ())) (\<lambda>_.
      install_env pr tmp final sandbox))))))))"

section \<open>Build state\<close>

definition env_is_python_venv :: "toolchain \<Rightarrow> fs \<Rightarrow> string \<Rightarrow> string \<Rightarrow> bool" where
  "env_is_python_venv tc fs edir instance_id =
     tc_symlink tc fs (path_join (path_join (env_path edir instance_id) ''bin'') ''python'')"

definition venv_python_is_shared :: "toolchain \<Rightarrow> fs \<Rightarrow> string \<Rightarrow> string \<Rightarrow> bool" where
  "venv_python_is_shared tc fs edir instance_id =
     (case (tc_canonical tc fs (path_join (path_join (env_path edir instance_id) ''bin'') ''python''),
            tc_canonical tc fs (python_install_dir edir)) of
        (Some target, Some shared) \<Rightarrow> take (length (comps shared)) (comps target) = comps shared
      | _ \<Rightarrow> False)"

definition venv_is_stale :: "toolchain \<Rightarrow> fs \<Rightarrow> string \<Rightarrow> inst_row \<Rightarrow> server_def \<Rightarrow> bool" where
  "venv_is_stale tc fs edir inst def \<longleftrightarrow>
     is_git def \<and> i_build_status inst = ''ready'' \<and> fs (comps (env_path edir (i_id inst))) \<noteq> None \<and>
     env_is_python_venv tc fs edir (i_id inst) \<and> \<not> venv_python_is_shared tc fs edir (i_id inst)"

definition already_built :: "toolchain \<Rightarrow> fs \<Rightarrow> string \<Rightarrow> inst_row \<Rightarrow> string \<Rightarrow> bool" where
  "already_built tc fs edir inst commit \<longleftrightarrow>
     i_built_commit inst = Some commit \<and> i_build_status inst = ''ready'' \<and>
     fs (comps (env_path edir (i_id inst))) \<noteq> None \<and>
     (\<not> env_is_python_venv tc fs edir (i_id inst) \<or> venv_python_is_shared tc fs edir (i_id inst))"

text \<open>Everything before the build: validation, the owner's credential and the commit.\<close>

definition resolve_source ::
  "toolchain \<Rightarrow> (string \<Rightarrow> git_url option) \<Rightarrow> secret_box \<Rightarrow> string \<Rightarrow> db \<Rightarrow> inst_row \<Rightarrow> server_def \<Rightarrow>
   (string \<times> resolved_credential option \<times> string) io" where
  "resolve_source tc parse sb edir d inst def =
     (if \<not> is_git_source def then io_res (Inl (squote (i_namespace inst) @ '' is not a git-sourced server''))
      else
        (case sd_repo def of
           None \<Rightarrow> io_res (Inl ''git source has no repo URL'')
         | Some repo \<Rightarrow>
             io_bind (io_res (validate_repo parse repo)) (\<lambda>_.
             let git_ref = (case sd_git_ref def of None \<Rightarrow> ''main'' | Some r \<Rightarrow> r) in
             io_bind (io_res (validate_ref git_ref)) (\<lambda>_.
             io_bind (io_res (launch_command edir (i_id inst) def)) (\<lambda>_.
             io_bind (io_res (for_repo parse sb d (i_user_id inst) repo)) (\<lambda>cred.
             io_bind (io_catch (resolve_commit tc repo git_ref cred)
                        (\<lambda>e. io_res (Inl (with_auth_hint parse e repo (cred \<noteq> None))))) (\<lambda>commit.
             io_return (repo, cred, commit))))))))"

definition build_source ::
  "toolchain \<Rightarrow> os_proc \<Rightarrow> string \<Rightarrow> inst_row \<Rightarrow> server_def \<Rightarrow> sandbox option \<Rightarrow> string \<Rightarrow> resolved_credential option \<Rightarrow>
   string \<Rightarrow> unit io" where
  "build_source tc pr edir inst def sandbox repo cred commit =
     (let src = path_join edir (''.'' @ i_id inst @ ''.src'') in
      (\<lambda>fs. case (io_bind (clone_at_commit tc pr repo commit src cred) (\<lambda>_.
                   io_bind (detect_lang src) (\<lambda>l.
                   case l of
                     Python \<Rightarrow> io_bind (io_ignore (remove_dir_all pr src)) (\<lambda>_.
                                 build_env tc pr edir (i_id inst) repo commit sandbox cred)
                   | Go \<Rightarrow> build_go_env tc pr edir (i_id inst) src def sandbox cred))) fs of
              (fs', r) \<Rightarrow> (fst (remove_dir_all pr src fs'), r)))"

text \<open>The outcome is recorded: a failed build keeps the commit but not the state \<open>ready\<close>.\<close>

definition record_build ::
  "(string \<Rightarrow> git_url option) \<Rightarrow> int \<Rightarrow> db \<Rightarrow> inst_row \<Rightarrow> string \<Rightarrow> resolved_credential option \<Rightarrow> string \<Rightarrow> unit res \<Rightarrow>
   db \<times> update_report res" where
  "record_build parse now d inst repo cred commit r =
     (case r of
        Inr _ \<Rightarrow>
          (let d1 = set_build_state d (i_id inst) ''ready'' (Some commit) in
           (case cred of None \<Rightarrow> d1 | Some c \<Rightarrow> gitcreds_touch now d1 (rv_id c),
            Inr \<lparr>ur_changed = True, ur_previous_commit = i_built_commit inst, ur_commit = commit\<rparr>))
      | Inl e \<Rightarrow>
          (set_build_state d (i_id inst) ''error'' (i_built_commit inst),
           Inl (with_auth_hint parse e repo (cred \<noteq> None))))"

definition update_instance ::
  "toolchain \<Rightarrow> os_proc \<Rightarrow> (string \<Rightarrow> git_url option) \<Rightarrow> secret_box \<Rightarrow> int \<Rightarrow> string \<Rightarrow> db \<Rightarrow> inst_row \<Rightarrow> server_def \<Rightarrow>
   sandbox option \<Rightarrow> fs \<Rightarrow> db \<times> fs \<times> update_report res" where
  "update_instance tc pr parse sb now edir d inst def sandbox fs =
     (case resolve_source tc parse sb edir d inst def fs of
        (fs1, Inl e) \<Rightarrow> (d, fs1, Inl e)
      | (fs1, Inr (repo, cred, commit)) \<Rightarrow>
          if already_built tc fs1 edir inst commit then
            (d, fs1, Inr \<lparr>ur_changed = False, ur_previous_commit = i_built_commit inst, ur_commit = commit\<rparr>)
          else
            (case io_context ''creating env directory'' (create_dir_all pr edir) fs1 of
               (fs2, Inl e) \<Rightarrow> (d, fs2, Inl e)
             | (fs2, Inr _) \<Rightarrow>
                 (case build_source tc pr edir inst def sandbox repo cred commit fs2 of
                    (fs3, r) \<Rightarrow>
                      (case record_build parse now d inst repo cred commit r of (d', out) \<Rightarrow> (d', fs3, out)))))"

definition remove_env :: "os_proc \<Rightarrow> string \<Rightarrow> string \<Rightarrow> fs \<Rightarrow> fs" where
  "remove_env pr edir instance_id fs = fst (remove_dir_all pr (env_path edir instance_id) fs)"

section \<open>What a build command can see\<close>

text \<open>The variables a build command may carry besides the allow list, and the commands that run code of
  the repository.\<close>

definition BUILD_VARS :: "string list" where
  "BUILD_VARS = [''GIT_TERMINAL_PROMPT'', ''GIT_CONFIG_COUNT'', ''GIT_CONFIG_KEY_0'', ''GIT_CONFIG_VALUE_0'',
     ''GIT_CONFIG_KEY_1'', ''GIT_CONFIG_VALUE_1'', ''MCP_HUB_GIT_USER'', ''MCP_HUB_GIT_TOKEN'', ''UV_PYTHON_INSTALL_DIR'',
     ''UV_CACHE_DIR'', ''USER'', ''CGO_ENABLED'', ''GOFLAGS'', ''GOTOOLCHAIN'', ''GOPRIVATE'', ''GOPATH'', ''GOMODCACHE'',
     ''GOCACHE'']"

definition runs_repo_code :: "command \<Rightarrow> bool" where
  "runs_repo_code cmd \<longleftrightarrow> cm_program cmd = ''go'' \<or> cm_program cmd = ''uv'' \<and> first_arg (cm_args cmd) = ''pip''"

definition contained :: "sandbox option \<Rightarrow> command \<Rightarrow> bool" where
  "contained sandbox cmd \<longleftrightarrow>
     fst ` set (cm_env cmd) \<subseteq> set BUILD_ENV_ALLOWLIST \<union> set BUILD_VARS \<and>
     (runs_repo_code cmd \<longrightarrow> cm_identity cmd = map_option (\<lambda>sb. (sx_uid sb, sx_gid sb)) sandbox)"

lemma keys_set_env_all: "fst ` set (set_env_all vars env) = fst ` set vars \<union> fst ` set env"
proof (induction vars arbitrary: env)
  case (Cons kv vars)
  obtain k v where kv: "kv = (k, v)" by (cases kv)
  from Cons[of "bt_insert k v env"] show ?case by (auto simp: set_env_all_def kv)
qed (simp add: set_env_all_def)

lemma keys_build_command: "fst ` set (cm_env (build_command tc p args)) \<subseteq> set BUILD_ENV_ALLOWLIST"
  by (auto simp: build_command_def keys_set_env_all List.map_filter_def)

lemma keys_add_env: "fst ` set (cm_env (add_env vars cmd)) = fst ` set vars \<union> fst ` set (cm_env cmd)"
  by (simp add: add_env_def keys_set_env_all)

lemma keys_apply_credential:
  "fst ` set (cm_env (apply_credential cred cmd)) \<subseteq> set BUILD_VARS \<union> fst ` set (cm_env cmd)"
  by (cases cred) (auto simp: apply_credential_def keys_add_env credential_env_def Let_def BUILD_VARS_def)

lemma command_fields [simp]:
  "cm_program (add_env vars cmd) = cm_program cmd" "cm_args (add_env vars cmd) = cm_args cmd"
  "cm_identity (add_env vars cmd) = cm_identity cmd"
  "cm_program (apply_credential cred cmd) = cm_program cmd" "cm_args (apply_credential cred cmd) = cm_args cmd"
  "cm_identity (apply_credential cred cmd) = cm_identity cmd"
  "cm_program (build_command tc p args) = p" "cm_args (build_command tc p args) = args"
  "cm_identity (build_command tc p args) = None"
  by (cases cred; simp add: apply_credential_def add_env_def build_command_def)+

lemma keys_git_command: "fst ` set (cm_env (git_command tc args cred)) \<subseteq> set BUILD_ENV_ALLOWLIST \<union> set BUILD_VARS"
  using keys_apply_credential[of cred "add_env [(''GIT_TERMINAL_PROMPT'', ''0'')] (build_command tc ''git'' args)"]
    keys_build_command[of tc "''git''" args]
  by (auto simp: git_command_def keys_add_env BUILD_VARS_def)

lemma git_contained: "contained sandbox (git_command tc args cred)"
  using keys_git_command[of tc args cred] by (simp add: contained_def runs_repo_code_def) (simp add: git_command_def)

lemma uv_contained: "first_arg args \<noteq> ''pip'' \<or> sandbox' = sandbox \<Longrightarrow> contained sandbox (uv_command tc args edir sandbox' cred)"
proof -
  let ?base = "add_env [(''UV_PYTHON_INSTALL_DIR'', python_install_dir edir), (''GIT_TERMINAL_PROMPT'', ''0'')]
      (build_command tc ''uv'' args)"
  have k: "fst ` set (cm_env (apply_credential cred ?base)) \<subseteq> set BUILD_ENV_ALLOWLIST \<union> set BUILD_VARS"
    using keys_apply_credential[of cred ?base] keys_build_command[of tc "''uv''" args]
    by (auto simp: keys_add_env BUILD_VARS_def)
  assume "first_arg args \<noteq> ''pip'' \<or> sandbox' = sandbox"
  with k show ?thesis
    by (cases sandbox') (auto simp: uv_command_def Let_def contained_def runs_repo_code_def keys_add_env
        BUILD_VARS_def BUILD_ENV_ALLOWLIST_def)
qed

lemma go_contained: "contained sandbox (go_command tc args edir workdir sandbox cred)"
proof -
  let ?base = "add_env [(''CGO_ENABLED'', ''0''), (''GOFLAGS'', ''-trimpath''), (''GOTOOLCHAIN'', ''auto''),
      (''GIT_TERMINAL_PROMPT'', ''0'')] ((build_command tc ''go'' args)\<lparr>cm_dir := Some workdir\<rparr>)"
  let ?priv = "case cred of None \<Rightarrow> ?base | Some c \<Rightarrow> add_env [(''GOPRIVATE'', rv_host c @ ''/*'')] ?base"
  have "fst ` set (cm_env ?priv) \<subseteq> set BUILD_ENV_ALLOWLIST \<union> set BUILD_VARS"
    using keys_build_command[of tc "''go''" args] by (cases cred) (auto simp: keys_add_env BUILD_VARS_def)
  then have k: "fst ` set (cm_env (apply_credential cred ?priv)) \<subseteq> set BUILD_ENV_ALLOWLIST \<union> set BUILD_VARS"
    using keys_apply_credential[of cred ?priv] by blast
  have id: "cm_identity ?priv = None" by (cases cred) (simp_all add: build_command_def)
  from k id show ?thesis
    by (cases sandbox) (auto simp: go_command_def Let_def contained_def keys_add_env BUILD_VARS_def BUILD_ENV_ALLOWLIST_def)
qed

text \<open>Two toolchains that differ only in the commands a build never runs.\<close>

definition same_build :: "sandbox option \<Rightarrow> toolchain \<Rightarrow> toolchain \<Rightarrow> bool" where
  "same_build sandbox tc tc' \<longleftrightarrow>
     (\<exists>run'. tc' = tc\<lparr>tc_run := run'\<rparr> \<and> (\<forall>cmd. contained sandbox cmd \<longrightarrow> run' cmd = tc_run tc cmd))"

lemma same_build_commands:
  assumes "same_build sandbox tc tc'"
  shows "git_command tc' args cred = git_command tc args cred"
    "uv_command tc' args edir sb cred = uv_command tc args edir sb cred"
    "go_command tc' args edir w sb cred = go_command tc args edir w sb cred"
  using assms by (auto simp: same_build_def git_command_def uv_command_def go_command_def build_command_def)

lemma run_tool_same:
  assumes "same_build sandbox tc tc'" "contained sandbox cmd"
  shows "run_tool tc' secs t c cmd = run_tool tc secs t c cmd"
  using assms by (auto simp: same_build_def run_tool_def)

lemma tools_same:
  assumes "same_build sandbox tc tc'"
  shows "run_git tc' args cred = run_git tc args cred"
    "first_arg args \<noteq> ''pip'' \<or> sb = sandbox \<Longrightarrow> run_uv tc' args edir sb cred = run_uv tc args edir sb cred"
    "run_go tc' args edir w sandbox cred = run_go tc args edir w sandbox cred"
    "resolve_commit tc' repo r cred = resolve_commit tc repo r cred"
  using assms
  by (simp_all add: run_git_def run_uv_def run_go_def resolve_commit_def same_build_commands[OF assms]
      run_tool_same git_contained uv_contained go_contained)

lemma same_build_fields:
  assumes "same_build sandbox tc tc'"
  shows "tc_symlink tc' = tc_symlink tc" "tc_canonical tc' = tc_canonical tc" "tc_read_dir tc' = tc_read_dir tc"
  using assms by (auto simp: same_build_def)

lemma build_same:
  assumes "same_build sandbox tc tc'"
  shows "clone_at_commit tc' pr repo commit dest cred = clone_at_commit tc pr repo commit dest cred"
    "build_env tc' pr edir i repo commit sandbox cred = build_env tc pr edir i repo commit sandbox cred"
    "build_go_env tc' pr edir i src def sandbox cred = build_go_env tc pr edir i src def sandbox cred"
    "already_built tc' fs edir inst commit = already_built tc fs edir inst commit"
    "resolve_source tc' parse box edir d inst def = resolve_source tc parse box edir d inst def"
proof -
  note same = tools_same(1,3,4)[OF assms] same_build_fields[OF assms]
  have uv: "run_uv tc' (''venv'' # args) edir sb cred = run_uv tc (''venv'' # args) edir sb cred"
    "run_uv tc' (''pip'' # args) edir sandbox cred = run_uv tc (''pip'' # args) edir sandbox cred" for args edir sb cred
    by (rule tools_same(2)[OF assms]; simp add: first_arg_def)+
  show "clone_at_commit tc' pr repo commit dest cred = clone_at_commit tc pr repo commit dest cred"
    unfolding clone_at_commit_def same ..
  show "build_env tc' pr edir i repo commit sandbox cred = build_env tc pr edir i repo commit sandbox cred"
    unfolding build_env_def uv ..
  show "build_go_env tc' pr edir i src def sandbox cred = build_go_env tc pr edir i src def sandbox cred"
    unfolding build_go_env_def same ..
  show "already_built tc' fs edir inst commit = already_built tc fs edir inst commit"
    unfolding already_built_def env_is_python_venv_def venv_python_is_shared_def same ..
  show "resolve_source tc' parse box edir d inst def = resolve_source tc parse box edir d inst def"
    unfolding resolve_source_def same ..
qed

section \<open>Properties\<close>


definition demo_tools :: toolchain where
  "demo_tools = \<lparr>tc_run = (\<lambda>cmd fs. (fs, Reply 1 (Inr \<lparr>ot_success = True, ot_stdout = ''abc'', ot_stderr = []\<rparr>))),
     tc_env = (\<lambda>k. if k = ''HUB_MASTER_KEY'' then Some ''k'' else None), tc_symlink = (\<lambda>_ _. False),
     tc_canonical = (\<lambda>_ _. None), tc_read_dir = (\<lambda>_ _. [])\<rparr>"

definition leaky :: "command \<Rightarrow> fs \<Rightarrow> fs \<times> tool_output res reply" where
  "leaky cmd fs = (if map_of (cm_env cmd) ''HUB_MASTER_KEY'' \<noteq> None then (fs, Hang) else tc_run demo_tools cmd fs)"


text \<open>After a failed update the server cannot be launched any more, although its previous build
  is still on disk and its commit is kept: the recorded state is \<open>error\<close>, and a server is
  launched only in the state \<open>ready\<close>.\<close>

theorem failed_build_unlaunchable:
  assumes "distinct (map i_id (user_server_instances d))" "inst \<in> set (user_server_instances d)" "is_git def"
  shows "\<exists>d' e inst'. record_build parse now d inst repo cred commit (Inl err) = (d', Inl e) \<and>
     inst_get d' (i_id inst) = Some inst' \<and> i_built_commit inst' = i_built_commit inst \<and>
     spawn_git se inst' def = Inl (RsUnbuilt, ''not built yet; run hub__update_server'')"
proof -
  define P where "P = (\<lambda>r :: inst_row. i_id r = i_id inst)"
  let ?upd = "\<lambda>r. r\<lparr>i_build_status := ''error'', i_built_commit := i_built_commit inst\<rparr>"
  have f: "List.find P (tbl_update P ?upd t) = map_option ?upd (List.find P t)" for t
    by (induction t) (auto simp: tbl_update_def P_def)
  have "List.find P (user_server_instances d) = Some inst"
    unfolding P_def by (rule find_unique) (use assms in auto)
  with assms(3) show ?thesis
    by (simp add: record_build_def set_build_state_def inst_get_def P_def[symmetric] f spawn_git_def)
qed

definition demo_se :: spawn_env where
  "demo_se = \<lparr>se_check_host = (\<lambda>_. Inr ()), se_env_exists = (\<lambda>_. True), se_venv_is_stale = (\<lambda>_ _. False),
     se_launch_command = (\<lambda>_ _. Inl ''none''), se_connect = (\<lambda>_ _ _ _. Inl ''none'')\<rparr>"

theorem failed_build_unlaunchable_witness:
  "\<exists>d' e inst'. record_build demo_parse 5 group_demo_db (mk_inst ''i1'' ''u1'' ''zabbix'') ''https://h/r'' None ''abc''
       (Inl ''boom'') = (d', Inl e) \<and>
     inst_get d' ''i1'' = Some inst' \<and>
     spawn_git demo_se inst' (demo_def\<lparr>sd_repo := Some ''https://h/r''\<rparr>) =
       Inl (RsUnbuilt, ''not built yet; run hub__update_server'')"
proof -
  let ?i = "mk_inst ''i1'' ''u1'' ''zabbix''"
  have d: "distinct (map i_id (user_server_instances group_demo_db))" and m: "?i \<in> set (user_server_instances group_demo_db)"
    by (simp_all add: group_demo_simps)
  have g: "is_git (demo_def\<lparr>sd_repo := Some ''https://h/r''\<rparr>)" by code_simp
  have i: "i_id ?i = ''i1''" by (simp add: mk_inst_def)
  from failed_build_unlaunchable[OF d m g, of demo_parse 5 "''https://h/r''" None "''abc''" "''boom''" demo_se]
  show ?thesis unfolding i by blast
qed

end
