(* ===== verification/Hub_App.thy ===== *)
theory Hub_App
  imports Hub_Gitsrc Hub_Metrics Hub_Session Hub_OAuth_Store Hub_Tokens Hub_Groups Hub_Invites
begin

text \<open>
  The state the handlers share (\<open>AppState\<close> of \<^verbatim>\<open>src/lib.rs\<close>): the database, the file system, the
  backend pool, the reload epochs, the connected client sessions, the status registry and the
  counters; the audit events of \<^verbatim>\<open>src/audit.rs\<close> as a log; and the two account operations of
  \<^verbatim>\<open>src/web.rs\<close> that the web pages and the management tools share. Library code and configuration
  are the record \<open>app_env\<close>. Handlers are functions from the state to the state and an answer,
  composed with \<open>m_bind\<close>.
\<close>

section \<open>State\<close>

text \<open>A connected client session; \<open>cp_open\<close> says whether a notification still reaches it.\<close>

record client_peer =
  cp_user_id :: string
  cp_open :: bool

record audit_event =
  ev_action :: string
  ev_actor :: string
  ev_actor_id :: string
  ev_client_id :: string
  ev_ip :: string
  ev_user_agent :: string
  ev_object :: string
  ev_outcome :: string
  ev_detail :: string

record app_state =
  ap_db :: db
  ap_fs :: fs
  ap_pool :: "(string, inner) hash_map"
  ap_epochs :: epochs
  ap_peers :: "(string, client_peer) hash_map"
  ap_status :: status_registry
  ap_metrics :: metrics
  ap_metrics_key :: string
  ap_permits :: nat
  ap_sessions :: nat
  ap_notified :: "string list"
  ap_audit :: "audit_event list"

record app_env =
  hv_cfg :: config
  hv_box :: secret_box
  hv_proc :: os_proc
  hv_tools :: toolchain
  hv_url :: "string \<Rightarrow> url option"
  hv_git_url :: "string \<Rightarrow> git_url option"
  hv_shlex :: "string \<Rightarrow> string list option"
  hv_th :: "string \<Rightarrow> string"
  hv_snapshot_tools :: "string \<Rightarrow> nat option"
  hv_now :: int
  hv_new_id :: string
  hv_random :: string
  hv_nonce :: string
  hv_env_fresh :: "nat \<Rightarrow> string \<times> string"

section \<open>Client sessions and notifications (lib.rs)\<close>

definition register_client_peer :: "app_state \<Rightarrow> string \<Rightarrow> string \<Rightarrow> app_state" where
  "register_client_peer st key user_id =
     st\<lparr>ap_peers := hm_insert key \<lparr>cp_user_id = user_id, cp_open = True\<rparr> (ap_peers st)\<rparr>"

definition unregister_client_peer :: "app_state \<Rightarrow> string \<Rightarrow> app_state" where
  "unregister_client_peer st key = st\<lparr>ap_peers := hm_remove key (ap_peers st)\<rparr>"

text \<open>Every session of the user is notified; those whose transport has closed are pruned.\<close>

definition notify_tools_changed :: "app_state \<Rightarrow> string \<Rightarrow> app_state" where
  "notify_tools_changed st user_id =
     st\<lparr>ap_peers := filter (\<lambda>(_, cp). cp_user_id cp \<noteq> user_id \<or> cp_open cp) (ap_peers st),
        ap_notified := ap_notified st @
          map fst (filter (\<lambda>(_, cp). cp_user_id cp = user_id \<and> cp_open cp) (ap_peers st))\<rparr>"

definition restart_backend :: "app_state \<Rightarrow> string \<Rightarrow> string \<Rightarrow> app_state" where
  "restart_backend st instance_id user_id =
     notify_tools_changed (st\<lparr>ap_epochs := bump_reload (ap_epochs st) instance_id\<rparr>) user_id"

definition pool_changed :: "app_state \<Rightarrow> string \<Rightarrow> app_state" where
  "pool_changed st user_id = notify_tools_changed (st\<lparr>ap_pool := mark_dirty (ap_pool st) user_id\<rparr>) user_id"

definition app_sandbox_or_fail :: "app_env \<Rightarrow> app_state \<Rightarrow> string \<Rightarrow> app_state \<times> sandbox option res" where
  "app_sandbox_or_fail hv st u =
     (let base = map_option word_of_nat (sandbox_uid_base (hv_cfg hv));
          run = (\<lambda>uid. prepare (hv_proc hv) uid (env_dir (hv_cfg hv)) (ap_fs st));
          prep = (\<lambda>uid. case run uid of (_, Inl _) \<Rightarrow> None | (_, Inr sb) \<Rightarrow> Some sb);
          fs' = (if base \<noteq> None \<and> is_root (hv_proc hv)
                 then (case uid_for True base (sandbox_slot (ap_db st) u) of None \<Rightarrow> ap_fs st | Some uid \<Rightarrow> fst (run uid))
                 else ap_fs st) in
      (st\<lparr>ap_fs := fs'\<rparr>, sandbox_or_fail (is_root (hv_proc hv)) base prep (ap_db st) u))"

section \<open>Audit events (audit.rs)\<close>

definition event :: "string \<Rightarrow> audit_event" where
  "event action = \<lparr>ev_action = action, ev_actor = [], ev_actor_id = [], ev_client_id = [], ev_ip = [],
     ev_user_agent = [], ev_object = [], ev_outcome = [], ev_detail = []\<rparr>"

definition ev_request :: "request_info \<Rightarrow> audit_event \<Rightarrow> audit_event" where
  "ev_request info ev =
     ev\<lparr>ev_ip := (case ri_ip info of None \<Rightarrow> [] | Some x \<Rightarrow> x),
        ev_user_agent := (case ri_user_agent info of None \<Rightarrow> [] | Some x \<Rightarrow> x)\<rparr>"

definition emit :: "string \<Rightarrow> string \<Rightarrow> audit_event \<Rightarrow> app_state \<Rightarrow> app_state" where
  "emit outcome detail ev st = st\<lparr>ap_audit := ap_audit st @ [ev\<lparr>ev_outcome := outcome, ev_detail := detail\<rparr>]\<rparr>"

section \<open>Accounts (web.rs)\<close>

definition deactivate_user :: "app_state \<Rightarrow> string \<Rightarrow> app_state" where
  "deactivate_user st user_id =
     st\<lparr>ap_db := fst (revoke_all_for_user (revoke_all_user_tokens
          (delete_all_for_user (set_disabled (ap_db st) user_id True) user_id) user_id) user_id)\<rparr>"

definition purge_user :: "app_env \<Rightarrow> app_state \<Rightarrow> string \<Rightarrow> app_state" where
  "purge_user hv st user_id =
     (let edir = env_dir (hv_cfg hv);
          st1 = foldl (\<lambda>st inst.
                  st\<lparr>ap_fs := remove_home (hv_proc hv) edir (i_id inst) (remove_env (hv_proc hv) edir (i_id inst) (ap_fs st)),
                     ap_status := status_remove (ap_status st) (i_id inst)\<rparr>)
                st (inst_list_for_user (ap_db st) user_id) in
      st1\<lparr>ap_db := users_delete (ap_db st1) user_id\<rparr>)"

section \<open>Handlers with errors\<close>

text \<open>A handler changes the state and answers, or leaves early with a value of type \<open>'e\<close>.\<close>

datatype mcp_error = InvalidRequest string | InvalidParams string | InternalError string

type_synonym ('e, 'a) handler = "app_state \<Rightarrow> app_state \<times> ('e + 'a)"
type_synonym 'a act = "(mcp_error, 'a) handler"

definition m_return :: "'a \<Rightarrow> ('e, 'a) handler" where
  "m_return x = (\<lambda>st. (st, Inr x))"

definition m_fail :: "'e \<Rightarrow> ('e, 'a) handler" where
  "m_fail e = (\<lambda>st. (st, Inl e))"

definition m_bind :: "('e, 'a) handler \<Rightarrow> ('a \<Rightarrow> ('e, 'b) handler) \<Rightarrow> ('e, 'b) handler" where
  "m_bind m f = (\<lambda>st. case m st of (st', Inl e) \<Rightarrow> (st', Inl e) | (st', Inr x) \<Rightarrow> f x st')"

definition m_get :: "(app_state \<Rightarrow> 'a) \<Rightarrow> ('e, 'a) handler" where
  "m_get f = (\<lambda>st. (st, Inr (f st)))"

definition m_modify :: "(app_state \<Rightarrow> app_state) \<Rightarrow> ('e, unit) handler" where
  "m_modify f = (\<lambda>st. (f st, Inr ()))"

text \<open>The two ways the handlers map an error of the lower layers.\<close>

definition m_internal :: "'a res \<Rightarrow> 'a act" where
  "m_internal r = (case r of Inl e \<Rightarrow> m_fail (InternalError e) | Inr x \<Rightarrow> m_return x)"

definition m_bad :: "'a res \<Rightarrow> 'a act" where
  "m_bad r = (case r of Inl e \<Rightarrow> m_fail (InvalidParams e) | Inr x \<Rightarrow> m_return x)"

definition m_opt :: "'e \<Rightarrow> 'a option \<Rightarrow> ('e, 'a) handler" where
  "m_opt e r = (case r of None \<Rightarrow> m_fail e | Some x \<Rightarrow> m_return x)"

text \<open>A statement on the database that may fail.\<close>

definition m_db :: "(db \<Rightarrow> ('e + db \<times> 'a)) \<Rightarrow> ('e, 'a) handler" where
  "m_db f = (\<lambda>st. case f (ap_db st) of Inl e \<Rightarrow> (st, Inl e) | Inr (d, x) \<Rightarrow> (st\<lparr>ap_db := d\<rparr>, Inr x))"

end
