(* ===== verification/Hub_Management.thy ===== *)
theory Hub_Management
  imports Hub_App
begin

text \<open>
  \<^verbatim>\<open>src/proxy/management.rs\<close>: the management tools, with the dispatcher and its audit events. A JSON
  value is the datatype \<open>json\<close>, an object the list of its members; the members of an answer are in
  the order the code writes them. The texts that describe the tools are not modelled. The lemmas
  say whose data a call can touch.
\<close>

section \<open>JSON values and arguments\<close>

datatype json = JNull | JBool bool | JNum int | JStr string | JArr "json list" | JObj "(string \<times> json) list"

type_synonym json_object = "(string \<times> json) list"

fun as_str :: "json \<Rightarrow> string option" where
  "as_str (JStr s) = Some s"
| "as_str _ = None"

fun as_array :: "json \<Rightarrow> json list option" where
  "as_array (JArr xs) = Some xs"
| "as_array _ = None"

fun as_object :: "json \<Rightarrow> json_object option" where
  "as_object (JObj xs) = Some xs"
| "as_object _ = None"

fun as_u64 :: "json \<Rightarrow> 64 word option" where
  "as_u64 (JNum n) = (if 0 \<le> n \<and> n < 2 ^ 64 then Some (word_of_int n) else None)"
| "as_u64 _ = None"

definition jopt :: "('a \<Rightarrow> json) \<Rightarrow> 'a option \<Rightarrow> json" where
  "jopt f x = (case x of None \<Rightarrow> JNull | Some v \<Rightarrow> f v)"

definition jnat :: "nat \<Rightarrow> json" where
  "jnat n = JNum (int n)"

definition opt_str :: "json_object \<Rightarrow> string \<Rightarrow> string option" where
  "opt_str args key =
     Option.bind (Option.bind (map_of args key) as_str) (\<lambda>s. if s = [] then None else Some s)"

definition req_str :: "json_object \<Rightarrow> string \<Rightarrow> mcp_error + string" where
  "req_str args key =
     (case opt_str args key of None \<Rightarrow> Inl (InvalidParams (squote key @ '' is required'')) | Some s \<Rightarrow> Inr s)"

definition opt_secs :: "json_object \<Rightarrow> string \<Rightarrow> mcp_error + 64 word option" where
  "opt_secs args key =
     (case map_of args key of
        None \<Rightarrow> Inr None
      | Some JNull \<Rightarrow> Inr None
      | Some v \<Rightarrow>
          (case as_u64 v of
             Some n \<Rightarrow> Inr (Some n)
           | None \<Rightarrow> Inl (InvalidParams (squote key @ '' must be a whole number of seconds (0 = no limit)''))))"

definition m_lift :: "'e + 'a \<Rightarrow> ('e, 'a) handler" where
  "m_lift r = (case r of Inl e \<Rightarrow> m_fail e | Inr x \<Rightarrow> m_return x)"

section \<open>Caller and lookups\<close>

record caller =
  ca_user_id :: string
  ca_handle :: string
  ca_admin :: bool
  ca_client_id :: "string option"
  ca_request :: request_info

definition is_management_tool :: "string \<Rightarrow> bool" where
  "is_management_tool full_name = starts_with full_name ''hub__''"

definition require_admin :: "bool \<Rightarrow> unit act" where
  "require_admin admin =
     (if admin then m_return () else m_fail (InvalidRequest ''this tool requires administrator privileges''))"

definition require_client :: "string option \<Rightarrow> string act" where
  "require_client client_id =
     m_opt (InvalidRequest ''this tool is only available to OAuth-authenticated MCP clients, not personal access tokens'')
       (Option.bind client_id (\<lambda>c. if c = [] then None else Some c))"

definition find_instance :: "string \<Rightarrow> string \<Rightarrow> inst_row act" where
  "find_instance user_id ns =
     m_bind (m_get (\<lambda>st. List.find (\<lambda>i. i_namespace i = ns) (inst_list_for_user (ap_db st) user_id)))
       (m_opt (InvalidParams (''no server with namespace '' @ squote ns)))"

definition user_by_handle :: "string \<Rightarrow> user_row act" where
  "user_by_handle handle =
     m_bind (m_get (\<lambda>st. find_by_handle (ap_db st) handle))
       (m_opt (InvalidParams (''no user with handle '' @ squote handle)))"

section \<open>The caller and its client\<close>

definition whoami :: "string \<Rightarrow> json act" where
  "whoami user_id =
     m_bind (m_get (\<lambda>st. users_find_by_id (ap_db st) user_id)) (\<lambda>u.
     m_bind (m_opt (InvalidRequest ''user not found'') u) (\<lambda>user.
     m_bind (m_get (\<lambda>st. inst_list_for_user (ap_db st) user_id)) (\<lambda>insts.
     m_return (JObj [(''handle'', JStr (u_handle user)), (''display_name'', JStr (u_display_name user)),
       (''admin'', JBool (u_is_admin user)),
       (''servers'', JArr (map (\<lambda>i. JObj [(''namespace'', JStr (i_namespace i)), (''enabled'', JBool (i_enabled i))]) insts))]))))"

definition get_my_client :: "string \<Rightarrow> string option \<Rightarrow> json act" where
  "get_my_client user_id client_id0 =
     m_bind (require_client client_id0) (\<lambda>client_id.
     m_get (\<lambda>st.
       (case get_client_label (ap_db st) user_id client_id of (name, note) \<Rightarrow>
          JObj [(''client_id'', JStr client_id),
                (''registered_name'', jopt JStr (Option.bind (get_client (ap_db st) client_id) (md_client_name \<circ> oc_metadata))),
                (''name'', JStr name), (''note'', JStr note)])))"

definition set_my_client :: "app_env \<Rightarrow> string \<Rightarrow> string option \<Rightarrow> json_object \<Rightarrow> json act" where
  "set_my_client hv user_id client_id0 args =
     m_bind (require_client client_id0) (\<lambda>client_id.
     m_bind (m_get (\<lambda>st. user_has_connection (hv_now hv) (ap_db st) user_id client_id)) (\<lambda>connected.
     if \<not> connected then m_fail (InvalidRequest ''this client is not currently connected to your account'')
     else
       m_bind (m_get (\<lambda>st. get_client_label (ap_db st) user_id client_id)) (\<lambda>(name0, note0).
       (let n = Option.bind (map_of args ''name'') as_str; t = Option.bind (map_of args ''note'') as_str;
            name = (case n of None \<Rightarrow> name0 | Some s \<Rightarrow> take 60 (trim s));
            note = (case t of None \<Rightarrow> note0 | Some s \<Rightarrow> take 200 (trim s)) in
        if n = None \<and> t = None then m_fail (InvalidParams (''provide '' @ squote ''name'' @ '' and/or '' @ squote ''note'' @ '' to set''))
        else
          m_bind (m_db (\<lambda>d. map_sum InternalError (\<lambda>d'. (d', ())) (set_client_label (hv_now hv) d user_id client_id name note))) (\<lambda>_.
          m_return (JObj [(''client_id'', JStr client_id), (''name'', JStr name), (''note'', JStr note)]))))))"

section \<open>Servers\<close>

definition server_json :: "app_env \<Rightarrow> app_state \<Rightarrow> string \<Rightarrow> inst_row \<Rightarrow> json" where
  "server_json hv st user_id i =
     (let def = (case resolve_def i of Inl _ \<Rightarrow> None | Inr x \<Rightarrow> Some x);
          command = Option.bind def (resolved_command (ap_fs st) (env_dir (hv_cfg hv)) i);
          rs = status_get (ap_status st) (i_id i);
          cred_host = (case Option.bind def sd_repo of
                         None \<Rightarrow> None
                       | Some repo \<Rightarrow>
                           (case gitcreds_find (hv_git_url hv) (ap_db st) user_id repo of
                              Inl _ \<Rightarrow> None | Inr c \<Rightarrow> map_option gd_host c)) in
      JObj [(''namespace'', JStr (i_namespace i)), (''display_name'', JStr (i_display_name i)),
            (''enabled'', JBool (i_enabled i)), (''transport'', jopt (JStr \<circ> sd_transport) def),
            (''url'', jopt JStr (Option.bind def sd_url)), (''repo'', jopt JStr (Option.bind def sd_repo)),
            (''connect_timeout_secs'', jopt (jnat \<circ> unat) (Option.bind def sd_connect_timeout_secs)),
            (''command'', jopt (\<lambda>(program, args). JArr (map JStr (program # args))) command),
            (''env_keys'', JArr (map JStr (secret_names (ap_db st) (i_id i)))),
            (''build_status'', JStr (i_build_status i)), (''built_commit'', jopt JStr (i_built_commit i)),
            (''git_credential_host'', jopt JStr cred_host),
            (''runtime_status'', JStr (case rs of None \<Rightarrow> ''unknown'' | Some s \<Rightarrow> rs_as_str (rs_state s))),
            (''runtime_detail'', jopt JStr (Option.bind rs rs_detail)),
            (''runtime_checked_at'', jopt (JNum \<circ> rs_checked_at) rs)])"

definition list_my_servers :: "app_env \<Rightarrow> string \<Rightarrow> json act" where
  "list_my_servers hv user_id =
     m_get (\<lambda>st. JObj [(''servers'', JArr (map (server_json hv st user_id) (inst_list_for_user (ap_db st) user_id)))])"

definition def_from_args :: "app_env \<Rightarrow> json_object \<Rightarrow> string \<Rightarrow> server_def act" where
  "def_from_args hv args display_name =
     m_bind (m_lift (req_str args ''transport'')) (\<lambda>transport.
     m_bind (m_lift (opt_secs args ''connect_timeout_secs'')) (\<lambda>secs.
     if transport \<noteq> ''stdio'' \<and> transport \<noteq> ''http'' then m_fail (InvalidParams ''transport must be stdio or http'')
     else if transport = ''http'' then
       m_bind (m_lift (req_str args ''url'')) (\<lambda>url.
       m_bind (m_bad (validate_remote_url (hv_url hv) url)) (\<lambda>_.
       m_return \<lparr>sd_name = display_name, sd_description = [], sd_transport = transport, sd_command = None, sd_args = [],
         sd_url = Some url, sd_runtime = [], sd_repo = None, sd_git_ref = None, sd_entry = None, sd_module = None,
         sd_connect_timeout_secs = secs\<rparr>))
     else
       m_bind (m_lift (req_str args ''command'')) (\<lambda>line.
       m_bind (m_bad (parse_command (hv_shlex hv) line)) (\<lambda>(command, cmd_args).
       if command = None then m_fail (InvalidParams ''a command line is required'')
       else
         (let repo = opt_str args ''repo'' in
          m_bind (case repo of
                    None \<Rightarrow> m_return ()
                  | Some r \<Rightarrow> if hv_git_url hv r = None then m_fail (InvalidParams ''repo must be a valid URL'') else m_return ()) (\<lambda>_.
          m_return \<lparr>sd_name = display_name, sd_description = [], sd_transport = transport, sd_command = command,
            sd_args = cmd_args, sd_url = None, sd_runtime = [], sd_repo = repo,
            sd_git_ref = map_option (\<lambda>_. case opt_str args ''git_ref'' of None \<Rightarrow> ''main'' | Some r \<Rightarrow> r) repo,
            sd_entry = None, sd_module = None, sd_connect_timeout_secs = secs\<rparr>))))))"

text \<open>The environment argument is written as a block of lines and parsed by the line parser.\<close>

fun env_text :: "json_object \<Rightarrow> mcp_error + string" where
  "env_text [] = Inr []"
| "env_text ((k, v) # rest) =
     (case as_str v of
        None \<Rightarrow> Inl (InvalidParams (''env '' @ squote k @ '' must be a string''))
      | Some s \<Rightarrow> map_sum id (\<lambda>r. k @ ''='' @ s @ [CHR 0x0A] @ r) (env_text rest))"

definition env_from_args :: "json_object \<Rightarrow> mcp_error + btree" where
  "env_from_args args =
     (case map_of args ''env'' of
        None \<Rightarrow> Inr []
      | Some v \<Rightarrow>
          (case as_object v of
             None \<Rightarrow> Inl (InvalidParams (squote ''env'' @ '' must be an object''))
           | Some obj \<Rightarrow> (case env_text obj of Inl e \<Rightarrow> Inl e | Inr txt \<Rightarrow> map_sum InvalidParams id (parse_env txt))))"

definition m_replace_env :: "app_env \<Rightarrow> string \<Rightarrow> btree \<Rightarrow> unit act" where
  "m_replace_env hv i env =
     m_db (\<lambda>d. map_sum InternalError (\<lambda>d'. (d', ())) (replace_env (hv_box hv) (hv_env_fresh hv) d i env))"

definition m_set_config_file :: "app_env \<Rightarrow> string \<Rightarrow> string \<Rightarrow> unit act" where
  "m_set_config_file hv i content =
     m_db (\<lambda>d. map_sum InternalError (\<lambda>d'. (d', ())) (set_config_file (hv_box hv) (hv_nonce hv) (hv_now hv) d i content))"

definition add_server :: "app_env \<Rightarrow> string \<Rightarrow> json_object \<Rightarrow> json act" where
  "add_server hv user_id args =
     m_bind (m_lift (req_str args ''namespace'')) (\<lambda>ns.
     (let display_name = (case opt_str args ''display_name'' of None \<Rightarrow> ns | Some n \<Rightarrow> n) in
      m_bind (def_from_args hv args display_name) (\<lambda>def.
      m_bind (m_lift (env_from_args args)) (\<lambda>env.
      m_bind (m_db (\<lambda>d. map_sum InvalidParams id (inst_create (hv_new_id hv) (hv_now hv) d user_id None (Some def) ns display_name))) (\<lambda>inst.
      m_bind (m_replace_env hv (i_id inst) env) (\<lambda>_.
      m_bind (case opt_str args ''config_file'' of
                None \<Rightarrow> m_return ()
              | Some content \<Rightarrow> m_set_config_file hv (i_id inst) content) (\<lambda>_.
      m_bind (m_modify (\<lambda>st. pool_changed st user_id)) (\<lambda>_.
      m_return (JObj [(''added'', JBool True), (''namespace'', JStr (i_namespace inst))]))))))))) "

text \<open>A change of a running server relaunches it; a disabled one has nothing running.\<close>

definition m_restart :: "inst_row \<Rightarrow> string \<Rightarrow> unit act" where
  "m_restart inst user_id = m_modify (\<lambda>st. if i_enabled inst then restart_backend st (i_id inst) user_id else st)"

definition edited_def :: "app_env \<Rightarrow> json_object \<Rightarrow> server_def \<Rightarrow> server_def act" where
  "edited_def hv args def0 =
     m_bind (case opt_str args ''command'' of
               None \<Rightarrow> m_return def0
             | Some line \<Rightarrow>
                 m_bind (m_bad (parse_command (hv_shlex hv) line)) (\<lambda>(command, cmd_args).
                 m_return (def0\<lparr>sd_command := command, sd_args := cmd_args\<rparr>))) (\<lambda>def1.
     m_bind (case opt_str args ''url'' of
               None \<Rightarrow> m_return def1
             | Some url \<Rightarrow>
                 m_bind (m_bad (validate_remote_url (hv_url hv) url)) (\<lambda>_. m_return (def1\<lparr>sd_url := Some url\<rparr>))) (\<lambda>def2.
     m_bind (case opt_str args ''repo'' of
               None \<Rightarrow> m_return def2
             | Some repo \<Rightarrow>
                 if hv_git_url hv repo = None then m_fail (InvalidParams ''repo must be a valid URL'')
                 else m_return (def2\<lparr>sd_repo := Some repo,
                        sd_git_ref := (case sd_git_ref def2 of None \<Rightarrow> Some ''main'' | Some r \<Rightarrow> Some r)\<rparr>)) (\<lambda>def3.
     (let def4 = (case opt_str args ''git_ref'' of None \<Rightarrow> def3 | Some r \<Rightarrow> def3\<lparr>sd_git_ref := Some r\<rparr>) in
      if map_of args ''connect_timeout_secs'' \<noteq> None then
        m_bind (m_lift (opt_secs args ''connect_timeout_secs'')) (\<lambda>secs. m_return (def4\<lparr>sd_connect_timeout_secs := secs\<rparr>))
      else m_return def4))))"

definition edit_server :: "app_env \<Rightarrow> string \<Rightarrow> json_object \<Rightarrow> json act" where
  "edit_server hv user_id args =
     m_bind (m_lift (req_str args ''namespace'')) (\<lambda>ns.
     m_bind (find_instance user_id ns) (\<lambda>inst.
     m_bind (m_internal (resolve_def inst)) (\<lambda>def0.
     m_bind (edited_def hv args def0) (\<lambda>def.
     m_bind (m_db (\<lambda>d. Inr (update_def d (i_id inst) def, ()))) (\<lambda>_.
     m_bind (m_restart inst user_id) (\<lambda>_.
     m_return (JObj [(''edited'', JBool True), (''namespace'', JStr ns), (''restarted'', JBool (i_enabled inst))])))))))"

definition set_env :: "app_env \<Rightarrow> string \<Rightarrow> json_object \<Rightarrow> json act" where
  "set_env hv user_id args =
     m_bind (m_lift (req_str args ''namespace'')) (\<lambda>ns.
     m_bind (find_instance user_id ns) (\<lambda>inst.
     m_bind (m_lift (env_from_args args)) (\<lambda>env.
     m_bind (m_replace_env hv (i_id inst) env) (\<lambda>_.
     m_bind (m_restart inst user_id) (\<lambda>_.
     m_return (JObj [(''set'', JBool True), (''namespace'', JStr ns), (''keys'', JArr (map (JStr \<circ> fst) env)),
                     (''restarted'', JBool (i_enabled inst))]))))))"

definition mg_set_config_file :: "app_env \<Rightarrow> string \<Rightarrow> json_object \<Rightarrow> json act" where
  "mg_set_config_file hv user_id args =
     m_bind (m_lift (req_str args ''namespace'')) (\<lambda>ns.
     m_bind (find_instance user_id ns) (\<lambda>inst.
     m_bind (case opt_str args ''content'' of
               None \<Rightarrow>
                 m_bind (m_db (\<lambda>d. Inr (clear_config_file d (i_id inst), ()))) (\<lambda>_.
                 m_bind (m_modify (\<lambda>st. st\<lparr>ap_fs := remove_workdir (hv_proc hv) (env_dir (hv_cfg hv)) (i_id inst) (ap_fs st)\<rparr>)) (\<lambda>_.
                 m_return (JObj [(''namespace'', JStr ns), (''cleared'', JBool True), (''restarted'', JBool (i_enabled inst))])))
             | Some content \<Rightarrow>
                 m_bind (m_set_config_file hv (i_id inst) content) (\<lambda>_.
                 m_return (JObj [(''namespace'', JStr ns), (''set'', JBool True), (''restarted'', JBool (i_enabled inst))]))) (\<lambda>result.
     m_bind (m_restart inst user_id) (\<lambda>_. m_return result))))"

text \<open>The build of a git source, run on the application state.\<close>

definition m_update_instance :: "app_env \<Rightarrow> inst_row \<Rightarrow> server_def \<Rightarrow> sandbox option \<Rightarrow> update_report act" where
  "m_update_instance hv inst def sandbox = (\<lambda>st.
     case update_instance (hv_tools hv) (hv_proc hv) (hv_git_url hv) (hv_box hv) (hv_now hv) (env_dir (hv_cfg hv))
            (ap_db st) inst def sandbox (ap_fs st) of
       (d, fs', r) \<Rightarrow> (st\<lparr>ap_db := d, ap_fs := fs'\<rparr>, map_sum InvalidParams id r))"

definition m_sandbox :: "app_env \<Rightarrow> string \<Rightarrow> sandbox option act" where
  "m_sandbox hv user_id = (\<lambda>st. case app_sandbox_or_fail hv st user_id of (st', r) \<Rightarrow> (st', map_sum InternalError id r))"

definition mg_update_server :: "app_env \<Rightarrow> string \<Rightarrow> json_object \<Rightarrow> json act" where
  "mg_update_server hv user_id args =
     m_bind (m_lift (req_str args ''namespace'')) (\<lambda>ns.
     m_bind (find_instance user_id ns) (\<lambda>inst.
     m_bind (m_internal (resolve_def inst)) (\<lambda>def.
     if \<not> is_git_source def then m_fail (InvalidParams (squote ns @ '' is not a git-sourced server''))
     else
       m_bind (m_sandbox hv user_id) (\<lambda>sandbox.
       m_bind (m_update_instance hv inst def sandbox) (\<lambda>report.
       (let restarted = (ur_changed report \<and> i_enabled inst) in
        m_bind (m_modify (\<lambda>st. if restarted then restart_backend st (i_id inst) user_id else st)) (\<lambda>_.
        m_return (JObj [(''namespace'', JStr ns), (''updated'', JBool (ur_changed report)), (''restarted'', JBool restarted),
          (''commit'', JStr (ur_commit report)), (''previous_commit'', jopt JStr (ur_previous_commit report)),
          (''note'', JStr (if restarted then ''rebuilt; the running server is being relaunched and live sessions were told to re-list''
                           else if ur_changed report then ''rebuilt; the server is disabled and will run the new build once enabled''
                           else ''already up to date''))]))))))))"

definition mg_set_enabled :: "string \<Rightarrow> json_object \<Rightarrow> bool \<Rightarrow> json act" where
  "mg_set_enabled user_id args enabled =
     m_bind (m_lift (req_str args ''namespace'')) (\<lambda>ns.
     m_bind (find_instance user_id ns) (\<lambda>inst.
     m_bind (m_db (\<lambda>d. Inr (set_enabled d (i_id inst) enabled, ()))) (\<lambda>_.
     m_bind (m_modify (\<lambda>st. if enabled then st else st\<lparr>ap_status := status_remove (ap_status st) (i_id inst)\<rparr>)) (\<lambda>_.
     m_bind (m_modify (\<lambda>st. pool_changed st user_id)) (\<lambda>_.
     m_return (JObj [(''namespace'', JStr ns), (''enabled'', JBool enabled)]))))))"

definition mg_remove :: "app_env \<Rightarrow> string \<Rightarrow> json_object \<Rightarrow> json act" where
  "mg_remove hv user_id args =
     (let edir = env_dir (hv_cfg hv); pr = hv_proc hv in
      m_bind (m_lift (req_str args ''namespace'')) (\<lambda>ns.
      m_bind (find_instance user_id ns) (\<lambda>inst.
      m_bind (m_db (\<lambda>d. Inr (inst_delete d (i_id inst), ()))) (\<lambda>_.
      m_bind (m_modify (\<lambda>st. st\<lparr>ap_status := status_remove (ap_status st) (i_id inst),
                ap_fs := remove_home pr edir (i_id inst) (remove_workdir pr edir (i_id inst)
                           (remove_env pr edir (i_id inst) (ap_fs st)))\<rparr>)) (\<lambda>_.
      m_bind (m_modify (\<lambda>st. pool_changed st user_id)) (\<lambda>_.
      m_return (JObj [(''removed'', JBool True), (''namespace'', JStr ns)])))))))"

section \<open>Tokens and git credentials\<close>

definition mg_list_tokens :: "string \<Rightarrow> json act" where
  "mg_list_tokens user_id =
     m_get (\<lambda>st. JObj [(''tokens'', JArr (map (\<lambda>t. JObj [(''id'', JStr (pt_id t)), (''name'', JStr (pt_name t)),
       (''created_at'', JNum (pt_created_at t)), (''last_used_at'', jopt JNum (pt_last_used_at t)),
       (''expires_at'', JNum (pt_expires_at t))]) (tokens_list_for_user (ap_db st) user_id)))])"

definition mg_revoke_token :: "string \<Rightarrow> json_object \<Rightarrow> json act" where
  "mg_revoke_token user_id args =
     m_bind (m_lift (req_str args ''token_id'')) (\<lambda>token_id.
     m_bind (m_db (\<lambda>d. Inr (tokens_revoke d user_id token_id))) (\<lambda>revoked.
     m_return (JObj [(''revoked'', JBool revoked)])))"

definition mg_list_git_credentials :: "string \<Rightarrow> json act" where
  "mg_list_git_credentials user_id =
     m_get (\<lambda>st. JObj [(''git_credentials'', JArr (map (\<lambda>c. JObj [(''host'', JStr (gd_host c)),
       (''username'', JStr (if gd_username c = [] then DEFAULT_USERNAME else gd_username c)), (''label'', JStr (gd_label c)),
       (''created_at'', JNum (gd_created_at c)), (''updated_at'', JNum (gd_updated_at c)),
       (''last_used_at'', jopt JNum (gd_last_used_at c))]) (gitcreds_list_for_user (ap_db st) user_id)))])"

definition mg_set_git_credential :: "app_env \<Rightarrow> string \<Rightarrow> json_object \<Rightarrow> json act" where
  "mg_set_git_credential hv user_id args =
     m_bind (m_lift (req_str args ''host'')) (\<lambda>host.
     m_bind (m_lift (req_str args ''token'')) (\<lambda>tok.
     m_bind (\<lambda>st. case gitcreds_upsert (hv_git_url hv) (hv_box hv) (hv_nonce hv) (hv_new_id hv) (hv_now hv) (ap_db st)
                      user_id host (or_else [] (opt_str args ''username'')) (or_else [] (opt_str args ''label'')) tok of
                (d, r) \<Rightarrow> (st\<lparr>ap_db := d\<rparr>, map_sum InvalidParams id r)) (\<lambda>cred.
     m_return (JObj [(''host'', JStr (gd_host cred)), (''stored'', JBool True)]))))"

definition mg_delete_git_credential :: "app_env \<Rightarrow> string \<Rightarrow> json_object \<Rightarrow> json act" where
  "mg_delete_git_credential hv user_id args =
     m_bind (m_lift (req_str args ''host'')) (\<lambda>host.
     m_bind (m_db (\<lambda>d. map_sum InvalidParams id (gitcreds_delete (hv_git_url hv) d user_id host))) (\<lambda>deleted.
     m_return (JObj [(''host'', JStr host), (''deleted'', JBool deleted)])))"

section \<open>Administration\<close>

definition stats_json :: "runtime_stats \<Rightarrow> json" where
  "stats_json s =
     (let l = st_limits s; t = st_totals s in
      JObj [(''slots'', JObj [(''used'', jnat (st_slots_used s)), (''total'', jnat (st_slots_total s))]),
            (''active_sessions'', jnat (st_active_sessions s)),
            (''pool'', JObj [(''users'', jnat (st_pool_users s)), (''backends'', jnat (st_pool_backends s))]),
            (''limits'', JObj [(''max_backends_per_user'', jnat (max_backends_per_user l)),
               (''max_backends_global'', jnat (max_backends_global l)), (''backend_idle_secs'', jnat (backend_idle_secs l)),
               (''backend_call_timeout_secs'', jnat (backend_call_timeout_secs l)),
               (''backend_connect_timeout_secs'', jnat (backend_connect_timeout_secs l)),
               (''backend_list_timeout_secs'', jnat (backend_list_timeout_secs l)),
               (''bind_budget_secs'', jnat (bind_budget_secs l)), (''max_response_mb'', jnat (max_response_mb l))]),
            (''totals'', JObj [(''users'', jnat (to_users t)), (''instances'', jnat (to_instances t)),
               (''enabled_instances'', jnat (to_enabled_instances t)), (''running'', jnat (to_running t)),
               (''error'', jnat (to_error t)), (''skipped'', jnat (to_skipped t)), (''unbuilt'', jnat (to_unbuilt t)),
               (''unknown'', jnat (to_unknown t))]),
            (''instances'', JArr (map (\<lambda>i. JObj [(''owner'', JStr (sn_owner i)), (''namespace'', JStr (sn_namespace i)),
               (''display_name'', JStr (sn_display_name i)), (''enabled'', JBool (sn_enabled i)),
               (''runtime_status'', JStr (sn_runtime_status i)), (''runtime_detail'', jopt JStr (sn_runtime_detail i)),
               (''runtime_checked_at'', jopt JNum (sn_runtime_checked_at i))]) (st_instances s)))])"

definition mg_runtime_stats :: "app_env \<Rightarrow> json act" where
  "mg_runtime_stats hv =
     m_get (\<lambda>st. stats_json (gather (cfg_limits (hv_cfg hv)) (ap_permits st) (ap_sessions st) (ap_pool st) (ap_db st) (ap_status st)))"

definition mg_list_users :: "json act" where
  "mg_list_users =
     m_get (\<lambda>st. JObj [(''users'', JArr (map (\<lambda>u. JObj [(''handle'', JStr (u_handle u)),
       (''display_name'', JStr (u_display_name u)), (''admin'', JBool (u_is_admin u)), (''disabled'', JBool (u_disabled u))])
       (users_list (ap_db st))))])"

definition admin_target :: "string \<Rightarrow> string \<Rightarrow> user_row act" where
  "admin_target caller_id handle =
     m_bind (user_by_handle handle) (\<lambda>target.
     if u_id target = caller_id then m_fail (InvalidParams ''you cannot disable or delete your own account'')
     else
       m_bind (m_get (\<lambda>st. count_admins (ap_db st))) (\<lambda>admins.
       if u_is_admin target \<and> admins \<le> 1 then m_fail (InvalidParams ''cannot disable or delete the last administrator'')
       else m_return target))"

definition mg_set_user_disabled :: "string \<Rightarrow> json_object \<Rightarrow> bool \<Rightarrow> json act" where
  "mg_set_user_disabled caller_id args disabled =
     m_bind (m_lift (req_str args ''handle'')) (\<lambda>handle.
     m_bind (if disabled then
               m_bind (admin_target caller_id handle) (\<lambda>target. m_modify (\<lambda>st. deactivate_user st (u_id target)))
             else
               m_bind (user_by_handle handle) (\<lambda>target.
               m_db (\<lambda>d. Inr (set_disabled d (u_id target) False, ())))) (\<lambda>_.
     m_return (JObj [(''handle'', JStr handle), (''disabled'', JBool disabled)])))"

definition mg_delete_user :: "app_env \<Rightarrow> string \<Rightarrow> json_object \<Rightarrow> json act" where
  "mg_delete_user hv caller_id args =
     m_bind (m_lift (req_str args ''handle'')) (\<lambda>handle.
     m_bind (admin_target caller_id handle) (\<lambda>target.
     m_bind (m_modify (\<lambda>st. purge_user hv st (u_id target))) (\<lambda>_.
     m_return (JObj [(''deleted'', JBool True), (''handle'', JStr handle)]))))"

definition mg_create_invite :: "app_env \<Rightarrow> string \<Rightarrow> json_object \<Rightarrow> json act" where
  "mg_create_invite hv user_id args =
     m_bind (m_db (\<lambda>d. map_sum InternalError id
               (invites_create (hv_th hv) (hv_now hv) (hv_random hv) d user_id (or_else [] (opt_str args ''note''))))) (\<lambda>(plain, inv).
     m_return (JObj [(''created'', JBool True), (''code'', JStr plain), (''id'', JStr (iv_short_id inv)), (''note'', JStr (iv_note inv)),
       (''note_advice'', JStr ''single-use; this code is shown only once and cannot be retrieved later'')]))"

definition mg_list_invites :: "json act" where
  "mg_list_invites =
     m_get (\<lambda>st. JObj [(''invites'', JArr (map (\<lambda>i. JObj [(''id'', JStr (iv_short_id i)), (''note'', JStr (iv_note i)),
       (''used'', JBool (iv_used_at i \<noteq> None)), (''created_at'', JNum (iv_created_at i)),
       (''used_at'', jopt JNum (iv_used_at i))]) (invites_list (ap_db st))))])"

definition mg_revoke_invite :: "json_object \<Rightarrow> json act" where
  "mg_revoke_invite args =
     m_bind (m_lift (req_str args ''id'')) (\<lambda>i.
     m_bind (m_db (\<lambda>d. Inr (invites_revoke d i))) (\<lambda>revoked.
     if revoked then m_return (JObj [(''revoked'', JBool True), (''id'', JStr i)])
     else m_fail (InvalidParams (''no unused invite with id '' @ squote i @ '' (used invites cannot be revoked)''))))"

definition mg_create_recovery :: "app_env \<Rightarrow> string \<Rightarrow> json_object \<Rightarrow> json act" where
  "mg_create_recovery hv user_id args =
     m_bind (m_lift (req_str args ''handle'')) (\<lambda>handle.
     m_bind (user_by_handle handle) (\<lambda>target.
     m_bind (m_db (\<lambda>d. map_sum InternalError id
               (create_recovery (hv_th hv) (hv_now hv) (hv_random hv) d user_id (u_id target)))) (\<lambda>(plain, inv).
     m_return (JObj [(''created'', JBool True), (''code'', JStr plain), (''id'', JStr (iv_short_id inv)),
       (''for_handle'', JStr (u_handle target)), (''redeem_at'', JStr (base_url (hv_cfg hv) @ ''/recover'')),
       (''advice'', JStr ''single-use; shown only once. The user enrolls a new passkey with their handle and this code.'')]))))"

section \<open>Connector groups\<close>

definition add_counts :: "nat option \<Rightarrow> nat option \<Rightarrow> nat option" where
  "add_counts a b = (case (a, b) of (Some x, Some y) \<Rightarrow> Some (x + y) | _ \<Rightarrow> None)"

definition group_json :: "app_env \<Rightarrow> app_state \<Rightarrow> inst_row list \<Rightarrow> group_row \<Rightarrow> json" where
  "group_json hv st insts g =
     (let members = filter (\<lambda>i. i_id i \<in> member_instance_ids (ap_db st) (g_id g)) insts;
          count = (\<lambda>i. get_capabilities_snapshot (hv_snapshot_tools hv) (ap_db st) (i_id i));
          tot = foldl (\<lambda>t i. add_counts t (count i)) (Some 0) members in
      JObj [(''slug'', JStr (g_slug g)), (''name'', JStr (g_name g)),
            (''connector_url'', JStr (group_mcp_url (hv_cfg hv) (g_slug g))),
            (''servers'', JArr (map (\<lambda>i. JObj [(''namespace'', JStr (i_namespace i)), (''tool_count'', jopt jnat (count i))])
                                 (sort_key i_namespace members))),
            (''total_tool_count'', jopt jnat tot), (''fits_claude_ai'', jopt (\<lambda>t. JBool (t \<le> 256)) tot),
            (''note'', JStr ''tool counts come from each server's last connect or capability probe'')])"

definition mg_list_groups :: "app_env \<Rightarrow> string \<Rightarrow> json act" where
  "mg_list_groups hv user_id =
     m_get (\<lambda>st.
       JObj [(''groups'', JArr (map (group_json hv st (inst_list_for_user (ap_db st) user_id)) (groups_list_for_user (ap_db st) user_id))),
             (''usage'', JStr ''add a group's connector_url to your MCP client as its own connector; the base /mcp endpoint serves only these hub__ management tools'')])"

fun namespaces_to_ids :: "string \<Rightarrow> json list \<Rightarrow> string list act" where
  "namespaces_to_ids user_id [] = m_return []"
| "namespaces_to_ids user_id (entry # rest) =
     m_bind (m_opt (InvalidParams (squote ''servers'' @ '' entries must be strings'')) (as_str entry)) (\<lambda>ns.
     m_bind (find_instance user_id ns) (\<lambda>inst.
     m_bind (namespaces_to_ids user_id rest) (\<lambda>ids. m_return (i_id inst # ids))))"

definition instance_ids_from_args :: "string \<Rightarrow> json_object \<Rightarrow> string list option act" where
  "instance_ids_from_args user_id args =
     (case map_of args ''servers'' of
        None \<Rightarrow> m_return None
      | Some v \<Rightarrow>
          m_bind (m_opt (InvalidParams (squote ''servers'' @ '' must be an array of namespaces'')) (as_array v)) (\<lambda>xs.
          m_bind (namespaces_to_ids user_id xs) (\<lambda>ids. m_return (Some ids))))"

definition m_set_members :: "app_env \<Rightarrow> string \<Rightarrow> string \<Rightarrow> string list option \<Rightarrow> unit act" where
  "m_set_members hv user_id gid ids =
     (case ids of
        None \<Rightarrow> m_return ()
      | Some xs \<Rightarrow> m_db (\<lambda>d. map_sum InternalError (\<lambda>d'. (d', ())) (set_members (hv_now hv) d user_id gid xs)))"

definition group_by_slug :: "string \<Rightarrow> string \<Rightarrow> group_row act" where
  "group_by_slug user_id slug =
     m_bind (m_get (\<lambda>st. find_by_slug (ap_db st) user_id slug))
       (m_opt (InvalidParams (''no group with slug '' @ squote slug)))"

definition mg_create_group :: "app_env \<Rightarrow> string \<Rightarrow> json_object \<Rightarrow> json act" where
  "mg_create_group hv user_id args =
     m_bind (m_lift (req_str args ''slug'')) (\<lambda>slug.
     m_bind (instance_ids_from_args user_id args) (\<lambda>ids.
     m_bind (m_db (\<lambda>d. map_sum InvalidParams id
               (groups_create (hv_new_id hv) (hv_now hv) d user_id slug (or_else [] (opt_str args ''name''))))) (\<lambda>g.
     m_bind (m_set_members hv user_id (g_id g) ids) (\<lambda>_.
     m_bind (m_modify (\<lambda>st. notify_tools_changed st user_id)) (\<lambda>_.
     m_return (JObj [(''created'', JBool True), (''slug'', JStr (g_slug g)),
       (''connector_url'', JStr (group_mcp_url (hv_cfg hv) (g_slug g))),
       (''next_step'', JStr ''add the connector_url to your MCP client as a new connector and authenticate'')]))))))"

definition mg_update_group :: "app_env \<Rightarrow> string \<Rightarrow> json_object \<Rightarrow> json act" where
  "mg_update_group hv user_id args =
     m_bind (m_lift (req_str args ''slug'')) (\<lambda>slug.
     m_bind (group_by_slug user_id slug) (\<lambda>g.
     m_bind (instance_ids_from_args user_id args) (\<lambda>ids.
     (let name = opt_str args ''name'' in
      if ids = None \<and> name = None then
        m_fail (InvalidParams (''provide '' @ squote ''name'' @ '' and/or '' @ squote ''servers'' @ '' to update''))
      else
        m_bind (case name of
                  None \<Rightarrow> m_return ()
                | Some n \<Rightarrow> m_db (\<lambda>d. Inr (fst (groups_rename d user_id (g_id g) n), ()))) (\<lambda>_.
        m_bind (m_set_members hv user_id (g_id g) ids) (\<lambda>_.
        m_bind (m_modify (\<lambda>st. notify_tools_changed st user_id)) (\<lambda>_.
        m_return (JObj [(''updated'', JBool True), (''slug'', JStr slug)]))))))))"

definition mg_delete_group :: "string \<Rightarrow> json_object \<Rightarrow> json act" where
  "mg_delete_group user_id args =
     m_bind (m_lift (req_str args ''slug'')) (\<lambda>slug.
     m_bind (group_by_slug user_id slug) (\<lambda>g.
     m_bind (m_db (\<lambda>d. Inr (fst (groups_delete d user_id (g_id g)), ()))) (\<lambda>_.
     m_bind (m_modify (\<lambda>st. notify_tools_changed st user_id)) (\<lambda>_.
     m_return (JObj [(''deleted'', JBool True), (''slug'', JStr slug)])))))"

section \<open>Dispatch\<close>

definition as_admin :: "bool \<Rightarrow> json act \<Rightarrow> json act" where
  "as_admin admin m = m_bind (require_admin admin) (\<lambda>_. m)"

definition mg_ops :: "app_env \<Rightarrow> caller \<Rightarrow> json_object \<Rightarrow> (string \<times> json act) list" where
  "mg_ops hv c args =
     (let u = ca_user_id c; admin = ca_admin c; client_id = ca_client_id c in
      [(''whoami'', whoami u),
       (''get_my_client'', get_my_client u client_id),
       (''set_my_client'', set_my_client hv u client_id args),
       (''list_my_servers'', list_my_servers hv u),
       (''add_server'', add_server hv u args),
       (''edit_server'', edit_server hv u args),
       (''set_env'', set_env hv u args),
       (''set_config_file'', mg_set_config_file hv u args),
       (''update_server'', mg_update_server hv u args),
       (''enable'', mg_set_enabled u args True),
       (''disable'', mg_set_enabled u args False),
       (''remove'', mg_remove hv u args),
       (''list_tokens'', mg_list_tokens u),
       (''revoke_token'', mg_revoke_token u args),
       (''list_git_credentials'', mg_list_git_credentials u),
       (''set_git_credential'', mg_set_git_credential hv u args),
       (''delete_git_credential'', mg_delete_git_credential hv u args),
       (''list_groups'', mg_list_groups hv u),
       (''create_group'', mg_create_group hv u args),
       (''update_group'', mg_update_group hv u args),
       (''delete_group'', mg_delete_group u args),
       (''runtime_stats'', as_admin admin (mg_runtime_stats hv)),
       (''list_users'', as_admin admin mg_list_users),
       (''create_invite'', as_admin admin (mg_create_invite hv u args)),
       (''list_invites'', as_admin admin mg_list_invites),
       (''revoke_invite'', as_admin admin (mg_revoke_invite args)),
       (''create_recovery'', as_admin admin (mg_create_recovery hv u args)),
       (''disable_user'', as_admin admin (mg_set_user_disabled u args True)),
       (''enable_user'', as_admin admin (mg_set_user_disabled u args False)),
       (''delete_user'', as_admin admin (mg_delete_user hv u args))])"

definition mg_run :: "app_env \<Rightarrow> caller \<Rightarrow> string \<Rightarrow> json_object \<Rightarrow> json act" where
  "mg_run hv c op args =
     (case map_of (mg_ops hv c args) op of
        Some m \<Rightarrow> m
      | None \<Rightarrow> m_fail (InvalidParams (''unknown management tool '' @ squote (''hub__'' @ op))))"

definition ACTIONS :: "(string \<times> string) list" where
  "ACTIONS = [(''add_server'', ''server.add''), (''edit_server'', ''server.edit''), (''set_env'', ''server.set_env''),
     (''set_config_file'', ''server.set_config_file''), (''update_server'', ''server.update''), (''enable'', ''server.enable''),
     (''disable'', ''server.disable''), (''remove'', ''server.remove''), (''revoke_token'', ''token.revoke''),
     (''set_git_credential'', ''git_credential.set''), (''delete_git_credential'', ''git_credential.delete''),
     (''create_group'', ''group.create''), (''update_group'', ''group.update''), (''delete_group'', ''group.delete''),
     (''set_my_client'', ''client.label''), (''create_invite'', ''invite.create''), (''revoke_invite'', ''invite.revoke''),
     (''create_recovery'', ''recovery.create''), (''disable_user'', ''user.disable''), (''enable_user'', ''user.enable''),
     (''delete_user'', ''user.delete'')]"

definition action_for :: "string \<Rightarrow> string option" where
  "action_for op = map_of ACTIONS op"

definition audit_object :: "json_object \<Rightarrow> string" where
  "audit_object args =
     (case List.map_filter (opt_str args) [''namespace'', ''handle'', ''token_id'', ''slug'', ''host'', ''id''] of
        [] \<Rightarrow> [] | s # _ \<Rightarrow> s)"

fun error_message :: "mcp_error \<Rightarrow> string" where
  "error_message (InvalidRequest m) = m"
| "error_message (InvalidParams m) = m"
| "error_message (InternalError m) = m"

text \<open>The management tools never answer with a tool error, so a call is logged as successful or failed.\<close>

definition dispatch :: "app_env \<Rightarrow> caller \<Rightarrow> string \<Rightarrow> json_object option \<Rightarrow> json act" where
  "dispatch hv c op args0 = (\<lambda>st.
     (let args = or_else [] args0 in
      case mg_run hv c op args st of
        (st', result) \<Rightarrow>
          (case action_for op of
             None \<Rightarrow> (st', result)
           | Some action \<Rightarrow>
               (let object = (if op = ''set_my_client'' then or_else [] (ca_client_id c) else audit_object args);
                    ev = (ev_request (ca_request c) (event action))\<lparr>ev_actor := ca_handle c, ev_actor_id := ca_user_id c,
                           ev_client_id := or_else [] (ca_client_id c), ev_object := object\<rparr> in
                ((case result of Inr _ \<Rightarrow> emit ''ok'' [] ev st' | Inl e \<Rightarrow> emit ''error'' (error_message e) ev st'), result)))))"

record tool_hints =
  th_read_only :: bool
  th_destructive :: bool
  th_idempotent :: bool
  th_open_world :: bool

definition annotations_for :: "string \<Rightarrow> tool_hints" where
  "annotations_for name =
     (if name \<in> {''hub__whoami'', ''hub__list_my_servers'', ''hub__list_tokens'', ''hub__get_my_client'', ''hub__runtime_stats'',
                ''hub__list_users'', ''hub__list_invites'', ''hub__list_groups'', ''hub__list_git_credentials''} then
        \<lparr>th_read_only = True, th_destructive = False, th_idempotent = True, th_open_world = False\<rparr>
      else if name \<in> {''hub__add_server'', ''hub__update_server''} then
        \<lparr>th_read_only = False, th_destructive = False, th_idempotent = False, th_open_world = True\<rparr>
      else if name \<in> {''hub__create_invite'', ''hub__create_recovery''} then
        \<lparr>th_read_only = False, th_destructive = False, th_idempotent = False, th_open_world = False\<rparr>
      else if name \<in> {''hub__remove'', ''hub__revoke_token'', ''hub__revoke_invite'', ''hub__delete_user'', ''hub__disable_user'',
                     ''hub__delete_group'', ''hub__delete_git_credential''} then
        \<lparr>th_read_only = False, th_destructive = True, th_idempotent = True, th_open_world = False\<rparr>
      else \<lparr>th_read_only = False, th_destructive = False, th_idempotent = True, th_open_world = False\<rparr>)"

text \<open>An advertised tool: the arguments of its schema with their types, the ones the schema requires,
  and its hints. The descriptions are static text.\<close>

datatype arg_type = ArgString | ArgEnum "string list" | ArgInteger | ArgIntegerOrNull | ArgStringMap | ArgStrings

record tool_decl =
  mt_name :: string
  mt_properties :: "(string \<times> arg_type) list"
  mt_required :: "string list"
  mt_hints :: tool_hints

definition mg_tool :: "string \<Rightarrow> (string \<times> arg_type) list \<Rightarrow> string list \<Rightarrow> tool_decl" where
  "mg_tool name properties required =
     \<lparr>mt_name = name, mt_properties = properties, mt_required = required, mt_hints = annotations_for name\<rparr>"

definition server_tool_decls :: "tool_decl list" where
  "server_tool_decls =
     [mg_tool ''hub__whoami'' [] [],
      mg_tool ''hub__list_my_servers'' [] [],
      mg_tool ''hub__add_server'' [(''namespace'', ArgString), (''transport'', (ArgEnum [''stdio'',
        ''http''])), (''command'', ArgString), (''url'', ArgString), (''repo'', ArgString), (''git_ref'',
        ArgString), (''display_name'', ArgString), (''env'', ArgStringMap), (''config_file'', ArgString), (''connect_timeout_secs'', ArgInteger)] [''namespace'', ''transport''],
      mg_tool ''hub__edit_server'' [(''namespace'', ArgString), (''command'', ArgString), (''url'',
        ArgString), (''repo'', ArgString), (''git_ref'', ArgString), (''connect_timeout_secs'',
        ArgIntegerOrNull)] [''namespace''],
      mg_tool ''hub__set_env'' [(''namespace'', ArgString), (''env'', ArgStringMap)] [''namespace'', ''env''],
      mg_tool ''hub__set_config_file'' [(''namespace'', ArgString), (''content'', ArgString)] [''namespace''],
      mg_tool ''hub__update_server'' [(''namespace'', ArgString)] [''namespace''],
      mg_tool ''hub__list_git_credentials'' [] [],
      mg_tool ''hub__set_git_credential'' [(''host'', ArgString), (''token'', ArgString), (''username'',
        ArgString), (''label'', ArgString)] [''host'', ''token''],
      mg_tool ''hub__delete_git_credential'' [(''host'', ArgString)] [''host''],
      mg_tool ''hub__enable'' [(''namespace'', ArgString)] [''namespace''],
      mg_tool ''hub__disable'' [(''namespace'', ArgString)] [''namespace''],
      mg_tool ''hub__remove'' [(''namespace'', ArgString)] [''namespace'']]"

definition account_tool_decls :: "tool_decl list" where
  "account_tool_decls =
     [mg_tool ''hub__list_tokens'' [] [],
      mg_tool ''hub__revoke_token'' [(''token_id'', ArgString)] [''token_id''],
      mg_tool ''hub__get_my_client'' [] [],
      mg_tool ''hub__list_groups'' [] [],
      mg_tool ''hub__create_group'' [(''slug'', ArgString), (''name'', ArgString), (''servers'',
        ArgStrings)] [''slug''],
      mg_tool ''hub__update_group'' [(''slug'', ArgString), (''name'', ArgString), (''servers'',
        ArgStrings)] [''slug''],
      mg_tool ''hub__delete_group'' [(''slug'', ArgString)] [''slug''],
      mg_tool ''hub__set_my_client'' [(''name'', ArgString), (''note'', ArgString)] []]"

definition admin_tool_decls :: "tool_decl list" where
  "admin_tool_decls =
     [mg_tool ''hub__runtime_stats'' [] [],
      mg_tool ''hub__list_users'' [] [],
      mg_tool ''hub__create_invite'' [(''note'', ArgString)] [],
      mg_tool ''hub__list_invites'' [] [],
      mg_tool ''hub__revoke_invite'' [(''id'', ArgString)] [''id''],
      mg_tool ''hub__create_recovery'' [(''handle'', ArgString)] [''handle''],
      mg_tool ''hub__disable_user'' [(''handle'', ArgString)] [''handle''],
      mg_tool ''hub__enable_user'' [(''handle'', ArgString)] [''handle''],
      mg_tool ''hub__delete_user'' [(''handle'', ArgString)] [''handle'']]"

definition management_tools :: "bool \<Rightarrow> tool_decl list" where
  "management_tools admin = server_tool_decls @ account_tool_decls @ (if admin then admin_tool_decls else [])"

lemmas tool_decls_defs = management_tools_def server_tool_decls_def account_tool_decls_def admin_tool_decls_def

end
