(* ===== verification/Hub_Isolation.thy ===== *)
theory Hub_Isolation
  imports Hub_Management
begin

text \<open>
  Whose data a management call can touch. \<open>others u\<close> is the state as the users other than \<open>u\<close> see
  it: every table restricted to rows of other users, the accounts, passkeys, sessions, invites and
  keys in full, and the runtime state of other users' servers. Every statement a tool of \<open>u\<close> runs
  leaves that view as it is; the rule for \<open>m_bind\<close> carries this through the handlers.
\<close>

section \<open>The view of the others\<close>

definition theirs :: "db \<Rightarrow> string \<Rightarrow> string \<Rightarrow> bool" where
  "theirs d u i \<longleftrightarrow> i \<in> i_id ` set (filter (\<lambda>r. i_user_id r \<noteq> u) (user_server_instances d))"

definition their_group :: "db \<Rightarrow> string \<Rightarrow> string \<Rightarrow> bool" where
  "their_group d u g \<longleftrightarrow> g \<in> g_id ` set (filter (\<lambda>r. g_user_id r \<noteq> u) (connector_groups d))"

definition others_db :: "string \<Rightarrow> db \<Rightarrow> db" where
  "others_db u d =
     d\<lparr>user_server_instances := filter (\<lambda>r. i_user_id r \<noteq> u) (user_server_instances d),
       instance_secrets := filter (\<lambda>r. theirs d u (is_instance_id r)) (instance_secrets d),
       instance_config_files := filter (\<lambda>r. theirs d u (cf_instance_id r)) (instance_config_files d),
       oauth_refresh_tokens := filter (\<lambda>r. rt_user_id r \<noteq> u) (oauth_refresh_tokens d),
       personal_access_tokens := filter (\<lambda>r. pt_user_id r \<noteq> u) (personal_access_tokens d),
       oauth_client_labels := filter (\<lambda>r. ol_user_id r \<noteq> u) (oauth_client_labels d),
       credential_backend_denials :=
         filter (\<lambda>r. cd_user_id r \<noteq> u \<and> theirs d u (cd_instance_id r)) (credential_backend_denials d),
       connector_groups := filter (\<lambda>r. g_user_id r \<noteq> u) (connector_groups d),
       connector_group_members :=
         filter (\<lambda>r. their_group d u (gm_group_id r) \<and> theirs d u (gm_instance_id r)) (connector_group_members d),
       git_credentials := filter (\<lambda>r. gc_user_id r \<noteq> u) (git_credentials d)\<rparr>"

definition others :: "string \<Rightarrow> app_state \<Rightarrow> app_state" where
  "others u st =
     st\<lparr>ap_db := others_db u (ap_db st), ap_fs := Map.empty,
        ap_pool := filter (\<lambda>(k, _). k \<noteq> u) (ap_pool st),
        ap_epochs := filter (\<lambda>(i, _). theirs (ap_db st) u i) (ap_epochs st),
        ap_peers := filter (\<lambda>(_, cp). cp_user_id cp \<noteq> u) (ap_peers st),
        ap_status := filter (\<lambda>(i, _). theirs (ap_db st) u i) (ap_status st),
        ap_notified := [], ap_audit := []\<rparr>"

text \<open>The primary keys the argument needs: an id names one row.\<close>

definition ids_unique :: "db \<Rightarrow> bool" where
  "ids_unique d \<longleftrightarrow> distinct (map i_id (user_server_instances d)) \<and> distinct (map g_id (connector_groups d)) \<and>
     distinct (map gc_id (git_credentials d))"

lemma ids_unique_wf: "db_wf d \<Longrightarrow> ids_unique d"
  by (simp add: ids_unique_def db_wf_def keys_ok_def)

definition isolated :: "string \<Rightarrow> app_state \<Rightarrow> app_state \<Rightarrow> bool" where
  "isolated u base st \<longleftrightarrow> others u st = base \<and> ids_unique (ap_db st)"

section \<open>Rows of the other users\<close>

lemma filter_update_other:
  "(\<And>r. r \<in> set t \<Longrightarrow> P r \<Longrightarrow> \<not> Q r \<and> \<not> Q (f r)) \<Longrightarrow> filter Q (tbl_update P f t) = filter Q t"
  unfolding tbl_update_def by (induction t) auto

lemma filter_delete_other:
  "(\<And>r. r \<in> set t \<Longrightarrow> P r \<Longrightarrow> \<not> Q r) \<Longrightarrow> filter Q (tbl_delete P t) = filter Q t"
  unfolding tbl_delete_def by (induction t) auto

lemma own_not_theirs:
  assumes "ids_unique d" "r \<in> set (user_server_instances d)" "i_user_id r = u"
  shows "\<not> theirs d u (i_id r)"
  using assms by (auto simp: theirs_def ids_unique_def dest: distinct_key_eq)

lemma own_not_their_group:
  assumes "ids_unique d" "r \<in> set (connector_groups d)" "g_user_id r = u"
  shows "\<not> their_group d u (g_id r)"
  using assms by (auto simp: their_group_def ids_unique_def dest: distinct_key_eq)

text \<open>The statements of a user, as changes of the database that the others cannot see.\<close>

definition unseen :: "string \<Rightarrow> db \<Rightarrow> db \<Rightarrow> bool" where
  "unseen u d d' \<longleftrightarrow> others_db u d' = others_db u d \<and> (ids_unique d \<longrightarrow> ids_unique d')"

lemma unseen_refl [simp]: "unseen u d d"
  by (simp add: unseen_def)

lemma unseen_trans: "unseen u d d' \<Longrightarrow> unseen u d' d'' \<Longrightarrow> unseen u d d''"
  by (simp add: unseen_def)

lemma theirs_unseen: "unseen u d d' \<Longrightarrow> theirs d' u = theirs d u"
proof -
  assume "unseen u d d'"
  then have "user_server_instances (others_db u d') = user_server_instances (others_db u d)"
    by (simp add: unseen_def)
  then have "filter (\<lambda>r. i_user_id r \<noteq> u) (user_server_instances d') = filter (\<lambda>r. i_user_id r \<noteq> u) (user_server_instances d)"
    by (simp add: others_db_def)
  then show ?thesis by (simp only: theirs_def fun_eq_iff simp_thms)
qed

lemmas view_defs = unseen_def others_db_def theirs_def their_group_def ids_unique_def

text \<open>Changes of one table.\<close>

lemma unseen_instances:
  assumes "filter (\<lambda>r. i_user_id r \<noteq> u) t = filter (\<lambda>r. i_user_id r \<noteq> u) (user_server_instances d)"
    and "distinct (map i_id (user_server_instances d)) \<Longrightarrow> distinct (map i_id t)"
  shows "unseen u d (d\<lparr>user_server_instances := t\<rparr>)"
  using assms by (simp add: unseen_def ids_unique_def others_db_def theirs_def their_group_def del: set_filter)

lemma unseen_secrets:
  assumes "filter (\<lambda>r. theirs d u (is_instance_id r)) t = filter (\<lambda>r. theirs d u (is_instance_id r)) (instance_secrets d)"
  shows "unseen u d (d\<lparr>instance_secrets := t\<rparr>)"
  using assms by (simp add: unseen_def ids_unique_def others_db_def theirs_def their_group_def del: set_filter)

lemma unseen_config_files:
  assumes "filter (\<lambda>r. theirs d u (cf_instance_id r)) t = filter (\<lambda>r. theirs d u (cf_instance_id r)) (instance_config_files d)"
  shows "unseen u d (d\<lparr>instance_config_files := t\<rparr>)"
  using assms by (simp add: unseen_def ids_unique_def others_db_def theirs_def their_group_def del: set_filter)

lemma unseen_pats:
  assumes "filter (\<lambda>r. pt_user_id r \<noteq> u) t = filter (\<lambda>r. pt_user_id r \<noteq> u) (personal_access_tokens d)"
  shows "unseen u d (d\<lparr>personal_access_tokens := t\<rparr>)"
  using assms by (simp add: unseen_def ids_unique_def others_db_def theirs_def their_group_def del: set_filter)

lemma unseen_labels:
  assumes "filter (\<lambda>r. ol_user_id r \<noteq> u) t = filter (\<lambda>r. ol_user_id r \<noteq> u) (oauth_client_labels d)"
  shows "unseen u d (d\<lparr>oauth_client_labels := t\<rparr>)"
  using assms by (simp add: unseen_def ids_unique_def others_db_def theirs_def their_group_def del: set_filter)

lemma unseen_gitcreds:
  assumes "filter (\<lambda>r. gc_user_id r \<noteq> u) t = filter (\<lambda>r. gc_user_id r \<noteq> u) (git_credentials d)"
    and "distinct (map gc_id (git_credentials d)) \<Longrightarrow> distinct (map gc_id t)"
  shows "unseen u d (d\<lparr>git_credentials := t\<rparr>)"
  using assms by (simp add: unseen_def ids_unique_def others_db_def theirs_def their_group_def del: set_filter)

lemma unseen_groups:
  assumes "filter (\<lambda>r. g_user_id r \<noteq> u) t = filter (\<lambda>r. g_user_id r \<noteq> u) (connector_groups d)"
    and "distinct (map g_id (connector_groups d)) \<Longrightarrow> distinct (map g_id t)"
  shows "unseen u d (d\<lparr>connector_groups := t\<rparr>)"
  using assms by (simp add: unseen_def ids_unique_def others_db_def theirs_def their_group_def del: set_filter)

lemma unseen_members:
  assumes "filter (\<lambda>r. their_group d u (gm_group_id r) \<and> theirs d u (gm_instance_id r)) t =
    filter (\<lambda>r. their_group d u (gm_group_id r) \<and> theirs d u (gm_instance_id r)) (connector_group_members d)"
  shows "unseen u d (d\<lparr>connector_group_members := t\<rparr>)"
  using assms by (simp add: unseen_def ids_unique_def others_db_def theirs_def their_group_def del: set_filter)

lemma unseen_denials:
  assumes "filter (\<lambda>r. cd_user_id r \<noteq> u \<and> theirs d u (cd_instance_id r)) t =
    filter (\<lambda>r. cd_user_id r \<noteq> u \<and> theirs d u (cd_instance_id r)) (credential_backend_denials d)"
  shows "unseen u d (d\<lparr>credential_backend_denials := t\<rparr>)"
  using assms by (simp add: unseen_def ids_unique_def others_db_def theirs_def their_group_def del: set_filter)

text \<open>An update of a server that belongs to nobody else.\<close>

lemma unseen_update_instance:
  assumes "\<not> theirs d u i" "\<And>r. i_id (f r) = i_id r \<and> i_user_id (f r) = i_user_id r"
  shows "unseen u d (d\<lparr>user_server_instances := tbl_update (\<lambda>r. i_id r = i) f (user_server_instances d)\<rparr>)"
proof (rule unseen_instances)
  show "filter (\<lambda>r. i_user_id r \<noteq> u) (tbl_update (\<lambda>r. i_id r = i) f (user_server_instances d)) =
      filter (\<lambda>r. i_user_id r \<noteq> u) (user_server_instances d)"
    by (rule filter_update_other) (use assms in \<open>auto simp: theirs_def\<close>)
qed (use assms in \<open>simp add: tbl_simps\<close>)

lemma unseen_set_enabled: "\<not> theirs d u i \<Longrightarrow> unseen u d (set_enabled d i b)"
  unfolding set_enabled_def by (rule unseen_update_instance) simp_all

lemma unseen_update_def: "\<not> theirs d u i \<Longrightarrow> unseen u d (update_def d i def)"
  unfolding update_def_def by (rule unseen_update_instance) simp_all

lemma unseen_set_build_state: "\<not> theirs d u i \<Longrightarrow> unseen u d (set_build_state d i s c)"
  unfolding set_build_state_def by (rule unseen_update_instance) simp_all

lemma unseen_inst_create:
  "inst_create n now d u cat def ns name = Inr (d', r) \<Longrightarrow> unseen u d d' \<and> (ids_unique d \<longrightarrow> \<not> theirs d' u (i_id r))"
proof
  assume c: "inst_create n now d u cat def ns name = Inr (d', r)"
  then show "unseen u d d'"
    by (auto simp: inst_create_def Let_def split: sum.splits if_splits intro!: unseen_instances)
  then have "ids_unique d \<longrightarrow> ids_unique d'" by (simp add: unseen_def)
  moreover from c have "r \<in> set (user_server_instances d') \<and> i_user_id r = u"
    by (auto simp: inst_create_def Let_def split: sum.splits if_splits)
  ultimately show "ids_unique d \<longrightarrow> \<not> theirs d' u (i_id r)" using own_not_theirs by blast
qed

lemma unseen_inst_delete:
  assumes "\<not> theirs d u i" shows "unseen u d (inst_delete d i)"
proof -
  define gone where "gone = (\<lambda>j. \<exists>r\<in>set (user_server_instances d). i_id r = i \<and> i_id r = j)"
  have g: "gone j \<Longrightarrow> \<not> theirs d u j" for j using assms by (auto simp: gone_def)
  have del: "filter (\<lambda>r. Q r \<and> theirs d u (k r)) (tbl_delete (\<lambda>r. gone (k r)) t) = filter (\<lambda>r. Q r \<and> theirs d u (k r)) t"
    for Q t and k :: "'z \<Rightarrow> string"
    by (rule filter_delete_other) (use g in auto)
  let ?d1 = "d\<lparr>instance_secrets := tbl_delete (\<lambda>r. gone (is_instance_id r)) (instance_secrets d)\<rparr>"
  let ?d2 = "?d1\<lparr>instance_config_files := tbl_delete (\<lambda>r. gone (cf_instance_id r)) (instance_config_files d)\<rparr>"
  let ?d3 = "?d2\<lparr>credential_backend_denials := tbl_delete (\<lambda>r. gone (cd_instance_id r)) (credential_backend_denials d)\<rparr>"
  let ?d4 = "?d3\<lparr>connector_group_members := tbl_delete (\<lambda>r. gone (gm_instance_id r)) (connector_group_members d)\<rparr>"
  have th: "theirs ?d1 u = theirs d u" "theirs ?d2 u = theirs d u" "theirs ?d3 u = theirs d u"
    by (simp_all add: fun_eq_iff theirs_def)
  have "unseen u d ?d1" by (rule unseen_secrets) (use del[of "\<lambda>_. True"] in simp)
  moreover have "unseen u ?d1 ?d2" by (rule unseen_config_files) (use del[of "\<lambda>_. True"] in \<open>simp add: th\<close>)
  moreover have "unseen u ?d2 ?d3" by (rule unseen_denials) (simp add: th del)
  moreover have "unseen u ?d3 ?d4" by (rule unseen_members) (simp add: th del)
  moreover have "unseen u ?d4 (?d4\<lparr>user_server_instances := tbl_delete (\<lambda>r. i_id r = i) (user_server_instances d)\<rparr>)"
    by (rule unseen_instances) (use assms in \<open>auto simp: theirs_def tbl_simps intro!: filter_delete_other\<close>)
  ultimately have "unseen u d (?d4\<lparr>user_server_instances := tbl_delete (\<lambda>r. i_id r = i) (user_server_instances d)\<rparr>)"
    by (blast intro: unseen_trans)
  moreover have "inst_delete d i = ?d4\<lparr>user_server_instances := tbl_delete (\<lambda>r. i_id r = i) (user_server_instances d)\<rparr>"
    by (simp add: inst_delete_def delete_instances_def Let_def gone_def)
  ultimately show ?thesis by simp
qed

lemma unseen_replace_env:
  assumes "replace_env sb fresh d i env = Inr d'" "\<not> theirs d u i" shows "unseen u d d'"
proof -
  have ins: "insert_env sb i fresh n env d0 = Inr d' \<Longrightarrow> \<not> theirs d0 u i \<Longrightarrow> unseen u d0 d'" for n d0
  proof (induction env arbitrary: n d0)
    case (Cons kv env)
    obtain k v where kv: "kv = (k, v)" by (cases kv)
    from Cons.prems(1) kv obtain r d1 where d1: "insert_secret d0 r = Inr d1" and r: "is_instance_id r = i"
      and rest: "insert_env sb i fresh (Suc n) env d1 = Inr d'"
      by (fastforce split: sum.splits)
    from d1 r Cons.prems(2) have u1: "unseen u d0 d1"
      by (auto simp: insert_secret_def split: if_splits intro!: unseen_secrets)
    with Cons.prems(2) theirs_unseen have "\<not> theirs d1 u i" by metis
    from unseen_trans[OF u1 Cons.IH[OF rest this]] show ?case .
  qed simp
  let ?d1 = "d\<lparr>instance_secrets := tbl_delete (\<lambda>r. is_instance_id r = i) (instance_secrets d)\<rparr>"
  have u1: "unseen u d ?d1"
    by (rule unseen_secrets, rule filter_delete_other) (use assms(2) in auto)
  with assms(2) theirs_unseen have "\<not> theirs ?d1 u i" by metis
  with ins[of 0 ?d1] assms(1) have "unseen u ?d1 d'" by (simp add: replace_env_def)
  with u1 show ?thesis by (rule unseen_trans)
qed

lemma unseen_set_config_file:
  "set_config_file sb nonce now d i c = Inr d' \<Longrightarrow> \<not> theirs d u i \<Longrightarrow> unseen u d d'"
  by (auto simp: set_config_file_def split: sum.splits if_splits intro!: unseen_config_files filter_update_other)

lemma unseen_clear_config_file: "\<not> theirs d u i \<Longrightarrow> unseen u d (clear_config_file d i)"
  unfolding clear_config_file_def by (rule unseen_config_files, rule filter_delete_other) auto

lemma unseen_tokens_revoke: "unseen u d (fst (tokens_revoke d u t))"
  by (auto simp: tokens_revoke_def Let_def intro!: unseen_pats filter_delete_other)

lemma unseen_set_client_label: "set_client_label now d u c n t = Inr d' \<Longrightarrow> unseen u d d'"
  by (auto simp: set_client_label_def Let_def split: if_splits intro!: unseen_labels filter_update_other)

lemma unseen_gitcreds_delete: "gitcreds_delete parse d u h = Inr (d', b) \<Longrightarrow> unseen u d d'"
  by (auto simp: gitcreds_delete_def delete_cred_def Let_def rbind_Inr tbl_simps intro!: unseen_gitcreds filter_delete_other)

lemma unseen_store_cred: "store_cred n now d u h un l s = Inr d' \<Longrightarrow> unseen u d d'"
  by (auto simp: store_cred_def tbl_simps split: if_splits intro!: unseen_gitcreds filter_update_other)

lemma unseen_gitcreds_upsert: "unseen u d (fst (gitcreds_upsert parse sb nonce n now d u h un l t))"
  by (auto simp: gitcreds_upsert_def Let_def rbind_Inr split: sum.split dest: unseen_store_cred)

lemma unseen_touch_own:
  assumes "ids_unique d" "r \<in> set (git_credentials d)" "gc_user_id r = u"
  shows "unseen u d (gitcreds_touch now d (gc_id r))"
  unfolding gitcreds_touch_def
proof (rule unseen_gitcreds, rule filter_update_other)
  fix r' assume "r' \<in> set (git_credentials d)" "gc_id r' = gc_id r"
  with assms have "r' = r" by (auto simp: ids_unique_def dest: distinct_key_eq)
  with assms(3) show "\<not> gc_user_id r' \<noteq> u \<and> \<not> gc_user_id (r'\<lparr>gc_last_used_at := Some now\<rparr>) \<noteq> u" by simp
qed (simp add: tbl_simps)

lemma unseen_groups_create:
  "groups_create n now d u slug name = Inr (d', g) \<Longrightarrow> unseen u d d' \<and> (ids_unique d \<longrightarrow> \<not> their_group d' u (g_id g))"
proof
  assume c: "groups_create n now d u slug name = Inr (d', g)"
  then show "unseen u d d'"
    by (auto simp: groups_create_def Let_def split: if_splits intro!: unseen_groups)
  then have "ids_unique d \<longrightarrow> ids_unique d'" by (simp add: unseen_def)
  moreover from c have "g \<in> set (connector_groups d') \<and> g_user_id g = u"
    by (auto simp: groups_create_def Let_def split: if_splits)
  ultimately show "ids_unique d \<longrightarrow> \<not> their_group d' u (g_id g)" using own_not_their_group by blast
qed

lemma unseen_groups_rename: "unseen u d (fst (groups_rename d u g name))"
  by (auto simp: groups_rename_def Let_def tbl_simps intro!: unseen_groups filter_update_other)

lemma unseen_set_members:
  assumes "set_members now d u g ids = Inr d'" "ids_unique d" shows "unseen u d d'"
proof -
  from assms obtain r where "r \<in> set (connector_groups d)" "g_id r = g" "g_user_id r = u"
    by (auto simp: set_members_def split: if_splits)
  with assms(2) own_not_their_group have g: "\<not> their_group d u g" by blast
  let ?Q = "\<lambda>r. their_group d u (gm_group_id r) \<and> theirs d u (gm_instance_id r)"
  have add: "filter ?Q (foldl (add_member d u g now) t ids) = filter ?Q t" for t
    using g by (induction ids arbitrary: t) (auto simp: add_member_def)
  have "filter ?Q (tbl_delete (\<lambda>r. gm_group_id r = g) (connector_group_members d)) = filter ?Q (connector_group_members d)"
    by (rule filter_delete_other) (use g in auto)
  with assms(1) add show ?thesis
    by (auto simp: set_members_def split: if_splits intro!: unseen_members)
qed

lemma unseen_groups_delete:
  assumes "ids_unique d" shows "unseen u d (fst (groups_delete d u g))"
proof -
  define gone where "gone = (\<lambda>j. \<exists>r\<in>set (connector_groups d). (g_id r = g \<and> g_user_id r = u) \<and> g_id r = j)"
  have g: "gone j \<Longrightarrow> \<not> their_group d u j" for j
    using assms own_not_their_group by (auto simp: gone_def)
  let ?d1 = "d\<lparr>connector_group_members := tbl_delete (\<lambda>r. gone (gm_group_id r)) (connector_group_members d)\<rparr>"
  let ?d2 = "?d1\<lparr>connector_groups := tbl_delete (\<lambda>r. g_id r = g \<and> g_user_id r = u) (connector_groups d)\<rparr>"
  have "unseen u d ?d1"
    by (rule unseen_members, rule filter_delete_other) (use g in auto)
  moreover have "unseen u ?d1 ?d2"
    by (rule unseen_groups) (auto simp: tbl_simps intro!: filter_delete_other)
  ultimately have "unseen u d ?d2" by (rule unseen_trans)
  moreover have "fst (groups_delete d u g) = ?d2"
    by (simp add: groups_delete_def delete_groups_def Let_def gone_def)
  ultimately show ?thesis by simp
qed

section \<open>Handlers that keep an invariant\<close>

text \<open>\<open>keeps I m p\<close>: run from a state with \<open>I\<close>, the handler ends in one, and \<open>p\<close> holds of its answer.\<close>

definition keeps :: "(app_state \<Rightarrow> bool) \<Rightarrow> ('e, 'a) handler \<Rightarrow> ('a \<Rightarrow> bool) \<Rightarrow> bool" where
  "keeps I m p \<longleftrightarrow> (\<forall>st. I st \<longrightarrow> I (fst (m st)) \<and> (\<forall>x. snd (m st) = Inr x \<longrightarrow> p x))"

named_theorems keeps_intros \<open>handlers that keep the invariant\<close>

lemma keeps_bind:
  assumes "keeps I m p" "\<And>x. p x \<Longrightarrow> keeps I (f x) q"
  shows "keeps I (m_bind m f) q"
  unfolding keeps_def
proof (intro allI impI)
  fix st assume st: "I st"
  obtain st' r where m: "m st = (st', r)" by (cases "m st")
  show "I (fst (m_bind m f st)) \<and> (\<forall>x. snd (m_bind m f st) = Inr x \<longrightarrow> q x)"
  proof (cases r)
    case (Inl e)
    with assms(1) st m show ?thesis by (auto simp: keeps_def m_bind_def dest: spec[of _ st])
  next
    case (Inr x)
    from assms(1) st m Inr have "I st'" "p x" unfolding keeps_def by (metis fst_conv, metis snd_conv)
    with assms(2)[of x] m Inr show ?thesis by (simp add: keeps_def m_bind_def)
  qed
qed

lemma keeps_return: "p x \<Longrightarrow> keeps I (m_return x) p"
  by (simp add: keeps_def m_return_def)

lemma keeps_fail: "keeps I (m_fail e) p"
  by (simp add: keeps_def m_fail_def)

lemma keeps_get: "(\<And>st. I st \<Longrightarrow> p (f st)) \<Longrightarrow> keeps I (m_get f) p"
  by (simp add: keeps_def m_get_def)

lemma keeps_modify: "(\<And>st. I st \<Longrightarrow> I (f st)) \<Longrightarrow> keeps I (m_modify f) (\<lambda>_. True)"
  by (simp add: keeps_def m_modify_def)

lemma keeps_db:
  "(\<And>st d x. I st \<Longrightarrow> f (ap_db st) = Inr (d, x) \<Longrightarrow> I (st\<lparr>ap_db := d\<rparr>) \<and> p x) \<Longrightarrow> keeps I (m_db f) p"
  by (auto simp: keeps_def m_db_def split: sum.split)

lemma keeps_opt: "(\<And>x. r = Some x \<Longrightarrow> p x) \<Longrightarrow> keeps I (m_opt e r) p"
  by (auto simp: m_opt_def keeps_return keeps_fail split: option.split)

lemma keeps_lift: "(\<And>x. r = Inr x \<Longrightarrow> p x) \<Longrightarrow> keeps I (m_lift r) p"
  by (auto simp: m_lift_def keeps_return keeps_fail split: sum.split)

lemma keeps_res: "(\<And>x. r = Inr x \<Longrightarrow> p x) \<Longrightarrow> keeps I (m_internal r) p"
  "(\<And>x. r = Inr x \<Longrightarrow> p x) \<Longrightarrow> keeps I (m_bad r) p"
  by (auto simp: m_internal_def m_bad_def keeps_return keeps_fail split: sum.split)

lemma keeps_weaken: "keeps I m p \<Longrightarrow> (\<And>x. p x \<Longrightarrow> q x) \<Longrightarrow> keeps I m q"
  by (auto simp: keeps_def)

text \<open>A handler that only reads.\<close>

definition pure_act :: "('e, 'a) handler \<Rightarrow> bool" where
  "pure_act m \<longleftrightarrow> (\<forall>st. fst (m st) = st)"

lemma pure_keeps: "pure_act m \<Longrightarrow> keeps I m (\<lambda>_. True)"
  by (simp add: pure_act_def keeps_def)

lemma pure_intros:
  "pure_act (m_return x)" "pure_act (m_fail e)" "pure_act (m_get f)" "pure_act (m_opt e r)" "pure_act (m_lift r')"
  "pure_act (m_internal r'')" "pure_act (m_bad r'')"
  "pure_act m \<Longrightarrow> (\<And>x. pure_act (g x)) \<Longrightarrow> pure_act (m_bind m g)"
  by (auto simp: pure_act_def m_return_def m_fail_def m_get_def m_opt_def m_lift_def m_internal_def m_bad_def m_bind_def
      split: option.split sum.split prod.split) (metis fst_conv)+

lemma map_sum_Inr_iff: "map_sum f g r = Inr y \<longleftrightarrow> (\<exists>x. r = Inr x \<and> y = g x)"
  by (cases r) auto

section \<open>Steps of a user's handler\<close>

lemma theirs_base: "isolated u base st \<Longrightarrow> theirs (ap_db st) u = theirs (ap_db base) u"
  by (auto simp: isolated_def others_def others_db_def theirs_def fun_eq_iff)

lemma their_group_base: "isolated u base st \<Longrightarrow> their_group (ap_db st) u = their_group (ap_db base) u"
  by (auto simp: isolated_def others_def others_db_def their_group_def fun_eq_iff)

lemma isolated_db:
  assumes "isolated u base st" "unseen u (ap_db st) d" shows "isolated u base (st\<lparr>ap_db := d\<rparr>)"
  using assms theirs_unseen[OF assms(2)] by (simp add: isolated_def unseen_def others_def)

lemma isolated_fs: "isolated u base st \<Longrightarrow> isolated u base (st\<lparr>ap_fs := f\<rparr>)"
  by (simp add: isolated_def others_def)

lemma isolated_status:
  assumes "isolated u base st" "\<not> theirs (ap_db base) u i"
  shows "isolated u base (st\<lparr>ap_status := status_remove (ap_status st) i\<rparr>)"
proof -
  have "filter (\<lambda>(j, _). theirs (ap_db st) u j) (hm_remove i m) = filter (\<lambda>(j, _). theirs (ap_db st) u j) m" for m :: status_registry
    using assms theirs_base[OF assms(1)] by (induction m) (auto simp: hm_remove_def)
  with assms show ?thesis by (simp add: isolated_def others_def status_remove_def)
qed

lemma isolated_notify:
  assumes "isolated u base st" shows "isolated u base (notify_tools_changed st u)"
proof -
  have "filter (\<lambda>(_, cp). cp_user_id cp \<noteq> u) (filter (\<lambda>(_, cp). cp_user_id cp \<noteq> u \<or> cp_open cp) m) =
      filter (\<lambda>(_, cp). cp_user_id cp \<noteq> u) m" for m :: "(string \<times> client_peer) list"
    by (induction m) auto
  with assms show ?thesis by (simp add: isolated_def others_def notify_tools_changed_def)
qed

lemma isolated_pool_changed:
  assumes "isolated u base st" shows "isolated u base (pool_changed st u)"
proof -
  have "filter (\<lambda>(k, _). k \<noteq> u) (mark_dirty m u) = filter (\<lambda>(k, _). k \<noteq> u) m" for m :: "(string \<times> inner) list"
    by (induction m) (auto simp: mark_dirty_def)
  with assms have "isolated u base (st\<lparr>ap_pool := mark_dirty (ap_pool st) u\<rparr>)" by (simp add: isolated_def others_def)
  then show ?thesis unfolding pool_changed_def by (rule isolated_notify)
qed

lemma isolated_restart:
  assumes "isolated u base st" "\<not> theirs (ap_db base) u i" shows "isolated u base (restart_backend st i u)"
proof -
  have "filter (\<lambda>(j, _). theirs (ap_db st) u j) (hm_remove i m) = filter (\<lambda>(j, _). theirs (ap_db st) u j) m" for m :: epochs
    using assms theirs_base[OF assms(1)] by (induction m) (auto simp: hm_remove_def)
  with assms have "isolated u base (st\<lparr>ap_epochs := bump_reload (ap_epochs st) i\<rparr>)"
    using theirs_base[OF assms(1)] by (simp add: isolated_def others_def bump_reload_def hm_insert_def)
  then show ?thesis unfolding restart_backend_def by (rule isolated_notify)
qed

lemma isolated_find_instance:
  "keeps (isolated u base) (find_instance u ns) (\<lambda>i. \<not> theirs (ap_db base) u (i_id i) \<and> i_user_id i = u)"
  unfolding find_instance_def
proof (rule keeps_bind, rule keeps_get)
  fix st assume st: "isolated u base st"
  show "\<forall>i. List.find (\<lambda>i. i_namespace i = ns) (inst_list_for_user (ap_db st) u) = Some i \<longrightarrow>
          \<not> theirs (ap_db base) u (i_id i) \<and> i_user_id i = u"
    using st theirs_base[OF st] own_not_theirs[of "ap_db st" _ u]
    by (auto simp: isolated_def inst_list_for_user_def dest!: find_SomeD)
qed (simp add: keeps_opt)

text \<open>A statement on the database that the others cannot see.\<close>

lemma isolated_stmt:
  assumes "\<And>d d' x. f d = Inr (d', x) \<Longrightarrow> ids_unique d \<Longrightarrow> theirs d u = theirs (ap_db base) u \<Longrightarrow>
    their_group d u = their_group (ap_db base) u \<Longrightarrow> unseen u d d'"
  shows "keeps (isolated u base) (m_db f) (\<lambda>_. True)"
proof (rule keeps_db)
  fix st d x assume st: "isolated u base st" and f: "f (ap_db st) = Inr (d, x)"
  have "unseen u (ap_db st) d"
    by (rule assms[OF f]) (use st theirs_base[OF st] their_group_base[OF st] in \<open>simp_all add: isolated_def\<close>)
  with st isolated_db show "isolated u base (st\<lparr>ap_db := d\<rparr>) \<and> True" by blast
qed

lemma keeps_option:
  "(r = None \<Longrightarrow> keeps I a p) \<Longrightarrow> (\<And>x. r = Some x \<Longrightarrow> keeps I (b x) p) \<Longrightarrow>
   keeps I (case r of None \<Rightarrow> a | Some x \<Rightarrow> b x) p"
  by (cases r) auto

lemma keeps_prod: "(\<And>a b. keeps I (f a b) p) \<Longrightarrow> keeps I (case x of (a, b) \<Rightarrow> f a b) p"
  by (cases x) auto

lemma keeps_if: "keeps I a p \<Longrightarrow> keeps I b p \<Longrightarrow> keeps I (if c then a else b) p"
  by simp

lemmas reads [keeps_intros] =
  pure_keeps[OF pure_intros(1)] pure_keeps[OF pure_intros(2)] pure_keeps[OF pure_intros(3)] pure_keeps[OF pure_intros(4)]
  pure_keeps[OF pure_intros(5)] pure_keeps[OF pure_intros(6)] pure_keeps[OF pure_intros(7)]

lemma keeps_seq: "keeps I m (\<lambda>_. True) \<Longrightarrow> (\<And>x. keeps I (f x) q) \<Longrightarrow> keeps I (m_bind m f) q"
  by (rule keeps_bind)

lemmas control [keeps_intros] = keeps_option keeps_prod keeps_if keeps_seq

lemma keeps_require_client [keeps_intros]: "keeps I (require_client c) (\<lambda>_. True)"
  unfolding require_client_def by (intro keeps_intros)

lemma keeps_def_from_args [keeps_intros]: "keeps I (def_from_args hv args n) (\<lambda>_. True)"
  unfolding def_from_args_def Let_def by (intro keeps_intros)

lemma keeps_edited_def [keeps_intros]: "keeps I (edited_def hv args def) (\<lambda>_. True)"
  unfolding edited_def_def Let_def by (intro keeps_intros)

section \<open>The tools of a user\<close>

lemma tool_reads:
  "keeps I (whoami u) (\<lambda>_. True)" "keeps I (get_my_client u c) (\<lambda>_. True)" "keeps I (list_my_servers hv u) (\<lambda>_. True)"
  "keeps I (mg_list_tokens u) (\<lambda>_. True)" "keeps I (mg_list_git_credentials u) (\<lambda>_. True)"
  "keeps I (mg_list_groups hv u) (\<lambda>_. True)" "keeps I (mg_runtime_stats hv) (\<lambda>_. True)" "keeps I mg_list_users (\<lambda>_. True)"
  "keeps I mg_list_invites (\<lambda>_. True)"
  unfolding whoami_def get_my_client_def list_my_servers_def mg_list_tokens_def mg_list_git_credentials_def
    mg_list_groups_def mg_runtime_stats_def mg_list_users_def mg_list_invites_def
  by (intro keeps_intros)+

lemma tool_set_my_client: "keeps (isolated u base) (set_my_client hv u c args) (\<lambda>_. True)"
  unfolding set_my_client_def Let_def
  by (intro keeps_intros isolated_stmt) (auto simp: map_sum_Inr_iff unseen_set_client_label)

lemma isolated_replace_env:
  "\<not> theirs (ap_db base) u i \<Longrightarrow> keeps (isolated u base) (m_replace_env hv i env) (\<lambda>_. True)"
  unfolding m_replace_env_def by (rule isolated_stmt) (auto simp: map_sum_Inr_iff unseen_replace_env)

lemma isolated_set_config_file:
  "\<not> theirs (ap_db base) u i \<Longrightarrow> keeps (isolated u base) (m_set_config_file hv i c) (\<lambda>_. True)"
  unfolding m_set_config_file_def by (rule isolated_stmt) (auto simp: map_sum_Inr_iff unseen_set_config_file)

lemma isolated_m_pool_changed: "keeps (isolated u base) (m_modify (\<lambda>st. pool_changed st u)) (\<lambda>_. True)"
  by (rule keeps_modify) (rule isolated_pool_changed)

lemma isolated_m_notify: "keeps (isolated u base) (m_modify (\<lambda>st. notify_tools_changed st u)) (\<lambda>_. True)"
  by (rule keeps_modify) (rule isolated_notify)

lemma isolated_m_restart:
  "\<not> theirs (ap_db base) u (i_id inst) \<Longrightarrow> keeps (isolated u base) (m_restart inst u) (\<lambda>_. True)"
  unfolding m_restart_def by (rule keeps_modify) (simp add: isolated_restart)

lemma isolated_inst_create:
  "keeps (isolated u base) (m_db (\<lambda>d. map_sum InvalidParams id (inst_create n now d u cat def ns name)))
     (\<lambda>r. \<not> theirs (ap_db base) u (i_id r))"
proof (rule keeps_db)
  fix st d x assume st: "isolated u base st" and c: "map_sum InvalidParams id (inst_create n now (ap_db st) u cat def ns name) = Inr (d, x)"
  from c have "inst_create n now (ap_db st) u cat def ns name = Inr (d, x)" by (simp add: map_sum_Inr_iff)
  from unseen_inst_create[OF this] st have "unseen u (ap_db st) d" and n: "\<not> theirs d u (i_id x)"
    by (simp_all add: isolated_def)
  from isolated_db[OF st this(1)] have "isolated u base (st\<lparr>ap_db := d\<rparr>)" .
  with n theirs_base[OF this] show "isolated u base (st\<lparr>ap_db := d\<rparr>) \<and> \<not> theirs (ap_db base) u (i_id x)" by simp
qed

lemmas isolated_steps = isolated_replace_env isolated_set_config_file isolated_m_pool_changed isolated_m_notify
  isolated_m_restart

lemma tool_add_server: "keeps (isolated u base) (add_server hv u args) (\<lambda>_. True)"
  unfolding add_server_def Let_def
  by (intro keeps_bind[OF isolated_inst_create] keeps_intros isolated_steps) assumption+

text \<open>The tools that name a server: they look it up among the user's own.\<close>

lemma tool_on_own:
  assumes "\<And>ns inst. \<not> theirs (ap_db base) u (i_id inst) \<Longrightarrow> i_user_id inst = u \<Longrightarrow> keeps (isolated u base) (f ns inst) (\<lambda>_. True)"
  shows "keeps (isolated u base) (m_bind (m_lift r) (\<lambda>ns. m_bind (find_instance u ns) (f ns))) (\<lambda>_. True)"
  using assms by (intro keeps_bind[OF isolated_find_instance] keeps_intros) blast+

lemma tool_edit_server: "keeps (isolated u base) (edit_server hv u args) (\<lambda>_. True)"
  unfolding edit_server_def
  by (rule tool_on_own) (intro keeps_intros isolated_steps isolated_stmt; auto simp: unseen_update_def)

lemma tool_set_env: "keeps (isolated u base) (set_env hv u args) (\<lambda>_. True)"
  unfolding set_env_def by (rule tool_on_own) (intro keeps_intros isolated_steps)

lemma isolated_m_fs: "keeps (isolated u base) (m_modify (\<lambda>st. st\<lparr>ap_fs := f st\<rparr>)) (\<lambda>_. True)"
  by (rule keeps_modify) (rule isolated_fs)

lemma tool_set_config_file: "keeps (isolated u base) (mg_set_config_file hv u args) (\<lambda>_. True)"
  unfolding mg_set_config_file_def
  by (rule tool_on_own) (intro keeps_intros isolated_steps isolated_m_fs isolated_stmt; auto simp: unseen_clear_config_file)

lemma tool_set_enabled: "keeps (isolated u base) (mg_set_enabled u args b) (\<lambda>_. True)"
  unfolding mg_set_enabled_def
  by (rule tool_on_own) (intro keeps_intros isolated_steps isolated_stmt keeps_modify; auto simp: unseen_set_enabled isolated_status)

lemma tool_remove: "keeps (isolated u base) (mg_remove hv u args) (\<lambda>_. True)"
  unfolding mg_remove_def Let_def
proof (rule tool_on_own)
  fix ns inst assume own: "\<not> theirs (ap_db base) u (i_id inst)"
  have "isolated u base (st\<lparr>ap_status := status_remove (ap_status st) (i_id inst), ap_fs := f\<rparr>)" if "isolated u base st" for st f
    using isolated_fs[OF isolated_status[OF that own]] by simp
  with own show "keeps (isolated u base) (m_bind (m_db (\<lambda>d. Inr (inst_delete d (i_id inst), ()))) (\<lambda>_.
      m_bind (m_modify (\<lambda>st. st\<lparr>ap_status := status_remove (ap_status st) (i_id inst),
                ap_fs := remove_home (hv_proc hv) (env_dir (hv_cfg hv)) (i_id inst) (remove_workdir (hv_proc hv) (env_dir (hv_cfg hv)) (i_id inst)
                           (remove_env (hv_proc hv) (env_dir (hv_cfg hv)) (i_id inst) (ap_fs st)))\<rparr>)) (\<lambda>_.
      m_bind (m_modify (\<lambda>st. pool_changed st u)) (\<lambda>_.
      m_return (JObj [(''removed'', JBool True), (''namespace'', JStr ns)]))))) (\<lambda>_. True)"
    by (intro keeps_intros isolated_m_pool_changed isolated_stmt keeps_modify) (auto simp: unseen_inst_delete)
qed

lemma tool_revoke_token: "keeps (isolated u base) (mg_revoke_token u args) (\<lambda>_. True)"
  unfolding mg_revoke_token_def by (intro keeps_intros isolated_stmt) (metis fst_conv sum.inject(2) unseen_tokens_revoke)

lemma tool_git_credentials:
  "keeps (isolated u base) (mg_set_git_credential hv u args) (\<lambda>_. True)"
  "keeps (isolated u base) (mg_delete_git_credential hv u args) (\<lambda>_. True)"
proof -
  have "keeps (isolated u base) (\<lambda>st. case gitcreds_upsert (hv_git_url hv) (hv_box hv) (hv_nonce hv) (hv_new_id hv) (hv_now hv) (ap_db st)
                      u h un l t of (d, r) \<Rightarrow> (st\<lparr>ap_db := d\<rparr>, map_sum InvalidParams id r)) (\<lambda>_. True)" for h un l t
    unfolding keeps_def using isolated_db unseen_gitcreds_upsert by (simp add: case_prod_beta)
  then show "keeps (isolated u base) (mg_set_git_credential hv u args) (\<lambda>_. True)"
    unfolding mg_set_git_credential_def by (intro keeps_intros)
  show "keeps (isolated u base) (mg_delete_git_credential hv u args) (\<lambda>_. True)"
    unfolding mg_delete_git_credential_def by (intro keeps_intros isolated_stmt) (auto simp: map_sum_Inr_iff dest: unseen_gitcreds_delete)
qed

text \<open>A build records its outcome on the server and the use of a credential of its owner.\<close>

lemma resolve_source_cred:
  "resolve_source tc parse sb edir d inst def fs = (fs', Inr (repo, cred, commit)) \<Longrightarrow>
   for_repo parse sb d (i_user_id inst) repo = Inr cred"
  unfolding resolve_source_def io_bind_def io_res_def io_return_def io_catch_def Let_def
  by (auto split: if_splits option.splits prod.splits sum.splits)

lemma for_repo_own:
  "for_repo parse sb d u repo = Inr (Some c) \<Longrightarrow> \<exists>r\<in>set (git_credentials d). gc_user_id r = u \<and> rv_id c = gc_id r"
  by (auto simp: for_repo_def find_cred_def split: option.splits sum.splits dest!: find_SomeD)

lemma unseen_record_build:
  assumes "ids_unique d" "\<not> theirs d u (i_id inst)" "for_repo parse sb d u repo = Inr cred"
  shows "unseen u d (fst (record_build parse now d inst repo cred commit r))"
proof -
  have s: "unseen u d (set_build_state d (i_id inst) x y)" for x y by (rule unseen_set_build_state) (rule assms(2))
  have "unseen u d (gitcreds_touch now (set_build_state d (i_id inst) x y) (rv_id c))" if c: "cred = Some c" for c x y
  proof -
    let ?d1 = "set_build_state d (i_id inst) x y"
    from assms(3) c have "for_repo parse sb d u repo = Inr (Some c)" by simp
    from for_repo_own[OF this] obtain r where "r \<in> set (git_credentials ?d1)" "gc_user_id r = u" "rv_id c = gc_id r"
      by (auto simp: set_build_state_def)
    moreover from s[of x y] assms(1) have "ids_unique ?d1" by (simp add: unseen_def)
    ultimately show ?thesis using unseen_trans[OF s] unseen_touch_own by metis
  qed
  with s show ?thesis
    by (auto simp: record_build_def Let_def split: sum.split option.split)
qed

lemma unseen_update_instance_build:
  assumes "ids_unique d" "\<not> theirs d u (i_id inst)" "i_user_id inst = u"
  shows "unseen u d (fst (update_instance tc pr parse sb now edir d inst def sandbox fs))"
proof -
  have "unseen u d (fst (record_build parse now d inst repo cred commit r))"
    if "resolve_source tc parse sb edir d inst def fs = (fs', Inr (repo, cred, commit))" for fs' repo cred commit r
    using unseen_record_build[OF assms(1,2)] resolve_source_cred[OF that] assms(3) by blast
  then show ?thesis
    by (auto simp: update_instance_def split: prod.split sum.split) (metis fst_conv)
qed

lemma isolated_m_update_instance:
  assumes "\<not> theirs (ap_db base) u (i_id inst)" "i_user_id inst = u"
  shows "keeps (isolated u base) (m_update_instance hv inst def sandbox) (\<lambda>_. True)"
  unfolding keeps_def
proof (intro allI impI conjI)
  fix st assume st: "isolated u base st"
  obtain d fs' r where e: "update_instance (hv_tools hv) (hv_proc hv) (hv_git_url hv) (hv_box hv) (hv_now hv) (env_dir (hv_cfg hv))
      (ap_db st) inst def sandbox (ap_fs st) = (d, fs', r)" by (metis prod.exhaust)
  from unseen_update_instance_build[of "ap_db st" u inst] st assms theirs_base[OF st] e
  have "unseen u (ap_db st) d" by (metis fst_conv isolated_def)
  from isolated_fs[OF isolated_db[OF st this], of fs'] e show "isolated u base (fst (m_update_instance hv inst def sandbox st))"
    by (simp add: m_update_instance_def)
qed simp

lemma isolated_m_sandbox: "keeps (isolated u base) (m_sandbox hv v) (\<lambda>_. True)"
  by (auto simp: keeps_def m_sandbox_def app_sandbox_or_fail_def Let_def intro: isolated_fs)

lemma tool_update_server: "keeps (isolated u base) (mg_update_server hv u args) (\<lambda>_. True)"
  unfolding mg_update_server_def Let_def
  by (rule tool_on_own) (intro keeps_intros isolated_m_sandbox isolated_m_update_instance keeps_modify;
      auto simp: isolated_restart)

text \<open>The group tools.\<close>

lemma isolated_instance_ids: "keeps (isolated u base) (instance_ids_from_args u args) (\<lambda>_. True)"
proof -
  have "keeps (isolated u base) (namespaces_to_ids u xs) (\<lambda>_. True)" for xs
    by (induction xs) (auto intro!: keeps_intros keeps_weaken[OF isolated_find_instance])
  then show ?thesis unfolding instance_ids_from_args_def by (intro keeps_intros)
qed

lemma isolated_set_members: "keeps (isolated u base) (m_set_members hv u g ids) (\<lambda>_. True)"
  unfolding m_set_members_def by (intro keeps_intros isolated_stmt) (auto simp: map_sum_Inr_iff dest: unseen_set_members)

lemma isolated_group_by_slug: "keeps (isolated u base) (group_by_slug u slug) (\<lambda>_. True)"
  unfolding group_by_slug_def by (intro keeps_intros)

lemma tool_groups:
  "keeps (isolated u base) (mg_create_group hv u args) (\<lambda>_. True)"
  "keeps (isolated u base) (mg_update_group hv u args) (\<lambda>_. True)"
  "keeps (isolated u base) (mg_delete_group u args) (\<lambda>_. True)"
  unfolding mg_create_group_def mg_update_group_def mg_delete_group_def Let_def
  by (intro keeps_intros isolated_instance_ids isolated_set_members isolated_group_by_slug isolated_m_notify isolated_stmt;
      auto simp: map_sum_Inr_iff unseen_groups_rename unseen_groups_delete dest: unseen_groups_create)+

lemmas own_tools = tool_reads tool_set_my_client tool_add_server tool_edit_server tool_set_env tool_set_config_file
  tool_update_server tool_set_enabled tool_remove tool_revoke_token tool_git_credentials tool_groups

lemma isolated_run:
  assumes "isolated u base st" "ca_user_id c = u" "\<not> ca_admin c"
  shows "isolated u base (fst (mg_run hv c op args st))"
proof -
  have adm: "keeps I (as_admin False m) (\<lambda>_. True)" for I m
    by (simp add: as_admin_def require_admin_def keeps_def m_bind_def m_fail_def)
  have "keeps (isolated u base) m (\<lambda>_. True)" if "(k, m) \<in> set (mg_ops hv c args)" for k m
    using that assms(2,3) by (auto simp: mg_ops_def Let_def intro: own_tools adm)
  then have "keeps (isolated u base) (mg_run hv c op args) (\<lambda>_. True)"
    unfolding mg_run_def by (auto intro: keeps_intros dest: map_of_SomeD split: option.split)
  with assms(1) show ?thesis by (simp add: keeps_def)
qed

lemma dispatch_state:
  "\<exists>evs. fst (dispatch hv c op args st) =
     (fst (mg_run hv c op (or_else [] args) st))\<lparr>ap_audit := ap_audit (fst (mg_run hv c op (or_else [] args) st)) @ evs\<rparr>"
  by (cases "mg_run hv c op (or_else [] args) st")
    (auto simp: dispatch_def Let_def emit_def split: option.split sum.split intro: exI[of _ "[]"])

lemma dispatch_isolated:
  assumes "ids_unique (ap_db st)" "\<not> ca_admin c"
  shows "others (ca_user_id c) (fst (dispatch hv c op args st)) = others (ca_user_id c) st \<and>
         ids_unique (ap_db (fst (dispatch hv c op args st)))"
proof -
  let ?u = "ca_user_id c" and ?st' = "fst (mg_run hv c op (or_else [] args) st)"
  have "isolated ?u (others ?u st) ?st'"
    by (rule isolated_run) (use assms in \<open>simp_all add: isolated_def\<close>)
  with dispatch_state[of hv c op args st] show ?thesis
    by (auto simp: isolated_def others_def)
qed

section \<open>Properties\<close>

text \<open>C4: tenant isolation. Whatever management tool a user without administrator rights calls, with
  whatever arguments, nothing of another user changes: no row of any table that belongs to another
  user, no account, passkey, browser session, invite or key, and no pool entry, reload counter,
  status or client session of another user's servers. Ids stay unique, so this holds of any
  sequence of calls.\<close>

theorem tenant_isolation:
  assumes "ids_unique (ap_db st)" "\<not> ca_admin c"
  shows "others (ca_user_id c) (fst (dispatch hv c op args st)) = others (ca_user_id c) st \<and>
         ids_unique (ap_db (fst (dispatch hv c op args st)))"
  using assms by (rule dispatch_isolated)

definition demo_hv :: app_env where
  "demo_hv = \<lparr>hv_cfg = demo_cfg, hv_box = rev_box, hv_proc = demo_proc, hv_tools = demo_tools, hv_url = (\<lambda>_. None),
     hv_git_url = demo_parse, hv_shlex = (\<lambda>s. Some [s]), hv_th = id, hv_snapshot_tools = (\<lambda>_. None), hv_now = 9,
     hv_new_id = ''new'', hv_random = ''rnd'', hv_nonce = ''123456789012'', hv_env_fresh = (\<lambda>n. (replicate n CHR ''x'', ''123456789012''))\<rparr>"

definition demo_app :: app_state where
  "demo_app = \<lparr>ap_db = group_demo_db, ap_fs = Map.empty, ap_pool = [], ap_epochs = [], ap_peers = [], ap_status = [],
     ap_metrics = [], ap_metrics_key = ''mcphub_metrics_k'', ap_permits = 4, ap_sessions = 0, ap_notified = [], ap_audit = []\<rparr>"

definition demo_caller :: "string \<Rightarrow> string \<Rightarrow> bool \<Rightarrow> caller" where
  "demo_caller u h adm = \<lparr>ca_user_id = u, ca_handle = h, ca_admin = adm, ca_client_id = None,
     ca_request = \<lparr>ri_ip = None, ri_user_agent = None\<rparr>\<rparr>"

theorem tenant_isolation_witness:
  "others ''u2'' (fst (dispatch demo_hv (demo_caller ''u2'' ''bob'' False) ''remove'' (Some [(''namespace'', JStr ''files'')]) demo_app)) =
     others ''u2'' demo_app \<and>
   user_server_instances (ap_db (fst (dispatch demo_hv (demo_caller ''u2'' ''bob'' False) ''remove''
     (Some [(''namespace'', JStr ''files'')]) demo_app))) = [mk_inst ''i1'' ''u1'' ''zabbix'']"
proof -
  have ids: "ids_unique (ap_db demo_app)" by (simp add: ids_unique_def demo_app_def group_demo_simps)
  have c: "\<not> ca_admin (demo_caller ''u2'' ''bob'' False)" "ca_user_id (demo_caller ''u2'' ''bob'' False) = ''u2''"
    by (simp_all add: demo_caller_def)
  have "user_server_instances (ap_db (fst (dispatch demo_hv (demo_caller ''u2'' ''bob'' False) ''remove''
     (Some [(''namespace'', JStr ''files'')]) demo_app))) = [mk_inst ''i1'' ''u1'' ''zabbix'']" by code_simp
  with tenant_isolation[OF ids c(1), of demo_hv "''remove''" "Some [(''namespace'', JStr ''files'')]"] c(2) show ?thesis by simp
qed

end
