(* ===== verification/Hub_Management_Safety.thy ===== *)
theory Hub_Management_Safety
  imports Hub_Isolation
begin

text \<open>
  What the administrator tools of \<^verbatim>\<open>src/proxy/management.rs\<close> keep, how the advertised schemas relate to
  what the tools check, and what the environment argument lets through.
\<close>

section \<open>Accounts\<close>

definition accounts_ok :: "app_state \<Rightarrow> bool" where
  "accounts_ok st \<longleftrightarrow> ids_unique (ap_db st) \<and> distinct (map u_id (users (ap_db st))) \<and> 0 < count_admins (ap_db st)"

definition keeps_accounts :: "string \<Rightarrow> app_state \<Rightarrow> app_state \<Rightarrow> bool" where
  "keeps_accounts u st st' \<longleftrightarrow> accounts_ok st' \<and>
     (\<forall>r\<in>set (users (ap_db st)). u_id r = u \<and> \<not> u_disabled r \<longrightarrow> r \<in> set (users (ap_db st')))"

lemma keeps_accounts_same:
  "accounts_ok st \<Longrightarrow> users (ap_db st') = users (ap_db st) \<Longrightarrow> ids_unique (ap_db st') \<Longrightarrow> keeps_accounts u st st'"
  by (simp add: keeps_accounts_def accounts_ok_def count_admins_def)

lemma keeps_accounts_own:
  assumes "accounts_ok st" "isolated u (others u st) st'"
  shows "keeps_accounts u st st'"
proof (rule keeps_accounts_same[OF assms(1)])
  from assms(2) have "others u st' = others u st" by (simp add: isolated_def)
  then have "users (ap_db (others u st')) = users (ap_db (others u st))" by simp
  then show "users (ap_db st') = users (ap_db st)" by (simp add: others_def others_db_def)
qed (use assms(2) in \<open>simp add: isolated_def\<close>)

lemma admin_target_eval:
  "admin_target c handle st = (st, Inr t) \<Longrightarrow>
   t \<in> set (users (ap_db st)) \<and> u_id t \<noteq> c \<and> (u_is_admin t \<longrightarrow> 1 < count_admins (ap_db st))"
  by (auto simp: admin_target_def user_by_handle_def m_bind_def m_get_def m_opt_def m_return_def m_fail_def find_by_handle_def
      split: option.splits if_splits dest!: find_SomeD)

lemma admin_target_state: "fst (admin_target c handle st) = st"
  by (auto simp: admin_target_def user_by_handle_def m_bind_def m_get_def m_opt_def m_return_def m_fail_def
      split: option.splits if_splits)

text \<open>What disabling or deleting another account does to the table of accounts.\<close>

lemma keeps_accounts_set_disabled:
  assumes "accounts_ok st" "b \<longrightarrow> t \<noteq> u" "users (ap_db st') = users (set_disabled (ap_db st) t b)"
    "ids_unique (ap_db st') = ids_unique (ap_db st)"
  shows "keeps_accounts u st st'"
proof -
  let ?f = "\<lambda>r :: user_row. if u_id r = t then r\<lparr>u_disabled := b\<rparr> else r"
  have us: "users (ap_db st') = map ?f (users (ap_db st))" by (simp add: assms(3) set_disabled_def tbl_update_def)
  have "u_is_admin (?f r) = u_is_admin r" for r by simp
  then have "count_admins (ap_db st') = count_admins (ap_db st)"
    unfolding count_admins_def us tbl_count_def filter_map length_map comp_def by simp
  moreover have "map u_id (users (ap_db st')) = map u_id (users (ap_db st))" unfolding us by simp
  moreover have "r \<in> set (users (ap_db st'))" if "r \<in> set (users (ap_db st))" "u_id r = u" "\<not> u_disabled r" for r
  proof -
    have "?f r = r" using that assms(2) by (cases r) auto
    then have "r \<in> ?f ` set (users (ap_db st))" using that(1) by (rule image_eqI[OF sym])
    then show ?thesis unfolding us set_map .
  qed
  ultimately show ?thesis using assms(1,4) by (simp add: keeps_accounts_def accounts_ok_def)
qed

lemma keeps_accounts_deactivate:
  assumes "accounts_ok st" "t \<noteq> u" shows "keeps_accounts u st (deactivate_user st t)"
  by (rule keeps_accounts_set_disabled[where b = True and t = t])
    (use assms in \<open>simp_all add: deactivate_user_def revoke_all_for_user_def revoke_all_user_tokens_def delete_all_for_user_def
       set_disabled_def Let_def ids_unique_def\<close>)

lemma foldl_keeps: "(\<And>st x. g (f st x) = g st) \<Longrightarrow> g (foldl f st xs) = g st"
  by (induction xs arbitrary: st) auto

lemma purge_user_db: "ap_db (purge_user hv st t) = users_delete (ap_db st) t"
  by (simp add: purge_user_def Let_def foldl_keeps[where g = ap_db])

lemma keeps_accounts_purge:
  assumes "accounts_ok st" "t \<in> set (users (ap_db st))" "u_id t \<noteq> u" "u_is_admin t \<longrightarrow> 1 < count_admins (ap_db st)"
  shows "keeps_accounts u st (purge_user hv st (u_id t))"
proof -
  let ?us = "users (ap_db st)" and ?P = "\<lambda>r :: user_row. u_id r = u_id t"
  have us: "users (ap_db (purge_user hv st (u_id t))) = tbl_delete ?P ?us"
    by (simp add: purge_user_db users_delete_def users_delete_user)
  have ids: "ids_unique (ap_db (purge_user hv st (u_id t)))"
    using assms(1) by (simp add: accounts_ok_def purge_user_db users_delete_def delete_user_def delete_groups_def
        delete_instances_def ids_unique_def Let_def tbl_simps)
  have "\<exists>a\<in>set ?us. u_is_admin a \<and> u_id a \<noteq> u_id t"
  proof (cases "u_is_admin t")
    case False
    from assms(1) obtain a where a: "a \<in> set ?us" "u_is_admin a" by (auto simp: accounts_ok_def count_admins_def tbl_simps)
    with False assms(1,2) have "u_id a \<noteq> u_id t" by (auto simp: accounts_ok_def dest: distinct_key_eq)
    with a show ?thesis by blast
  next
    case True
    have "distinct (filter u_is_admin ?us)" using assms(1) by (simp add: accounts_ok_def distinct_map)
    then have "card (set (filter u_is_admin ?us)) = count_admins (ap_db st)"
      unfolding count_admins_def tbl_count_def by (rule distinct_card)
    with True assms(4) have big: "1 < card (set (filter u_is_admin ?us))" by simp
    have "\<not> set (filter u_is_admin ?us) \<subseteq> {t}"
    proof
      assume "set (filter u_is_admin ?us) \<subseteq> {t}"
      then have "card (set (filter u_is_admin ?us)) \<le> card {t}" by (rule card_mono[rotated]) simp
      with big show False by simp
    qed
    then obtain a where "a \<in> set ?us" "u_is_admin a" "a \<noteq> t" by auto
    with assms(1,2) show ?thesis by (auto simp: accounts_ok_def dest: distinct_key_eq)
  qed
  with assms us ids show ?thesis
    by (auto simp: keeps_accounts_def accounts_ok_def tbl_simps count_admins_def)
qed

text \<open>The administrator tools.\<close>

lemma m_modify_run: "m_bind (m_modify f) (\<lambda>_. m_return x) st = (f st, Inr x)"
  by (simp add: m_bind_def m_modify_def m_return_def)

lemma admin_tools_accounts:
  assumes "accounts_ok st"
  shows "keeps_accounts u st (fst (mg_set_user_disabled u args b st))"
    "keeps_accounts u st (fst (mg_delete_user hv u args st))"
    "keeps_accounts u st (fst (mg_create_invite hv u args st))"
    "keeps_accounts u st (fst (mg_revoke_invite args st))"
    "keeps_accounts u st (fst (mg_create_recovery hv u args st))"
proof -
  have same: "keeps_accounts u st st" using assms by (simp add: keeps_accounts_same accounts_ok_def)
  have db: "keeps_accounts u st (st\<lparr>ap_db := (ap_db st)\<lparr>invites := iv\<rparr>\<rparr>)" for iv
    using assms by (intro keeps_accounts_same) (simp_all add: accounts_ok_def ids_unique_def)
  have enable: "keeps_accounts u st (st\<lparr>ap_db := set_disabled (ap_db st) t False\<rparr>)" for t
    by (rule keeps_accounts_set_disabled[OF assms, where b = False and t = t]) (simp_all add: set_disabled_def ids_unique_def)
  have target: "st' = st \<and> keeps_accounts u st (deactivate_user st (u_id t)) \<and> keeps_accounts u st (purge_user hv st (u_id t))"
    if "admin_target u h st = (st', Inr t)" for h st' t
  proof -
    from that admin_target_state[of u h st] have st': "st' = st" by simp
    from admin_target_eval[OF that[unfolded st']] assms st' show ?thesis
      by (simp add: keeps_accounts_deactivate keeps_accounts_purge)
  qed
  note run = m_bind_def m_lift_def m_return_def m_fail_def m_modify_def m_db_def
  show "keeps_accounts u st (fst (mg_delete_user hv u args st))"
    using same target admin_target_state[of u _ st]
    by (auto simp: mg_delete_user_def run split: sum.split prod.split) (metis fst_conv)+
  show "keeps_accounts u st (fst (mg_set_user_disabled u args b st))"
    using same target admin_target_state[of u _ st] enable
    by (auto simp: mg_set_user_disabled_def user_by_handle_def m_get_def m_opt_def run split: sum.split prod.split option.split)
      (metis fst_conv)+
  show "keeps_accounts u st (fst (mg_create_invite hv u args st))"
    using same db by (auto simp: mg_create_invite_def run invites_create_def insert_invite_def Let_def split: sum.split)
  show "keeps_accounts u st (fst (mg_revoke_invite args st))"
    using same db by (auto simp: mg_revoke_invite_def run invites_revoke_def Let_def split: sum.split)
  show "keeps_accounts u st (fst (mg_create_recovery hv u args st))"
    using same db by (auto simp: mg_create_recovery_def user_by_handle_def m_get_def m_opt_def run create_recovery_def
        insert_invite_def Let_def split: sum.split option.split)
qed

lemma run_accounts:
  assumes "accounts_ok st"
  shows "keeps_accounts (ca_user_id c) st (fst (mg_run hv c op args st))"
proof -
  let ?u = "ca_user_id c"
  have iso: "isolated ?u (others ?u st) st" using assms by (simp add: isolated_def accounts_ok_def)
  have own: "keeps (isolated ?u (others ?u st)) m (\<lambda>_. True) \<Longrightarrow> keeps_accounts ?u st (fst (m st))" for m :: "json act"
    by (rule keeps_accounts_own[OF assms]) (use iso in \<open>simp add: keeps_def\<close>)
  have same: "keeps_accounts ?u st st" using assms by (simp add: keeps_accounts_same accounts_ok_def)
  have adm: "keeps_accounts ?u st (fst (m st)) \<Longrightarrow> keeps_accounts ?u st (fst (as_admin b m st))" for b and m :: "json act"
    using same by (simp add: as_admin_def require_admin_def m_bind_def m_fail_def m_return_def)
  have "keeps_accounts ?u st (fst (m st))" if "(k, m) \<in> set (mg_ops hv c args)" for k m
    using that by (auto simp: mg_ops_def Let_def intro: own_tools own adm admin_tools_accounts[OF assms])
  with same show ?thesis
    by (auto simp: mg_run_def m_fail_def split: option.split dest: map_of_SomeD)
qed

section \<open>Properties\<close>

type_synonym mg_call = "app_env \<times> caller \<times> string \<times> json_object option"

definition run_calls :: "mg_call list \<Rightarrow> app_state \<Rightarrow> app_state" where
  "run_calls cs st = foldl (\<lambda>st (hv, c, op, args). fst (dispatch hv c op args st)) st cs"

lemma dispatch_accounts: "accounts_ok st \<Longrightarrow> keeps_accounts (ca_user_id c) st (fst (dispatch hv c op args st))"
  using run_accounts[of st c hv op "or_else [] args"] dispatch_state[of hv c op args st]
  by (auto simp: keeps_accounts_def accounts_ok_def)

text \<open>C20: no sequence of management calls, by whomever, leaves the hub without an administrator, and
  an enabled account that makes calls itself can neither delete, disable nor change its own row
  by them.\<close>

theorem administrators_not_locked_out:
  assumes "accounts_ok st" "r \<in> set (users (ap_db st))" "\<not> u_disabled r"
  shows "0 < count_admins (ap_db (run_calls cs st)) \<and>
    ((\<forall>(hv, c, op, args)\<in>set cs. ca_user_id c = u_id r) \<longrightarrow> r \<in> set (users (ap_db (run_calls cs st))))"
proof -
  have "accounts_ok (run_calls cs st) \<and>
    ((\<forall>(hv, c, op, args)\<in>set cs. ca_user_id c = u_id r) \<longrightarrow> r \<in> set (users (ap_db st)) \<longrightarrow> r \<in> set (users (ap_db (run_calls cs st))))"
    using assms(1)
  proof (induction cs arbitrary: st)
    case (Cons x cs)
    obtain hv c op args where x: "x = (hv, c, op, args)" by (cases x)
    from dispatch_accounts[OF Cons.prems, of c hv op args]
    have ok: "accounts_ok (fst (dispatch hv c op args st))" and
      row: "ca_user_id c = u_id r \<Longrightarrow> r \<in> set (users (ap_db st)) \<Longrightarrow> r \<in> set (users (ap_db (fst (dispatch hv c op args st))))"
      using assms(3) by (auto simp: keeps_accounts_def)
    from Cons.IH[OF ok] row show ?case by (auto simp: run_calls_def x)
  qed (simp add: run_calls_def)
  with assms show ?thesis by (auto simp: accounts_ok_def)
qed

lemma disable_user_op: "mg_run hv c ''disable_user'' args = as_admin (ca_admin c) (mg_set_user_disabled (ca_user_id c) args True)"
  by (simp add: mg_run_def mg_ops_def Let_def)

lemmas m_run = as_admin_def require_admin_def mg_set_user_disabled_def admin_target_def user_by_handle_def m_bind_def m_return_def
  m_fail_def m_get_def m_modify_def m_lift_def m_opt_def req_str_def opt_str_def find_by_handle_def or_else_def
  deactivate_user_def revoke_all_for_user_def revoke_all_user_tokens_def delete_all_for_user_def set_disabled_def action_for_def
  ACTIONS_def

theorem administrators_not_locked_out_witness:
  "let c = (\<lambda>h. (demo_hv, demo_caller ''u1'' ''ann'' True, ''disable_user'', Some [(''handle'', JStr h)])) in
   0 < count_admins (ap_db (run_calls [c ''bob''] demo_app)) \<and>
   hd (users group_demo_db) \<in> set (users (ap_db (run_calls [c ''bob''] demo_app))) \<and>
   map u_disabled (users (ap_db (run_calls [c ''bob''] demo_app))) = [False, True]"
proof -
  define c where "c = (\<lambda>h. (demo_hv, demo_caller ''u1'' ''ann'' True, ''disable_user'', Some [(''handle'', JStr h)]))"
  have ok: "accounts_ok demo_app" by (simp add: accounts_ok_def ids_unique_def demo_app_def group_demo_simps count_admins_def tbl_count_def)
  have r: "hd (users group_demo_db) \<in> set (users (ap_db demo_app))" "\<not> u_disabled (hd (users group_demo_db))"
    by (simp_all add: demo_app_def group_demo_simps)
  have "map u_disabled (users (ap_db (run_calls [c ''bob''] demo_app))) = [False, True]"
    by (simp add: c_def run_calls_def dispatch_def disable_user_op m_run demo_app_def group_demo_simps demo_caller_def Let_def
        count_admins_def tbl_count_def tbl_update_def emit_def)
  moreover have "\<forall>(hv, cl, op, args)\<in>set [c ''bob'']. ca_user_id cl = u_id (hd (users group_demo_db))"
    by (simp add: c_def demo_caller_def group_demo_simps)
  ultimately show ?thesis
    using administrators_not_locked_out[OF ok r, of "[c ''bob'']"] unfolding c_def Let_def by blast
qed

section \<open>Advertised tools\<close>

text \<open>What the handlers do with the audit log: nothing, the dispatcher writes it.\<close>

abbreviation log_is :: "audit_event list \<Rightarrow> app_state \<Rightarrow> bool" where
  "log_is l st \<equiv> ap_audit st = l"

lemma log_state [simp]:
  "ap_audit (notify_tools_changed st u) = ap_audit st" "ap_audit (restart_backend st i u) = ap_audit st"
  "ap_audit (pool_changed st u) = ap_audit st" "ap_audit (deactivate_user st u) = ap_audit st"
  by (simp_all add: notify_tools_changed_def restart_backend_def pool_changed_def deactivate_user_def)

lemma log_purge [simp]: "ap_audit (purge_user hv st u) = ap_audit st"
  by (simp add: purge_user_def Let_def foldl_keeps[where g = ap_audit])

lemma log_db [keeps_intros]: "keeps (log_is l) (m_db f) (\<lambda>_. True)"
  by (rule keeps_db) simp

lemma log_steps [keeps_intros]:
  "keeps (log_is l) (m_update_instance hv inst def sandbox) (\<lambda>_. True)" "keeps (log_is l) (m_sandbox hv u) (\<lambda>_. True)"
  "keeps (log_is l) (m_replace_env hv i env) (\<lambda>_. True)" "keeps (log_is l) (m_set_config_file hv i c) (\<lambda>_. True)"
  "keeps (log_is l) (m_restart inst u) (\<lambda>_. True)" "keeps (log_is l) (find_instance u ns) (\<lambda>_. True)"
  "keeps (log_is l) (user_by_handle h) (\<lambda>_. True)" "keeps (log_is l) (admin_target u h) (\<lambda>_. True)"
  "keeps (log_is l) (group_by_slug u h) (\<lambda>_. True)" "keeps (log_is l) (m_set_members hv u g ids) (\<lambda>_. True)"
  "keeps (log_is l) (require_admin b) (\<lambda>_. True)"
proof -
  show fi: "keeps (log_is l) (find_instance u ns) (\<lambda>_. True)" "keeps (log_is l) (user_by_handle h) (\<lambda>_. True)"
    "keeps (log_is l) (group_by_slug u h) (\<lambda>_. True)" for ns h
    unfolding find_instance_def user_by_handle_def group_by_slug_def by (intro keeps_intros)+
  show "keeps (log_is l) (admin_target u h) (\<lambda>_. True)"
    unfolding admin_target_def by (intro keeps_intros fi)
  show "keeps (log_is l) (m_set_members hv u g ids) (\<lambda>_. True)"
    unfolding m_set_members_def by (intro keeps_intros)
qed (auto simp: keeps_def m_update_instance_def m_sandbox_def app_sandbox_or_fail_def m_replace_env_def m_set_config_file_def
    m_restart_def m_modify_def m_db_def require_admin_def m_return_def m_fail_def Let_def split: prod.split sum.split)

lemma log_instance_ids [keeps_intros]: "keeps (log_is l) (instance_ids_from_args u args) (\<lambda>_. True)"
proof -
  have "keeps (log_is l) (namespaces_to_ids u xs) (\<lambda>_. True)" for xs
    by (induction xs) (auto intro!: keeps_intros)
  then show ?thesis unfolding instance_ids_from_args_def by (intro keeps_intros)
qed

lemma log_run: "ap_audit (fst (mg_run hv c op args st)) = ap_audit st"
proof -
  let ?l = "ap_audit st" and ?u = "ca_user_id c"
  note tool_defs = set_my_client_def add_server_def edit_server_def set_env_def mg_set_config_file_def mg_update_server_def
    mg_set_enabled_def mg_remove_def mg_revoke_token_def mg_delete_git_credential_def mg_create_group_def
    mg_update_group_def mg_delete_group_def mg_create_invite_def mg_revoke_invite_def mg_create_recovery_def
    mg_set_user_disabled_def mg_delete_user_def
  have git: "keeps (log_is ?l) (mg_set_git_credential hv ?u args) (\<lambda>_. True)"
    unfolding mg_set_git_credential_def by (intro keeps_intros) (auto simp: keeps_def split: prod.split)
  have "keeps (log_is ?l) (set_my_client hv ?u (ca_client_id c) args) (\<lambda>_. True)"
    "keeps (log_is ?l) (add_server hv ?u args) (\<lambda>_. True)" "keeps (log_is ?l) (edit_server hv ?u args) (\<lambda>_. True)"
    "keeps (log_is ?l) (set_env hv ?u args) (\<lambda>_. True)" "keeps (log_is ?l) (mg_set_config_file hv ?u args) (\<lambda>_. True)"
    "keeps (log_is ?l) (mg_update_server hv ?u args) (\<lambda>_. True)" "keeps (log_is ?l) (mg_set_enabled ?u args b) (\<lambda>_. True)"
    "keeps (log_is ?l) (mg_remove hv ?u args) (\<lambda>_. True)" "keeps (log_is ?l) (mg_revoke_token ?u args) (\<lambda>_. True)"
    "keeps (log_is ?l) (mg_delete_git_credential hv ?u args) (\<lambda>_. True)"
    "keeps (log_is ?l) (mg_create_group hv ?u args) (\<lambda>_. True)" "keeps (log_is ?l) (mg_update_group hv ?u args) (\<lambda>_. True)"
    "keeps (log_is ?l) (mg_delete_group ?u args) (\<lambda>_. True)" "keeps (log_is ?l) (mg_create_invite hv ?u args) (\<lambda>_. True)"
    "keeps (log_is ?l) (mg_revoke_invite args) (\<lambda>_. True)" "keeps (log_is ?l) (mg_create_recovery hv ?u args) (\<lambda>_. True)"
    "keeps (log_is ?l) (mg_set_user_disabled ?u args b) (\<lambda>_. True)" "keeps (log_is ?l) (mg_delete_user hv ?u args) (\<lambda>_. True)" for b
    unfolding tool_defs Let_def by ((intro keeps_intros keeps_modify; simp)+)
  note tools = this git tool_reads
  have adm: "keeps I m (\<lambda>_. True) \<Longrightarrow> keeps I (as_admin b m) (\<lambda>_. True)" for I b and m :: "json act"
    unfolding as_admin_def require_admin_def by (intro keeps_intros)
  have "keeps (log_is ?l) m (\<lambda>_. True)" if "(k, m) \<in> set (mg_ops hv c args)" for k m
    using that by (auto simp: mg_ops_def Let_def intro: tools adm)
  then show ?thesis
    by (auto simp: mg_run_def m_fail_def keeps_def split: option.split dest!: map_of_SomeD)
qed

definition op_of :: "tool_decl \<Rightarrow> string" where
  "op_of t = drop (length ''hub__'') (mt_name t)"

definition READ_ONLY :: "string list" where
  "READ_ONLY = [''whoami'', ''list_my_servers'', ''list_tokens'', ''get_my_client'', ''runtime_stats'', ''list_users'', ''list_invites'',
     ''list_groups'', ''list_git_credentials'']"

lemma advertised:
  "list_all (\<lambda>t. is_management_tool (mt_name t) \<and>
     (if th_read_only (mt_hints t) then op_of t \<in> set READ_ONLY \<and> action_for (op_of t) = None
      else action_for (op_of t) \<noteq> None)) (management_tools True)"
  by code_simp

lemma management_tools_mono: "set (management_tools adm) \<subseteq> set (management_tools True)"
  by (cases adm) (auto simp: management_tools_def)

lemma read_only_state: "op \<in> set READ_ONLY \<Longrightarrow> fst (mg_run hv c op args st) = st"
proof -
  have ops: "mg_run hv c ''whoami'' args = whoami (ca_user_id c)" "mg_run hv c ''list_my_servers'' args = list_my_servers hv (ca_user_id c)"
    "mg_run hv c ''list_tokens'' args = mg_list_tokens (ca_user_id c)"
    "mg_run hv c ''get_my_client'' args = get_my_client (ca_user_id c) (ca_client_id c)"
    "mg_run hv c ''runtime_stats'' args = as_admin (ca_admin c) (mg_runtime_stats hv)"
    "mg_run hv c ''list_users'' args = as_admin (ca_admin c) mg_list_users"
    "mg_run hv c ''list_invites'' args = as_admin (ca_admin c) mg_list_invites"
    "mg_run hv c ''list_groups'' args = mg_list_groups hv (ca_user_id c)"
    "mg_run hv c ''list_git_credentials'' args = mg_list_git_credentials (ca_user_id c)"
    by (simp_all add: mg_run_def mg_ops_def Let_def)
  have keep: "keeps (\<lambda>s. s = st) m (\<lambda>_. True) \<Longrightarrow> fst (m st) = st" for m :: "json act" by (simp add: keeps_def)
  have adm: "keeps I m (\<lambda>_. True) \<Longrightarrow> keeps I (as_admin b m) (\<lambda>_. True)" for I b and m :: "json act"
    unfolding as_admin_def require_admin_def by (intro keeps_intros)
  assume "op \<in> set READ_ONLY"
  then show ?thesis unfolding READ_ONLY_def list.set insert_iff empty_iff
    by (elim disjE FalseE) (simp_all only: ops, (intro keep adm tool_reads)+)
qed

text \<open>The advertised hints are true of the tools. A tool advertised as read-only changes nothing at
  all. Every other advertised tool is audited: a call appends exactly one event, which names the
  caller and says whether the call succeeded.\<close>

theorem tool_hints_sound:
  assumes "t \<in> set (management_tools adm)"
  shows "is_management_tool (mt_name t) \<and>
    (if th_read_only (mt_hints t) then fst (dispatch hv c (op_of t) args st) = st
     else (\<exists>ev. ap_audit (fst (dispatch hv c (op_of t) args st)) = ap_audit st @ [ev] \<and> ev_actor_id ev = ca_user_id c \<and>
            (ev_outcome ev = ''ok'' \<longleftrightarrow> \<not> isl (snd (dispatch hv c (op_of t) args st)))))"
proof -
  from assms management_tools_mono advertised
  have *: "is_management_tool (mt_name t) \<and> (if th_read_only (mt_hints t) then op_of t \<in> set READ_ONLY \<and> action_for (op_of t) = None
      else action_for (op_of t) \<noteq> None)"
    unfolding list_all_iff by blast
  obtain st' r where run: "mg_run hv c (op_of t) (or_else [] args) st = (st', r)" by (cases "mg_run hv c (op_of t) (or_else [] args) st")
  have log: "ap_audit st' = ap_audit st" using log_run[of hv c "op_of t" "or_else [] args" st] run by simp
  show ?thesis
  proof (cases "th_read_only (mt_hints t)")
    case True
    with * read_only_state[of "op_of t" hv c "or_else [] args" st] run show ?thesis by (simp add: dispatch_def Let_def)
  next
    case False
    with * obtain a where "action_for (op_of t) = Some a" by auto
    with False * run log show ?thesis by (cases r) (auto simp: dispatch_def Let_def emit_def event_def ev_request_def)
  qed
qed

theorem tool_hints_sound_witness:
  "fst (dispatch demo_hv (demo_caller ''u2'' ''bob'' False) (op_of (mg_tool ''hub__whoami'' [] [])) None demo_app) = demo_app \<and>
   is_management_tool ''hub__whoami''"
proof -
  have m: "mg_tool ''hub__whoami'' [] [] \<in> set (management_tools False)" by (simp add: tool_decls_defs)
  have "th_read_only (mt_hints (mg_tool ''hub__whoami'' [] []))" by code_simp
  moreover have "mt_name (mg_tool ''hub__whoami'' [] []) = ''hub__whoami''" by (simp add: mg_tool_def)
  ultimately show ?thesis
    using tool_hints_sound[OF m, of demo_hv "demo_caller ''u2'' ''bob'' False" None demo_app] by auto
qed

text \<open>The string arguments the schemas require, by tool.\<close>

definition REQUIRED :: "(string \<times> string) list" where
  "REQUIRED = [(''add_server'', ''namespace''), (''add_server'', ''transport''), (''edit_server'', ''namespace''), (''set_env'', ''namespace''),
     (''set_config_file'', ''namespace''), (''update_server'', ''namespace''), (''set_git_credential'', ''host''), (''set_git_credential'', ''token''),
     (''delete_git_credential'', ''host''), (''enable'', ''namespace''), (''disable'', ''namespace''), (''remove'', ''namespace''),
     (''revoke_token'', ''token_id''), (''create_group'', ''slug''), (''update_group'', ''slug''), (''delete_group'', ''slug'')]"

definition REQUIRED_ADMIN :: "(string \<times> string) list" where
  "REQUIRED_ADMIN = [(''revoke_invite'', ''id''), (''create_recovery'', ''handle''), (''disable_user'', ''handle''), (''enable_user'', ''handle''),
     (''delete_user'', ''handle'')]"

lemma advertised_required:
  "list_all (\<lambda>t. list_all (\<lambda>k. (op_of t, k) \<in> set REQUIRED \<or> map_of (mt_properties t) k = Some ArgStringMap) (mt_required t))
     (management_tools False)"
  "list_all (\<lambda>t. list_all (\<lambda>k. (op_of t, k) \<in> set (REQUIRED @ REQUIRED_ADMIN) \<or> map_of (mt_properties t) k = Some ArgStringMap)
     (mt_required t)) (management_tools True)"
  by code_simp+

definition rejects :: "json_object \<Rightarrow> string \<Rightarrow> 'a act \<Rightarrow> bool" where
  "rejects args k m \<longleftrightarrow> (opt_str args k = None \<longrightarrow> (\<forall>st. \<exists>e. m st = (st, Inl (InvalidParams e))))"

lemma rejects_first: "rejects args k (m_bind (m_lift (req_str args k)) f)"
  by (simp add: rejects_def m_bind_def m_lift_def req_str_def m_fail_def)

lemma rejects_second:
  assumes "\<And>x. rejects args k (f x)" shows "rejects args k (m_bind (m_lift (req_str args k')) f)"
  using assms by (auto simp: rejects_def m_bind_def m_lift_def req_str_def m_fail_def m_return_def split: option.split)

lemma rejects_bind: "rejects args k m \<Longrightarrow> rejects args k (m_bind m f)"
  unfolding rejects_def
proof (intro impI allI)
  fix st assume "opt_str args k = None \<longrightarrow> (\<forall>st. \<exists>e. m st = (st, Inl (InvalidParams e)))" "opt_str args k = None"
  then obtain e where "m st = (st, Inl (InvalidParams e))" by blast
  then show "\<exists>e. m_bind m f st = (st, Inl (InvalidParams e))" by (simp add: m_bind_def)
qed

lemma rejects_tools:
  assumes "(op, k) \<in> set REQUIRED" shows "rejects args k (mg_run hv c op args)"
proof -
  let ?u = "ca_user_id c"
  have add: "rejects args ''transport'' (add_server hv ?u args)"
    unfolding add_server_def Let_def def_from_args_def by (intro rejects_second rejects_bind rejects_first)
  have ops: "mg_run hv c ''add_server'' args = add_server hv ?u args" "mg_run hv c ''edit_server'' args = edit_server hv ?u args"
    "mg_run hv c ''set_env'' args = set_env hv ?u args" "mg_run hv c ''set_config_file'' args = mg_set_config_file hv ?u args"
    "mg_run hv c ''update_server'' args = mg_update_server hv ?u args"
    "mg_run hv c ''set_git_credential'' args = mg_set_git_credential hv ?u args"
    "mg_run hv c ''delete_git_credential'' args = mg_delete_git_credential hv ?u args"
    "mg_run hv c ''enable'' args = mg_set_enabled ?u args True" "mg_run hv c ''disable'' args = mg_set_enabled ?u args False"
    "mg_run hv c ''remove'' args = mg_remove hv ?u args" "mg_run hv c ''revoke_token'' args = mg_revoke_token ?u args"
    "mg_run hv c ''create_group'' args = mg_create_group hv ?u args" "mg_run hv c ''update_group'' args = mg_update_group hv ?u args"
    "mg_run hv c ''delete_group'' args = mg_delete_group ?u args"
    by (simp_all add: mg_run_def mg_ops_def Let_def)
  note defs = add_server_def edit_server_def set_env_def mg_set_config_file_def mg_update_server_def mg_set_git_credential_def
    mg_delete_git_credential_def mg_set_enabled_def mg_remove_def mg_revoke_token_def mg_create_group_def mg_update_group_def
    mg_delete_group_def Let_def
  have tok: "rejects args ''token'' (mg_set_git_credential hv ?u args)"
    unfolding mg_set_git_credential_def by (intro rejects_second rejects_first)
  have "rejects args ''namespace'' (mg_run hv c ''add_server'' args)"
    "rejects args ''namespace'' (mg_run hv c ''edit_server'' args)"
    "rejects args ''namespace'' (mg_run hv c ''set_env'' args)"
    "rejects args ''namespace'' (mg_run hv c ''set_config_file'' args)"
    "rejects args ''namespace'' (mg_run hv c ''update_server'' args)"
    "rejects args ''host'' (mg_run hv c ''set_git_credential'' args)"
    "rejects args ''host'' (mg_run hv c ''delete_git_credential'' args)"
    "rejects args ''namespace'' (mg_run hv c ''enable'' args)"
    "rejects args ''namespace'' (mg_run hv c ''disable'' args)"
    "rejects args ''namespace'' (mg_run hv c ''remove'' args)"
    "rejects args ''token_id'' (mg_run hv c ''revoke_token'' args)"
    "rejects args ''slug'' (mg_run hv c ''create_group'' args)"
    "rejects args ''slug'' (mg_run hv c ''update_group'' args)"
    "rejects args ''slug'' (mg_run hv c ''delete_group'' args)"
    unfolding ops defs by (rule rejects_first)+
  with add tok show ?thesis using assms unfolding REQUIRED_def by (auto simp: ops(1,6)[symmetric])
qed

lemma rejects_admin_tools:
  assumes "(op, k) \<in> set REQUIRED_ADMIN" "ca_admin c" shows "rejects args k (mg_run hv c op args)"
proof -
  let ?u = "ca_user_id c"
  have adm: "rejects args k m \<Longrightarrow> rejects args k (as_admin True m)" for k m
    by (simp add: rejects_def as_admin_def require_admin_def m_bind_def m_return_def)
  have ops: "mg_run hv c ''revoke_invite'' args = as_admin True (mg_revoke_invite args)"
    "mg_run hv c ''create_recovery'' args = as_admin True (mg_create_recovery hv ?u args)"
    "mg_run hv c ''disable_user'' args = as_admin True (mg_set_user_disabled ?u args True)"
    "mg_run hv c ''enable_user'' args = as_admin True (mg_set_user_disabled ?u args False)"
    "mg_run hv c ''delete_user'' args = as_admin True (mg_delete_user hv ?u args)"
    using assms(2) by (simp_all add: mg_run_def mg_ops_def Let_def)
  note defs = mg_revoke_invite_def mg_create_recovery_def mg_set_user_disabled_def mg_delete_user_def
  have "rejects args ''id'' (mg_run hv c ''revoke_invite'' args)"
    "rejects args ''handle'' (mg_run hv c ''create_recovery'' args)"
    "rejects args ''handle'' (mg_run hv c ''disable_user'' args)"
    "rejects args ''handle'' (mg_run hv c ''enable_user'' args)"
    "rejects args ''handle'' (mg_run hv c ''delete_user'' args)"
    unfolding ops defs by (intro adm rejects_first)+
  with assms(1) show ?thesis unfolding REQUIRED_ADMIN_def by auto
qed

text \<open>C39: the schemas are enforced. A tool that is advertised to the caller refuses a call without one of
  the string arguments its schema requires, as invalid parameters, before it changes anything.\<close>

theorem required_arguments_enforced:
  assumes "t \<in> set (management_tools (ca_admin c))" "k \<in> set (mt_required t)"
    "map_of (mt_properties t) k \<noteq> Some ArgStringMap" "opt_str args k = None"
  shows "\<exists>e. mg_run hv c (op_of t) args st = (st, Inl (InvalidParams e))"
proof -
  have "(op_of t, k) \<in> set REQUIRED \<or> (op_of t, k) \<in> set REQUIRED_ADMIN \<and> ca_admin c"
    using assms(1-3) advertised_required by (cases "ca_admin c") (auto simp: list_all_iff)
  with rejects_tools rejects_admin_tools have "rejects args k (mg_run hv c (op_of t) args)" by blast
  with assms(4) show ?thesis by (simp add: rejects_def)
qed

theorem required_arguments_enforced_witness:
  "\<exists>e. mg_run demo_hv (demo_caller ''u2'' ''bob'' False) ''revoke_token'' [] demo_app = (demo_app, Inl (InvalidParams e))"
proof -
  let ?t = "mg_tool ''hub__revoke_token'' [(''token_id'', ArgString)] [''token_id'']"
  have "?t \<in> set (management_tools (ca_admin (demo_caller ''u2'' ''bob'' False)))" by (simp add: tool_decls_defs)
  moreover have "op_of ?t = ''revoke_token''" "''token_id'' \<in> set (mt_required ?t)"
    "map_of (mt_properties ?t) ''token_id'' \<noteq> Some ArgStringMap" "opt_str [] ''token_id'' = None"
    by (simp_all add: op_of_def mg_tool_def opt_str_def)
  ultimately show ?thesis using required_arguments_enforced[of ?t] by metis
qed

section \<open>What the environment argument lets through\<close>

text \<open>One environment variable smuggles in another. The \<open>env\<close> argument is written out as lines and
  parsed again, so a value with a line break is stored exactly as if the caller had passed two
  variables, the second with the name and value that follow the line break.\<close>

theorem env_value_smuggles_variable:
  "env_from_args [(''env'', JObj ((k, JStr (v1 @ CHR 0x0A # k2 @ ''='' @ v2)) # rest))] =
   env_from_args [(''env'', JObj ((k, JStr v1) # (k2, JStr v2) # rest))]"
  by (simp add: env_from_args_def split: sum.split) (cases "env_text rest"; simp)

text \<open>\<open>hub__set_env\<close> called without the \<open>env\<close> argument, which its schema requires, is not refused: it
  succeeds and deletes every stored variable of the server.\<close>

theorem set_env_without_env_wipes:
  assumes "map_of args ''env'' = None" "opt_str args ''namespace'' = Some ns"
    "List.find (\<lambda>i. i_namespace i = ns) (inst_list_for_user (ap_db st) (ca_user_id c)) = Some inst"
  shows "\<exists>st' r. mg_run hv c ''set_env'' args st = (st', Inr r) \<and> secrets_of (ap_db st') (i_id inst) = []"
proof -
  have op: "mg_run hv c ''set_env'' args = set_env hv (ca_user_id c) args" by (simp add: mg_run_def mg_ops_def Let_def)
  let ?d = "(ap_db st)\<lparr>instance_secrets := tbl_delete (\<lambda>r. is_instance_id r = i_id inst) (instance_secrets (ap_db st))\<rparr>"
  let ?st = "if i_enabled inst then restart_backend (st\<lparr>ap_db := ?d\<rparr>) (i_id inst) (ca_user_id c) else st\<lparr>ap_db := ?d\<rparr>"
  have "ap_db ?st = ?d" by (simp add: restart_backend_def notify_tools_changed_def)
  moreover have "secrets_of ?d (i_id inst) = []" by (simp add: secrets_of_def tbl_delete_def filter_empty_conv)
  moreover have "\<exists>r. set_env hv (ca_user_id c) args st = (?st, Inr r)"
    using assms by (simp add: set_env_def m_bind_def m_lift_def req_str_def m_return_def find_instance_def m_get_def m_opt_def
        env_from_args_def m_replace_env_def m_db_def replace_env_def m_restart_def m_modify_def)
  ultimately show ?thesis unfolding op by metis
qed

theorem set_env_without_env_wipes_witness:
  "\<exists>st' r. mg_run demo_hv (demo_caller ''u2'' ''bob'' False) ''set_env'' [(''namespace'', JStr ''files'')] demo_app = (st', Inr r) \<and>
     secrets_of (ap_db st') ''i2'' = []"
proof -
  let ?args = "[(''namespace'', JStr ''files'')]"
  have "map_of ?args ''env'' = None" "opt_str ?args ''namespace'' = Some ''files''" by (simp_all add: opt_str_def)
  moreover have "List.find (\<lambda>i. i_namespace i = ''files'') (inst_list_for_user (ap_db demo_app) (ca_user_id (demo_caller ''u2'' ''bob'' False)))
      = Some (mk_inst ''i2'' ''u2'' ''files'')"
    by (simp add: inst_list_for_user_def demo_app_def demo_caller_def group_demo_simps)
  moreover have "i_id (mk_inst ''i2'' ''u2'' ''files'') = ''i2''" by (simp add: mk_inst_def)
  ultimately show ?thesis using set_env_without_env_wipes by metis
qed

end
