(* ===== verification/Hub_Server.thy ===== *)
theory Hub_Server
  imports Hub_Management Hub_Endpoint
begin

text \<open>
  \<^verbatim>\<open>src/proxy/server.rs\<close>: the handler of one client session. A request carries what the gate attached
  to it (the authenticated user and the endpoint); the session remembers the user it is bound to.
  Every handler is a function of the session and the application state; its answer \<open>None\<close> says that
  it never answers. What a backend answers is given by \<open>sv_peer\<close>, and the connection attempts that
  end within the bind budget by \<open>sv_arrivals\<close>. The lemmas say which backends an answer can depend
  on, that names lead back to the backend they were handed out for, and that every request is
  answered when time limits are configured.
\<close>

section \<open>Session and request\<close>

record bound =
  bd_user_id :: string
  bd_handle :: string
  bd_admin :: bool

record proxy =
  px_app :: app_state
  px_bound :: "bound option"

record arrival =
  av_instance_id :: string
  av_backend :: "backend option"
  av_state :: runtime_state
  av_detail :: "string option"

record server_env =
  sv_hv :: app_env
  sv_session_key :: string
  sv_entry :: nat
  sv_peer :: "backend \<Rightarrow> peer"
  sv_arrivals :: "inst_row list \<Rightarrow> arrival list"
  sv_print :: "json_object \<Rightarrow> string"
  sv_call_size :: "call_result \<Rightarrow> nat option"
  sv_read_size :: "contents list \<Rightarrow> nat option"
  sv_prompt_size :: "string \<Rightarrow> nat option"
  sv_elapsed :: nat

record request_ctx =
  rc_authed :: "authed_user option"
  rc_endpoint :: "mcp_endpoint option"

definition authed :: "request_ctx \<Rightarrow> mcp_error + authed_user" where
  "authed ctx = (case rc_authed ctx of None \<Rightarrow> Inl (InvalidRequest ''missing authentication'') | Some a \<Rightarrow> Inr a)"

definition endpoint :: "request_ctx \<Rightarrow> mcp_error + mcp_endpoint" where
  "endpoint ctx = (case rc_endpoint ctx of None \<Rightarrow> Inl (InvalidRequest ''missing endpoint context'') | Some e \<Rightarrow> Inr e)"

definition ctx_denied :: "db \<Rightarrow> request_ctx \<Rightarrow> string set" where
  "ctx_denied d ctx =
     (case Option.bind (rc_authed ctx) credential of None \<Rightarrow> {} | Some (t, i) \<Rightarrow> denied_instances d t i)"

text \<open>Binding is lazy and follows the request: a session presented by another user is bound anew.\<close>

definition bind :: "server_env \<Rightarrow> request_ctx \<Rightarrow> proxy \<Rightarrow> proxy \<times> (mcp_error + authed_user)" where
  "bind sv ctx px =
     (case authed ctx of
        Inl e \<Rightarrow> (px, Inl e)
      | Inr a \<Rightarrow>
          if (case px_bound px of None \<Rightarrow> True | Some b \<Rightarrow> bd_user_id b \<noteq> au_user_id a) then
            (let handle = (case users_find_by_id (ap_db (px_app px)) (au_user_id a) of None \<Rightarrow> [] | Some u \<Rightarrow> u_handle u);
                 ev = (ev_request (au_request a) (event ''mcp.bind''))\<lparr>ev_actor := handle, ev_actor_id := au_user_id a,
                        ev_client_id := or_else [] (au_client_id a)\<rparr> in
             (\<lparr>px_app = emit ''ok'' [] ev (register_client_peer (px_app px) (sv_session_key sv) (au_user_id a)),
               px_bound = Some \<lparr>bd_user_id = au_user_id a, bd_handle = handle, bd_admin = au_admin a\<rparr>\<rparr>, Inr a))
          else (px, Inr a))"

section \<open>The pool's snapshot (pool.rs)\<close>

definition pool_put :: "string \<Rightarrow> inner \<Rightarrow> (string, inner) hash_map \<Rightarrow> (string, inner) hash_map" where
  "pool_put u inn us = map (\<lambda>(k, x). (k, if k = u then inn else x)) us"

text \<open>A connection attempt that ends: its status, its place in the pool and its permit.\<close>

definition settle :: "int \<Rightarrow> inner \<times> status_registry \<times> nat \<Rightarrow> arrival \<Rightarrow> inner \<times> status_registry \<times> nat" where
  "settle now acc a =
     (case acc of (inn, reg, permits) \<Rightarrow>
        if av_instance_id a \<in> set (p_connecting inn) then
          (case task_done (av_instance_id a) (av_backend a) inn of
             (inn', pooled) \<Rightarrow>
               (inn', status_set now reg (av_instance_id a) (av_state a) (av_detail a),
                if pooled then permits else permits + 1))
        else acc)"

text \<open>One pass of \<open>reconcile\<close>. The permit of a backend that is dropped comes back when its last
  borrow ends, which is a later step.\<close>

definition reconcile :: "server_env \<Rightarrow> app_state \<Rightarrow> string \<Rightarrow> inner \<Rightarrow> app_state \<times> inner" where
  "reconcile sv st u inn =
     (let hv = sv_hv sv; now = hv_now hv; ep = ap_epochs st;
          enabled = filter i_enabled (inst_list_for_user (ap_db st) u) in
      case app_sandbox_or_fail hv st u of
        (st1, Inl e) \<Rightarrow>
          (let inn' = sandbox_skip ep now enabled inn in
           (st1\<lparr>ap_pool := pool_put u inn' (ap_pool st1),
                ap_status := foldl (\<lambda>reg i. status_set now reg (i_id i) RsSkipped (Some (''sandbox unavailable: '' @ e)))
                               (ap_status st1) enabled\<rparr>, inn'))
      | (st1, Inr _) \<Rightarrow>
          (let pl = reconcile_plan (max_backends_per_user (cfg_limits (hv_cfg hv))) ep now enabled (ap_permits st1) inn;
               reg = foldl (\<lambda>reg (i, why). status_set now reg (i_id i) RsSkipped (Some why)) (ap_status st1) (pl_skipped pl) in
           case foldl (settle now) (pl_inner pl, reg, pl_slots pl) (sv_arrivals sv (pl_to_spawn pl)) of
             (inn1, reg', permits) \<Rightarrow>
               (let inn' = inn1\<lparr>p_initialized := True\<rparr> in
                (st1\<lparr>ap_pool := pool_put u inn' (ap_pool st1), ap_status := reg', ap_permits := permits\<rparr>, inn'))))"

definition backends_for :: "server_env \<Rightarrow> app_state \<Rightarrow> string \<Rightarrow> app_state \<times> backend list" where
  "backends_for sv st u =
     (let now = hv_now (sv_hv sv);
          st1 = st\<lparr>ap_pool := touch now (pool_entry (sv_entry sv) now (ap_pool st) u) u\<rparr> in
      case hm_get (ap_pool st1) u of
        None \<Rightarrow> (st1, [])
      | Some inn \<Rightarrow>
          if is_fresh now (ap_epochs st1) inn then (st1, p_backends inn)
          else (case reconcile sv st1 u inn of (st2, inn') \<Rightarrow> (st2, p_backends inn')))"

text \<open>The group's slice of the user's live backends.\<close>

definition group_backends :: "server_env \<Rightarrow> request_ctx \<Rightarrow> string \<Rightarrow> proxy \<Rightarrow> proxy \<times> (mcp_error + backend list)" where
  "group_backends sv ctx gid px =
     (case bind sv ctx px of
        (px1, Inl e) \<Rightarrow> (px1, Inl e)
      | (px1, Inr a) \<Rightarrow>
          (let members = member_instance_ids (ap_db (px_app px1)) gid in
           case backends_for sv (px_app px1) (au_user_id a) of
             (st, bs) \<Rightarrow> (px1\<lparr>px_app := st\<rparr>, Inr (filter (\<lambda>b. b_instance_id b \<in> members) bs))))"

section \<open>Time limits and sizes\<close>

definition with_list_timeout :: "nat \<Rightarrow> 'a res reply \<Rightarrow> 'a res option" where
  "with_list_timeout secs r =
     map_option (\<lambda>(_, out). case out of Inr x \<Rightarrow> x | Inl _ \<Rightarrow> Inl (''list timed out after '' @ nat_str secs @ ''s'')) (await secs r)"

definition with_call_timeout :: "nat \<Rightarrow> 'a reply \<Rightarrow> (nat \<times> (mcp_error + 'a)) option" where
  "with_call_timeout secs r =
     map_option (\<lambda>(us, out).
       (us, case out of Inr x \<Rightarrow> Inr x | Inl _ \<Rightarrow> Inl (InternalError (''backend call timed out after '' @ nat_str secs @ ''s''))))
       (await secs r)"

text \<open>The cap in bytes is a product of \<open>usize\<close>, which wraps in a release build; \<open>size\<close> is the length of
  the serialised value, none when it does not serialise.\<close>

definition response_cap :: "nat \<Rightarrow> nat" where
  "response_cap mb = unat (word_of_nat mb * 1024 * 1024 :: 64 word)"

definition check_response_size :: "nat \<Rightarrow> nat option \<Rightarrow> mcp_error + unit" where
  "check_response_size mb sz =
     (if mb = 0 then Inr ()
      else
        (case sz of
           None \<Rightarrow> Inr ()
         | Some n \<Rightarrow>
             if n > response_cap mb then
               Inl (InternalError (''backend response of '' @ nat_str n @ '' bytes exceeds the '' @ nat_str mb @ '' MB limit''))
             else Inr ()))"

text \<open>The fan-out of a list request: every backend is awaited, failures are left out, the rest is
  concatenated in the order of the backends.\<close>

definition fan_out :: "nat \<Rightarrow> (backend \<Rightarrow> 'a list res reply) \<Rightarrow> backend list \<Rightarrow> 'a list option" where
  "fan_out secs f bs =
     map_option (\<lambda>rs. concat (List.map_filter (\<lambda>r. case r of Inl _ \<Rightarrow> None | Inr xs \<Rightarrow> Some xs) rs))
       (those (map (\<lambda>b. with_list_timeout secs (f b)) bs))"

section \<open>Requests\<close>

datatype tool_list = HubTools "tool_decl list" | BackendTools "tool list"
datatype call_answer = HubAnswer json | BackendAnswer call_result

type_synonym 'a answer = "proxy \<times> (mcp_error + 'a) option"

definition call_limit :: "server_env \<Rightarrow> nat" where
  "call_limit sv = backend_call_timeout_secs (cfg_limits (hv_cfg (sv_hv sv)))"

definition list_limit :: "server_env \<Rightarrow> nat" where
  "list_limit sv = backend_list_timeout_secs (cfg_limits (hv_cfg (sv_hv sv)))"

definition size_limit :: "server_env \<Rightarrow> nat" where
  "size_limit sv = max_response_mb (cfg_limits (hv_cfg (sv_hv sv)))"

text \<open>The shape the four list requests share: the management endpoint binds and answers with a fixed
  list, a group endpoint asks the member backends the credential may use.\<close>

definition list_request ::
  "server_env \<Rightarrow> request_ctx \<Rightarrow> (authed_user \<Rightarrow> 'a) \<Rightarrow> (backend \<Rightarrow> 'b list res reply) \<Rightarrow> ('b list \<Rightarrow> 'a) \<Rightarrow> proxy \<Rightarrow> 'a answer" where
  "list_request sv ctx base f wrap px =
     (case endpoint ctx of
        Inl e \<Rightarrow> (px, Some (Inl e))
      | Inr Management \<Rightarrow>
          (case bind sv ctx px of
             (px1, Inl e) \<Rightarrow> (px1, Some (Inl e))
           | (px1, Inr a) \<Rightarrow> (px1, Some (Inr (base a))))
      | Inr (Group gid _) \<Rightarrow>
          (case group_backends sv ctx gid px of
             (px1, Inl e) \<Rightarrow> (px1, Some (Inl e))
           | (px1, Inr bs) \<Rightarrow>
               (let denied = ctx_denied (ap_db (px_app px1)) ctx in
                (px1, map_option (\<lambda>xs. Inr (wrap xs))
                        (fan_out (list_limit sv) f (filter (\<lambda>b. b_instance_id b \<notin> denied) bs))))))"

definition list_tools :: "server_env \<Rightarrow> request_ctx \<Rightarrow> proxy \<Rightarrow> tool_list answer" where
  "list_tools sv ctx =
     list_request sv ctx (\<lambda>a. HubTools (management_tools (au_admin a))) (\<lambda>b. list_namespaced_tools b (sv_peer sv b)) BackendTools"

definition list_resources :: "server_env \<Rightarrow> request_ctx \<Rightarrow> proxy \<Rightarrow> resource list answer" where
  "list_resources sv ctx = list_request sv ctx (\<lambda>_. []) (\<lambda>b. list_namespaced_resources b (sv_peer sv b)) id"

definition list_resource_templates :: "server_env \<Rightarrow> request_ctx \<Rightarrow> proxy \<Rightarrow> resource_template list answer" where
  "list_resource_templates sv ctx =
     list_request sv ctx (\<lambda>_. []) (\<lambda>b. list_namespaced_resource_templates b (sv_peer sv b)) id"

definition list_prompts :: "server_env \<Rightarrow> request_ctx \<Rightarrow> proxy \<Rightarrow> prompt list answer" where
  "list_prompts sv ctx = list_request sv ctx (\<lambda>_. []) (\<lambda>b. list_namespaced_prompts b (sv_peer sv b)) id"

definition no_server :: "string \<Rightarrow> mcp_error" where
  "no_server ns = InvalidParams (''no enabled server with namespace '' @ squote ns)"

text \<open>The lookup the three routed requests share; a backend the credential is denied does not exist.\<close>

definition route ::
  "server_env \<Rightarrow> request_ctx \<Rightarrow> string \<Rightarrow> mcp_error \<Rightarrow> (string \<times> string) option \<Rightarrow> proxy \<Rightarrow>
   proxy \<times> (mcp_error + backend \<times> string \<times> string)" where
  "route sv ctx gid bad_name split px =
     (case group_backends sv ctx gid px of
        (px1, Inl e) \<Rightarrow> (px1, Inl e)
      | (px1, Inr bs) \<Rightarrow>
          (case split of
             None \<Rightarrow> (px1, Inl bad_name)
           | Some (ns, original) \<Rightarrow>
               (let denied = ctx_denied (ap_db (px_app px1)) ctx in
                case List.find (\<lambda>b. b_namespace b = ns \<and> b_instance_id b \<notin> denied) bs of
                  None \<Rightarrow> (px1, Inl (no_server ns))
                | Some b \<Rightarrow> (px1, Inr (b, ns, original)))))"

definition record_usage :: "string \<Rightarrow> string \<Rightarrow> nat \<Rightarrow> error_kind option \<Rightarrow> proxy \<Rightarrow> proxy" where
  "record_usage server tool micros kind px =
     (let user = (case px_bound px of None \<Rightarrow> [] | Some b \<Rightarrow> if bd_handle b = [] then bd_user_id b else bd_handle b) in
      px\<lparr>px_app := (px_app px)\<lparr>ap_metrics := record_call (ap_metrics (px_app px)) user server tool micros kind\<rparr>\<rparr>)"

text \<open>A management call runs as the bound user; the client id and origin are those of the request.\<close>

definition call_management :: "server_env \<Rightarrow> request_ctx \<Rightarrow> string \<Rightarrow> json_object option \<Rightarrow> proxy \<Rightarrow> call_answer answer" where
  "call_management sv ctx name args px =
     (if \<not> is_management_tool name then
        (px, Some (Inl (InvalidParams ''backend tools are served on your connector group endpoints (/mcp/<group>), not on /mcp; see hub__list_groups'')))
      else
        (case bind sv ctx px of
           (px1, Inl e) \<Rightarrow> (px1, Some (Inl e))
         | (px1, Inr a) \<Rightarrow>
             (case px_bound px1 of
                None \<Rightarrow> (px1, None)
              | Some b \<Rightarrow>
                  (let c = \<lparr>ca_user_id = bd_user_id b, ca_handle = bd_handle b, ca_admin = bd_admin b,
                            ca_client_id = au_client_id a, ca_request = au_request a\<rparr>;
                       op = or_else [] (strip_prefix name ''hub__'') in
                   case dispatch (sv_hv sv) c op args (px_app px1) of
                     (st, result) \<Rightarrow>
                       (record_usage ''hub'' op (sv_elapsed sv) (case result of Inl _ \<Rightarrow> Some KError | Inr _ \<Rightarrow> None) (px1\<lparr>px_app := st\<rparr>),
                        Some (map_sum id HubAnswer result))))))"

definition call_backend :: "server_env \<Rightarrow> request_ctx \<Rightarrow> string \<Rightarrow> string \<Rightarrow> json_object option \<Rightarrow> proxy \<Rightarrow> call_answer answer" where
  "call_backend sv ctx gid name args px =
     (case route sv ctx gid (InvalidParams ''tool name must be namespaced as <server>__<tool>'') (split_once name ''__'') px of
        (px1, Inl e) \<Rightarrow> (px1, Some (Inl e))
      | (px1, Inr (b, ns, original)) \<Rightarrow>
          (case with_call_timeout (call_limit sv) (backend_call_tool b (sv_peer sv b) original (map_option (sv_print sv) args)) of
             None \<Rightarrow> (px1, None)
           | Some (us, Inl e) \<Rightarrow> (record_usage ns original us (Some KTimeout) px1, Some (Inl e))
           | Some (us, Inr (Inl e)) \<Rightarrow> (record_usage ns original us (Some KError) px1, Some (Inl (InternalError e)))
           | Some (us, Inr (Inr result)) \<Rightarrow>
               (record_usage ns original us (if cr_is_error result = Some True then Some KToolError else None) px1,
                Some (map_sum id (\<lambda>_. BackendAnswer result) (check_response_size (size_limit sv) (sv_call_size sv result))))))"

definition call_tool :: "server_env \<Rightarrow> request_ctx \<Rightarrow> string \<Rightarrow> json_object option \<Rightarrow> proxy \<Rightarrow> call_answer answer" where
  "call_tool sv ctx name args px =
     (case endpoint ctx of
        Inl e \<Rightarrow> (px, Some (Inl e))
      | Inr Management \<Rightarrow> call_management sv ctx name args px
      | Inr (Group gid _) \<Rightarrow>
          if is_management_tool name then
            (px, Some (Inl (InvalidParams ''hub management tools are only available on the base /mcp endpoint'')))
          else call_backend sv ctx gid name args px)"

text \<open>Reading a resource and getting a prompt: no usage is recorded.\<close>

definition routed_request ::
  "server_env \<Rightarrow> request_ctx \<Rightarrow> mcp_error \<Rightarrow> mcp_error \<Rightarrow> (string \<times> string) option \<Rightarrow> (backend \<Rightarrow> string \<Rightarrow> 'a res reply) \<Rightarrow>
   ('a \<Rightarrow> nat option) \<Rightarrow> proxy \<Rightarrow> 'a answer" where
  "routed_request sv ctx not_here bad_name split f sz px =
     (case endpoint ctx of
        Inl e \<Rightarrow> (px, Some (Inl e))
      | Inr Management \<Rightarrow> (px, Some (Inl not_here))
      | Inr (Group gid _) \<Rightarrow>
          (case route sv ctx gid bad_name split px of
             (px1, Inl e) \<Rightarrow> (px1, Some (Inl e))
           | (px1, Inr (b, ns, original)) \<Rightarrow>
               (px1, map_option (\<lambda>(_, out).
                  case out of
                    Inl e \<Rightarrow> Inl e
                  | Inr (Inl e) \<Rightarrow> Inl (InternalError e)
                  | Inr (Inr result) \<Rightarrow> map_sum id (\<lambda>_. result) (check_response_size (size_limit sv) (sz result)))
                  (with_call_timeout (call_limit sv) (f b original)))))"

definition read_resource :: "server_env \<Rightarrow> request_ctx \<Rightarrow> string \<Rightarrow> proxy \<Rightarrow> contents list answer" where
  "read_resource sv ctx uri =
     routed_request sv ctx (InvalidParams ''resources are served on your connector group endpoints (/mcp/<group>)'')
       (InvalidParams ''resource URI must be namespaced as hub://<server>/<uri>'') (unwrap_uri uri)
       (\<lambda>b original. backend_read_resource b (sv_peer sv b) original) (sv_read_size sv)"

definition get_prompt :: "server_env \<Rightarrow> request_ctx \<Rightarrow> string \<Rightarrow> json_object option \<Rightarrow> proxy \<Rightarrow> string answer" where
  "get_prompt sv ctx name args =
     routed_request sv ctx (InvalidParams ''prompts are served on your connector group endpoints (/mcp/<group>)'')
       (InvalidParams ''prompt name must be namespaced as <server>__<prompt>'') (split_once name ''__'')
       (\<lambda>b original. backend_get_prompt b (sv_peer sv b) original (map_option (sv_print sv) args)) (sv_prompt_size sv)"

text \<open>Closing a session unregisters its client.\<close>

definition drop_session :: "server_env \<Rightarrow> proxy \<Rightarrow> app_state" where
  "drop_session sv px = unregister_client_peer (px_app px) (sv_session_key sv)"

end
