(* ===== verification/Hub_Server_Safety.thy ===== *)
theory Hub_Server_Safety
  imports Hub_Server Hub_Isolation
begin

text \<open>
  Properties of the request handlers of \<^verbatim>\<open>src/proxy/server.rs\<close>: every request is answered, an answer
  depends only on the backends of its group that the credential may use, listed tools can be
  called, and requests act as the user who makes them.
\<close>

section \<open>All requests\<close>

datatype mcp_request = ListTools | CallTool string "json_object option" | ListResources | ListTemplates
  | ReadResource string | ListPrompts | GetPrompt string "json_object option"

datatype mcp_response = ToolsAre tool_list | CallGives call_answer | ResourcesAre "resource list"
  | TemplatesAre "resource_template list" | ResourceIs "contents list" | PromptsAre "prompt list" | PromptIs string

definition map_answer :: "('a \<Rightarrow> 'b) \<Rightarrow> 'a answer \<Rightarrow> 'b answer" where
  "map_answer f r = (fst r, map_option (map_sum id f) (snd r))"

primrec handle :: "server_env \<Rightarrow> request_ctx \<Rightarrow> mcp_request \<Rightarrow> proxy \<Rightarrow> mcp_response answer" where
  "handle sv ctx ListTools px = map_answer ToolsAre (list_tools sv ctx px)"
| "handle sv ctx (CallTool name args) px = map_answer CallGives (call_tool sv ctx name args px)"
| "handle sv ctx ListResources px = map_answer ResourcesAre (list_resources sv ctx px)"
| "handle sv ctx ListTemplates px = map_answer TemplatesAre (list_resource_templates sv ctx px)"
| "handle sv ctx (ReadResource uri) px = map_answer ResourceIs (read_resource sv ctx uri px)"
| "handle sv ctx ListPrompts px = map_answer PromptsAre (list_prompts sv ctx px)"
| "handle sv ctx (GetPrompt name args) px = map_answer PromptIs (get_prompt sv ctx name args px)"

section \<open>Binding and snapshots\<close>

lemma bind_Inr:
  assumes "bind sv ctx px = (px1, Inr a)"
  shows "rc_authed ctx = Some a" "\<exists>b. px_bound px1 = Some b \<and> bd_user_id b = au_user_id a"
    "ap_db (px_app px1) = ap_db (px_app px)"
  using assms
  by (auto simp: bind_def authed_def Let_def emit_def register_client_peer_def split: option.splits if_splits)

lemma app_sandbox_db: "app_sandbox_or_fail hv st u = (st', r) \<Longrightarrow> ap_db st' = ap_db st"
  by (auto simp: app_sandbox_or_fail_def Let_def)

lemma backends_for_db: "backends_for sv st u = (st', bs) \<Longrightarrow> ap_db st' = ap_db st"
  by (auto simp: backends_for_def reconcile_def Let_def split: option.splits if_splits prod.splits sum.splits dest: app_sandbox_db)

lemma group_backends_Inr:
  assumes "group_backends sv ctx gid px = (px1, Inr bs)"
  shows "ap_db (px_app px1) = ap_db (px_app px)" "\<forall>b\<in>set bs. b_instance_id b \<in> member_instance_ids (ap_db (px_app px)) gid"
  using assms
  by (auto simp: group_backends_def Let_def split: prod.splits sum.splits dest!: bind_Inr(3) backends_for_db)

text \<open>None of this looks at what the backends answer.\<close>

lemma peer_indep:
  "bind (sv\<lparr>sv_peer := p\<rparr>) ctx px = bind sv ctx px"
  "group_backends (sv\<lparr>sv_peer := p\<rparr>) ctx gid px = group_backends sv ctx gid px"
  "route (sv\<lparr>sv_peer := p\<rparr>) ctx gid e sp px = route sv ctx gid e sp px"
  "call_management (sv\<lparr>sv_peer := p\<rparr>) ctx name args px = call_management sv ctx name args px"
  "list_limit (sv\<lparr>sv_peer := p\<rparr>) = list_limit sv" "call_limit (sv\<lparr>sv_peer := p\<rparr>) = call_limit sv"
  "size_limit (sv\<lparr>sv_peer := p\<rparr>) = size_limit sv"
proof -
  have sel: "sv_session_key (sv\<lparr>sv_peer := p\<rparr>) = sv_session_key sv" "sv_hv (sv\<lparr>sv_peer := p\<rparr>) = sv_hv sv"
    "sv_entry (sv\<lparr>sv_peer := p\<rparr>) = sv_entry sv" "sv_arrivals (sv\<lparr>sv_peer := p\<rparr>) = sv_arrivals sv"
    "sv_elapsed (sv\<lparr>sv_peer := p\<rparr>) = sv_elapsed sv" by simp_all
  show b: "bind (sv\<lparr>sv_peer := p\<rparr>) ctx px = bind sv ctx px" unfolding bind_def sel ..
  have r: "reconcile (sv\<lparr>sv_peer := p\<rparr>) st u inn = reconcile sv st u inn" for st u inn unfolding reconcile_def sel ..
  have bf: "backends_for (sv\<lparr>sv_peer := p\<rparr>) st u = backends_for sv st u" for st u unfolding backends_for_def sel r ..
  show g: "group_backends (sv\<lparr>sv_peer := p\<rparr>) ctx gid px = group_backends sv ctx gid px" unfolding group_backends_def b bf ..
  show "route (sv\<lparr>sv_peer := p\<rparr>) ctx gid e sp px = route sv ctx gid e sp px" unfolding route_def g ..
  show "call_management (sv\<lparr>sv_peer := p\<rparr>) ctx name args px = call_management sv ctx name args px"
    unfolding call_management_def b sel ..
qed (simp_all add: list_limit_def call_limit_def size_limit_def)

lemma route_Inr:
  assumes "route sv ctx gid e sp px = (px1, Inr (b, ns, n))"
  shows "\<exists>bs. group_backends sv ctx gid px = (px1, Inr bs) \<and> b \<in> set bs \<and> sp = Some (ns, n) \<and> b_namespace b = ns \<and>
    b_instance_id b \<notin> ctx_denied (ap_db (px_app px)) ctx \<and> b_instance_id b \<in> member_instance_ids (ap_db (px_app px)) gid"
proof -
  from assms obtain bs where g: "group_backends sv ctx gid px = (px1, Inr bs)" and sp: "sp = Some (ns, n)"
    and f: "List.find (\<lambda>b. b_namespace b = ns \<and> b_instance_id b \<notin> ctx_denied (ap_db (px_app px1)) ctx) bs = Some b"
    by (auto simp: route_def Let_def split: prod.splits sum.splits option.splits)
  from find_SomeD[OF f] group_backends_Inr[OF g] g sp show ?thesis by auto
qed

section \<open>Properties\<close>


text \<open>A session of user \<open>u1\<close> on the group endpoint \<open>ops\<close>, with one backend in the pool that never answers.\<close>

definition mk_backend :: "string \<Rightarrow> string \<Rightarrow> backend" where
  "mk_backend i ns = \<lparr>b_arc = 0, b_instance_id = i, b_namespace = ns, b_display_name = ns, b_closed = False\<rparr>"

definition hung_peer :: peer where
  "hung_peer = \<lparr>pe_info = None, pe_list_tools = Hang, pe_list_resources = Hang, pe_list_templates = Hang, pe_list_prompts = Hang,
     pe_call_tool = (\<lambda>_ _. Hang), pe_read_resource = (\<lambda>_. Hang), pe_get_prompt = (\<lambda>_ _. Hang)\<rparr>"

definition one_tool_peer :: peer where
  "one_tool_peer = hung_peer\<lparr>pe_list_tools := Reply 5 (Inr [\<lparr>tl_name = ''get'', tl_payload = []\<rparr>]),
     pe_call_tool := (\<lambda>n _. Reply 7 (Inr \<lparr>cr_is_error = None, cr_payload = n\<rparr>))\<rparr>"

definition demo_sv :: "(backend \<Rightarrow> peer) \<Rightarrow> server_env" where
  "demo_sv p = \<lparr>sv_hv = demo_hv, sv_session_key = ''s1'', sv_entry = 1, sv_peer = p, sv_arrivals = (\<lambda>_. []), sv_print = (\<lambda>_. []),
     sv_call_size = (\<lambda>_. None), sv_read_size = (\<lambda>_. None), sv_prompt_size = (\<lambda>_. None), sv_elapsed = 3\<rparr>"

definition demo_px :: proxy where
  "demo_px = \<lparr>px_app = demo_app\<lparr>ap_db := group_demo_db\<lparr>connector_group_members :=
       [\<lparr>gm_group_id = ''g1'', gm_instance_id = ''i1'', gm_created_at = 0\<rparr>]\<rparr>,
     ap_pool := [(''u1'', (inner_new 1 9)\<lparr>p_initialized := True, p_backends := [mk_backend ''i1'' ''zabbix'', mk_backend ''i9'' ''other'']\<rparr>)]\<rparr>,
     px_bound = None\<rparr>"

definition demo_ctx :: request_ctx where
  "demo_ctx = \<lparr>rc_authed = Some \<lparr>au_user_id = ''u1'', au_admin = True, au_client_id = Some ''c'', au_pat_id = None,
       au_request = \<lparr>ri_ip = None, ri_user_agent = None\<rparr>\<rparr>,
     rc_endpoint = Some (Group ''g1'' ''ops'')\<rparr>"


text \<open>Two ways for the backends to answer that agree on those a request may reach.\<close>

definition agree :: "request_ctx \<Rightarrow> proxy \<Rightarrow> (backend \<Rightarrow> peer) \<Rightarrow> (backend \<Rightarrow> peer) \<Rightarrow> bool" where
  "agree ctx px p q \<longleftrightarrow> (\<forall>b gid slug. rc_endpoint ctx = Some (Group gid slug) \<and>
     b_instance_id b \<in> member_instance_ids (ap_db (px_app px)) gid \<and> b_instance_id b \<notin> ctx_denied (ap_db (px_app px)) ctx \<longrightarrow> p b = q b)"

lemma agree_listed:
  assumes "agree ctx px p q" "endpoint ctx = Inr (Group gid slug)" "group_backends sv ctx gid px = (px1, Inr bs)" "b \<in> set bs"
    "b_instance_id b \<notin> ctx_denied (ap_db (px_app px1)) ctx"
  shows "p b = q b"
  using assms group_backends_Inr[OF assms(3)] by (auto simp: agree_def endpoint_def split: option.splits)

lemma agree_routed:
  assumes "agree ctx px p q" "endpoint ctx = Inr (Group gid slug)" "route sv ctx gid e sp px = (px1, Inr (b, ns, n))"
  shows "p b = q b"
  using assms(1,2) route_Inr[OF assms(3)] by (auto simp: agree_def endpoint_def split: option.splits)

lemma list_request_agree:
  assumes "agree ctx px p (sv_peer sv)"
  shows "list_request (sv\<lparr>sv_peer := p\<rparr>) ctx base (\<lambda>b. f b (p b)) w px = list_request sv ctx base (\<lambda>b. f b (sv_peer sv b)) w px"
proof -
  have "fan_out secs (\<lambda>b. f b (p b)) (filter (\<lambda>b. b_instance_id b \<notin> ctx_denied (ap_db (px_app px1)) ctx) bs) =
      fan_out secs (\<lambda>b. f b (sv_peer sv b)) (filter (\<lambda>b. b_instance_id b \<notin> ctx_denied (ap_db (px_app px1)) ctx) bs)"
    if "endpoint ctx = Inr (Group gid slug)" "group_backends sv ctx gid px = (px1, Inr bs)" for secs gid slug px1 bs
  proof -
    have "map (\<lambda>b. with_list_timeout secs (f b (p b))) (filter (\<lambda>b. b_instance_id b \<notin> ctx_denied (ap_db (px_app px1)) ctx) bs) =
        map (\<lambda>b. with_list_timeout secs (f b (sv_peer sv b))) (filter (\<lambda>b. b_instance_id b \<notin> ctx_denied (ap_db (px_app px1)) ctx) bs)"
      using agree_listed[OF assms that] by (intro map_cong) auto
    then show ?thesis unfolding fan_out_def by (rule arg_cong)
  qed
  then show ?thesis
    unfolding list_request_def peer_indep by (auto simp: Let_def split: sum.split mcp_endpoint.split prod.split)
qed

lemma routed_request_agree:
  assumes "agree ctx px p (sv_peer sv)"
  shows "routed_request (sv\<lparr>sv_peer := p\<rparr>) ctx e1 e2 sp (\<lambda>b n. f b (p b) n) s px =
    routed_request sv ctx e1 e2 sp (\<lambda>b n. f b (sv_peer sv b) n) s px"
  using agree_routed[OF assms] unfolding routed_request_def peer_indep
  by (auto split: sum.split mcp_endpoint.split prod.split)

lemma call_tool_agree:
  assumes "agree ctx px p (sv_peer sv)"
  shows "call_tool (sv\<lparr>sv_peer := p\<rparr>) ctx name args px = call_tool sv ctx name args px"
proof -
  let ?sv = "sv\<lparr>sv_peer := p\<rparr>"
  have sel: "sv_print ?sv = sv_print sv" "sv_call_size ?sv = sv_call_size sv" "sv_peer ?sv = p" by simp_all
  have "call_backend ?sv ctx gid name args px = call_backend sv ctx gid name args px" if "endpoint ctx = Inr (Group gid slug)" for gid slug
    using agree_routed[OF assms that] unfolding call_backend_def peer_indep sel by (auto split: sum.split prod.split)
  then show ?thesis unfolding call_tool_def peer_indep by (auto split: sum.split mcp_endpoint.split)
qed



section \<open>Names\<close>

lemma those_Some: "those xs = Some ys \<longleftrightarrow> xs = map Some ys"
proof (induction xs arbitrary: ys)
  case Nil
  then show ?case by auto
next
  case (Cons x xs)
  then show ?case by (cases x; cases ys) auto
qed

lemma mem_successes:
  "x \<in> set (concat (List.map_filter (\<lambda>r. case r of Inl _ \<Rightarrow> None | Inr ys \<Rightarrow> Some ys) rs)) \<longleftrightarrow> (\<exists>ys. Inr ys \<in> set rs \<and> x \<in> set ys)"
proof (induction rs)
  case (Cons r rs)
  then show ?case by (cases r) (auto simp: List.map_filter_simps)
qed (simp add: List.map_filter_simps)

lemma fan_out_mem:
  assumes "fan_out secs f bs = Some xs" "x \<in> set xs"
  shows "\<exists>b us ys. b \<in> set bs \<and> f b = Reply us (Inr ys) \<and> x \<in> set ys"
proof -
  from assms(1) obtain rs where rs: "map (\<lambda>b. with_list_timeout secs (f b)) bs = map Some rs"
    and xs: "xs = concat (List.map_filter (\<lambda>r. case r of Inl _ \<Rightarrow> None | Inr ys \<Rightarrow> Some ys) rs)"
    by (auto simp: fan_out_def those_Some)
  from assms(2) xs obtain ys where "Inr ys \<in> set rs" "x \<in> set ys"
    using mem_successes[of x rs] by blast
  then have "Some (Inr ys) \<in> set (map Some rs)" by simp
  then obtain b where b: "b \<in> set bs" "with_list_timeout secs (f b) = Some (Inr ys)" unfolding rs[symmetric] by auto
  then obtain us where "f b = Reply us (Inr ys)"
    by (cases "f b") (auto simp: with_list_timeout_def split: if_splits)
  with b \<open>x \<in> set ys\<close> show ?thesis by blast
qed

lemma routable_not_hub:
  assumes "routable ns" "ns \<noteq> ''hub''" shows "\<not> is_management_tool (namespaced ns t)"
proof
  assume "is_management_tool (namespaced ns t)"
  then obtain x where x: "namespaced ns t = namespaced ''hub'' x"
    by (auto simp: is_management_tool_def starts_with_iff namespaced_def)
  have "routable ''hub''" by code_simp
  from tool_names.enc_inj[OF assms(1) this x] assms(2) show False by simp
qed

lemma call_routed:
  assumes "rc_endpoint ctx = Some (Group gid slug)" "group_backends sv ctx gid px = (px1, Inr bs)" "b \<in> set bs"
    "b_instance_id b \<notin> ctx_denied (ap_db (px_app px1)) ctx" "distinct (map b_namespace bs)" "routable (b_namespace b)"
    "b_namespace b \<noteq> ''hub''"
    "with_call_timeout (call_limit sv) (backend_call_tool b (sv_peer sv b) n (map_option (sv_print sv) args)) = Some (us, Inr (Inr res))"
    "check_response_size (size_limit sv) (sv_call_size sv res) = Inr ()"
  shows "snd (call_tool sv ctx (namespaced (b_namespace b) n) args px) = Some (Inr (BackendAnswer res))"
proof -
  have "route sv ctx gid e (split_once (namespaced (b_namespace b) n) ''__'') px = (px1, Inr (b, b_namespace b, n))" for e
    using tool_names.route_back[of b bs "\<lambda>b. b_instance_id b \<notin> ctx_denied (ap_db (px_app px1)) ctx" b_namespace n] assms(2-6)
    by (auto simp: route_def split_namespaced)
  with assms(1,8,9) routable_not_hub[OF assms(6,7)] show ?thesis
    by (simp add: call_tool_def endpoint_def call_backend_def)
qed



text \<open>A namespace that contains two underscores in a row, or ends in one, is accepted when the server
  is created, and its tools are listed, but no call ever reaches it: the name is read as one of a
  shorter namespace, so the call fails or goes to another server.\<close>

theorem unroutable_never_called:
  assumes "\<not> routable (b_namespace b)"
    "route sv ctx gid e (split_once (namespaced (b_namespace b) t) ''__'') px = (px1, Inr (b', ns, n))"
  shows "b_namespace b' \<noteq> b_namespace b \<and> validate_namespace ''a__b'' = Inr () \<and> \<not> routable ''a__b'' \<and>
    validate_namespace ''a_'' = Inr () \<and> \<not> routable ''a_''"
proof -
  from unroutable_split[OF assms(1)] obtain ns' t' where "split_once (namespaced (b_namespace b) t) ''__'' = Some (ns', t')"
    "length ns' < length (b_namespace b)" by blast
  with route_Inr[OF assms(2)] have "b_namespace b' \<noteq> b_namespace b" by auto
  moreover have "validate_namespace ''a__b'' = Inr ()" "\<not> routable ''a__b''" "validate_namespace ''a_'' = Inr ()" "\<not> routable ''a_''"
    by code_simp+
  ultimately show ?thesis by blast
qed

definition clash_px :: proxy where
  "clash_px = \<lparr>px_app = demo_app\<lparr>ap_db := group_demo_db\<lparr>connector_group_members :=
       [\<lparr>gm_group_id = ''g1'', gm_instance_id = ''i1'', gm_created_at = 0\<rparr>, \<lparr>gm_group_id = ''g1'', gm_instance_id = ''i3'', gm_created_at = 0\<rparr>]\<rparr>,
     ap_pool := [(''u1'', (inner_new 1 9)\<lparr>p_initialized := True, p_backends := [mk_backend ''i1'' ''a'', mk_backend ''i3'' ''a__b'']\<rparr>)]\<rparr>,
     px_bound = None\<rparr>"

theorem unroutable_never_called_witness:
  "\<exists>px1. route (demo_sv (\<lambda>_. one_tool_peer)) demo_ctx ''g1'' (no_server []) (split_once (namespaced ''a__b'' ''get'') ''__'') clash_px =
     (px1, Inr (mk_backend ''i1'' ''a'', ''a'', ''b__get'')) \<and> b_namespace (mk_backend ''i1'' ''a'') \<noteq> ''a__b''"
proof -
  let ?r = "route (demo_sv (\<lambda>_. one_tool_peer)) demo_ctx ''g1'' (no_server []) (split_once (namespaced ''a__b'' ''get'') ''__'') clash_px"
  have "snd ?r = Inr (mk_backend ''i1'' ''a'', ''a'', ''b__get'')" by code_simp
  then obtain px1 where r: "?r = (px1, Inr (mk_backend ''i1'' ''a'', ''a'', ''b__get''))" by (metis prod.collapse)
  have n: "\<not> routable (b_namespace (mk_backend ''i3'' ''a__b''))" by code_simp
  have "b_namespace (mk_backend ''i3'' ''a__b'') = ''a__b''" by (simp add: mk_backend_def)
  with unroutable_never_called[OF n] r show ?thesis by metis
qed

section \<open>On whose behalf\<close>

lemma bind_caller:
  assumes "bind sv ctx px = (px1, Inr a)" "px_bound px1 = Some b"
  shows "bd_user_id b = au_user_id a \<and> (bd_admin b \<longrightarrow> au_admin a \<or> px_bound px = Some b)"
  using assms by (auto simp: bind_def authed_def Let_def split: option.splits if_splits)

lemma bind_db: "ap_db (px_app (fst (bind sv ctx px))) = ap_db (px_app px)"
  by (auto simp: bind_def authed_def Let_def emit_def register_client_peer_def split: sum.split option.split)

lemma group_backends_db: "ap_db (px_app (fst (group_backends sv ctx gid px))) = ap_db (px_app px)"
  using bind_db[of sv ctx px]
  by (auto simp: group_backends_def Let_def split: prod.split sum.split dest: backends_for_db)

lemma route_db: "ap_db (px_app (fst (route sv ctx gid e sp px))) = ap_db (px_app px)"
  using group_backends_db[of sv ctx gid px]
  by (auto simp: route_def Let_def split: prod.split sum.split option.split)

lemma record_usage_db: "ap_db (px_app (record_usage s t us k px)) = ap_db (px_app px)"
  by (simp add: record_usage_def Let_def)

lemma list_request_db: "ap_db (px_app (fst (list_request sv ctx base f w px))) = ap_db (px_app px)"
  using group_backends_db[of sv ctx _ px] bind_db[of sv ctx px]
  by (auto simp: list_request_def Let_def split: prod.split sum.split mcp_endpoint.split) (metis fst_conv)+

lemma routed_request_db: "ap_db (px_app (fst (routed_request sv ctx e1 e2 sp f s px))) = ap_db (px_app px)"
  using route_db[of sv ctx _ e2 sp px]
  by (auto simp: routed_request_def split: prod.split sum.split mcp_endpoint.split) (metis fst_conv)+

lemma call_backend_db: "ap_db (px_app (fst (call_backend sv ctx gid name args px))) = ap_db (px_app px)"
  using route_db[of sv ctx gid _ _ px]
  by (auto simp: call_backend_def record_usage_db split: prod.split sum.split option.split) (metis fst_conv)+

lemma call_management_isolated:
  assumes "rc_authed ctx = Some a" "\<not> au_admin a" "\<And>b. px_bound px = Some b \<Longrightarrow> bd_user_id b = au_user_id a \<Longrightarrow> \<not> bd_admin b"
    "ids_unique (ap_db (px_app px))"
  shows "unseen (au_user_id a) (ap_db (px_app px)) (ap_db (px_app (fst (call_management sv ctx name args px))))"
proof (cases "is_management_tool name")
  case True
  obtain px1 x where b: "bind sv ctx px = (px1, x)" by (cases "bind sv ctx px")
  have db: "ap_db (px_app px1) = ap_db (px_app px)" using bind_db[of sv ctx px] b by simp
  show ?thesis
  proof (cases x)
    case (Inr a')
    with b bind_Inr[of sv ctx px px1 a'] assms(1) obtain bd where a: "a' = a" and bd: "px_bound px1 = Some bd" by auto
    with b Inr bind_caller[of sv ctx px px1 a bd] assms(2,3) have c: "bd_user_id bd = au_user_id a" "\<not> bd_admin bd" by auto
    let ?c = "\<lparr>ca_user_id = bd_user_id bd, ca_handle = bd_handle bd, ca_admin = bd_admin bd, ca_client_id = au_client_id a,
      ca_request = au_request a\<rparr>" and ?op = "or_else [] (strip_prefix name ''hub__'')"
    have iso: "others (au_user_id a) (fst (dispatch (sv_hv sv) ?c ?op args (px_app px1))) = others (au_user_id a) (px_app px1)"
      "ids_unique (ap_db (fst (dispatch (sv_hv sv) ?c ?op args (px_app px1))))"
      using dispatch_isolated[of "px_app px1" ?c "sv_hv sv" ?op args] c db assms(4) by simp_all
    from iso(1) have "ap_db (others (au_user_id a) (fst (dispatch (sv_hv sv) ?c ?op args (px_app px1)))) = ap_db (others (au_user_id a) (px_app px1))"
      by simp
    with True b Inr a bd db iso(2) show ?thesis
      by (auto simp: call_management_def Let_def record_usage_db others_def unseen_def split: prod.split)
  qed (simp add: call_management_def True b db)
qed (simp add: call_management_def)

lemma handle_unseen:
  assumes "rc_authed ctx = Some a" "\<not> au_admin a" "\<And>b. px_bound px = Some b \<Longrightarrow> bd_user_id b = au_user_id a \<Longrightarrow> \<not> bd_admin b"
    "ids_unique (ap_db (px_app px))"
  shows "unseen (au_user_id a) (ap_db (px_app px)) (ap_db (px_app (fst (handle sv ctx rq px))))"
proof -
  have "unseen (au_user_id a) (ap_db (px_app px)) (ap_db (px_app (fst (call_tool sv ctx name args px))))" for name args
    using call_management_isolated[OF assms, of sv name args]
    by (auto simp: call_tool_def call_backend_db split: sum.split mcp_endpoint.split)
  then show ?thesis
    by (cases rq) (simp_all add: map_answer_def list_tools_def list_resources_def list_resource_templates_def list_prompts_def
        read_resource_def get_prompt_def list_request_db routed_request_db)
qed

text \<open>C12: requests act as the user who makes them. Whatever request a user without administrator rights
  sends, on any endpoint and through a session that any user may have bound before, no database
  row of another user changes.\<close>

theorem requests_act_as_requester:
  assumes "rc_authed ctx = Some a" "\<not> au_admin a" "\<And>b. px_bound px = Some b \<Longrightarrow> bd_user_id b = au_user_id a \<Longrightarrow> \<not> bd_admin b"
    "ids_unique (ap_db (px_app px))"
  shows "others_db (au_user_id a) (ap_db (px_app (fst (handle sv ctx rq px)))) = others_db (au_user_id a) (ap_db (px_app px))"
  using handle_unseen[OF assms] by (simp add: unseen_def)

theorem requests_act_as_requester_witness:
  "let ctx = demo_ctx\<lparr>rc_authed := Some \<lparr>au_user_id = ''u2'', au_admin = False, au_client_id = None, au_pat_id = None,
       au_request = \<lparr>ri_ip = None, ri_user_agent = None\<rparr>\<rparr>, rc_endpoint := Some Management\<rparr>;
     px = demo_px\<lparr>px_bound := Some \<lparr>bd_user_id = ''u1'', bd_handle = ''ann'', bd_admin = True\<rparr>\<rparr> in
   others_db ''u2'' (ap_db (px_app (fst (handle (demo_sv (\<lambda>_. hung_peer)) ctx (CallTool ''hub__remove'' (Some [(''namespace'', JStr ''zabbix'')])) px)))) =
   others_db ''u2'' (ap_db (px_app px))"
proof -
  let ?a = "\<lparr>au_user_id = ''u2'', au_admin = False, au_client_id = None, au_pat_id = None,
       au_request = \<lparr>ri_ip = None, ri_user_agent = None\<rparr>\<rparr>"
  let ?ctx = "demo_ctx\<lparr>rc_authed := Some ?a, rc_endpoint := Some Management\<rparr>"
  let ?px = "demo_px\<lparr>px_bound := Some \<lparr>bd_user_id = ''u1'', bd_handle = ''ann'', bd_admin = True\<rparr>\<rparr>"
  have a: "rc_authed ?ctx = Some ?a" "\<not> au_admin ?a" and ids: "ids_unique (ap_db (px_app ?px))"
    by (simp_all add: demo_px_def ids_unique_def demo_app_def group_demo_simps)
  have b: "\<not> bd_admin b" if "px_bound ?px = Some b" "bd_user_id b = au_user_id ?a" for b using that by auto
  have u: "au_user_id ?a = ''u2''" by simp
  from requests_act_as_requester[OF a b ids, unfolded u] show ?thesis unfolding Let_def by blast
qed

end
