(* ===== verification/Hub_Lockout.thy ===== *)
theory Hub_Lockout
  imports Hub_Endpoint Hub_App
begin

text \<open>Spans accounts, tokens, browser sessions and the MCP gate: what is left of an account after \<open>deactivate_user\<close>.\<close>

lemma deactivated_tables:
  "users (ap_db (deactivate_user st u)) = tbl_update (\<lambda>r. u_id r = u) (\<lambda>r. r\<lparr>u_disabled := True\<rparr>) (users (ap_db st))"
  "web_sessions (ap_db (deactivate_user st u)) = tbl_delete (\<lambda>r. ws_user_id r = u) (web_sessions (ap_db st))"
  "personal_access_tokens (ap_db (deactivate_user st u)) = tbl_delete (\<lambda>r. pt_user_id r = u) (personal_access_tokens (ap_db st))"
  "oauth_refresh_tokens (ap_db (deactivate_user st u)) = tbl_delete (\<lambda>r. rt_user_id r = u) (oauth_refresh_tokens (ap_db st))"
  by (simp_all add: deactivate_user_def revoke_all_for_user_def revoke_all_user_tokens_def delete_all_for_user_def set_disabled_def Let_def)

lemma deactivated_disabled:
  assumes "users d = users (ap_db (deactivate_user st u))" "users_find_by_id d u = Some r" shows "u_disabled r"
proof -
  from find_SomeD[OF assms(2)[unfolded users_find_by_id_def]] have r: "r \<in> set (users d)" "u_id r = u" by auto
  from r(1) obtain q where q: "r = (if u_id q = u then q\<lparr>u_disabled := True\<rparr> else q)"
    unfolding assms(1) deactivated_tables(1) tbl_update_def set_map by (rule imageE)
  show ?thesis
  proof (cases "u_id q = u")
    case False
    with q r(2) show ?thesis by simp
  qed (simp add: q)
qed

lemma session_not_of:
  assumes "\<And>r. r \<in> set (web_sessions d) \<Longrightarrow> ws_user_id r \<noteq> u" "snd (load_and_touch now d sid i a) = Some x"
  shows "u_id x \<noteq> u"
proof -
  from assms(2) obtain r d' where r: "find_session d sid = Some r" and x: "users_find_by_id d' (ws_user_id r) = Some x"
    by (auto simp: load_and_touch_def Let_def split: option.splits if_splits)
  from r assms(1) have "ws_user_id r \<noteq> u" unfolding find_session_def by (blast dest: find_SomeD)
  with x show ?thesis by (auto simp: users_find_by_id_def dest: find_SomeD)
qed

lemma bearer_not_of:
  assumes "users d = users (ap_db (deactivate_user st u))" "snd (require_bearer cfg s th now d path headers) = Forward ep au"
  shows "au_user_id au \<noteq> u"
proof
  assume u: "au_user_id au = u"
  have tk: "users (tokens_touch now d t) = users d" for t by (simp add: tokens_touch_def)
  from assms(2) obtain d' uid adm cl pat info cand where a: "authorize_request cfg d' uid adm cl pat info cand = Forward ep au"
    and us: "users d' = users d"
    using tk by (auto simp: require_bearer_def Let_def unauthorized_def split: option.splits if_splits sum.splits)
  from authorize_request_Forward[OF a] u obtain r where "users_find_by_id d' u = Some r" "\<not> u_disabled r" by auto
  with deactivated_disabled[of d' st u r] us assms(1) show False by simp
qed

text \<open>C18: a deactivated account is out at once. No bearer token, of either kind and however long it is
  still valid, gets a request of the account past the MCP gate; no browser session authenticates
  it; and no refresh token of it is left to renew anything.\<close>

theorem deactivated_locked_out:
  "snd (require_bearer cfg s th now (ap_db (deactivate_user st u)) path headers) \<noteq> Forward ep (au\<lparr>au_user_id := u\<rparr>) \<and>
   snd (auth_user now cfg (ap_db (deactivate_user st u)) jar) \<noteq> Inr (r\<lparr>u_id := u\<rparr>) \<and>
   filter (\<lambda>r. rt_user_id r = u) (oauth_refresh_tokens (ap_db (deactivate_user st u))) = []"
proof -
  let ?d = "ap_db (deactivate_user st u)"
  have "snd (require_bearer cfg s th now ?d path headers) \<noteq> Forward ep (au\<lparr>au_user_id := u\<rparr>)"
    using bearer_not_of[of ?d st u cfg s th now path headers ep "au\<lparr>au_user_id := u\<rparr>"] by auto
  moreover have "snd (auth_user now cfg ?d jar) \<noteq> Inr (r\<lparr>u_id := u\<rparr>)"
  proof
    assume "snd (auth_user now cfg ?d jar) = Inr (r\<lparr>u_id := u\<rparr>)"
    then obtain sid where "snd (load_and_touch now ?d sid (session_idle_ttl_secs cfg) (session_absolute_ttl_secs cfg)) = Some (r\<lparr>u_id := u\<rparr>)"
      by (auto simp: auth_user_def maybe_user_def split: prod.splits option.splits) (metis snd_conv)
    from session_not_of[OF _ this, of u] show False by (simp add: deactivated_tables tbl_simps)
  qed
  moreover have "filter (\<lambda>r. rt_user_id r = u) (oauth_refresh_tokens ?d) = []"
    by (simp add: deactivated_tables tbl_delete_def filter_empty_conv)
  ultimately show ?thesis by blast
qed

end
