(* ===== verification/Hub_Html.thy ===== *)
theory Hub_Html
  imports Hub_App
begin

text \<open>
  The HTML the pages of \<^verbatim>\<open>src/web.rs\<close> are made of. A page is a list of fragments: \<open>Raw s\<close> is text the
  code writes as it is (its templates, and values it formats without escaping), \<open>Esc s\<close> a value it
  passes through \<open>esc\<close>. Characters of the templates outside the first 256 code points are written
  as the HTML character reference of the same character. The lemmas follow a scanner that knows
  text, tags and quoted attribute values over the fragments: where every escaped value stands in
  text or in a quoted attribute value, no value can change the tags of the page.
\<close>

section \<open>Escaping\<close>

datatype html = Raw string | Esc string

definition replace_char :: "char \<Rightarrow> string \<Rightarrow> string \<Rightarrow> string" where
  "replace_char c r s = concat (map (\<lambda>x. if x = c then r else [x]) s)"

definition esc :: "string \<Rightarrow> string" where
  "esc s = replace_char (CHR 0x22) ''&quot;'' (replace_char CHR ''>'' ''&gt;''
     (replace_char CHR ''<'' ''&lt;'' (replace_char CHR ''&'' ''&amp;'' s)))"

primrec frag :: "html \<Rightarrow> string" where
  "frag (Raw s) = s"
| "frag (Esc s) = esc s"

definition render :: "html list \<Rightarrow> string" where
  "render h = concat (map frag h)"

text \<open>The lines of a template.\<close>

fun tpl :: "html list list \<Rightarrow> html list" where
  "tpl [] = []"
| "tpl [l] = l"
| "tpl (l # m # ls) = l @ Raw nl # tpl (m # ls)"

abbreviation middot :: string where
  "middot \<equiv> [CHR 0xB7]"

section \<open>The page shell\<close>

text \<open>Values fixed at start: the version of the static assets, the source link and the release.\<close>

record site =
  si_asset_ver :: string
  si_source_url :: string
  si_version :: string

definition hex_digit :: "nat \<Rightarrow> char" where
  "hex_digit n = ''0123456789abcdef'' ! n"

definition asset_ver :: "(string \<Rightarrow> string) \<Rightarrow> (string \<Rightarrow> string option) \<Rightarrow> string" where
  "asset_ver sha256 read =
     concat (map (\<lambda>b. [hex_digit (code b div 16), hex_digit (code b mod 16)])
       (take 4 (sha256 (concat (map (\<lambda>p. case read p of None \<Rightarrow> [] | Some bytes \<Rightarrow> bytes)
          [''static/style.css'', ''static/auth.js''])))))"

definition source_url :: "string option \<Rightarrow> string" where
  "source_url v =
     (case v of
        Some url \<Rightarrow> if starts_with url ''https://'' \<or> starts_with url ''http://'' then url
                    else ''https://github.com/jbeker/mcp_hub''
      | None \<Rightarrow> ''https://github.com/jbeker/mcp_hub'')"

definition page_with :: "site \<Rightarrow> string \<Rightarrow> html list \<Rightarrow> string \<Rightarrow> html list" where
  \<open>page_with si title body cls = tpl [
     [Raw ''<!doctype html>''],
     [Raw ''<html lang="en">''],
     [Raw ''<head>''],
     [Raw ''  <meta charset="utf-8">''],
     [Raw ''  <meta name="viewport" content="width=device-width, initial-scale=1">''],
     [Raw ''  <title>'', Raw title, Raw ('' '' @ middot @ '' MCP Hub</title>'')],
     [Raw ''  <link rel="stylesheet" href="/static/style.css?v='', Raw (si_asset_ver si), Raw ''">''],
     [Raw ''</head>''],
     [Raw ''<body>''],
     [Raw ''  <main class="'', Raw cls, Raw ''">''] @ body @ [Raw ''</main>''],
     [Raw ''  <footer class="legal">''],
     [Raw ''    MCP Hub v'', Raw (si_version si), Raw ('' '' @ middot @ '' <a href="''), Esc (si_source_url si),
        Raw (''" rel="noopener">Source</a> '' @ middot)],
     [Raw ''    <a href="https://www.gnu.org/licenses/agpl-3.0.html" rel="noopener">AGPL-3.0-or-later</a>''],
     [Raw ''  </footer>''],
     [Raw ''  <script src="/static/auth.js?v='', Raw (si_asset_ver si), Raw ''"></script>''],
     [Raw ''</body>''],
     [Raw ''</html>'']]\<close>

definition page :: "site \<Rightarrow> string \<Rightarrow> html list \<Rightarrow> html list" where
  "page si title body = page_with si title body ''card''"

definition page_wide :: "site \<Rightarrow> string \<Rightarrow> html list \<Rightarrow> html list" where
  "page_wide si title body = page_with si title body ''card wide''"

section \<open>Copy buttons\<close>

definition COPY_ICONS :: string where
  \<open>COPY_ICONS =
     ''<svg class="icon-copy" width="14" height="14" viewBox="0 0 16 16" fill="none" stroke="currentColor" '' @
     ''stroke-width="1.5" aria-hidden="true"><rect x="5" y="5" width="9" height="9" rx="1.5"/><path '' @
     ''d="M11 5V3.5A1.5 1.5 0 0 0 9.5 2h-6A1.5 1.5 0 0 0 2 3.5v6A1.5 1.5 0 0 0 3.5 11H5"/></svg>'' @
     ''<svg class="icon-check" width="14" height="14" viewBox="0 0 16 16" fill="none" stroke="currentColor" '' @
     ''stroke-width="2" aria-hidden="true"><path d="M3 8.5 6.5 12 13 4.5"/></svg>''\<close>

definition copy_btn :: "string \<Rightarrow> html list" where
  \<open>copy_btn v =
     [Raw ''<button type="button" class="copy" data-copy="'', Esc v,
      Raw ''" title="Copy" aria-label="Copy to clipboard">'', Raw COPY_ICONS, Raw ''</button>'']\<close>

definition copy_code :: "string \<Rightarrow> html list" where
  \<open>copy_code v = [Raw ''<span class="copywrap"><code>'', Esc v, Raw ''</code>''] @ copy_btn v @ [Raw ''</span>'']\<close>

definition copy_pre :: "string \<Rightarrow> html list" where
  \<open>copy_pre v =
     [Raw ''<div class="copywrap block"><pre class="cmd"><code>'', Esc v, Raw ''</code></pre>''] @ copy_btn v @
     [Raw ''</div>'']\<close>

section \<open>Times\<close>

definition int_str :: "int \<Rightarrow> string" where
  "int_str n = nat_str (nat n)"

definition ago :: "int \<Rightarrow> string" where
  "ago secs =
     (let s = max secs 0 in
      if s < 90 then ''just now''
      else if s < 3600 then int_str (s div 60) @ ''m ago''
      else if s < 86400 then int_str (s div 3600) @ ''h ago''
      else int_str (s div 86400) @ ''d ago'')"

definition duration :: "int \<Rightarrow> string" where
  "duration secs =
     (let s = max secs 0 in
      if s \<ge> 86400 then int_str (s div 86400) @ '' days''
      else if s \<ge> 3600 then int_str (s div 3600) @ '' hours''
      else int_str (max (s div 60) 1) @ '' minutes'')"

definition secs_or :: "nat \<Rightarrow> string \<Rightarrow> string" where
  "secs_or secs zero = (if secs = 0 then zero else nat_str secs @ ''s'')"

text \<open>The ellipsis is written as three full stops.\<close>

definition truncate_chars :: "string \<Rightarrow> nat \<Rightarrow> string" where
  "truncate_chars s mx = (if length s \<le> mx then s else trim_end (take mx s) @ ''...'')"

section \<open>Shared parts of the pages\<close>

definition back_link :: string where
  \<open>back_link = ''<p><a href="/">&larr; Back</a></p>''\<close>

definition server_fields ::
  "string \<Rightarrow> bool \<Rightarrow> string \<Rightarrow> string \<Rightarrow> string \<Rightarrow> string \<Rightarrow> string \<Rightarrow> string \<Rightarrow> string \<Rightarrow> nat \<Rightarrow> html list" where
  \<open>server_fields transport transport_select command_line repo git_ref url env config_file connect_timeout hub_secs =
     (let http = (transport = ''http'');
          stdio_hidden = (if http then ''hidden'' else []);
          http_hidden = (if http then [] else ''hidden'');
          transport_field =
            (if transport_select then tpl [
               [Raw ''<label>Transport<select name="transport" id="transport-select">''],
               [Raw ''    <option value="stdio" '', Raw (if http then [] else ''selected''), Raw ''>stdio (run a command)</option>''],
               [Raw ''    <option value="http" '', Raw (if http then ''selected'' else []), Raw ''>http (remote URL)</option>''],
               [Raw ''  </select></label>'']]
             else [Raw ''<p class="muted">Transport: <code>'', Esc transport,
                   Raw ''</code></p><input type="hidden" name="transport" value="'', Esc transport, Raw ''">'']) in
      tpl [
        transport_field,
        [Raw ''  <div class="stdio-only '', Raw stdio_hidden, Raw ''">''],
        [Raw ''    <label>Command line<input name="command" value="'', Esc command_line, Raw ''" placeholder="uvx your-mcp-server"></label>''],
        [Raw ''    <label>Repository (optional &mdash; builds a cached venv from a git repo; for a private repo, add a token for its host on your <a href="/account">Account</a> page)<input name="repo" value="'',
           Esc repo, Raw ''" placeholder="https://github.com/you/your-mcp"></label>''],
        [Raw ''    <label>Git ref (branch or tag)<input name="git_ref" value="'', Esc git_ref, Raw ''" placeholder="main"></label>''],
        [Raw ''    <label>Config file (optional &mdash; written to the server's working directory; its path is exposed as <code>$MCP_CONFIG_FILE</code>)<textarea name="config_file" rows="6" placeholder="(paste a config file the server needs on disk)">'',
           Esc config_file, Raw ''</textarea></label>''],
        [Raw ''  </div>''],
        [Raw ''  <div class="http-only '', Raw http_hidden, Raw ''">''],
        [Raw ''    <label>Remote URL<input name="url" value="'', Esc url, Raw ''" placeholder="https://server.example.com/mcp"></label>''],
        [Raw ''    <p class="muted">To authenticate, set <code>AUTHORIZATION</code> below to the credential; it is sent as <code>Authorization: Bearer &lt;value&gt;</code>. For a different scheme, add <code>AUTHORIZATION_METHOD</code> (e.g. <code>Basic</code>) &mdash; the credential is sent verbatim after it, so a <code>Basic</code> one must already be base64.</p>''],
        [Raw ''  </div>''],
        [Raw ''  <label>Environment variables (one <code>KEY=VALUE</code> per line; values may reference <code>${VAR}</code>, e.g. <code>GOOGLE_APPLICATION_CREDENTIALS=${MCP_CONFIG_FILE}</code>)<textarea name="env" rows="6" placeholder="API_TOKEN=...">'',
           Esc env, Raw ''</textarea></label>''],
        [Raw ''  <label>Connect timeout in seconds (optional &mdash; how long the hub waits for this server to start and answer <code>initialize</code>; blank uses the hub default of '',
           Raw (secs_or hub_secs ''no limit''),
           Raw '', <code>0</code> waits forever)<input name="connect_timeout_secs" type="number" min="0" step="1" value="'',
           Esc connect_timeout, Raw ''" placeholder="'', Raw (nat_str hub_secs), Raw ''"></label>'']])\<close>

definition server_tabs :: "string \<Rightarrow> string \<Rightarrow> html list" where
  \<open>server_tabs i active =
     (let cls = (\<lambda>t. if t = active then '' class="active"'' else []) in
      [Raw ''<nav class="tabs"><a href="/servers/'', Esc i, Raw ''"'', Raw (cls ''config''),
       Raw ''>Configuration</a><a href="/servers/'', Esc i, Raw ''/capabilities"'', Raw (cls ''capabilities''),
       Raw ''>Capabilities</a></nav>''])\<close>

fun join_html :: "string \<Rightarrow> html list list \<Rightarrow> html list" where
  "join_html sep [] = []"
| "join_html sep [x] = x"
| "join_html sep (x # y # xs) = x @ Raw sep # join_html sep (y # xs)"

definition argv_secret_banner :: "string list \<Rightarrow> html list" where
  \<open>argv_secret_banner refs =
     (if refs = [] then []
      else [Raw ''<div class="status status-warn">''] @
           join_html '', '' (map (\<lambda>n. [Raw ''<code>'', Esc n, Raw ''</code>'']) refs) @
           [Raw '' '', Raw (if length refs = 1 then ''is a stored secret'' else ''are stored secrets''),
            Raw '' referenced on the command line, where the value is visible to other processes via <code>/proc</code>. Pass it to the server as an environment variable instead.</div>''])\<close>

definition runtime_banner :: "int \<Rightarrow> runtime_status option \<Rightarrow> html list" where
  \<open>runtime_banner now rs0 =
     (case rs0 of
        None \<Rightarrow> []
      | Some rs \<Rightarrow>
          (let checked = [Raw ('' '' @ middot @ '' checked ''), Raw (ago (now - rs_checked_at rs))];
               detail = (case rs_detail rs of
                           Some d \<Rightarrow>
                             if CHR 0x0A \<in> set d then checked @ [Raw ''<pre class="cmd"><code>'', Esc d, Raw ''</code></pre>'']
                             else if d \<noteq> [] then [Raw '': '', Esc d] @ checked
                             else checked
                         | None \<Rightarrow> checked);
               banner = (\<lambda>cls label. [Raw ''<div class="status status-'', Raw cls, Raw ''">Backend '', Raw label] @ detail @ [Raw ''</div>'']) in
           case rs_state rs of
             RsOk \<Rightarrow> banner ''ok'' ''running''
           | RsError \<Rightarrow> banner ''danger'' ''error''
           | RsUnbuilt \<Rightarrow> banner ''warn'' ''not built''
           | RsSkipped \<Rightarrow> banner ''warn'' ''not started''
           | RsUnknown \<Rightarrow> []))\<close>

definition origin_detail :: "string option \<Rightarrow> string option \<Rightarrow> html list" where
  "origin_detail ip ua =
     (let given = (\<lambda>v. Option.bind (map_option trim v) (\<lambda>s. if s = [] then None else Some s));
          parts = (case given ip of None \<Rightarrow> [] | Some x \<Rightarrow> [[Raw ''IP '', Esc x]]) @
                  (case given ua of None \<Rightarrow> [] | Some x \<Rightarrow> [[Esc x]]) in
      if parts = [] then [] else Raw ('' '' @ middot @ '' '') # join_html ('' '' @ middot @ '' '') parts)"

definition access_box :: "string \<Rightarrow> bool \<Rightarrow> inst_row \<Rightarrow> html list" where
  \<open>access_box prefix checked i =
     [Raw ''<label class="checkbox"><input type="checkbox" name="'', Raw prefix, Esc (i_id i), Raw ''" value="on"'',
      Raw (if checked then '' checked'' else []), Raw ''> <code>'', Esc (i_namespace i), Raw ''</code></label>'']\<close>

definition access_form :: "string \<Rightarrow> string \<Rightarrow> string \<Rightarrow> inst_row list \<Rightarrow> string set \<Rightarrow> html list \<Rightarrow> html list" where
  \<open>access_form action id_field id_value insts denied csrf =
     (if insts = [] then []
      else
        [Raw ''<form class="access" method="post" action="'', Raw action, Raw ''">''] @ csrf @
        [Raw ''<input type="hidden" name="'', Raw id_field, Raw ''" value="'', Esc id_value,
         Raw ''"><span class="muted">Backends:</span><div class="access-grid">''] @
        concat (map (\<lambda>i. access_box ''allow_'' (i_id i \<notin> denied) i) insts) @
        [Raw ''</div><button class="ghost" type="submit">Save access</button></form>''])\<close>

section \<open>Answers\<close>

text \<open>What a page handler answers: the status code, the redirect target, the cookies it sets and the
  page.\<close>

record response =
  rp_status :: nat
  rp_location :: "string option"
  rp_cookies :: "cookie list"
  rp_body :: "html list"

definition redirect_to :: "string \<Rightarrow> response" where
  "redirect_to loc = \<lparr>rp_status = 303, rp_location = Some loc, rp_cookies = [], rp_body = []\<rparr>"

definition html_page :: "nat \<Rightarrow> html list \<Rightarrow> response" where
  "html_page status body = \<lparr>rp_status = status, rp_location = None, rp_cookies = [], rp_body = body\<rparr>"

definition forbidden :: "site \<Rightarrow> response" where
  \<open>forbidden si = html_page 403 (page si ''Blocked''
     [Raw (''<h1>Request blocked</h1><p>Invalid or missing security token. Reload the page and try again.</p>'' @ back_link)])\<close>

definition error_page :: "site \<Rightarrow> string \<Rightarrow> response" where
  \<open>error_page si msg = html_page 200 (page si ''Error''
     [Raw ''<h1>Something went wrong</h1><p>'', Esc msg, Raw (''</p>'' @ back_link)])\<close>

definition admin_forbidden :: "site \<Rightarrow> response" where
  \<open>admin_forbidden si = html_page 403 (page si ''Forbidden''
     [Raw (''<h1>Administrators only</h1><p>You do not have access to this page.</p>'' @ back_link)])\<close>

section \<open>Escaping loses nothing\<close>

text \<open>What a reader of the page makes of the four character references.\<close>

fun unesc :: "string \<Rightarrow> string" where
  "unesc [] = []"
| "unesc (c # cs) =
     (if starts_with (c # cs) ''&amp;'' then CHR ''&'' # unesc (drop 4 cs)
      else if starts_with (c # cs) ''&lt;'' then CHR ''<'' # unesc (drop 3 cs)
      else if starts_with (c # cs) ''&gt;'' then CHR ''>'' # unesc (drop 3 cs)
      else if starts_with (c # cs) ''&quot;'' then CHR 0x22 # unesc (drop 5 cs)
      else c # unesc cs)"

definition esc_char :: "char \<Rightarrow> string" where
  "esc_char c = (if c = CHR ''&'' then ''&amp;'' else if c = CHR ''<'' then ''&lt;''
     else if c = CHR ''>'' then ''&gt;'' else if c = CHR 0x22 then ''&quot;'' else [c])"

lemma esc_Nil [simp]: "esc [] = []"
  by (simp add: esc_def replace_char_def)

lemma replace_char_append: "replace_char c r (a @ b) = replace_char c r a @ replace_char c r b"
  by (simp add: replace_char_def)

lemma esc_Cons: "esc (c # s) = esc_char c @ esc s"
  by (simp add: esc_def replace_char_append esc_char_def) (simp add: replace_char_def)

lemma unesc_esc_char: "unesc (esc_char c @ s) = c # unesc s"
  by (simp add: esc_char_def starts_with_def)

lemma unesc_esc: "unesc (esc s) = s"
  by (induction s) (simp_all only: esc_Nil esc_Cons unesc_esc_char unesc.simps(1))

section \<open>Tags and attribute values\<close>

text \<open>Where in a page a character stands.\<close>

datatype place = Txt | Tag | Quoted

fun step :: "place \<Rightarrow> char \<Rightarrow> place" where
  "step Txt c = (if c = CHR ''<'' then Tag else Txt)"
| "step Tag c = (if c = CHR ''>'' then Txt else if c = CHR 0x22 then Quoted else Tag)"
| "step Quoted c = (if c = CHR 0x22 then Tag else Quoted)"

text \<open>The tags of a page with the values of their attributes taken out.\<close>

fun markup :: "place \<Rightarrow> string \<Rightarrow> string" where
  "markup m [] = []"
| "markup m (c # s) = (if m = Tag \<or> step m c = Tag then c # markup (step m c) s else markup (step m c) s)"

text \<open>The place after a list of fragments; none when an escaped value stands inside a tag but not in
  a quoted attribute value.\<close>

fun scan :: "place \<Rightarrow> html list \<Rightarrow> place option" where
  "scan m [] = Some m"
| "scan m (Raw s # h) = scan (foldl step m s) h"
| "scan m (Esc s # h) = (if m = Tag then None else scan m h)"

definition blank :: "html list \<Rightarrow> html list" where
  "blank h = map (\<lambda>x. case x of Raw s \<Rightarrow> Raw s | Esc _ \<Rightarrow> Esc []) h"

definition inert :: "string \<Rightarrow> bool" where
  "inert s \<longleftrightarrow> list_all (\<lambda>c. c \<noteq> CHR ''<'' \<and> c \<noteq> CHR ''>'' \<and> c \<noteq> CHR 0x22) s"

lemma inert_simps [simp]:
  "inert []" "inert (c # s) \<longleftrightarrow> c \<noteq> CHR ''<'' \<and> c \<noteq> CHR ''>'' \<and> c \<noteq> CHR 0x22 \<and> inert s"
  "inert (s @ t) \<longleftrightarrow> inert s \<and> inert t"
  by (auto simp: inert_def)

lemma inert_esc: "inert (esc s)"
  by (induction s) (simp_all add: esc_Cons esc_char_def)

lemma step_inert: "inert s \<Longrightarrow> m \<noteq> Tag \<Longrightarrow> foldl step m s = m"
  by (induction s) (cases m; simp)+

lemma markup_inert: "inert s \<Longrightarrow> m \<noteq> Tag \<Longrightarrow> markup m s = []"
  by (induction s) (cases m; simp)+

lemma markup_append: "markup m (a @ b) = markup m a @ markup (foldl step m a) b"
  by (induction a arbitrary: m) simp_all

lemma render_Cons: "render (x # h) = frag x @ render h"
  by (simp add: render_def)

lemma render_Nil [simp]: "render [] = []"
  by (simp add: render_def)

lemma scan_markup:
  "scan m h = Some m' \<Longrightarrow> markup m (render h) = markup m (render (blank h)) \<and> foldl step m (render h) = m'"
proof (induction m h rule: scan.induct)
  case (2 m s h)
  then show ?case by (simp add: render_Cons blank_def markup_append)
next
  case (3 m s h)
  then have m: "m \<noteq> Tag" and "scan m h = Some m'" by (auto split: if_splits)
  with 3 have "markup m (render h) = markup m (render (blank h)) \<and> foldl step m (render h) = m'" by simp
  with m show ?case
    by (simp add: render_Cons blank_def markup_append markup_inert step_inert inert_esc)
qed (simp add: blank_def)

lemma scan_append: "scan m (a @ b) = Option.bind (scan m a) (\<lambda>m'. scan m' b)"
  by (induction m a rule: scan.induct) simp_all

lemma scan_Raw_inert: "inert s \<Longrightarrow> m \<noteq> Tag \<Longrightarrow> scan m (Raw s # h) = scan m h"
  by (simp add: step_inert)

text \<open>A fragment list that is safe wherever text may stand.\<close>

definition safe :: "html list \<Rightarrow> bool" where
  "safe h \<longleftrightarrow> scan Txt h = Some Txt"

lemma safe_Nil [simp]: "safe []"
  by (simp add: safe_def)

lemma safe_append [intro]: "safe a \<Longrightarrow> safe b \<Longrightarrow> safe (a @ b)"
  by (simp add: safe_def scan_append)

lemma safe_concat: "(\<And>h. h \<in> set hs \<Longrightarrow> safe h) \<Longrightarrow> safe (concat hs)"
  by (induction hs) auto

lemma safe_scan: "safe a \<Longrightarrow> scan Txt (a @ b) = scan Txt b"
  by (simp add: safe_def scan_append)

lemma safe_join: "(\<And>h. h \<in> set hs \<Longrightarrow> safe h) \<Longrightarrow> inert sep \<Longrightarrow> safe (join_html sep hs)"
  by (induction sep hs rule: join_html.induct) (auto simp: safe_def scan_append step_inert)

lemma safe_if: "safe a \<Longrightarrow> safe b \<Longrightarrow> safe (if c then a else b)"
  by simp

lemma safe_tpl_Cons: "safe l \<Longrightarrow> safe (tpl ls) \<Longrightarrow> safe (tpl (l # ls))"
  by (cases ls) (simp_all add: safe_def scan_append nl_def)

lemma safe_tpl_Nil: "safe (tpl [])"
  by simp

lemmas safe_parts = safe_tpl_Cons safe_tpl_Nil safe_if safe_append safe_Nil

section \<open>The shared parts are safe\<close>

named_theorems inert_intros \<open>values written without escaping\<close>
named_theorems safe_intros \<open>parts of pages\<close>

lemma inert_nat_str [inert_intros, simp]: "inert (nat_str n)"
proof (induction n rule: nat_str.induct)
  case (1 n)
  have "k < 10 \<Longrightarrow> inert [char_of (48 + k)]" for k :: nat
  proof -
    assume "k < 10"
    then have "k \<in> {0,1,2,3,4,5,6,7,8,9}" by auto
    then show ?thesis by (elim insertE) (simp_all add: char_of_def bit_simps)
  qed
  with 1 show ?case by (subst nat_str.simps) simp
qed

lemma inert_times [inert_intros, simp]:
  "inert (int_str k)" "inert (ago secs)" "inert (duration secs)" "inert zero \<Longrightarrow> inert (secs_or w zero)"
  by (simp_all add: int_str_def ago_def duration_def secs_or_def Let_def)

lemma step_inert_at [simp]:
  "inert s \<Longrightarrow> foldl step Txt s = Txt" "inert s \<Longrightarrow> foldl step Quoted s = Quoted"
  by (simp_all add: step_inert)

lemma step_nl [simp]: "foldl step m nl = m"
  by (cases m) (simp_all add: nl_def)

lemma safe_copy [safe_intros, simp]: "safe (copy_btn v)" "safe (copy_code v)" "safe (copy_pre v)"
proof -
  show btn: "safe (copy_btn v)" by (simp add: copy_btn_def COPY_ICONS_def safe_def)
  show "safe (copy_code v)" "safe (copy_pre v)"
    by (simp_all add: copy_code_def copy_pre_def safe_def scan_append btn[unfolded safe_def])
qed

lemma safe_server_fields [safe_intros, simp]:
  "safe (server_fields transport b command_line repo git_ref url env config_file connect_timeout hub_secs)"
  unfolding server_fields_def Let_def by (intro safe_parts) (simp_all add: safe_def)

lemma safe_server_tabs [safe_intros, simp]: "safe (server_tabs i active)"
  by (simp add: server_tabs_def safe_def Let_def)

lemma safe_argv_secret_banner [safe_intros, simp]: "safe (argv_secret_banner refs)"
proof -
  have "safe (join_html '', '' (map (\<lambda>n. [Raw ''<code>'', Esc n, Raw ''</code>'']) refs))"
    by (rule safe_join) (auto simp: safe_def)
  then show ?thesis by (simp add: argv_secret_banner_def safe_def scan_append)
qed

lemma safe_runtime_banner [safe_intros, simp]: "safe (runtime_banner now rs)"
  by (simp add: runtime_banner_def safe_def scan_append Let_def split: option.split runtime_state.split)

lemma safe_origin_detail [safe_intros, simp]: "safe (origin_detail ip ua)"
  by (simp add: origin_detail_def safe_def scan_append Let_def split: option.split)

lemma safe_access_box [simp]: "inert prefix \<Longrightarrow> safe (access_box prefix b i)"
  by (simp add: access_box_def safe_def)

lemma safe_access_form [safe_intros]:
  assumes "inert action" "inert id_field" "safe csrf"
  shows "safe (access_form action id_field id_value insts denied csrf)"
proof -
  have "safe (concat (map (\<lambda>i. access_box ''allow_'' (i_id i \<notin> denied) i) insts))"
    by (rule safe_concat) auto
  with assms show ?thesis by (simp add: access_form_def safe_def scan_append)
qed

definition site_ok :: "site \<Rightarrow> bool" where
  "site_ok si \<longleftrightarrow> inert (si_asset_ver si) \<and> inert (si_version si)"

lemma safe_page_with:
  assumes "site_ok si" "inert title" "inert cls" "safe body"
  shows "safe (page_with si title body cls)"
proof -
  have "inert (si_asset_ver si)" "inert (si_version si)" using assms(1) by (simp_all add: site_ok_def)
  with assms show ?thesis unfolding page_with_def by (intro safe_parts) (simp_all add: safe_def)
qed

lemma safe_page [safe_intros]:
  assumes "site_ok si" "inert title" "safe body"
  shows "safe (page si title body)" "safe (page_wide si title body)"
  using assms by (simp_all add: page_def page_wide_def safe_page_with)

lemma safe_answers [safe_intros]:
  assumes "site_ok si"
  shows "safe (rp_body (forbidden si))" "safe (rp_body (error_page si msg))" "safe (rp_body (admin_forbidden si))"
proof -
  show "safe (rp_body (forbidden si))" unfolding forbidden_def html_page_def response.simps
    by (rule safe_page[OF assms]) (simp_all add: safe_def back_link_def)
  show "safe (rp_body (error_page si msg))" unfolding error_page_def html_page_def response.simps
    by (rule safe_page[OF assms]) (simp_all add: safe_def back_link_def)
  show "safe (rp_body (admin_forbidden si))" unfolding admin_forbidden_def html_page_def response.simps
    by (rule safe_page[OF assms]) (simp_all add: safe_def back_link_def)
qed

lemma safe_redirect [safe_intros, simp]: "safe (rp_body (redirect_to loc))"
  by (simp add: redirect_to_def)

text \<open>The page up to its title, which is written as it is.\<close>

definition page_open :: "html list" where
  \<open>page_open = [Raw ''<!doctype html>'', Raw nl, Raw ''<html lang="en">'', Raw nl, Raw ''<head>'', Raw nl,
     Raw ''  <meta charset="utf-8">'', Raw nl,
     Raw ''  <meta name="viewport" content="width=device-width, initial-scale=1">'', Raw nl, Raw ''  <title>'']\<close>

lemma page_with_title: "\<exists>rest. page_with si title body cls = page_open @ Raw title # rest"
  by (simp add: page_with_def page_open_def)

lemma page_open_step: "foldl step Txt (render page_open) = Txt"
  by (simp add: page_open_def render_def)

lemma title_raw:
  "\<exists>pre post. render (page_with si title body cls) = pre @ title @ post \<and> foldl step Txt pre = Txt \<and>
     markup Txt (render (page_with si title body cls)) =
       markup Txt pre @ markup Txt title @ markup (foldl step Txt title) post"
proof -
  from page_with_title obtain rest where p: "page_with si title body cls = page_open @ Raw title # rest" by blast
  have "render (page_with si title body cls) = render page_open @ title @ render rest"
    unfolding p by (simp add: render_def)
  with page_open_step show ?thesis
    by (intro exI[of _ "render page_open"] exI[of _ "render rest"]) (simp add: markup_append)
qed

end
