(* ===== verification/Hub_Web_Pages.thy ===== *)
theory Hub_Web_Pages
  imports Hub_Html Hub_Management Hub_Endpoint
begin

text \<open>
  The pages of \<^verbatim>\<open>src/web.rs\<close> that only read: dashboard, server configuration, capabilities, account,
  invites, users, statistics, sign-in, registration and recovery, each a function from the state to
  the page. Library code is in the record \<open>web_env\<close>: hash and encoder of the cross-site request
  tokens, the quoting of command lines, the deserialiser of stored capability snapshots and the
  JSON printer. The lemmas show the pages safe against their contents, with the two pages whose
  title is a server's display name as the exception.
\<close>

section \<open>What a backend advertised\<close>

record tool_annotations =
  an_title :: "string option"
  an_read_only :: "bool option"
  an_destructive :: "bool option"
  an_idempotent :: "bool option"
  an_open_world :: "bool option"

record snap_tool =
  tn_name :: string
  tn_title :: "string option"
  tn_description :: "string option"
  tn_input_schema :: json_object
  tn_output_schema :: "json_object option"
  tn_annotations :: "tool_annotations option"

record prompt_arg =
  pa_name :: string
  pa_description :: "string option"
  pa_required :: "bool option"

record snap_prompt =
  pn_name :: string
  pn_description :: "string option"
  pn_arguments :: "prompt_arg list option"

record snap_resource =
  sr_uri :: string
  sr_name :: string
  sr_mime_type :: "string option"

record snap_caps =
  ca_tools :: "bool option option"
  ca_prompts :: "bool option option"
  ca_resources :: "(bool option \<times> bool option) option"
  ca_logging :: bool
  ca_completions :: bool
  ca_experimental :: bool

record snapshot_view =
  cs_fetched_at :: int
  cs_caps :: snap_caps
  cs_name :: string
  cs_title :: "string option"
  cs_version :: string
  cs_protocol :: string
  cs_instructions :: "string option"
  cs_tools :: "snap_tool list"
  cs_prompts :: "snap_prompt list"
  cs_resources :: "snap_resource list"
  cs_resource_templates :: "snap_resource list"

record web_env =
  wv_hv :: app_env
  wv_site :: site
  wv_b64url :: "string \<Rightarrow> string"
  wv_sha256 :: "string \<Rightarrow> string"
  wv_shlex_join :: "string list \<Rightarrow> string option"
  wv_snapshot :: "string \<Rightarrow> snapshot_view option"
  wv_pretty :: "json_object \<Rightarrow> string"
  wv_resolve :: "string \<Rightarrow> ip_addr list option"
  wv_launcher :: launcher
  wv_store_snapshot :: "capabilities_snapshot \<Rightarrow> string"

abbreviation wv_cfg :: "web_env \<Rightarrow> config" where
  "wv_cfg wv \<equiv> hv_cfg (wv_hv wv)"

abbreviation wv_now :: "web_env \<Rightarrow> int" where
  "wv_now wv \<equiv> hv_now (wv_hv wv)"

definition csrf_html :: "web_env \<Rightarrow> signed_jar \<Rightarrow> html list" where
  "csrf_html wv jar = [Raw (csrf_field (wv_b64url wv) (wv_sha256 wv) jar (master_key (wv_cfg wv)))]"

section \<open>Capabilities\<close>

definition schema_block :: "web_env \<Rightarrow> string \<Rightarrow> json_object \<Rightarrow> html list" where
  \<open>schema_block wv label schema =
     [Raw ''<p class="muted">'', Raw label, Raw ''</p><pre class="cmd"><code>'', Esc (wv_pretty wv schema),
      Raw ''</code></pre>'']\<close>

definition chip :: "string \<Rightarrow> string \<Rightarrow> html list" where
  \<open>chip cls label = [Raw ''<span class="badge ann-'', Raw cls, Raw ''">'', Raw label, Raw ''</span> '']\<close>

definition annotation_chips :: "tool_annotations \<Rightarrow> html list" where
  "annotation_chips ann =
     (case an_read_only ann of
        Some True \<Rightarrow> chip ''safe'' ''read-only'' | Some False \<Rightarrow> chip ''warn'' ''read-write'' | None \<Rightarrow> []) @
     (if an_read_only ann \<noteq> Some True then
        (case an_destructive ann of
           Some True \<Rightarrow> chip ''warn'' ''destructive'' | Some False \<Rightarrow> chip ''safe'' ''non-destructive'' | None \<Rightarrow> [])
      else []) @
     (if an_idempotent ann = Some True then chip ''neutral'' ''idempotent'' else []) @
     (case an_open_world ann of
        Some True \<Rightarrow> chip ''neutral'' ''open world'' | Some False \<Rightarrow> chip ''neutral'' ''closed world'' | None \<Rightarrow> [])"

definition snapshot_badges :: "snap_caps \<Rightarrow> html list" where
  \<open>snapshot_badges caps =
     (let badge = (\<lambda>label. [Raw ''<span class="badge">'', Esc label, Raw ''</span> '']);
          changed = (\<lambda>l. if l = Some True then '' '' @ middot @ '' listChanged'' else []);
          badges =
            (case ca_tools caps of None \<Rightarrow> [] | Some l \<Rightarrow> badge (''tools'' @ changed l)) @
            (case ca_prompts caps of None \<Rightarrow> [] | Some l \<Rightarrow> badge (''prompts'' @ changed l)) @
            (case ca_resources caps of
               None \<Rightarrow> []
             | Some (sub, l) \<Rightarrow> badge (''resources'' @ (if sub = Some True then '' '' @ middot @ '' subscribe'' else []) @ changed l)) @
            (if ca_logging caps then badge ''logging'' else []) @
            (if ca_completions caps then badge ''completions'' else []) @
            (if ca_experimental caps then badge ''experimental'' else []) in
      if badges = [] then [Raw ''<span class="muted">none advertised</span>''] else badges)\<close>

definition snapshot_server :: "snapshot_view \<Rightarrow> html list" where
  \<open>snapshot_server snap =
     tpl [
       [Raw ''<section>''],
       [Raw ''<h2>Server</h2>''],
       [Raw ''<table class="invites"><tbody>''],
       [Raw ''<tr><th>Name</th><td>'', Esc (cs_name snap), Raw ''</td></tr>''],
       (case cs_title snap of
          Some t \<Rightarrow> if t \<noteq> [] then [Raw ''<tr><th>Title</th><td>'', Esc t, Raw ''</td></tr>''] else []
        | None \<Rightarrow> []),
       [Raw ''<tr><th>Version</th><td>'', Esc (cs_version snap), Raw ''</td></tr>''],
       [Raw ''<tr><th>Protocol</th><td>'', Esc (cs_protocol snap), Raw ''</td></tr>''],
       [Raw ''<tr><th>Capabilities</th><td>''] @ snapshot_badges (cs_caps snap) @ [Raw ''</td></tr>''],
       [Raw ''</tbody></table>''],
       [Raw ''</section>'']] @
     (case cs_instructions snap of
        Some s \<Rightarrow> if trim s \<noteq> [] then [Raw ''<section><h2>Instructions</h2><pre class="cmd"><code>'', Esc s,
                    Raw ''</code></pre></section>''] else []
      | None \<Rightarrow> [])\<close>

definition str_or :: "string \<Rightarrow> string option \<Rightarrow> string" where
  "str_or dflt v = (case v of None \<Rightarrow> dflt | Some s \<Rightarrow> s)"

definition strong_title :: "string option \<Rightarrow> html list" where
  "strong_title t =
     (case t of Some s \<Rightarrow> if s \<noteq> [] then [Raw ''<p><strong>'', Esc s, Raw ''</strong></p>''] else [] | None \<Rightarrow> [])"

definition tool_details :: "web_env \<Rightarrow> snap_tool \<Rightarrow> html list" where
  \<open>tool_details wv tool =
     (let desc = str_or [] (tn_description tool);
          ann_title = Option.bind (tn_annotations tool) an_title;
          body = strong_title (tn_title tool) @
                 (if ann_title \<noteq> tn_title tool then strong_title ann_title else []) @
                 (if desc \<noteq> [] then [Raw ''<p>'', Esc desc, Raw ''</p>''] else []) @
                 schema_block wv ''Input schema'' (tn_input_schema tool) @
                 (case tn_output_schema tool of None \<Rightarrow> [] | Some out \<Rightarrow> schema_block wv ''Output schema'' out);
          chips = (case tn_annotations tool of None \<Rightarrow> [] | Some a \<Rightarrow> annotation_chips a) in
      [Raw ''<details class="tool"><summary><code>'', Esc (tn_name tool), Raw ''</code> <span class="muted">'',
       Esc (truncate_chars desc 120), Raw ''</span> ''] @ chips @ [Raw ''</summary>''] @ body @ [Raw ''</details>''])\<close>

text \<open>One section of the page: its heading with the count, and its rows or why there are none.\<close>

definition snapshot_section :: "string \<Rightarrow> nat \<Rightarrow> bool \<Rightarrow> html list \<Rightarrow> html list" where
  \<open>snapshot_section heading n supported rows =
     [Raw ''<section><h2>'', Raw heading, Raw '' ('', Raw (nat_str n), Raw '')</h2>''] @
     (if \<not> supported then [Raw ''<p class="muted">Not supported by this server.</p>'']
      else if n = 0 then [Raw ''<p class="muted">None advertised.</p>'']
      else rows)\<close>

definition prompt_arg_row :: "prompt_arg \<Rightarrow> html list" where
  \<open>prompt_arg_row arg =
     [Raw ''<li><code>'', Esc (pa_name arg), Raw ''</code>'', Raw (if pa_required arg = Some True then '' (required)'' else [])] @
     (case pa_description arg of
        Some d \<Rightarrow> if d \<noteq> [] then [Raw '' &mdash; <span class="muted">'', Esc d, Raw ''</span>''] else []
      | None \<Rightarrow> []) @ [Raw ''</li>'']\<close>

definition prompt_details :: "snap_prompt \<Rightarrow> html list" where
  \<open>prompt_details prompt =
     (let desc = str_or [] (pn_description prompt);
          body = (if desc \<noteq> [] then [Raw ''<p>'', Esc desc, Raw ''</p>''] else []) @
                 (case pn_arguments prompt of
                    Some args \<Rightarrow>
                      if args \<noteq> [] then [Raw ''<p class="muted">Arguments</p><ul>''] @ concat (map prompt_arg_row args) @ [Raw ''</ul>'']
                      else []
                  | None \<Rightarrow> []) in
      [Raw ''<details class="tool"><summary><code>'', Esc (pn_name prompt), Raw ''</code> <span class="muted">'',
       Esc (truncate_chars desc 120), Raw ''</span></summary>''] @ body @ [Raw ''</details>''])\<close>

definition resource_table :: "string \<Rightarrow> snap_resource list \<Rightarrow> html list" where
  \<open>resource_table heading rs =
     [Raw ''<table class="invites"><thead><tr><th>'', Raw heading, Raw ''</th><th>Name</th><th>MIME type</th></tr></thead><tbody>''] @
     concat (map (\<lambda>r. [Raw ''<tr><td><code>'', Esc (sr_uri r), Raw ''</code></td><td>'', Esc (sr_name r), Raw ''</td><td>'',
       Esc (str_or ''-'' (sr_mime_type r)), Raw ''</td></tr>'']) rs) @ [Raw ''</tbody></table>'']\<close>

definition render_snapshot :: "web_env \<Rightarrow> snapshot_view \<Rightarrow> string \<Rightarrow> html list" where
  \<open>render_snapshot wv snap namespace =
     snapshot_server snap @
     snapshot_section ''Tools'' (length (cs_tools snap)) (ca_tools (cs_caps snap) \<noteq> None)
       ([Raw ''<p class="muted">Names shown are the server's own; clients see them as <code>'', Esc namespace,
         Raw ''__&lt;name&gt;</code>.</p>''] @ concat (map (tool_details wv) (cs_tools snap))) @ [Raw ''</section>''] @
     snapshot_section ''Prompts'' (length (cs_prompts snap)) (ca_prompts (cs_caps snap) \<noteq> None)
       (concat (map prompt_details (cs_prompts snap))) @ [Raw ''</section>''] @
     snapshot_section ''Resources'' (length (cs_resources snap)) (ca_resources (cs_caps snap) \<noteq> None)
       (resource_table ''URI'' (cs_resources snap)) @
     (if cs_resource_templates snap \<noteq> [] then
        [Raw ''<h2>Resource templates ('', Raw (nat_str (length (cs_resource_templates snap))), Raw '')</h2>''] @
        resource_table ''URI template'' (cs_resource_templates snap)
      else []) @ [Raw ''</section>'']\<close>

section \<open>Dashboard\<close>

text \<open>The probe-time number of tools of a group's members; unknown when one was never probed.\<close>

definition tool_counts :: "web_env \<Rightarrow> db \<Rightarrow> inst_row \<Rightarrow> nat option" where
  "tool_counts wv d i = map_option (length \<circ> cs_tools) (get_capabilities_snapshot (wv_snapshot wv) d (i_id i))"

definition group_total :: "web_env \<Rightarrow> db \<Rightarrow> inst_row list \<Rightarrow> string set \<Rightarrow> nat option" where
  "group_total wv d insts members =
     foldl (\<lambda>sum i.
       if i_id i \<in> members then
         (case (sum, tool_counts wv d i) of (Some t, Some c) \<Rightarrow> Some (t + c) | _ \<Rightarrow> None)
       else sum) (Some 0) insts"

definition count_line :: "nat option \<Rightarrow> html list" where
  \<open>count_line n =
     (case n of
        Some t \<Rightarrow>
          if t > 256 then [Raw ''<span class="badge">&#9888; ~'', Raw (nat_str t), Raw '' tools &mdash; over claude.ai's 256-tool cap</span>'']
          else [Raw ''<span class="muted">~'', Raw (nat_str t), Raw '' tools</span>'']
      | None \<Rightarrow> [Raw ''<span class="muted">tool count unknown (probe servers via "Test connection")</span>''])\<close>

definition group_card :: "web_env \<Rightarrow> db \<Rightarrow> inst_row list \<Rightarrow> html list \<Rightarrow> group_row \<Rightarrow> html list" where
  \<open>group_card wv d insts csrf g =
     (let members = member_instance_ids d (g_id g);
          title = (if g_name g = [] then g_slug g else g_name g) in
      tpl [
        [Raw ''<div class="group-card">''],
        [Raw ''  <div class="group-head"><strong>'', Esc title, Raw ''</strong> ''] @ count_line (group_total wv d insts members),
        [Raw ''    <form method="post" action="/groups/'', Esc (g_id g), Raw (''/delete" data-confirm="Delete group '' @ [CHR 0x27]), Esc (g_slug g),
           Raw ([CHR 0x27] @ ''? Clients connected to its endpoint lose access immediately.">'')] @ csrf @
          [Raw ''<button class="ghost danger">Delete</button></form>''],
        [Raw ''  </div>''],
        [Raw ''  <div class="group-url muted">Connector URL: ''] @ copy_code (group_mcp_url (wv_cfg wv) (g_slug g)) @ [Raw ''</div>''],
        [Raw ''  <form class="group-members" method="post" action="/groups/'', Esc (g_id g), Raw ''/update">''] @ csrf,
        [Raw ''    <span class="muted">Servers</span>''],
        [Raw ''    <div class="member-grid">''] @
          concat (map (\<lambda>i. access_box ''member_'' (i_id i \<in> members) i) insts) @ [Raw ''</div>''],
        [Raw ''    <button class="ghost" type="submit">Save members</button>''],
        [Raw ''  </form>''],
        [Raw ''</div>'']])\<close>

definition groups_section :: "web_env \<Rightarrow> db \<Rightarrow> string \<Rightarrow> inst_row list \<Rightarrow> html list \<Rightarrow> html list" where
  \<open>groups_section wv d user_id insts csrf =
     (let groups = groups_list_for_user d user_id in
      tpl [
        [Raw ''<section>''],
        [Raw ''  <div class="row"><h2>Connector groups</h2></div>''],
        [Raw ''  ''] @
          (if groups = [] then
             [Raw ''<p class="muted">No groups yet. Each group is its own MCP endpoint serving only its servers' tools &mdash; that is how every connector stays under client tool caps (claude.ai truncates at 256 tools).</p>'']
           else [Raw ''<div class="groups">''] @ concat (map (group_card wv d insts csrf) groups) @ [Raw ''</div>'']),
        [Raw ''  <form class="group-create" method="post" action="/groups/create">''] @ csrf,
        [Raw ''    <input name="slug" placeholder="slug (e.g. monitoring)" required pattern="[a-z0-9][a-z0-9-]*[a-z0-9]|[a-z0-9]">''],
        [Raw ''    <input name="name" placeholder="display name (optional)">''],
        [Raw ''    <button type="submit">Create group</button>''],
        [Raw ''  </form>''],
        [Raw ''</section>'']])\<close>

definition server_row :: "inst_row \<Rightarrow> html list" where
  \<open>server_row inst =
     [Raw ''<li><a href="/servers/'', Esc (i_id inst), Raw ''"><code>'', Esc (i_namespace inst),
      Raw (''</code> '' @ middot @ '' ''), Esc (i_display_name inst), Raw ''</a> <span class="muted">'',
      Raw (if i_enabled inst then ''enabled'' else ''disabled''), Raw ''</span></li>'']\<close>

definition dashboard :: "web_env \<Rightarrow> app_state \<Rightarrow> user_row \<Rightarrow> signed_jar \<Rightarrow> response" where
  \<open>dashboard wv st user jar =
     (let csrf = csrf_html wv jar; d = ap_db st; insts = inst_list_for_user d (u_id user);
          rows = (if insts = [] then [Raw ''<p class="muted">No servers yet. Add one to get started.</p>'']
                  else [Raw ''<ul class="servers">''] @ concat (map server_row insts) @ [Raw ''</ul>'']) in
      html_page 200 (page_wide (wv_site wv) ''Dashboard'' (tpl [
        [Raw ''<header class="row">''],
        [Raw ''  <h1>MCP Hub</h1>''],
        [Raw ''  <div class="row">''],
        [Raw ''    <a href="/account">Account</a>''],
        [Raw ''    <form method="post" action="/logout">''] @ csrf @ [Raw ''<button class="ghost">Sign out</button></form>''],
        [Raw ''  </div>''],
        [Raw ''</header>''],
        [Raw ''<p>Signed in as <strong>'', Esc (u_handle user), Raw ''</strong> '',
           Raw (if u_is_admin user then ''<span class="badge">admin</span>'' else []), Raw ''</p>''],
        [Raw ''<section>''],
        [Raw ''  <div class="row"><h2>Your MCP servers</h2><a href="/servers/new">+ Add a server</a></div>''],
        [Raw ''  ''] @ rows,
        [Raw ''</section>''],
        groups_section wv d (u_id user) insts csrf,
        [Raw (if u_is_admin user then
                ''<section><div class="row"><h2>Administration</h2><span><a href="/invites">Invites</a> '' @ middot @
                '' <a href="/users">Users</a> '' @ middot @ '' <a href="/stats">Stats</a></span></div></section>'' else [])],
        [Raw ''<p class="muted">Management endpoint (hub tools only): ''] @ copy_code (mcp_url (wv_cfg wv)) @
          [Raw '' &mdash; backend tools are served on your connector group endpoints above.</p>'']])))\<close>

section \<open>Server pages\<close>

definition new_server :: "web_env \<Rightarrow> signed_jar \<Rightarrow> response" where
  \<open>new_server wv jar =
     html_page 200 (page (wv_site wv) ''Add a server'' (tpl [
       [Raw ''<header class="row"><h1>Add a server</h1><a href="/">&larr; Back</a></header>''],
       [Raw ''<form id="server-form" method="post" action="/servers/create">''],
       [Raw ''  ''] @ csrf_html wv jar,
       [Raw ''  <label>Display name<input name="display_name" required></label>''],
       [Raw ''  <label>Namespace (tool prefix, e.g. <code>zabbix</code>)<input name="namespace" required></label>''],
       [Raw ''  ''] @ server_fields ''stdio'' True [] [] [] [] [] [] [] (backend_connect_timeout_secs (cfg_limits (wv_cfg wv))),
       [Raw ''  <button type="submit">Add server</button>''],
       [Raw ''</form>'']]))\<close>

definition command_line :: "web_env \<Rightarrow> fs \<Rightarrow> inst_row \<Rightarrow> server_def \<Rightarrow> html list" where
  \<open>command_line wv fs inst def =
     (case resolved_command fs (env_dir (wv_cfg wv)) inst def of
        Some (program, args) \<Rightarrow>
          [Raw ''<p class="muted">Command</p><pre class="cmd"><code>'',
           Esc (join '' '' (map (\<lambda>p. if list_ex is_whitespace p then ''"'' @ p @ ''"'' else p) (program # args))),
           Raw ''</code></pre>'']
      | None \<Rightarrow> [])\<close>

definition git_section :: "web_env \<Rightarrow> db \<Rightarrow> string \<Rightarrow> html list \<Rightarrow> inst_row \<Rightarrow> server_def \<Rightarrow> html list" where
  \<open>git_section wv d user_id csrf inst def =
     (if \<not> is_git_source def then []
      else
        (let commit = (case i_built_commit inst of None \<Rightarrow> ''-'' | Some c \<Rightarrow> take 10 c);
             host = host_of_repo (hv_git_url (wv_hv wv)) (str_or [] (sd_repo def));
             stored = (case host of
                         Some h \<Rightarrow> (case gitcreds_find (hv_git_url (wv_hv wv)) d user_id h of Inl _ \<Rightarrow> None | Inr c \<Rightarrow> c)
                       | None \<Rightarrow> None);
             auth = (if stored \<noteq> None then
                       [Raw ''<p class="muted">Auth: using your git credential for <code>'', Esc (str_or [] host), Raw ''</code>.</p>'']
                     else if host \<noteq> None \<and> i_build_status inst = ''error'' then
                       [Raw ''<p class="status status-warn">No git credential for <code>'', Esc (str_or [] host),
                        Raw ''</code>, so builds use anonymous access. If this repository is private, <a href="/account">add a token on your Account page</a> and update again.</p>'']
                     else []) in
         tpl [
           [Raw ''<section>''],
           [Raw ''  <h2>Source</h2>''],
           [Raw ''  <p class="muted">Repo <code>'', Esc (str_or ''?'' (sd_repo def)), Raw ''</code> @ <code>'',
            Esc (str_or ''main'' (sd_git_ref def)), Raw (''</code> '' @ middot @ '' build <code>''), Esc (i_build_status inst),
            Raw (''</code> '' @ middot @ '' commit <code>''), Esc commit, Raw ''</code></p>''],
           [Raw ''  ''] @ auth,
           [Raw ''  <form method="post" action="/servers/'', Esc (i_id inst), Raw ''/update">''] @ csrf @
             [Raw ''<button>Update from repository</button></form>''],
           [Raw ''</section>'']]))\<close>

definition server_button :: "string \<Rightarrow> string \<Rightarrow> string \<Rightarrow> html list \<Rightarrow> html list" where
  \<open>server_button i action label csrf =
     [Raw ''<form method="post" action="/servers/'', Esc i, Raw ''/'', Raw action, Raw ''">''] @ csrf @
     [Raw ''<button class="ghost">'', Raw label, Raw ''</button></form>'']\<close>

definition server_header :: "inst_row \<Rightarrow> server_def \<Rightarrow> html list" where
  \<open>server_header inst def = tpl [
     [Raw ''<header class="row"><h1>'', Esc (i_display_name inst), Raw ''</h1><a href="/">&larr; Back</a></header>''],
     [Raw ''<p class="muted">Namespace <code>'', Esc (i_namespace inst), Raw (''</code> '' @ middot @ '' ''), Esc (sd_transport def),
      Raw ('' '' @ middot @ '' ''), Raw (if i_enabled inst then ''enabled'' else ''disabled''), Raw ''</p>'']]\<close>

definition server_detail :: "web_env \<Rightarrow> app_state \<Rightarrow> user_row \<Rightarrow> signed_jar \<Rightarrow> string \<Rightarrow> response" where
  \<open>server_detail wv st user jar i =
     (let csrf = csrf_html wv jar; d = ap_db st; sb = hv_box (wv_hv wv) in
      case get_owned d i (u_id user) of
        None \<Rightarrow> error_page (wv_site wv) ''server not found''
      | Some inst \<Rightarrow>
          (case resolve_def inst of
             Inl e \<Rightarrow> error_page (wv_site wv) e
           | Inr def \<Rightarrow>
               (let env = (case env_for_edit sb d (i_id inst) of Inl _ \<Rightarrow> [] | Inr x \<Rightarrow> x);
                    config_file = (case config_file_for_edit sb d (i_id inst) of Inl _ \<Rightarrow> [] | Inr x \<Rightarrow> str_or [] x);
                    argv_warning = argv_secret_banner (secret_refs_in_argv (sd_command def) (sd_args def) (secret_names d (i_id inst)));
                    fields = server_fields (sd_transport def) False (render_command (wv_shlex_join wv) (sd_command def) (sd_args def))
                      (str_or [] (sd_repo def)) (str_or [] (sd_git_ref def)) (str_or [] (sd_url def)) (render_env env) config_file
                      (case sd_connect_timeout_secs def of None \<Rightarrow> [] | Some s \<Rightarrow> nat_str (unat s))
                      (backend_connect_timeout_secs (cfg_limits (wv_cfg wv)));
                    toggle = (if i_enabled inst then server_button (i_id inst) ''disable'' ''Disable'' csrf
                              else server_button (i_id inst) ''enable'' ''Enable'' csrf);
                    restart = (if i_enabled inst then server_button (i_id inst) ''restart'' ''Restart'' csrf else []) in
                html_page 200 (page_wide (wv_site wv) (i_display_name inst) (tpl [
                  server_header inst def,
                  server_tabs (i_id inst) ''config'',
                  runtime_banner (wv_now wv) (status_get (ap_status st) (i_id inst)),
                  argv_warning,
                  command_line wv (ap_fs st) inst def,
                  [Raw ''<form method="post" action="/servers/'', Esc (i_id inst), Raw ''/config">''],
                  [Raw ''  ''] @ csrf,
                  [Raw ''  ''] @ fields,
                  [Raw ''  <button type="submit">Save configuration</button>''],
                  [Raw ''</form>''],
                  git_section wv d (u_id user) csrf inst def,
                  [Raw ''<div class="row" style="margin-top:18px">''],
                  [Raw ''  ''] @ server_button (i_id inst) ''test'' ''Test connection'' csrf,
                  [Raw ''  ''] @ restart,
                  [Raw ''  ''] @ toggle,
                  [Raw ''  <form method="post" action="/servers/'', Esc (i_id inst), Raw ''/delete" data-confirm="Remove this server?">''] @
                    csrf @ [Raw ''<button class="ghost danger">Remove</button></form>''],
                  [Raw ''</div>''],
                  [Raw ''<p class="muted">Saving configuration or updating from the repository relaunches this server in your connected MCP sessions automatically; Restart does the same on demand (it takes effect on their next request).</p>'']])))))\<close>

definition server_capabilities :: "web_env \<Rightarrow> app_state \<Rightarrow> user_row \<Rightarrow> signed_jar \<Rightarrow> string \<Rightarrow> response" where
  \<open>server_capabilities wv st user jar i =
     (let csrf = csrf_html wv jar; d = ap_db st in
      case get_owned d i (u_id user) of
        None \<Rightarrow> error_page (wv_site wv) ''server not found''
      | Some inst \<Rightarrow>
          (case resolve_def inst of
             Inl e \<Rightarrow> error_page (wv_site wv) e
           | Inr def \<Rightarrow>
               (let snapshot = get_capabilities_snapshot (wv_snapshot wv) d (i_id inst);
                    fetched = (case snapshot of Some s \<Rightarrow> ''Fetched '' @ ago (wv_now wv - cs_fetched_at s) | None \<Rightarrow> ''Never fetched'');
                    content = (case snapshot of
                                 Some s \<Rightarrow> render_snapshot wv s (i_namespace inst)
                               | None \<Rightarrow> [Raw ''<p class="muted">No capability snapshot yet. Click Refresh (or Test connection on the Configuration tab) to fetch what this server advertises.</p>'']) in
                html_page 200 (page_wide (wv_site wv) (i_display_name inst) (tpl [
                  server_header inst def,
                  server_tabs (i_id inst) ''capabilities'',
                  runtime_banner (wv_now wv) (status_get (ap_status st) (i_id inst)),
                  [Raw ''<div class="row">''],
                  [Raw ''  <p class="muted">'', Esc fetched, Raw ''</p>''],
                  [Raw ''  <form method="post" action="/servers/'', Esc (i_id inst), Raw ''/capabilities/refresh">''] @ csrf @
                    [Raw ''<button class="ghost inline">Refresh</button></form>''],
                  [Raw ''</div>''],
                  content])))))\<close>

section \<open>Administration\<close>

definition hidden_input :: "string \<Rightarrow> string \<Rightarrow> html list" where
  \<open>hidden_input name v = [Raw ''<input type="hidden" name="'', Raw name, Raw ''" value="'', Esc v, Raw ''">'']\<close>

definition invite_html :: "html list \<Rightarrow> invite_row \<Rightarrow> html list" where
  \<open>invite_html csrf iv =
     [Raw ''<tr><td><code>'', Esc (iv_short_id iv), Raw ''</code></td><td>'', Esc (iv_note iv), Raw ''</td><td>''] @
     (if iv_used_at iv \<noteq> None then [Raw ''used</td><td>'']
      else [Raw ''available</td><td><form method="post" action="/invites/revoke" data-confirm="Revoke this invite?">''] @ csrf @
           hidden_input ''short_id'' (iv_short_id iv) @ [Raw ''<button class="ghost danger">Revoke</button></form>'']) @
     [Raw ''</td></tr>'']\<close>

definition invites_page :: "web_env \<Rightarrow> app_state \<Rightarrow> user_row \<Rightarrow> signed_jar \<Rightarrow> response" where
  \<open>invites_page wv st user jar =
     (if \<not> u_is_admin user then admin_forbidden (wv_site wv)
      else
        (let csrf = csrf_html wv jar; invs = invites_list (ap_db st);
             rows = (if invs = [] then [Raw ''<p class="muted">No invites yet. Generate one above to let someone register.</p>'']
                     else [Raw ''<table class="invites"><thead><tr><th>ID</th><th>Note</th><th>Status</th><th></th></tr></thead><tbody>''] @
                          concat (map (invite_html csrf) invs) @ [Raw ''</tbody></table>'']) in
         html_page 200 (page_wide (wv_site wv) ''Invites'' (tpl [
           [Raw ''<header class="row"><h1>Invites</h1><a href="/">&larr; Back</a></header>''],
           [Raw ''<p class="muted">Registration is invite-only. Each code works once. The code is shown only when generated &mdash; copy it then.</p>''],
           [Raw ''<form method="post" action="/invites/create">''],
           [Raw ''  ''] @ csrf,
           [Raw ''  <label>Note (optional)<input name="note" placeholder="e.g. for Alice" autocomplete="off"></label>''],
           [Raw ''  <button type="submit">Generate invite</button>''],
           [Raw ''</form>''],
           [Raw ''<section style="margin-top:18px">''] @ rows @ [Raw ''</section>''],
           [Raw ''<section style="margin-top:18px">''],
           [Raw ''  <h2>Recovery code</h2>''],
           [Raw ''  <p class="muted">Issue a one-time code that lets an existing user who lost their device enroll a new passkey on their account.</p>''],
           [Raw ''  <form method="post" action="/invites/recovery">''],
           [Raw ''    ''] @ csrf,
           [Raw ''    <label>User handle<input name="handle" placeholder="their handle" autocomplete="off" required></label>''],
           [Raw ''    <button type="submit">Issue recovery code</button>''],
           [Raw ''  </form>''],
           [Raw ''</section>'']]))))\<close>

definition user_html :: "html list \<Rightarrow> user_row \<Rightarrow> nat \<Rightarrow> user_row \<Rightarrow> html list" where
  \<open>user_html csrf admin admin_count u =
     (let is_self = (u_id u = u_id admin); last_admin = (u_is_admin u \<and> admin_count \<le> 1);
          (ta, lb) = (if u_disabled u then (''/users/enable'', ''Enable'') else (''/users/disable'', ''Disable''));
          actions = (if is_self \<or> last_admin then [Raw ''<span class="muted">&mdash;</span>'']
                     else tpl [
                       [Raw ''<form method="post" action="'', Raw ta, Raw ''">''] @ csrf @ hidden_input ''handle'' (u_handle u) @
                         [Raw ''<button class="ghost">'', Raw lb, Raw ''</button></form>''],
                       [Raw ''<form method="post" action="/users/delete" data-confirm="Delete this user and all their data?">''] @ csrf @
                         hidden_input ''handle'' (u_handle u) @ [Raw ''<button class="ghost danger">Delete</button></form>'']]) in
      [Raw ''<tr><td><code>'', Esc (u_handle u), Raw ''</code></td><td>'', Raw (if u_is_admin u then ''admin'' else ''user''),
       Raw ''</td><td>'', Raw (if u_disabled u then ''disabled'' else ''active''), Raw ''</td><td><div class="actions">''] @
      actions @ [Raw ''</div></td></tr>''])\<close>

definition users_page :: "web_env \<Rightarrow> app_state \<Rightarrow> user_row \<Rightarrow> signed_jar \<Rightarrow> response" where
  \<open>users_page wv st admin jar =
     (if \<not> u_is_admin admin then admin_forbidden (wv_site wv)
      else
        (let csrf = csrf_html wv jar; us = users_list (ap_db st); admin_count = length (filter u_is_admin us) in
         html_page 200 (page_wide (wv_site wv) ''Users'' (tpl [
           [Raw ''<header class="row"><h1>Users</h1><a href="/">&larr; Back</a></header>''],
           [Raw ''<p class="muted">Disabling an account ends its sessions and revokes its tokens immediately; deleting also removes its servers and passkeys. You cannot act on your own account or the last admin.</p>''],
           [Raw ''<table class="invites"><thead><tr><th>Handle</th><th>Role</th><th>Status</th><th></th></tr></thead><tbody>''] @
             concat (map (user_html csrf admin admin_count) us) @ [Raw ''</tbody></table>'']]))))\<close>

definition limit_row :: "string \<Rightarrow> string \<Rightarrow> string \<Rightarrow> html list" where
  \<open>limit_row label v var =
     [Raw ''<tr><td>'', Raw label, Raw ''</td><td>'', Raw v, Raw ''</td><td><code>'', Raw var, Raw ''</code></td></tr>'']\<close>

definition stats_limits :: "config \<Rightarrow> limits \<Rightarrow> html list" where
  \<open>stats_limits cfg l = tpl [
     [Raw ''<table class="invites"><thead><tr><th>Limit</th><th>Value</th><th>Env var</th></tr></thead><tbody>''],
     limit_row ''Max backends (global)'' (nat_str (max_backends_global l)) ''HUB_MAX_BACKENDS_GLOBAL'',
     limit_row ''Max backends per user'' (nat_str (max_backends_per_user l)) ''HUB_MAX_BACKENDS_PER_USER'',
     limit_row ''Backend idle timeout'' (secs_or (backend_idle_secs l) ''off'') ''HUB_BACKEND_IDLE_SECS'',
     limit_row ''Per-call timeout'' (secs_or (backend_call_timeout_secs l) ''off'') ''HUB_BACKEND_CALL_TIMEOUT_SECS'',
     limit_row ''Connect timeout (default; servers may override)'' (secs_or (backend_connect_timeout_secs l) ''off'') ''HUB_BACKEND_CONNECT_TIMEOUT_SECS'',
     limit_row ''List timeout'' (secs_or (backend_list_timeout_secs l) ''off'') ''HUB_BACKEND_LIST_TIMEOUT_SECS'',
     limit_row ''Bind budget'' (secs_or (bind_budget_secs l) ''wait for all'') ''HUB_BIND_BUDGET_SECS'',
     limit_row ''Keep warm'' (if keep_warm cfg then ''on'' else ''off'') ''HUB_KEEP_WARM'',
     limit_row ''Max response size'' (if max_response_mb l = 0 then ''uncapped'' else nat_str (max_response_mb l) @ '' MB'') ''HUB_MAX_RESPONSE_MB'',
     [Raw ''</tbody></table>'']]\<close>

definition stats_headline :: "runtime_stats \<Rightarrow> html list" where
  \<open>stats_headline s =
     (let pct = (if st_slots_total s = 0 then 0 else st_slots_used s * 100 div st_slots_total s);
          cls = (if pct \<ge> 90 then ''danger'' else if pct \<ge> 75 then ''warn'' else ''ok'') in
      tpl [
        [Raw ''<div class="row">''],
        [Raw ''  <div class="status status-'', Raw cls, Raw ''">Backend slots: <strong>'', Raw (nat_str (st_slots_used s)), Raw '' / '',
         Raw (nat_str (st_slots_total s)), Raw ''</strong> ('', Raw (nat_str pct), Raw ''% in use)</div>''],
        [Raw ''  <div class="status status-ok">Active sessions: <strong>'', Raw (nat_str (st_active_sessions s)), Raw ''</strong></div>''],
        [Raw ''  <div class="status status-ok">Pooled backends: <strong>'', Raw (nat_str (st_pool_backends s)), Raw ''</strong> across <strong>'',
         Raw (nat_str (st_pool_users s)), Raw ''</strong> user(s)</div>''],
        [Raw ''</div>'']])\<close>

definition stats_totals :: "totals \<Rightarrow> html list" where
  \<open>stats_totals t =
     [Raw ''<p class="muted">'', Raw (nat_str (to_users t)), Raw ('' user(s) '' @ middot @ '' ''), Raw (nat_str (to_instances t)),
      Raw '' server(s) ('', Raw (nat_str (to_enabled_instances t)), Raw ('' enabled) '' @ middot @ '' running ''), Raw (nat_str (to_running t)),
      Raw ('' '' @ middot @ '' error ''), Raw (nat_str (to_error t)), Raw ('' '' @ middot @ '' not started ''), Raw (nat_str (to_skipped t)),
      Raw ('' '' @ middot @ '' not built ''), Raw (nat_str (to_unbuilt t)), Raw ('' '' @ middot @ '' unknown ''), Raw (nat_str (to_unknown t)),
      Raw ''</p>'']\<close>

definition stats_class :: "string \<Rightarrow> string \<times> string" where
  "stats_class s =
     (if s = ''ok'' then (''ok'', ''running'') else if s = ''error'' then (''danger'', ''error'')
      else if s = ''skipped'' then (''warn'', ''not started'') else if s = ''unbuilt'' then (''warn'', ''not built'')
      else (''muted'', ''unknown''))"

definition stats_row :: "int \<Rightarrow> instance_stat \<Rightarrow> html list" where
  \<open>stats_row now i =
     (let (cls, label) = stats_class (sn_runtime_status i) in
      [Raw ''<tr><td><code>'', Esc (sn_owner i), Raw ''</code></td><td><code>'', Esc (sn_namespace i),
       Raw (''</code> '' @ middot @ '' ''), Esc (sn_display_name i), Raw ''</td><td><span class="status status-'', Raw cls, Raw ''">'',
       Raw label, Raw ''</span></td><td class="muted">''] @
      (case sn_runtime_detail i of
         Some d \<Rightarrow> if d \<noteq> [] then [Esc (case lines d of [] \<Rightarrow> [] | l # _ \<Rightarrow> l)] else []
       | None \<Rightarrow> []) @
      [Raw ''</td><td class="muted">'', Raw (case sn_runtime_checked_at i of None \<Rightarrow> ''&mdash;'' | Some t \<Rightarrow> ago (now - t)),
       Raw ''</td></tr>''])\<close>

definition stats_page :: "web_env \<Rightarrow> app_state \<Rightarrow> user_row \<Rightarrow> signed_jar \<Rightarrow> response" where
  \<open>stats_page wv st admin jar =
     (if \<not> u_is_admin admin then admin_forbidden (wv_site wv)
      else
        (let cfg = wv_cfg wv;
             s = gather (cfg_limits cfg) (ap_permits st) (ap_sessions st) (ap_pool st) (ap_db st) (ap_status st);
             rows = [Raw ''<table class="invites"><thead><tr><th>Owner</th><th>Server</th><th>Status</th><th>Detail</th><th>Checked</th></tr></thead><tbody>''] @
                    (if st_instances s = [] then [Raw ''<tr><td colspan="5" class="muted">No servers configured.</td></tr>'']
                     else concat (map (stats_row (wv_now wv)) (st_instances s))) @ [Raw ''</tbody></table>''];
             mrows = tpl [
               [Raw ''<p class="muted">Per-user/server/tool usage counters in Prometheus text format, for a Zabbix HTTP-agent item (or any Prometheus scraper). Counters reset on restart; use rate/delta preprocessing.</p>''],
               [Raw ''<table class="invites"><tbody>''],
               [Raw ''<tr><td>Endpoint</td><td>''] @ copy_code (base_url cfg @ ''/metrics'') @ [Raw ''</td></tr>''],
               [Raw ''<tr><td>API key</td><td>''] @ copy_code (ap_metrics_key st) @ [Raw ''</td></tr>''],
               [Raw ''<tr><td>Header</td><td>''] @ copy_code (''Authorization: Bearer '' @ ap_metrics_key st) @ [Raw ''</td></tr>''],
               [Raw ''</tbody></table>''],
               [Raw ''<form method="post" action="/stats/metrics-key/regenerate" data-confirm="Regenerate the metrics API key? The current key stops working immediately.">''] @
                 csrf_html wv jar @ [Raw ''<button class="ghost danger">Regenerate key</button></form>'']] in
         html_page 200 (page_wide (wv_site wv) ''Runtime stats'' (tpl [
           [Raw ''<header class="row"><h1>Runtime stats</h1><a href="/">&larr; Back</a></header>''],
           [Raw ''<p class="muted">Backend slots and active sessions are live; the server table shows each backend's last-known status. Reload to refresh.</p>''],
           stats_headline s,
           [Raw ''<section><h2>Limits</h2>''] @ stats_limits cfg (st_limits s) @ [Raw ''</section>''],
           [Raw ''<section><h2>Servers</h2>''] @ stats_totals (st_totals s) @ rows @ [Raw ''</section>''],
           [Raw ''<section><h2>Metrics</h2>''] @ mrows @ [Raw ''</section>'']]))))\<close>

section \<open>Account\<close>

definition last_used :: "int \<Rightarrow> int option \<Rightarrow> string" where
  "last_used now t = (case t of Some u \<Rightarrow> ''last used '' @ ago (now - u) | None \<Rightarrow> ''never used'')"

definition passkey_html :: "int \<Rightarrow> html list \<Rightarrow> bool \<Rightarrow> cred_row \<Rightarrow> html list" where
  \<open>passkey_html now csrf only_one c =
     [Raw ''<li><div><code>'', Esc (if wc_name c = [] then ''passkey'' else wc_name c), Raw ''</code><div class="meta muted">added '',
      Raw (ago (now - wc_created_at c)), Raw ('' '' @ middot @ '' ''), Raw (last_used now (wc_last_used_at c))] @
     origin_detail (wc_last_ip c) (wc_last_user_agent c) @ [Raw ''</div></div> ''] @
     (if only_one then [Raw ''<span class="muted">only key</span>'']
      else [Raw ''<form method="post" action="/account/passkeys/remove" data-confirm="Remove this passkey?">''] @ csrf @
           hidden_input ''cred_id'' (wc_id c) @ [Raw ''<button class="ghost danger">Remove</button></form>'']) @
     [Raw ''</li>'']\<close>

definition connection_html :: "int \<Rightarrow> db \<Rightarrow> html list \<Rightarrow> inst_row list \<Rightarrow> connection \<Rightarrow> html list" where
  \<open>connection_html now d csrf insts c =
     (let dcr_name = str_or [] (cn_client_name c);
          title = (if cn_custom_name c \<noteq> [] then cn_custom_name c else if dcr_name \<noteq> [] then dcr_name else cn_client_id c);
          orig = (if cn_custom_name c \<noteq> [] \<and> dcr_name \<noteq> [] then [Raw ''&ldquo;'', Esc dcr_name, Raw (''&rdquo; '' @ middot @ '' '')] else []);
          redirects = (if cn_redirect_uris c = [] then []
                       else [Raw ''<div class="conn-redirects muted">''] @
                            concat (map (\<lambda>uri. [Raw ''<code>'', Esc uri, Raw ''</code>'']) (cn_redirect_uris c)) @ [Raw ''</div>'']);
          access = access_form ''/account/connections/access'' ''client_id'' (cn_client_id c) insts
                     (denied_instances d OAUTH (cn_client_id c)) csrf in
      tpl [
        [Raw ''<li>''],
        [Raw ''  <div class="conn-head">''],
        [Raw ''    <span class="conn-title"><code>'', Esc title, Raw ''</code></span>''],
        [Raw ''    <form method="post" action="/account/connections/revoke" data-confirm="Disconnect this client?">''] @ csrf @
          hidden_input ''client_id'' (cn_client_id c) @ [Raw ''<button class="ghost danger">Disconnect</button></form>''],
        [Raw ''  </div>''],
        [Raw ''  <div class="conn-meta muted">''] @ orig @ [Raw ''<code>'', Esc (cn_client_id c), Raw (''</code> '' @ middot @ '' last accessed ''),
          Raw (ago (now - cn_last_seen c)), Raw ('' '' @ middot @ '' connected ''), Raw (ago (now - cn_first_seen c))] @
          origin_detail (cn_last_ip c) (cn_last_user_agent c) @ [Raw ''</div>''],
        [Raw ''  ''] @ redirects,
        [Raw ''  <form class="conn-edit" method="post" action="/account/connections/label">''],
        [Raw ''    ''] @ csrf,
        [Raw ''    ''] @ hidden_input ''client_id'' (cn_client_id c),
        [Raw ''    <label>Name<br><input type="text" name="name" value="'', Esc (cn_custom_name c), Raw ''" placeholder="'', Esc dcr_name,
         Raw ''" maxlength="60"></label>''],
        [Raw ''    <label>Note<br><input type="text" name="note" value="'', Esc (cn_note c), Raw ''" maxlength="200"></label>''],
        [Raw ''    <button class="ghost" type="submit">Save</button>''],
        [Raw ''  </form>''],
        [Raw ''  ''] @ access,
        [Raw ''</li>'']])\<close>

definition session_html :: "int \<Rightarrow> string \<Rightarrow> session_row \<Rightarrow> html list" where
  \<open>session_html now current_sid s =
     [Raw ''<li><div><code>session</code>'', Raw (if ws_id s = current_sid then '' <span class="badge">this device</span>'' else []),
      Raw ''<div class="meta muted">started '', Raw (ago (now - ws_created_at s)), Raw ('' '' @ middot @ '' expires in ''),
      Raw (duration (ws_expires_at s - now))] @ origin_detail (ws_last_ip s) (ws_last_user_agent s) @ [Raw ''</div></div></li>'']\<close>

definition pat_html :: "int \<Rightarrow> db \<Rightarrow> html list \<Rightarrow> inst_row list \<Rightarrow> pat_row \<Rightarrow> html list" where
  \<open>pat_html now d csrf insts t =
     tpl [
       [Raw ''<li>''],
       [Raw ''  <div class="conn-head">''],
       [Raw ''    <span class="conn-title"><code>'', Esc (if pt_name t = [] then ''token'' else pt_name t),
        Raw (''</code> <span class="muted">'' @ middot @ '' ''), Raw (last_used now (pt_last_used_at t)), Raw ('' '' @ middot @ '' ''),
        Raw (if pt_expires_at t \<le> now then ''expired'' else ''expires in '' @ duration (pt_expires_at t - now)), Raw ''</span></span>''],
       [Raw ''    <form method="post" action="/account/tokens/revoke" data-confirm="Revoke this token?">''] @ csrf @
         hidden_input ''token_id'' (pt_id t) @ [Raw ''<button class="ghost danger">Revoke</button></form>''],
       [Raw ''  </div>''],
       [Raw ''  ''] @ access_form ''/account/tokens/access'' ''token_id'' (pt_id t) insts (denied_instances d PAT (pt_id t)) csrf,
       [Raw ''</li>'']]\<close>

definition gitcred_html :: "int \<Rightarrow> html list \<Rightarrow> git_credential \<Rightarrow> html list" where
  \<open>gitcred_html now csrf c =
     tpl [
       [Raw ''<li>''],
       [Raw ''  <div class="conn-head">''],
       [Raw ''    <span class="conn-title"><code>'', Esc (gd_host c), Raw (''</code> <span class="muted">'' @ middot @ '' user ''),
        Esc (if gd_username c = [] then DEFAULT_USERNAME else gd_username c), Raw ('' '' @ middot @ '' updated ''),
        Raw (ago (now - gd_updated_at c)), Raw ('' '' @ middot @ '' ''), Raw (last_used now (gd_last_used_at c))] @
         (if gd_label c = [] then [] else [Raw ('' '' @ middot @ '' ''), Esc (gd_label c)]) @ [Raw ''</span></span>''],
       [Raw ''    <form method="post" action="/account/git-credentials/delete" data-confirm="Remove the credential for '', Esc (gd_host c),
        Raw ''?">''] @ csrf @ hidden_input ''host'' (gd_host c) @ [Raw ''<button class="ghost danger">Remove</button></form>''],
       [Raw ''  </div>''],
       [Raw ''</li>'']]\<close>

definition list_or :: "string \<Rightarrow> ('a \<Rightarrow> html list) \<Rightarrow> 'a list \<Rightarrow> html list" where
  \<open>list_or none row xs =
     (if xs = [] then [Raw ''<p class="muted">'', Raw none, Raw ''</p>'']
      else [Raw ''<ul class="conns">''] @ concat (map row xs) @ [Raw ''</ul>''])\<close>

text \<open>The three parts of the page with forms that carry no stored value.\<close>

definition token_create_form :: "html list \<Rightarrow> html list" where
  \<open>token_create_form csrf = tpl [
     [Raw ''  <form method="post" action="/account/tokens/create" class="token-create">''],
     [Raw ''    ''] @ csrf,
     [Raw ''    <label class="name">Name<br><input type="text" name="name" placeholder="e.g. my-laptop" maxlength="60" required></label>''],
     [Raw ''    <label class="expires">Expires<br><select name="expires_days">''],
     [Raw ''      <option value="7">7 days</option>''],
     [Raw ''      <option value="30" selected>30 days</option>''],
     [Raw ''      <option value="90">90 days</option>''],
     [Raw ''      <option value="180">180 days</option>''],
     [Raw ''      <option value="365">365 days</option>''],
     [Raw ''    </select></label>''],
     [Raw ''    <button class="inline" type="submit">Create token</button>''],
     [Raw ''  </form>'']]\<close>

definition gitcred_form :: "html list \<Rightarrow> html list" where
  \<open>gitcred_form csrf = tpl [
     [Raw ''  <form method="post" action="/account/git-credentials/save" class="token-create">''],
     [Raw ''    ''] @ csrf,
     [Raw ''    <label class="name">Host<br><input type="text" name="host" placeholder="github.com" maxlength="200" required></label>''],
     [Raw ''    <label>Username<br><input type="text" name="username" placeholder="x-access-token" maxlength="100"></label>''],
     [Raw ''    <label>Token<br><input type="password" name="token" autocomplete="off" required></label>''],
     [Raw ''    <label class="name">Note<br><input type="text" name="label" placeholder="optional" maxlength="60"></label>''],
     [Raw ''    <button class="inline" type="submit">Save credential</button>''],
     [Raw ''  </form>''],
     [Raw ''  <p class="muted">Leave the username blank for GitHub. GitLab wants <code>oauth2</code>; Bitbucket wants <code>x-token-auth</code>.</p>'']]\<close>

definition account_page :: "web_env \<Rightarrow> app_state \<Rightarrow> user_row \<Rightarrow> signed_jar \<Rightarrow> response" where
  \<open>account_page wv st user jar =
     (let csrf = csrf_html wv jar; now = wv_now wv; d = ap_db st; u = u_id user;
          creds = list_credentials d u;
          insts = inst_list_for_user d u;
          sessions = session_list_for_user now d u;
          other_sessions = length sessions - 1;
          current_sid = str_or [] (current_session_id jar) in
      html_page 200 (page_wide (wv_site wv) ''Account'' (tpl [
        [Raw ''<header class="row"><h1>Account</h1><a href="/">&larr; Back</a></header>''],
        [Raw ''<p>Signed in as <strong>'', Esc (u_handle user), Raw ''</strong></p>''],
        [Raw ''<section>''],
        [Raw ''  <h2>Passkeys</h2>''],
        [Raw ''  <p class="muted">Passkeys are how you sign in &mdash; a private key held by your device or hardware key (Touch ID, Face ID, Windows Hello, a YubiKey, &hellip;) that proves who you are without a password. The hub only stores the matching public key, so there is nothing to phish or leak. Add a second passkey (another device or a hardware key) so you are not locked out if you lose one.</p>''],
        [Raw ''  <ul class="servers">''] @ concat (map (passkey_html now csrf (length creds \<le> 1)) creds) @ [Raw ''</ul>''],
        [Raw ''  <button id="add-passkey-btn" class="inline" type="button">Add a passkey</button>''],
        [Raw ''  <p class="error" id="add-passkey-error"></p>''],
        [Raw ''</section>''],
        [Raw ''<section style="margin-top:18px">''],
        [Raw ''  <h2>Connected MCP clients</h2>''],
        [Raw ''  <p class="muted">Clients you have authorized to reach your MCP endpoint. Disconnecting revokes refresh access; any active token still works until it expires (&le;15 min).</p>''],
        [Raw ''  ''] @ list_or ''No MCP clients are connected.'' (connection_html now d csrf insts) (list_user_connections now d u),
        [Raw ''</section>''],
        [Raw ''<section style="margin-top:18px">''],
        [Raw ''  <h2>Personal access tokens</h2>''],
        [Raw ''  <p class="muted">For MCP clients that can't sign in with OAuth. A token is a bearer credential with full access to your MCP endpoint &mdash; treat it like a password. Shown once at creation.</p>''],
        [Raw ''  ''] @ list_or ''No tokens yet.'' (pat_html now d csrf insts) (tokens_list_for_user d u),
        token_create_form csrf,
        [Raw ''</section>''],
        [Raw ''<section style="margin-top:18px">''],
        [Raw ''  <h2>Git credentials</h2>''],
        [Raw ''  <p class="muted">Tokens the hub uses to build git-sourced servers from private repositories &mdash; one per git host. Stored encrypted and never shown again; saving a host again replaces its token. Use a read-only, repo-scoped token with an expiry: building runs the repository's own build code, which can read the token.</p>''],
        [Raw ''  ''] @ list_or ''No git credentials yet.'' (gitcred_html now csrf) (gitcreds_list_for_user d u),
        gitcred_form csrf,
        [Raw ''</section>''],
        [Raw ''<section style="margin-top:18px">''],
        [Raw ''  <h2>Browser sessions</h2>''],
        [Raw ''  <p class="muted">You have '', Raw (nat_str (length sessions)), Raw '' active session(s)'',
         Raw (if other_sessions > 0 then '', including '' @ nat_str other_sessions @ '' other than this one'' else []), Raw ''.</p>''],
        [Raw ''  <ul class="servers">''] @ concat (map (session_html now current_sid) sessions) @ [Raw ''</ul>''],
        [Raw ''  ''] @ (if other_sessions > 0 then
           [Raw ''<form method="post" action="/account/sessions/revoke-others">''] @ csrf @
           [Raw ''<button class="ghost">Sign out other sessions</button></form>''] else []),
        [Raw ''</section>'']])))\<close>

section \<open>Signing in\<close>

definition with_next :: "web_env \<Rightarrow> string option \<Rightarrow> cookie list" where
  "with_next wv nxt =
     (case Option.bind nxt safe_next of Some n \<Rightarrow> [next_cookie n (cookie_secure (wv_cfg wv))] | None \<Rightarrow> [])"

definition login_page :: "web_env \<Rightarrow> user_row option \<Rightarrow> string option \<Rightarrow> response" where
  \<open>login_page wv user nxt =
     (if user \<noteq> None then redirect_to ''/''
      else (html_page 200 (page (wv_site wv) ''Sign in'' (tpl [
        [Raw ''<h1>Sign in</h1>''],
        [Raw ''<form id="login-form">''],
        [Raw ''  <label>Handle<input id="login-handle" name="handle" autocomplete="username webauthn" required></label>''],
        [Raw ''  <button id="login-btn" type="submit">Sign in with passkey</button>''],
        [Raw ''</form>''],
        [Raw ''<p class="error" id="login-error"></p>''],
        [Raw ''<p class="muted">Need an account? <a href="/register">Register</a></p>''],
        [Raw ''<p class="muted">Lost your device? <a href="/recover">Recover access</a></p>'']])))\<lparr>rp_cookies := with_next wv nxt\<rparr>)\<close>

definition register_page :: "web_env \<Rightarrow> user_row option \<Rightarrow> string option \<Rightarrow> response" where
  \<open>register_page wv user nxt =
     (if user \<noteq> None then redirect_to ''/''
      else (html_page 200 (page (wv_site wv) ''Register'' (tpl [
        [Raw ''<h1>Create account</h1>''],
        [Raw ''<form id="register-form">''],
        [Raw ''  <label>Handle<input id="reg-handle" name="handle" autocomplete="username" required></label>''],
        [Raw ''  <label>Display name<input id="reg-display" name="display_name" required></label>''],
        [Raw ''  <label>Invite code<input id="reg-invite" name="invite_code" autocomplete="off"></label>''],
        [Raw ''  <p class="muted">Registration is invite-only. Leave the code blank only if you are setting up the very first (admin) account.</p>''],
        [Raw ''  <button id="register-btn" type="submit">Create account &amp; passkey</button>''],
        [Raw ''</form>''],
        [Raw ''<p class="error" id="register-error"></p>''],
        [Raw ''<p class="muted">Already have an account? <a href="/login">Sign in</a></p>'']])))\<lparr>rp_cookies := with_next wv nxt\<rparr>)\<close>

definition recover_page :: "web_env \<Rightarrow> user_row option \<Rightarrow> response" where
  \<open>recover_page wv user =
     (if user \<noteq> None then redirect_to ''/account''
      else html_page 200 (page (wv_site wv) ''Recover access'' (tpl [
        [Raw ''<h1>Recover access</h1>''],
        [Raw ''<p class="muted">Lost the device with your passkey? Ask an administrator for a recovery code, then enroll a new passkey here.</p>''],
        [Raw ''<form id="recover-form">''],
        [Raw ''  <label>Handle<input id="recover-handle" name="handle" autocomplete="username" required></label>''],
        [Raw ''  <label>Recovery code<input id="recover-code" name="code" autocomplete="off" required></label>''],
        [Raw ''  <button id="recover-btn" type="submit">Recover &amp; add passkey</button>''],
        [Raw ''</form>''],
        [Raw ''<p class="error" id="recover-error"></p>''],
        [Raw ''<p class="muted"><a href="/login">&larr; Back to sign in</a></p>'']])))\<close>

definition logout_get :: response where
  "logout_get = redirect_to ''/login''"

section \<open>No stored value changes the tags of a page\<close>

text \<open>The encoder of the request tokens writes none of the characters that structure a page.\<close>

definition web_ok :: "web_env \<Rightarrow> bool" where
  "web_ok wv \<longleftrightarrow> site_ok (wv_site wv) \<and> (\<forall>x. inert (wv_b64url wv x))"

lemma web_ok_site: "web_ok wv \<Longrightarrow> site_ok (wv_site wv)"
  by (simp add: web_ok_def)

lemma safe_csrf: "web_ok wv \<Longrightarrow> safe (csrf_html wv jar)"
  by (simp add: csrf_html_def csrf_field_def safe_def csrf_for_def csrf_token_def web_ok_def split: option.split)

lemma safe_concat_map: "(\<And>x. safe (f x)) \<Longrightarrow> safe (concat (map f xs))"
  by (rule safe_concat) auto

lemma safe_option: "safe a \<Longrightarrow> (\<And>x. v = Some x \<Longrightarrow> safe (f x)) \<Longrightarrow> safe (case v of None \<Rightarrow> a | Some x \<Rightarrow> f x)"
  by (cases v) simp_all

lemmas safe_shape = safe_parts safe_concat_map safe_option

lemma safe_snapshot_parts [simp]:
  "safe (schema_block wv ''Input schema'' js)" "safe (schema_block wv ''Output schema'' js)"
  "safe (strong_title t)" "safe (prompt_arg_row arg)"
  "inert heading \<Longrightarrow> safe (resource_table heading rs)"
proof -
  show "safe (schema_block wv ''Input schema'' js)" "safe (schema_block wv ''Output schema'' js)"
    by (simp_all add: schema_block_def safe_def)
  show "safe (strong_title t)" by (simp add: strong_title_def safe_def split: option.split)
  show "safe (prompt_arg_row arg)"
    unfolding prompt_arg_row_def by (intro safe_shape) (simp_all add: safe_def)
  show "safe (resource_table heading rs)" if "inert heading"
    unfolding resource_table_def by (intro safe_shape) (simp_all add: safe_def that)
qed

lemma safe_annotation_chips [simp]: "safe (annotation_chips ann)"
proof -
  have chip: "inert cls \<Longrightarrow> inert label \<Longrightarrow> safe (chip cls label)" for cls label by (simp add: chip_def safe_def)
  show ?thesis unfolding annotation_chips_def
    by (intro safe_append safe_if) (simp_all add: chip split: option.split bool.split)
qed

lemma safe_snapshot_badges [simp]: "safe (snapshot_badges caps)"
  unfolding snapshot_badges_def Let_def
  by (intro safe_parts) (simp_all add: safe_def split: option.split)

lemma safe_snapshot_server [simp]: "safe (snapshot_server snap)"
  unfolding snapshot_server_def by (intro safe_shape safe_snapshot_badges) (simp_all add: safe_def)

lemma safe_tool_details [simp]: "safe (tool_details wv tool)"
  unfolding tool_details_def Let_def by (intro safe_shape) (simp_all, simp_all add: safe_def)

lemma safe_prompt_details [simp]: "safe (prompt_details prompt)"
  unfolding prompt_details_def Let_def by (intro safe_shape) (simp_all, simp_all add: safe_def)

lemma safe_snapshot_section: "inert heading \<Longrightarrow> safe rows \<Longrightarrow> safe (snapshot_section heading n b rows)"
  unfolding snapshot_section_def by (intro safe_parts) (simp_all add: safe_def)

lemma safe_render_snapshot [simp]: "safe (render_snapshot wv snap ns)"
  unfolding render_snapshot_def
  by (intro safe_shape safe_snapshot_section safe_snapshot_server safe_tool_details safe_prompt_details safe_snapshot_parts)
     (simp_all add: safe_def)

text \<open>Rows and parts, given the field with the request token.\<close>

lemma safe_hidden_input [simp]: "inert name \<Longrightarrow> safe (hidden_input name v)"
  by (simp add: hidden_input_def safe_def)

lemma inert_last_used [simp]: "inert (last_used now t)"
  by (simp add: last_used_def split: option.split)

lemma safe_list_or: "inert none \<Longrightarrow> (\<And>x. safe (row x)) \<Longrightarrow> safe (list_or none row xs)"
  unfolding list_or_def by (intro safe_shape) (simp_all add: safe_def)

lemma safe_server_parts [simp]:
  "safe (count_line t)" "safe (server_row inst)" "safe (command_line wv fs inst def)" "safe (server_header inst def)"
proof -
  show "safe (count_line t)" unfolding count_line_def by (intro safe_shape) (simp_all add: safe_def)
  show "safe (server_row inst)" by (simp add: server_row_def safe_def)
  show "safe (command_line wv fs inst def)" by (simp add: command_line_def safe_def split: option.split)
  show "safe (server_header inst def)" unfolding server_header_def by (intro safe_shape) (simp_all add: safe_def)
qed

lemma safe_csrf_parts:
  assumes "safe csrf"
  shows "safe (group_card wv d insts csrf g)" "safe (groups_section wv d u insts csrf)"
    "safe (git_section wv d u csrf inst def)" "inert action \<Longrightarrow> inert label \<Longrightarrow> safe (server_button i action label csrf)"
proof -
  show card: "safe (group_card wv d insts csrf g)" for g unfolding group_card_def Let_def
    by (intro safe_shape assms safe_server_parts safe_copy safe_access_box) (simp_all add: safe_def)
  show "safe (groups_section wv d u insts csrf)" unfolding groups_section_def Let_def
    by (intro safe_shape assms card) (simp_all add: safe_def)
  show "safe (git_section wv d u csrf inst def)" unfolding git_section_def Let_def
    by (intro safe_shape assms) (simp_all add: safe_def)
  show "safe (server_button i action label csrf)" if "inert action" "inert label" unfolding server_button_def
    by (intro safe_shape assms) (simp_all add: safe_def that)
qed

lemma safe_admin_rows:
  assumes "safe csrf"
  shows "safe (invite_html csrf iv)" "safe (user_html csrf admin n u)"
proof -
  show "safe (invite_html csrf iv)" unfolding invite_html_def
    by (intro safe_shape assms safe_hidden_input) (simp_all add: safe_def)
  show "safe (user_html csrf admin n u)" unfolding user_html_def Let_def prod.case_eq_if
    by (intro safe_shape assms safe_hidden_input) (simp_all add: safe_def)
qed

lemma safe_stats [simp]:
  "safe (stats_limits cfg l)" "safe (stats_headline s)" "safe (stats_totals t)" "safe (stats_row now i)"
proof -
  have row: "inert a \<Longrightarrow> inert b \<Longrightarrow> inert c \<Longrightarrow> safe (limit_row a b c)" for a b c by (simp add: limit_row_def safe_def)
  show "safe (stats_limits cfg l)" unfolding stats_limits_def by (intro safe_shape row) (simp_all add: safe_def)
  show "safe (stats_headline s)" unfolding stats_headline_def Let_def by (intro safe_shape) (simp_all add: safe_def)
  show "safe (stats_totals t)" by (simp add: stats_totals_def safe_def)
  have cls: "inert (fst (stats_class x)) \<and> inert (snd (stats_class x))" for x by (simp add: stats_class_def)
  show "safe (stats_row now i)" unfolding stats_row_def Let_def prod.case_eq_if
    by (intro safe_shape) (simp_all add: safe_def cls split: option.split)
qed

lemma safe_account_rows:
  assumes "safe csrf"
  shows "safe (passkey_html now csrf b c)" "safe (connection_html now d csrf insts cn)" "safe (pat_html now d csrf insts t)"
    "safe (gitcred_html now csrf gc)" "safe (token_create_form csrf)" "safe (gitcred_form csrf)"
proof -
  note shape = safe_shape assms safe_hidden_input safe_origin_detail safe_access_form
  show "safe (passkey_html now csrf b c)" unfolding passkey_html_def by (intro shape) (simp_all add: safe_def)
  show "safe (connection_html now d csrf insts cn)" unfolding connection_html_def Let_def by (intro shape) (simp_all add: safe_def)
  show "safe (pat_html now d csrf insts t)" unfolding pat_html_def by (intro shape) (simp_all add: safe_def)
  show "safe (gitcred_html now csrf gc)" unfolding gitcred_html_def by (intro shape) (simp_all add: safe_def)
  show "safe (token_create_form csrf)" unfolding token_create_form_def by (intro shape) (simp_all add: safe_def)
  show "safe (gitcred_form csrf)" unfolding gitcred_form_def by (intro shape) (simp_all add: safe_def)
qed

lemma safe_session_html: "safe (session_html now sid sess)"
  unfolding session_html_def by (intro safe_shape safe_origin_detail) (simp_all add: safe_def)

text \<open>The pages.\<close>

lemma safe_html_page: "safe body \<Longrightarrow> safe (rp_body (html_page s body))"
  by (simp add: html_page_def)

lemma safe_dashboard: "web_ok wv \<Longrightarrow> safe (rp_body (dashboard wv st user jar))"
  unfolding dashboard_def Let_def
  by (intro safe_html_page safe_page safe_shape safe_csrf_parts safe_csrf web_ok_site safe_server_parts safe_copy)
     (simp_all add: safe_def)

lemma safe_new_server: "web_ok wv \<Longrightarrow> safe (rp_body (new_server wv jar))"
  unfolding new_server_def
  by (intro safe_html_page safe_page safe_shape safe_csrf web_ok_site safe_server_fields) (simp_all add: safe_def)

lemma safe_invites_page: "web_ok wv \<Longrightarrow> safe (rp_body (invites_page wv st user jar))"
  unfolding invites_page_def Let_def if_distrib[of rp_body]
  by (intro safe_if safe_html_page safe_page safe_shape safe_csrf web_ok_site safe_admin_rows safe_answers) (simp_all add: safe_def)

lemma safe_users_page: "web_ok wv \<Longrightarrow> safe (rp_body (users_page wv st user jar))"
  unfolding users_page_def Let_def if_distrib[of rp_body]
  by (intro safe_if safe_html_page safe_page safe_shape safe_csrf web_ok_site safe_admin_rows safe_answers) (simp_all add: safe_def)

lemma safe_stats_page: "web_ok wv \<Longrightarrow> safe (rp_body (stats_page wv st user jar))"
  unfolding stats_page_def Let_def if_distrib[of rp_body]
  by (intro safe_if safe_html_page safe_page safe_shape safe_csrf web_ok_site safe_stats safe_answers safe_copy) (simp_all add: safe_def)

lemma safe_account_page: "web_ok wv \<Longrightarrow> safe (rp_body (account_page wv st user jar))"
  unfolding account_page_def Let_def
  by (intro safe_html_page safe_page safe_shape safe_csrf web_ok_site safe_account_rows safe_session_html safe_list_or) (simp_all add: safe_def)

lemma safe_sign_in:
  assumes "web_ok wv"
  shows "safe (rp_body (login_page wv u nxt))" "safe (rp_body (register_page wv u nxt))" "safe (rp_body (recover_page wv u))"
proof -
  note parts = safe_if safe_html_page safe_page safe_shape web_ok_site[OF assms] safe_redirect
  have cookies: "rp_body (r\<lparr>rp_cookies := c\<rparr>) = rp_body r" for r :: response and c by simp
  show "safe (rp_body (login_page wv u nxt))" unfolding login_page_def if_distrib[of rp_body] cookies
    by (intro parts) (simp_all add: safe_def)
  show "safe (rp_body (register_page wv u nxt))" unfolding register_page_def if_distrib[of rp_body] cookies
    by (intro parts) (simp_all add: safe_def)
  show "safe (rp_body (recover_page wv u))" unfolding recover_page_def if_distrib[of rp_body]
    by (intro parts) (simp_all add: safe_def)
qed

end
