(* ===== verification/Hub_Web.thy ===== *)
theory Hub_Web
  imports Hub_Web_Pages
begin

text \<open>
  The handlers of \<^verbatim>\<open>src/web.rs\<close> that change state, and the routes of \<^verbatim>\<open>src/lib.rs\<close> that lead to the
  pages. A handler runs after the session cookie gave the user; it leaves early with an answer
  (\<open>Inl (Some answer)\<close>), or never answers (\<open>Inl None\<close>) when a probed backend never does. Forms are
  records of their fields as the form parser of the web framework hands them over.
\<close>

section \<open>Requests, answers and audit events\<close>

record web_request =
  wr_jar :: signed_jar
  wr_headers :: header_map

type_synonym 'a web = "(response option, 'a) handler"

definition w_exit :: "response \<Rightarrow> 'a web" where
  "w_exit r = m_fail (Some r)"

definition w_error :: "web_env \<Rightarrow> string \<Rightarrow> 'a web" where
  "w_error wv msg = w_exit (error_page (wv_site wv) msg)"

definition w_res :: "web_env \<Rightarrow> 'a res \<Rightarrow> 'a web" where
  "w_res wv r = (case r of Inl e \<Rightarrow> w_error wv e | Inr x \<Rightarrow> m_return x)"

definition w_opt :: "web_env \<Rightarrow> string \<Rightarrow> 'a option \<Rightarrow> 'a web" where
  "w_opt wv msg r = (case r of None \<Rightarrow> w_error wv msg | Some x \<Rightarrow> m_return x)"

text \<open>A statement on the database: one that may fail with an error page, and one that cannot.\<close>

definition w_db :: "web_env \<Rightarrow> string \<Rightarrow> (db \<Rightarrow> (db \<times> 'a) res) \<Rightarrow> 'a web" where
  "w_db wv prefix f = m_db (\<lambda>d. map_sum (\<lambda>e. Some (error_page (wv_site wv) (prefix @ e))) id (f d))"

definition w_stmt :: "(db \<Rightarrow> db) \<Rightarrow> unit web" where
  "w_stmt f = m_modify (\<lambda>st. st\<lparr>ap_db := f (ap_db st)\<rparr>)"

definition web_event :: "string \<Rightarrow> user_row \<Rightarrow> web_request \<Rightarrow> string \<Rightarrow> audit_event" where
  "web_event action user rq object =
     (ev_request (from_headers (wr_headers rq)) (event action))
       \<lparr>ev_actor := u_handle user, ev_actor_id := u_id user, ev_object := object\<rparr>"

definition audit_ok :: "string \<Rightarrow> user_row \<Rightarrow> web_request \<Rightarrow> string \<Rightarrow> unit web" where
  "audit_ok action user rq object = m_modify (emit ''ok'' [] (web_event action user rq object))"

definition audit_denied :: "string \<Rightarrow> user_row \<Rightarrow> web_request \<Rightarrow> string \<Rightarrow> string \<Rightarrow> unit web" where
  "audit_denied action user rq object reason = m_modify (emit ''denied'' reason (web_event action user rq object))"

text \<open>The guards at the head of the handlers.\<close>

definition csrf_ok :: "web_env \<Rightarrow> web_request \<Rightarrow> string \<Rightarrow> bool" where
  "csrf_ok wv rq submitted = check_csrf (wv_b64url wv) (wv_sha256 wv) (wr_jar rq) (master_key (wv_cfg wv)) submitted"

definition require_csrf :: "web_env \<Rightarrow> string \<Rightarrow> user_row \<Rightarrow> web_request \<Rightarrow> string \<Rightarrow> string \<Rightarrow> unit web" where
  "require_csrf wv action user rq object submitted =
     (if csrf_ok wv rq submitted then m_return ()
      else m_bind (audit_denied action user rq object ''csrf'') (\<lambda>_. w_exit (forbidden (wv_site wv))))"

definition require_csrf_unlogged :: "web_env \<Rightarrow> web_request \<Rightarrow> string \<Rightarrow> unit web" where
  "require_csrf_unlogged wv rq submitted =
     (if csrf_ok wv rq submitted then m_return () else w_exit (forbidden (wv_site wv)))"

definition require_admin_page :: "web_env \<Rightarrow> string \<Rightarrow> user_row \<Rightarrow> web_request \<Rightarrow> string \<Rightarrow> unit web" where
  "require_admin_page wv action user rq object =
     (if u_is_admin user then m_return ()
      else m_bind (audit_denied action user rq object ''not_admin'') (\<lambda>_. w_exit (admin_forbidden (wv_site wv))))"

definition find_server :: "web_env \<Rightarrow> user_row \<Rightarrow> string \<Rightarrow> inst_row web" where
  "find_server wv user i =
     m_bind (m_get (\<lambda>st. get_owned (ap_db st) i (u_id user))) (w_opt wv ''server not found'')"

definition server_page :: "string \<Rightarrow> response" where
  "server_page i = redirect_to (''/servers/'' @ i)"

section \<open>Servers\<close>

record server_form =
  sf_csrf :: string
  sf_display_name :: string
  sf_namespace :: string
  sf_transport :: string
  sf_command :: string
  sf_repo :: string
  sf_git_ref :: string
  sf_url :: string
  sf_env :: string
  sf_config_file :: string
  sf_connect_timeout_secs :: string

definition trimmed :: "string \<Rightarrow> string option" where
  "trimmed s = (let t = trim s in if t = [] then None else Some t)"

definition def_from_form :: "app_env \<Rightarrow> server_form \<Rightarrow> (server_def \<times> btree) res" where
  "def_from_form hv form =
     (let transport = trim (sf_transport form) in
      if transport \<noteq> ''stdio'' \<and> transport \<noteq> ''http'' then Inl ''transport must be stdio or http''
      else
        rbind (parse_env (sf_env form)) (\<lambda>env.
        rbind (parse_connect_timeout (sf_connect_timeout_secs form)) (\<lambda>secs.
        let def = (\<lambda>command args url repo git_ref.
              \<lparr>sd_name = trim (sf_display_name form), sd_description = [], sd_transport = transport, sd_command = command,
               sd_args = args, sd_url = url, sd_runtime = [], sd_repo = repo, sd_git_ref = git_ref, sd_entry = None,
               sd_module = None, sd_connect_timeout_secs = secs\<rparr>) in
        if transport = ''http'' then
          (case trimmed (sf_url form) of
             None \<Rightarrow> Inl ''a remote URL is required for an http server''
           | Some url \<Rightarrow> rbind (validate_remote_url (hv_url hv) url) (\<lambda>_. Inr (def None [] (Some url) None None, env)))
        else
          rbind (parse_command (hv_shlex hv) (sf_command form)) (\<lambda>(command, args).
            if command = None then Inl ''a command line is required for a stdio server''
            else
              (case trimmed (sf_repo form) of
                 None \<Rightarrow> Inr (def command args None None None, env)
               | Some r \<Rightarrow>
                   if hv_git_url hv r = None then Inl ''repository must be a valid URL''
                   else Inr (def command args None (Some r)
                              (Some (case trimmed (sf_git_ref form) of None \<Rightarrow> ''main'' | Some g \<Rightarrow> g)), env))))))"

definition w_replace_env :: "web_env \<Rightarrow> string \<Rightarrow> btree \<Rightarrow> unit web" where
  "w_replace_env wv i env =
     w_db wv [] (\<lambda>d. map_sum id (\<lambda>d'. (d', ())) (replace_env (hv_box (wv_hv wv)) (hv_env_fresh (wv_hv wv)) d i env))"

definition apply_config_file :: "web_env \<Rightarrow> string \<Rightarrow> string \<Rightarrow> unit web" where
  "apply_config_file wv i content =
     (if trim content = [] then
        m_bind (w_stmt (\<lambda>d. clear_config_file d i)) (\<lambda>_.
        m_modify (\<lambda>st. st\<lparr>ap_fs := remove_workdir (hv_proc (wv_hv wv)) (env_dir (wv_cfg wv)) i (ap_fs st)\<rparr>))
      else
        w_db wv [] (\<lambda>d. map_sum id (\<lambda>d'. (d', ()))
          (set_config_file (hv_box (wv_hv wv)) (hv_nonce (wv_hv wv)) (wv_now wv) d i content)))"

definition create_server :: "web_env \<Rightarrow> user_row \<Rightarrow> web_request \<Rightarrow> server_form \<Rightarrow> response web" where
  "create_server wv user rq form =
     (let ns = trim (sf_namespace form) in
      m_bind (require_csrf wv ''server.add'' user rq ns (sf_csrf form)) (\<lambda>_.
      m_bind (w_res wv (def_from_form (wv_hv wv) form)) (\<lambda>(def, env).
      let display = (if trim (sf_display_name form) = [] then ns else trim (sf_display_name form)) in
      m_bind (w_db wv [] (\<lambda>d. inst_create (hv_new_id (wv_hv wv)) (wv_now wv) d (u_id user) None (Some def) ns display)) (\<lambda>inst.
      m_bind (w_replace_env wv (i_id inst) env) (\<lambda>_.
      m_bind (apply_config_file wv (i_id inst) (sf_config_file form)) (\<lambda>_.
      m_bind (m_modify (\<lambda>st. pool_changed st (u_id user))) (\<lambda>_.
      m_bind (audit_ok ''server.add'' user rq ns) (\<lambda>_.
      m_return (server_page (i_id inst))))))))))"

definition save_config :: "web_env \<Rightarrow> user_row \<Rightarrow> web_request \<Rightarrow> string \<Rightarrow> server_form \<Rightarrow> response web" where
  "save_config wv user rq i form =
     m_bind (require_csrf wv ''server.edit'' user rq i (sf_csrf form)) (\<lambda>_.
     m_bind (find_server wv user i) (\<lambda>inst.
     m_bind (w_res wv (resolve_def inst)) (\<lambda>existing.
     m_bind (w_res wv (def_from_form (wv_hv wv) (form\<lparr>sf_transport := sd_transport existing\<rparr>))) (\<lambda>(def0, env).
     let def = def0\<lparr>sd_name := sd_name existing\<rparr> in
     m_bind (w_stmt (\<lambda>d. update_def d (i_id inst) def)) (\<lambda>_.
     m_bind (w_replace_env wv (i_id inst) env) (\<lambda>_.
     m_bind (apply_config_file wv (i_id inst) (sf_config_file form)) (\<lambda>_.
     m_bind (m_modify (\<lambda>st. if i_enabled inst then restart_backend st (i_id inst) (u_id user) else st)) (\<lambda>_.
     m_bind (audit_ok ''server.edit'' user rq (i_namespace inst)) (\<lambda>_.
     m_return (server_page i))))))))))"

definition set_enabled_and_redirect :: "web_env \<Rightarrow> user_row \<Rightarrow> web_request \<Rightarrow> string \<Rightarrow> bool \<Rightarrow> response web" where
  "set_enabled_and_redirect wv user rq i enabled =
     m_bind (find_server wv user i) (\<lambda>inst.
     m_bind (w_stmt (\<lambda>d. set_enabled d i enabled)) (\<lambda>_.
     m_bind (m_modify (\<lambda>st. if enabled then st else st\<lparr>ap_status := status_remove (ap_status st) i\<rparr>)) (\<lambda>_.
     m_bind (m_modify (\<lambda>st. pool_changed st (u_id user))) (\<lambda>_.
     m_bind (audit_ok (if enabled then ''server.enable'' else ''server.disable'') user rq (i_namespace inst)) (\<lambda>_.
     m_return (server_page i))))))"

definition enable_server :: "web_env \<Rightarrow> user_row \<Rightarrow> web_request \<Rightarrow> string \<Rightarrow> string \<Rightarrow> response web" where
  "enable_server wv user rq i csrf =
     m_bind (require_csrf wv ''server.enable'' user rq i csrf) (\<lambda>_. set_enabled_and_redirect wv user rq i True)"

definition disable_server :: "web_env \<Rightarrow> user_row \<Rightarrow> web_request \<Rightarrow> string \<Rightarrow> string \<Rightarrow> response web" where
  "disable_server wv user rq i csrf =
     m_bind (require_csrf wv ''server.disable'' user rq i csrf) (\<lambda>_. set_enabled_and_redirect wv user rq i False)"

definition restart_server :: "web_env \<Rightarrow> user_row \<Rightarrow> web_request \<Rightarrow> string \<Rightarrow> string \<Rightarrow> response web" where
  "restart_server wv user rq i csrf =
     m_bind (require_csrf wv ''server.restart'' user rq i csrf) (\<lambda>_.
     m_bind (find_server wv user i) (\<lambda>inst.
     m_bind (m_modify (\<lambda>st. restart_backend st (i_id inst) (u_id user))) (\<lambda>_.
     m_bind (audit_ok ''server.restart'' user rq (i_namespace inst)) (\<lambda>_.
     m_return (server_page i)))))"

definition delete_server :: "web_env \<Rightarrow> user_row \<Rightarrow> web_request \<Rightarrow> string \<Rightarrow> string \<Rightarrow> response web" where
  "delete_server wv user rq i csrf =
     (let edir = env_dir (wv_cfg wv); pr = hv_proc (wv_hv wv) in
      m_bind (require_csrf wv ''server.remove'' user rq i csrf) (\<lambda>_.
      m_bind (find_server wv user i) (\<lambda>inst.
      m_bind (w_stmt (\<lambda>d. inst_delete d i)) (\<lambda>_.
      m_bind (m_modify (\<lambda>st. st\<lparr>ap_status := status_remove (ap_status st) i,
                ap_fs := remove_home pr edir i (remove_workdir pr edir i (remove_env pr edir i (ap_fs st)))\<rparr>)) (\<lambda>_.
      m_bind (m_modify (\<lambda>st. pool_changed st (u_id user))) (\<lambda>_.
      m_bind (audit_ok ''server.remove'' user rq (i_namespace inst)) (\<lambda>_.
      m_return (redirect_to ''/''))))))))"

text \<open>The build of a git source on the application state, with its outcome.\<close>

definition w_build :: "web_env \<Rightarrow> inst_row \<Rightarrow> server_def \<Rightarrow> sandbox option \<Rightarrow> ('e, update_report res) handler" where
  "w_build wv inst def sandbox = (\<lambda>st.
     case update_instance (hv_tools (wv_hv wv)) (hv_proc (wv_hv wv)) (hv_git_url (wv_hv wv)) (hv_box (wv_hv wv)) (wv_now wv)
            (env_dir (wv_cfg wv)) (ap_db st) inst def sandbox (ap_fs st) of
       (d, fs', r) \<Rightarrow> (st\<lparr>ap_db := d, ap_fs := fs'\<rparr>, Inr r))"

definition w_sandbox :: "web_env \<Rightarrow> string \<Rightarrow> ('e, sandbox option res) handler" where
  "w_sandbox wv user_id = (\<lambda>st. case app_sandbox_or_fail (wv_hv wv) st user_id of (st', r) \<Rightarrow> (st', Inr r))"

definition update_server :: "web_env \<Rightarrow> user_row \<Rightarrow> web_request \<Rightarrow> string \<Rightarrow> string \<Rightarrow> response web" where
  "update_server wv user rq i csrf =
     m_bind (require_csrf wv ''server.update'' user rq i csrf) (\<lambda>_.
     m_bind (find_server wv user i) (\<lambda>inst.
     m_bind (w_res wv (resolve_def inst)) (\<lambda>def.
     if \<not> is_git_source def then w_error wv ''this server is not git-sourced''
     else
       m_bind (w_sandbox wv (u_id user)) (\<lambda>sb.
       case sb of
         Inl e \<Rightarrow> w_error wv (''sandbox unavailable: '' @ e)
       | Inr sandbox \<Rightarrow>
           m_bind (w_build wv inst def sandbox) (\<lambda>out.
           case out of
             Inr report \<Rightarrow>
               m_bind (m_modify (\<lambda>st. if ur_changed report \<and> i_enabled inst then restart_backend st (i_id inst) (u_id user) else st)) (\<lambda>_.
               m_bind (audit_ok ''server.update'' user rq (i_namespace inst)) (\<lambda>_.
               m_return (server_page i)))
           | Inl e \<Rightarrow>
               m_bind (audit_denied ''server.update'' user rq (i_namespace inst) ''error'') (\<lambda>_.
               w_error wv (''update failed: '' @ e)))))))"

section \<open>Probing a server\<close>

type_synonym probe_result = "runtime_state \<times> string option \<times> capabilities_snapshot option"

text \<open>The steps of \<open>probe_instance\<close>: they leave early with a result, or never return.\<close>

type_synonym 'a probe_step = "(probe_result option, 'a) handler"

definition p_stop :: "runtime_state \<Rightarrow> string \<Rightarrow> 'a probe_step" where
  "p_stop rs msg = m_fail (Some (rs, Some msg, None))"

definition p_res :: "string \<Rightarrow> 'a res \<Rightarrow> 'a probe_step" where
  "p_res prefix r = (case r of Inl e \<Rightarrow> p_stop RsError (prefix @ e) | Inr x \<Rightarrow> m_return x)"

definition p_remote :: "web_env \<Rightarrow> server_def \<Rightarrow> unit probe_step" where
  "p_remote wv def =
     (if sd_transport def = ''http'' then
        (let url = trim (str_or [] (sd_url def)) in
         if url = [] then p_stop RsError ''no remote URL set''
         else p_res [] (check_backend_host (hv_url (wv_hv wv)) (wv_resolve wv) url (block_private_backend_ips (wv_cfg wv))))
      else m_return ())"

definition p_git :: "web_env \<Rightarrow> inst_row \<Rightarrow> server_def \<Rightarrow> sandbox option \<Rightarrow> server_def probe_step" where
  "p_git wv inst def sandbox =
     (let edir = env_dir (wv_cfg wv) in
      if \<not> is_git_source def then m_return def
      else
        m_bind (m_get ap_fs) (\<lambda>fs.
        if \<not> (i_build_status inst = ''ready'' \<and> fs (comps (env_path edir (i_id inst))) \<noteq> None) then
          p_stop RsUnbuilt ''not built yet; run Update from repository first''
        else
          m_bind (if venv_is_stale (hv_tools (wv_hv wv)) fs edir inst def
                  then m_bind (w_build wv inst def sandbox) (\<lambda>out. m_bind (p_res ''rebuild failed: '' out) (\<lambda>_. m_return ()))
                  else m_return ()) (\<lambda>_.
          m_bind (p_res ''git launch failed: '' (launch_command edir (i_id inst) def)) (\<lambda>(program, args).
          m_return (def\<lparr>sd_transport := ''stdio'', sd_command := Some program, sd_args := args\<rparr>)))))"

definition p_probe :: "web_env \<Rightarrow> inst_row \<Rightarrow> server_def \<Rightarrow> btree \<Rightarrow> sandbox option \<Rightarrow> string option \<Rightarrow> probe_result probe_step" where
  "p_probe wv inst def env sandbox config_file = (\<lambda>st.
     case probe (wv_launcher wv) (hv_proc (wv_hv wv)) (wv_now wv) def env sandbox (env_dir (wv_cfg wv)) (i_id inst) config_file
            (cfg_child_limits (wv_cfg wv))
            (unat (connect_timeout_or def (word_of_nat (backend_connect_timeout_secs (cfg_limits (wv_cfg wv)))))) (ap_fs st) of
       (fs', None) \<Rightarrow> (st\<lparr>ap_fs := fs'\<rparr>, Inl None)
     | (fs', Some (Inr snap)) \<Rightarrow> (st\<lparr>ap_fs := fs'\<rparr>, Inr (RsOk, None, Some snap))
     | (fs', Some (Inl e)) \<Rightarrow> (st\<lparr>ap_fs := fs'\<rparr>, Inr (RsError, Some (''failed to start: '' @ e), None)))"

definition probe_steps :: "web_env \<Rightarrow> string \<Rightarrow> inst_row \<Rightarrow> probe_result probe_step" where
  "probe_steps wv user_id inst =
     m_bind (p_res ''resolve failed: '' (resolve_def inst)) (\<lambda>def0.
     m_bind (p_remote wv def0) (\<lambda>_.
     m_bind (w_sandbox wv user_id) (\<lambda>sb.
     m_bind (p_res ''sandbox unavailable: '' sb) (\<lambda>sandbox.
     m_bind (p_git wv inst def0 sandbox) (\<lambda>def.
     m_bind (m_get (\<lambda>st. resolved_env (hv_box (wv_hv wv)) (ap_db st) inst)) (\<lambda>env0.
     m_bind (p_res ''config error: '' env0) (\<lambda>env.
     m_bind (m_get (\<lambda>st. resolved_config_file (hv_box (wv_hv wv)) (ap_db st) (i_id inst))) (\<lambda>cf0.
     m_bind (p_res ''config error: '' cf0) (\<lambda>config_file.
     p_probe wv inst def env sandbox config_file)))))))))"

definition probe_instance :: "web_env \<Rightarrow> string \<Rightarrow> inst_row \<Rightarrow> probe_result web" where
  "probe_instance wv user_id inst = (\<lambda>st.
     case probe_steps wv user_id inst st of
       (st', Inl None) \<Rightarrow> (st', Inl None)
     | (st', Inl (Some r)) \<Rightarrow> (st', Inr r)
     | (st', Inr r) \<Rightarrow> (st', Inr r))"

text \<open>The body the test button and the refresh button share: record the outcome and the snapshot.\<close>

definition probe_and_record :: "web_env \<Rightarrow> string \<Rightarrow> user_row \<Rightarrow> web_request \<Rightarrow> inst_row \<Rightarrow> unit web" where
  "probe_and_record wv action user rq inst =
     m_bind (probe_instance wv (u_id user) inst) (\<lambda>(status, detail, snapshot).
     m_bind (m_modify (\<lambda>st. st\<lparr>ap_status := status_set (wv_now wv) (ap_status st) (i_id inst) status detail\<rparr>)) (\<lambda>_.
     m_bind (case snapshot of
               None \<Rightarrow> m_return ()
             | Some snap \<Rightarrow> w_stmt (\<lambda>d. set_capabilities_snapshot d (i_id inst) (wv_store_snapshot wv snap))) (\<lambda>_.
     if status = RsOk then audit_ok action user rq (i_namespace inst)
     else audit_denied action user rq (i_namespace inst) (rs_as_str status))))"

definition test_server :: "web_env \<Rightarrow> user_row \<Rightarrow> web_request \<Rightarrow> string \<Rightarrow> string \<Rightarrow> response web" where
  "test_server wv user rq i csrf =
     m_bind (require_csrf wv ''server.test'' user rq i csrf) (\<lambda>_.
     m_bind (find_server wv user i) (\<lambda>inst.
     m_bind (probe_and_record wv ''server.test'' user rq inst) (\<lambda>_.
     m_return (server_page i))))"

definition refresh_capabilities :: "web_env \<Rightarrow> user_row \<Rightarrow> web_request \<Rightarrow> string \<Rightarrow> string \<Rightarrow> response web" where
  "refresh_capabilities wv user rq i csrf =
     m_bind (require_csrf wv ''server.capabilities'' user rq i csrf) (\<lambda>_.
     m_bind (find_server wv user i) (\<lambda>inst.
     m_bind (probe_and_record wv ''server.capabilities'' user rq inst) (\<lambda>_.
     m_return (redirect_to (''/servers/'' @ i @ ''/capabilities'')))))"

section \<open>Invites and recovery codes (administrators)\<close>

definition code_page :: "web_env \<Rightarrow> string \<Rightarrow> html list \<Rightarrow> string \<Rightarrow> html list \<Rightarrow> response" where
  \<open>code_page wv title intro plain outro =
     html_page 200 (page (wv_site wv) title (tpl [
       [Raw ''<header class="row"><h1>'', Raw title, Raw ''</h1><a href="/invites">&larr; Back</a></header>''],
       intro,
       [Raw ''<p class="copywrap"><code class="invite-code">'', Esc plain, Raw ''</code>''] @ copy_btn plain @ [Raw ''</p>''],
       outro]))\<close>

definition web_create_recovery :: "web_env \<Rightarrow> user_row \<Rightarrow> web_request \<Rightarrow> string \<Rightarrow> string \<Rightarrow> response web" where
  \<open>web_create_recovery wv user rq csrf handle =
     m_bind (require_admin_page wv ''recovery.create'' user rq (trim handle)) (\<lambda>_.
     m_bind (require_csrf wv ''recovery.create'' user rq (trim handle) csrf) (\<lambda>_.
     m_bind (m_get (\<lambda>st. find_by_handle (ap_db st) (trim handle))) (\<lambda>found.
     m_bind (w_opt wv ''no user with that handle'' found) (\<lambda>target.
     m_bind (w_db wv [] (\<lambda>d. create_recovery (hv_th (wv_hv wv)) (wv_now wv) (hv_random (wv_hv wv)) d (u_id user) (u_id target))) (\<lambda>(plain, _).
     m_bind (audit_ok ''recovery.create'' user rq (u_handle target)) (\<lambda>_.
     m_return (code_page wv ''Recovery code created''
       [Raw ''<p>Give this one-time code to <strong>'', Esc (u_handle target),
        Raw ''</strong>. It works once and <strong>will not be shown again</strong>:</p>'']
       plain
       [Raw ''<p class="muted">They enroll a new passkey at <code>'', Esc (base_url (wv_cfg wv)),
        Raw ''/recover</code> using their handle and this code.</p>''])))))))\<close>

definition web_create_invite :: "web_env \<Rightarrow> user_row \<Rightarrow> web_request \<Rightarrow> string \<Rightarrow> string \<Rightarrow> response web" where
  \<open>web_create_invite wv user rq csrf note =
     m_bind (require_admin_page wv ''invite.create'' user rq []) (\<lambda>_.
     m_bind (require_csrf wv ''invite.create'' user rq [] csrf) (\<lambda>_.
     m_bind (w_db wv [] (\<lambda>d. invites_create (hv_th (wv_hv wv)) (wv_now wv) (hv_random (wv_hv wv)) d (u_id user) (trim note))) (\<lambda>(plain, iv).
     m_bind (audit_ok ''invite.create'' user rq (iv_short_id iv)) (\<lambda>_.
     m_return (code_page wv ''Invite created''
       [Raw ''<p>Share this code with the person you are inviting. It works once and <strong>will not be shown again</strong>:</p>'']
       plain
       [Raw ''<p class="muted">They register at <code>'', Esc (base_url (wv_cfg wv)), Raw ''/register</code> using this code.</p>''])))))\<close>

definition web_revoke_invite :: "web_env \<Rightarrow> user_row \<Rightarrow> web_request \<Rightarrow> string \<Rightarrow> string \<Rightarrow> response web" where
  "web_revoke_invite wv user rq csrf short_id =
     m_bind (require_admin_page wv ''invite.revoke'' user rq (trim short_id)) (\<lambda>_.
     m_bind (require_csrf wv ''invite.revoke'' user rq (trim short_id) csrf) (\<lambda>_.
     m_bind (w_stmt (\<lambda>d. fst (invites_revoke d (trim short_id)))) (\<lambda>_.
     m_bind (audit_ok ''invite.revoke'' user rq (trim short_id)) (\<lambda>_.
     m_return (redirect_to ''/invites'')))))"

section \<open>Sessions and connected clients\<close>

definition account :: response where
  "account = redirect_to ''/account''"

definition revoke_other_sessions :: "web_env \<Rightarrow> user_row \<Rightarrow> web_request \<Rightarrow> string \<Rightarrow> response web" where
  "revoke_other_sessions wv user rq csrf =
     m_bind (require_csrf wv ''session.revoke_others'' user rq [] csrf) (\<lambda>_.
     m_bind (w_stmt (\<lambda>d. fst (delete_others d (u_id user) (str_or [] (current_session_id (wr_jar rq)))))) (\<lambda>_.
     m_bind (audit_ok ''session.revoke_others'' user rq []) (\<lambda>_.
     m_return account)))"

definition revoke_connection :: "web_env \<Rightarrow> user_row \<Rightarrow> web_request \<Rightarrow> string \<Rightarrow> string \<Rightarrow> response web" where
  "revoke_connection wv user rq csrf client_id =
     m_bind (require_csrf wv ''connection.revoke'' user rq (trim client_id) csrf) (\<lambda>_.
     m_bind (w_stmt (\<lambda>d. fst (revoke_user_client d (u_id user) (trim client_id)))) (\<lambda>_.
     m_bind (audit_ok ''connection.revoke'' user rq (trim client_id)) (\<lambda>_.
     m_return account)))"

definition update_connection_label :: "web_env \<Rightarrow> user_row \<Rightarrow> web_request \<Rightarrow> string \<Rightarrow> string \<Rightarrow> string \<Rightarrow> string \<Rightarrow> response web" where
  "update_connection_label wv user rq csrf client_id name note =
     (let cid = trim client_id in
      m_bind (require_csrf wv ''client.label'' user rq cid csrf) (\<lambda>_.
      m_bind (m_get (\<lambda>st. user_has_connection (wv_now wv) (ap_db st) (u_id user) cid)) (\<lambda>connected.
      if \<not> connected then w_error wv ''no such connected client''
      else
        m_bind (w_stmt (\<lambda>d. case set_client_label (wv_now wv) d (u_id user) cid (take 60 (trim name)) (take 200 (trim note)) of
                              Inl _ \<Rightarrow> d | Inr d' \<Rightarrow> d')) (\<lambda>_.
        m_bind (audit_ok ''client.label'' user rq cid) (\<lambda>_.
        m_return account)))))"

text \<open>The forms of checkboxes are maps from field names.\<close>

type_synonym field_map = "string \<Rightarrow> string option"

definition denied_from_form :: "db \<Rightarrow> string \<Rightarrow> field_map \<Rightarrow> string list" where
  "denied_from_form d user_id submitted =
     map i_id (filter (\<lambda>i. submitted (''allow_'' @ i_id i) = None) (inst_list_for_user d user_id))"

definition w_set_denials :: "web_env \<Rightarrow> user_row \<Rightarrow> string \<Rightarrow> string \<Rightarrow> field_map \<Rightarrow> unit web" where
  "w_set_denials wv user ty cid form =
     w_stmt (\<lambda>d. set_denials (wv_now wv) d (u_id user) ty cid (denied_from_form d (u_id user) form))"

definition update_connection_access :: "web_env \<Rightarrow> user_row \<Rightarrow> web_request \<Rightarrow> field_map \<Rightarrow> response web" where
  "update_connection_access wv user rq form =
     m_bind (require_csrf_unlogged wv rq (str_or [] (form ''csrf''))) (\<lambda>_.
     let cid = trim (str_or [] (form ''client_id'')) in
     m_bind (m_get (\<lambda>st. user_has_connection (wv_now wv) (ap_db st) (u_id user) cid)) (\<lambda>connected.
     if \<not> connected then w_error wv ''no such connected client''
     else
       m_bind (w_set_denials wv user OAUTH cid form) (\<lambda>_.
       m_bind (audit_ok ''client.access'' user rq cid) (\<lambda>_.
       m_return account))))"

definition update_token_access :: "web_env \<Rightarrow> user_row \<Rightarrow> web_request \<Rightarrow> field_map \<Rightarrow> response web" where
  "update_token_access wv user rq form =
     m_bind (require_csrf_unlogged wv rq (str_or [] (form ''csrf''))) (\<lambda>_.
     let tid = trim (str_or [] (form ''token_id'')) in
     m_bind (m_get (\<lambda>st. list_ex (\<lambda>t. pt_id t = tid) (tokens_list_for_user (ap_db st) (u_id user)))) (\<lambda>owned.
     if \<not> owned then w_error wv ''no such token''
     else
       m_bind (w_set_denials wv user PAT tid form) (\<lambda>_.
       m_bind (audit_ok ''token.access'' user rq tid) (\<lambda>_.
       m_return account))))"

section \<open>Connector groups\<close>

definition web_create_group :: "web_env \<Rightarrow> user_row \<Rightarrow> web_request \<Rightarrow> string \<Rightarrow> string \<Rightarrow> string \<Rightarrow> response web" where
  "web_create_group wv user rq csrf slug name =
     m_bind (require_csrf wv ''group.create'' user rq (trim slug) csrf) (\<lambda>_.
     m_bind (w_db wv ''could not create group: '' (\<lambda>d. groups_create (hv_new_id (wv_hv wv)) (wv_now wv) d (u_id user) (trim slug) (trim name))) (\<lambda>_.
     m_bind (audit_ok ''group.create'' user rq (trim slug)) (\<lambda>_.
     m_return (redirect_to ''/''))))"

definition web_update_group :: "web_env \<Rightarrow> user_row \<Rightarrow> web_request \<Rightarrow> string \<Rightarrow> field_map \<Rightarrow> response web" where
  "web_update_group wv user rq group_id form =
     m_bind (require_csrf_unlogged wv rq (str_or [] (form ''csrf''))) (\<lambda>_.
     m_bind (m_get (\<lambda>st. groups_find_by_id (ap_db st) (u_id user) group_id)) (\<lambda>found.
     m_bind (w_opt wv ''no such group'' found) (\<lambda>group.
     m_bind (m_get (\<lambda>st. map i_id (filter (\<lambda>i. form (''member_'' @ i_id i) \<noteq> None) (inst_list_for_user (ap_db st) (u_id user))))) (\<lambda>members.
     m_bind (w_db wv ''could not update group: '' (\<lambda>d. map_sum id (\<lambda>d'. (d', ())) (set_members (wv_now wv) d (u_id user) (g_id group) members))) (\<lambda>_.
     m_bind (m_modify (\<lambda>st. notify_tools_changed st (u_id user))) (\<lambda>_.
     m_bind (audit_ok ''group.update'' user rq (g_slug group)) (\<lambda>_.
     m_return (redirect_to ''/''))))))))"

definition web_delete_group :: "web_env \<Rightarrow> user_row \<Rightarrow> web_request \<Rightarrow> string \<Rightarrow> string \<Rightarrow> response web" where
  "web_delete_group wv user rq group_id csrf =
     m_bind (require_csrf_unlogged wv rq csrf) (\<lambda>_.
     m_bind (m_get (\<lambda>st. groups_find_by_id (ap_db st) (u_id user) group_id)) (\<lambda>found.
     m_bind (w_opt wv ''no such group'' found) (\<lambda>group.
     m_bind (w_stmt (\<lambda>d. fst (groups_delete d (u_id user) (g_id group)))) (\<lambda>_.
     m_bind (m_modify (\<lambda>st. notify_tools_changed st (u_id user))) (\<lambda>_.
     m_bind (audit_ok ''group.delete'' user rq (g_slug group)) (\<lambda>_.
     m_return (redirect_to ''/'')))))))"

section \<open>Tokens, git credentials and passkeys\<close>

definition token_page :: "web_env \<Rightarrow> string \<Rightarrow> int \<Rightarrow> string \<Rightarrow> response" where
  \<open>token_page wv name days plaintext =
     html_page 200 (page (wv_site wv) ''Token created'' (tpl [
       [Raw ''<header class="row"><h1>Token created</h1><a href="/account">&larr; Account</a></header>''],
       [Raw ''<p class="status status-warn">Copy this token now &mdash; it will <strong>not</strong> be shown again.</p>''],
       [Raw ''<p class="muted">Token <code>'', Esc name, Raw ''</code>, expires in '', Raw (int_str days),
        Raw '' days. It grants full access to your MCP endpoint; store it like a password.</p>''],
       copy_pre plaintext,
       [Raw ''<p class="muted">Use it as a bearer token, e.g.</p>''],
       copy_pre (''curl -H "Authorization: Bearer '' @ plaintext @ ''" '' @ mcp_url (wv_cfg wv)),
       [Raw ''<p><a href="/account">&larr; Back to account</a></p>'']]))\<close>

definition web_create_token :: "web_env \<Rightarrow> user_row \<Rightarrow> web_request \<Rightarrow> string \<Rightarrow> string \<Rightarrow> int \<Rightarrow> response web" where
  "web_create_token wv user rq csrf name0 expires_days =
     m_bind (require_csrf wv ''token.create'' user rq [] csrf) (\<lambda>_.
     let name = trim name0 in
     if name = [] then w_error wv ''a token name is required''
     else
       (let days = max 1 (min expires_days 365); ttl = days * 86400 in
        m_bind (w_db wv ''could not create token: '' (\<lambda>d.
                  tokens_create (hv_th (wv_hv wv)) (wv_now wv) (hv_random (wv_hv wv)) (hv_new_id (wv_hv wv)) d (u_id user) name ttl)) (\<lambda>(_, plaintext).
        m_bind (audit_ok ''token.create'' user rq name) (\<lambda>_.
        m_return (token_page wv name days plaintext)))))"

definition web_revoke_token :: "web_env \<Rightarrow> user_row \<Rightarrow> web_request \<Rightarrow> string \<Rightarrow> string \<Rightarrow> response web" where
  "web_revoke_token wv user rq csrf token_id =
     (let tid = trim token_id in
      m_bind (require_csrf wv ''token.revoke'' user rq tid csrf) (\<lambda>_.
      m_bind (w_stmt (\<lambda>d. fst (tokens_revoke d (u_id user) tid))) (\<lambda>_.
      m_bind (w_stmt (\<lambda>d. clear_for_credential d PAT tid)) (\<lambda>_.
      m_bind (audit_ok ''token.revoke'' user rq tid) (\<lambda>_.
      m_return account)))))"

record git_credential_form =
  gf_csrf :: string
  gf_host :: string
  gf_username :: string
  gf_label :: string
  gf_token :: string

definition save_git_credential :: "web_env \<Rightarrow> user_row \<Rightarrow> web_request \<Rightarrow> git_credential_form \<Rightarrow> response web" where
  "save_git_credential wv user rq form =
     m_bind (require_csrf wv ''git_credential.set'' user rq (trim (gf_host form)) (gf_csrf form)) (\<lambda>_.
     m_bind (\<lambda>st. case gitcreds_upsert (hv_git_url (wv_hv wv)) (hv_box (wv_hv wv)) (hv_nonce (wv_hv wv)) (hv_new_id (wv_hv wv)) (wv_now wv)
                         (ap_db st) (u_id user) (gf_host form) (gf_username form) (gf_label form) (gf_token form) of
                    (d, r) \<Rightarrow> (st\<lparr>ap_db := d\<rparr>, Inr r)) (\<lambda>out.
     case out of
       Inr cred \<Rightarrow> m_bind (audit_ok ''git_credential.set'' user rq (gd_host cred)) (\<lambda>_. m_return account)
     | Inl e \<Rightarrow> w_error wv (''could not save the git credential: '' @ e)))"

definition delete_git_credential :: "web_env \<Rightarrow> user_row \<Rightarrow> web_request \<Rightarrow> string \<Rightarrow> string \<Rightarrow> response web" where
  "delete_git_credential wv user rq csrf host =
     m_bind (require_csrf wv ''git_credential.delete'' user rq (trim host) csrf) (\<lambda>_.
     m_bind (w_stmt (\<lambda>d. case gitcreds_delete (hv_git_url (wv_hv wv)) d (u_id user) (trim host) of Inl _ \<Rightarrow> d | Inr (d', _) \<Rightarrow> d')) (\<lambda>_.
     m_bind (audit_ok ''git_credential.delete'' user rq (trim host)) (\<lambda>_.
     m_return account)))"

definition remove_passkey :: "web_env \<Rightarrow> user_row \<Rightarrow> web_request \<Rightarrow> string \<Rightarrow> string \<Rightarrow> response web" where
  "remove_passkey wv user rq csrf cred_id =
     m_bind (require_csrf wv ''passkey.remove'' user rq (trim cred_id) csrf) (\<lambda>_.
     m_bind (m_get (\<lambda>st. count_credentials (ap_db st) (u_id user))) (\<lambda>n.
     if n \<le> 1 then w_error wv ''you cannot remove your only passkey''
     else
       m_bind (w_stmt (\<lambda>d. fst (delete_credential d (u_id user) (trim cred_id)))) (\<lambda>_.
       m_bind (audit_ok ''passkey.remove'' user rq (trim cred_id)) (\<lambda>_.
       m_return account))))"

section \<open>Accounts and the metrics key (administrators)\<close>

definition regenerate_metrics_key :: "web_env \<Rightarrow> user_row \<Rightarrow> web_request \<Rightarrow> string \<Rightarrow> response web" where
  "regenerate_metrics_key wv user rq csrf =
     m_bind (require_admin_page wv ''metrics.key_regenerate'' user rq []) (\<lambda>_.
     m_bind (require_csrf wv ''metrics.key_regenerate'' user rq [] csrf) (\<lambda>_.
     m_bind (\<lambda>st. case regenerate_key (hv_box (wv_hv wv)) (hv_random (wv_hv wv)) (hv_nonce (wv_hv wv)) (wv_now wv) (ap_db st) (ap_metrics_key st) of
                    (d, key, r) \<Rightarrow> (st\<lparr>ap_db := d, ap_metrics_key := key\<rparr>, Inr r)) (\<lambda>out.
     m_bind (w_res wv out) (\<lambda>_.
     m_bind (audit_ok ''metrics.key_regenerate'' user rq []) (\<lambda>_.
     m_return (redirect_to ''/stats''))))))"

definition resolve_admin_target :: "web_env \<Rightarrow> string \<Rightarrow> user_row \<Rightarrow> web_request \<Rightarrow> string \<Rightarrow> string \<Rightarrow> user_row web" where
  "resolve_admin_target wv action admin rq csrf handle =
     m_bind (require_admin_page wv action admin rq (trim handle)) (\<lambda>_.
     m_bind (require_csrf wv action admin rq (trim handle) csrf) (\<lambda>_.
     m_bind (m_get (\<lambda>st. find_by_handle (ap_db st) (trim handle))) (\<lambda>found.
     m_bind (w_opt wv ''no user with that handle'' found) (\<lambda>target.
     if u_id target = u_id admin then w_error wv ''you cannot act on your own account here''
     else
       m_bind (m_get (\<lambda>st. count_admins (ap_db st))) (\<lambda>n.
       if u_is_admin target \<and> n \<le> 1 then w_error wv ''cannot disable or delete the last administrator''
       else m_return target)))))"

definition web_disable_user :: "web_env \<Rightarrow> user_row \<Rightarrow> web_request \<Rightarrow> string \<Rightarrow> string \<Rightarrow> response web" where
  "web_disable_user wv admin rq csrf handle =
     m_bind (resolve_admin_target wv ''user.disable'' admin rq csrf handle) (\<lambda>target.
     m_bind (m_modify (\<lambda>st. deactivate_user st (u_id target))) (\<lambda>_.
     m_bind (audit_ok ''user.disable'' admin rq (u_handle target)) (\<lambda>_.
     m_return (redirect_to ''/users''))))"

definition web_enable_user :: "web_env \<Rightarrow> user_row \<Rightarrow> web_request \<Rightarrow> string \<Rightarrow> string \<Rightarrow> response web" where
  "web_enable_user wv admin rq csrf handle =
     m_bind (resolve_admin_target wv ''user.enable'' admin rq csrf handle) (\<lambda>target.
     m_bind (w_stmt (\<lambda>d. set_disabled d (u_id target) False)) (\<lambda>_.
     m_bind (audit_ok ''user.enable'' admin rq (u_handle target)) (\<lambda>_.
     m_return (redirect_to ''/users''))))"

definition web_delete_user :: "web_env \<Rightarrow> user_row \<Rightarrow> web_request \<Rightarrow> string \<Rightarrow> string \<Rightarrow> response web" where
  "web_delete_user wv admin rq csrf handle =
     m_bind (resolve_admin_target wv ''user.delete'' admin rq csrf handle) (\<lambda>target.
     m_bind (m_modify (\<lambda>st. purge_user (wv_hv wv) st (u_id target))) (\<lambda>_.
     m_bind (audit_ok ''user.delete'' admin rq (u_handle target)) (\<lambda>_.
     m_return (redirect_to ''/users''))))"

section \<open>Routes\<close>

text \<open>The requests the pages serve: those that only read, those behind a session that change state,
  with the fields of their forms, and those open to everyone.\<close>

datatype get_page =
  Dashboard | NewServer | ServerDetail string | ServerCapabilities string | AccountPage | InvitesPage | UsersPage | StatsPage

datatype post_form =
  CreateServer server_form | SaveConfig string server_form
| EnableServer string string | DisableServer string string | RestartServer string string | DeleteServer string string
| UpdateServer string string | TestServer string string | RefreshCapabilities string string
| RevokeOtherSessions string | RevokeConnection string string | LabelConnection string string string string
| ConnectionAccess field_map | TokenAccess field_map
| CreateGroup string string string | UpdateGroup string field_map | DeleteGroup string string
| CreateToken string string int | RevokeToken string string
| SaveGitCredential git_credential_form | DeleteGitCredential string string | RemovePasskey string string
| CreateInvite string string | CreateRecovery string string | RevokeInvite string string
| RegenerateMetricsKey string | DisableUser string string | EnableUser string string | DeleteUser string string

datatype open_page = LoginPage "string option" | RegisterPage "string option" | RecoverPage | LogoutGet

datatype web_route = Get get_page | Post post_form | Open open_page

fun get_response :: "web_env \<Rightarrow> user_row \<Rightarrow> web_request \<Rightarrow> get_page \<Rightarrow> app_state \<Rightarrow> response" where
  "get_response wv u rq Dashboard st = dashboard wv st u (wr_jar rq)"
| "get_response wv u rq NewServer st = new_server wv (wr_jar rq)"
| "get_response wv u rq (ServerDetail i) st = server_detail wv st u (wr_jar rq) i"
| "get_response wv u rq (ServerCapabilities i) st = server_capabilities wv st u (wr_jar rq) i"
| "get_response wv u rq AccountPage st = account_page wv st u (wr_jar rq)"
| "get_response wv u rq InvitesPage st = invites_page wv st u (wr_jar rq)"
| "get_response wv u rq UsersPage st = users_page wv st u (wr_jar rq)"
| "get_response wv u rq StatsPage st = stats_page wv st u (wr_jar rq)"

fun post_handler :: "web_env \<Rightarrow> user_row \<Rightarrow> web_request \<Rightarrow> post_form \<Rightarrow> response web" where
  "post_handler wv u rq (CreateServer f) = create_server wv u rq f"
| "post_handler wv u rq (SaveConfig i f) = save_config wv u rq i f"
| "post_handler wv u rq (EnableServer i c) = enable_server wv u rq i c"
| "post_handler wv u rq (DisableServer i c) = disable_server wv u rq i c"
| "post_handler wv u rq (RestartServer i c) = restart_server wv u rq i c"
| "post_handler wv u rq (DeleteServer i c) = delete_server wv u rq i c"
| "post_handler wv u rq (UpdateServer i c) = update_server wv u rq i c"
| "post_handler wv u rq (TestServer i c) = test_server wv u rq i c"
| "post_handler wv u rq (RefreshCapabilities i c) = refresh_capabilities wv u rq i c"
| "post_handler wv u rq (RevokeOtherSessions c) = revoke_other_sessions wv u rq c"
| "post_handler wv u rq (RevokeConnection c cl) = revoke_connection wv u rq c cl"
| "post_handler wv u rq (LabelConnection c cl n t) = update_connection_label wv u rq c cl n t"
| "post_handler wv u rq (ConnectionAccess f) = update_connection_access wv u rq f"
| "post_handler wv u rq (TokenAccess f) = update_token_access wv u rq f"
| "post_handler wv u rq (CreateGroup c s n) = web_create_group wv u rq c s n"
| "post_handler wv u rq (UpdateGroup g f) = web_update_group wv u rq g f"
| "post_handler wv u rq (DeleteGroup g c) = web_delete_group wv u rq g c"
| "post_handler wv u rq (CreateToken c n days) = web_create_token wv u rq c n days"
| "post_handler wv u rq (RevokeToken c t) = web_revoke_token wv u rq c t"
| "post_handler wv u rq (SaveGitCredential f) = save_git_credential wv u rq f"
| "post_handler wv u rq (DeleteGitCredential c h) = delete_git_credential wv u rq c h"
| "post_handler wv u rq (RemovePasskey c i) = remove_passkey wv u rq c i"
| "post_handler wv u rq (CreateInvite c n) = web_create_invite wv u rq c n"
| "post_handler wv u rq (CreateRecovery c h) = web_create_recovery wv u rq c h"
| "post_handler wv u rq (RevokeInvite c s) = web_revoke_invite wv u rq c s"
| "post_handler wv u rq (RegenerateMetricsKey c) = regenerate_metrics_key wv u rq c"
| "post_handler wv u rq (DisableUser c h) = web_disable_user wv u rq c h"
| "post_handler wv u rq (EnableUser c h) = web_enable_user wv u rq c h"
| "post_handler wv u rq (DeleteUser c h) = web_delete_user wv u rq c h"

fun open_response :: "web_env \<Rightarrow> user_row option \<Rightarrow> open_page \<Rightarrow> response" where
  "open_response wv u (LoginPage n) = login_page wv u n"
| "open_response wv u (RegisterPage n) = register_page wv u n"
| "open_response wv u RecoverPage = recover_page wv u"
| "open_response wv u LogoutGet = logout_get"

definition answer :: "app_state \<times> (response option + response) \<Rightarrow> app_state \<times> response option" where
  "answer r = (case r of (st, Inl out) \<Rightarrow> (st, out) | (st, Inr out) \<Rightarrow> (st, Some out))"

text \<open>A page request: the extractor loads the user of the session cookie (\<open>AuthUser\<close>, or \<open>MaybeUser\<close>
  for the open pages, of which the redirect from \<open>/logout\<close> has none), then the handler runs.\<close>

fun serve :: "web_env \<Rightarrow> web_request \<Rightarrow> web_route \<Rightarrow> app_state \<Rightarrow> app_state \<times> response option" where
  "serve wv rq (Get p) st =
     (case auth_user (wv_now wv) (wv_cfg wv) (ap_db st) (wr_jar rq) of
        (d, Inl loc) \<Rightarrow> (st\<lparr>ap_db := d\<rparr>, Some (redirect_to loc))
      | (d, Inr u) \<Rightarrow> (st\<lparr>ap_db := d\<rparr>, Some (get_response wv u rq p (st\<lparr>ap_db := d\<rparr>))))"
| "serve wv rq (Post f) st =
     (case auth_user (wv_now wv) (wv_cfg wv) (ap_db st) (wr_jar rq) of
        (d, Inl loc) \<Rightarrow> (st\<lparr>ap_db := d\<rparr>, Some (redirect_to loc))
      | (d, Inr u) \<Rightarrow> answer (post_handler wv u rq f (st\<lparr>ap_db := d\<rparr>)))"
| "serve wv rq (Open p) st =
     (case (if p = LogoutGet then (ap_db st, None) else maybe_user (wv_now wv) (wv_cfg wv) (ap_db st) (wr_jar rq)) of
        (d, u) \<Rightarrow> (st\<lparr>ap_db := d\<rparr>, Some (open_response wv u p)))"

end
