(* ===== verification/Hub_Web_Safety.thy ===== *)
theory Hub_Web_Safety
  imports Hub_Web Hub_Isolation
begin

text \<open>
  What the pages promise: a form without the request token of its session changes nothing, the
  administration pages answer to administrators only, a user's forms leave the other users' data
  alone, no form takes a user's last passkey, and no stored value becomes markup of a page, the
  titles of the two server pages excepted.
\<close>

section \<open>Guards\<close>

text \<open>A handler that refuses: it leaves with a page of status 403 and writes at most one audit event.\<close>

definition refuses :: "'a web \<Rightarrow> bool" where
  "refuses m \<longleftrightarrow> (\<forall>st. \<exists>log r. m st = (st\<lparr>ap_audit := ap_audit st @ log\<rparr>, Inl (Some r)) \<and> length log \<le> 1 \<and> rp_status r = 403)"

named_theorems refuse_intros \<open>handlers that refuse\<close>

lemma refuses_bind [refuse_intros]: "refuses m \<Longrightarrow> refuses (m_bind m f)"
  unfolding refuses_def
proof (intro allI)
  fix st
  assume "\<forall>st. \<exists>log r. m st = (st\<lparr>ap_audit := ap_audit st @ log\<rparr>, Inl (Some r)) \<and> length log \<le> 1 \<and> rp_status r = 403"
  then obtain log r where "m st = (st\<lparr>ap_audit := ap_audit st @ log\<rparr>, Inl (Some r))" and *: "length log \<le> 1" "rp_status r = 403"
    by blast
  then have "m_bind m f st = (st\<lparr>ap_audit := ap_audit st @ log\<rparr>, Inl (Some r))" by (simp add: m_bind_def)
  with * show "\<exists>log r. m_bind m f st = (st\<lparr>ap_audit := ap_audit st @ log\<rparr>, Inl (Some r)) \<and> length log \<le> 1 \<and> rp_status r = 403"
    by blast
qed

lemma refuses_csrf [refuse_intros]:
  assumes "\<not> csrf_ok wv rq c"
  shows "refuses (require_csrf wv action user rq object c)" "refuses (require_csrf_unlogged wv rq c)"
proof -
  have "rp_status (forbidden (wv_site wv)) = 403" by (simp add: forbidden_def html_page_def)
  then show "refuses (require_csrf wv action user rq object c)" "refuses (require_csrf_unlogged wv rq c)"
    using assms
    by (auto simp: refuses_def require_csrf_def require_csrf_unlogged_def m_bind_def audit_denied_def m_modify_def emit_def
        w_exit_def m_fail_def intro: exI[of _ "[_]"] exI[of _ "[]"])
qed

lemma refuses_admin [refuse_intros]:
  assumes "\<not> u_is_admin user"
  shows "refuses (require_admin_page wv action user rq object)"
  using assms
  by (auto simp: refuses_def require_admin_page_def m_bind_def audit_denied_def m_modify_def emit_def w_exit_def m_fail_def
      admin_forbidden_def html_page_def intro!: exI[of _ "[_]"])

lemma refuses_after_admin [refuse_intros]:
  assumes "refuses (f ())"
  shows "refuses (m_bind (require_admin_page wv action user rq object) f)"
proof (cases "u_is_admin user")
  case True
  with assms show ?thesis by (simp add: require_admin_page_def m_bind_def m_return_def)
next
  case False
  then show ?thesis by (intro refuses_bind refuses_admin)
qed

text \<open>The request token a form carries.\<close>

fun form_csrf :: "post_form \<Rightarrow> string" where
  "form_csrf (CreateServer f) = sf_csrf f"
| "form_csrf (SaveConfig i f) = sf_csrf f"
| "form_csrf (EnableServer i c) = c"
| "form_csrf (DisableServer i c) = c"
| "form_csrf (RestartServer i c) = c"
| "form_csrf (DeleteServer i c) = c"
| "form_csrf (UpdateServer i c) = c"
| "form_csrf (TestServer i c) = c"
| "form_csrf (RefreshCapabilities i c) = c"
| "form_csrf (RevokeOtherSessions c) = c"
| "form_csrf (RevokeConnection c cl) = c"
| "form_csrf (LabelConnection c cl n t) = c"
| "form_csrf (ConnectionAccess f) = str_or [] (f ''csrf'')"
| "form_csrf (TokenAccess f) = str_or [] (f ''csrf'')"
| "form_csrf (CreateGroup c s n) = c"
| "form_csrf (UpdateGroup g f) = str_or [] (f ''csrf'')"
| "form_csrf (DeleteGroup g c) = c"
| "form_csrf (CreateToken c n d) = c"
| "form_csrf (RevokeToken c t) = c"
| "form_csrf (SaveGitCredential f) = gf_csrf f"
| "form_csrf (DeleteGitCredential c h) = c"
| "form_csrf (RemovePasskey c i) = c"
| "form_csrf (CreateInvite c n) = c"
| "form_csrf (CreateRecovery c h) = c"
| "form_csrf (RevokeInvite c s) = c"
| "form_csrf (RegenerateMetricsKey c) = c"
| "form_csrf (DisableUser c h) = c"
| "form_csrf (EnableUser c h) = c"
| "form_csrf (DeleteUser c h) = c"

fun admin_form :: "post_form \<Rightarrow> bool" where
  "admin_form (CreateInvite c n) = True"
| "admin_form (CreateRecovery c h) = True"
| "admin_form (RevokeInvite c s) = True"
| "admin_form (RegenerateMetricsKey c) = True"
| "admin_form (DisableUser c h) = True"
| "admin_form (EnableUser c h) = True"
| "admin_form (DeleteUser c h) = True"
| "admin_form _ = False"

lemmas server_handlers = create_server_def save_config_def enable_server_def disable_server_def restart_server_def
  delete_server_def update_server_def test_server_def refresh_capabilities_def
lemmas account_handlers = revoke_other_sessions_def revoke_connection_def update_connection_label_def
  update_connection_access_def update_token_access_def web_create_group_def web_update_group_def web_delete_group_def
  web_create_token_def web_revoke_token_def save_git_credential_def delete_git_credential_def remove_passkey_def
lemmas admin_handlers = web_create_invite_def web_create_recovery_def web_revoke_invite_def regenerate_metrics_key_def
  web_disable_user_def web_enable_user_def web_delete_user_def resolve_admin_target_def

lemma post_refused_csrf: "\<not> csrf_ok wv rq (form_csrf f) \<Longrightarrow> refuses (post_handler wv u rq f)"
  by (cases f; simp only: post_handler.simps form_csrf.simps server_handlers account_handlers admin_handlers Let_def;
      intro refuse_intros; assumption)

lemma post_refused_admin: "admin_form f \<Longrightarrow> \<not> u_is_admin u \<Longrightarrow> refuses (post_handler wv u rq f)"
  by (cases f; simp only: post_handler.simps admin_form.simps admin_handlers;
      (intro refuses_bind refuses_admin; assumption)?)

lemma answer_refused:
  assumes "refuses m"
  shows "\<exists>log r. answer (m st) = (st\<lparr>ap_audit := ap_audit st @ log\<rparr>, Some r) \<and> length log \<le> 1 \<and> rp_status r = 403"
proof -
  from assms obtain log r where "m st = (st\<lparr>ap_audit := ap_audit st @ log\<rparr>, Inl (Some r))" "length log \<le> 1" "rp_status r = 403"
    unfolding refuses_def by blast
  then show ?thesis by (intro exI[of _ log] exI[of _ r]) (simp add: answer_def)
qed

text \<open>Authentication changes the session table only.\<close>

lemma maybe_user_db: "\<exists>ws. fst (maybe_user now cfg d jar) = d\<lparr>web_sessions := ws\<rparr>"
proof -
  have "\<exists>ws. d = d\<lparr>web_sessions := ws\<rparr>" by (rule exI[of _ "web_sessions d"]) simp
  then show ?thesis
    by (auto simp: maybe_user_def load_and_touch_def session_delete_def Let_def split: option.split)
qed

lemma auth_user_db: "\<exists>ws. fst (auth_user now cfg d jar) = d\<lparr>web_sessions := ws\<rparr>"
  using maybe_user_db[of now cfg d jar] by (auto simp: auth_user_def split: prod.split option.split)

lemma auth_user_login: "auth_user now cfg d jar = (d', Inl loc) \<Longrightarrow> loc = ''/login''"
  by (auto simp: auth_user_def split: prod.splits option.splits)

lemma serve_refused:
  assumes "\<And>u. snd (auth_user (wv_now wv) (wv_cfg wv) (ap_db st) (wr_jar rq)) = Inr u \<Longrightarrow> refuses (post_handler wv u rq f)"
  shows "\<exists>ws log r. serve wv rq (Post f) st = (st\<lparr>ap_db := (ap_db st)\<lparr>web_sessions := ws\<rparr>, ap_audit := ap_audit st @ log\<rparr>, Some r) \<and>
    length log \<le> 1 \<and> (rp_status r = 403 \<or> r = redirect_to ''/login'')"
proof -
  obtain d x where a: "auth_user (wv_now wv) (wv_cfg wv) (ap_db st) (wr_jar rq) = (d, x)" by fastforce
  with auth_user_db obtain ws where d: "d = (ap_db st)\<lparr>web_sessions := ws\<rparr>" by (metis fst_conv)
  show ?thesis
  proof (cases x)
    case (Inl loc)
    with a auth_user_login have "loc = ''/login''" by blast
    with a Inl d have "serve wv rq (Post f) st = (st\<lparr>ap_db := (ap_db st)\<lparr>web_sessions := ws\<rparr>, ap_audit := ap_audit st @ []\<rparr>,
        Some (redirect_to ''/login''))" by simp
    then show ?thesis by (intro exI conjI) (assumption, simp_all)
  next
    case (Inr u)
    with a assms have "refuses (post_handler wv u rq f)" by simp
    from answer_refused[OF this, of "st\<lparr>ap_db := d\<rparr>"] obtain log r where
      "answer (post_handler wv u rq f (st\<lparr>ap_db := d\<rparr>)) = (st\<lparr>ap_db := d, ap_audit := ap_audit st @ log\<rparr>, Some r)"
      "length log \<le> 1" "rp_status r = 403" by auto
    with a Inr d show ?thesis by auto
  qed
qed

text \<open>Cross-site requests. A form that does not carry the token of the session its cookie names,
  whatever the form and whoever the user, changes nothing: the answer is the 403 page or the
  redirect to the login page, and the state is as before but for the session table, which
  authentication itself refreshes, and at most one audit event.\<close>

theorem csrf_required:
  assumes "csrf_for (wv_b64url wv) (wv_sha256 wv) (wr_jar rq) (master_key (wv_cfg wv)) \<noteq> Some (form_csrf f)"
  shows "\<exists>ws log r. serve wv rq (Post f) st = (st\<lparr>ap_db := (ap_db st)\<lparr>web_sessions := ws\<rparr>, ap_audit := ap_audit st @ log\<rparr>, Some r) \<and>
    length log \<le> 1 \<and> (rp_status r = 403 \<or> r = redirect_to ''/login'')"
proof (rule serve_refused, rule post_refused_csrf)
  show "\<not> csrf_ok wv rq (form_csrf f)"
    using assms by (auto simp: csrf_ok_def check_csrf_def dest: as_bytes_inj split: option.splits)
qed

text \<open>The pages and forms of the administrators.\<close>

fun admin_page :: "get_page \<Rightarrow> bool" where
  "admin_page InvitesPage = True"
| "admin_page UsersPage = True"
| "admin_page StatsPage = True"
| "admin_page _ = False"

text \<open>C16: administration. For a session whose user is not an administrator, no administration form
  changes anything but the session table and the audit log, and every administration page is the
  same 403 page whatever the hub holds, so it tells nothing about other users.\<close>

theorem admin_pages_closed:
  assumes "snd (auth_user (wv_now wv) (wv_cfg wv) (ap_db st) (wr_jar rq)) = Inr u" "\<not> u_is_admin u"
  shows "(admin_page p \<longrightarrow> snd (serve wv rq (Get p) st) = Some (admin_forbidden (wv_site wv))) \<and>
    (admin_form f \<longrightarrow>
      (\<exists>ws log r. serve wv rq (Post f) st = (st\<lparr>ap_db := (ap_db st)\<lparr>web_sessions := ws\<rparr>, ap_audit := ap_audit st @ log\<rparr>, Some r) \<and>
        length log \<le> 1 \<and> (rp_status r = 403 \<or> r = redirect_to ''/login'')))"
proof (intro conjI impI)
  assume "admin_page p"
  with assms show "snd (serve wv rq (Get p) st) = Some (admin_forbidden (wv_site wv))"
    by (cases p) (auto simp: invites_page_def users_page_def stats_page_def split: prod.split sum.split)
next
  assume "admin_form f"
  with assms show "\<exists>ws log r. serve wv rq (Post f) st =
      (st\<lparr>ap_db := (ap_db st)\<lparr>web_sessions := ws\<rparr>, ap_audit := ap_audit st @ log\<rparr>, Some r) \<and>
      length log \<le> 1 \<and> (rp_status r = 403 \<or> r = redirect_to ''/login'')"
    by (intro serve_refused) (simp add: post_refused_admin)
qed

section \<open>The other users\<close>

text \<open>The view of the others, with their browser sessions and passkeys, and without the backend denials
  (see below).\<close>

definition hide_own :: "string \<Rightarrow> app_state \<Rightarrow> app_state" where
  "hide_own u st =
     st\<lparr>ap_db := (ap_db st)\<lparr>web_sessions := filter (\<lambda>r. ws_user_id r \<noteq> u) (web_sessions (ap_db st)),
          webauthn_credentials := filter (\<lambda>r. wc_user_id r \<noteq> u) (webauthn_credentials (ap_db st)),
          credential_backend_denials := []\<rparr>\<rparr>"

definition web_others :: "string \<Rightarrow> app_state \<Rightarrow> app_state" where
  "web_others u st = hide_own u (others u st)"

definition web_isolated :: "string \<Rightarrow> app_state \<Rightarrow> app_state \<Rightarrow> bool" where
  "web_isolated u base st \<longleftrightarrow>
     web_others u st = base \<and> ids_unique (ap_db st) \<and> distinct (map ws_id (web_sessions (ap_db st)))"

lemma isolated_web:
  assumes "\<And>b. keeps (isolated u b) m (\<lambda>_. True)"
  shows "keeps (web_isolated u base) m (\<lambda>_. True)"
  unfolding keeps_def
proof (intro allI impI conjI)
  fix st assume st: "web_isolated u base st"
  then have "isolated u (others u st) st" by (simp add: isolated_def web_isolated_def)
  with assms have "isolated u (others u st) (fst (m st))" by (simp add: keeps_def)
  moreover from this have "web_sessions (ap_db (others u (fst (m st)))) = web_sessions (ap_db (others u st))"
    by (simp add: isolated_def)
  then have "web_sessions (ap_db (fst (m st))) = web_sessions (ap_db st)" by (simp add: others_def others_db_def)
  ultimately show "web_isolated u base (fst (m st))" using st by (simp add: isolated_def web_isolated_def web_others_def)
qed simp

text \<open>Steps of the pages.\<close>

lemma keeps_web_reads [keeps_intros]:
  "keeps I (w_exit r) p" "keeps I (w_error wv msg) p" "keeps I (w_res wv x) (\<lambda>_. True)" "keeps I (w_opt wv msg y) (\<lambda>_. True)"
  by (auto simp: keeps_def w_exit_def w_error_def w_res_def w_opt_def m_fail_def m_return_def split: sum.split option.split)

lemma isolated_audit: "isolated u base st \<Longrightarrow> isolated u base (emit a b ev st)"
  by (simp add: isolated_def others_def emit_def)

lemma isolated_m_audit [keeps_intros]:
  "keeps (isolated u base) (audit_ok a user rq ob) (\<lambda>_. True)" "keeps (isolated u base) (audit_denied a user rq ob re) (\<lambda>_. True)"
  unfolding audit_ok_def audit_denied_def by (auto intro!: keeps_modify isolated_audit)

lemma isolated_guards [keeps_intros]:
  "keeps (isolated u base) (require_csrf wv a user rq ob c) (\<lambda>_. True)"
  "keeps (isolated u base) (require_csrf_unlogged wv rq c) (\<lambda>_. True)"
  unfolding require_csrf_def require_csrf_unlogged_def by (intro keeps_intros)+

lemma keeps_sum:
  "(\<And>e. r = Inl e \<Longrightarrow> keeps I (a e) p) \<Longrightarrow> (\<And>x. r = Inr x \<Longrightarrow> keeps I (b x) p) \<Longrightarrow>
   keeps I (case r of Inl e \<Rightarrow> a e | Inr x \<Rightarrow> b x) p"
  by (cases r) auto

declare keeps_sum [keeps_intros]

lemma isolated_w_stmt:
  assumes "\<And>d. ids_unique d \<Longrightarrow> theirs d u = theirs (ap_db base) u \<Longrightarrow> their_group d u = their_group (ap_db base) u \<Longrightarrow> unseen u d (f d)"
  shows "keeps (isolated u base) (w_stmt f) (\<lambda>_. True)"
  unfolding w_stmt_def
proof (rule keeps_modify)
  fix st assume st: "isolated u base st"
  have "unseen u (ap_db st) (f (ap_db st))"
    by (rule assms) (use st theirs_base[OF st] their_group_base[OF st] in \<open>simp_all add: isolated_def\<close>)
  with st isolated_db show "isolated u base (st\<lparr>ap_db := f (ap_db st)\<rparr>)" by blast
qed

lemma isolated_w_db:
  assumes "\<And>d d' x. f d = Inr (d', x) \<Longrightarrow> ids_unique d \<Longrightarrow> theirs d u = theirs (ap_db base) u \<Longrightarrow>
    their_group d u = their_group (ap_db base) u \<Longrightarrow> unseen u d d'"
  shows "keeps (isolated u base) (w_db wv prefix f) (\<lambda>_. True)"
  unfolding w_db_def using assms by (intro isolated_stmt) (simp add: map_sum_Inr_iff)

lemma get_owned_SomeD: "get_owned d i u = Some r \<Longrightarrow> r \<in> set (user_server_instances d) \<and> i_user_id r = u \<and> i_id r = i"
  by (auto simp: get_owned_def inst_get_def split: option.splits if_splits dest!: find_SomeD)

lemma isolated_find_server:
  "keeps (isolated (u_id user) base) (find_server wv user i)
     (\<lambda>inst. \<not> theirs (ap_db base) (u_id user) (i_id inst) \<and> i_user_id inst = u_id user \<and> i_id inst = i)"
  unfolding find_server_def
proof (rule keeps_bind, rule keeps_get)
  fix st assume st: "isolated (u_id user) base st"
  then have "ids_unique (ap_db st)" by (simp add: isolated_def)
  from own_not_theirs[OF this] theirs_base[OF st]
  show "\<forall>inst. get_owned (ap_db st) i (u_id user) = Some inst \<longrightarrow>
      \<not> theirs (ap_db base) (u_id user) (i_id inst) \<and> i_user_id inst = u_id user \<and> i_id inst = i"
    by (metis get_owned_SomeD)
qed (auto simp: w_opt_def w_error_def w_exit_def keeps_return keeps_fail split: option.split)

lemma isolated_w_replace_env:
  "\<not> theirs (ap_db base) u i \<Longrightarrow> keeps (isolated u base) (w_replace_env wv i env) (\<lambda>_. True)"
  unfolding w_replace_env_def by (rule isolated_w_db) (auto simp: map_sum_Inr_iff unseen_replace_env)

lemma isolated_apply_config_file:
  "\<not> theirs (ap_db base) u i \<Longrightarrow> keeps (isolated u base) (apply_config_file wv i c) (\<lambda>_. True)"
  unfolding apply_config_file_def
  by (intro keeps_intros isolated_w_stmt isolated_w_db isolated_m_fs)
     (auto simp: map_sum_Inr_iff unseen_set_config_file unseen_clear_config_file)

lemma isolated_w_inst_create:
  "keeps (isolated u base) (w_db wv p (\<lambda>d. inst_create n now d u cat def ns name)) (\<lambda>r. \<not> theirs (ap_db base) u (i_id r))"
  unfolding w_db_def
proof (rule keeps_db)
  fix st d x
  assume st: "isolated u base st"
    and "map_sum (\<lambda>e. Some (error_page (wv_site wv) (p @ e))) id (inst_create n now (ap_db st) u cat def ns name) = Inr (d, x)"
  then have "inst_create n now (ap_db st) u cat def ns name = Inr (d, x)" by (simp add: map_sum_Inr_iff)
  from unseen_inst_create[OF this] st have "unseen u (ap_db st) d" and n: "\<not> theirs d u (i_id x)"
    by (simp_all add: isolated_def)
  from isolated_db[OF st this(1)] have "isolated u base (st\<lparr>ap_db := d\<rparr>)" .
  with n theirs_base[OF this] show "isolated u base (st\<lparr>ap_db := d\<rparr>) \<and> \<not> theirs (ap_db base) u (i_id x)" by simp
qed

lemma w_build_state: "fst (w_build wv inst def sandbox st) = fst (m_update_instance (wv_hv wv) inst def sandbox st)"
  by (simp add: w_build_def m_update_instance_def split: prod.split)

lemma isolated_w_build:
  assumes "\<not> theirs (ap_db base) u (i_id inst)" "i_user_id inst = u"
  shows "keeps (isolated u base) (w_build wv inst def sandbox) (\<lambda>_. True)"
  using isolated_m_update_instance[OF assms] by (simp add: keeps_def w_build_state)

lemma isolated_w_sandbox: "keeps (isolated u base) (w_sandbox wv v) (\<lambda>_. True)"
  by (auto simp: keeps_def w_sandbox_def app_sandbox_or_fail_def Let_def intro: isolated_fs)

lemma page_on_own:
  assumes "\<And>inst. \<not> theirs (ap_db base) (u_id user) (i_id inst) \<Longrightarrow> i_user_id inst = u_id user \<Longrightarrow> i_id inst = i \<Longrightarrow>
    keeps (isolated (u_id user) base) (f inst) (\<lambda>_. True)"
  shows "keeps (isolated (u_id user) base) (m_bind (find_server wv user i) f) (\<lambda>_. True)"
  using assms by (intro keeps_bind[OF isolated_find_server]) blast

lemmas web_steps = isolated_w_replace_env isolated_apply_config_file isolated_w_build isolated_w_sandbox
  isolated_m_pool_changed isolated_m_notify

lemma page_create_server: "keeps (isolated (u_id user) base) (create_server wv user rq f) (\<lambda>_. True)"
  unfolding create_server_def Let_def by (intro keeps_bind[OF isolated_w_inst_create] keeps_intros web_steps) assumption+

lemma page_save_config: "keeps (isolated (u_id user) base) (save_config wv user rq i f) (\<lambda>_. True)"
  unfolding save_config_def Let_def
  by (intro page_on_own keeps_intros web_steps isolated_w_stmt keeps_modify; auto simp: unseen_update_def isolated_restart)

lemma page_set_enabled: "keeps (isolated (u_id user) base) (set_enabled_and_redirect wv user rq i b) (\<lambda>_. True)"
  unfolding set_enabled_and_redirect_def
  by (intro page_on_own keeps_intros web_steps isolated_w_stmt keeps_modify; auto simp: unseen_set_enabled isolated_status)

lemma page_toggles:
  "keeps (isolated (u_id user) base) (enable_server wv user rq i c) (\<lambda>_. True)"
  "keeps (isolated (u_id user) base) (disable_server wv user rq i c) (\<lambda>_. True)"
  unfolding enable_server_def disable_server_def by (intro keeps_intros page_set_enabled)+

lemma page_restart: "keeps (isolated (u_id user) base) (restart_server wv user rq i c) (\<lambda>_. True)"
  unfolding restart_server_def by (intro page_on_own keeps_intros keeps_modify; auto simp: isolated_restart)

lemma page_delete: "keeps (isolated (u_id user) base) (delete_server wv user rq i c) (\<lambda>_. True)"
proof -
  have "isolated u base (st\<lparr>ap_status := status_remove (ap_status st) j, ap_fs := f st\<rparr>)"
    if "isolated u base st" "\<not> theirs (ap_db base) u j" for st f j u
    using isolated_fs[OF isolated_status[OF that]] by simp
  then have m: "keeps (isolated u base) (m_modify (\<lambda>st. st\<lparr>ap_status := status_remove (ap_status st) j, ap_fs := f st\<rparr>)) (\<lambda>_. True)"
    if "\<not> theirs (ap_db base) u j" for u j f using that by (intro keeps_modify)
  show ?thesis unfolding delete_server_def Let_def
    by (intro page_on_own keeps_intros web_steps isolated_w_stmt m; auto simp: unseen_inst_delete)
qed

lemma page_update: "keeps (isolated (u_id user) base) (update_server wv user rq i c) (\<lambda>_. True)"
  unfolding update_server_def
  by (intro page_on_own keeps_intros web_steps keeps_modify; auto simp: isolated_restart)

text \<open>A probe builds, writes files and reads.\<close>

lemma isolated_p_steps [keeps_intros]:
  "keeps I (p_stop rs msg) p" "keeps I (p_res pre x) (\<lambda>_. True)" "keeps I (p_remote wv def) (\<lambda>_. True)"
proof -
  show stop: "keeps I (p_stop rs msg) p" for rs msg p by (simp add: p_stop_def keeps_fail)
  show res: "keeps I (p_res pre x) (\<lambda>_. True)" for pre x by (simp add: p_res_def stop keeps_return split: sum.split)
  show "keeps I (p_remote wv def) (\<lambda>_. True)" unfolding p_remote_def Let_def by (intro keeps_intros stop res)
qed

lemma isolated_probe_steps:
  assumes "\<not> theirs (ap_db base) u (i_id inst)" "i_user_id inst = u"
  shows "keeps (isolated u base) (probe_steps wv v inst) (\<lambda>_. True)"
proof -
  have git: "keeps (isolated u base) (p_git wv inst def sandbox) (\<lambda>_. True)" for def sandbox
    unfolding p_git_def Let_def by (intro keeps_intros isolated_w_build assms)
  have probe: "keeps (isolated u base) (p_probe wv inst def env sandbox cf) (\<lambda>_. True)" for def env sandbox cf
    by (auto simp: keeps_def p_probe_def intro: isolated_fs split: prod.split option.split sum.split)
  show ?thesis unfolding probe_steps_def by (intro keeps_intros isolated_w_sandbox git probe)
qed

lemma isolated_probe:
  assumes "\<not> theirs (ap_db base) u (i_id inst)" "i_user_id inst = u"
  shows "keeps (isolated u base) (probe_instance wv v inst) (\<lambda>_. True)"
proof -
  have "fst (probe_instance wv v inst st) = fst (probe_steps wv v inst st)" for st
    by (auto simp: probe_instance_def split: prod.split sum.split option.split)
  with isolated_probe_steps[OF assms] show ?thesis by (simp add: keeps_def)
qed

lemma isolated_status_set:
  assumes "isolated u base st" "\<not> theirs (ap_db base) u i"
  shows "isolated u base (st\<lparr>ap_status := status_set now (ap_status st) i s det\<rparr>)"
proof -
  have "filter (\<lambda>(j, _). theirs (ap_db st) u j) (hm_remove i m) = filter (\<lambda>(j, _). theirs (ap_db st) u j) m" for m :: status_registry
    using assms theirs_base[OF assms(1)] by (induction m) (auto simp: hm_remove_def)
  with assms theirs_base[OF assms(1)] show ?thesis by (simp add: isolated_def others_def status_set_def hm_insert_def)
qed

lemma isolated_record:
  assumes "\<not> theirs (ap_db base) u (i_id inst)" "i_user_id inst = u" "u = u_id user"
  shows "keeps (isolated u base) (probe_and_record wv a user rq inst) (\<lambda>_. True)"
proof -
  have snap: "keeps (isolated u base) (w_stmt (\<lambda>d. set_capabilities_snapshot d (i_id inst) s)) (\<lambda>_. True)" for s
    unfolding set_capabilities_snapshot_def
    by (rule isolated_w_stmt, rule unseen_update_instance) (use assms in auto)
  show ?thesis unfolding probe_and_record_def
    by (intro keeps_intros isolated_probe keeps_modify snap isolated_status_set; (use assms in simp)?)
qed

lemma page_probes:
  "keeps (isolated (u_id user) base) (test_server wv user rq i c) (\<lambda>_. True)"
  "keeps (isolated (u_id user) base) (refresh_capabilities wv user rq i c) (\<lambda>_. True)"
  unfolding test_server_def refresh_capabilities_def by (intro page_on_own keeps_intros isolated_record; simp)+

lemma unseen_refresh_tokens:
  assumes "filter (\<lambda>r. rt_user_id r \<noteq> u) t = filter (\<lambda>r. rt_user_id r \<noteq> u) (oauth_refresh_tokens d)"
  shows "unseen u d (d\<lparr>oauth_refresh_tokens := t\<rparr>)"
  using assms by (simp add: unseen_def ids_unique_def others_db_def theirs_def their_group_def del: set_filter)

lemma page_connections:
  "keeps (isolated (u_id user) base) (revoke_connection wv user rq c cl) (\<lambda>_. True)"
  "keeps (isolated (u_id user) base) (update_connection_label wv user rq c cl n t) (\<lambda>_. True)"
proof -
  have "unseen u d (fst (revoke_user_client d u x))" for u d x
    unfolding revoke_user_client_def Let_def fst_conv by (rule unseen_refresh_tokens, rule filter_delete_other) simp
  then show "keeps (isolated (u_id user) base) (revoke_connection wv user rq c cl) (\<lambda>_. True)"
    unfolding revoke_connection_def by (intro keeps_intros isolated_w_stmt)
  have "unseen u d (case set_client_label now d u x y z of Inl _ \<Rightarrow> d | Inr d' \<Rightarrow> d')" for u d now x y z
    using unseen_set_client_label by (auto split: sum.split)
  then show "keeps (isolated (u_id user) base) (update_connection_label wv user rq c cl n t) (\<lambda>_. True)"
    unfolding update_connection_label_def Let_def by (intro keeps_intros isolated_w_stmt)
qed

lemma page_groups:
  "keeps (isolated (u_id user) base) (web_create_group wv user rq c s n) (\<lambda>_. True)"
  "keeps (isolated (u_id user) base) (web_update_group wv user rq g f) (\<lambda>_. True)"
  "keeps (isolated (u_id user) base) (web_delete_group wv user rq g c) (\<lambda>_. True)"
  unfolding web_create_group_def web_update_group_def web_delete_group_def
  by (intro keeps_intros web_steps isolated_w_stmt isolated_w_db;
      auto simp: map_sum_Inr_iff unseen_groups_delete dest: unseen_groups_create unseen_set_members)+

lemma page_credentials:
  "keeps (isolated (u_id user) base) (web_create_token wv user rq c n days) (\<lambda>_. True)"
  "keeps (isolated (u_id user) base) (save_git_credential wv user rq f) (\<lambda>_. True)"
  "keeps (isolated (u_id user) base) (delete_git_credential wv user rq c h) (\<lambda>_. True)"
proof -
  have pat: "unseen u d d'" if "tokens_create th now rnd nid d u nm ttl = Inr (d', x)" for th now rnd nid d u nm ttl d' x
    using that by (auto simp: tokens_create_def insert_pat_def Let_def split: sum.splits if_splits intro!: unseen_pats)
  show "keeps (isolated (u_id user) base) (web_create_token wv user rq c n days) (\<lambda>_. True)"
    unfolding web_create_token_def Let_def by (intro keeps_intros isolated_w_db pat)
  have up: "keeps (isolated u base) (\<lambda>st. case gitcreds_upsert p sb nn nid now (ap_db st) u h un l t of (d, r) \<Rightarrow> (st\<lparr>ap_db := d\<rparr>, Inr r)) (\<lambda>_. True)"
    for p sb nn nid now u h un l t
    unfolding keeps_def using isolated_db unseen_gitcreds_upsert by (simp add: case_prod_beta)
  show "keeps (isolated (u_id user) base) (save_git_credential wv user rq f) (\<lambda>_. True)"
    unfolding save_git_credential_def by (intro keeps_intros up)
  have "unseen u d (case gitcreds_delete p d u x of Inl _ \<Rightarrow> d | Inr (d', _) \<Rightarrow> d')" for u d p x
    by (auto split: sum.split dest: unseen_gitcreds_delete)
  then show "keeps (isolated (u_id user) base) (delete_git_credential wv user rq c h) (\<lambda>_. True)"
    unfolding delete_git_credential_def by (intro keeps_intros isolated_w_stmt)
qed

text \<open>The forms on the user's own sessions, passkeys and backend denials.\<close>

lemma hidden_change:
  assumes "web_isolated u base st"
  shows "filter (\<lambda>r. ws_user_id r \<noteq> u) t = filter (\<lambda>r. ws_user_id r \<noteq> u) (web_sessions (ap_db st)) \<Longrightarrow> distinct (map ws_id t) \<Longrightarrow>
      web_isolated u base (st\<lparr>ap_db := (ap_db st)\<lparr>web_sessions := t\<rparr>\<rparr>)"
    "filter (\<lambda>r. wc_user_id r \<noteq> u) c = filter (\<lambda>r. wc_user_id r \<noteq> u) (webauthn_credentials (ap_db st)) \<Longrightarrow>
      web_isolated u base (st\<lparr>ap_db := (ap_db st)\<lparr>webauthn_credentials := c\<rparr>\<rparr>)"
    "web_isolated u base (st\<lparr>ap_db := (ap_db st)\<lparr>credential_backend_denials := n\<rparr>\<rparr>)"
  using assms
  by (simp_all add: web_isolated_def web_others_def hide_own_def others_def others_db_def theirs_def their_group_def ids_unique_def
      del: set_filter)

lemmas web_lift = isolated_web[OF isolated_guards(1)] isolated_web[OF isolated_guards(2)] isolated_web[OF isolated_m_audit(1)]

lemma page_own_sessions: "keeps (web_isolated (u_id user) base) (revoke_other_sessions wv user rq c) (\<lambda>_. True)"
proof -
  have "keeps (web_isolated u base) (w_stmt (\<lambda>d. fst (delete_others d u keep))) (\<lambda>_. True)" for u keep
    unfolding w_stmt_def delete_others_def Let_def fst_conv
  proof (rule keeps_modify)
    fix st assume st: "web_isolated u base st"
    show "web_isolated u base (st\<lparr>ap_db := (ap_db st)\<lparr>web_sessions := tbl_delete (\<lambda>r. ws_user_id r = u \<and> ws_id r \<noteq> keep) (web_sessions (ap_db st))\<rparr>\<rparr>)"
      by (rule hidden_change(1)[OF st], rule filter_delete_other) (use st in \<open>auto simp: web_isolated_def tbl_delete_def distinct_map_filter\<close>)
  qed
  then show ?thesis unfolding revoke_other_sessions_def by (intro keeps_intros web_lift)
qed

lemma page_own_passkeys: "keeps (web_isolated (u_id user) base) (remove_passkey wv user rq c i) (\<lambda>_. True)"
proof -
  have "keeps (web_isolated u base) (w_stmt (\<lambda>d. fst (delete_credential d u j))) (\<lambda>_. True)" for u j
    unfolding w_stmt_def delete_credential_def Let_def fst_conv
    by (intro keeps_modify hidden_change(2)) (auto intro: filter_delete_other)
  then show ?thesis unfolding remove_passkey_def by (intro keeps_intros web_lift)
qed

lemma page_own_denials:
  "keeps (web_isolated (u_id user) base) (update_connection_access wv user rq f) (\<lambda>_. True)"
  "keeps (web_isolated (u_id user) base) (update_token_access wv user rq f) (\<lambda>_. True)"
  "keeps (web_isolated (u_id user) base) (web_revoke_token wv user rq c t) (\<lambda>_. True)"
proof -
  have set: "keeps (web_isolated u base) (w_set_denials wv user ty cid f) (\<lambda>_. True)" for u ty cid f
    unfolding w_set_denials_def w_stmt_def set_denials_def by (intro keeps_modify hidden_change(3))
  show "keeps (web_isolated (u_id user) base) (update_connection_access wv user rq f) (\<lambda>_. True)"
    "keeps (web_isolated (u_id user) base) (update_token_access wv user rq f) (\<lambda>_. True)"
    unfolding update_connection_access_def update_token_access_def Let_def by (intro keeps_intros web_lift set)+
  have clear: "keeps (web_isolated u base) (w_stmt (\<lambda>d. clear_for_credential d ty cid)) (\<lambda>_. True)" for u ty cid
    unfolding w_stmt_def clear_for_credential_def by (intro keeps_modify hidden_change(3))
  have revoke: "keeps (web_isolated u base) (w_stmt (\<lambda>d. fst (tokens_revoke d u cid))) (\<lambda>_. True)" for u cid
    by (rule isolated_web, rule isolated_w_stmt) (rule unseen_tokens_revoke)
  show "keeps (web_isolated (u_id user) base) (web_revoke_token wv user rq c t) (\<lambda>_. True)"
    unfolding web_revoke_token_def Let_def by (intro keeps_intros web_lift clear revoke)
qed

lemmas own_pages = page_create_server page_save_config page_toggles page_restart page_delete page_update page_probes
  page_connections page_groups page_credentials

text \<open>The forms that touch neither the user's sessions, passkeys nor denials.\<close>

fun own_form :: "post_form \<Rightarrow> bool" where
  "own_form (RevokeOtherSessions c) = False"
| "own_form (RemovePasskey c i) = False"
| "own_form (ConnectionAccess f) = False"
| "own_form (TokenAccess f) = False"
| "own_form (RevokeToken c t) = False"
| "own_form f = (\<not> admin_form f)"

lemma post_own: "own_form f \<Longrightarrow> keeps (isolated (u_id u) base) (post_handler wv u rq f) (\<lambda>_. True)"
  by (cases f) (simp_all add: own_pages)

lemma post_isolated: "\<not> admin_form f \<Longrightarrow> keeps (web_isolated (u_id u) base) (post_handler wv u rq f) (\<lambda>_. True)"
  by (cases "own_form f", rule isolated_web, erule post_own)
     (cases f; simp add: page_own_sessions page_own_passkeys page_own_denials)

text \<open>Loading the user of a session touches that session only.\<close>

lemma find_session_owner:
  assumes "distinct (map ws_id (web_sessions d))" "find_session d sid = Some r" "x \<in> set (web_sessions d)" "ws_id x = sid"
  shows "ws_user_id x = ws_user_id r"
proof -
  from assms(2) have "r \<in> set (web_sessions d)" "ws_id r = sid" unfolding find_session_def by (auto dest: find_SomeD)
  with assms(4) have "x = r" by (intro distinct_key_eq[OF assms(1,3)]) simp_all
  then show ?thesis by simp
qed

lemma load_and_touch_Some:
  assumes "load_and_touch now d sid idle absolute = (d', Some u)"
  shows "\<exists>r. find_session d sid = Some r \<and> users_find_by_id d (ws_user_id r) = Some u \<and>
    (d' = d \<or> d' = d\<lparr>web_sessions := tbl_update (\<lambda>r. ws_id r = sid)
        (\<lambda>s. s\<lparr>ws_expires_at := min (now + idle) (ws_created_at r + absolute)\<rparr>) (web_sessions d)\<rparr>)"
proof (cases "find_session d sid")
  case None
  with assms show ?thesis by (simp add: load_and_touch_def)
next
  case (Some r)
  let ?t = "d\<lparr>web_sessions := tbl_update (\<lambda>r. ws_id r = sid)
        (\<lambda>s. s\<lparr>ws_expires_at := min (now + idle) (ws_created_at r + absolute)\<rparr>) (web_sessions d)\<rparr>"
  from assms Some have "d' = ?t \<or> d' = d" "users_find_by_id d (ws_user_id r) = Some u"
    by (simp_all add: load_and_touch_def Let_def split: if_split_asm) blast+
  with Some show ?thesis by blast
qed

lemma maybe_user_isolated:
  assumes "web_isolated (u_id u) base st" "maybe_user now cfg (ap_db st) jar = (d, Some u)"
  shows "web_isolated (u_id u) base (st\<lparr>ap_db := d\<rparr>)"
proof -
  from assms(2) obtain sid where "load_and_touch now (ap_db st) sid (session_idle_ttl_secs cfg) (session_absolute_ttl_secs cfg) = (d, Some u)"
    by (auto simp: maybe_user_def split: option.splits)
  from load_and_touch_Some[OF this] obtain r x where r: "find_session (ap_db st) sid = Some r"
    and u: "users_find_by_id (ap_db st) (ws_user_id r) = Some u"
    and d: "d = ap_db st \<or> d = (ap_db st)\<lparr>web_sessions := tbl_update (\<lambda>r. ws_id r = sid) (\<lambda>r. r\<lparr>ws_expires_at := x\<rparr>) (web_sessions (ap_db st))\<rparr>"
    by blast
  from u have own: "ws_user_id r = u_id u" by (auto simp: users_find_by_id_def dest: find_SomeD)
  have dist: "distinct (map ws_id (web_sessions (ap_db st)))" using assms(1) by (simp add: web_isolated_def)
  let ?t = "tbl_update (\<lambda>r. ws_id r = sid) (\<lambda>r. r\<lparr>ws_expires_at := x\<rparr>) (web_sessions (ap_db st))"
  have "map ws_id ?t = map ws_id (web_sessions (ap_db st))" by (simp add: tbl_update_def comp_def)
  moreover have "filter (\<lambda>r. ws_user_id r \<noteq> u_id u) ?t = filter (\<lambda>r. ws_user_id r \<noteq> u_id u) (web_sessions (ap_db st))"
    by (rule filter_update_other) (use find_session_owner[OF dist r] own in auto)
  ultimately have "web_isolated (u_id u) base (st\<lparr>ap_db := (ap_db st)\<lparr>web_sessions := ?t\<rparr>\<rparr>)"
    using dist by (intro hidden_change(1)[OF assms(1)]) simp_all
  with d assms(1) show ?thesis by auto
qed

lemma auth_user_maybe: "auth_user now cfg d jar = (d', Inr u) \<longleftrightarrow> maybe_user now cfg d jar = (d', Some u)"
  by (auto simp: auth_user_def split: prod.split option.split)

lemma serve_isolated:
  assumes "web_isolated (u_id u) base st" "snd (auth_user (wv_now wv) (wv_cfg wv) (ap_db st) (wr_jar rq)) = Inr u"
    and "\<And>f. r = Post f \<Longrightarrow> \<not> admin_form f"
  shows "web_isolated (u_id u) base (fst (serve wv rq r st))"
proof -
  from assms(2) obtain d where a: "auth_user (wv_now wv) (wv_cfg wv) (ap_db st) (wr_jar rq) = (d, Inr u)" by (metis prod.collapse)
  then have m: "maybe_user (wv_now wv) (wv_cfg wv) (ap_db st) (wr_jar rq) = (d, Some u)" by (simp add: auth_user_maybe)
  from maybe_user_isolated[OF assms(1) m] have i: "web_isolated (u_id u) base (st\<lparr>ap_db := d\<rparr>)" .
  show ?thesis
  proof (cases r)
    case (Post f)
    from post_isolated[OF assms(3)[OF Post]] i have "web_isolated (u_id u) base (fst (post_handler wv u rq f (st\<lparr>ap_db := d\<rparr>)))"
      by (simp add: keeps_def)
    with a Post show ?thesis by (auto simp: answer_def split: prod.split sum.split)
  qed (use a m i assms(1) in auto)
qed

text \<open>C7: tenant isolation on the web. Whatever page a signed-in user requests and whatever form the
  user submits, the administration forms apart, nothing of another user changes: no server, secret,
  configuration file, token, label, group, git credential, passkey or browser session of another
  user, no account, invite or key, and no runtime state of another user's servers. (The backend
  denials of credentials are left out of the view: the form that revokes a token clears them for
  whatever token it names.)\<close>

theorem web_tenant_isolation:
  assumes "ids_unique (ap_db st)" "distinct (map ws_id (web_sessions (ap_db st)))"
    and "snd (auth_user (wv_now wv) (wv_cfg wv) (ap_db st) (wr_jar rq)) = Inr u"
    and "\<And>f. r = Post f \<Longrightarrow> \<not> admin_form f"
  shows "web_others (u_id u) (fst (serve wv rq r st)) = web_others (u_id u) st \<and>
    ids_unique (ap_db (fst (serve wv rq r st))) \<and> distinct (map ws_id (web_sessions (ap_db (fst (serve wv rq r st)))))"
proof -
  have "web_isolated (u_id u) (web_others (u_id u) st) st" using assms(1,2) by (simp add: web_isolated_def)
  from serve_isolated[OF this assms(3,4)] show ?thesis by (simp add: web_isolated_def)
qed

section \<open>Passkeys\<close>

definition creds_are :: "cred_row table \<Rightarrow> app_state \<Rightarrow> bool" where
  "creds_are c st \<longleftrightarrow> ids_unique (ap_db st) \<and> webauthn_credentials (ap_db st) = c"

definition keeps_creds :: "('e, 'a) handler \<Rightarrow> bool" where
  "keeps_creds m \<longleftrightarrow>
     (\<forall>st. ids_unique (ap_db st) \<longrightarrow> webauthn_credentials (ap_db (fst (m st))) = webauthn_credentials (ap_db st))"

lemma isolated_creds:
  assumes "\<And>b. keeps (isolated u b) m (\<lambda>_. True)"
  shows "keeps_creds m"
  unfolding keeps_creds_def
proof (intro allI impI)
  fix st :: app_state assume "ids_unique (ap_db st)"
  then have "isolated u (others u st) st" by (simp add: isolated_def)
  with assms have "others u (fst (m st)) = others u st" by (simp add: keeps_def isolated_def)
  then have "webauthn_credentials (ap_db (others u (fst (m st)))) = webauthn_credentials (ap_db (others u st))" by simp
  then show "webauthn_credentials (ap_db (fst (m st))) = webauthn_credentials (ap_db st)" by (simp add: others_def others_db_def)
qed

abbreviation "same_creds c \<equiv> (\<lambda>st. webauthn_credentials (ap_db st) = c)"

lemma same_creds_keeps: "(\<And>c. keeps (same_creds c) m (\<lambda>_. True)) \<Longrightarrow> keeps_creds m"
  by (auto simp: keeps_def keeps_creds_def)

lemma same_creds_steps [keeps_intros]:
  "keeps (same_creds c) (audit_ok a user rq ob) (\<lambda>_. True)" "keeps (same_creds c) (audit_denied a user rq ob re) (\<lambda>_. True)"
  by (simp_all add: keeps_def audit_ok_def audit_denied_def m_modify_def emit_def)

lemma same_creds_guards [keeps_intros]:
  "keeps (same_creds c) (require_csrf wv a user rq ob t) (\<lambda>_. True)"
  "keeps (same_creds c) (require_csrf_unlogged wv rq t) (\<lambda>_. True)"
  "keeps (same_creds c) (require_admin_page wv a user rq ob) (\<lambda>_. True)"
  unfolding require_csrf_def require_csrf_unlogged_def require_admin_page_def by (intro keeps_intros)+

lemma same_creds_stmt: "(\<And>d. webauthn_credentials (f d) = webauthn_credentials d) \<Longrightarrow> keeps (same_creds c) (w_stmt f) (\<lambda>_. True)"
  by (simp add: keeps_def w_stmt_def m_modify_def)

lemma same_creds_db:
  "(\<And>d d' x. f d = Inr (d', x) \<Longrightarrow> webauthn_credentials d' = webauthn_credentials d) \<Longrightarrow> keeps (same_creds c) (w_db wv p f) (\<lambda>_. True)"
  unfolding w_db_def by (rule keeps_db) (auto simp: map_sum_Inr_iff)

lemma invite_creds: "insert_invite e d r = Inr d' \<Longrightarrow> webauthn_credentials d' = webauthn_credentials d"
  by (auto simp: insert_invite_def split: if_splits)

lemma creds_target: "keeps (same_creds c) (resolve_admin_target wv a user rq t h) (\<lambda>_. True)"
  unfolding resolve_admin_target_def by (intro keeps_intros)

fun removes_passkeys :: "post_form \<Rightarrow> bool" where
  "removes_passkeys (RemovePasskey c i) = True"
| "removes_passkeys (DeleteUser c h) = True"
| "removes_passkeys _ = False"

lemma post_keeps_creds:
  assumes "\<not> removes_passkeys f"
  shows "keeps_creds (post_handler wv u rq f)"
proof -
  have sessions: "keeps_creds (revoke_other_sessions wv u rq c)" for c
    unfolding revoke_other_sessions_def
    by (intro same_creds_keeps keeps_intros same_creds_stmt) (simp add: delete_others_def Let_def)
  have denials: "keeps_creds (update_connection_access wv u rq g)" "keeps_creds (update_token_access wv u rq g)" for g
    unfolding update_connection_access_def update_token_access_def w_set_denials_def Let_def
    by (intro same_creds_keeps keeps_intros same_creds_stmt; simp add: set_denials_def)+
  have revoke: "keeps_creds (web_revoke_token wv u rq c t)" for c t unfolding web_revoke_token_def Let_def
    by (intro same_creds_keeps keeps_intros same_creds_stmt; simp add: tokens_revoke_def clear_for_credential_def Let_def)
  have invite: "keeps_creds (web_create_invite wv u rq c n)" "keeps_creds (web_create_recovery wv u rq c n)"
    "keeps_creds (web_revoke_invite wv u rq c n)" for c n
    unfolding web_create_invite_def web_create_recovery_def web_revoke_invite_def
    by (intro same_creds_keeps keeps_intros same_creds_stmt same_creds_db;
        auto simp: invites_create_def create_recovery_def invites_revoke_def Let_def dest: invite_creds split: sum.splits)+
  have key: "keeps (same_creds c) (\<lambda>st. case regenerate_key sb rn nn now (ap_db st) (ap_metrics_key st) of
      (d, key, r) \<Rightarrow> (st\<lparr>ap_db := d, ap_metrics_key := key\<rparr>, Inr r)) (\<lambda>_. True)" for c sb rn nn now
    by (auto simp: keeps_def regenerate_key_def store_key_def rbind_def Let_def split: sum.splits prod.splits)
  have "keeps_creds (regenerate_metrics_key wv u rq c)" for c
    unfolding regenerate_metrics_key_def by (intro same_creds_keeps keeps_intros key)
  moreover have "keeps (same_creds c) (m_modify (\<lambda>st. deactivate_user st v)) (\<lambda>_. True)" for c v
    by (simp add: keeps_def m_modify_def deactivate_user_def revoke_all_for_user_def revoke_all_user_tokens_def
        delete_all_for_user_def set_disabled_def Let_def)
  then have "keeps_creds (web_disable_user wv u rq c h)" for c h
    unfolding web_disable_user_def by (intro same_creds_keeps keeps_intros creds_target)
  moreover have "keeps_creds (web_enable_user wv u rq c h)" for c h
    unfolding web_enable_user_def
    by (intro same_creds_keeps keeps_intros creds_target same_creds_stmt) (simp add: set_disabled_def)
  moreover have "keeps_creds (post_handler wv u rq f)" if "own_form f"
    using post_own[OF that] by (rule isolated_creds)
  ultimately show ?thesis
    using assms sessions denials revoke invite by (cases f) simp_all
qed

lemma distinct_key_once: "distinct (map k t) \<Longrightarrow> length (filter (\<lambda>r. k r = j) t) \<le> 1"
  by (induction t) (auto simp: filter_empty_conv image_iff)

lemma remove_passkey_count:
  assumes "distinct (map wc_id (webauthn_credentials (ap_db st)))" "0 < count_credentials (ap_db st) v"
  shows "0 < count_credentials (ap_db (fst (remove_passkey wv user rq c i st))) v"
proof -
  let ?d = "ap_db st" and ?j = "trim i"
  have one: "0 < count_credentials (fst (delete_credential ?d (u_id user) ?j)) v" if two: "1 < count_credentials ?d (u_id user)"
  proof (cases "v = u_id user")
    case True
    let ?mine = "filter (\<lambda>r. wc_user_id r = v) (webauthn_credentials ?d)"
    have "distinct (map wc_id ?mine)" using assms(1) by (rule distinct_map_filter)
    then have "length (filter (\<lambda>r. wc_id r = ?j) ?mine) \<le> 1" by (rule distinct_key_once)
    moreover have "length (filter (\<lambda>r. wc_id r = ?j) ?mine) + length (filter (\<lambda>r. wc_id r \<noteq> ?j) ?mine) = length ?mine"
      by (rule sum_length_filter_compl)
    moreover have "1 < length ?mine" using two True by (simp add: count_credentials_def tbl_count_def)
    ultimately have "0 < length (filter (\<lambda>r. wc_id r \<noteq> ?j) ?mine)" by linarith
    then show ?thesis using True
      by (simp add: count_credentials_def tbl_count_def delete_credential_def tbl_delete_def Let_def conj_commute)
         (metis (mono_tags, lifting) filter_cong)
  next
    case False
    have "filter (\<lambda>r. wc_user_id r = v) (tbl_delete (\<lambda>r. wc_id r = ?j \<and> wc_user_id r = u_id user) (webauthn_credentials ?d)) =
        filter (\<lambda>r. wc_user_id r = v) (webauthn_credentials ?d)"
      by (rule filter_delete_other) (use False in auto)
    with assms(2) show ?thesis by (simp add: count_credentials_def tbl_count_def delete_credential_def Let_def)
  qed
  show ?thesis
    using assms(2) one
    by (auto simp: remove_passkey_def require_csrf_def m_bind_def m_return_def m_get_def audit_denied_def audit_ok_def m_modify_def emit_def
        w_exit_def w_error_def m_fail_def w_stmt_def not_le)
qed

text \<open>C22: an account keeps a passkey. No form that anyone submits, the deletion of an account apart,
  takes the last passkey of any user.\<close>

theorem last_passkey_kept:
  assumes "ids_unique (ap_db st)" "distinct (map wc_id (webauthn_credentials (ap_db st)))"
    and "0 < count_credentials (ap_db st) v" "\<And>c h. f \<noteq> DeleteUser c h"
  shows "0 < count_credentials (ap_db (fst (serve wv rq (Post f) st))) v"
proof -
  obtain d x where a: "auth_user (wv_now wv) (wv_cfg wv) (ap_db st) (wr_jar rq) = (d, x)" by fastforce
  with auth_user_db obtain ws where d: "d = (ap_db st)\<lparr>web_sessions := ws\<rparr>" by (metis fst_conv)
  have ids: "ids_unique d" "webauthn_credentials d = webauthn_credentials (ap_db st)"
    using assms(1) by (simp_all add: d ids_unique_def)
  have count: "count_credentials d' v = count_credentials (ap_db st) v" if "webauthn_credentials d' = webauthn_credentials (ap_db st)" for d'
    using that by (simp add: count_credentials_def)
  show ?thesis
  proof (cases x)
    case (Inl loc)
    with a have "ap_db (fst (serve wv rq (Post f) st)) = d" by simp
    with count[OF ids(2)] assms(3) show ?thesis by (simp only:)
  next
    case (Inr u)
    have ans: "fst (answer p) = fst p" for p by (cases p) (auto simp: answer_def split: sum.split)
    have "0 < count_credentials (ap_db (fst (post_handler wv u rq f (st\<lparr>ap_db := d\<rparr>)))) v"
    proof (cases "removes_passkeys f")
      case True
      with assms(4) obtain c i where "f = RemovePasskey c i" by (cases f) auto
      moreover have "0 < count_credentials d v" using count[OF ids(2)] assms(3) by (simp only:)
      ultimately show ?thesis using remove_passkey_count[of "st\<lparr>ap_db := d\<rparr>" v] ids(2) assms(2) by simp
    next
      case False
      from post_keeps_creds[OF this] ids have "webauthn_credentials (ap_db (fst (post_handler wv u rq f (st\<lparr>ap_db := d\<rparr>)))) = webauthn_credentials (ap_db st)"
        by (simp add: keeps_creds_def)
      from count[OF this] assms(3) show ?thesis by (simp only:)
    qed
    with a Inr ans show ?thesis by simp
  qed
qed

section \<open>Pages and their contents\<close>

text \<open>A handler whose early answers are safe pages, and one whose answers all are.\<close>

definition exits_safe :: "'a web \<Rightarrow> bool" where
  "exits_safe m \<longleftrightarrow> (\<forall>st r. snd (m st) = Inl (Some r) \<longrightarrow> safe (rp_body r))"

definition ends_safe :: "response web \<Rightarrow> bool" where
  "ends_safe m \<longleftrightarrow> exits_safe m \<and> (\<forall>st r. snd (m st) = Inr r \<longrightarrow> safe (rp_body r))"

named_theorems end_intros \<open>handlers that answer with safe pages\<close>

lemma snd_bind:
  "snd (m_bind m f st) = (case m st of (st', Inl e) \<Rightarrow> Inl e | (st', Inr x) \<Rightarrow> snd (f x st'))"
  by (simp add: m_bind_def split: prod.split sum.split)

lemma safe_bind [end_intros]:
  "exits_safe m \<Longrightarrow> (\<And>x. exits_safe (f x)) \<Longrightarrow> exits_safe (m_bind m f)"
  "exits_safe m \<Longrightarrow> (\<And>x. ends_safe (g x)) \<Longrightarrow> ends_safe (m_bind m g)"
  by (auto simp: exits_safe_def ends_safe_def snd_bind split: prod.splits sum.splits) (metis snd_conv)+

lemma safe_control [end_intros]:
  "exits_safe a \<Longrightarrow> exits_safe b \<Longrightarrow> exits_safe (if c then a else b)"
  "ends_safe a' \<Longrightarrow> ends_safe b' \<Longrightarrow> ends_safe (if c then a' else b')"
  "(\<And>x y. exits_safe (p x y)) \<Longrightarrow> exits_safe (case z of (x, y) \<Rightarrow> p x y)"
  "(\<And>x y. ends_safe (q x y)) \<Longrightarrow> ends_safe (case z of (x, y) \<Rightarrow> q x y)"
  "(\<And>e. exits_safe (h e)) \<Longrightarrow> (\<And>x. exits_safe (k x)) \<Longrightarrow> exits_safe (case w of Inl e \<Rightarrow> h e | Inr x \<Rightarrow> k x)"
  "(\<And>e. ends_safe (h' e)) \<Longrightarrow> (\<And>x. ends_safe (k' x)) \<Longrightarrow> ends_safe (case w of Inl e \<Rightarrow> h' e | Inr x \<Rightarrow> k' x)"
  "exits_safe n \<Longrightarrow> (\<And>x. exits_safe (s x)) \<Longrightarrow> exits_safe (case v of None \<Rightarrow> n | Some x \<Rightarrow> s x)"
  by (auto split: prod.split sum.split option.split)

lemma safe_steps [end_intros]:
  "exits_safe (m_return x)" "exits_safe (m_get f)" "exits_safe (m_modify g)" "exits_safe (w_stmt h)"
  "exits_safe (audit_ok a user rq ob)" "exits_safe (audit_denied a user rq ob re)"
  "exits_safe (w_build wv inst def sb)" "exits_safe (w_sandbox wv v)" "exits_safe (probe_instance wv v inst)"
  "safe (rp_body r) \<Longrightarrow> ends_safe (m_return r)" "safe (rp_body r) \<Longrightarrow> exits_safe (w_exit r)" "safe (rp_body r) \<Longrightarrow> ends_safe (w_exit r)"
  by (auto simp: exits_safe_def ends_safe_def m_return_def m_get_def m_modify_def w_stmt_def audit_ok_def audit_denied_def w_build_def
      w_sandbox_def probe_instance_def w_exit_def m_fail_def split: prod.splits sum.splits option.splits)

lemma safe_errors [end_intros]:
  assumes "web_ok wv"
  shows "exits_safe (w_error wv msg)" "ends_safe (w_error wv msg)" "exits_safe (w_res wv x)" "exits_safe (w_opt wv msg y)"
    "exits_safe (w_db wv p f)"
proof -
  note page = safe_answers(2)[OF web_ok_site[OF assms]]
  show e: "exits_safe (w_error wv msg)" for msg unfolding w_error_def by (intro end_intros page)
  show "ends_safe (w_error wv msg)" unfolding w_error_def by (intro end_intros page)
  show "exits_safe (w_res wv x)" "exits_safe (w_opt wv msg y)" unfolding w_res_def w_opt_def by (intro end_intros e)+
  show "exits_safe (w_db wv p f)"
    by (auto simp: exits_safe_def w_db_def m_db_def page split: sum.splits prod.splits)
       (metis map_sum.simps(1) map_sum.simps(2) old.sum.exhaust option.inject page sum.distinct(1) sum.inject(1))
qed

lemma safe_guards [end_intros]:
  assumes "web_ok wv"
  shows "exits_safe (require_csrf wv a user rq ob c)" "exits_safe (require_csrf_unlogged wv rq c)"
    "exits_safe (require_admin_page wv a user rq ob)" "exits_safe (find_server wv user i)"
    "exits_safe (resolve_admin_target wv a user rq c h)"
proof -
  note pages = safe_answers[OF web_ok_site[OF assms]]
  show csrf: "exits_safe (require_csrf wv a user rq ob c)" for ob
    unfolding require_csrf_def by (intro end_intros pages)
  show "exits_safe (require_csrf_unlogged wv rq c)" unfolding require_csrf_unlogged_def by (intro end_intros pages)
  show admin: "exits_safe (require_admin_page wv a user rq ob)" for ob
    unfolding require_admin_page_def by (intro end_intros pages)
  show "exits_safe (find_server wv user i)" unfolding find_server_def by (intro end_intros assms)
  show "exits_safe (resolve_admin_target wv a user rq c h)" unfolding resolve_admin_target_def
    by (intro end_intros assms admin csrf)
qed

lemma safe_bodies [end_intros]:
  "safe (rp_body (server_page i))" "safe (rp_body account)"
  by (simp_all add: server_page_def account_def)

lemma safe_secret_pages [end_intros]:
  assumes "web_ok wv"
  shows "inert title \<Longrightarrow> safe intro_part \<Longrightarrow> safe outro \<Longrightarrow> safe (rp_body (code_page wv title intro_part plain outro))"
    "safe (rp_body (token_page wv name days plain))"
proof -
  note parts = safe_html_page safe_page web_ok_site[OF assms] safe_shape safe_copy
  show "safe (rp_body (code_page wv title intro_part plain outro))" if "inert title" "safe intro_part" "safe outro"
    unfolding code_page_def by (intro parts that) (simp_all add: safe_def that)
  show "safe (rp_body (token_page wv name days plain))" unfolding token_page_def by (intro parts) (simp_all add: safe_def)
qed

lemma safe_server_steps [end_intros]:
  assumes "web_ok wv"
  shows "exits_safe (w_replace_env wv i env)" "exits_safe (apply_config_file wv i c)" "exits_safe (probe_and_record wv a user rq inst)"
    "ends_safe (set_enabled_and_redirect wv user rq i b)" "exits_safe (w_set_denials wv user ty cid f)"
  unfolding w_replace_env_def apply_config_file_def probe_and_record_def set_enabled_and_redirect_def w_set_denials_def
  by (intro end_intros assms)+

lemma post_ends_safe:
  assumes ok: "web_ok wv"
  shows "ends_safe (post_handler wv u rq f)"
proof -
  have upsert: "exits_safe (\<lambda>st. case F st of (d, r) \<Rightarrow> (st\<lparr>ap_db := d\<rparr>, Inr r))" for F :: "app_state \<Rightarrow> db \<times> 'x"
    by (simp add: exits_safe_def split: prod.split)
  have key: "exits_safe (\<lambda>st. case F st of (d, k, r) \<Rightarrow> (st\<lparr>ap_db := d, ap_metrics_key := k\<rparr>, Inr r))"
    for F :: "app_state \<Rightarrow> db \<times> string \<times> 'x" by (simp add: exits_safe_def split: prod.split)
  show ?thesis
    by (cases f; simp only: post_handler.simps;
        (unfold server_handlers account_handlers web_create_invite_def web_create_recovery_def web_revoke_invite_def
           regenerate_metrics_key_def web_disable_user_def web_enable_user_def web_delete_user_def Let_def)?;
        intro end_intros upsert key ok safe_redirect; simp add: safe_def)
qed

lemma safe_server_pages:
  assumes ok: "web_ok wv" and name: "\<And>inst. get_owned (ap_db st) i (u_id user) = Some inst \<Longrightarrow> inert (i_display_name inst)"
  shows "safe (rp_body (server_detail wv st user jar i))" "safe (rp_body (server_capabilities wv st user jar i))"
proof -
  note parts = safe_html_page safe_page web_ok_site[OF ok] safe_shape safe_csrf[OF ok] safe_csrf_parts safe_server_parts safe_server_tabs
    safe_runtime_banner safe_argv_secret_banner safe_server_fields safe_render_snapshot
  have err: "safe (rp_body (error_page (wv_site wv) msg))" for msg by (rule safe_answers(2)[OF web_ok_site[OF ok]])
  show "safe (rp_body (server_detail wv st user jar i))"
  proof (cases "get_owned (ap_db st) i (u_id user)")
    case (Some inst)
    from name[OF Some] show ?thesis
    proof (cases "resolve_def inst")
      case (Inr def)
      show ?thesis unfolding server_detail_def Let_def Some Inr option.case sum.case
        by (intro parts name[OF Some]) (simp_all add: safe_def)
    qed (simp add: server_detail_def Some err)
  qed (simp add: server_detail_def err)
  show "safe (rp_body (server_capabilities wv st user jar i))"
  proof (cases "get_owned (ap_db st) i (u_id user)")
    case (Some inst)
    from name[OF Some] show ?thesis
    proof (cases "resolve_def inst")
      case (Inr def)
      show ?thesis unfolding server_capabilities_def Let_def Some Inr option.case sum.case
        by (intro parts name[OF Some]) (simp_all add: safe_def)
    qed (simp add: server_capabilities_def Some err)
  qed (simp add: server_capabilities_def err)
qed

lemma serve_safe:
  assumes ok: "web_ok wv" and s: "serve wv rq r st = (st', Some out)"
    and names: "\<And>i inst. r = Get (ServerDetail i) \<or> r = Get (ServerCapabilities i) \<Longrightarrow> inst \<in> set (user_server_instances (ap_db st)) \<Longrightarrow>
      inert (i_display_name inst)"
  shows "safe (rp_body out)"
proof (cases r)
  case (Get p)
  obtain d x where a: "auth_user (wv_now wv) (wv_cfg wv) (ap_db st) (wr_jar rq) = (d, x)" by fastforce
  with auth_user_db obtain ws where d: "d = (ap_db st)\<lparr>web_sessions := ws\<rparr>" by (metis fst_conv)
  have own: "inert (i_display_name inst)" if "r = Get (ServerDetail i) \<or> r = Get (ServerCapabilities i)"
    "get_owned (ap_db (st\<lparr>ap_db := d\<rparr>)) i u = Some inst" for i u inst
    using names[OF that(1), of inst] get_owned_SomeD[OF that(2)] by (simp add: d)
  have "safe (rp_body (get_response wv u rq p (st\<lparr>ap_db := d\<rparr>)))" for u
    by (cases p) (auto simp: ok Get safe_dashboard safe_new_server safe_invites_page safe_users_page safe_stats_page safe_account_page
        intro!: safe_server_pages own)
  with s Get a show ?thesis by (cases x) auto
next
  case (Post f)
  obtain d x where a: "auth_user (wv_now wv) (wv_cfg wv) (ap_db st) (wr_jar rq) = (d, x)" by fastforce
  with s Post post_ends_safe[OF ok] show ?thesis
    by (cases x) (auto simp: answer_def ends_safe_def exits_safe_def split: prod.splits sum.splits, (metis snd_conv)+)
next
  case (Open p)
  have "safe (rp_body (open_response wv u p))" for u
    by (cases p) (simp_all add: ok safe_sign_in logout_get_def)
  with s Open show ?thesis by (auto split: prod.splits)
qed


text \<open>The display name of a server is written into the title of its pages without escaping: the
  tags in the name become tags of the page. Any text is accepted as a display name.\<close>

theorem display_name_injects_markup:
  assumes "get_owned (ap_db st) i (u_id user) = Some inst" "resolve_def inst = Inr def"
  shows "\<exists>pre post. render (rp_body (server_detail wv st user jar i)) = pre @ i_display_name inst @ post \<and> foldl step Txt pre = Txt \<and>
    markup Txt (render (rp_body (server_detail wv st user jar i))) =
      markup Txt pre @ markup Txt (i_display_name inst) @ markup (foldl step Txt (i_display_name inst)) post"
proof -
  have "\<exists>si body. rp_body (server_detail wv st user jar i) = page_with si (i_display_name inst) body ''card wide''"
    unfolding server_detail_def Let_def assms option.case sum.case html_page_def page_wide_def response.simps by blast
  then obtain si body where "rp_body (server_detail wv st user jar i) = page_with si (i_display_name inst) body ''card wide''" by blast
  then show ?thesis using title_raw[of si "i_display_name inst" body] by simp
qed

section \<open>A hub to try the pages on\<close>

text \<open>Two users with a browser session each; \<^emph>\<open>bob\<close> (u2) has two passkeys. The request token of every session
  is \<^emph>\<open>tok\<close>.\<close>

definition demo_wv :: web_env where
  "demo_wv = \<lparr>wv_hv = demo_hv, wv_site = \<lparr>si_asset_ver = ''a1'', si_source_url = ''https://x'', si_version = ''1''\<rparr>,
     wv_b64url = (\<lambda>_. ''tok''), wv_sha256 = id, wv_shlex_join = (\<lambda>_. None), wv_snapshot = (\<lambda>_. None), wv_pretty = (\<lambda>_. []),
     wv_resolve = (\<lambda>_. None),
     wv_launcher = \<lparr>ln_stdio = (\<lambda>_. Inl ''no such file''), ln_http = (\<lambda>_. Hang), ln_stderr = (\<lambda>_. None), ln_header_ok = (\<lambda>_. True),
       ln_peer = (\<lambda>_. \<lparr>pe_info = None, pe_list_tools = Hang, pe_list_resources = Hang, pe_list_templates = Hang, pe_list_prompts = Hang,
         pe_call_tool = (\<lambda>_ _. Hang), pe_read_resource = (\<lambda>_. Hang), pe_get_prompt = (\<lambda>_ _. Hang)\<rparr>)\<rparr>,
     wv_store_snapshot = (\<lambda>_. [])\<rparr>"

definition demo_rq :: "string \<Rightarrow> web_request" where
  "demo_rq sid = \<lparr>wr_jar = (\<lambda>k. if k = SESSION_COOKIE then Some sid else None), wr_headers = (\<lambda>_. None)\<rparr>"

definition mk_cred :: "string \<Rightarrow> string \<Rightarrow> cred_row" where
  "mk_cred i u = \<lparr>wc_id = i, wc_user_id = u, wc_credential_id = i, wc_passkey = [], wc_name = [], wc_created_at = 0,
     wc_last_used_at = None, wc_last_ip = None, wc_last_user_agent = None\<rparr>"

definition mk_session :: "string \<Rightarrow> string \<Rightarrow> session_row" where
  "mk_session i u = \<lparr>ws_id = i, ws_user_id = u, ws_created_at = 0, ws_expires_at = 100, ws_last_ip = None, ws_last_user_agent = None\<rparr>"

definition demo_web :: app_state where
  "demo_web = demo_app\<lparr>ap_db := group_demo_db\<lparr>web_sessions := [mk_session ''s1'' ''u1'', mk_session ''s2'' ''u2''],
     webauthn_credentials := [mk_cred ''k1'' ''u2'', mk_cred ''k2'' ''u2'']\<rparr>\<rparr>"

lemmas demo_web_simps = demo_web_def demo_app_def demo_wv_def demo_hv_def demo_cfg_def demo_rq_def mk_session_def mk_cred_def group_demo_simps

lemma demo_web_auth:
  "snd (auth_user (wv_now demo_wv) (wv_cfg demo_wv) (ap_db demo_web) (wr_jar (demo_rq ''s2''))) = Inr (users group_demo_db ! 1)"
  by code_simp

lemma demo_web_ids:
  "ids_unique (ap_db demo_web)" "distinct (map ws_id (web_sessions (ap_db demo_web)))"
  "distinct (map wc_id (webauthn_credentials (ap_db demo_web)))"
  by (simp_all add: ids_unique_def demo_web_simps)

lemma demo_csrf: "csrf_for (wv_b64url demo_wv) (wv_sha256 demo_wv) (wr_jar (demo_rq s)) k = Some ''tok''"
  by (simp add: demo_web_simps csrf_for_def current_session_id_def csrf_token_def)

lemma demo_web_ok: "web_ok demo_wv"
  by (simp add: web_ok_def site_ok_def demo_wv_def)

theorem csrf_required_witness:
  "user_server_instances (ap_db (fst (serve demo_wv (demo_rq ''s2'') (Post (DeleteServer ''i2'' ''bad'')) demo_web))) =
     user_server_instances (ap_db demo_web) \<and>
   user_server_instances (ap_db (fst (serve demo_wv (demo_rq ''s2'') (Post (DeleteServer ''i2'' ''tok'')) demo_web))) =
     [mk_inst ''i1'' ''u1'' ''zabbix'']"
proof
  obtain ws log r where "serve demo_wv (demo_rq ''s2'') (Post (DeleteServer ''i2'' ''bad'')) demo_web =
      (demo_web\<lparr>ap_db := (ap_db demo_web)\<lparr>web_sessions := ws\<rparr>, ap_audit := ap_audit demo_web @ log\<rparr>, Some r)"
    using csrf_required[of demo_wv "demo_rq ''s2''" "DeleteServer ''i2'' ''bad''" demo_web] by (auto simp: demo_csrf)
  then show "user_server_instances (ap_db (fst (serve demo_wv (demo_rq ''s2'') (Post (DeleteServer ''i2'' ''bad'')) demo_web))) =
     user_server_instances (ap_db demo_web)" by simp
  show "user_server_instances (ap_db (fst (serve demo_wv (demo_rq ''s2'') (Post (DeleteServer ''i2'' ''tok'')) demo_web))) =
     [mk_inst ''i1'' ''u1'' ''zabbix'']" by code_simp
qed

theorem admin_pages_closed_witness:
  "snd (serve demo_wv (demo_rq ''s2'') (Get UsersPage) demo_web) = Some (admin_forbidden (wv_site demo_wv)) \<and>
   users (ap_db (fst (serve demo_wv (demo_rq ''s2'') (Post (DisableUser ''tok'' ''ann'')) demo_web))) = users group_demo_db"
proof -
  have "\<not> u_is_admin (users group_demo_db ! 1)" by (simp add: group_demo_simps)
  from admin_pages_closed[OF demo_web_auth this, of UsersPage "DisableUser ''tok'' ''ann''"]
  show ?thesis by (auto simp: demo_web_def simp del: serve.simps)
qed

theorem web_tenant_isolation_witness:
  "web_others ''u2'' (fst (serve demo_wv (demo_rq ''s2'') (Post (DeleteServer ''i2'' ''tok'')) demo_web)) = web_others ''u2'' demo_web"
proof -
  have "u_id (users group_demo_db ! 1) = ''u2''" by (simp add: group_demo_simps)
  with web_tenant_isolation[OF demo_web_ids(1,2) demo_web_auth, of "Post (DeleteServer ''i2'' ''tok'')"] show ?thesis
    by (simp del: serve.simps)
qed

theorem last_passkey_kept_witness:
  "0 < count_credentials (ap_db (fst (serve demo_wv (demo_rq ''s2'') (Post (RemovePasskey ''tok'' ''k1'')) demo_web))) ''u2'' \<and>
   webauthn_credentials (ap_db (fst (serve demo_wv (demo_rq ''s2'') (Post (RemovePasskey ''tok'' ''k1'')) demo_web))) = [mk_cred ''k2'' ''u2'']"
proof
  have "0 < count_credentials (ap_db demo_web) ''u2''" by (simp add: count_credentials_def tbl_count_def demo_web_simps)
  from last_passkey_kept[OF demo_web_ids(1,3) this, of "RemovePasskey ''tok'' ''k1''"]
  show "0 < count_credentials (ap_db (fst (serve demo_wv (demo_rq ''s2'') (Post (RemovePasskey ''tok'' ''k1'')) demo_web))) ''u2''" by simp
  show "webauthn_credentials (ap_db (fst (serve demo_wv (demo_rq ''s2'') (Post (RemovePasskey ''tok'' ''k1'')) demo_web))) = [mk_cred ''k2'' ''u2'']"
    by code_simp
qed


definition named_inst :: inst_row where
  "named_inst = (mk_inst ''i2'' ''u2'' ''files'')\<lparr>i_display_name := ''</title><img>'',
     i_custom_def := Some \<lparr>sd_name = [], sd_description = [], sd_transport = ''stdio'', sd_command = Some ''x'', sd_args = [], sd_url = None,
       sd_runtime = [], sd_repo = None, sd_git_ref = None, sd_entry = None, sd_module = None, sd_connect_timeout_secs = None\<rparr>\<rparr>"

theorem display_name_injects_markup_witness:
  "let st = demo_web\<lparr>ap_db := (ap_db demo_web)\<lparr>user_server_instances := [named_inst]\<rparr>\<rparr>;
       out = server_detail demo_wv st (users group_demo_db ! 1) (wr_jar (demo_rq ''s2'')) ''i2'' in
   \<exists>pre post. render (rp_body out) = pre @ ''</title><img>'' @ post \<and> foldl step Txt pre = Txt \<and>
     markup Txt (render (rp_body out)) = markup Txt pre @ ''</title><img>'' @ markup Txt post"
proof -
  let ?st = "demo_web\<lparr>ap_db := (ap_db demo_web)\<lparr>user_server_instances := [named_inst]\<rparr>\<rparr>"
  have g: "get_owned (ap_db ?st) ''i2'' (u_id (users group_demo_db ! 1)) = Some named_inst"
    by (simp add: get_owned_def inst_get_def named_inst_def group_demo_simps)
  obtain def where d: "resolve_def named_inst = Inr def" by (simp add: resolve_def_def named_inst_def)
  have n: "i_display_name named_inst = ''</title><img>''" by (simp add: named_inst_def)
  have m: "markup Txt ''</title><img>'' = ''</title><img>''" "foldl step Txt ''</title><img>'' = Txt" by simp_all
  from display_name_injects_markup[OF g d, of demo_wv "wr_jar (demo_rq ''s2'')"] show ?thesis unfolding n m Let_def .
qed

end
