(* ===== verification/Hub_Web_Agreement.thy ===== *)
theory Hub_Web_Agreement
  imports Hub_Web_Safety
begin

text \<open>
  The forms of the web pages compared with the operations behind them: which denials the form
  that revokes a token clears, and that the buttons of a server's page and the management tools of
  the same name change the hub alike (src/src/web.rs against src/src/proxy/management.rs).
\<close>

section \<open>Backend denials\<close>

lemma post_run:
  assumes "auth_user (wv_now wv) (wv_cfg wv) (ap_db st) (wr_jar rq) = (d, Inr u)"
  shows "fst (serve wv rq (Post f) st) = fst (post_handler wv u rq f (st\<lparr>ap_db := d\<rparr>))"
  using assms by (auto simp: answer_def split: prod.split sum.split)

text \<open>The form that revokes a token clears the backend denials of the token it names, whoever owns
  it: a user who names another user's token does not revoke that token, but lifts every
  restriction its owner had put on it.\<close>

theorem revoked_token_lifts_denials:
  assumes "snd (auth_user (wv_now wv) (wv_cfg wv) (ap_db st) (wr_jar rq)) = Inr u" "csrf_ok wv rq c"
    and "t \<in> set (personal_access_tokens (ap_db st))" "pt_id t = trim tid" "pt_user_id t \<noteq> u_id u"
  shows "t \<in> set (personal_access_tokens (ap_db (fst (serve wv rq (Post (RevokeToken c tid)) st)))) \<and>
    denied_instances (ap_db (fst (serve wv rq (Post (RevokeToken c tid)) st))) PAT (pt_id t) = {}"
proof -
  from assms(1) obtain d where a: "auth_user (wv_now wv) (wv_cfg wv) (ap_db st) (wr_jar rq) = (d, Inr u)" by (metis prod.collapse)
  with auth_user_db obtain ws where d: "d = (ap_db st)\<lparr>web_sessions := ws\<rparr>" by (metis fst_conv)
  have "ap_db (fst (serve wv rq (Post (RevokeToken c tid)) st)) = clear_for_credential (fst (tokens_revoke d (u_id u) (trim tid))) PAT (trim tid)"
    unfolding post_run[OF a] using assms(2)
    by (simp add: web_revoke_token_def require_csrf_def Let_def m_bind_def m_return_def w_stmt_def m_modify_def audit_ok_def emit_def)
  with assms(3-5) show ?thesis
    by (auto simp: d clear_for_credential_def tokens_revoke_def denied_instances_def tbl_delete_def Let_def)
qed

definition restricted_web :: app_state where
  "restricted_web = demo_web\<lparr>ap_db := (ap_db demo_web)\<lparr>
     personal_access_tokens := [\<lparr>pt_id = ''t1'', pt_user_id = ''u1'', pt_token_hash = [], pt_name = ''ci'', pt_created_at = 0,
       pt_last_used_at = None, pt_expires_at = 99\<rparr>],
     credential_backend_denials := [\<lparr>cd_user_id = ''u1'', cd_credential_type = PAT, cd_credential_id = ''t1'',
       cd_instance_id = ''i1'', cd_created_at = 4\<rparr>]\<rparr>\<rparr>"

theorem revoked_token_lifts_denials_witness:
  "denied_instances (ap_db restricted_web) PAT ''t1'' = {''i1''} \<and>
   denied_instances (ap_db (fst (serve demo_wv (demo_rq ''s2'') (Post (RevokeToken ''tok'' ''t1'')) restricted_web))) PAT ''t1'' = {}"
proof -
  let ?t = "hd (personal_access_tokens (ap_db restricted_web))"
  have a: "snd (auth_user (wv_now demo_wv) (wv_cfg demo_wv) (ap_db restricted_web) (wr_jar (demo_rq ''s2''))) = Inr (users group_demo_db ! 1)"
    by code_simp
  have t: "?t \<in> set (personal_access_tokens (ap_db restricted_web))" "pt_id ?t = trim ''t1''" "pt_user_id ?t \<noteq> u_id (users group_demo_db ! 1)"
    "pt_id ?t = ''t1''"
    by (simp add: restricted_web_def, code_simp+)
  have "csrf_ok demo_wv (demo_rq ''s2'') ''tok''" by code_simp
  from revoked_token_lifts_denials[OF a this t(1-3)] show ?thesis
    unfolding t(4) by (simp add: denied_instances_def restricted_web_def del: serve.simps)
qed

section \<open>Pages and management tools\<close>

definition unlogged :: "app_state \<Rightarrow> app_state" where
  "unlogged st = st\<lparr>ap_audit := []\<rparr>"

lemma unlogged_emit [simp]: "unlogged (emit a b ev st) = unlogged st"
  by (simp add: unlogged_def emit_def)

lemma owned_by_namespace:
  assumes "keys_ok (ap_db st)" "get_owned (ap_db st) i u = Some inst" "i_namespace inst \<noteq> []"
  shows "m_bind (m_lift (req_str [(''namespace'', JStr (i_namespace inst))] ''namespace'')) (\<lambda>ns. m_bind (find_instance u ns) (f ns)) st =
    f (i_namespace inst) inst st"
proof -
  from get_owned_SomeD[OF assms(2)] have inst: "inst \<in> set (inst_list_for_user (ap_db st) u)" "i_user_id inst = u"
    by (auto simp: inst_list_for_user_def)
  obtain x where x: "List.find (\<lambda>i. i_namespace i = i_namespace inst) (inst_list_for_user (ap_db st) u) = Some x"
    using inst(1) by (cases "List.find (\<lambda>i. i_namespace i = i_namespace inst) (inst_list_for_user (ap_db st) u)") (auto simp: find_None_iff)
  from find_SomeD[OF x] have "x \<in> set (user_server_instances (ap_db st))" "i_user_id x = u" "i_namespace x = i_namespace inst"
    by (auto simp: inst_list_for_user_def)
  moreover have "inst \<in> set (user_server_instances (ap_db st))" using get_owned_SomeD[OF assms(2)] by blast
  moreover have "distinct (map (\<lambda>r. (i_user_id r, i_namespace r)) (user_server_instances (ap_db st)))"
    using assms(1) by (simp add: keys_ok_def)
  ultimately have "x = inst" using inst(2) by (intro distinct_key_eq[of "\<lambda>r. (i_user_id r, i_namespace r)"]) auto
  with x assms(3) show ?thesis
    by (simp add: m_bind_def m_lift_def req_str_def opt_str_def m_return_def find_instance_def m_get_def m_opt_def)
qed

lemma owned_by_page:
  assumes "csrf_ok wv rq c" "get_owned (ap_db st) i (u_id u) = Some inst"
  shows "m_bind (require_csrf wv a u rq ob c) (\<lambda>_. m_bind (find_server wv u i) g) st = g inst st"
  using assms by (simp add: m_bind_def require_csrf_def m_return_def find_server_def m_get_def w_opt_def)

text \<open>C21: the buttons of a server's page and the management tools of the same name do the same: with a
  valid request token, enabling, disabling, removing and rebuilding a server on the web leaves the
  hub in the state the tool called with the server's namespace leaves it in, the audit log apart.\<close>

theorem pages_agree_with_tools:
  assumes "csrf_ok wv rq c" "keys_ok (ap_db st)" "get_owned (ap_db st) i (u_id u) = Some inst" "i_namespace inst \<noteq> []"
    and "args = [(''namespace'', JStr (i_namespace inst))]"
  shows "unlogged (fst (post_handler wv u rq (EnableServer i c) st)) = unlogged (fst (mg_set_enabled (u_id u) args True st)) \<and>
    unlogged (fst (post_handler wv u rq (DisableServer i c) st)) = unlogged (fst (mg_set_enabled (u_id u) args False st)) \<and>
    unlogged (fst (post_handler wv u rq (DeleteServer i c) st)) = unlogged (fst (mg_remove (wv_hv wv) (u_id u) args st)) \<and>
    unlogged (fst (post_handler wv u rq (UpdateServer i c) st)) = unlogged (fst (mg_update_server (wv_hv wv) (u_id u) args st))"
proof -
  have i: "i_id inst = i" using get_owned_SomeD[OF assms(3)] by blast
  note page = owned_by_page[OF assms(1,3)] and tool = owned_by_namespace[OF assms(2-4)]
  note run = m_bind_def m_modify_def w_stmt_def m_db_def audit_ok_def audit_denied_def m_return_def
  have toggle: "unlogged (fst (m_bind (require_csrf wv a u rq i c) (\<lambda>_. set_enabled_and_redirect wv u rq i b) st)) =
      unlogged (fst (mg_set_enabled (u_id u) args b st))" for a b
    unfolding set_enabled_and_redirect_def page mg_set_enabled_def assms(5) tool by (simp add: run i)
  have "unlogged (fst (delete_server wv u rq i c st)) = unlogged (fst (mg_remove (wv_hv wv) (u_id u) args st))"
    unfolding delete_server_def mg_remove_def Let_def page assms(5) tool by (simp add: run i)
  moreover have "unlogged (fst (update_server wv u rq i c st)) = unlogged (fst (mg_update_server (wv_hv wv) (u_id u) args st))"
    unfolding update_server_def mg_update_server_def Let_def page assms(5) tool
    by (auto simp: run w_res_def w_error_def w_exit_def m_fail_def m_internal_def w_sandbox_def m_sandbox_def w_build_def m_update_instance_def
        split: sum.split prod.split)
  ultimately show ?thesis using toggle by (simp add: enable_server_def disable_server_def)
qed

theorem pages_agree_with_tools_witness:
  "unlogged (fst (post_handler demo_wv (users group_demo_db ! 1) (demo_rq ''s2'') (DisableServer ''i2'' ''tok'') demo_web)) =
     unlogged (fst (mg_set_enabled ''u2'' [(''namespace'', JStr ''files'')] False demo_web)) \<and>
   map i_enabled (user_server_instances (ap_db (fst (mg_set_enabled ''u2'' [(''namespace'', JStr ''files'')] False demo_web)))) = [True, False]"
proof
  let ?i = "mk_inst ''i2'' ''u2'' ''files''" and ?u = "users group_demo_db ! 1"
  have u: "u_id ?u = ''u2''" and n: "i_namespace ?i = ''files''" "i_namespace ?i \<noteq> []" by (simp_all add: group_demo_simps)
  have g: "get_owned (ap_db demo_web) ''i2'' (u_id ?u) = Some ?i" by (simp add: get_owned_def inst_get_def demo_web_simps)
  have k: "keys_ok (ap_db demo_web)" by (simp add: keys_ok_def demo_web_simps)
  have "csrf_ok demo_wv (demo_rq ''s2'') ''tok''" by code_simp
  from pages_agree_with_tools[OF this k g n(2) refl]
  show "unlogged (fst (post_handler demo_wv ?u (demo_rq ''s2'') (DisableServer ''i2'' ''tok'') demo_web)) =
     unlogged (fst (mg_set_enabled ''u2'' [(''namespace'', JStr ''files'')] False demo_web))" unfolding u n(1) by blast
  show "map i_enabled (user_server_instances (ap_db (fst (mg_set_enabled ''u2'' [(''namespace'', JStr ''files'')] False demo_web)))) = [True, False]"
    by code_simp
qed

end
