(* ===== verification/Hub_Migration.thy ===== *)
theory Hub_Migration
  imports Hub_Env
begin

text \<open>
  The one-time pass of \<^verbatim>\<open>src/instances.rs\<close> over servers that still point at the retired catalog
  (\<open>migrate_catalog_instances\<close>): the catalog row becomes the definition of the server, its plain
  configuration becomes encrypted variables that never overwrite a secret, and an override of the
  remote URL becomes the URL. The catalog table is an argument; \<open>fresh n\<close> is the identifier and the
  nonce of the \<open>n\<close>th secret the pass seals. Every statement commits on its own, so a pass that fails
  keeps what it did. The lemmas give the servers and the environments after the pass.
\<close>

record catalog_row =
  ct_id :: string
  ct_name :: string
  ct_description :: string
  ct_transport :: string
  ct_command :: "string option"
  ct_args :: "string list"
  ct_url :: "string option"
  ct_runtime :: string
  ct_repo :: "string option"
  ct_git_ref :: "string option"
  ct_entry :: "string option"
  ct_module :: "string option"

definition catalog_def :: "catalog_row \<Rightarrow> server_def" where
  "catalog_def c = normalized
     \<lparr>sd_name = ct_name c, sd_description = ct_description c, sd_transport = ct_transport c, sd_command = ct_command c,
      sd_args = ct_args c, sd_url = ct_url c, sd_runtime = ct_runtime c, sd_repo = ct_repo c, sd_git_ref = ct_git_ref c,
      sd_entry = ct_entry c, sd_module = ct_module c, sd_connect_timeout_secs = None\<rparr>"

text \<open>\<open>MCP_URL\<close> of the plain configuration was the URL of an \<open>http\<close> server.\<close>

definition take_url :: "server_def \<Rightarrow> btree \<Rightarrow> server_def \<times> btree" where
  "take_url def config =
     (if sd_transport def = ''http'' then
        (case map_of config ''MCP_URL'' of
           Some u \<Rightarrow> if trim u \<noteq> [] then def\<lparr>sd_url := Some u\<rparr> else def
         | None \<Rightarrow> def, filter (\<lambda>(k, _). k \<noteq> ''MCP_URL'') config)
      else (def, config))"

text \<open>\<open>INSERT \<dots> ON CONFLICT(instance_id, key_name) DO NOTHING\<close> for each variable.\<close>

fun fold_config :: "secret_box \<Rightarrow> string \<Rightarrow> (nat \<Rightarrow> string \<times> string) \<Rightarrow> nat \<Rightarrow> btree \<Rightarrow> db \<Rightarrow> db \<times> nat \<times> unit res" where
  "fold_config sb i fresh n [] d = (d, n, Inr ())"
| "fold_config sb i fresh n ((key, val) # config) d =
     (case seal sb (snd (fresh n)) (as_bytes val) of
        Inl e \<Rightarrow> (d, n, Inl e)
      | Inr s \<Rightarrow>
          if (i, key) \<in> set (map (\<lambda>r. (is_instance_id r, is_key_name r)) (instance_secrets d))
          then fold_config sb i fresh (Suc n) config d
          else
            (case insert_secret d \<lparr>is_id = fst (fresh n), is_instance_id = i, is_key_name = key,
                    is_nonce = sl_nonce s, is_ciphertext = sl_ciphertext s\<rparr> of
               Inl e \<Rightarrow> (d, n, Inl e)
             | Inr d' \<Rightarrow> fold_config sb i fresh (Suc n) config d'))"

definition find_catalog :: "catalog_row list \<Rightarrow> inst_row \<Rightarrow> catalog_row option" where
  "find_catalog cats inst = List.find (\<lambda>c. i_catalog_server_id inst = Some (ct_id c)) cats"

definition migrate_one ::
  "catalog_row list \<Rightarrow> secret_box \<Rightarrow> (nat \<Rightarrow> string \<times> string) \<Rightarrow> nat \<Rightarrow> inst_row \<Rightarrow> db \<Rightarrow> db \<times> nat \<times> unit res" where
  "migrate_one cats sb fresh n inst d =
     (case find_catalog cats inst of
        None \<Rightarrow> (d, n, Inr ())
      | Some c \<Rightarrow>
          (case take_url (catalog_def c) (i_config inst) of (def, config) \<Rightarrow>
             (case fold_config sb (i_id inst) fresh n config d of
                (d', n', Inl e) \<Rightarrow> (d', n', Inl e)
              | (d', n', Inr _) \<Rightarrow>
                  (d'\<lparr>user_server_instances := tbl_update (\<lambda>r. i_id r = i_id inst)
                        (\<lambda>r. r\<lparr>i_custom_def := Some def, i_catalog_server_id := None, i_config := []\<rparr>)
                        (user_server_instances d')\<rparr>, n', Inr ()))))"

fun migrate_loop ::
  "catalog_row list \<Rightarrow> secret_box \<Rightarrow> (nat \<Rightarrow> string \<times> string) \<Rightarrow> nat \<Rightarrow> inst_row list \<Rightarrow> db \<Rightarrow> db \<times> unit res" where
  "migrate_loop cats sb fresh n [] d = (d, Inr ())"
| "migrate_loop cats sb fresh n (inst # insts) d =
     (case migrate_one cats sb fresh n inst d of
        (d', _, Inl e) \<Rightarrow> (d', Inl e)
      | (d', n', Inr _) \<Rightarrow> migrate_loop cats sb fresh n' insts d')"

definition pending_row :: "inst_row \<Rightarrow> bool" where
  "pending_row r = (i_custom_def r = None \<and> i_catalog_server_id r \<noteq> None)"

definition migrate_catalog_instances ::
  "catalog_row list \<Rightarrow> secret_box \<Rightarrow> (nat \<Rightarrow> string \<times> string) \<Rightarrow> db \<Rightarrow> db \<times> unit res" where
  "migrate_catalog_instances cats sb fresh d =
     migrate_loop cats sb fresh 0 (filter pending_row (user_server_instances d)) d"

section \<open>What the pass does to a server\<close>

definition migrated :: "catalog_row list \<Rightarrow> inst_row \<Rightarrow> inst_row" where
  "migrated cats r =
     (case find_catalog cats r of
        None \<Rightarrow> r
      | Some c \<Rightarrow> r\<lparr>i_custom_def := Some (fst (take_url (catalog_def c) (i_config r))), i_catalog_server_id := None, i_config := []\<rparr>)"

text \<open>The plain configuration that becomes variables.\<close>

definition config_left :: "catalog_row list \<Rightarrow> inst_row \<Rightarrow> btree" where
  "config_left cats r =
     (case find_catalog cats r of None \<Rightarrow> i_config r | Some c \<Rightarrow> snd (take_url (catalog_def c) (i_config r)))"

lemma migrated_same [simp]: "i_id (migrated cats r) = i_id r" "i_user_id (migrated cats r) = i_user_id r"
  by (simp_all add: migrated_def split: option.split)

lemma bt_wf_filter: "bt_wf m \<Longrightarrow> bt_wf (filter P m)"
  unfolding bt_wf_def by (induction m) auto

lemma bt_wf_config_left: "bt_wf (i_config r) \<Longrightarrow> bt_wf (config_left cats r)"
  by (auto simp: config_left_def take_url_def bt_wf_filter split: option.split)

lemma fold_config_rows:
  assumes "fold_config sb i fresh n config d = (d', n', Inr ())" "cipher_law sb"
    and "\<And>m. length (snd (fresh m)) = NONCE_LEN" "distinct (map fst config)"
  shows "\<exists>rs. secrets_of d' i = secrets_of d i @ rs \<and>
      map is_key_name rs = map fst (filter (\<lambda>(k, _). k \<notin> set (secret_names d i)) config) \<and>
      map (open_row sb) rs = map (\<lambda>(k, v). Inr (as_bytes v)) (filter (\<lambda>(k, _). k \<notin> set (secret_names d i)) config) \<and>
      (\<forall>j. j \<noteq> i \<longrightarrow> secrets_of d' j = secrets_of d j) \<and> d' = d\<lparr>instance_secrets := instance_secrets d'\<rparr>"
  using assms(1,4)
proof (induction config arbitrary: n d)
  case (Cons kv config)
  obtain k v where kv: "kv = (k, v)" by (cases kv)
  from Cons.prems kv obtain s where s: "seal sb (snd (fresh n)) (as_bytes v) = Inr s" by (auto split: sum.splits)
  have kept: "(i, k) \<in> set (map (\<lambda>r. (is_instance_id r, is_key_name r)) (instance_secrets d)) \<longleftrightarrow> k \<in> set (secret_names d i)"
    by (auto simp: secret_names_def secrets_of_def)
  show ?case
  proof (cases "k \<in> set (secret_names d i)")
    case True
    with Cons.prems(1) kv s kept have "fold_config sb i fresh (Suc n) config d = (d', n', Inr ())" by simp
    from Cons.IH[OF this] Cons.prems(2) True kv show ?thesis by simp
  next
    case False
    let ?r = "\<lparr>is_id = fst (fresh n), is_instance_id = i, is_key_name = k, is_nonce = sl_nonce s, is_ciphertext = sl_ciphertext s\<rparr>"
    from False Cons.prems(1) kv s kept obtain d1 where d1: "insert_secret d ?r = Inr d1"
      and rest: "fold_config sb i fresh (Suc n) config d1 = (d', n', Inr ())"
      by (auto split: sum.splits)
    have op: "open_row sb ?r = Inr (as_bytes v)" using open_seal[OF assms(2) assms(3) s] by (cases s) (simp add: open_row_def)
    from d1 have d1_eq: "d1 = d\<lparr>instance_secrets := instance_secrets d @ [?r]\<rparr>" by (simp add: insert_secret_def split: if_splits)
    have names: "set (secret_names d1 i) = insert k (set (secret_names d i))" "secrets_of d1 i = secrets_of d i @ [?r]"
      "\<And>j. j \<noteq> i \<Longrightarrow> secrets_of d1 j = secrets_of d j"
      by (auto simp: d1_eq secret_names_def secrets_of_def)
    have same: "filter (\<lambda>(j, _). j \<notin> set (secret_names d1 i)) config = filter (\<lambda>(j, _). j \<notin> set (secret_names d i)) config"
      using Cons.prems(2) kv by (intro filter_cong) (auto simp: names(1) rev_image_eqI)
    have dist: "distinct (map fst config)" using Cons.prems(2) by simp
    from Cons.IH[OF rest dist] obtain rs where rs: "secrets_of d' i = secrets_of d1 i @ rs"
      "map is_key_name rs = map fst (filter (\<lambda>(j, _). j \<notin> set (secret_names d i)) config)"
      "map (open_row sb) rs = map (\<lambda>(j, v). Inr (as_bytes v)) (filter (\<lambda>(j, _). j \<notin> set (secret_names d i)) config)"
      "\<forall>j. j \<noteq> i \<longrightarrow> secrets_of d' j = secrets_of d1 j" "d' = d1\<lparr>instance_secrets := instance_secrets d'\<rparr>"
      unfolding same by blast
    have "d' = d\<lparr>instance_secrets := instance_secrets d'\<rparr>" by (subst rs(5)) (simp add: d1_eq)
    with rs names(2,3) op False kv show ?thesis by (intro exI[of _ "?r # rs"]) simp
  qed
qed simp

section \<open>Environments\<close>

lemma resolve_rows_append:
  "resolve_rows sb acc bad (xs @ ys) =
     (case resolve_rows sb acc bad xs of Inl e \<Rightarrow> Inl e | Inr (env, bad') \<Rightarrow> resolve_rows sb env bad' ys)"
  by (induction sb acc bad xs rule: resolve_rows.induct) (auto split: sum.split option.split)

text \<open>Reading the secrets over a configuration is reading them over nothing and putting the result on
  top of the configuration.\<close>

lemma resolve_rows_over:
  assumes "bt_wf acc" "bt_wf acc'" "map_of acc = map_of c ++ map_of acc'"
  shows "case resolve_rows sb acc' bad rs of
      Inl e \<Rightarrow> resolve_rows sb acc bad rs = Inl e
    | Inr (env', bad') \<Rightarrow> \<exists>env. resolve_rows sb acc bad rs = Inr (env, bad') \<and> bt_wf env \<and> bt_wf env' \<and>
        map_of env = map_of c ++ map_of env' \<and> dom (map_of env') \<subseteq> dom (map_of acc') \<union> is_key_name ` set rs \<and>
        dom (map_of acc') \<union> is_key_name ` set rs \<subseteq> dom (map_of env') \<union> set bad' \<and> set bad \<subseteq> set bad'"
  using assms
proof (induction rs arbitrary: acc acc' bad)
  case (Cons r rs)
  show ?case
  proof (cases "open_row sb r")
    case (Inl e)
    with Cons.IH[OF Cons.prems, of "bad @ [is_key_name r]"] show ?thesis by (force split: sum.split)
  next
    case (Inr plain)
    show ?thesis
    proof (cases "from_utf8 plain")
      case None with Inr show ?thesis by simp
    next
      case (Some v)
      have "map_of (bt_insert (is_key_name r) v acc) = map_of c ++ map_of (bt_insert (is_key_name r) v acc')"
        using Cons.prems by simp
      from Cons.IH[OF _ _ this, of bad] Cons.prems(1,2) Inr Some show ?thesis by (auto split: sum.split)
    qed
  qed
qed auto

lemma bt_eqI:
  assumes "bt_wf m" "bt_wf m'" "map_of m = map_of m'"
  shows "m = m'"
proof -
  have d: "distinct (map fst m)" "distinct (map fst m')" using assms bt_wf_distinct by blast+
  have "set m = set m'" using map_of_inject_set[OF d] assms(3) by blast
  moreover have "sorted (map fst m)" "sorted (map fst m')" using assms(1,2) by (simp_all add: bt_wf_def strict_sorted_imp_sorted)
  moreover have "inj_on fst (set m \<union> set m')" using d(1) \<open>set m = set m'\<close> by (simp add: distinct_map)
  ultimately show ?thesis using d by (intro map_sorted_distinct_set_unique[of fst])
qed

lemma map_of_filter_keys: "map_of (filter (\<lambda>(k, _). k \<notin> A) m) = map_of m |` (- A)"
  by (induction m) (auto simp: fun_eq_iff restrict_map_def)

lemma resolved_env_folded:
  assumes "secrets_of d' (i_id r) = secrets_of d (i_id r) @ rs" "bt_wf config"
    and "map is_key_name rs = map fst (filter (\<lambda>(k, _). k \<notin> set (secret_names d (i_id r))) config)"
    and "map (open_row sb) rs = map (\<lambda>(k, v). Inr (as_bytes v)) (filter (\<lambda>(k, _). k \<notin> set (secret_names d (i_id r))) config)"
    and r': "i_id r' = i_id r" "i_config r' = []"
  shows "resolved_env sb d' r' = resolved_env sb d (r\<lparr>i_config := config\<rparr>)"
proof -
  let ?S = "secrets_of d (i_id r)" and ?new = "filter (\<lambda>(k, _). k \<notin> set (secret_names d (i_id r))) config"
  note over = resolve_rows_over[of config "[]" config sb "[]" ?S]
  show ?thesis
  proof (cases "resolve_rows sb [] [] ?S")
    case (Inl e)
    with over assms(1,2) r' show ?thesis by (simp add: resolved_env_def resolve_rows_append)
  next
    case (Inr p)
    obtain env' bad where p: "p = (env', bad)" by (cases p)
    from over assms(2) Inr p obtain env where env: "resolve_rows sb config [] ?S = Inr (env, bad)" "bt_wf env" "bt_wf env'"
      "map_of env = map_of config ++ map_of env'" "dom (map_of env') \<subseteq> set (secret_names d (i_id r))"
      "set (secret_names d (i_id r)) \<subseteq> dom (map_of env') \<union> set bad"
      by (auto simp: secret_names_def)
    have after: "resolve_rows sb [] [] (secrets_of d' (i_id r)) = Inr (foldl (\<lambda>m (k, v). bt_insert k v m) env' ?new, bad)"
      using Inr p resolve_rows_all_open[OF assms(3,4)] by (simp add: assms(1) resolve_rows_append)
    have "foldl (\<lambda>m (k, v). bt_insert k v m) env' ?new = env" if "bad = []"
    proof (rule bt_eqI[OF _ env(2)])
      have dn: "distinct (map fst ?new)" using bt_wf_distinct[OF bt_wf_filter[OF assms(2)]] by blast
      note new = map_of_foldl_insert[OF env(3), of ?new]
      show "bt_wf (foldl (\<lambda>m (k, v). bt_insert k v m) env' ?new)" using new by blast
      have "map_of ?new = map_of config |` (- set (secret_names d (i_id r)))"
        by (simp only: map_of_filter_keys)
      then show "map_of (foldl (\<lambda>m (k, v). bt_insert k v m) env' ?new) = map_of env"
        using new dn env(4-6) that
        by (auto simp: fun_eq_iff map_add_def restrict_map_def dom_def subset_iff split: option.split)
    qed
    with after env(1) r' show ?thesis by (simp add: resolved_env_def)
  qed
qed

section \<open>The pass\<close>

definition catalog_tables :: "db \<Rightarrow> db" where
  "catalog_tables d = d\<lparr>user_server_instances := [], instance_secrets := []\<rparr>"

lemma resolved_env_cong:
  "secrets_of d' (i_id r) = secrets_of d (i_id r) \<Longrightarrow> resolved_env sb d' r = resolved_env sb d r"
  by (simp add: resolved_env_def)

lemma secrets_of_instances [simp]: "secrets_of (d\<lparr>user_server_instances := t\<rparr>) i = secrets_of d i"
  by (simp add: secrets_of_def)

lemma migrate_one_effect:
  assumes "migrate_one cats sb fresh n inst d = (d', n', Inr ())" "cipher_law sb"
    and "\<And>m. length (snd (fresh m)) = NONCE_LEN" "bt_wf (i_config inst)"
    and "distinct (map i_id (user_server_instances d))" "inst \<in> set (user_server_instances d)"
  shows "user_server_instances d' = map (\<lambda>r. if r = inst then migrated cats r else r) (user_server_instances d)"
    and "j \<noteq> i_id inst \<Longrightarrow> secrets_of d' j = secrets_of d j"
    and "resolved_env sb d' (migrated cats inst) = resolved_env sb d (inst\<lparr>i_config := config_left cats inst\<rparr>)"
    and "catalog_tables d' = catalog_tables d"
proof -
  have "user_server_instances d' = map (\<lambda>r. if r = inst then migrated cats r else r) (user_server_instances d) \<and>
    (\<forall>j. j \<noteq> i_id inst \<longrightarrow> secrets_of d' j = secrets_of d j) \<and>
    resolved_env sb d' (migrated cats inst) = resolved_env sb d (inst\<lparr>i_config := config_left cats inst\<rparr>) \<and>
    catalog_tables d' = catalog_tables d"
  proof (cases "find_catalog cats inst")
    case None
    have "map (\<lambda>r. if r = inst then migrated cats r else r) (user_server_instances d) = user_server_instances d"
      using None by (simp add: map_idI migrated_def)
    with None assms(1) show ?thesis by (simp add: migrate_one_def migrated_def config_left_def)
  next
    case (Some c)
    obtain def config where u: "take_url (catalog_def c) (i_config inst) = (def, config)" by fastforce
    have wf: "bt_wf config" using bt_wf_config_left[OF assms(4), of cats] by (simp add: config_left_def Some u)
    from assms(1) Some u obtain d1 where f: "fold_config sb (i_id inst) fresh n config d = (d1, n', Inr ())"
      and d': "d' = d1\<lparr>user_server_instances := tbl_update (\<lambda>r. i_id r = i_id inst)
          (\<lambda>r. r\<lparr>i_custom_def := Some def, i_catalog_server_id := None, i_config := []\<rparr>) (user_server_instances d1)\<rparr>"
      by (auto simp: migrate_one_def split: prod.splits sum.splits)
    from fold_config_rows[OF f assms(2,3) bt_wf_distinct[OF wf]] obtain rs where rs:
      "secrets_of d1 (i_id inst) = secrets_of d (i_id inst) @ rs"
      "map is_key_name rs = map fst (filter (\<lambda>(k, _). k \<notin> set (secret_names d (i_id inst))) config)"
      "map (open_row sb) rs = map (\<lambda>(k, v). Inr (as_bytes v)) (filter (\<lambda>(k, _). k \<notin> set (secret_names d (i_id inst))) config)"
      "\<forall>j. j \<noteq> i_id inst \<longrightarrow> secrets_of d1 j = secrets_of d j" and d1: "d1 = d\<lparr>instance_secrets := instance_secrets d1\<rparr>" by blast
    have tables: "user_server_instances d1 = user_server_instances d" "catalog_tables d1 = catalog_tables d"
      by (subst d1, simp add: catalog_tables_def)+
    have "user_server_instances d' = map (\<lambda>r. if r = inst then migrated cats r else r) (user_server_instances d)"
      unfolding d' using assms(5,6) by (auto simp: tables tbl_update_def migrated_def Some u intro: distinct_key_eq[of i_id])
    moreover have "resolved_env sb d' (migrated cats inst) = resolved_env sb d (inst\<lparr>i_config := config_left cats inst\<rparr>)"
      using resolved_env_folded[of d' inst d rs config sb "migrated cats inst"] rs wf d'
      by (simp add: migrated_def config_left_def Some u)
    moreover have "catalog_tables d' = catalog_tables d" using tables(2) by (simp add: d' catalog_tables_def)
    ultimately show ?thesis using rs(4) by (simp add: d')
  qed
  then show "user_server_instances d' = map (\<lambda>r. if r = inst then migrated cats r else r) (user_server_instances d)"
    "j \<noteq> i_id inst \<Longrightarrow> secrets_of d' j = secrets_of d j"
    "resolved_env sb d' (migrated cats inst) = resolved_env sb d (inst\<lparr>i_config := config_left cats inst\<rparr>)"
    "catalog_tables d' = catalog_tables d" by blast+
qed

lemma migrate_loop_effect:
  assumes "migrate_loop cats sb fresh n ps d = (d', Inr ())" "cipher_law sb"
    and "\<And>m. length (snd (fresh m)) = NONCE_LEN"
    and "distinct (map i_id (user_server_instances d))" "set ps \<subseteq> set (user_server_instances d)" "distinct ps"
    and "\<forall>r\<in>set ps. bt_wf (i_config r)"
  shows "user_server_instances d' = map (\<lambda>r. if r \<in> set ps then migrated cats r else r) (user_server_instances d) \<and>
    (\<forall>j. j \<notin> i_id ` set ps \<longrightarrow> secrets_of d' j = secrets_of d j) \<and>
    (\<forall>r\<in>set ps. resolved_env sb d' (migrated cats r) = resolved_env sb d (r\<lparr>i_config := config_left cats r\<rparr>)) \<and>
    catalog_tables d' = catalog_tables d"
  using assms(1,4-7)
proof (induction ps arbitrary: n d)
  case (Cons p ps)
  from Cons.prems(1) obtain d1 n1 where one: "migrate_one cats sb fresh n p d = (d1, n1, Inr ())"
    and rest: "migrate_loop cats sb fresh n1 ps d1 = (d', Inr ())"
    by (auto split: prod.splits sum.splits)
  have p: "bt_wf (i_config p)" "p \<in> set (user_server_instances d)" using Cons.prems by simp_all
  note eff = migrate_one_effect[OF one assms(2,3) p(1) Cons.prems(2) p(2)]
  have ne: "q \<noteq> p" "i_id q \<noteq> i_id p" if "q \<in> set ps" for q
    using that Cons.prems(2-4) p(2) distinct_key_eq[of i_id "user_server_instances d" q p] by auto
  have ids: "map i_id (user_server_instances d1) = map i_id (user_server_instances d)" by (simp add: eff(1))
  have sub: "set ps \<subseteq> set (user_server_instances d1)"
  proof
    fix q assume q: "q \<in> set ps"
    then have "q \<in> set (user_server_instances d)" using Cons.prems(3) by auto
    with ne(1)[OF q] show "q \<in> set (user_server_instances d1)" unfolding eff(1) by force
  qed
  from Cons.IH[OF rest] ids Cons.prems(2,4,5) sub
  have IH: "user_server_instances d' = map (\<lambda>r. if r \<in> set ps then migrated cats r else r) (user_server_instances d1)"
    "\<forall>j. j \<notin> i_id ` set ps \<longrightarrow> secrets_of d' j = secrets_of d1 j"
    "\<forall>r\<in>set ps. resolved_env sb d' (migrated cats r) = resolved_env sb d1 (r\<lparr>i_config := config_left cats r\<rparr>)"
    "catalog_tables d' = catalog_tables d1"
    by auto
  have mp: "migrated cats p \<notin> set ps" "i_id p \<notin> i_id ` set ps" using ne(2) by (metis migrated_same(1), force)
  have "user_server_instances d' = map (\<lambda>r. if r \<in> set (p # ps) then migrated cats r else r) (user_server_instances d)"
    unfolding IH(1) eff(1) using mp(1) by auto
  moreover have "resolved_env sb d' (migrated cats r) = resolved_env sb d (r\<lparr>i_config := config_left cats r\<rparr>)" if "r \<in> set (p # ps)" for r
  proof (cases "r = p")
    case True
    have "resolved_env sb d' (migrated cats p) = resolved_env sb d1 (migrated cats p)"
      using IH(2) mp(2) by (intro resolved_env_cong) simp
    with eff(3) True show ?thesis by simp
  next
    case False
    with that have r: "r \<in> set ps" by simp
    have "resolved_env sb d1 (r\<lparr>i_config := config_left cats r\<rparr>) = resolved_env sb d (r\<lparr>i_config := config_left cats r\<rparr>)"
      using ne(2)[OF r] by (intro resolved_env_cong) (simp add: eff(2))
    with IH(3) r show ?thesis by simp
  qed
  ultimately show ?case using IH(2,4) eff(2,4) by simp
qed simp

lemma migrate_loop_done:
  assumes "\<forall>r\<in>set ps. find_catalog cats r = None"
  shows "migrate_loop cats sb fresh n ps d = (d, Inr ())"
  using assms by (induction ps) (simp_all add: migrate_one_def)

lemma pending_migrated: "pending_row (migrated cats q) \<Longrightarrow> find_catalog cats (migrated cats q) = None"
  by (cases "find_catalog cats q") (simp_all add: migrated_def pending_row_def)

lemma migrate_again:
  assumes "user_server_instances d' = map (\<lambda>r. if pending_row r then migrated cats r else r) rows"
  shows "migrate_catalog_instances cats sb fresh d' = (d', Inr ())"
  unfolding migrate_catalog_instances_def
  by (intro migrate_loop_done ballI) (auto simp: assms pending_migrated split: if_splits)

lemma migrate_effect:
  assumes "migrate_catalog_instances cats sb fresh d = (d', Inr ())" "cipher_law sb"
    and "\<And>m. length (snd (fresh m)) = NONCE_LEN"
    and "distinct (map i_id (user_server_instances d))" "\<forall>r\<in>set (user_server_instances d). bt_wf (i_config r)"
  shows "user_server_instances d' = map (\<lambda>r. if pending_row r then migrated cats r else r) (user_server_instances d)"
    and "r \<in> set (user_server_instances d) \<Longrightarrow> \<not> pending_row r \<Longrightarrow> secrets_of d' (i_id r) = secrets_of d (i_id r)"
    and "r \<in> set (user_server_instances d) \<Longrightarrow> pending_row r \<Longrightarrow>
      resolved_env sb d' (migrated cats r) = resolved_env sb d (r\<lparr>i_config := config_left cats r\<rparr>)"
    and "catalog_tables d' = catalog_tables d"
proof -
  let ?ps = "filter pending_row (user_server_instances d)"
  have "distinct ?ps" using assms(4) by (simp add: distinct_map)
  from migrate_loop_effect[OF assms(1)[unfolded migrate_catalog_instances_def] assms(2,3,4) _ this] assms(5)
  have eff: "user_server_instances d' = map (\<lambda>r. if r \<in> set ?ps then migrated cats r else r) (user_server_instances d)"
    "\<forall>j. j \<notin> i_id ` set ?ps \<longrightarrow> secrets_of d' j = secrets_of d j"
    "\<forall>r\<in>set ?ps. resolved_env sb d' (migrated cats r) = resolved_env sb d (r\<lparr>i_config := config_left cats r\<rparr>)"
    "catalog_tables d' = catalog_tables d" by auto
  show "user_server_instances d' = map (\<lambda>r. if pending_row r then migrated cats r else r) (user_server_instances d)"
    unfolding eff(1) by auto
  show "catalog_tables d' = catalog_tables d" by (rule eff(4))
  show "resolved_env sb d' (migrated cats r) = resolved_env sb d (r\<lparr>i_config := config_left cats r\<rparr>)"
    if "r \<in> set (user_server_instances d)" "pending_row r" using that eff(3) by simp
  show "secrets_of d' (i_id r) = secrets_of d (i_id r)" if r: "r \<in> set (user_server_instances d)" "\<not> pending_row r"
  proof -
    have "i_id r \<notin> i_id ` set ?ps"
    proof
      assume "i_id r \<in> i_id ` set ?ps"
      then obtain q where "q \<in> set (user_server_instances d)" "pending_row q" "i_id r = i_id q" by auto
      with distinct_key_eq[OF assms(4) r(1)] r(2) show False by blast
    qed
    with eff(2) show ?thesis by blast
  qed
qed


definition catalog_demo :: catalog_row where
  "catalog_demo = \<lparr>ct_id = ''c1'', ct_name = ''Wiki'', ct_description = [], ct_transport = ''http'', ct_command = None, ct_args = [],
     ct_url = Some ''https://old'', ct_runtime = [], ct_repo = None, ct_git_ref = None, ct_entry = None, ct_module = None\<rparr>"

definition catalog_inst :: inst_row where
  "catalog_inst = (mk_inst ''i1'' ''u1'' ''wiki'')
     \<lparr>i_catalog_server_id := Some ''c1'', i_config := [(''MCP_URL'', ''https://new''), (''MODE'', ''ro''), (''TOKEN'', ''plain'')]\<rparr>"

definition catalog_db :: db where
  "catalog_db = group_demo_db\<lparr>user_server_instances := [catalog_inst, mk_inst ''i2'' ''u2'' ''files''],
     instance_secrets := [\<lparr>is_id = ''s0'', is_instance_id = ''i1'', is_key_name = ''TOKEN'',
       is_nonce = replicate 24 CHR ''n'', is_ciphertext = ''terces''\<rparr>]\<rparr>"

definition catalog_fresh :: "nat \<Rightarrow> string \<times> string" where
  "catalog_fresh n = (CHR ''f'' # replicate n CHR ''x'', replicate 24 CHR ''n'')"

lemma catalog_fresh_len: "length (snd (catalog_fresh m)) = NONCE_LEN"
  by (simp add: catalog_fresh_def NONCE_LEN_def)

lemma catalog_demo_rows:
  "distinct (map i_id (user_server_instances catalog_db))" "\<forall>r\<in>set (user_server_instances catalog_db). bt_wf (i_config r)"
  "catalog_inst \<in> set (user_server_instances catalog_db)" "pending_row catalog_inst"
  "find_catalog [catalog_demo] catalog_inst = Some catalog_demo"
  by code_simp+


end
