(* ===== verification/Hub_Startup.thy ===== *)
theory Hub_Startup
  imports Hub_App Hub_Migration Hub_Webauthn Hub_OAuth_Keys Hub_Isolation
begin

text \<open>
  Start of the process: \<open>AppState::new\<close> of \<^verbatim>\<open>src/lib.rs\<close> loads or creates the signing key, converts
  catalog servers, gives every account a sandbox slot, locks the database file and loads or creates
  the metrics key, over the operations of the components; \<open>derive_cookie_key\<close> and \<open>sandbox_uid\<close> of
  the same file. A step that fails ends the start with an error and keeps what the earlier steps
  wrote. Key generation, SHA-256 and the passkey library are arguments. The lemmas say that a
  restart finds what the previous start left.
\<close>

section \<open>AppState::new\<close>

record startup_env =
  su_hv :: app_env
  su_kl :: key_lib
  su_keygen :: "(string \<times> string) res"
  su_key_nonce :: string
  su_catalog_fresh :: "nat \<Rightarrow> string \<times> string"
  su_webauthn :: "string \<Rightarrow> string \<Rightarrow> webauthn res"
  su_sha256 :: "string \<Rightarrow> string"

record hub =
  hub_app :: app_state
  hub_webauthn :: webauthn
  hub_signer :: signer
  hub_reg_states :: "(string, reg_ceremony) hash_map"
  hub_auth_states :: "(string, auth_ceremony) hash_map"
  hub_auth_codes :: code_store
  hub_cookie_key :: string

definition derive_cookie_key :: "(string \<Rightarrow> string) \<Rightarrow> string \<Rightarrow> string" where
  "derive_cookie_key sha256 master = concat (map (\<lambda>label. sha256 (label @ master)) [''hub-cookie-1'', ''hub-cookie-2''])"

definition sandbox_uid :: "app_env \<Rightarrow> app_state \<Rightarrow> string \<Rightarrow> 32 word option" where
  "sandbox_uid hv st user_id =
     uid_for (is_root (hv_proc hv)) (map_option word_of_nat (sandbox_uid_base (hv_cfg hv))) (sandbox_slot (ap_db st) user_id)"

definition app_new :: "startup_env \<Rightarrow> catalog_row list \<Rightarrow> db \<Rightarrow> fs \<Rightarrow> db \<times> fs \<times> hub res" where
  "app_new su cats d fs =
     (let hv = su_hv su; cfg = hv_cfg hv; sb = hv_box hv in
      case su_webauthn su (base_url cfg) (rp_id cfg) of
        Inl e \<Rightarrow> (d, fs, Inl e)
      | Inr wn \<Rightarrow>
          (case load_or_create (su_kl su) sb (hv_now hv) (su_key_nonce su) (su_keygen su) d (base_url cfg) of
             (d1, Inl e) \<Rightarrow> (d1, fs, Inl e)
           | (d1, Inr sg) \<Rightarrow>
               (case migrate_catalog_instances cats sb (su_catalog_fresh su) d1 of
                  (d2, Inl e) \<Rightarrow> (d2, fs, Inl e)
                | (d2, Inr _) \<Rightarrow>
                    (let d3 = assign_sandbox_slots d2;
                         fs' = (if sandbox_uid_base cfg \<noteq> None \<and> is_root (hv_proc hv)
                                then lock_database (hv_proc hv) (db_path cfg) fs else fs) in
                     case load_or_create_key sb (hv_random hv) (hv_nonce hv) (hv_now hv) d3 of
                       Inl e \<Rightarrow> (d3, fs', Inl e)
                     | Inr (d4, key) \<Rightarrow>
                         (d4, fs', Inr
                            \<lparr>hub_app = \<lparr>ap_db = d4, ap_fs = fs', ap_pool = [], ap_epochs = [], ap_peers = [], ap_status = [],
                               ap_metrics = [], ap_metrics_key = key, ap_permits = max_backends_global (cfg_limits cfg),
                               ap_sessions = 0, ap_notified = [], ap_audit = []\<rparr>,
                             hub_webauthn = wn, hub_signer = sg, hub_reg_states = [], hub_auth_states = [],
                             hub_auth_codes = [], hub_cookie_key = derive_cookie_key (su_sha256 su) (master_key cfg)\<rparr>)))))"

section \<open>Each step finds what it left\<close>

lemma sort_key_last:
  assumes "\<And>x. x \<in> set xs \<Longrightarrow> f y < f x"
  shows "sort_key f (xs @ [y]) = y # sort_key f xs"
  using assms
proof (induction xs)
  case (Cons a xs)
  have "sort_key f (xs @ [y]) = y # sort_key f xs" using Cons by simp
  moreover have "\<not> f a \<le> f y" using Cons.prems[of a] by simp
  ultimately show ?case by simp
qed simp

lemma load_active_cong: "oauth_signing_keys d = oauth_signing_keys d' \<Longrightarrow> load_active d = load_active d'"
  by (simp add: load_active_def)

lemma signing_key_stable:
  assumes "cipher_law sb" "b64_law kl" "length nonce = NONCE_LEN" "\<forall>n p. sb_encrypt sb n p \<noteq> Some []"
    and "\<forall>r\<in>set (oauth_signing_keys d). sk_created_at r < now"
    and "load_or_create kl sb now nonce gen d issuer = (d1, Inr s)" "oauth_signing_keys d2 = oauth_signing_keys d1"
  shows "load_or_create kl sb later nonce' gen' d2 issuer = (d2, Inr s)"
proof -
  have created: "load_or_create kl sb later nonce' gen' d2 issuer = (d2, Inr s)"
    if c: "create_key kl sb now nonce gen d0 issuer = (d1, Inr s)" "\<forall>r\<in>set (oauth_signing_keys d0). sk_created_at r < now" for d0
  proof -
    from c(1) obtain kid pem stored where st: "seal_pem kl sb nonce pem = Inr stored" and f: "from_pem kl kid issuer pem = Inr s"
      and d1: "oauth_signing_keys d1 = oauth_signing_keys d0 @ [\<lparr>sk_kid = kid, sk_private = stored, sk_created_at = now, sk_active = True\<rparr>]"
      by (auto simp: create_key_def split: sum.splits prod.splits if_splits)
    let ?new = "\<lparr>sk_kid = kid, sk_private = stored, sk_created_at = now, sk_active = True\<rparr>"
    have "sort_key (\<lambda>r. - sk_created_at r) (filter sk_active (oauth_signing_keys d0) @ [?new]) =
      ?new # sort_key (\<lambda>r. - sk_created_at r) (filter sk_active (oauth_signing_keys d0))"
      using c(2) by (intro sort_key_last) simp
    then have "load_active d2 = Some (kid, stored)" by (simp add: load_active_def assms(7) d1)
    with unseal_seal_pem[OF assms(1-3) st assms(4)] f show ?thesis by (simp add: load_or_create_def)
  qed
  show ?thesis
  proof (cases "load_active d")
    case None
    with assms(6) have "create_key kl sb now nonce gen d issuer = (d1, Inr s)" by (simp add: load_or_create_def)
    from created[OF this assms(5)] show ?thesis .
  next
    case (Some p)
    obtain kid stored where p: "p = (kid, stored)" by (cases p)
    show ?thesis
    proof (cases "rbind (unseal_pem kl sb stored) (from_pem kl kid issuer)")
      case (Inr s')
      with Some p assms(6) have "d1 = d" "s' = s" by (simp_all add: load_or_create_def)
      with Some p Inr load_active_cong[OF assms(7)] show ?thesis by (simp add: load_or_create_def)
    next
      case (Inl e)
      let ?d0 = "d\<lparr>oauth_signing_keys := tbl_update (\<lambda>r. sk_kid r = kid) (\<lambda>r. r\<lparr>sk_active := False\<rparr>) (oauth_signing_keys d)\<rparr>"
      from Inl Some p assms(6) have "create_key kl sb now nonce gen ?d0 issuer = (d1, Inr s)" by (simp add: load_or_create_def)
      moreover have "\<forall>r\<in>set (oauth_signing_keys ?d0). sk_created_at r < now" using assms(5) by (auto simp: tbl_update_def)
      ultimately show ?thesis by (rule created)
    qed
  qed
qed

lemma load_or_create_tables:
  "load_or_create kl sb now nonce gen d issuer = (d1, r) \<Longrightarrow> d1 = d\<lparr>oauth_signing_keys := oauth_signing_keys d1\<rparr>"
  by (auto simp: load_or_create_def create_key_def split: option.splits sum.splits prod.splits if_splits)

lemma slots_assigned:
  assumes "\<forall>r\<in>set (users d). u_sandbox_uid r \<noteq> None"
  shows "assign_sandbox_slots d = d"
proof -
  have "filter (\<lambda>r. u_sandbox_uid r = None) (users d) = []" using assms by (simp add: filter_empty_conv)
  then show ?thesis by (simp add: assign_sandbox_slots_def)
qed

lemma metrics_key_stable:
  assumes "cipher_law sb" "length nonce = NONCE_LEN" "load_or_create_key sb random nonce now d = Inr (d', key)"
  shows "load_or_create_key sb random' nonce' later d' = Inr (d', key)"
proof (cases "load_key sb d")
  case (Some k)
  with assms(3) show ?thesis by (simp add: load_or_create_key_def)
next
  case None
  with assms(3) have key: "key = KEY_PREFIX @ random" and st: "store_key sb nonce now d key = Inr d'"
    by (auto simp: load_or_create_key_def rbind_def Let_def split: sum.splits)
  then obtain s where s: "seal sb nonce (as_bytes key) = Inr s" by (auto simp: store_key_def rbind_def split: sum.splits)
  have "\<exists>r. List.find (\<lambda>r. se_key r = KEY_SETTING) (settings d') = Some r \<and> se_nonce r = sl_nonce s \<and> se_ciphertext r = sl_ciphertext s"
  proof (cases "KEY_SETTING \<in> set (map se_key (settings d))")
    case True
    have "\<exists>r. List.find (\<lambda>r. se_key r = KEY_SETTING) (tbl_update (\<lambda>r. se_key r = KEY_SETTING) g t) = Some r \<and> r \<in> g ` set t"
      if "KEY_SETTING \<in> set (map se_key t)" "\<And>r. se_key (g r) = se_key r" for t g
      using that by (induction t) (auto simp: tbl_update_def)
    from this[OF True, of "\<lambda>r. r\<lparr>se_nonce := sl_nonce s, se_ciphertext := sl_ciphertext s, se_updated_at := now\<rparr>"] True st s
    show ?thesis by (auto simp: store_key_def rbind_def)
  next
    case False
    have "List.find (\<lambda>r. se_key r = KEY_SETTING) (t @ ys) = List.find (\<lambda>r. se_key r = KEY_SETTING) ys"
      if "KEY_SETTING \<notin> set (map se_key t)" for t ys
      using that by (induction t) auto
    from this[OF False] False st s show ?thesis by (auto simp: store_key_def rbind_def)
  qed
  then have "load_key sb d' = Some key" using open_seal[OF assms(1,2) s] by (cases s) (auto simp: load_key_def)
  then show ?thesis by (simp add: load_or_create_key_def)
qed

section \<open>Restart\<close>

text \<open>What a start relies on: a cipher that opens what it sealed, base64 that decodes what it encoded,
  nonces of the right length, and a clock later than every key in the database.\<close>

definition startup_law :: "startup_env \<Rightarrow> bool" where
  "startup_law su \<longleftrightarrow>
     cipher_law (hv_box (su_hv su)) \<and> (\<forall>n p. sb_encrypt (hv_box (su_hv su)) n p \<noteq> Some []) \<and> b64_law (su_kl su) \<and>
     length (su_key_nonce su) = NONCE_LEN \<and> length (hv_nonce (su_hv su)) = NONCE_LEN \<and>
     (\<forall>m. length (snd (su_catalog_fresh su m)) = NONCE_LEN)"

definition startup_db :: "startup_env \<Rightarrow> db \<Rightarrow> bool" where
  "startup_db su d \<longleftrightarrow>
     (\<forall>r\<in>set (oauth_signing_keys d). sk_created_at r < hv_now (su_hv su)) \<and> slots_ok (users d) \<and>
     distinct (map i_id (user_server_instances d)) \<and> (\<forall>r\<in>set (user_server_instances d). bt_wf (i_config r))"

text \<open>Two processes on the same installation: configuration, master key and libraries are the same.\<close>

definition same_installation :: "startup_env \<Rightarrow> startup_env \<Rightarrow> bool" where
  "same_installation su su' \<longleftrightarrow>
     hv_cfg (su_hv su') = hv_cfg (su_hv su) \<and> hv_box (su_hv su') = hv_box (su_hv su) \<and> su_kl su' = su_kl su \<and>
     su_webauthn su' = su_webauthn su \<and> su_sha256 su' = su_sha256 su"

lemma app_new_steps:
  assumes "app_new su cats d fs = (d4, fs', Inr h)"
  shows "\<exists>wn d1 sg d2 key. su_webauthn su (base_url (hv_cfg (su_hv su))) (rp_id (hv_cfg (su_hv su))) = Inr wn \<and>
    load_or_create (su_kl su) (hv_box (su_hv su)) (hv_now (su_hv su)) (su_key_nonce su) (su_keygen su) d (base_url (hv_cfg (su_hv su))) = (d1, Inr sg) \<and>
    migrate_catalog_instances cats (hv_box (su_hv su)) (su_catalog_fresh su) d1 = (d2, Inr ()) \<and>
    load_or_create_key (hv_box (su_hv su)) (hv_random (su_hv su)) (hv_nonce (su_hv su)) (hv_now (su_hv su)) (assign_sandbox_slots d2) = Inr (d4, key) \<and>
    hub_webauthn h = wn \<and> hub_signer h = sg \<and> ap_metrics_key (hub_app h) = key \<and> ap_db (hub_app h) = d4 \<and>
    hub_cookie_key h = derive_cookie_key (su_sha256 su) (master_key (hv_cfg (su_hv su)))"
  using assms by (auto simp: app_new_def Let_def split: sum.splits prod.splits)

lemma load_or_create_key_tables:
  "load_or_create_key sb random nonce now d = Inr (d', key) \<Longrightarrow> d' = d\<lparr>settings := settings d'\<rparr>"
  by (auto simp: load_or_create_key_def store_key_def rbind_def Let_def split: option.splits sum.splits)

lemma catalog_tables_eqD:
  assumes "catalog_tables d = catalog_tables d'"
  shows "oauth_signing_keys d = oauth_signing_keys d'" "users d = users d'" "settings d = settings d'"
proof -
  have "oauth_signing_keys (catalog_tables d) = oauth_signing_keys (catalog_tables d')" "users (catalog_tables d) = users (catalog_tables d')"
    "settings (catalog_tables d) = settings (catalog_tables d')" by (simp_all only: assms)
  then show "oauth_signing_keys d = oauth_signing_keys d'" "users d = users d'" "settings d = settings d'"
    by (simp_all add: catalog_tables_def)
qed

text \<open>C30: a restart finds everything the previous start left. When the hub has started once, starting it
  again on its database, at any later time and with any new randomness, changes no row and gives the
  same signing key, cookie key and metrics key: access tokens, browser sessions and the scrape key
  stay valid, every account keeps its sandbox slot, and no server is converted twice.\<close>

theorem restart_stable:
  assumes "startup_law su" "startup_db su d" "app_new su cats d fs = (d', fs', Inr h)" "same_installation su su'"
  shows "\<exists>fs2 h2. app_new su' cats d' fs' = (d', fs2, Inr h2) \<and> hub_signer h2 = hub_signer h \<and>
    hub_cookie_key h2 = hub_cookie_key h \<and> ap_metrics_key (hub_app h2) = ap_metrics_key (hub_app h)"
proof -
  let ?sb = "hv_box (su_hv su)" and ?cfg = "hv_cfg (su_hv su)"
  from app_new_steps[OF assms(3)] obtain wn d1 sg d2 key where
    wn: "su_webauthn su (base_url ?cfg) (rp_id ?cfg) = Inr wn" and
    sg: "load_or_create (su_kl su) ?sb (hv_now (su_hv su)) (su_key_nonce su) (su_keygen su) d (base_url ?cfg) = (d1, Inr sg)" and
    mig: "migrate_catalog_instances cats ?sb (su_catalog_fresh su) d1 = (d2, Inr ())" and
    key: "load_or_create_key ?sb (hv_random (su_hv su)) (hv_nonce (su_hv su)) (hv_now (su_hv su)) (assign_sandbox_slots d2) = Inr (d', key)" and
    h: "hub_signer h = sg" "ap_metrics_key (hub_app h) = key" "hub_cookie_key h = derive_cookie_key (su_sha256 su) (master_key ?cfg)"
    by blast
  note law = assms(1)[unfolded startup_law_def] and db = assms(2)[unfolded startup_db_def]
  have d1: "users d1 = users d" "user_server_instances d1 = user_server_instances d"
    by (subst load_or_create_tables[OF sg], simp)+
  have eff: "user_server_instances d2 = map (\<lambda>r. if pending_row r then migrated cats r else r) (user_server_instances d)"
    "oauth_signing_keys d2 = oauth_signing_keys d1" "users d2 = users d"
    using migrate_effect(1,4)[OF mig] law db d1 catalog_tables_eqD(1,2)[of d2 d1] by simp_all
  have d': "oauth_signing_keys d' = oauth_signing_keys d1" "user_server_instances d' = user_server_instances d2"
    "users d' = users (assign_sandbox_slots d2)"
    by (subst load_or_create_key_tables[OF key], simp add: eff(2) assign_sandbox_slots_def Let_def)+
  have "\<forall>r\<in>set (users d'). u_sandbox_uid r \<noteq> None"
    unfolding d'(3) using assign_sandbox_slots_ok[of d2] db by (simp add: eff(3))
  note slots = slots_assigned[OF this]
  have sg': "load_or_create (su_kl su') ?sb (hv_now (su_hv su')) (su_key_nonce su') (su_keygen su') d' (base_url ?cfg) = (d', Inr sg)"
    using signing_key_stable[OF _ _ _ _ _ sg d'(1)] law db assms(4) by (simp add: same_installation_def)
  have mig': "migrate_catalog_instances cats ?sb (su_catalog_fresh su') d' = (d', Inr ())"
    using migrate_again eff(1) d'(2) by metis
  have key': "load_or_create_key ?sb (hv_random (su_hv su')) (hv_nonce (su_hv su')) (hv_now (su_hv su')) d' = Inr (d', key)"
    using metrics_key_stable[OF _ _ key] law by simp
  show ?thesis using assms(4) wn sg' mig' slots key' h by (simp add: app_new_def same_installation_def Let_def)
qed

definition demo_startup :: "int \<Rightarrow> string \<Rightarrow> startup_env" where
  "demo_startup now key =
     \<lparr>su_hv = demo_hv\<lparr>hv_box := tag_box, hv_now := now, hv_nonce := replicate 24 CHR ''n''\<rparr>, su_kl = hex_lib, su_keygen = Inr (key, ''pem''),
      su_key_nonce = replicate 24 CHR ''n'', su_catalog_fresh = catalog_fresh,
      su_webauthn = (\<lambda>_ _. Inr \<lparr>wn_parse_uuid = Some, wn_start_registration = (\<lambda>_ _ _ _. Inl []), wn_finish_registration = (\<lambda>_ _. Inl []),
        wn_start_authentication = (\<lambda>_. Inl []), wn_finish_authentication = (\<lambda>_ _. Inl []), wn_deser = Some, wn_ser = id, wn_cred_id = id,
        wn_update = (\<lambda>p _. p)\<rparr>), su_sha256 = id\<rparr>"

lemma demo_first_start:
  "load_or_create hex_lib tag_box 5 (replicate 24 CHR ''n'') (Inr (''k1'', ''pem'')) catalog_db ''https://h.io'' =
     (catalog_db\<lparr>oauth_signing_keys := [\<lparr>sk_kid = ''k1'', sk_private = hex_encode (replicate 24 CHR ''n'' @ CHR ''t'' # as_bytes ''pem''),
        sk_created_at = 5, sk_active = True\<rparr>]\<rparr>, Inr \<lparr>sg_kid = ''k1'', sg_issuer = ''https://h.io'', sg_jwt = demo_jwt\<rparr>)"
  "snd (migrate_catalog_instances [catalog_demo] tag_box catalog_fresh (catalog_db\<lparr>oauth_signing_keys := K\<rparr>)) = Inr ()"
  "map i_catalog_server_id (user_server_instances (fst (migrate_catalog_instances [catalog_demo] tag_box catalog_fresh
     (catalog_db\<lparr>oauth_signing_keys := K\<rparr>)))) = [None, None]"
  by (simp add: load_or_create_def load_active_def catalog_db_def group_demo_simps create_key_def seal_pem_def seal_def
      tag_box_def from_pem_def hex_lib_def, code_simp+)

lemma demo_metrics_key: "\<exists>d' key. load_or_create_key tag_box r n now d = Inr (d', key) \<and> user_server_instances d' = user_server_instances d"
  by (auto simp: load_or_create_key_def store_key_def seal_def tag_box_def Let_def split: option.split)

theorem restart_stable_witness:
  "\<exists>d' fs' h fs2 h2. app_new (demo_startup 5 ''k1'') [catalog_demo] catalog_db Map.empty = (d', fs', Inr h) \<and>
     app_new (demo_startup 9 ''k2'') [catalog_demo] d' fs' = (d', fs2, Inr h2) \<and> hub_signer h2 = hub_signer h \<and>
     map i_catalog_server_id (user_server_instances d') = [None, None]"
proof -
  let ?su = "demo_startup 5 ''k1''"
  have law: "startup_law ?su" using hex_law
    by (auto simp: startup_law_def demo_startup_def cipher_law_def tag_box_def NONCE_LEN_def catalog_fresh_len[unfolded NONCE_LEN_def])
  have db: "startup_db ?su catalog_db"
    using catalog_demo_rows(1,2) by (simp add: startup_db_def catalog_db_def group_demo_simps slots_ok_def slots_Cons slots_def)
  have same: "same_installation ?su (demo_startup 9 ''k2'')" by (simp add: same_installation_def demo_startup_def)
  define d1 where "d1 = fst (load_or_create hex_lib tag_box 5 (replicate 24 CHR ''n'') (Inr (''k1'', ''pem'')) catalog_db ''https://h.io'')"
  define d2 where "d2 = fst (migrate_catalog_instances [catalog_demo] tag_box catalog_fresh d1)"
  have m: "migrate_catalog_instances [catalog_demo] tag_box catalog_fresh d1 = (d2, Inr ())"
    "map i_catalog_server_id (user_server_instances d2) = [None, None]"
    using demo_first_start(2,3) unfolding d2_def d1_def demo_first_start(1) fst_conv by (metis prod.collapse)+
  obtain d' key where k: "load_or_create_key tag_box ''rnd'' (replicate 24 CHR ''n'') 5 (assign_sandbox_slots d2) = Inr (d', key)"
    "user_server_instances d' = user_server_instances (assign_sandbox_slots d2)" using demo_metrics_key by blast
  obtain fs' h where a: "app_new ?su [catalog_demo] catalog_db Map.empty = (d', fs', Inr h)"
    using m(1) k(1) demo_first_start(1) d1_def
    by (simp add: app_new_def demo_startup_def demo_hv_def demo_cfg_def Let_def)
  have "map i_catalog_server_id (user_server_instances d') = [None, None]"
    using m(2) by (simp add: k(2) assign_sandbox_slots_def Let_def)
  moreover obtain fs2 h2 where "app_new (demo_startup 9 ''k2'') [catalog_demo] d' fs' = (d', fs2, Inr h2)" "hub_signer h2 = hub_signer h"
    using restart_stable[OF law db a same] by blast
  ultimately show ?thesis using a by (intro exI conjI)
qed

end
