(* ===== verification/Hub_Background.thy ===== *)
theory Hub_Background
  imports Hub_Server Hub_Pool_Safety Hub_Isolation
begin

text \<open>
  The tasks that run beside the requests: the three loops of \<^verbatim>\<open>src/main.rs\<close> (the sweep of expired
  browser sessions, the idle reaper and the keep-warm loop with its heartbeat) and the passes of
  \<^verbatim>\<open>src/proxy/pool.rs\<close> they run (\<open>warm_all\<close>, \<open>exercise_all\<close>), with \<open>refresh_snapshot\<close> of the same
  file. A loop is the list of its ticks; one tick is a function on the application state. The pass
  over the users takes the environment of each user's bind from \<open>svs\<close>. The lemmas say that the sweep
  cannot be observed by a request, that a warmed pool is not reaped, and how often backends are
  exercised.
\<close>

section \<open>Session sweeper and idle reaper (main.rs)\<close>

definition session_sweep :: "int \<Rightarrow> app_state \<Rightarrow> app_state" where
  "session_sweep now st = st\<lparr>ap_db := fst (delete_expired now (ap_db st))\<rparr>"

definition reaper_period :: "nat \<Rightarrow> nat" where
  "reaper_period idle_secs = min 300 (max 30 (idle_secs div 4))"

definition backend_reaper :: "config \<Rightarrow> int \<Rightarrow> app_state \<Rightarrow> app_state" where
  "backend_reaper cfg now st =
     (let idle_secs = backend_idle_secs (cfg_limits cfg) in
      if idle_secs = 0 then st else st\<lparr>ap_pool := fst (reap_idle now (int idle_secs) (ap_pool st))\<rparr>)"

section \<open>Capability snapshots on connect (pool.rs)\<close>

text \<open>The lists are asked one after the other.\<close>

definition list_time :: "bool \<Rightarrow> 'a reply \<Rightarrow> nat" where
  "list_time advertised r = (if \<not> advertised then 0 else case r of Reply us _ \<Rightarrow> us | Hang \<Rightarrow> 0)"

definition capture_reply :: "int \<Rightarrow> peer \<Rightarrow> capabilities_snapshot reply" where
  "capture_reply now p =
     (let server = (case pe_info p of None \<Rightarrow> server_info_default | Some s \<Rightarrow> s) in
      case capture_snapshot now p of
        None \<Rightarrow> Hang
      | Some snap \<Rightarrow>
          Reply (list_time (sv_tools server) (pe_list_tools p) + list_time (sv_prompts server) (pe_list_prompts p) +
                 list_time (sv_resources server) (pe_list_resources p) + list_time (sv_resources server) (pe_list_templates p)) snap)"

definition refresh_snapshot ::
  "server_env \<Rightarrow> (capabilities_snapshot \<Rightarrow> string) \<Rightarrow> string \<Rightarrow> backend \<Rightarrow> app_state \<Rightarrow> app_state" where
  "refresh_snapshot sv store instance_id b st =
     (case await (list_limit sv) (capture_reply (hv_now (sv_hv sv)) (sv_peer sv b)) of
        Some (_, Inr snap) \<Rightarrow> st\<lparr>ap_db := set_capabilities_snapshot (ap_db st) instance_id (store snap)\<rparr>
      | _ \<Rightarrow> st)"

section \<open>Keep warm (pool.rs)\<close>

definition warm_one :: "(string \<Rightarrow> server_env) \<Rightarrow> app_state \<times> nat \<times> nat \<Rightarrow> user_row \<Rightarrow> app_state \<times> nat \<times> nat" where
  "warm_one svs acc u =
     (case acc of (st, warmed, backends) \<Rightarrow>
      case backends_for (svs (u_id u)) st (u_id u) of
        (st', bs) \<Rightarrow> (st', warmed + 1, backends + length bs))"

definition warm_all :: "(string \<Rightarrow> server_env) \<Rightarrow> app_state \<Rightarrow> app_state \<times> nat \<times> nat" where
  "warm_all svs st =
     foldl (warm_one svs)
       (st\<lparr>ap_status := status_retain (ap_status st) (i_id ` set (inst_list_all (ap_db st)))\<rparr>, 0, 0)
       (warm_targets (ap_db st))"

text \<open>The heartbeats of one user's backends, all awaited; \<open>None\<close> when one never answers and no limit
  is configured.\<close>

definition beat_results :: "server_env \<Rightarrow> backend list \<Rightarrow> (backend \<times> bool) list option" where
  "beat_results sv bs =
     those (map (\<lambda>b. map_option (\<lambda>(_, r). (b, case r of Inr (Inr _) \<Rightarrow> True | _ \<Rightarrow> False))
                       (await (list_limit sv) (list_namespaced_tools b (sv_peer sv b)))) bs)"

fun exercise_users ::
  "server_env \<Rightarrow> string list \<Rightarrow> app_state \<times> nat \<times> nat \<times> string list \<Rightarrow> app_state \<times> (nat \<times> nat \<times> string list) option" where
  "exercise_users sv [] (st, good, bad, dropped) = (st, Some (good, bad, dropped))"
| "exercise_users sv (u # us) (st, good, bad, dropped) =
     (case hm_get (ap_pool st) u of
        None \<Rightarrow> exercise_users sv us (st, good, bad, dropped)
      | Some inn \<Rightarrow>
          (case beat_results sv (p_backends inn) of
             None \<Rightarrow> (st, None)
           | Some results \<Rightarrow>
               (case exercise_user inn results of
                  (inn', g, b, ds) \<Rightarrow>
                    exercise_users sv us (st\<lparr>ap_pool := pool_put u inn' (ap_pool st)\<rparr>, good + g, bad + b, dropped @ ds))))"

definition exercise_all :: "server_env \<Rightarrow> app_state \<Rightarrow> app_state \<times> (nat \<times> nat) option" where
  "exercise_all sv st =
     (case exercise_users sv (map fst (ap_pool st)) (st, 0, 0, []) of
        (st', None) \<Rightarrow> (st', None)
      | (st', Some (good, bad, dropped)) \<Rightarrow>
          (st'\<lparr>ap_status := foldl (\<lambda>reg i. status_set (hv_now (sv_hv sv)) reg i RsError (Some ''heartbeat failed; dropped for respawn''))
                             (ap_status st') dropped\<rparr>, Some (good, bad)))"

text \<open>One tick of the keep-warm loop; the second component is the time of the last heartbeat pass.\<close>

definition deep_due :: "nat \<Rightarrow> int \<Rightarrow> int option \<Rightarrow> bool" where
  "deep_due deep_every now last_deep \<longleftrightarrow>
     deep_every > 0 \<and> (case last_deep of None \<Rightarrow> True | Some t \<Rightarrow> now - t \<ge> int deep_every)"

definition warmer_tick ::
  "config \<Rightarrow> (string \<Rightarrow> server_env) \<Rightarrow> server_env \<Rightarrow> int \<Rightarrow> app_state \<times> int option \<Rightarrow> app_state \<times> int option" where
  "warmer_tick cfg svs sv now acc =
     (case acc of (st, last_deep) \<Rightarrow>
      if \<not> keep_warm cfg then (st, last_deep)
      else
        (let st1 = fst (warm_all svs st) in
         if deep_due (keep_warm_interval_secs cfg) now last_deep then (fst (exercise_all sv st1), Some now)
         else (st1, last_deep)))"

fun warmer_run ::
  "config \<Rightarrow> (int \<Rightarrow> string \<Rightarrow> server_env) \<Rightarrow> (int \<Rightarrow> server_env) \<Rightarrow> int list \<Rightarrow> app_state \<times> int option \<Rightarrow> int list" where
  "warmer_run cfg svs sv [] acc = []"
| "warmer_run cfg svs sv (now # ticks) acc =
     (let acc' = warmer_tick cfg (svs now) (sv now) now acc in
      (if snd acc' \<noteq> snd acc then [now] else []) @ warmer_run cfg svs sv ticks acc')"

section \<open>The sweep\<close>

lemma find_filter_keyed:
  assumes "distinct (map k t)"
  shows "List.find (\<lambda>r. k r = x) (filter P t) =
    (case List.find (\<lambda>r. k r = x) t of None \<Rightarrow> None | Some r \<Rightarrow> if P r then Some r else None)"
  using assms
proof (induction t)
  case (Cons r t)
  have "List.find (\<lambda>s. k s = k r) (filter P t) = None"
    using Cons.prems by (auto simp: find_None_iff) (metis image_eqI)
  with Cons show ?case by (auto split: option.split)
qed simp

text \<open>C34: the hourly sweep cannot be observed. Whatever cookie a request carries, and however much later
  it comes, it is answered as the user it would have been answered as without the sweep: only
  sessions that no request could use any more are removed.\<close>

theorem sweep_unobservable:
  assumes "distinct (map ws_id (web_sessions (ap_db st)))" "now \<le> later"
  shows "snd (auth_user later cfg (ap_db (session_sweep now st)) jar) = snd (auth_user later cfg (ap_db st) jar)"
proof -
  let ?d = "ap_db st" and ?d' = "ap_db (session_sweep now st)"
  have find: "find_session ?d' sid = (case find_session ?d sid of None \<Rightarrow> None | Some r \<Rightarrow> if ws_expires_at r < now then None else Some r)" for sid
    using find_filter_keyed[OF assms(1), of sid "\<lambda>r. \<not> ws_expires_at r < now"]
    by (simp add: find_session_def session_sweep_def delete_expired_def tbl_delete_def Let_def cong: option.case_cong) (auto split: option.split)
  have users: "users (ap_db (session_sweep now st)) = users (ap_db st)" by (simp add: session_sweep_def delete_expired_def Let_def)
  have "snd (load_and_touch later ?d' sid idle life) = snd (load_and_touch later ?d sid idle life)" for sid idle life
    using assms(2) by (auto simp: load_and_touch_def find users_find_by_id_def users Let_def split: option.split)
  then show ?thesis by (auto simp: auth_user_def maybe_user_def split: option.split prod.split) (metis snd_conv option.distinct(1) option.inject)+
qed

section \<open>Warm pools\<close>

lemma plan_one_last_used: "p_last_used (pl_inner (plan_one cap ep now pl inst)) = p_last_used (pl_inner pl)"
  by (auto simp: plan_one_def Let_def split: option.split)

lemma reconcile_plan_last_used: "p_last_used (pl_inner (reconcile_plan cap ep now enabled permits inn)) = p_last_used inn"
proof -
  have "p_last_used (pl_inner (foldl (plan_one cap ep now) pl xs)) = p_last_used (pl_inner pl)" for pl xs
    by (induction xs arbitrary: pl) (simp_all add: plan_one_last_used)
  then show ?thesis by (simp add: reconcile_plan_def Let_def retain_enabled_def)
qed

lemma sandbox_skip_last_used: "p_last_used (sandbox_skip ep now enabled inn) = p_last_used inn"
proof -
  have "p_last_used (foldl (\<lambda>n inst. stamp (i_id inst) (reload_epoch ep (i_id inst)) now n) n0 xs) = p_last_used n0"
    for n0 and xs :: "inst_row list"
    by (induction xs arbitrary: n0) simp_all
  then show ?thesis by (simp add: sandbox_skip_def)
qed

lemma settle_last_used: "p_last_used (fst (settle now acc a)) = p_last_used (fst acc)"
  by (auto simp: settle_def task_done_def Let_def split: prod.split option.split)

lemma foldl_settle_last_used: "p_last_used (fst (foldl (settle now) acc as)) = p_last_used (fst acc)"
  by (induction as arbitrary: acc) (simp_all add: settle_last_used)

lemma hm_get_keyed [simp]: "hm_get (map (\<lambda>(k, x). (k, f k x)) us) u = map_option (f u) (hm_get us u)"
  by (induction us) (auto simp: hm_get_def)

lemma hm_get_pool_put: "hm_get (pool_put u inn us) v = (if v = u then map_option (\<lambda>_. inn) (hm_get us v) else hm_get us v)"
  unfolding pool_put_def hm_get_keyed by (auto simp: map_option_case split: option.split)

lemma hm_get_touch: "hm_get (touch now us u) v = map_option (\<lambda>inn. if v = u then inn\<lparr>p_last_used := now\<rparr> else inn) (hm_get us v)"
  unfolding touch_def hm_get_keyed by simp

lemma hm_get_entry:
  "hm_get (pool_entry e now us u) v = (if v = u \<and> hm_get us u = None then Some (inner_new e now) else hm_get us v)"
  by (auto simp: pool_entry_def hm_get_def map_add_def split: option.split)

lemma reconcile_pool:
  "ap_pool (fst (reconcile sv st u inn)) = pool_put u (snd (reconcile sv st u inn)) (ap_pool st) \<and>
   p_last_used (snd (reconcile sv st u inn)) = p_last_used inn"
proof -
  obtain st1 r where a: "app_sandbox_or_fail (sv_hv sv) st u = (st1, r)" by fastforce
  then have pool: "ap_pool st1 = ap_pool st" by (auto simp: app_sandbox_or_fail_def Let_def)
  show ?thesis
  proof (cases r)
    case (Inl e)
    with a pool show ?thesis by (simp add: reconcile_def Let_def sandbox_skip_last_used)
  next
    case (Inr sb)
    let ?now = "hv_now (sv_hv sv)"
    define pl where "pl = reconcile_plan (max_backends_per_user (cfg_limits (hv_cfg (sv_hv sv)))) (ap_epochs st) ?now
      (filter i_enabled (inst_list_for_user (ap_db st) u)) (ap_permits st1) inn"
    define acc where "acc = foldl (settle ?now)
      (pl_inner pl, foldl (\<lambda>reg (i, why). status_set ?now reg (i_id i) RsSkipped (Some why)) (ap_status st1) (pl_skipped pl), pl_slots pl)
      (sv_arrivals sv (pl_to_spawn pl))"
    have "p_last_used (fst acc) = p_last_used inn" unfolding acc_def foldl_settle_last_used by (simp add: pl_def reconcile_plan_last_used)
    with a pool Inr show ?thesis
      by (cases acc) (simp add: reconcile_def Let_def pl_def[symmetric] acc_def[symmetric])
  qed
qed

lemma backends_for_pool:
  "\<exists>inn. hm_get (ap_pool (fst (backends_for sv st u))) u = Some inn \<and> p_last_used inn = hv_now (sv_hv sv)"
  "v \<noteq> u \<Longrightarrow> hm_get (ap_pool (fst (backends_for sv st u))) v = hm_get (ap_pool st) v"
proof -
  let ?now = "hv_now (sv_hv sv)" and ?st = "st\<lparr>ap_pool := touch (hv_now (sv_hv sv)) (pool_entry (sv_entry sv) (hv_now (sv_hv sv)) (ap_pool st) u) u\<rparr>"
  obtain inn where inn: "hm_get (ap_pool ?st) u = Some inn" "p_last_used inn = ?now"
    by (cases "hm_get (ap_pool st) u") (auto simp: hm_get_touch hm_get_entry)
  have other: "hm_get (ap_pool ?st) v = hm_get (ap_pool st) v" if "v \<noteq> u" for v
    using that by (simp add: hm_get_touch hm_get_entry option.map_ident)
  have fresh: "backends_for sv st u = (if is_fresh ?now (ap_epochs ?st) inn then (?st, p_backends inn)
      else (case reconcile sv ?st u inn of (st2, inn') \<Rightarrow> (st2, p_backends inn')))"
    using inn(1) by (simp add: backends_for_def Let_def)
  note put = reconcile_pool[of sv ?st u inn]
  show "\<exists>inn. hm_get (ap_pool (fst (backends_for sv st u))) u = Some inn \<and> p_last_used inn = ?now"
    unfolding fresh using inn put by (auto simp: hm_get_pool_put split: prod.split)
  show "hm_get (ap_pool (fst (backends_for sv st u))) v = hm_get (ap_pool st) v" if "v \<noteq> u"
    unfolding fresh using put other[OF that] that by (auto simp: hm_get_pool_put split: prod.split)
qed

lemma warm_fold_pool:
  assumes "\<And>u. hv_now (sv_hv (svs u)) = now"
  shows "u \<in> u_id ` set us \<or> (\<exists>inn. hm_get (ap_pool (fst acc)) u = Some inn \<and> p_last_used inn = now) \<Longrightarrow>
    \<exists>inn. hm_get (ap_pool (fst (foldl (warm_one svs) acc us))) u = Some inn \<and> p_last_used inn = now"
proof (induction us arbitrary: acc)
  case (Cons x us)
  obtain st n m where acc: "acc = (st, n, m)" by (cases acc)
  have pool: "ap_pool (fst (warm_one svs acc x)) = ap_pool (fst (backends_for (svs (u_id x)) st (u_id x)))"
    by (simp add: warm_one_def acc split: prod.split)
  have "\<exists>inn. hm_get (ap_pool (fst (warm_one svs acc x))) u = Some inn \<and> p_last_used inn = now"
    if "u = u_id x \<or> (\<exists>inn. hm_get (ap_pool (fst acc)) u = Some inn \<and> p_last_used inn = now)"
    unfolding pool using that backends_for_pool(1)[of "svs (u_id x)" st "u_id x"] backends_for_pool(2)[of u "u_id x" "svs (u_id x)" st] assms
    by (cases "u = u_id x") (auto simp: acc)
  then have "u \<in> u_id ` set us \<or> (\<exists>inn. hm_get (ap_pool (fst (warm_one svs acc x))) u = Some inn \<and> p_last_used inn = now)"
    using Cons.prems by fastforce
  from Cons.IH[OF this] show ?case by simp
qed simp

lemma reap_idle_keeps:
  assumes "hm_get us u = Some inn" "t - p_last_used inn < idle"
  shows "hm_get (fst (reap_idle t idle us)) u = Some inn"
  using assms by (induction us) (auto simp: hm_get_def reap_idle_def Let_def split: if_splits)

text \<open>C32: a warmed pool is not reaped. The keep-warm pass leaves every enabled user that has an enabled
  server with a pool entry used just now, whatever the backends did, and a reaper that runs before the
  idle time has passed keeps that entry.\<close>

theorem warmed_pools_kept:
  assumes "\<And>u. hv_now (sv_hv (svs u)) = now" "u \<in> set (warm_targets (ap_db st))"
    and "t - now < int (backend_idle_secs (cfg_limits cfg))"
  shows "hm_get (ap_pool (backend_reaper cfg t (fst (warm_all svs st)))) (u_id u) = hm_get (ap_pool (fst (warm_all svs st))) (u_id u) \<and>
    hm_get (ap_pool (fst (warm_all svs st))) (u_id u) \<noteq> None"
proof -
  from warm_fold_pool[of svs now "u_id u" "warm_targets (ap_db st)"] assms(1,2)
  obtain inn where inn: "hm_get (ap_pool (fst (warm_all svs st))) (u_id u) = Some inn" "p_last_used inn = now"
    unfolding warm_all_def by blast
  with reap_idle_keeps[OF inn(1), of t "int (backend_idle_secs (cfg_limits cfg))"] assms(3) show ?thesis
    by (simp add: backend_reaper_def Let_def)
qed

section \<open>Heartbeats\<close>

lemma warmer_tick_deep:
  "snd (warmer_tick cfg svs sv now (st, deep)) = (if keep_warm cfg \<and> deep_due (keep_warm_interval_secs cfg) now deep then Some now else deep)"
  by (simp add: warmer_tick_def Let_def)

lemma warmer_run_Cons:
  assumes "keep_warm cfg"
  shows "\<exists>st'. warmer_run cfg svs sv (now # ticks) (st, deep) =
    (if deep_due (keep_warm_interval_secs cfg) now deep then now # warmer_run cfg svs sv ticks (st', Some now)
     else warmer_run cfg svs sv ticks (st', deep))"
proof -
  let ?t = "warmer_tick cfg (svs now) (sv now) now (st, deep)"
  have t: "?t = (fst ?t, if deep_due (keep_warm_interval_secs cfg) now deep then Some now else deep)"
    using assms warmer_tick_deep[of cfg "svs now" "sv now" now st deep] by (metis prod.collapse)
  have "deep \<noteq> Some now" if "deep_due (keep_warm_interval_secs cfg) now deep" using that by (auto simp: deep_due_def)
  then show ?thesis by (intro exI[of _ "fst ?t"]) (simp only: warmer_run.simps Let_def, subst (1 2) t, auto)
qed

lemma warmer_run_gaps:
  assumes "keep_warm cfg" "0 < keep_warm_interval_secs cfg"
    and "successively (\<lambda>a b. a \<le> b \<and> b - a \<le> gap) (p # ticks)" "p - t < int (keep_warm_interval_secs cfg)"
  shows "successively (\<lambda>a b. int (keep_warm_interval_secs cfg) \<le> b - a \<and> b - a < int (keep_warm_interval_secs cfg) + gap)
    (t # warmer_run cfg svs sv ticks (st, Some t))"
  using assms(3,4)
proof (induction ticks arbitrary: p t st)
  case (Cons now ticks)
  have gaps: "successively (\<lambda>a b. a \<le> b \<and> b - a \<le> gap) (now # ticks)" "now - p \<le> gap" using Cons.prems(1) by (simp_all add: successively_Cons)
  obtain st' where run: "warmer_run cfg svs sv (now # ticks) (st, Some t) =
    (if deep_due (keep_warm_interval_secs cfg) now (Some t) then now # warmer_run cfg svs sv ticks (st', Some now)
     else warmer_run cfg svs sv ticks (st', Some t))" using warmer_run_Cons[OF assms(1)] by blast
  show ?case
  proof (cases "deep_due (keep_warm_interval_secs cfg) now (Some t)")
    case True
    then have "int (keep_warm_interval_secs cfg) \<le> now - t" by (simp add: deep_due_def)
    with True run Cons.IH[OF gaps(1), of now st'] gaps(2) Cons.prems(2) assms(2) show ?thesis by simp
  next
    case False
    then have "now - t < int (keep_warm_interval_secs cfg)" using assms(2) by (simp add: deep_due_def)
    with False run Cons.IH[OF gaps(1), of t st'] show ?thesis by simp
  qed
qed simp

text \<open>C35: how often backends are exercised. With keep-warm on, the first tick of the loop runs a heartbeat
  pass, and from then on two passes in a row are never closer than the configured interval and never
  further apart than the interval and the longest time between two ticks.\<close>

theorem heartbeat_cadence:
  assumes "keep_warm cfg" "0 < keep_warm_interval_secs cfg" "successively (\<lambda>a b. a \<le> b \<and> b - a \<le> gap) (first # ticks)"
  shows "\<exists>passes. warmer_run cfg svs sv (first # ticks) (st, None) = first # passes \<and>
    successively (\<lambda>a b. int (keep_warm_interval_secs cfg) \<le> b - a \<and> b - a < int (keep_warm_interval_secs cfg) + gap) (first # passes)"
proof -
  obtain st' where "warmer_run cfg svs sv (first # ticks) (st, None) = first # warmer_run cfg svs sv ticks (st', Some first)"
    using warmer_run_Cons[OF assms(1), of svs sv first ticks st None] assms(2) by (auto simp: deep_due_def)
  with warmer_run_gaps[OF assms, of first svs sv st'] assms(2) show ?thesis by auto
qed

lemma those_total: "(\<And>x. x \<in> set xs \<Longrightarrow> f x \<noteq> None) \<Longrightarrow> those (map f xs) \<noteq> None"
proof (induction xs)
  case (Cons x xs)
  then obtain y where "f x = Some y" by fastforce
  with Cons show ?case by simp
qed simp

lemma await_ends: "0 < secs \<Longrightarrow> await secs r \<noteq> None"
  by (cases r) simp_all

text \<open>With a list limit the pass ends whatever the backends do.\<close>

lemma exercise_ends:
  assumes "0 < list_limit sv"
  shows "snd (exercise_all sv st) \<noteq> None"
proof -
  have "beat_results sv bs \<noteq> None" for bs
    unfolding beat_results_def using await_ends[OF assms] by (intro those_total) auto
  then have "snd (exercise_users sv us acc) \<noteq> None" for us acc
    by (induction sv us acc rule: exercise_users.induct) (auto split: option.split prod.split, metis option.distinct(1))
  then obtain st' r where "exercise_users sv (map fst (ap_pool st)) (st, 0, 0, []) = (st', Some r)"
    by (metis not_None_eq prod.collapse)
  then show ?thesis by (simp add: exercise_all_def split: prod.split)
qed

text \<open>An idle time of a minute or less is reached between two passes of the keep-warm loop: a pool that
  was warmed at one tick can be gone before the next.\<close>

lemma warmed_pool_reaped:
  assumes "hm_get (ap_pool st) u = Some inn" "distinct (map fst (ap_pool st))" "p_last_used inn = now"
    and "backend_idle_secs (cfg_limits cfg) = idle" "0 < idle" "idle \<le> 60"
  shows "\<exists>t. now < t \<and> t \<le> now + 60 \<and> hm_get (ap_pool (backend_reaper cfg t st)) u = None"
proof (intro exI conjI)
  have "(u, x) \<in> set (ap_pool st) \<Longrightarrow> x = inn" for x
    using assms(1,2) by (auto simp: hm_get_def dest: map_of_is_SomeI)
  then show "hm_get (ap_pool (backend_reaper cfg (now + 60) st)) u = None"
    using assms(3-6) by (auto simp: backend_reaper_def reap_idle_def Let_def hm_get_None)
qed simp_all

section \<open>Examples\<close>

definition quiet_sv :: server_env where
  "quiet_sv = \<lparr>sv_hv = demo_hv, sv_session_key = [], sv_entry = 0, sv_peer = (\<lambda>_. \<lparr>pe_info = None, pe_list_tools = Hang,
     pe_list_resources = Hang, pe_list_templates = Hang, pe_list_prompts = Hang, pe_call_tool = (\<lambda>_ _. Hang),
     pe_read_resource = (\<lambda>_. Hang), pe_get_prompt = (\<lambda>_ _. Hang)\<rparr>), sv_arrivals = (\<lambda>_. []), sv_print = (\<lambda>_. []),
     sv_call_size = (\<lambda>_. None), sv_read_size = (\<lambda>_. None), sv_prompt_size = (\<lambda>_. None), sv_elapsed = 0\<rparr>"

definition swept_app :: app_state where
  "swept_app = demo_app\<lparr>ap_db := group_demo_db\<lparr>web_sessions :=
     [\<lparr>ws_id = ''old'', ws_user_id = ''u1'', ws_created_at = 0, ws_expires_at = 3, ws_last_ip = None, ws_last_user_agent = None\<rparr>,
      \<lparr>ws_id = ''new'', ws_user_id = ''u2'', ws_created_at = 0, ws_expires_at = 90, ws_last_ip = None, ws_last_user_agent = None\<rparr>]\<rparr>\<rparr>"

theorem sweep_unobservable_witness:
  "map ws_id (web_sessions (ap_db (session_sweep 9 swept_app))) = [''new''] \<and>
   snd (auth_user 20 demo_cfg (ap_db (session_sweep 9 swept_app)) (\<lambda>_. Some ''old'')) =
     snd (auth_user 20 demo_cfg (ap_db swept_app) (\<lambda>_. Some ''old''))"
proof
  show "map ws_id (web_sessions (ap_db (session_sweep 9 swept_app))) = [''new'']" by code_simp
  have "distinct (map ws_id (web_sessions (ap_db swept_app)))" by code_simp
  from sweep_unobservable[OF this, of 9 20] show "snd (auth_user 20 demo_cfg (ap_db (session_sweep 9 swept_app)) (\<lambda>_. Some ''old'')) =
     snd (auth_user 20 demo_cfg (ap_db swept_app) (\<lambda>_. Some ''old''))" by simp
qed

theorem warmed_pools_kept_witness:
  "hm_get (ap_pool (backend_reaper demo_cfg 69 (fst (warm_all (\<lambda>_. quiet_sv) demo_app)))) ''u2'' \<noteq> None"
proof -
  have u: "users group_demo_db ! 1 \<in> set (warm_targets (ap_db demo_app))" "u_id (users group_demo_db ! 1) = ''u2''" by code_simp+
  have "hv_now (sv_hv quiet_sv) = 9" "(69 :: int) - 9 < int (backend_idle_secs (cfg_limits demo_cfg))"
    by (simp_all add: quiet_sv_def demo_hv_def demo_cfg_def limits_default_def)
  from warmed_pools_kept[OF this(1) u(1) this(2)] show ?thesis unfolding u(2) by simp
qed

theorem heartbeat_cadence_witness:
  "\<exists>passes. warmer_run demo_cfg (\<lambda>_ _. quiet_sv) (\<lambda>_. quiet_sv) [0, 60, 120, 180, 240, 300, 360] (demo_app, None) = 0 # passes \<and>
     successively (\<lambda>a b. 300 \<le> b - a \<and> b - a < 360) (0 # passes)"
proof -
  have "keep_warm demo_cfg" "0 < keep_warm_interval_secs demo_cfg" "int (keep_warm_interval_secs demo_cfg) = 300"
    by (simp_all add: demo_cfg_def)
  with heartbeat_cadence[of demo_cfg 60 0 "[60, 120, 180, 240, 300, 360]" "\<lambda>_ _. quiet_sv" "\<lambda>_. quiet_sv" demo_app]
  show ?thesis by simp
qed

end
