(* ===== verification/Hub_OAuth_Pages.thy ===== *)
theory Hub_OAuth_Pages
  imports Hub_OAuth_Safety Hub_Html Hub_Management
begin

text \<open>
  What the OAuth endpoints show and publish: the consent page, the error page and the cookie of a
  pending request (\<^verbatim>\<open>src/oauth/authorize.rs\<close>), the discovery document of the authorization server
  (\<^verbatim>\<open>src/oauth/metadata.rs\<close>) and the key set (\<^verbatim>\<open>src/oauth/keys.rs\<close>). These pages have an escape
  function of their own, which leaves quotes alone. The lemmas say that the values on the pages add
  no markup, and that the document announces what the endpoints accept.
\<close>

section \<open>Pages and cookies (authorize.rs)\<close>

definition consent_head :: "string \<Rightarrow> string \<Rightarrow> string \<Rightarrow> string" where
  \<open>consent_head client scope handle = concat [
     ''<!doctype html>'', nl,
     ''<html lang="en"><head><meta charset="utf-8">'', nl,
     ''<meta name="viewport" content="width=device-width, initial-scale=1">'', nl,
     ''<title>Authorize '', middot, '' MCP Hub</title><link rel="stylesheet" href="/static/style.css"></head>'', nl,
     ''<body><main class="card">'', nl,
     ''  <h1>Authorize access</h1>'', nl,
     ''  <p><strong>'', consent_esc client, ''</strong> wants to connect to your MCP Hub as <strong>'', consent_esc handle, ''</strong>.</p>'', nl,
     ''  <p class="muted">Requested scope: <code>'', consent_esc scope, ''</code></p>'', nl,
     ''  <form method="post" action="/authorize/decision">'', nl, ''    '']\<close>

definition consent_tail :: string where
  \<open>consent_tail = concat [nl,
     ''    <button name="decision" value="approve" type="submit">Authorize</button>'', nl,
     ''    <button name="decision" value="deny" type="submit" class="ghost" style="width:100%;margin-top:10px">Deny</button>'', nl,
     ''  </form>'', nl,
     ''</main></body></html>'']\<close>

definition consent_html :: "string \<Rightarrow> string \<Rightarrow> string \<Rightarrow> string \<Rightarrow> string" where
  "consent_html client_name scope handle csrf = consent_head client_name scope handle @ csrf @ consent_tail"

definition oauth_error_page :: "string \<Rightarrow> string" where
  \<open>oauth_error_page msg = concat [
     ''<!doctype html><meta charset=utf-8><title>Authorization error</title>'',
     ''<body style="font-family:system-ui;max-width:32rem;margin:4rem auto">'',
     ''<h1>Authorization error</h1><p>'', replace_char CHR ''<'' ''&lt;'' msg, ''</p></body>'']\<close>

definition authreq_cookie :: "string \<Rightarrow> bool \<Rightarrow> cookie" where
  "authreq_cookie v secure = \<lparr>ck_name = AUTHREQ_COOKIE, ck_value = v, ck_http_only = True, ck_same_site = Some ''Lax'',
     ck_secure = secure, ck_path = ''/'', ck_max_age = Some AUTH_CODE_TTL_SECS\<rparr>"

definition clear_authreq_cookie :: "bool \<Rightarrow> cookie" where
  "clear_authreq_cookie secure = \<lparr>ck_name = AUTHREQ_COOKIE, ck_value = [], ck_http_only = True, ck_same_site = None,
     ck_secure = secure, ck_path = ''/'', ck_max_age = Some 0\<rparr>"

text \<open>The body of an answer of the authorization endpoint that is a page, for a signed-in user.\<close>

fun auth_body :: "string \<Rightarrow> string \<Rightarrow> auth_response \<Rightarrow> string option" where
  "auth_body handle csrf (ErrorPage msg) = Some (oauth_error_page msg)"
| "auth_body handle csrf (ConsentPage pending client_name) = Some (consent_html client_name (pa_scope pending) handle csrf)"
| "auth_body handle csrf _ = None"

section \<open>Discovery (metadata.rs, keys.rs)\<close>

definition strs :: "string list \<Rightarrow> json" where
  "strs xs = JArr (map JStr xs)"

definition authorization_server :: "config \<Rightarrow> json_object" where
  "authorization_server cfg = (let base = base_url cfg in
     [(''issuer'', JStr base),
      (''authorization_endpoint'', JStr (base @ ''/authorize'')),
      (''token_endpoint'', JStr (base @ ''/token'')),
      (''registration_endpoint'', JStr (base @ ''/register'')),
      (''jwks_uri'', JStr (base @ ''/.well-known/jwks.json'')),
      (''scopes_supported'', strs [''mcp'']),
      (''response_types_supported'', strs [''code'']),
      (''grant_types_supported'', strs [''authorization_code'', ''refresh_token'']),
      (''code_challenge_methods_supported'', strs [''S256'']),
      (''token_endpoint_auth_methods_supported'', strs [''none'', ''client_secret_basic'', ''client_secret_post''])])"

text \<open>\<open>jwk\<close> is the public key as the key library serialises it; the key set publishes it under the
  identifier of the signer.\<close>

definition obj_insert :: "string \<Rightarrow> json \<Rightarrow> json_object \<Rightarrow> json_object" where
  "obj_insert k v ob = filter (\<lambda>(j, _). j \<noteq> k) ob @ [(k, v)]"

definition public_jwk :: "string \<Rightarrow> json_object \<Rightarrow> json_object" where
  "public_jwk kid jwk = obj_insert ''use'' (JStr ''sig'') (obj_insert ''alg'' (JStr ''ES256'') (obj_insert ''kid'' (JStr kid) jwk))"

definition jwks :: "signer \<Rightarrow> json_object \<Rightarrow> json_object" where
  "jwks sg jwk = [(''keys'', JArr [JObj (public_jwk (sg_kid sg) jwk)])]"

section \<open>No markup from values\<close>

lemma text_steps:
  assumes "CHR ''<'' \<notin> set s"
  shows "foldl step Txt s = Txt" "markup Txt s = []"
  using assms by (induction s) auto

lemma consent_esc_text: "CHR ''<'' \<notin> set (consent_esc s)"
  by (auto simp: consent_esc_def split: if_splits)

lemma replace_lt_text: "CHR ''<'' \<notin> set (replace_char CHR ''<'' ''&lt;'' s)"
  by (auto simp: replace_char_def split: if_splits)

lemma markup_concat:
  assumes "\<forall>p\<in>set ps. foldl step Txt p = Txt"
  shows "markup Txt (concat ps) = concat (map (markup Txt) ps) \<and> foldl step Txt (concat ps) = Txt"
  using assms by (induction ps) (simp_all add: markup_append)

lemmas value_steps = text_steps[OF consent_esc_text] text_steps[OF replace_lt_text]

lemma middot_text: "CHR ''<'' \<notin> set middot" "CHR ''<'' \<notin> set nl"
  by code_simp+

lemmas page_steps = value_steps text_steps[OF middot_text(1)] text_steps[OF middot_text(2)]

lemma consent_esc_Nil [simp]: "consent_esc [] = []"
  by (simp add: consent_esc_def)

lemma replace_Nil [simp]: "replace_char c r [] = []"
  by (simp add: replace_char_def)

lemma consent_head_markup:
  "foldl step Txt (consent_head c s h) = Txt" "markup Txt (consent_head c s h) = markup Txt (consent_head [] [] [])"
proof -
  show "foldl step Txt (consent_head c s h) = Txt"
    unfolding consent_head_def by (subst markup_concat[THEN conjunct2]) (simp_all add: page_steps)
  show "markup Txt (consent_head c s h) = markup Txt (consent_head [] [] [])"
    unfolding consent_head_def by (subst (1 2) markup_concat[THEN conjunct1]) (simp_all add: page_steps)
qed

lemma oauth_error_page_markup: "markup Txt (oauth_error_page msg) = markup Txt (oauth_error_page [])"
  unfolding oauth_error_page_def by (subst (1 2) markup_concat[THEN conjunct1]) (simp_all add: page_steps)

text \<open>C33: the pages of the authorization flow show only their own markup. Whatever name a client registered
  with, whatever scope or parameter it asks with and whatever the handle of the user, the consent page
  has the tags of the page without them; the same holds for the error page and its message.\<close>

theorem consent_injection_free:
  "markup Txt (consent_html client scope handle csrf) = markup Txt (consent_html [] [] [] csrf) \<and>
   markup Txt (oauth_error_page msg) = markup Txt (oauth_error_page [])"
  unfolding consent_html_def markup_append consent_head_markup(1)
  using consent_head_markup(2)[of client scope handle] oauth_error_page_markup by simp

section \<open>What is announced\<close>

definition announced :: "config \<Rightarrow> string \<Rightarrow> string list" where
  "announced cfg k =
     (case map_of (authorization_server cfg) k of
        Some (JArr xs) \<Rightarrow> List.map_filter as_str xs
      | _ \<Rightarrow> [])"

lemma announced_lists:
  "announced cfg ''grant_types_supported'' = [''authorization_code'', ''refresh_token'']"
  "announced cfg ''response_types_supported'' = [''code'']"
  "announced cfg ''code_challenge_methods_supported'' = [''S256'']"
  by (simp_all add: announced_def authorization_server_def strs_def map_filter_simps Let_def)

text \<open>C36: the discovery document is complete. A grant type it does not announce is refused by the token
  endpoint as unsupported and changes nothing; a response type or a challenge method it does not
  announce never leads to the consent page.\<close>

theorem discovery_complete:
  assumes "tf_grant_type form \<notin> set (announced cfg ''grant_types_supported'')"
    and "aq_response_type q \<notin> set (announced cfg ''response_types_supported'') \<or>
      or_else ''S256'' (aq_code_challenge_method q) \<notin> set (announced cfg ''code_challenge_methods_supported'')"
  shows "(\<exists>e. token te d codes headers form = (d, codes, Inl e) \<and> oe_error e = ''unsupported_grant_type'') \<and>
    authorize parse cfg d user q raw \<noteq> ConsentPage pending name"
proof
  show "\<exists>e. token te d codes headers form = (d, codes, Inl e) \<and> oe_error e = ''unsupported_grant_type''"
    using assms(1) by (simp add: announced_lists token_def Let_def oauth_err_def)
  show "authorize parse cfg d user q raw \<noteq> ConsentPage pending name"
    using assms(2) by (auto simp: announced_lists authorize_def redirect_with_def Let_def split: option.split)
qed

theorem discovery_complete_witness:
  "\<not> (\<exists>pa n. authorize (\<lambda>_. None) demo_cfg empty_db None (demo_query\<lparr>aq_code_challenge_method := Some ''plain''\<rparr>) None = ConsentPage pa n) \<and>
   (\<exists>e. token (demo_te ''t'') empty_db [] (\<lambda>_. None) ((demo_form ''v'')\<lparr>tf_grant_type := ''password''\<rparr>) = (empty_db, [], Inl e) \<and>
     oe_error e = ''unsupported_grant_type'')"
proof -
  have "tf_grant_type ((demo_form ''v'')\<lparr>tf_grant_type := ''password''\<rparr>) \<notin> set (announced demo_cfg ''grant_types_supported'')"
    "or_else ''S256'' (aq_code_challenge_method (demo_query\<lparr>aq_code_challenge_method := Some ''plain''\<rparr>)) \<notin>
       set (announced demo_cfg ''code_challenge_methods_supported'')"
    by (simp_all add: announced_lists or_else_def)
  from discovery_complete[OF this(1) disjI2[OF this(2)]] show ?thesis by blast
qed

end
