(* ===== verification/Hub_Router.thy ===== *)
theory Hub_Router
  imports Hub_Web_Safety "HOL-Library.Monad_Syntax"
begin

text \<open>
  The router of \<^verbatim>\<open>src/lib.rs\<close> and the form types of \<^verbatim>\<open>src/web.rs\<close>: the table of \<open>build_router\<close> with the
  choice between its paths, the fields each form requires or defaults, and the headers put on every
  response. A request is a method, the segments of its path, and the pairs of its query and of its
  body (none when the body is not a form). The web framework is an argument: \<open>pct\<close> decodes a path
  segment, \<open>refuse\<close> is the answer it gives itself with a status. The theory shows that a request
  without the request token of its session changes nothing whatever its method and path are, and
  that every form has a request that reaches its handler.
\<close>

section \<open>Forms (web.rs)\<close>

type_synonym fields = "(string \<times> string) list"

text \<open>The fields of a derived form type: a repeated field is an error, unknown fields are skipped, a
  field with a default may be missing. A form read into a map keeps the last value of a field.\<close>

definition opt_field :: "fields \<Rightarrow> string \<Rightarrow> string option option" where
  "opt_field kvs k =
     (case filter (\<lambda>kv. fst kv = k) kvs of
        [] \<Rightarrow> Some None
      | [kv] \<Rightarrow> Some (Some (snd kv))
      | _ \<Rightarrow> None)"

definition def_field :: "fields \<Rightarrow> string \<Rightarrow> string option" where
  "def_field kvs k = map_option (str_or []) (opt_field kvs k)"

definition req_field :: "fields \<Rightarrow> string \<Rightarrow> string option" where
  "req_field kvs k = Option.bind (opt_field kvs k) id"

definition int_field :: "fields \<Rightarrow> string \<Rightarrow> int option" where
  "int_field kvs k =
     Option.bind (opt_field kvs k) (\<lambda>v.
       case v of
         None \<Rightarrow> Some 0
       | Some s \<Rightarrow> (case parse_i64 s of Inl _ \<Rightarrow> None | Inr n \<Rightarrow> Some n))"

definition map_form :: "fields \<Rightarrow> field_map" where
  "map_form kvs = map_of (rev kvs)"

definition csrf_form :: "(string \<Rightarrow> 'a) \<Rightarrow> fields \<Rightarrow> 'a option" where
  "csrf_form f kvs = do { c \<leftarrow> def_field kvs ''csrf''; Some (f c) }"

definition csrf_only_form :: "(string \<Rightarrow> 'a) \<Rightarrow> fields \<Rightarrow> 'a option" where
  "csrf_only_form f kvs = do { c \<leftarrow> def_field kvs ''csrf''; Some (f c) }"

definition metrics_key_form :: "(string \<Rightarrow> 'a) \<Rightarrow> fields \<Rightarrow> 'a option" where
  "metrics_key_form f kvs = do { c \<leftarrow> def_field kvs ''csrf''; Some (f c) }"

definition recovery_form :: "(string \<Rightarrow> string \<Rightarrow> 'a) \<Rightarrow> fields \<Rightarrow> 'a option" where
  "recovery_form f kvs = do { c \<leftarrow> def_field kvs ''csrf''; h \<leftarrow> req_field kvs ''handle''; Some (f c h) }"

definition create_invite_form :: "(string \<Rightarrow> string \<Rightarrow> 'a) \<Rightarrow> fields \<Rightarrow> 'a option" where
  "create_invite_form f kvs = do { c \<leftarrow> def_field kvs ''csrf''; n \<leftarrow> def_field kvs ''note''; Some (f c n) }"

definition revoke_invite_form :: "(string \<Rightarrow> string \<Rightarrow> 'a) \<Rightarrow> fields \<Rightarrow> 'a option" where
  "revoke_invite_form f kvs = do { c \<leftarrow> def_field kvs ''csrf''; s \<leftarrow> req_field kvs ''short_id''; Some (f c s) }"

definition revoke_connection_form :: "(string \<Rightarrow> string \<Rightarrow> 'a) \<Rightarrow> fields \<Rightarrow> 'a option" where
  "revoke_connection_form f kvs = do { c \<leftarrow> def_field kvs ''csrf''; cl \<leftarrow> req_field kvs ''client_id''; Some (f c cl) }"

definition label_connection_form :: "(string \<Rightarrow> string \<Rightarrow> string \<Rightarrow> string \<Rightarrow> 'a) \<Rightarrow> fields \<Rightarrow> 'a option" where
  "label_connection_form f kvs =
     do { c \<leftarrow> def_field kvs ''csrf''; cl \<leftarrow> req_field kvs ''client_id'';
          n \<leftarrow> def_field kvs ''name''; t \<leftarrow> def_field kvs ''note''; Some (f c cl n t) }"

definition create_group_form :: "(string \<Rightarrow> string \<Rightarrow> string \<Rightarrow> 'a) \<Rightarrow> fields \<Rightarrow> 'a option" where
  "create_group_form f kvs =
     do { c \<leftarrow> def_field kvs ''csrf''; s \<leftarrow> def_field kvs ''slug''; n \<leftarrow> def_field kvs ''name''; Some (f c s n) }"

definition create_token_form :: "(string \<Rightarrow> string \<Rightarrow> int \<Rightarrow> 'a) \<Rightarrow> fields \<Rightarrow> 'a option" where
  "create_token_form f kvs =
     do { c \<leftarrow> def_field kvs ''csrf''; n \<leftarrow> def_field kvs ''name''; d \<leftarrow> int_field kvs ''expires_days''; Some (f c n d) }"

definition revoke_token_form :: "(string \<Rightarrow> string \<Rightarrow> 'a) \<Rightarrow> fields \<Rightarrow> 'a option" where
  "revoke_token_form f kvs = do { c \<leftarrow> def_field kvs ''csrf''; t \<leftarrow> req_field kvs ''token_id''; Some (f c t) }"

definition save_git_credential_form :: "fields \<Rightarrow> git_credential_form option" where
  "save_git_credential_form kvs =
     do { c \<leftarrow> def_field kvs ''csrf''; h \<leftarrow> req_field kvs ''host''; u \<leftarrow> def_field kvs ''username'';
          l \<leftarrow> def_field kvs ''label''; t \<leftarrow> req_field kvs ''token'';
          Some \<lparr>gf_csrf = c, gf_host = h, gf_username = u, gf_label = l, gf_token = t\<rparr> }"

definition delete_git_credential_form :: "(string \<Rightarrow> string \<Rightarrow> 'a) \<Rightarrow> fields \<Rightarrow> 'a option" where
  "delete_git_credential_form f kvs = do { c \<leftarrow> def_field kvs ''csrf''; h \<leftarrow> req_field kvs ''host''; Some (f c h) }"

definition remove_passkey_form :: "(string \<Rightarrow> string \<Rightarrow> 'a) \<Rightarrow> fields \<Rightarrow> 'a option" where
  "remove_passkey_form f kvs = do { c \<leftarrow> def_field kvs ''csrf''; i \<leftarrow> req_field kvs ''cred_id''; Some (f c i) }"

definition user_action_form :: "(string \<Rightarrow> string \<Rightarrow> 'a) \<Rightarrow> fields \<Rightarrow> 'a option" where
  "user_action_form f kvs = do { c \<leftarrow> def_field kvs ''csrf''; h \<leftarrow> req_field kvs ''handle''; Some (f c h) }"

definition create_server_form :: "fields \<Rightarrow> server_form option" where
  "create_server_form kvs =
     do { c \<leftarrow> def_field kvs ''csrf''; n \<leftarrow> def_field kvs ''display_name''; ns \<leftarrow> def_field kvs ''namespace'';
          t \<leftarrow> def_field kvs ''transport''; cmd \<leftarrow> def_field kvs ''command''; r \<leftarrow> def_field kvs ''repo'';
          g \<leftarrow> def_field kvs ''git_ref''; u \<leftarrow> def_field kvs ''url''; e \<leftarrow> def_field kvs ''env'';
          cf \<leftarrow> def_field kvs ''config_file''; secs \<leftarrow> def_field kvs ''connect_timeout_secs'';
          Some \<lparr>sf_csrf = c, sf_display_name = n, sf_namespace = ns, sf_transport = t, sf_command = cmd, sf_repo = r,
                sf_git_ref = g, sf_url = u, sf_env = e, sf_config_file = cf, sf_connect_timeout_secs = secs\<rparr> }"

definition next_query :: "(string option \<Rightarrow> 'a) \<Rightarrow> fields \<Rightarrow> 'a option" where
  "next_query f kvs = do { n \<leftarrow> opt_field kvs ''next''; Some (f n) }"

section \<open>Routes (lib.rs)\<close>

datatype http_method = GET | HEAD | POST | OtherMethod

datatype seg = Lit string | Param

text \<open>The handlers a route may name: a page, a form with its type, an open page with its query, and the
  handlers of the other components, which do not take part in this theory.\<close>

datatype other_route =
  Healthz | MetricsRoute | LogoutRoute | AddPasskeyStart | RegisterStart | RegisterFinish | LoginStart | LoginFinish
| RecoverStart | AuthorizationServer | ProtectedResource | ProtectedResourceGroup string | JwksRoute
| RegisterClient | AuthorizeRoute | DecisionRoute | TokenRoute

datatype endpoint =
  PageE get_page | FormE "fields \<Rightarrow> post_form option" | OpenE "fields \<Rightarrow> open_page option" | OtherE other_route

type_synonym routing = "(seg list \<times> http_method \<times> (string \<Rightarrow> endpoint)) list"

definition page_routes :: routing where
  "page_routes = [
     ([Lit []], GET, \<lambda>_. PageE Dashboard),
     ([Lit ''login''], GET, \<lambda>_. OpenE (next_query LoginPage)),
     ([Lit ''register''], GET, \<lambda>_. OpenE (next_query RegisterPage)),
     ([Lit ''recover''], GET, \<lambda>_. OpenE (\<lambda>_. Some RecoverPage)),
     ([Lit ''logout''], GET, \<lambda>_. OpenE (\<lambda>_. Some LogoutGet)),
     ([Lit ''account''], GET, \<lambda>_. PageE AccountPage),
     ([Lit ''users''], GET, \<lambda>_. PageE UsersPage),
     ([Lit ''stats''], GET, \<lambda>_. PageE StatsPage),
     ([Lit ''servers'', Lit ''new''], GET, \<lambda>_. PageE NewServer),
     ([Lit ''servers'', Param], GET, \<lambda>i. PageE (ServerDetail i)),
     ([Lit ''servers'', Param, Lit ''capabilities''], GET, \<lambda>i. PageE (ServerCapabilities i)),
     ([Lit ''invites''], GET, \<lambda>_. PageE InvitesPage)]"

definition account_routes :: routing where
  "account_routes = [
     ([Lit ''account'', Lit ''passkeys'', Lit ''remove''], POST, \<lambda>_. FormE (remove_passkey_form RemovePasskey)),
     ([Lit ''account'', Lit ''sessions'', Lit ''revoke-others''], POST, \<lambda>_. FormE (csrf_form RevokeOtherSessions)),
     ([Lit ''account'', Lit ''connections'', Lit ''revoke''], POST, \<lambda>_. FormE (revoke_connection_form RevokeConnection)),
     ([Lit ''account'', Lit ''connections'', Lit ''label''], POST, \<lambda>_. FormE (label_connection_form LabelConnection)),
     ([Lit ''account'', Lit ''connections'', Lit ''access''], POST, \<lambda>_. FormE (\<lambda>kvs. Some (ConnectionAccess (map_form kvs)))),
     ([Lit ''account'', Lit ''tokens'', Lit ''create''], POST, \<lambda>_. FormE (create_token_form CreateToken)),
     ([Lit ''account'', Lit ''tokens'', Lit ''revoke''], POST, \<lambda>_. FormE (revoke_token_form RevokeToken)),
     ([Lit ''account'', Lit ''tokens'', Lit ''access''], POST, \<lambda>_. FormE (\<lambda>kvs. Some (TokenAccess (map_form kvs)))),
     ([Lit ''account'', Lit ''git-credentials'', Lit ''save''], POST,
        \<lambda>_. FormE (\<lambda>kvs. map_option SaveGitCredential (save_git_credential_form kvs))),
     ([Lit ''account'', Lit ''git-credentials'', Lit ''delete''], POST, \<lambda>_. FormE (delete_git_credential_form DeleteGitCredential))]"

definition admin_routes :: routing where
  "admin_routes = [
     ([Lit ''stats'', Lit ''metrics-key'', Lit ''regenerate''], POST, \<lambda>_. FormE (metrics_key_form RegenerateMetricsKey)),
     ([Lit ''users'', Lit ''disable''], POST, \<lambda>_. FormE (user_action_form DisableUser)),
     ([Lit ''users'', Lit ''enable''], POST, \<lambda>_. FormE (user_action_form EnableUser)),
     ([Lit ''users'', Lit ''delete''], POST, \<lambda>_. FormE (user_action_form DeleteUser)),
     ([Lit ''invites'', Lit ''create''], POST, \<lambda>_. FormE (create_invite_form CreateInvite)),
     ([Lit ''invites'', Lit ''recovery''], POST, \<lambda>_. FormE (recovery_form CreateRecovery)),
     ([Lit ''invites'', Lit ''revoke''], POST, \<lambda>_. FormE (revoke_invite_form RevokeInvite))]"

definition server_routes :: routing where
  "server_routes = [
     ([Lit ''servers'', Lit ''create''], POST, \<lambda>_. FormE (\<lambda>kvs. map_option CreateServer (create_server_form kvs))),
     ([Lit ''servers'', Param, Lit ''capabilities'', Lit ''refresh''], POST, \<lambda>i. FormE (csrf_form (RefreshCapabilities i))),
     ([Lit ''servers'', Param, Lit ''config''], POST, \<lambda>i. FormE (\<lambda>kvs. map_option (SaveConfig i) (create_server_form kvs))),
     ([Lit ''servers'', Param, Lit ''test''], POST, \<lambda>i. FormE (csrf_form (TestServer i))),
     ([Lit ''servers'', Param, Lit ''enable''], POST, \<lambda>i. FormE (csrf_form (EnableServer i))),
     ([Lit ''servers'', Param, Lit ''disable''], POST, \<lambda>i. FormE (csrf_form (DisableServer i))),
     ([Lit ''servers'', Param, Lit ''restart''], POST, \<lambda>i. FormE (csrf_form (RestartServer i))),
     ([Lit ''servers'', Param, Lit ''update''], POST, \<lambda>i. FormE (csrf_form (UpdateServer i))),
     ([Lit ''servers'', Param, Lit ''delete''], POST, \<lambda>i. FormE (csrf_form (DeleteServer i))),
     ([Lit ''groups'', Lit ''create''], POST, \<lambda>_. FormE (create_group_form CreateGroup)),
     ([Lit ''groups'', Param, Lit ''update''], POST, \<lambda>i. FormE (\<lambda>kvs. Some (UpdateGroup i (map_form kvs)))),
     ([Lit ''groups'', Param, Lit ''delete''], POST, \<lambda>i. FormE (csrf_only_form (DeleteGroup i)))]"

definition other_routes :: routing where
  "other_routes = [
     ([Lit ''healthz''], GET, \<lambda>_. OtherE Healthz),
     ([Lit ''metrics''], GET, \<lambda>_. OtherE MetricsRoute),
     ([Lit ''logout''], POST, \<lambda>_. OtherE LogoutRoute),
     ([Lit ''account'', Lit ''passkeys'', Lit ''add'', Lit ''start''], POST, \<lambda>_. OtherE AddPasskeyStart),
     ([Lit ''auth'', Lit ''register'', Lit ''start''], POST, \<lambda>_. OtherE RegisterStart),
     ([Lit ''auth'', Lit ''register'', Lit ''finish''], POST, \<lambda>_. OtherE RegisterFinish),
     ([Lit ''auth'', Lit ''login'', Lit ''start''], POST, \<lambda>_. OtherE LoginStart),
     ([Lit ''auth'', Lit ''login'', Lit ''finish''], POST, \<lambda>_. OtherE LoginFinish),
     ([Lit ''auth'', Lit ''recover'', Lit ''start''], POST, \<lambda>_. OtherE RecoverStart),
     ([Lit ''.well-known'', Lit ''oauth-authorization-server''], GET, \<lambda>_. OtherE AuthorizationServer),
     ([Lit ''.well-known'', Lit ''oauth-protected-resource''], GET, \<lambda>_. OtherE ProtectedResource),
     ([Lit ''.well-known'', Lit ''oauth-protected-resource'', Lit ''mcp''], GET, \<lambda>_. OtherE ProtectedResource),
     ([Lit ''.well-known'', Lit ''oauth-protected-resource'', Lit ''mcp'', Param], GET, \<lambda>s. OtherE (ProtectedResourceGroup s)),
     ([Lit ''.well-known'', Lit ''jwks.json''], GET, \<lambda>_. OtherE JwksRoute),
     ([Lit ''register''], POST, \<lambda>_. OtherE RegisterClient),
     ([Lit ''authorize''], GET, \<lambda>_. OtherE AuthorizeRoute),
     ([Lit ''authorize'', Lit ''decision''], POST, \<lambda>_. OtherE DecisionRoute),
     ([Lit ''token''], POST, \<lambda>_. OtherE TokenRoute)]"

definition routes :: routing where
  "routes = page_routes @ account_routes @ admin_routes @ server_routes @ other_routes"

text \<open>The router takes the path whose first segments are literal where it can, then the method; \<open>HEAD\<close> is
  served as \<open>GET\<close>. A parameter is a nonempty segment.\<close>

fun match_path :: "seg list \<Rightarrow> string list \<Rightarrow> string list option" where
  "match_path [] [] = Some []"
| "match_path (Lit l # ps) (s # ss) = (if s = l then match_path ps ss else None)"
| "match_path (Param # ps) (s # ss) = (if s = [] then None else map_option (Cons s) (match_path ps ss))"
| "match_path _ _ = None"

fun prefer_path :: "seg list \<Rightarrow> seg list \<Rightarrow> bool" where
  "prefer_path (Lit _ # ps) (Param # qs) = True"
| "prefer_path (Lit _ # ps) (Lit _ # qs) = prefer_path ps qs"
| "prefer_path (Param # ps) (Param # qs) = prefer_path ps qs"
| "prefer_path _ _ = False"

datatype routed = NotFound | MethodNotAllowed | Nested string | Found "string \<Rightarrow> endpoint" "string option"

definition matched_path :: "routing \<Rightarrow> string list \<Rightarrow> seg list option" where
  "matched_path rs path =
     (case filter (\<lambda>p. match_path p path \<noteq> None) (map fst rs) of
        [] \<Rightarrow> None
      | p # ps \<Rightarrow> Some (foldl (\<lambda>b q. if prefer_path q b then q else b) p ps))"

definition find_route :: "http_method \<Rightarrow> string list \<Rightarrow> routed" where
  "find_route m path =
     (if take 1 path = [''mcp''] \<or> take 1 path = [''static''] then Nested (hd path)
      else
        (case matched_path routes path of
           None \<Rightarrow> NotFound
         | Some p \<Rightarrow>
             (case List.find (\<lambda>e. fst e = p \<and> fst (snd e) = (if m = HEAD then GET else m)) routes of
                None \<Rightarrow> MethodNotAllowed
              | Some e \<Rightarrow>
                  Found (snd (snd e)) (case match_path p path of Some (x # _) \<Rightarrow> Some x | _ \<Rightarrow> None))))"

section \<open>Requests\<close>

record http_request =
  hr_method :: http_method
  hr_path :: "string list"
  hr_query :: fields
  hr_body :: "fields option"
  hr_web :: web_request

text \<open>A request the framework refuses once the session was loaded: the path segment is not text, the
  body is not a form, or the form lacks a field.\<close>

definition refused_form :: "web_env \<Rightarrow> response \<Rightarrow> web_request \<Rightarrow> app_state \<Rightarrow> app_state \<times> response option" where
  "refused_form wv out rq st =
     (case auth_user (wv_now wv) (wv_cfg wv) (ap_db st) (wr_jar rq) of
        (d, Inl loc) \<Rightarrow> (st\<lparr>ap_db := d\<rparr>, Some (redirect_to loc))
      | (d, Inr _) \<Rightarrow> (st\<lparr>ap_db := d\<rparr>, Some out))"

definition refused_query :: "web_env \<Rightarrow> response \<Rightarrow> web_request \<Rightarrow> app_state \<Rightarrow> app_state \<times> response option" where
  "refused_query wv out rq st =
     (case maybe_user (wv_now wv) (wv_cfg wv) (ap_db st) (wr_jar rq) of (d, _) \<Rightarrow> (st\<lparr>ap_db := d\<rparr>, Some out))"

fun run_endpoint ::
  "web_env \<Rightarrow> (nat \<Rightarrow> response) \<Rightarrow> http_request \<Rightarrow> endpoint \<Rightarrow> app_state \<Rightarrow> (app_state \<times> response option) option" where
  "run_endpoint wv refuse r (PageE p) st = Some (serve wv (hr_web r) (Get p) st)"
| "run_endpoint wv refuse r (FormE form) st =
     Some (case hr_body r of
             None \<Rightarrow> refused_form wv (refuse 415) (hr_web r) st
           | Some kvs \<Rightarrow>
               (case form kvs of
                  None \<Rightarrow> refused_form wv (refuse 422) (hr_web r) st
                | Some f \<Rightarrow> serve wv (hr_web r) (Post f) st))"
| "run_endpoint wv refuse r (OpenE query) st =
     Some (case query (hr_query r) of
             None \<Rightarrow> refused_query wv (refuse 400) (hr_web r) st
           | Some p \<Rightarrow> serve wv (hr_web r) (Open p) st)"
| "run_endpoint wv refuse r (OtherE x) st = None"

text \<open>A request to the hub, as far as the pages serve it; the value is \<open>None\<close> when another component does.\<close>

definition page_request ::
  "web_env \<Rightarrow> (string \<Rightarrow> string option) \<Rightarrow> (nat \<Rightarrow> response) \<Rightarrow> http_request \<Rightarrow> app_state \<Rightarrow> (app_state \<times> response option) option" where
  "page_request wv pct refuse r st =
     (case find_route (hr_method r) (hr_path r) of
        NotFound \<Rightarrow> Some (st, Some (refuse 404))
      | MethodNotAllowed \<Rightarrow> Some (st, Some (refuse 405))
      | Nested _ \<Rightarrow> None
      | Found h None \<Rightarrow> run_endpoint wv refuse r (h []) st
      | Found h (Some x) \<Rightarrow>
          (case pct x of
             None \<Rightarrow> (case h x of OtherE _ \<Rightarrow> None | _ \<Rightarrow> Some (refused_form wv (refuse 400) (hr_web r) st))
           | Some i \<Rightarrow> run_endpoint wv refuse r (h i) st))"

section \<open>Response headers and the health check\<close>

definition CSP :: string where
  "CSP = ''default-src 'self'; script-src 'self'; style-src 'self' 'unsafe-inline'; img-src 'self' data:; frame-ancestors 'none'; base-uri 'none'; object-src 'none'' @ [CHR 0x27]"

definition set_header :: "string \<Rightarrow> string \<Rightarrow> fields \<Rightarrow> fields" where
  "set_header name v hs = filter (\<lambda>h. fst h \<noteq> name) hs @ [(name, v)]"

definition security_headers :: "fields \<Rightarrow> fields" where
  "security_headers hs =
     set_header ''x-frame-options'' ''DENY''
      (set_header ''x-content-type-options'' ''nosniff''
        (set_header ''referrer-policy'' ''no-referrer''
          (set_header ''content-security-policy'' CSP hs)))"

definition healthz :: string where
  "healthz = ''ok''"

section \<open>The request token of a raw form\<close>

text \<open>Whatever a form is decoded to, its request token is empty or a field of the body.\<close>

definition carries :: "fields \<Rightarrow> post_form \<Rightarrow> bool" where
  "carries kvs f \<longleftrightarrow> form_csrf f = [] \<or> (''csrf'', form_csrf f) \<in> set kvs"

fun token_kept :: "http_method \<Rightarrow> endpoint \<Rightarrow> bool" where
  "token_kept m (FormE form) = (m = POST \<and> (\<forall>kvs f. form kvs = Some f \<longrightarrow> carries kvs f))"
| "token_kept m _ = True"

lemma opt_field_mem: "opt_field kvs k = Some (Some v) \<Longrightarrow> (k, v) \<in> set kvs"
proof -
  assume "opt_field kvs k = Some (Some v)"
  then obtain kv where kv: "filter (\<lambda>kv. fst kv = k) kvs = [kv]" "snd kv = v"
    by (auto simp: opt_field_def split: list.splits)
  then have "kv \<in> set (filter (\<lambda>kv. fst kv = k) kvs)" by simp
  with kv(2) show ?thesis by auto
qed

lemma def_field_mem: "def_field kvs k = Some v \<Longrightarrow> v = [] \<or> (k, v) \<in> set kvs"
  by (auto simp: def_field_def str_or_def dest: opt_field_mem split: option.splits)

lemma map_form_mem: "str_or [] (map_form kvs k) = [] \<or> (k, str_or [] (map_form kvs k)) \<in> set kvs"
  by (auto simp: map_form_def str_or_def dest: map_of_SomeD split: option.split)

lemmas form_defs = csrf_form_def csrf_only_form_def metrics_key_form_def recovery_form_def create_invite_form_def revoke_invite_form_def
  revoke_connection_form_def label_connection_form_def create_group_form_def create_token_form_def revoke_token_form_def
  save_git_credential_form_def delete_git_credential_form_def remove_passkey_form_def user_action_form_def create_server_form_def

lemmas routes_defs = page_routes_def account_routes_def admin_routes_def server_routes_def other_routes_def

lemma token_keptI: "(\<And>kvs f. form kvs = Some f \<Longrightarrow> carries kvs f) \<Longrightarrow> token_kept POST (FormE form)"
  by simp

lemma routes_token_kept: "e \<in> set routes \<Longrightarrow> token_kept (fst (snd e)) (snd (snd e) i)"
proof -
  have "\<forall>e \<in> set page_routes \<union> set other_routes. token_kept (fst (snd e)) (snd (snd e) i)"
    by (simp add: page_routes_def other_routes_def)
  moreover have "\<forall>e \<in> set account_routes. token_kept (fst (snd e)) (snd (snd e) i)"
    by (auto simp: account_routes_def carries_def form_defs map_form_mem dest: def_field_mem split: bind_splits)
  moreover have "\<forall>e \<in> set admin_routes. token_kept (fst (snd e)) (snd (snd e) i)"
    by (auto simp: admin_routes_def carries_def form_defs dest: def_field_mem split: bind_splits)
  moreover have "\<forall>e \<in> set server_routes. token_kept (fst (snd e)) (snd (snd e) i)"
    by (auto simp: server_routes_def carries_def form_defs map_form_mem dest: def_field_mem split: bind_splits)
  ultimately show "e \<in> set routes \<Longrightarrow> token_kept (fst (snd e)) (snd (snd e) i)" unfolding routes_def by (simp only: set_append) blast
qed

lemma find_route_kept:
  assumes "find_route m path = Found h x"
  shows "token_kept (if m = HEAD then GET else m) (h i)"
proof -
  let ?m = "if m = HEAD then GET else m"
  from assms obtain p e where "List.find (\<lambda>e. fst e = p \<and> fst (snd e) = ?m) routes = Some e" and h: "h = snd (snd e)"
    by (auto simp: find_route_def simp del: if_split split: if_split_asm option.splits)
  then have e: "e \<in> set routes" "fst (snd e) = ?m" by (auto dest: find_SomeD)
  from routes_token_kept[OF e(1), of i] show ?thesis unfolding e(2) h .
qed

section \<open>Requests without the token\<close>

definition untouched :: "app_state \<Rightarrow> app_state \<Rightarrow> bool" where
  "untouched st st' \<longleftrightarrow> (\<exists>ws log. st' = st\<lparr>ap_db := (ap_db st)\<lparr>web_sessions := ws\<rparr>, ap_audit := ap_audit st @ log\<rparr> \<and> length log \<le> 1)"

lemma untouched_sessions: "untouched st (st\<lparr>ap_db := (ap_db st)\<lparr>web_sessions := ws\<rparr>\<rparr>)"
  unfolding untouched_def by (intro exI[of _ ws] exI[of _ "[]"]) simp

lemma untouched_same: "untouched st st"
  using untouched_sessions[of st "web_sessions (ap_db st)"] by simp

lemma untouched_auth:
  "untouched st (st\<lparr>ap_db := fst (auth_user now cfg (ap_db st) jar)\<rparr>)"
  "untouched st (st\<lparr>ap_db := fst (maybe_user now cfg (ap_db st) jar)\<rparr>)"
  using auth_user_db[of now cfg "ap_db st" jar] maybe_user_db[of now cfg "ap_db st" jar] untouched_sessions by (metis (no_types))+

lemma untouched_refused: "untouched st (fst (refused_form wv out rq st))" "untouched st (fst (refused_query wv out rq st))"
  using untouched_auth by (auto simp: refused_form_def refused_query_def split: prod.split sum.split) (metis fst_conv)+

lemma untouched_read: "untouched st (fst (serve wv rq (Get p) st))" "untouched st (fst (serve wv rq (Open q) st))"
  using untouched_auth untouched_same[of st] by (auto split: prod.split sum.split) (metis fst_conv)+

abbreviation session_token :: "web_env \<Rightarrow> http_request \<Rightarrow> string option" where
  "session_token wv r \<equiv> csrf_for (wv_b64url wv) (wv_sha256 wv) (wr_jar (hr_web r)) (master_key (wv_cfg wv))"

lemma untouched_post:
  assumes "session_token wv r \<noteq> Some (form_csrf f)"
  shows "untouched st (fst (serve wv (hr_web r) (Post f) st))"
proof -
  have "\<not> csrf_ok wv (hr_web r) (form_csrf f)"
    using assms by (auto simp: csrf_ok_def check_csrf_def dest: as_bytes_inj split: option.splits)
  from serve_refused[of wv st "hr_web r" f, OF post_refused_csrf[OF this]] show ?thesis
    unfolding untouched_def by (metis fst_conv)
qed

lemma untouched_endpoint:
  assumes "run_endpoint wv refuse r e st = Some (st', out)" "token_kept (if hr_method r = HEAD then GET else hr_method r) e"
    and "hr_method r = POST \<Longrightarrow> session_token wv r \<noteq> Some []"
    and "\<And>kvs. hr_method r = POST \<Longrightarrow> hr_body r = Some kvs \<Longrightarrow> \<forall>v. (''csrf'', v) \<in> set kvs \<longrightarrow> session_token wv r \<noteq> Some v"
  shows "untouched st st'"
proof (cases e)
  case (FormE form)
  with assms(2) have post: "hr_method r = POST" and kept: "form kvs = Some f \<Longrightarrow> carries kvs f" for kvs f
    by (auto split: if_splits)
  show ?thesis
  proof (cases "\<exists>kvs f. hr_body r = Some kvs \<and> form kvs = Some f")
    case True
    then obtain kvs f where f: "hr_body r = Some kvs" "form kvs = Some f" by blast
    with kept[OF f(2)] assms(3)[OF post] assms(4)[OF post f(1)] have "session_token wv r \<noteq> Some (form_csrf f)"
      by (auto simp: carries_def)
    from untouched_post[OF this, of st] assms(1) FormE f show ?thesis by (simp del: serve.simps)
  next
    case False
    with assms(1) FormE untouched_refused(1)[of st wv _ "hr_web r"] show ?thesis
      by (auto simp del: serve.simps split: option.splits) (metis fst_conv)+
  qed
next
  case (OpenE query)
  with assms(1) untouched_refused(2)[of st wv _ "hr_web r"] untouched_read(2)[of st wv "hr_web r"] show ?thesis
    by (auto simp del: serve.simps split: option.splits) (metis fst_conv)+
qed (use assms(1) untouched_read(1)[of st wv "hr_web r"] in \<open>auto simp del: serve.simps\<close>, metis fst_conv)

text \<open>What becomes of a request: an answer of the router alone, an endpoint that runs, or a refusal after
  the session was loaded.\<close>

lemma page_request_cases:
  assumes "page_request wv pct refuse r st = Some (st', out)"
  obtains (same) "st' = st"
  | (run) h x i where "find_route (hr_method r) (hr_path r) = Found h x" "run_endpoint wv refuse r (h i) st = Some (st', out)"
  | (refused) o1 where "(st', out) = refused_form wv o1 (hr_web r) st"
proof (cases "find_route (hr_method r) (hr_path r)")
  case (Found h x)
  show thesis
  proof (cases x)
    case None
    with assms Found have "run_endpoint wv refuse r (h []) st = Some (st', out)" by (simp add: page_request_def)
    with run Found show ?thesis by blast
  next
    case (Some y)
    show ?thesis
    proof (cases "pct y")
      case None
      with assms Found Some have "(st', out) = refused_form wv (refuse 400) (hr_web r) st"
        by (simp add: page_request_def split: endpoint.splits)
      with refused show ?thesis by blast
    next
      case (Some i)
      with assms Found \<open>x = Some y\<close> have "run_endpoint wv refuse r (h i) st = Some (st', out)" by (simp add: page_request_def)
      with run Found show ?thesis by blast
    qed
  qed
qed (use assms same in \<open>auto simp: page_request_def\<close>)

text \<open>C6: requests from elsewhere. Whatever the method, the path, the query and the body of a request
  that the pages serve, it changes nothing but the session table, which authentication refreshes, and
  at most one audit event, unless it is a POST whose body has the request token of its session in the
  field \<open>csrf\<close>. In particular no link, image or HEAD request changes anything.\<close>

theorem foreign_requests_harmless:
  assumes "page_request wv pct refuse r st = Some (st', out)"
    and "hr_method r = POST \<Longrightarrow> session_token wv r \<noteq> Some []"
    and "\<And>kvs. hr_method r = POST \<Longrightarrow> hr_body r = Some kvs \<Longrightarrow> \<forall>v. (''csrf'', v) \<in> set kvs \<longrightarrow> session_token wv r \<noteq> Some v"
  shows "\<exists>ws log. st' = st\<lparr>ap_db := (ap_db st)\<lparr>web_sessions := ws\<rparr>, ap_audit := ap_audit st @ log\<rparr> \<and> length log \<le> 1"
  unfolding untouched_def[symmetric] using assms(1)
proof (cases rule: page_request_cases)
  case same
  then show "untouched st st'" by (simp add: untouched_same)
next
  case (run h x i)
  from untouched_endpoint[OF run(2) find_route_kept[OF run(1)] assms(2,3)] show "untouched st st'" .
next
  case (refused o1)
  from untouched_refused(1)[of st wv o1 "hr_web r"] show "untouched st st'" unfolding refused[symmetric] by simp
qed

section \<open>Every form can be submitted\<close>

text \<open>The request of a form. A parameter of the path has to be a segment that means itself, a number has
  to be writable, and a form kept as a map has finitely many fields.\<close>

fun form_path :: "post_form \<Rightarrow> string list" where
  "form_path (CreateServer f) = [''servers'', ''create'']"
| "form_path (SaveConfig i f) = [''servers'', i, ''config'']"
| "form_path (EnableServer i c) = [''servers'', i, ''enable'']"
| "form_path (DisableServer i c) = [''servers'', i, ''disable'']"
| "form_path (RestartServer i c) = [''servers'', i, ''restart'']"
| "form_path (DeleteServer i c) = [''servers'', i, ''delete'']"
| "form_path (UpdateServer i c) = [''servers'', i, ''update'']"
| "form_path (TestServer i c) = [''servers'', i, ''test'']"
| "form_path (RefreshCapabilities i c) = [''servers'', i, ''capabilities'', ''refresh'']"
| "form_path (RevokeOtherSessions c) = [''account'', ''sessions'', ''revoke-others'']"
| "form_path (RevokeConnection c cl) = [''account'', ''connections'', ''revoke'']"
| "form_path (LabelConnection c cl n t) = [''account'', ''connections'', ''label'']"
| "form_path (ConnectionAccess f) = [''account'', ''connections'', ''access'']"
| "form_path (TokenAccess f) = [''account'', ''tokens'', ''access'']"
| "form_path (CreateGroup c s n) = [''groups'', ''create'']"
| "form_path (UpdateGroup g f) = [''groups'', g, ''update'']"
| "form_path (DeleteGroup g c) = [''groups'', g, ''delete'']"
| "form_path (CreateToken c n d) = [''account'', ''tokens'', ''create'']"
| "form_path (RevokeToken c t) = [''account'', ''tokens'', ''revoke'']"
| "form_path (SaveGitCredential f) = [''account'', ''git-credentials'', ''save'']"
| "form_path (DeleteGitCredential c h) = [''account'', ''git-credentials'', ''delete'']"
| "form_path (RemovePasskey c i) = [''account'', ''passkeys'', ''remove'']"
| "form_path (CreateInvite c n) = [''invites'', ''create'']"
| "form_path (CreateRecovery c h) = [''invites'', ''recovery'']"
| "form_path (RevokeInvite c s) = [''invites'', ''revoke'']"
| "form_path (RegenerateMetricsKey c) = [''stats'', ''metrics-key'', ''regenerate'']"
| "form_path (DisableUser c h) = [''users'', ''disable'']"
| "form_path (EnableUser c h) = [''users'', ''enable'']"
| "form_path (DeleteUser c h) = [''users'', ''delete'']"

fun form_param :: "post_form \<Rightarrow> string option" where
  "form_param (SaveConfig i f) = Some i"
| "form_param (EnableServer i c) = Some i"
| "form_param (DisableServer i c) = Some i"
| "form_param (RestartServer i c) = Some i"
| "form_param (DeleteServer i c) = Some i"
| "form_param (UpdateServer i c) = Some i"
| "form_param (TestServer i c) = Some i"
| "form_param (RefreshCapabilities i c) = Some i"
| "form_param (UpdateGroup i f) = Some i"
| "form_param (DeleteGroup i c) = Some i"
| "form_param _ = None"

fun form_map :: "post_form \<Rightarrow> field_map option" where
  "form_map (ConnectionAccess m) = Some m"
| "form_map (TokenAccess m) = Some m"
| "form_map (UpdateGroup i m) = Some m"
| "form_map _ = None"

fun form_days :: "post_form \<Rightarrow> int" where
  "form_days (CreateToken c n d) = d"
| "form_days _ = 0"

definition int_text :: "int \<Rightarrow> string" where
  "int_text d = (if d < 0 then CHR ''-'' # nat_str (nat (- d)) else nat_str (nat d))"

definition server_fields_of :: "server_form \<Rightarrow> fields" where
  "server_fields_of f =
     [(''csrf'', sf_csrf f), (''display_name'', sf_display_name f), (''namespace'', sf_namespace f),
      (''transport'', sf_transport f), (''command'', sf_command f), (''repo'', sf_repo f), (''git_ref'', sf_git_ref f),
      (''url'', sf_url f), (''env'', sf_env f), (''config_file'', sf_config_file f),
      (''connect_timeout_secs'', sf_connect_timeout_secs f)]"

fun form_fields :: "fields \<Rightarrow> post_form \<Rightarrow> fields" where
  "form_fields kvs (CreateServer f) = server_fields_of f"
| "form_fields kvs (SaveConfig i f) = server_fields_of f"
| "form_fields kvs (ConnectionAccess m) = kvs"
| "form_fields kvs (TokenAccess m) = kvs"
| "form_fields kvs (UpdateGroup i m) = kvs"
| "form_fields kvs (RevokeConnection c cl) = [(''csrf'', c), (''client_id'', cl)]"
| "form_fields kvs (LabelConnection c cl n t) = [(''csrf'', c), (''client_id'', cl), (''name'', n), (''note'', t)]"
| "form_fields kvs (CreateGroup c s n) = [(''csrf'', c), (''slug'', s), (''name'', n)]"
| "form_fields kvs (CreateToken c n d) = [(''csrf'', c), (''name'', n), (''expires_days'', int_text d)]"
| "form_fields kvs (RevokeToken c t) = [(''csrf'', c), (''token_id'', t)]"
| "form_fields kvs (SaveGitCredential f) =
     [(''csrf'', gf_csrf f), (''host'', gf_host f), (''username'', gf_username f), (''label'', gf_label f), (''token'', gf_token f)]"
| "form_fields kvs (DeleteGitCredential c h) = [(''csrf'', c), (''host'', h)]"
| "form_fields kvs (RemovePasskey c i) = [(''csrf'', c), (''cred_id'', i)]"
| "form_fields kvs (CreateInvite c n) = [(''csrf'', c), (''note'', n)]"
| "form_fields kvs (CreateRecovery c h) = [(''csrf'', c), (''handle'', h)]"
| "form_fields kvs (RevokeInvite c s) = [(''csrf'', c), (''short_id'', s)]"
| "form_fields kvs (DisableUser c h) = [(''csrf'', c), (''handle'', h)]"
| "form_fields kvs (EnableUser c h) = [(''csrf'', c), (''handle'', h)]"
| "form_fields kvs (DeleteUser c h) = [(''csrf'', c), (''handle'', h)]"
| "form_fields kvs f = [(''csrf'', form_csrf f)]"

text \<open>A number survives being written and parsed.\<close>

lemma parse_mag_append: "parse_mag mx big n (xs @ ys) = rbind (parse_mag mx big n xs) (\<lambda>m. parse_mag mx big m ys)"
  by (induction xs arbitrary: n) (simp_all add: Let_def)

lemma digit_code:
  assumes "k < 10"
  shows "is_ascii_digit (char_of (48 + k))" "of_char (char_of (48 + k) :: char) = (48 + k :: nat)"
proof -
  from assms have "(48 + k) mod 256 = (48 + k :: nat)" by simp
  then show "of_char (char_of (48 + k) :: char) = (48 + k :: nat)" by simp
  with assms show "is_ascii_digit (char_of (48 + k))" by (simp add: is_ascii_digit_def)
qed

lemma parse_mag_nat_str: "n \<le> mx \<Longrightarrow> parse_mag mx big 0 (nat_str n) = Inr n"
proof (induction n rule: nat_str.induct)
  case (1 n)
  show ?case
  proof (cases "n < 10")
    case True
    with 1(2) show ?thesis by (subst nat_str.simps) (simp add: digit_code Let_def)
  next
    case False
    from 1(2) have "n div 10 \<le> mx" using div_le_dividend le_trans by blast
    with 1(1) False have "parse_mag mx big 0 (nat_str (n div 10)) = Inr (n div 10)" by blast
    moreover have "n div 10 * 10 + n mod 10 = n" by simp
    ultimately show ?thesis using False 1(2) digit_code[of "n mod 10"]
      by (subst nat_str.simps) (simp add: parse_mag_append Let_def)
  qed
qed

lemma nat_str_hd: "\<exists>c cs. nat_str n = c # cs \<and> is_ascii_digit c"
proof (induction n rule: nat_str.induct)
  case (1 n)
  then show ?case using digit_code(1)[of n] by (subst nat_str.simps) auto
qed

lemma parse_int_text:
  assumes "- (2 ^ 63) \<le> d" "d < 2 ^ 63"
  shows "parse_i64 (int_text d) = Inr d"
proof -
  obtain c cs where hd: "nat_str (nat d) = c # cs" "is_ascii_digit c" using nat_str_hd by blast
  then have c: "c \<noteq> CHR ''-''" "c \<noteq> CHR ''+''" by (auto simp: is_ascii_digit_def)
  obtain c' cs' where neg: "nat_str (nat (- d)) = c' # cs'" using nat_str_hd by blast
  have "nat d \<le> 2 ^ 63 - 1" "nat (- d) \<le> 2 ^ 63" using assms by (simp_all add: nat_le_iff)
  from parse_mag_nat_str[OF this(1)] parse_mag_nat_str[OF this(2)] hd(1) neg c show ?thesis
    by (auto simp: parse_i64_def int_text_def)
qed

section \<open>Routes that are found\<close>

text \<open>No two routes have the same path and method (the router refuses to be built otherwise).\<close>

lemma routes_distinct: "distinct (map (\<lambda>e. (fst e, fst (snd e))) routes)"
  by code_simp

lemma find_routeI:
  assumes "e \<in> set routes" "fst (snd e) = POST" "matched_path routes path = Some (fst e)" "take 1 path \<noteq> [''mcp'']" "take 1 path \<noteq> [''static'']"
  shows "find_route POST path = Found (snd (snd e)) (case match_path (fst e) path of Some (x # _) \<Rightarrow> Some x | _ \<Rightarrow> None)"
proof -
  have "List.find (\<lambda>e'. (fst e', fst (snd e')) = (fst e, fst (snd e))) routes = Some e"
    by (rule find_unique[OF routes_distinct assms(1)])
  then have "List.find (\<lambda>e'. fst e' = fst e \<and> fst (snd e') = POST) routes = Some e" using assms(2) by simp
  with assms(3-5) show ?thesis by (simp add: find_route_def)
qed

text \<open>The paths that begin with a literal segment, as every path of the table does.\<close>

definition paths_at :: "string \<Rightarrow> seg list list" where
  "paths_at s = filter (\<lambda>p. case p of Lit l # _ \<Rightarrow> l = s | _ \<Rightarrow> False) (map fst routes)"

lemma paths_literal: "list_all (\<lambda>p. case p of Lit l # _ \<Rightarrow> True | _ \<Rightarrow> False) (map fst routes)"
  by code_simp

lemma matched_path_at:
  "matched_path routes (s # ss) =
     (case filter (\<lambda>p. match_path p (s # ss) \<noteq> None) (paths_at s) of
        [] \<Rightarrow> None
      | p # ps \<Rightarrow> Some (foldl (\<lambda>b q. if prefer_path q b then q else b) p ps))"
proof -
  have "match_path p (s # ss) \<noteq> None \<longleftrightarrow> (case p of Lit l # _ \<Rightarrow> l = s | _ \<Rightarrow> False) \<and> match_path p (s # ss) \<noteq> None"
    if "p \<in> set (map fst routes)" for p
  proof -
    from paths_literal that have "case p of Lit l # _ \<Rightarrow> True | _ \<Rightarrow> False" by (metis list_all_iff)
    then show ?thesis by (auto split: list.splits seg.splits if_splits)
  qed
  then have "filter (\<lambda>p. match_path p (s # ss) \<noteq> None) (map fst routes) = filter (\<lambda>p. match_path p (s # ss) \<noteq> None) (paths_at s)"
    unfolding paths_at_def filter_filter by (intro filter_cong) (simp_all add: conj_commute)
  then show ?thesis by (simp add: matched_path_def)
qed

lemma form_paths_at:
  "paths_at ''servers'' =
    [[Lit ''servers'', Lit ''new''], [Lit ''servers'', Param], [Lit ''servers'', Param, Lit ''capabilities''], [Lit ''servers'', Lit ''create''],
     [Lit ''servers'', Param, Lit ''capabilities'', Lit ''refresh''], [Lit ''servers'', Param, Lit ''config''], [Lit ''servers'', Param, Lit ''test''],
     [Lit ''servers'', Param, Lit ''enable''], [Lit ''servers'', Param, Lit ''disable''], [Lit ''servers'', Param, Lit ''restart''],
     [Lit ''servers'', Param, Lit ''update''], [Lit ''servers'', Param, Lit ''delete'']]"
  "paths_at ''groups'' = [[Lit ''groups'', Lit ''create''], [Lit ''groups'', Param, Lit ''update''], [Lit ''groups'', Param, Lit ''delete'']]"
  "paths_at ''users'' = [[Lit ''users''], [Lit ''users'', Lit ''disable''], [Lit ''users'', Lit ''enable''], [Lit ''users'', Lit ''delete'']]"
  "paths_at ''invites'' = [[Lit ''invites''], [Lit ''invites'', Lit ''create''], [Lit ''invites'', Lit ''recovery''], [Lit ''invites'', Lit ''revoke'']]"
  "paths_at ''stats'' = [[Lit ''stats''], [Lit ''stats'', Lit ''metrics-key'', Lit ''regenerate'']]"
  by code_simp+

lemma account_paths_at: "paths_at ''account'' =
    [[Lit ''account''], [Lit ''account'', Lit ''passkeys'', Lit ''remove''], [Lit ''account'', Lit ''sessions'', Lit ''revoke-others''],
     [Lit ''account'', Lit ''connections'', Lit ''revoke''], [Lit ''account'', Lit ''connections'', Lit ''label''],
     [Lit ''account'', Lit ''connections'', Lit ''access''], [Lit ''account'', Lit ''tokens'', Lit ''create''],
     [Lit ''account'', Lit ''tokens'', Lit ''revoke''], [Lit ''account'', Lit ''tokens'', Lit ''access''],
     [Lit ''account'', Lit ''git-credentials'', Lit ''save''], [Lit ''account'', Lit ''git-credentials'', Lit ''delete''],
     [Lit ''account'', Lit ''passkeys'', Lit ''add'', Lit ''start'']]"
  by code_simp

definition form_pattern :: "post_form \<Rightarrow> seg list" where
  "form_pattern f = (case form_param f of None \<Rightarrow> map Lit (form_path f) | Some _ \<Rightarrow> (map Lit (form_path f))[1 := Param])"

lemma form_matched:
  assumes "\<And>i. form_param f = Some i \<Longrightarrow> i \<noteq> []"
  shows "matched_path routes (form_path f) = Some (form_pattern f)"
  using assms by (cases f) (simp_all add: form_pattern_def matched_path_at form_paths_at account_paths_at)

lemma form_segments:
  assumes "\<And>i. form_param f = Some i \<Longrightarrow> i \<noteq> []"
  shows "match_path (form_pattern f) (form_path f) = Some (case form_param f of None \<Rightarrow> [] | Some i \<Rightarrow> [i])"
    "take 1 (form_path f) \<noteq> [''mcp'']" "take 1 (form_path f) \<noteq> [''static'']"
  using assms by (cases f; simp add: form_pattern_def)+

lemmas field_simps = opt_field_def def_field_def req_field_def int_field_def str_or_def server_fields_of_def

text \<open>The handler of a form decodes the fields of the form to the form.\<close>

definition decodes :: "fields \<Rightarrow> post_form \<Rightarrow> seg list \<times> http_method \<times> (string \<Rightarrow> endpoint) \<Rightarrow> bool" where
  "decodes kvs f e \<longleftrightarrow> fst e = form_pattern f \<and> fst (snd e) = POST \<and>
     (\<exists>form. snd (snd e) (str_or [] (form_param f)) = FormE form \<and> form (form_fields kvs f) = Some f)"

lemma server_forms_decoded:
  assumes "\<And>m. form_map f = Some m \<Longrightarrow> m = map_form kvs" "hd (form_path f) = ''servers'' \<or> hd (form_path f) = ''groups''"
  shows "\<exists>e\<in>set server_routes. decodes kvs f e"
  using assms
  by (cases f; simp add: server_routes_def decodes_def form_pattern_def str_or_def; simp add: form_defs field_simps)

lemma account_forms_decoded:
  assumes "\<And>m. form_map f = Some m \<Longrightarrow> m = map_form kvs" "hd (form_path f) = ''account''"
    and parse: "parse_i64 (int_text (form_days f)) = Inr (form_days f)"
  shows "\<exists>e\<in>set account_routes. decodes kvs f e"
  using assms
  by (cases f; simp add: account_routes_def decodes_def form_pattern_def str_or_def; simp add: form_defs field_simps)

lemma admin_forms_decoded:
  assumes "hd (form_path f) = ''users'' \<or> hd (form_path f) = ''invites'' \<or> hd (form_path f) = ''stats''"
  shows "\<exists>e\<in>set admin_routes. decodes kvs f e"
  using assms
  by (cases f; simp add: admin_routes_def decodes_def form_pattern_def str_or_def; simp add: form_defs field_simps)

lemma form_path_hd:
  "hd (form_path f) = ''servers'' \<or> hd (form_path f) = ''groups'' \<or> hd (form_path f) = ''account'' \<or>
   hd (form_path f) = ''users'' \<or> hd (form_path f) = ''invites'' \<or> hd (form_path f) = ''stats''"
  by (cases f) simp_all

lemma submitted:
  assumes "\<And>i. form_param f = Some i \<Longrightarrow> i \<noteq> [] \<and> pct i = Some i"
    and "\<And>m. form_map f = Some m \<Longrightarrow> m = map_form kvs" "- (2 ^ 63) \<le> form_days f" "form_days f < 2 ^ 63"
    and "hr_method r = POST" "hr_path r = form_path f" "hr_body r = Some (form_fields kvs f)"
  shows "page_request wv pct refuse r st = Some (serve wv (hr_web r) (Post f) st)"
proof -
  have "\<exists>e\<in>set routes. decodes kvs f e"
    using form_path_hd[of f] server_forms_decoded[OF assms(2), of f] admin_forms_decoded[of f kvs]
      account_forms_decoded[OF assms(2) _ parse_int_text[OF assms(3,4)]]
    unfolding routes_def set_append by blast
  then obtain e form where e: "e \<in> set routes" "fst e = form_pattern f" "fst (snd e) = POST"
    "snd (snd e) (str_or [] (form_param f)) = FormE form" "form (form_fields kvs f) = Some f"
    unfolding decodes_def by blast
  have ne: "form_param f = Some i \<Longrightarrow> i \<noteq> []" for i using assms(1) by blast
  have "matched_path routes (form_path f) = Some (fst e)" using form_matched[of f] ne e(2) by simp
  moreover note seg = form_segments[of f]
  ultimately have "find_route POST (form_path f) = Found (snd (snd e)) (form_param f)"
    using find_routeI[OF e(1,3)] ne e(2) by (simp split: option.split)
  with e(4,5) assms(1,5-7) show ?thesis
    by (cases "form_param f") (simp_all add: page_request_def str_or_def del: serve.simps)
qed

text \<open>C40: every form can be submitted. Whatever form the handlers accept, with any values, a POST of its
  fields to its path reaches exactly the handler of that form with exactly those values: the routes
  and the form types agree with the handlers and no route shadows another.\<close>

theorem forms_reachable:
  assumes "\<And>i. form_param f = Some i \<Longrightarrow> i \<noteq> [] \<and> pct i = Some i"
    and "\<And>m. form_map f = Some m \<Longrightarrow> m = map_form kvs" "- (2 ^ 63) \<le> form_days f" "form_days f < 2 ^ 63"
  shows "page_request wv pct refuse
      \<lparr>hr_method = POST, hr_path = form_path f, hr_query = q, hr_body = Some (form_fields kvs f), hr_web = rq\<rparr> st =
    Some (serve wv rq (Post f) st)"
  using submitted[OF assms, of "\<lparr>hr_method = POST, hr_path = form_path f, hr_query = q, hr_body = Some (form_fields kvs f), hr_web = rq\<rparr>"]
  by (simp del: serve.simps)

section \<open>Headers of every response\<close>

text \<open>Whatever headers a handler or a nested service set, a response leaves with exactly one value of
  each of the four, and with its other headers as they were.\<close>

lemma security_headers_override:
  assumes "map_of protected k = Some v"
    and "protected = [(''content-security-policy'', CSP), (''referrer-policy'', ''no-referrer''), (''x-content-type-options'', ''nosniff''), (''x-frame-options'', ''DENY'')]"
  shows "filter (\<lambda>h. fst h = k) (security_headers hs) = [(k, v)]"
  using assms(1) unfolding assms(2)
  by (auto simp: security_headers_def set_header_def filter_empty_conv split: if_splits)

lemma security_headers_keep:
  "k \<notin> {''content-security-policy'', ''referrer-policy'', ''x-content-type-options'', ''x-frame-options''} \<Longrightarrow>
   filter (\<lambda>h. fst h = k) (security_headers hs) = filter (\<lambda>h. fst h = k) hs"
  by (induction hs) (auto simp: security_headers_def set_header_def)

section \<open>Witnesses\<close>

definition refuse_demo :: "nat \<Rightarrow> response" where
  "refuse_demo status = \<lparr>rp_status = status, rp_location = None, rp_cookies = [], rp_body = []\<rparr>"

definition demo_post :: "string list \<Rightarrow> fields \<Rightarrow> http_request" where
  "demo_post path kvs = \<lparr>hr_method = POST, hr_path = path, hr_query = [], hr_body = Some kvs, hr_web = demo_rq ''s2''\<rparr>"

lemma demo_post_simps [simp]:
  "hr_method (demo_post path kvs) = POST" "hr_path (demo_post path kvs) = path" "hr_body (demo_post path kvs) = Some kvs"
  "hr_web (demo_post path kvs) = demo_rq ''s2''"
  by (simp_all add: demo_post_def)

theorem forms_reachable_witness:
  "page_request demo_wv Some refuse_demo \<lparr>hr_method = POST, hr_path = [''servers'', ''i2'', ''delete''], hr_query = [],
      hr_body = Some [(''csrf'', ''tok'')], hr_web = demo_rq ''s2''\<rparr> demo_web =
     Some (serve demo_wv (demo_rq ''s2'') (Post (DeleteServer ''i2'' ''tok'')) demo_web)"
  using forms_reachable[of "DeleteServer ''i2'' ''tok''" Some "[]" demo_wv refuse_demo "[]" "demo_rq ''s2''" demo_web]
  by (simp del: serve.simps)

text \<open>The same request with a wrong token leaves the server where it is.\<close>

theorem foreign_requests_harmless_witness:
  "\<exists>st' out. page_request demo_wv Some refuse_demo (demo_post [''servers'', ''i2'', ''delete''] [(''csrf'', ''bad'')]) demo_web = Some (st', out) \<and>
     user_server_instances (ap_db st') = user_server_instances (ap_db demo_web)"
proof -
  let ?r = "demo_post [''servers'', ''i2'', ''delete''] [(''csrf'', ''bad'')]"
  have "page_request demo_wv Some refuse_demo ?r demo_web = Some (serve demo_wv (demo_rq ''s2'') (Post (DeleteServer ''i2'' ''bad'')) demo_web)"
    using submitted[of "DeleteServer ''i2'' ''bad''" Some "[]" ?r] by (simp del: serve.simps)
  then obtain st' out where run: "page_request demo_wv Some refuse_demo ?r demo_web = Some (st', out)" by (metis surj_pair)
  have tok: "session_token demo_wv ?r = Some ''tok''" by (simp add: demo_csrf)
  with foreign_requests_harmless[OF run] obtain ws log where
    "st' = demo_web\<lparr>ap_db := (ap_db demo_web)\<lparr>web_sessions := ws\<rparr>, ap_audit := ap_audit demo_web @ log\<rparr>" by auto
  with run show ?thesis by auto
qed

end
