(* ===== verification/Hub_System.thy ===== *)
theory Hub_System
  imports Hub_Router Hub_Server_Safety Hub_Endpoint Hub_Background
begin

text \<open>
  The hub as one system. Page requests come in through the router, MCP requests through the bearer
  gate and the session they belong to, and the background tasks run between them; every step works
  on the shared application state. \<open>hub_step v\<close> is every step that is not made by the user \<open>v\<close> or by an
  administrator. The theory composes the isolation results of the pages, of the management tools and
  of the request handlers: no sequence of such steps, in any order, changes what belongs to \<open>v\<close>.
\<close>

section \<open>Steps\<close>

inductive hub_step :: "string \<Rightarrow> app_state \<Rightarrow> app_state \<Rightarrow> bool" for v :: string where
  page: "page_request wv pct refuse r st = Some (st', out) \<Longrightarrow>
    (\<And>u. snd (auth_user (wv_now wv) (wv_cfg wv) (ap_db st) (wr_jar (hr_web r))) = Inr u \<Longrightarrow> u_id u \<noteq> v \<and> \<not> u_is_admin u) \<Longrightarrow>
    hub_step v st st'"
| gate_closed: "require_bearer cfg s th now (ap_db st) path headers = (d, g) \<Longrightarrow> hub_step v st (st\<lparr>ap_db := d\<rparr>)"
| mcp: "require_bearer cfg s th now (ap_db st) path headers = (d, Forward ep a) \<Longrightarrow> au_user_id a \<noteq> v \<Longrightarrow> \<not> au_admin a \<Longrightarrow>
    (\<And>b. bnd = Some b \<Longrightarrow> bd_user_id b = au_user_id a \<Longrightarrow> \<not> bd_admin b) \<Longrightarrow>
    hub_step v st (px_app (fst (handle sv \<lparr>rc_authed = Some a, rc_endpoint = Some ep\<rparr> rq \<lparr>px_app = st\<lparr>ap_db := d\<rparr>, px_bound = bnd\<rparr>)))"
| sweep: "hub_step v st (session_sweep now st)"
| reap: "hub_step v st (backend_reaper cfg now st)"
| warm: "hub_step v st (fst (warmer_tick cfg svs sv now (st, deep)))"

section \<open>What belongs to a user\<close>

text \<open>The rows of one user: the account, the passkeys, the servers with their secrets and configuration
  files, the groups with their members, and every token and credential. Left out are the browser
  sessions, which expire, the time a token was last used, and the backend denials.\<close>

definition owns_server :: "string \<Rightarrow> db \<Rightarrow> string \<Rightarrow> bool" where
  "owns_server v d i \<longleftrightarrow> i \<in> i_id ` set (filter (\<lambda>r. i_user_id r = v) (user_server_instances d))"

definition owns_group :: "string \<Rightarrow> db \<Rightarrow> string \<Rightarrow> bool" where
  "owns_group v d g \<longleftrightarrow> g \<in> g_id ` set (filter (\<lambda>r. g_user_id r = v) (connector_groups d))"

definition owned :: "string \<Rightarrow> db \<Rightarrow> db" where
  "owned v d = empty_db\<lparr>
     users := filter (\<lambda>r. u_id r = v) (users d),
     webauthn_credentials := filter (\<lambda>r. wc_user_id r = v) (webauthn_credentials d),
     user_server_instances := filter (\<lambda>r. i_user_id r = v) (user_server_instances d),
     instance_secrets := filter (\<lambda>r. owns_server v d (is_instance_id r)) (instance_secrets d),
     instance_config_files := filter (\<lambda>r. owns_server v d (cf_instance_id r)) (instance_config_files d),
     oauth_refresh_tokens := filter (\<lambda>r. rt_user_id r = v) (oauth_refresh_tokens d),
     personal_access_tokens := map (\<lambda>r. r\<lparr>pt_last_used_at := None\<rparr>) (filter (\<lambda>r. pt_user_id r = v) (personal_access_tokens d)),
     oauth_client_labels := filter (\<lambda>r. ol_user_id r = v) (oauth_client_labels d),
     connector_groups := filter (\<lambda>r. g_user_id r = v) (connector_groups d),
     connector_group_members :=
       filter (\<lambda>r. owns_group v d (gm_group_id r) \<and> owns_server v d (gm_instance_id r)) (connector_group_members d),
     git_credentials := filter (\<lambda>r. gc_user_id r = v) (git_credentials d)\<rparr>"

lemma filter_own: "u \<noteq> v \<Longrightarrow> filter (\<lambda>r. k r = v) (filter (\<lambda>r. k r \<noteq> u) xs) = filter (\<lambda>r. k r = v) xs"
  by (auto intro: filter_cong)

lemma filter_stronger: "(\<And>r. P r \<Longrightarrow> Q r) \<Longrightarrow> filter P (filter Q xs) = filter P xs"
  by (auto intro: filter_cong)

lemma owns_theirs:
  "u \<noteq> v \<Longrightarrow> owns_server v d i \<Longrightarrow> theirs d u i" "u \<noteq> v \<Longrightarrow> owns_group v d g \<Longrightarrow> their_group d u g"
  by (auto simp: owns_server_def theirs_def owns_group_def their_group_def)

lemma owns_others:
  assumes "u \<noteq> v"
  shows "owns_server v (others_db u d) = owns_server v d" "owns_group v (others_db u d) = owns_group v d"
  using assms by (auto simp: fun_eq_iff owns_server_def owns_group_def others_db_def)

lemma owned_others:
  assumes "u \<noteq> v"
  shows "owned v (others_db u d) = owned v d"
proof -
  have "filter (\<lambda>r. owns_server v d (is_instance_id r)) (filter (\<lambda>r. theirs d u (is_instance_id r)) (instance_secrets d)) =
      filter (\<lambda>r. owns_server v d (is_instance_id r)) (instance_secrets d)"
    "filter (\<lambda>r. owns_server v d (cf_instance_id r)) (filter (\<lambda>r. theirs d u (cf_instance_id r)) (instance_config_files d)) =
      filter (\<lambda>r. owns_server v d (cf_instance_id r)) (instance_config_files d)"
    "filter (\<lambda>r. owns_group v d (gm_group_id r) \<and> owns_server v d (gm_instance_id r))
       (filter (\<lambda>r. their_group d u (gm_group_id r) \<and> theirs d u (gm_instance_id r)) (connector_group_members d)) =
      filter (\<lambda>r. owns_group v d (gm_group_id r) \<and> owns_server v d (gm_instance_id r)) (connector_group_members d)"
    by (rule filter_stronger, simp add: owns_theirs[OF assms])+
  then show ?thesis
    unfolding owned_def owns_others[OF assms] by (simp add: others_db_def filter_own[OF assms] del: filter_filter)
qed

lemma owned_web_others:
  assumes "u \<noteq> v"
  shows "owned v (ap_db (web_others u st)) = owned v (ap_db st)"
proof -
  have "owned v (ap_db (web_others u st)) = owned v (others_db u (ap_db st))"
    by (simp add: owned_def owns_server_def owns_group_def web_others_def hide_own_def others_def filter_own[OF assms] del: filter_filter)
  then show ?thesis by (simp add: owned_others[OF assms])
qed

lemma owned_sessions: "owned v (d\<lparr>web_sessions := ws\<rparr>) = owned v d"
  by (simp add: owned_def owns_server_def owns_group_def)

lemma owned_touch: "owned v (tokens_touch now d t) = owned v d"
proof -
  have "map (\<lambda>r. r\<lparr>pt_last_used_at := None\<rparr>) (filter (\<lambda>r. pt_user_id r = v) (tbl_update P (\<lambda>r. r\<lparr>pt_last_used_at := Some now\<rparr>) ts)) =
    map (\<lambda>r. r\<lparr>pt_last_used_at := None\<rparr>) (filter (\<lambda>r. pt_user_id r = v) ts)" for P and ts :: "pat_row list"
    by (induction ts) (simp_all add: tbl_update_def)
  then show ?thesis by (simp add: owned_def owns_server_def owns_group_def tokens_touch_def)
qed

section \<open>The steps keep it\<close>

definition kept :: "string \<Rightarrow> db \<Rightarrow> app_state \<Rightarrow> bool" where
  "kept v base st \<longleftrightarrow> owned v (ap_db st) = base \<and> ids_unique (ap_db st) \<and> distinct (map ws_id (web_sessions (ap_db st)))"

lemma kept_same_db: "kept v base st \<Longrightarrow> ap_db st' = ap_db st \<Longrightarrow> kept v base st'"
  by (simp add: kept_def)

lemma distinct_sessions:
  assumes "distinct (map ws_id (web_sessions d))"
  shows "distinct (map ws_id (web_sessions (fst (maybe_user now cfg d jar))))"
  using assms by (auto simp: maybe_user_def load_and_touch_def session_delete_def Let_def tbl_simps split: option.split)

lemma auth_user_fst: "fst (auth_user now cfg d jar) = fst (maybe_user now cfg d jar)"
  by (auto simp: auth_user_def split: prod.split option.split)

lemma kept_auth:
  assumes "kept v base st" "ap_db st' = fst (maybe_user now cfg (ap_db st) jar)"
  shows "kept v base st'"
proof -
  from maybe_user_db obtain ws where db: "ap_db st' = (ap_db st)\<lparr>web_sessions := ws\<rparr>" unfolding assms(2) by blast
  have "distinct (map ws_id (web_sessions (ap_db st')))"
    unfolding assms(2) using assms(1) by (intro distinct_sessions) (simp add: kept_def)
  with assms(1) show ?thesis by (simp add: db kept_def owned_sessions ids_unique_def)
qed

lemma kept_unseen:
  assumes "kept v base st" "u \<noteq> v" "unseen u (ap_db st) (ap_db st')"
  shows "kept v base st'"
proof -
  from assms(3) have o: "others_db u (ap_db st') = others_db u (ap_db st)" by (simp add: unseen_def)
  have "web_sessions (ap_db st') = web_sessions (others_db u (ap_db st'))" by (simp add: others_db_def)
  also have "\<dots> = web_sessions (ap_db st)" unfolding o by (simp add: others_db_def)
  finally have ws: "web_sessions (ap_db st') = web_sessions (ap_db st)" .
  have "owned v (ap_db st') = owned v (ap_db st)" using owned_others[OF assms(2)] o by metis
  with ws assms(1,3) show ?thesis by (simp add: kept_def unseen_def)
qed

lemma serve_refused_db:
  assumes "case snd (auth_user (wv_now wv) (wv_cfg wv) (ap_db st) (wr_jar rq)) of Inl _ \<Rightarrow> True | Inr u \<Rightarrow> (\<forall>f. r = Post f \<longrightarrow> refuses (post_handler wv u rq f))"
  shows "ap_db (fst (serve wv rq r st)) \<in> {ap_db st, fst (maybe_user (wv_now wv) (wv_cfg wv) (ap_db st) (wr_jar rq))}"
proof (cases r)
  case (Post f)
  obtain d x where a: "auth_user (wv_now wv) (wv_cfg wv) (ap_db st) (wr_jar rq) = (d, x)" by fastforce
  then have d: "d = fst (maybe_user (wv_now wv) (wv_cfg wv) (ap_db st) (wr_jar rq))" using auth_user_fst by (metis fst_conv)
  show ?thesis
  proof (cases x)
    case (Inr u)
    with a assms Post have "refuses (post_handler wv u rq f)" by simp
    from answer_refused[OF this, of "st\<lparr>ap_db := d\<rparr>"] a Inr Post d show ?thesis by auto
  qed (use a Post d in simp)
next
  case (Get p)
  then show ?thesis by (auto simp: auth_user_fst[symmetric] split: prod.split sum.split)
next
  case (Open p)
  then show ?thesis by (auto split: prod.split)
qed

lemma kept_serve:
  assumes "kept v base st" "\<And>u. snd (auth_user (wv_now wv) (wv_cfg wv) (ap_db st) (wr_jar rq)) = Inr u \<Longrightarrow> u_id u \<noteq> v \<and> \<not> u_is_admin u"
  shows "kept v base (fst (serve wv rq r st))"
proof (cases "\<exists>u. snd (auth_user (wv_now wv) (wv_cfg wv) (ap_db st) (wr_jar rq)) = Inr u \<and> (\<forall>f. r = Post f \<longrightarrow> \<not> admin_form f)")
  case True
  then obtain u where u: "snd (auth_user (wv_now wv) (wv_cfg wv) (ap_db st) (wr_jar rq)) = Inr u" "\<And>f. r = Post f \<Longrightarrow> \<not> admin_form f" by blast
  from assms(1) have "web_isolated (u_id u) (web_others (u_id u) st) st" by (simp add: web_isolated_def kept_def)
  from serve_isolated[OF this u] have "web_isolated (u_id u) (web_others (u_id u) st) (fst (serve wv rq r st))" .
  with assms(1) owned_web_others[of "u_id u" v] assms(2)[OF u(1)] show ?thesis unfolding web_isolated_def kept_def by metis
next
  case False
  have "case snd (auth_user (wv_now wv) (wv_cfg wv) (ap_db st) (wr_jar rq)) of Inl _ \<Rightarrow> True
    | Inr u \<Rightarrow> (\<forall>f. r = Post f \<longrightarrow> refuses (post_handler wv u rq f))"
    using False assms(2) by (auto intro: post_refused_admin split: sum.split)
  from serve_refused_db[OF this] show ?thesis using kept_auth[OF assms(1)] kept_same_db[OF assms(1)] by blast
qed

text \<open>A page request is a refusal of the framework, which has at most loaded the session, or a route served.\<close>

lemma refused_db:
  "ap_db (fst (refused_form wv out rq st)) = fst (maybe_user (wv_now wv) (wv_cfg wv) (ap_db st) (wr_jar rq))"
  "ap_db (fst (refused_query wv out rq st)) = fst (maybe_user (wv_now wv) (wv_cfg wv) (ap_db st) (wr_jar rq))"
  by (auto simp: refused_form_def refused_query_def auth_user_fst[symmetric] split: prod.split sum.split)
    (auto simp: auth_user_fst)

lemma run_endpoint_cases:
  assumes "run_endpoint wv refuse r e st = Some (st', out)"
  shows "ap_db st' = fst (maybe_user (wv_now wv) (wv_cfg wv) (ap_db st) (wr_jar (hr_web r))) \<or>
    (\<exists>q. st' = fst (serve wv (hr_web r) q st))"
proof (cases e)
  case (FormE form)
  with assms refused_db(1)[of wv _ "hr_web r" st] show ?thesis by (auto simp del: serve.simps split: option.splits) (metis fst_conv)+
next
  case (OpenE query)
  with assms refused_db(2)[of wv _ "hr_web r" st] show ?thesis by (auto simp del: serve.simps split: option.splits) (metis fst_conv)+
qed (use assms in \<open>auto simp del: serve.simps\<close>, metis fst_conv)

lemma kept_page:
  assumes "kept v base st" "page_request wv pct refuse r st = Some (st', out)"
    and "\<And>u. snd (auth_user (wv_now wv) (wv_cfg wv) (ap_db st) (wr_jar (hr_web r))) = Inr u \<Longrightarrow> u_id u \<noteq> v \<and> \<not> u_is_admin u"
  shows "kept v base st'"
  using assms(2)
proof (cases rule: page_request_cases)
  case (run h x i)
  from run_endpoint_cases[OF run(2)] show ?thesis using kept_auth[OF assms(1)] kept_serve[OF assms(1,3)] by blast
next
  case (refused o1)
  from refused_db(1)[of wv o1 "hr_web r" st] show ?thesis unfolding refused[symmetric] fst_conv by (rule kept_auth[OF assms(1)])
qed (use assms(1) in simp)

lemma kept_gate:
  assumes "kept v base st" "require_bearer cfg s th now (ap_db st) path headers = (d, g)"
  shows "kept v base (st\<lparr>ap_db := d\<rparr>)"
proof -
  have "d = ap_db st \<or> (\<exists>t. d = tokens_touch now (ap_db st) t)"
    using assms(2) by (auto simp: require_bearer_def Let_def split: option.splits if_splits prod.splits sum.splits)
  then show ?thesis
    using assms(1) by (auto simp: kept_def owned_touch) (simp_all add: tokens_touch_def ids_unique_def)
qed

lemma warm_all_db: "ap_db (fst (warm_all svs st)) = ap_db st"
proof -
  have "ap_db (fst (foldl (warm_one svs) acc us)) = ap_db (fst acc)" for acc us
    by (induction us arbitrary: acc) (auto simp: warm_one_def split: prod.split dest: backends_for_db)
  then show ?thesis by (simp add: warm_all_def)
qed

lemma exercise_all_db: "ap_db (fst (exercise_all sv st)) = ap_db st"
proof -
  have "ap_db (fst (exercise_users sv us acc)) = ap_db (fst acc)" for us acc
    by (induction sv us acc rule: exercise_users.induct) (auto split: option.split prod.split)
  from this[of "map fst (ap_pool st)" "(st, 0, 0, [])"] show ?thesis
    by (auto simp: exercise_all_def split: prod.split option.split)
qed

lemma hub_step_kept:
  assumes "kept v base st" "hub_step v st st'"
  shows "kept v base st'"
  using assms(2)
proof cases
  case (page wv pct refuse r out)
  then show ?thesis using kept_page[OF assms(1)] by blast
next
  case (gate_closed cfg s th now path headers d g)
  then show ?thesis using kept_gate[OF assms(1)] by simp
next
  case (mcp cfg s th now path headers d ep a bnd sv rq)
  have k: "kept v base (st\<lparr>ap_db := d\<rparr>)" using kept_gate[OF assms(1) mcp(2)] .
  with handle_unseen[of "\<lparr>rc_authed = Some a, rc_endpoint = Some ep\<rparr>" a "\<lparr>px_app = st\<lparr>ap_db := d\<rparr>, px_bound = bnd\<rparr>" sv rq] mcp(4,5)
  have "unseen (au_user_id a) (ap_db (st\<lparr>ap_db := d\<rparr>)) (ap_db st')" unfolding mcp(1) by (simp add: kept_def)
  with kept_unseen[OF k mcp(3)] show ?thesis by blast
next
  case (sweep now)
  then show ?thesis using assms(1)
    by (auto simp: kept_def session_sweep_def delete_expired_def Let_def owned_sessions ids_unique_def tbl_simps)
next
  case (reap cfg now)
  then show ?thesis using kept_same_db[OF assms(1)] by (simp add: backend_reaper_def Let_def)
next
  case (warm cfg svs sv now deep)
  then show ?thesis using kept_same_db[OF assms(1)] by (simp add: warmer_tick_def Let_def warm_all_db exercise_all_db)
qed

interpretation hub: invariant_system "kept v base" "hub_step v" "kept v base"
  for v base
  by unfold_locales (blast intro: hub_step_kept)+



end
