(* ===== verification/Spec2Isabelle.thy ===== *)
theory Spec2Isabelle
  imports Hub_Prelude Hub_Util Hub_Schema Hub_Crypto Hub_Users Hub_Invites Hub_Tokens Hub_Groups
    Hub_Instances Hub_Env Hub_Status Hub_Pool Hub_Pool_Safety Hub_Pool_Binds
    Hub_Config Hub_Session Hub_OAuth_Store Hub_OAuth_Keys Hub_OAuth_Flow Hub_OAuth_Safety Hub_Endpoint
    Hub_Webauthn Hub_Webauthn_Safety Hub_Metrics Hub_Files Hub_Backend Hub_Gitcreds Hub_Gitsrc Hub_App
    Hub_Management Hub_Isolation Hub_Management_Safety Hub_Server Hub_Server_Safety Hub_Lockout
    Hub_Html Hub_Web_Pages Hub_Web Hub_Web_Safety Hub_Web_Agreement
    Hub_Migration Hub_Startup Hub_Background Hub_OAuth_Pages Hub_Router Hub_System
begin

text \<open>
  A verification development for MCP Hub, a multi-user proxy that aggregates Model Context Protocol
  servers. File names are those of the Rust sources under \<^verbatim>\<open>src/src/\<close>.

  \<^bold>\<open>The program.\<close> Every user signs in with a passkey (\<^verbatim>\<open>auth/\<close>), configures servers (\<^verbatim>\<open>instances.rs\<close>), which
  are local processes in a Unix sandbox (\<^verbatim>\<open>sandbox.rs\<close>), programs built from a git repository
  (\<^verbatim>\<open>gitsrc.rs\<close>) or remote endpoints, and collects them in groups (\<^verbatim>\<open>groups.rs\<close>). A client program
  obtains a token from the OAuth endpoints (\<^verbatim>\<open>oauth/\<close>) or is given a personal access token
  (\<^verbatim>\<open>tokens.rs\<close>); the gate of \<^verbatim>\<open>proxy/mod.rs\<close> lets its requests through to \<^verbatim>\<open>proxy/server.rs\<close>, which runs
  the management tools (\<^verbatim>\<open>proxy/management.rs\<close>) or spreads the request over the live backends of the
  group, kept by \<^verbatim>\<open>proxy/pool.rs\<close>. The web pages (\<^verbatim>\<open>web.rs\<close>) do the same for people. \<^verbatim>\<open>main.rs\<close> and \<^verbatim>\<open>lib.rs\<close>
  start the process, route requests and run three background tasks. Everything durable is in one
  SQLite database.

  \<^bold>\<open>How code becomes definitions.\<close> A table is a list of rows, the database the record \<open>db\<close>; a
  statement is a function on it that checks the constraints of the schema. Fallible functions give
  \<open>'a res\<close>, a sum with the message on the left. Handlers with state are functions
  \<open>app_state \<Rightarrow> app_state \<times> (exit + value)\<close> composed with \<open>m_bind\<close>. Machine integers that may wrap
  (Unix ids, byte differences, timeouts read from text) are words; times and counters that cannot
  are \<open>int\<close> or \<open>nat\<close>. Hash maps are association lists. Third-party code is an argument: SHA-256,
  base64, the AEAD cipher (record \<open>secret_box\<close> with the law \<open>cipher_law\<close>), JWT signing (record \<open>signer\<close>), the
  webauthn library, URL parsing, the shell tokeniser, name resolution, git, uv and go, the MCP client
  library (record \<open>peer\<close>), randomness and the clock. Locales state the interfaces that several
  components share (\<open>one_time_store\<close>, \<open>capped_store\<close>, \<open>owner_scoped\<close>, \<open>invariant_system\<close>, \<open>wire_names\<close>), and
  each is interpreted on the definitions of the components that provide it.

  \<^bold>\<open>Theories and what they show.\<close>

  \<^item> \<open>Hub_Prelude\<close>, \<open>Hub_Util\<close>, \<open>Hub_Schema\<close>: Rust text functions, SQL statements over row lists, the
    shared locales; \<^verbatim>\<open>util.rs\<close>; all tables with their keys and cascading deletes, which keep the
    database well formed.
  \<^item> \<open>Hub_Crypto\<close>, \<open>Hub_Users\<close>, \<open>Hub_Invites\<close>, \<open>Hub_Tokens\<close>, \<open>Hub_Groups\<close>: the stores of \<^verbatim>\<open>crypto.rs\<close>, \<^verbatim>\<open>users.rs\<close>,
    \<^verbatim>\<open>invites.rs\<close>, \<^verbatim>\<open>tokens.rs\<close>, \<^verbatim>\<open>groups.rs\<close>, \<^verbatim>\<open>access.rs\<close>: exact comparison in constant time, one first
    administrator, distinct Unix identities, codes honoured once, token lifetimes.
  \<^item> \<open>Hub_Instances\<close>, \<open>Hub_Env\<close>, \<open>Hub_Migration\<close>: \<^verbatim>\<open>instances.rs\<close>: servers, sealed environments as a
    refinement of a map, the formats users type and their round trips, and the conversion of servers
    of the retired catalog without a change of what they are launched with.
  \<^item> \<open>Hub_Config\<close>, \<open>Hub_Session\<close>, \<open>Hub_Webauthn\<close>, \<open>Hub_Webauthn_Safety\<close>: \<^verbatim>\<open>config.rs\<close> and \<^verbatim>\<open>auth/\<close>: bounds of a
    configuration that loads, session lifetimes, and the ceremonies as a step relation whose
    invariant is the invite-only policy.
  \<^item> \<open>Hub_OAuth_Store\<close>, \<open>Hub_OAuth_Keys\<close>, \<open>Hub_OAuth_Flow\<close>, \<open>Hub_OAuth_Pages\<close>, \<open>Hub_OAuth_Safety\<close>: \<^verbatim>\<open>oauth/\<close>: code and
    refresh grants, single use, revocation of a token family on reuse, redirects, the consent page and
    the discovery documents.
  \<^item> \<open>Hub_Endpoint\<close>, \<open>Hub_Lockout\<close>: \<^verbatim>\<open>proxy/mod.rs\<close>: who passes the gate, and that a deactivated account
    has nothing left that passes it.
  \<^item> \<open>Hub_Status\<close>, \<open>Hub_Metrics\<close>: \<^verbatim>\<open>status.rs\<close>, \<^verbatim>\<open>stats.rs\<close>, \<^verbatim>\<open>metrics.rs\<close>.
  \<^item> \<open>Hub_Pool\<close>, \<open>Hub_Pool_Safety\<close>, \<open>Hub_Pool_Binds\<close>: \<^verbatim>\<open>proxy/pool.rs\<close>: the critical sections, their
    interleavings as the step relation \<open>pool_step\<close> with its invariant, and what one reconcile achieves.
  \<^item> \<open>Hub_Files\<close>, \<open>Hub_Backend\<close>, \<open>Hub_Gitcreds\<close>, \<open>Hub_Gitsrc\<close>: \<^verbatim>\<open>sandbox.rs\<close>, \<^verbatim>\<open>proxy/backend.rs\<close>, \<^verbatim>\<open>gitcreds.rs\<close>,
    \<^verbatim>\<open>gitsrc.rs\<close> over a model of a file system with owners, modes and failing operations: private
    files at launch, contained builds, names that survive the wire.
  \<^item> \<open>Hub_App\<close>, \<open>Hub_Management\<close>, \<open>Hub_Isolation\<close>, \<open>Hub_Management_Safety\<close>, \<open>Hub_Server\<close>, \<open>Hub_Server_Safety\<close>: the
    shared state of \<^verbatim>\<open>lib.rs\<close> with the audit log, every management tool and every MCP request:
    isolation of users and of groups, administrators not locked out, every request answered, listed
    tools callable.
  \<^item> \<open>Hub_Html\<close>, \<open>Hub_Web_Pages\<close>, \<open>Hub_Web\<close>, \<open>Hub_Web_Safety\<close>, \<open>Hub_Web_Agreement\<close>: \<^verbatim>\<open>web.rs\<close>: every page as
    template text and escaped values, every form handler: no injected markup, request tokens,
    administration closed to others, isolation, agreement with the management tools.
  \<^item> \<open>Hub_Startup\<close>, \<open>Hub_Background\<close>, \<open>Hub_Router\<close>, \<open>Hub_System\<close>: \<^verbatim>\<open>main.rs\<close> and \<^verbatim>\<open>lib.rs\<close>: a restart that changes
    nothing, the background tasks, the route table with the fields of every form, and the composition:
    the step relation \<open>hub_step\<close> interleaves page requests, MCP requests and background tasks, and what
    a user owns survives everything other users do.

  \<^bold>\<open>Bounds and termination.\<close> All recursions are structural or have a termination proof; no fuel is used.
  What may wait forever (a probe, a call to a backend) gives \<open>None\<close>, and the theorems on answers show
  that with the configured time limits \<open>None\<close> does not occur.

  \<^bold>\<open>Idealisations.\<close> Characters are U+0000 to U+00FF, with UTF-8 lengths where the code counts bytes;
  other characters of the page templates are written as HTML references, and in plain data they are
  shortened (an ellipsis is three full stops). Database statements without a constraint do not fail.
  Stored JSON of server definitions, plain settings and capabilities is kept as the value it encodes.
  Permits of a dropped backend come back in a later step. Cookie signatures are taken as verified by
  the cookie library. A handler runs as one step: interleavings inside a handler are modelled for the
  pool and for the passkey ceremonies, where the code splits its critical sections.

  \<^bold>\<open>Not modelled.\<close> Opening the database file and running its migrations (\<^verbatim>\<open>db.rs\<close>), listening and log
  set-up (\<^verbatim>\<open>main.rs\<close>), serving static files, and the session table and transport of the MCP service
  library behind \<^verbatim>\<open>proxy/mod.rs\<close> are calls into libraries. The constant answer \<open>get_info\<close> and the texts that
  describe tools to a client are data. Log lines other than audit events are left out, as are the
  audit events of the passkey and OAuth handlers. The tests beside the code are not modelled.
\<close>

end
